(* ===== verification/Prelude.thy ===== *)
theory Prelude
  imports Main "HOL-Library.Word"
begin

text \<open>
  Shared vocabulary of the development: the machine types of the C++ code, the byte
  strings it works on, checked reads from a buffer, and the generic lemmas on lists,
  options and words that the component theories use through the collections below.

  A C++ \<open>std::string\<close> is a sequence of bytes, which is what a HOL \<open>string\<close> is: a
  \<open>char\<close> stands for one byte, and text outside ASCII is written as its UTF-8 bytes.
\<close>

unbundle bit_operations_syntax

named_theorems codec_simps \<open>equations for encoders and decoders\<close>

type_synonym u8 = "8 word"
type_synonym u16 = "16 word"
type_synonym u32 = "32 word"
type_synonym u64 = "64 word"

section \<open>Bytes and characters\<close>

text \<open>\<open>byte_of c\<close> is \<open>(uint8_t)c\<close>, \<open>schar_of c\<close> is the value of a signed \<open>char\<close>.\<close>

definition byte_of :: "char \<Rightarrow> nat" where
  "byte_of c = of_char c"

definition schar_of :: "char \<Rightarrow> int" where
  "schar_of c = (let n = int (byte_of c) in if n < 128 then n else n - 256)"

lemma byte_of_less [simp]: "byte_of c < 256"
  by (simp add: byte_of_def)

lemma schar_of_mod: "nat (schar_of c mod 256) = byte_of c"
  using byte_of_less [of c] by (auto simp: schar_of_def Let_def mod_if)

section \<open>Generic lemmas\<close>

lemma all_less_upt_D: "list_all P [0..<n] \<Longrightarrow> k < n \<Longrightarrow> P k"
  by (auto simp: list_all_iff)

lemma less8_cases:
  "(n::nat) < 8 \<Longrightarrow> n = 0 \<or> n = 1 \<or> n = 2 \<or> n = 3 \<or> n = 4 \<or> n = 5 \<or> n = 6 \<or> n = 7"
  by auto

lemma u8_eqI:
  assumes "bit a 0 = bit b 0" "bit a 1 = bit b 1" "bit a 2 = bit b 2" "bit a 3 = bit b 3"
    "bit a 4 = bit b 4" "bit a 5 = bit b 5" "bit a 6 = bit b 6" "bit a 7 = bit b 7"
  shows "a = (b :: u8)"
proof (rule bit_word_eqI)
  fix n assume "n < LENGTH(8)"
  then have "n < 8" by simp
  from less8_cases [OF this] assms show "bit a n = bit b n" by (elim disjE) simp_all
qed

lemma bit_u8_ge: "8 \<le> n \<Longrightarrow> \<not> bit (b::u8) n"
  by (metis bit_imp_le_length len_num1 len_bit0 linorder_not_le mult_2 numeral_Bit0 numeral_One)

lemma int_63_mask: "(63::int) = mask 6"
  by (simp add: mask_eq_exp_minus_1)

lemma int_255_mask: "(255::int) = mask 8"
  by (simp add: mask_eq_exp_minus_1)

lemma bit_63_255: "bit (63::int) n \<longleftrightarrow> n < 6" "bit (255::int) n \<longleftrightarrow> n < 8"
  unfolding int_63_mask int_255_mask by (simp_all add: bit_mask_iff)

lemmas byte_bits = bit_simps bit_63_255 bit_u8_ge

section \<open>Exceptions as sums\<close>

text \<open>Sequencing of computations that may throw: the left side is the exception.\<close>

definition bindS :: "'e + 'a \<Rightarrow> ('a \<Rightarrow> 'e + 'b) \<Rightarrow> 'e + 'b" where
  "bindS m k = (case m of Inl e \<Rightarrow> Inl e | Inr x \<Rightarrow> k x)"

lemma bindS_simps [simp]: "bindS (Inl e) k = Inl e" "bindS (Inr x) k = k x"
  by (simp_all add: bindS_def)

lemma bindS_eq_Inl: "bindS m k = Inl e \<longleftrightarrow> m = Inl e \<or> (\<exists>x. m = Inr x \<and> k x = Inl e)"
  by (cases m) auto

lemma bindS_eq_Inr: "bindS m k = Inr y \<longleftrightarrow> (\<exists>x. m = Inr x \<and> k x = Inr y)"
  by (cases m) auto

section \<open>The codec interface\<close>

text \<open>
  Several parts of the program write a value as text in one place and read it back in
  another: Base64 images, snowflakes in JSON, timestamps, the custom ids of buttons and
  modals. What a reader of such a pair relies on is one law: reading back a written
  value that is in the writer's range succeeds and returns it.
\<close>

locale codec =
  fixes enc :: "'a \<Rightarrow> 'c"
    and dec :: "'c \<Rightarrow> 'e + 'a"
    and in_range :: "'a \<Rightarrow> bool"
  assumes dec_enc: "in_range x \<Longrightarrow> dec (enc x) = Inr x"
begin

lemma enc_inject: "in_range x \<Longrightarrow> in_range y \<Longrightarrow> enc x = enc y \<longleftrightarrow> x = y"
  by (metis dec_enc sum.inject(2))

lemma dec_total: "in_range x \<Longrightarrow> \<exists>y. dec (enc x) = Inr y"
  by (simp add: dec_enc)

lemma dec_unique: "in_range x \<Longrightarrow> dec (enc x) = Inr y \<Longrightarrow> y = x"
  by (simp add: dec_enc)

end

section \<open>The ledger interface\<close>

text \<open>
  A queue in front of a connection takes in items at any time and handles them one by one: the
  requests of the HTTP connection and the messages of a gateway session. Its contract is that
  what has been handled and what still waits are together, in order, what was taken in.
\<close>

locale ledger =
  fixes step :: "'e \<Rightarrow> 's \<Rightarrow> 's"
    and entries :: "'s \<Rightarrow> 'm list"
    and taken :: "'e \<Rightarrow> 's \<Rightarrow> 'm list"
  assumes entries_step: "entries (step e s) = entries s @ taken e s"
begin

fun all_taken :: "'e list \<Rightarrow> 's \<Rightarrow> 'm list" where
  "all_taken [] s = []"
| "all_taken (e # es) s = taken e s @ all_taken es (step e s)"

lemma entries_fold: "entries (fold step es s) = entries s @ all_taken es s"
  by (induction es arbitrary: s) (simp_all add: entries_step)

lemma prefix_kept: "\<exists>new. entries (fold step es s) = entries s @ new"
  by (metis entries_fold)

end

end
