(* ===== verification/Base64.thy ===== *)
theory Base64
  imports Prelude
begin

text \<open>
  Discord/Utils/Base64.cpp: \<open>Base64Encode\<close> and \<open>Base64Decode\<close> with their lookup tables.
  Bytes are promoted to \<open>int\<close> before they are shifted, so the indices are computed on
  HOL integers. The decoder's \<open>throw std::exception()\<close> is the left side of a sum.
\<close>

section \<open>Encoding\<close>

definition b64chars :: string where
  "b64chars = ''ABCDEFGHIJKLMNOPQRSTUVWXYZabcdefghijklmnopqrstuvwxyz0123456789+/''"

definition b64char :: "int \<Rightarrow> char" where
  "b64char k = b64chars ! nat k"

text \<open>The size of the result: the input size rounded up to a multiple of 3, times 8/6.\<close>

definition b64_size :: "nat \<Rightarrow> nat" where
  "b64_size num =
     (let r = num mod 3;
          size = (if r \<noteq> 0 then num + (3 - r) else num)
      in size * 8 div 6)"

text \<open>The characters that the loop and the final branch write, in order.\<close>

fun b64_written :: "u8 list \<Rightarrow> string" where
  "b64_written (a # b # c # p) =
     b64char (drop_bit 2 (uint a)) #
     b64char (63 AND (push_bit 4 (uint a) OR drop_bit 4 (uint b))) #
     b64char (63 AND (push_bit 2 (uint b) OR drop_bit 6 (uint c))) #
     b64char (63 AND uint c) # b64_written p"
| "b64_written [a, b] =
     [b64char (drop_bit 2 (uint a)),
      b64char (63 AND (push_bit 4 (uint a) OR drop_bit 4 (uint b))),
      b64char (63 AND push_bit 2 (uint b))]"
| "b64_written [a] =
     [b64char (drop_bit 2 (uint a)),
      b64char (63 AND push_bit 4 (uint a))]"
| "b64_written [] = []"

text \<open>The result string starts as padding of the computed size and is then overwritten.\<close>

definition Base64Encode :: "u8 list \<Rightarrow> string" where
  "Base64Encode data =
     (let s = b64_written data
      in s @ drop (length s) (replicate (b64_size (length data)) (CHR ''='')))"

section \<open>Decoding\<close>

definition b64values :: "int list" where
  "b64values = [
   -1, -1, -1, -1, -1, -1, -1, -1, -1, -1, -1, -1, -1, -1, -1, -1,
   -1, -1, -1, -1, -1, -1, -1, -1, -1, -1, -1, -1, -1, -1, -1, -1,
   -1, -1, -1, -1, -1, -1, -1, -1, -1, -1, -1, 62, -1, -1, -1, 63,
   52, 53, 54, 55, 56, 57, 58, 59, 60, 61, -1, -1, -1, -1, -1, -1,
   -1, 0, 1, 2, 3, 4, 5, 6, 7, 8, 9, 10, 11, 12, 13, 14,
   15, 16, 17, 18, 19, 20, 21, 22, 23, 24, 25, -1, -1, -1, -1, -1,
   -1, 26, 27, 28, 29, 30, 31, 32, 33, 34, 35, 36, 37, 38, 39, 40,
   41, 42, 43, 44, 45, 46, 47, 48, 49, 50, 51, -1, -1, -1, -1, -1,
   -1, -1, -1, -1, -1, -1, -1, -1, -1, -1, -1, -1, -1, -1, -1, -1,
   -1, -1, -1, -1, -1, -1, -1, -1, -1, -1, -1, -1, -1, -1, -1, -1,
   -1, -1, -1, -1, -1, -1, -1, -1, -1, -1, -1, -1, -1, -1, -1, -1,
   -1, -1, -1, -1, -1, -1, -1, -1, -1, -1, -1, -1, -1, -1, -1, -1,
   -1, -1, -1, -1, -1, -1, -1, -1, -1, -1, -1, -1, -1, -1, -1, -1,
   -1, -1, -1, -1, -1, -1, -1, -1, -1, -1, -1, -1, -1, -1, -1, -1,
   -1, -1, -1, -1, -1, -1, -1, -1, -1, -1, -1, -1, -1, -1, -1, -1,
   -1, -1, -1, -1, -1, -1, -1, -1, -1, -1, -1, -1, -1, -1, -1, -1]"

definition b64value :: "char \<Rightarrow> int" where
  "b64value c = b64values ! byte_of c"

datatype b64_error = B64_exception

text \<open>
  The final two to four characters: \<open>a\<close> and \<open>b\<close> are table values, \<open>c\<close> and \<open>d\<close> the
  raw signed characters, or the padding character when they are missing.
\<close>

definition b64_final :: "u8 list \<Rightarrow> int \<Rightarrow> int \<Rightarrow> int \<Rightarrow> int \<Rightarrow> b64_error + u8 list" where
  "b64_final res a b c d =
     (let res1 = res @ [word_of_int (push_bit 2 a OR drop_bit 4 b)] in
      if c AND d = 61 then (if a OR b < 0 then Inl B64_exception else Inr res1)
      else
        let c' = b64values ! nat (c mod 256);
            res2 = res1 @ [word_of_int (255 AND (push_bit 4 b OR drop_bit 2 c'))] in
        if d = 61 then (if a OR b OR c' < 0 then Inl B64_exception else Inr res2)
        else
          let d' = b64values ! nat (d mod 256);
              res3 = res2 @ [word_of_int (255 AND (push_bit 6 c' OR d'))] in
          if a OR b OR c' OR d' < 0 then Inl B64_exception else Inr res3)"

text \<open>
  The loop runs while more than four characters remain; it starts from a non-empty
  string, so the case of no characters is not reached from \<open>Base64Decode\<close>.
\<close>

fun b64_loop :: "u8 list \<Rightarrow> string \<Rightarrow> b64_error + u8 list" where
  "b64_loop res (w # x # y # z # v # s) =
     (let a = b64value w; b = b64value x; c = b64value y; d = b64value z in
      if a OR b OR c OR d < 0 then Inl B64_exception
      else
        let n = push_bit 18 a OR push_bit 12 b OR push_bit 6 c OR d in
        b64_loop (res @ [word_of_int (drop_bit 16 n),
                         word_of_int (255 AND drop_bit 8 n),
                         word_of_int (255 AND n)]) (v # s))"
| "b64_loop res [w, x, y, z] = b64_final res (b64value w) (b64value x) (schar_of y) (schar_of z)"
| "b64_loop res [w, x, y] = b64_final res (b64value w) (b64value x) (schar_of y) 61"
| "b64_loop res [w, x] = b64_final res (b64value w) (b64value x) 61 61"
| "b64_loop res [w] = Inl B64_exception"
| "b64_loop res [] = Inr res"

definition Base64Decode :: "string \<Rightarrow> b64_error + u8 list" where
  "Base64Decode str = (if str = [] then Inr [] else b64_loop [] str)"


section \<open>The tables are inverse, and no alphabet character looks like padding\<close>

lemma b64_table_inverse: "map b64value b64chars = map int [0..<64]"
  by (simp add: b64value_def b64values_def b64chars_def byte_of_def upt_rec)

lemma b64_alphabet_not_pad: "list_all (\<lambda>c. schar_of c AND 61 \<noteq> 61) b64chars"
  by (simp add: b64chars_def schar_of_def byte_of_def Let_def)

lemma length_b64chars: "length b64chars = 64"
  by (simp add: b64chars_def)

lemma b64value_char:
  assumes "0 \<le> k" "k < 64"
  shows "b64value (b64char k) = k"
proof -
  have "map b64value b64chars ! nat k = map int [0..<64] ! nat k"
    by (simp add: b64_table_inverse)
  with assms show ?thesis by (simp add: b64char_def length_b64chars nth_map)
qed

lemma b64char_not_pad:
  assumes "0 \<le> k" "k < 64"
  shows "schar_of (b64char k) AND d \<noteq> 61"
proof
  assume eq: "schar_of (b64char k) AND d = 61"
  have "b64char k \<in> set b64chars" using assms by (simp add: b64char_def length_b64chars)
  with b64_alphabet_not_pad have "schar_of (b64char k) AND 61 \<noteq> 61" by (simp add: list_all_iff)
  moreover have "schar_of (b64char k) AND 61 = (schar_of (b64char k) AND schar_of (b64char k)) AND d"
    by (metis eq and.assoc)
  ultimately show False by (simp add: eq)
qed

lemma b64char_neq_pad: "0 \<le> k \<Longrightarrow> k < 64 \<Longrightarrow> schar_of (b64char k) \<noteq> 61"
  using b64char_not_pad [of k "schar_of (b64char k)"] by auto

lemma b64_index_range [simp]:
  "0 \<le> drop_bit 2 (uint (a::u8))" "drop_bit 2 (uint (a::u8)) < 64"
  "0 \<le> 63 AND (x::int)" "63 AND x < (64::int)"
proof -
  have "0 \<le> uint a" "uint a < 256" using uint_bounded [of a] by simp_all
  then show "0 \<le> drop_bit 2 (uint a)" "drop_bit 2 (uint a) < 64"
    by (simp_all add: drop_bit_eq_div pos_imp_zdiv_nonneg_iff)
  show "0 \<le> 63 AND x" "63 AND x < 64"
    by (simp_all add: int_63_mask and.commute [of "mask 6"] take_bit_eq_mask [symmetric]
        take_bit_int_less_exp [of 6, simplified])
qed

lemma b64_index_or [simp]: "\<not> (a OR b < 0)" if "0 \<le> a" "0 \<le> b" for a b :: int
  using that by (simp add: not_less or_nonnegative_int_iff)

lemmas b64_chars = b64value_char b64char_not_pad b64char_neq_pad

section \<open>Round trip\<close>

fun b64_pad :: "u8 list \<Rightarrow> string" where
  "b64_pad (a # b # c # p) = b64_pad p"
| "b64_pad [a, b] = ''=''"
| "b64_pad [a] = ''==''"
| "b64_pad [] = ''''"

lemma b64_written_Cons: "p \<noteq> [] \<Longrightarrow> \<exists>v s. b64_written p = v # s"
  by (cases p rule: b64_written.cases) auto

lemma b64_size_step: "b64_size (Suc (Suc (Suc n))) = b64_size n + 4"
proof -
  have "Suc (Suc (Suc n)) mod 3 = n mod 3" by presburger
  then show ?thesis by (auto simp: b64_size_def Let_def)
qed

lemma length_b64_written: "length (b64_written p) + length (b64_pad p) = b64_size (length p)"
  by (induction p rule: b64_written.induct) (simp_all add: b64_size_step, simp_all add: b64_size_def)

lemma b64_pad_replicate: "b64_pad p = replicate (length (b64_pad p)) (CHR ''='')"
  by (induction p rule: b64_pad.induct) (auto simp: numeral_eq_Suc)

lemma Base64Encode_pad: "Base64Encode p = b64_written p @ b64_pad p"
proof -
  have "b64_size (length p) - length (b64_written p) = length (b64_pad p)"
    using length_b64_written [of p] by simp
  then show ?thesis
    by (simp add: Base64Encode_def Let_def) (metis b64_pad_replicate)
qed

lemma b64_final_char: "b64_final r a b (schar_of y) (schar_of z) = (
     let res1 = r @ [word_of_int (push_bit 2 a OR drop_bit 4 b)] in
      if schar_of y AND schar_of z = 61 then (if a OR b < 0 then Inl B64_exception else Inr res1)
      else
        let c' = b64value y; res2 = res1 @ [word_of_int (255 AND (push_bit 4 b OR drop_bit 2 c'))] in
        if schar_of z = 61 then (if a OR b OR c' < 0 then Inl B64_exception else Inr res2)
        else
          let d' = b64value z; res3 = res2 @ [word_of_int (255 AND (push_bit 6 c' OR d'))] in
          if a OR b OR c' OR d' < 0 then Inl B64_exception else Inr res3)"
  by (simp add: b64_final_def schar_of_mod b64value_def Let_def)

lemma schar_pad: "schar_of (CHR ''='') = 61"
  by (simp add: schar_of_def byte_of_def)

lemma b64_loop_written:
  "p \<noteq> [] \<Longrightarrow> t = b64_pad p \<or> t = [] \<Longrightarrow> b64_loop r (b64_written p @ t) = Inr (r @ p)"
proof (induction p arbitrary: r rule: b64_written.induct)
  case (1 a b c p)
  show ?case
  proof (cases "p = []")
    case True
    with "1.prems" show ?thesis
      by (auto simp: b64_final_char b64_chars Let_def) (rule u8_eqI; simp add: byte_bits)+
  next
    case False
    then obtain v s where vs: "b64_written p = v # s" using b64_written_Cons by blast
    from "1.IH" [OF False] "1.prems" have "b64_loop r' (v # s @ t) = Inr (r' @ p)" for r'
      by (auto simp: vs)
    then show ?thesis
      by (simp add: vs b64_chars Let_def) (intro conjI; rule u8_eqI; simp add: byte_bits)
  qed
next
  case (2 a b)
  then show ?case
    by (auto simp: b64_final_char b64_final_char [of _ _ _ _ "CHR ''=''", simplified schar_pad]
        schar_pad b64_chars Let_def) (rule u8_eqI; simp add: byte_bits)+
next
  case (3 a)
  then show ?case
    by (auto simp: b64_final_def schar_pad b64_chars Let_def) (rule u8_eqI; simp add: byte_bits)+
qed simp

interpretation b64: codec Base64Encode Base64Decode "\<lambda>_. True"
proof
  fix p :: "u8 list"
  show "Base64Decode (Base64Encode p) = Inr p"
  proof (cases "p = []")
    case True
    then show ?thesis by (simp add: Base64Encode_pad Base64Decode_def)
  next
    case False
    then show ?thesis
      using b64_loop_written [of p "b64_pad p" "[]"] b64_written_Cons [of p]
      by (auto simp: Base64Encode_pad Base64Decode_def)
  qed
qed

section \<open>Properties\<close>

lemma b64_pad_set: "set (b64_pad p) \<subseteq> {CHR ''=''}"
  by (induction p rule: b64_pad.induct) auto

lemma b64char_neq: "0 \<le> k \<Longrightarrow> k < 64 \<Longrightarrow> b64char k \<noteq> CHR ''=''"
  using b64char_neq_pad [of k] by (auto simp: schar_pad)

lemma b64_written_no_pad: "CHR ''='' \<notin> set (b64_written p)"
  by (induction p rule: b64_written.induct) (auto simp: b64char_neq [THEN not_sym])

lemma takeWhile_Base64Encode: "takeWhile (\<lambda>c. c \<noteq> CHR ''='') (Base64Encode p) = b64_written p"
  using b64_pad_set [of p] b64_written_no_pad [of p]
  by (cases "b64_pad p") (auto simp: Base64Encode_pad takeWhile_append)

text \<open>C27: encoding then decoding returns the original bytes, for every byte string.\<close>

theorem base64_roundtrip: "Base64Decode (Base64Encode p) = Inr p"
  by (rule b64.dec_enc) simp

text \<open>The decoder supplies missing padding: an encoding with its padding stripped still
  decodes to the original bytes.\<close>

theorem base64_decode_unpadded:
  "Base64Decode (takeWhile (\<lambda>c. c \<noteq> CHR ''='') (Base64Encode p)) = Inr p"
proof (cases "p = []")
  case True
  then show ?thesis by (simp add: takeWhile_Base64Encode Base64Decode_def)
next
  case False
  then show ?thesis
    using b64_loop_written [of p "[]" "[]"] b64_written_Cons [of p]
    by (auto simp: takeWhile_Base64Encode Base64Decode_def)
qed

lemma Base64Encode_length: "length (Base64Encode p) = b64_size (length p)"
  by (simp add: Base64Encode_pad length_b64_written)

lemma b64_loop_rejects:
  "c \<in> set (butlast (butlast s)) \<Longrightarrow> b64value c < 0 \<Longrightarrow> b64_loop r s = Inl B64_exception"
  by (induction r s rule: b64_loop.induct)
    (auto simp: b64_final_char b64_final_def Let_def not_less or_nonnegative_int_iff split: if_splits)

text \<open>A character outside the alphabet, anywhere but in the last two positions (where it
  may be padding), makes the decoder throw.\<close>

theorem base64_rejects:
  assumes "c \<in> set (butlast (butlast s))" and "b64value c < 0"
  shows "Base64Decode s = Inl B64_exception"
  using assms b64_loop_rejects by (auto simp: Base64Decode_def)

theorem base64_rejects_witness:
  "CHR ''!'' \<in> set (butlast (butlast ''AB!DEF'')) \<and> Base64Decode ''AB!DEF'' = Inl B64_exception"
proof -
  have m: "CHR ''!'' \<in> set (butlast (butlast ''AB!DEF''))" by simp
  have v: "b64value (CHR ''!'') < 0" by (simp add: b64value_def b64values_def byte_of_def)
  from m base64_rejects [OF m v] show ?thesis by simp
qed

text \<open>
  The test for padding is \<open>(c & d) == '='\<close>, which also holds when the two last
  characters merely have every bit of the padding character in common: such a pair is
  taken for two padding characters and the string is accepted as if it were padded.
\<close>

theorem base64_false_padding:
  assumes "schar_of y AND schar_of z = 61"
  shows "Base64Decode [w, x, y, z] = Base64Decode [w, x, CHR ''='', CHR ''='']"
  using assms by (simp add: Base64Decode_def b64_final_def schar_pad Let_def)

theorem base64_false_padding_witness:
  "CHR ''?'' \<noteq> CHR ''='' \<and> Base64Decode ''QQ}?'' = Base64Decode ''QQ==''"
proof -
  have "schar_of (CHR ''}'') AND schar_of (CHR ''?'') = 61"
    by (simp add: schar_of_def byte_of_def)
  from base64_false_padding [OF this] show ?thesis by simp
qed

end
