(* ===== verification/Text.thy ===== *)
theory Text
  imports Prelude
begin

text \<open>
  Text conversions of Discord/Utils.h: decimal integers as \<open>std::from_chars\<close>,
  \<open>std::to_chars\<close> and \<open>std::format\<close> read and write them, \<open>cUtils::ParseInt\<close> on top of
  them, and percent encoding (\<open>PercentEncode\<close>, \<open>PercentEncodeTo\<close>).
\<close>

section \<open>Decimal digits\<close>

definition is_digit :: "char \<Rightarrow> bool" where
  "is_digit c \<longleftrightarrow> 48 \<le> byte_of c \<and> byte_of c \<le> 57"

definition digit_val :: "char \<Rightarrow> nat" where
  "digit_val c = byte_of c - 48"

definition digit_char :: "nat \<Rightarrow> char" where
  "digit_char d = char_of (48 + d)"

fun dec_value :: "nat \<Rightarrow> string \<Rightarrow> nat" where
  "dec_value n [] = n"
| "dec_value n (c # cs) = dec_value (10 * n + digit_val c) cs"

text \<open>\<open>std::to_chars\<close> and \<open>{}\<close> of an unsigned integer; \<open>{:0w}\<close> pads it with zeros.\<close>

fun to_dec :: "nat \<Rightarrow> string" where
  "to_dec n = (if n < 10 then [digit_char n] else to_dec (n div 10) @ [digit_char (n mod 10)])"

declare to_dec.simps [simp del]

definition to_dec_int :: "int \<Rightarrow> string" where
  "to_dec_int i = (if i < 0 then CHR ''-'' # to_dec (nat (- i)) else to_dec (nat i))"

definition pad0 :: "nat \<Rightarrow> string \<Rightarrow> string" where
  "pad0 w s = replicate (w - length s) (CHR ''0'') @ s"

section \<open>Reading integers\<close>

datatype errc = invalid_argument | result_out_of_range

text \<open>
  \<open>std::from_chars\<close> in base 10 for a type of range \<open>lo..hi\<close>: a minus sign is accepted
  for signed types only, there is no leading white space or plus sign, and the result is
  the value or the error together with the characters that follow the matched ones.
\<close>

definition from_chars :: "int \<Rightarrow> int \<Rightarrow> string \<Rightarrow> (errc + int) \<times> string" where
  "from_chars lo hi s =
     (let neg = (lo < 0 \<and> s \<noteq> [] \<and> hd s = CHR ''-'');
          body = (if neg then tl s else s);
          ds = takeWhile is_digit body;
          rest = dropWhile is_digit body;
          v = (if neg then - int (dec_value 0 ds) else int (dec_value 0 ds))
      in if ds = [] then (Inl invalid_argument, s)
         else if lo \<le> v \<and> v \<le> hi then (Inr v, rest)
         else (Inl result_out_of_range, rest))"

definition ParseInt :: "int \<Rightarrow> int \<Rightarrow> string \<Rightarrow> errc + int" where
  "ParseInt lo hi str =
     (case from_chars lo hi str of
        (Inr v, rest) \<Rightarrow> if rest = [] then Inr v else Inl invalid_argument
      | (Inl result_out_of_range, _) \<Rightarrow> Inl result_out_of_range
      | (Inl invalid_argument, _) \<Rightarrow> Inl invalid_argument)"

definition ParseInt_u16 :: "string \<Rightarrow> errc + int" where
  "ParseInt_u16 = ParseInt 0 65535"

definition ParseInt_i32 :: "string \<Rightarrow> errc + int" where
  "ParseInt_i32 = ParseInt (-2147483648) 2147483647"

definition ParseInt_i64 :: "string \<Rightarrow> errc + int" where
  "ParseInt_i64 = ParseInt (-9223372036854775808) 9223372036854775807"

definition ParseInt_u64 :: "string \<Rightarrow> errc + int" where
  "ParseInt_u64 = ParseInt 0 18446744073709551615"

section \<open>Percent encoding\<close>

definition unreserved_char :: "nat list" where
  "unreserved_char = [
   0, 0, 0, 0, 0, 0, 0, 0, 0, 0, 0, 0, 0, 0, 0, 0,
   0, 0, 0, 0, 0, 0, 0, 0, 0, 0, 0, 0, 0, 0, 0, 0,
   0, 0, 0, 0, 0, 0, 0, 0, 0, 0, 0, 0, 0, 1, 1, 0,
   1, 1, 1, 1, 1, 1, 1, 1, 1, 1, 0, 0, 0, 0, 0, 0,
   0, 1, 1, 1, 1, 1, 1, 1, 1, 1, 1, 1, 1, 1, 1, 1,
   1, 1, 1, 1, 1, 1, 1, 1, 1, 1, 1, 0, 0, 0, 0, 1,
   0, 1, 1, 1, 1, 1, 1, 1, 1, 1, 1, 1, 1, 1, 1, 1,
   1, 1, 1, 1, 1, 1, 1, 1, 1, 1, 1, 0, 0, 0, 1, 0,
   0, 0, 0, 0, 0, 0, 0, 0, 0, 0, 0, 0, 0, 0, 0, 0,
   0, 0, 0, 0, 0, 0, 0, 0, 0, 0, 0, 0, 0, 0, 0, 0,
   0, 0, 0, 0, 0, 0, 0, 0, 0, 0, 0, 0, 0, 0, 0, 0,
   0, 0, 0, 0, 0, 0, 0, 0, 0, 0, 0, 0, 0, 0, 0, 0,
   0, 0, 0, 0, 0, 0, 0, 0, 0, 0, 0, 0, 0, 0, 0, 0,
   0, 0, 0, 0, 0, 0, 0, 0, 0, 0, 0, 0, 0, 0, 0, 0,
   0, 0, 0, 0, 0, 0, 0, 0, 0, 0, 0, 0, 0, 0, 0, 0,
   0, 0, 0, 0, 0, 0, 0, 0, 0, 0, 0, 0, 0, 0, 0, 0]"

definition hex_char :: "nat \<Rightarrow> char" where
  "hex_char d = ''0123456789ABCDEF'' ! d"

fun PercentEncodeTo :: "string \<Rightarrow> string \<Rightarrow> string" where
  "PercentEncodeTo out [] = out"
| "PercentEncodeTo out (c # str) =
     (if unreserved_char ! byte_of c \<noteq> 0 then PercentEncodeTo (out @ [c]) str
      else PercentEncodeTo
        (out @ [CHR ''%'', hex_char (drop_bit 4 (byte_of c)), hex_char (byte_of c AND 15)]) str)"

text \<open>\<open>resize_and_overwrite\<close> writes into a buffer of three times the input's size.\<close>

definition percent_buffer :: "string \<Rightarrow> nat" where
  "percent_buffer str = length str * 3"

definition PercentEncode :: "string \<Rightarrow> string" where
  "PercentEncode str = PercentEncodeTo [] str"

section \<open>Digits round-trip\<close>

lemma digit_char_0: "digit_char 0 = CHR ''0''"
  by code_simp

lemma byte_of_digit_char [simp]: "d < 10 \<Longrightarrow> byte_of (digit_char d) = 48 + d"
  by (simp add: byte_of_def digit_char_def)

lemma is_digit_digit_char [simp]: "d < 10 \<Longrightarrow> is_digit (digit_char d)"
  by (simp add: is_digit_def)

lemma digit_val_digit_char [simp]: "d < 10 \<Longrightarrow> digit_val (digit_char d) = d"
  by (simp add: digit_val_def)

lemma dec_value_append: "dec_value n (xs @ ys) = dec_value (dec_value n xs) ys"
  by (induction xs arbitrary: n) auto

lemma dec_value_shift: "dec_value n xs = n * 10 ^ length xs + dec_value 0 xs"
proof (induction xs arbitrary: n)
  case (Cons c cs)
  show ?case using Cons.IH [of "10 * n + digit_val c"] Cons.IH [of "digit_val c"] by (simp add: algebra_simps)
qed simp

lemma digit_val_less: "is_digit c \<Longrightarrow> digit_val c < 10"
  by (auto simp: is_digit_def digit_val_def)

lemma dec_value_bound: "list_all is_digit xs \<Longrightarrow> dec_value 0 xs < 10 ^ length xs"
proof (induction xs)
  case (Cons c cs)
  have "digit_val c * 10 ^ length cs \<le> 9 * 10 ^ length cs"
    by (rule mult_right_mono) (use Cons.prems digit_val_less [of c] in simp_all)
  moreover have "dec_value 0 (c # cs) = digit_val c * 10 ^ length cs + dec_value 0 cs"
    using dec_value_shift [of "digit_val c" cs] by simp
  moreover have "dec_value 0 cs < 10 ^ length cs" using Cons by simp
  moreover have "(10 :: nat) ^ length (c # cs) = 10 * 10 ^ length cs" by simp
  ultimately show ?case by linarith
qed simp

lemma dec_value_take: "list_all is_digit s \<Longrightarrow> dec_value 0 (take k s) = dec_value 0 s div 10 ^ (length s - k)"
proof -
  assume "list_all is_digit s"
  then have "dec_value 0 (drop k s) < 10 ^ length (drop k s)"
    by (intro dec_value_bound) (auto simp: list_all_iff dest: in_set_dropD)
  moreover have "dec_value 0 s = dec_value 0 (take k s) * 10 ^ length (drop k s) + dec_value 0 (drop k s)"
    using dec_value_append [of 0 "take k s" "drop k s"] dec_value_shift [of "dec_value 0 (take k s)" "drop k s"] by simp
  ultimately show ?thesis by simp
qed

lemma to_dec_digits: "c \<in> set (to_dec n) \<Longrightarrow> is_digit c"
proof (induction n rule: to_dec.induct)
  case (1 n)
  then show ?case by (subst (asm) (2) to_dec.simps) (auto split: if_splits)
qed

lemma to_dec_nonempty [simp]: "to_dec n \<noteq> []"
  by (subst to_dec.simps) simp

lemma dec_value_to_dec [simp]: "dec_value 0 (to_dec n) = n"
proof (induction n rule: to_dec.induct)
  case (1 n)
  then show ?case by (subst to_dec.simps) (auto simp: dec_value_append)
qed

lemma length_to_dec: "n < 10 ^ k \<Longrightarrow> 0 < k \<Longrightarrow> length (to_dec n) \<le> k"
proof (induction n arbitrary: k rule: to_dec.induct)
  case (1 n)
  show ?case
  proof (cases "n < 10")
    case True
    with "1.prems" show ?thesis by (subst to_dec.simps) simp
  next
    case False
    with "1.prems" obtain k' where k': "k = Suc k'" "0 < k'" by (cases k; cases "k - 1") auto
    with "1.prems" have "n div 10 < 10 ^ k'" by (simp add: less_mult_imp_div_less mult.commute)
    from "1.IH" [OF False this k'(2)] False k' show ?thesis by (subst to_dec.simps) simp
  qed
qed

lemma takeWhile_to_dec [simp]: "rest = [] \<or> \<not> is_digit (hd rest) \<Longrightarrow> takeWhile is_digit (to_dec n @ rest) = to_dec n"
  by (cases rest) (auto simp: takeWhile_append2 to_dec_digits)

lemma dropWhile_to_dec [simp]: "rest = [] \<or> \<not> is_digit (hd rest) \<Longrightarrow> dropWhile is_digit (to_dec n @ rest) = rest"
  by (cases rest) (auto simp: dropWhile_append2 to_dec_digits)

lemma hd_to_dec: "is_digit (hd (to_dec n @ rest))"
  by (cases "to_dec n") (simp_all, metis list.set_intros(1) to_dec_digits)

lemma not_digit_minus: "\<not> is_digit (CHR ''-'')" by (simp add: is_digit_def byte_of_def)

lemma from_chars_to_dec:
  assumes "rest = [] \<or> \<not> is_digit (hd rest)" "int n \<le> hi" "lo \<le> int n"
  shows "from_chars lo hi (to_dec n @ rest) = (Inr (int n), rest)"
  using assms hd_to_dec [of n rest] not_digit_minus by (auto simp: from_chars_def Let_def)

lemma from_chars_to_dec_int:
  assumes "rest = [] \<or> \<not> is_digit (hd rest)" "i \<le> hi" "lo \<le> i"
  shows "from_chars lo hi (to_dec_int i @ rest) = (Inr i, rest)"
  using assms hd_to_dec [of "nat i" rest] not_digit_minus by (auto simp: from_chars_def Let_def to_dec_int_def)

lemma ParseInt_to_dec_int: "lo \<le> i \<Longrightarrow> i \<le> hi \<Longrightarrow> ParseInt lo hi (to_dec_int i) = Inr i"
  using from_chars_to_dec_int [of "[]" i hi lo] by (simp add: ParseInt_def)
lemma ParseInt_Inr:
  "ParseInt lo hi s = Inr v \<longleftrightarrow> (\<exists>ds. ds \<noteq> [] \<and> list_all is_digit ds \<and> lo \<le> v \<and> v \<le> hi \<and>
     (s = ds \<and> v = int (dec_value 0 ds) \<or> lo < 0 \<and> s = CHR ''-'' # ds \<and> v = - int (dec_value 0 ds)))"
  (is "?L \<longleftrightarrow> (\<exists>ds. ?R ds)")
proof
  assume ?L
  define neg where "neg \<longleftrightarrow> lo < 0 \<and> s \<noteq> [] \<and> hd s = CHR ''-''"
  define body where "body = (if neg then tl s else s)"
  from \<open>?L\<close> have d: "dropWhile is_digit body = []" "takeWhile is_digit body \<noteq> []"
    and v: "v = (if neg then - int (dec_value 0 (takeWhile is_digit body)) else int (dec_value 0 (takeWhile is_digit body)))"
      "lo \<le> v" "v \<le> hi"
    by (auto simp: ParseInt_def from_chars_def Let_def neg_def body_def
        split: if_splits errc.splits)
  from d have "list_all is_digit body" by (simp add: dropWhile_eq_Nil_conv list_all_iff)
  moreover from this have tw: "takeWhile is_digit body = body"
    by (simp add: takeWhile_eq_all_conv list_all_iff)
  note d = d [unfolded tw] and v = v [unfolded tw]
  ultimately have "?R body"
    using d v by (cases s) (auto simp: neg_def body_def)
  then show "\<exists>ds. ?R ds" ..
next
  assume "\<exists>ds. ?R ds"
  then show ?L
    using not_digit_minus by (cases s) (auto simp: ParseInt_def from_chars_def Let_def list_all_iff
        takeWhile_eq_all_conv [THEN iffD2] dropWhile_eq_Nil_conv [THEN iffD2])
qed

section \<open>Percent decoding, as a reference\<close>

definition hex_val :: "char \<Rightarrow> nat" where
  "hex_val c = (if byte_of c < 58 then byte_of c - 48 else byte_of c - 55)"

fun percent_decode :: "string \<Rightarrow> string" where
  "percent_decode (c # h # l # s) =
     (if c = CHR ''%'' then char_of (16 * hex_val h + hex_val l) # percent_decode s
      else c # percent_decode (h # l # s))"
| "percent_decode s = s"

lemma hex_val_hex_char: "d < 16 \<Longrightarrow> hex_val (hex_char d) = d"
proof -
  have "map (\<lambda>d. hex_val (hex_char d)) [0..<16] = [0..<16]"
    by (simp add: hex_val_def hex_char_def byte_of_def upt_rec)
  then show "d < 16 \<Longrightarrow> hex_val (hex_char d) = d"
    by (metis (no_types, lifting) add_0 diff_zero length_upt nth_map nth_upt)
qed

fun percent_char :: "char \<Rightarrow> string" where
  "percent_char c = (if unreserved_char ! byte_of c \<noteq> 0 then [c]
     else [CHR ''%'', hex_char (drop_bit 4 (byte_of c)), hex_char (byte_of c AND 15)])"

lemma PercentEncodeTo_concat: "PercentEncodeTo out str = out @ concat (map percent_char str)"
  by (induction out str rule: PercentEncodeTo.induct) auto

lemma percent_not_unreserved: "unreserved_char ! byte_of (CHR ''%'') = 0"
  by (simp add: unreserved_char_def byte_of_def)

lemma byte_and_15: "byte_of c AND 15 = byte_of c mod 16"
  using take_bit_eq_mask [of 4 "byte_of c"] by (simp add: take_bit_eq_mod mask_eq_exp_minus_1)

lemma byte_nibbles: "16 * drop_bit 4 (byte_of c) + (byte_of c AND 15) = byte_of c"
  by (simp add: drop_bit_eq_div byte_and_15)

lemma byte_nibble_bounds: "drop_bit 4 (byte_of c) < 16" "byte_of c AND 15 < 16"
  using byte_of_less [of c] by (simp_all add: drop_bit_eq_div byte_and_15 less_mult_imp_div_less)

lemma char_of_byte_of: "char_of (byte_of c) = c"
  by (simp add: byte_of_def)

lemma percent_decode_plain: "c \<noteq> CHR ''%'' \<Longrightarrow> percent_decode (c # s) = c # percent_decode s"
  by (cases s; cases "tl s") auto

lemma percent_decode_char: "percent_decode (percent_char c @ s) = c # percent_decode s"
proof (cases "unreserved_char ! byte_of c = 0")
  case True
  then show ?thesis
    using byte_nibbles [of c] char_of_byte_of [of c]
    by (simp add: hex_val_hex_char byte_nibble_bounds)
next
  case False
  then have "c \<noteq> CHR ''%''" using percent_not_unreserved by auto
  with False show ?thesis by (simp add: percent_decode_plain)
qed

lemma length_percent_char: "length (percent_char c) \<le> 3"
  by simp

section \<open>Properties\<close>

interpretation percent: codec PercentEncode "\<lambda>s. (Inr (percent_decode s) :: errc + string)" "\<lambda>_. True"
proof
  fix s
  show "(Inr (percent_decode (PercentEncode s)) :: errc + string) = Inr s"
    by (induction s) (simp_all add: PercentEncode_def PercentEncodeTo_concat percent_decode_char
        del: percent_char.simps)
qed

text \<open>
  Percent encoding loses nothing (a percent decoder returns the original bytes) and
  never writes more than the buffer of three bytes per input byte holds.
\<close>

theorem percent_encode_correct:
  "percent_decode (PercentEncode str) = str \<and> length (PercentEncode str) \<le> percent_buffer str"
proof
  show "percent_decode (PercentEncode str) = str"
    using percent.dec_enc [of str] by simp
  show "length (PercentEncode str) \<le> percent_buffer str"
  proof (induction str)
    case (Cons c str)
    then show ?case using length_percent_char [of c]
      by (simp add: PercentEncode_def PercentEncodeTo_concat percent_buffer_def del: percent_char.simps)
  qed (simp add: PercentEncode_def percent_buffer_def)
qed

text \<open>
  \<open>ParseInt\<close> accepts exactly the texts that are an optional minus sign (signed
  types only) followed by at least one digit, with a value in the range of the type,
  and returns that value.
\<close>

theorem ParseInt_accepts:
  "ParseInt lo hi s = Inr v \<longleftrightarrow> (\<exists>ds. ds \<noteq> [] \<and> list_all is_digit ds \<and> lo \<le> v \<and> v \<le> hi \<and>
     (s = ds \<and> v = int (dec_value 0 ds) \<or> lo < 0 \<and> s = CHR ''-'' # ds \<and> v = - int (dec_value 0 ds)))"
  by (rule ParseInt_Inr)

end
