(* ===== verification/Chrono.thy ===== *)
theory Chrono
  imports Prelude
begin

text \<open>
  What the program uses of \<open>std::chrono\<close>: the proleptic Gregorian calendar
  (\<open>year_month_day\<close>, its \<open>ok()\<close>, and the conversions to and from \<open>sys_days\<close>) and the
  rounding of durations. Time points are counted in integers from 1970-01-01.
\<close>

section \<open>The calendar\<close>

definition is_leap :: "int \<Rightarrow> bool" where
  "is_leap y \<longleftrightarrow> y mod 4 = 0 \<and> (y mod 100 \<noteq> 0 \<or> y mod 400 = 0)"

definition last_day :: "int \<Rightarrow> int \<Rightarrow> int" where
  "last_day y m =
     (if m = 2 then (if is_leap y then 29 else 28)
      else if m = 4 \<or> m = 6 \<or> m = 9 \<or> m = 11 then 30 else 31)"

definition ymd_ok :: "int \<Rightarrow> int \<Rightarrow> int \<Rightarrow> bool" where
  "ymd_ok y m d \<longleftrightarrow> -32767 \<le> y \<and> y \<le> 32767 \<and> 1 \<le> m \<and> m \<le> 12 \<and> 1 \<le> d \<and> d \<le> last_day y m"

text \<open>Days before the first of January of a year, counted from 0001-01-01.\<close>

definition days_before_year :: "int \<Rightarrow> int" where
  "days_before_year y = (let p = y - 1 in 365 * p + p div 4 - p div 100 + p div 400)"

definition days_before_month :: "bool \<Rightarrow> int \<Rightarrow> int" where
  "days_before_month leap m =
     [0, 31, 59, 90, 120, 151, 181, 212, 243, 273, 304, 334] ! nat (m - 1)
     + (if leap \<and> 2 < m then 1 else 0)"

definition epoch_days :: int where
  "epoch_days = 719162"

definition sys_days :: "int \<Rightarrow> int \<Rightarrow> int \<Rightarrow> int" where
  "sys_days y m d = days_before_year y + days_before_month (is_leap y) m + (d - 1) - epoch_days"

definition month_of_yday :: "bool \<Rightarrow> int \<Rightarrow> int" where
  "month_of_yday leap doy =
     int (length (filter (\<lambda>m. days_before_month leap m \<le> doy) [1, 2, 3, 4, 5, 6, 7, 8, 9, 10, 11, 12]))"

text \<open>The inverse: cycles of 400, 100, 4 and 1 years, the short cycles cut at three.\<close>

definition year_of_days :: "int \<Rightarrow> int" where
  "year_of_days z =
     (let r = z mod 146097;
          b = min (r div 36524) 3; r2 = r - 36524 * b;
          c = r2 div 1461; r3 = r2 mod 1461;
          d = min (r3 div 365) 3
      in 400 * (z div 146097) + 100 * b + 4 * c + d + 1)"

definition year_month_day :: "int \<Rightarrow> int \<times> int \<times> int" where
  "year_month_day days =
     (let z = days + epoch_days; y = year_of_days z; doy = z - days_before_year y;
          m = month_of_yday (is_leap y) doy
      in (y, m, doy - days_before_month (is_leap y) m + 1))"

section \<open>Durations\<close>

text \<open>
  Milliseconds per unit; \<open>months\<close> and \<open>years\<close> are the average Gregorian lengths that the
  standard library gives them. \<open>floor\<close> is the division of the integers, \<open>ceil\<close> rounds up.
\<close>

definition ms_second :: int where "ms_second = 1000"
definition ms_minute :: int where "ms_minute = 60000"
definition ms_hour :: int where "ms_hour = 3600000"
definition ms_day :: int where "ms_day = 86400000"
definition ms_week :: int where "ms_week = 604800000"
definition ms_month :: int where "ms_month = 2629746000"
definition ms_year :: int where "ms_year = 31556952000"

lemmas ms_units = ms_second_def ms_minute_def ms_hour_def ms_day_def ms_week_def ms_month_def ms_year_def

definition ceil_div :: "int \<Rightarrow> int \<Rightarrow> int" where
  "ceil_div a b = - ((- a) div b)"

lemma div_eqI: "a = b * q + r \<Longrightarrow> 0 \<le> r \<Longrightarrow> r < b \<Longrightarrow> a div b = q" for a b q r :: int
  by (rule int_div_pos_eq)

lemma ceil_div_le: "0 < b \<Longrightarrow> ceil_div a b \<le> k \<longleftrightarrow> a \<le> k * b"
proof -
  assume b: "0 < b"
  define q r where "q = (- a) div b" and "r = (- a) mod b"
  have a: "- a = q * b + r" "0 \<le> r" "r < b" using b by (simp_all add: q_def r_def)
  have "- k \<le> q \<longleftrightarrow> (- k) * b \<le> - a"
  proof
    assume "- k \<le> q"
    then have "(- k) * b \<le> q * b" using b by (simp add: mult_right_mono del: mult_minus_left)
    with a show "(- k) * b \<le> - a" by linarith
  next
    assume le: "(- k) * b \<le> - a"
    show "- k \<le> q"
    proof (rule ccontr)
      assume "\<not> - k \<le> q"
      then have "(q + 1) * b \<le> (- k) * b" using b by (intro mult_right_mono) simp_all
      moreover have "(q + 1) * b = q * b + b" by (simp add: algebra_simps)
      ultimately show False using a le by linarith
    qed
  qed
  then show ?thesis by (auto simp: ceil_div_def q_def)
qed

section \<open>The conversions are inverse\<close>

lemma div_step: "1 < k \<Longrightarrow> (y - 1) div k = y div k - (if y mod k = 0 then 1 else 0)" for y k :: int
proof -
  assume k: "1 < k"
  have y: "y = k * (y div k) + y mod k" "0 \<le> y mod k" "y mod k < k" using k by simp_all
  show ?thesis
  proof (cases "y mod k = 0")
    case True
    with y k have "y - 1 = k * (y div k - 1) + (k - 1)" by (simp add: algebra_simps)
    then show ?thesis using k True by (simp add: div_eqI [of _ _ _ "k - 1"])
  next
    case False
    have "y - 1 = k * (y div k) + (y mod k - 1)" using y by simp
    then have "(y - 1) div k = y div k" by (rule div_eqI) (use False y in linarith)+
    then show ?thesis using False by simp
  qed
qed

lemma mod_nested:
  "y mod 100 = 0 \<Longrightarrow> y mod 4 = 0" "y mod 400 = 0 \<Longrightarrow> y mod 100 = 0" for y :: int
  using mod_mod_cancel [of 4 100 y] mod_mod_cancel [of 100 400 y] by simp_all

lemma year_length: "days_before_year (y + 1) = days_before_year y + (if is_leap y then 366 else 365)"
proof -
  have steps: "(y - 1) div 4 = y div 4 - (if y mod 4 = 0 then 1 else 0)"
    "(y - 1) div 100 = y div 100 - (if y mod 100 = 0 then 1 else 0)"
    "(y - 1) div 400 = y div 400 - (if y mod 400 = 0 then 1 else 0)"
    by (simp_all only: div_step [of 4 y] div_step [of 100 y] div_step [of 400 y])
  have d1: "days_before_year (y + 1) = 365 * y + y div 4 - y div 100 + y div 400"
    by (simp add: days_before_year_def Let_def)
  have d0: "days_before_year y = 365 * (y - 1) + (y - 1) div 4 - (y - 1) div 100 + (y - 1) div 400"
    by (simp only: days_before_year_def Let_def)
  show ?thesis unfolding d0 d1 steps is_leap_def
    using mod_nested [of y] by (cases "y mod 4 = 0"; cases "y mod 100 = 0"; cases "y mod 400 = 0") simp_all
qed

lemma days_before_year_mono: "y \<le> y' \<Longrightarrow> days_before_year y \<le> days_before_year y'"
proof (induction "nat (y' - y)" arbitrary: y')
  case (Suc n)
  then have "days_before_year y \<le> days_before_year (y' - 1)" by simp
  with year_length [of "y' - 1"] show ?case by (simp split: if_splits)
qed simp

lemma year_unique:
  assumes "days_before_year y \<le> z" "z < days_before_year (y + 1)"
    and "days_before_year y' \<le> z" "z < days_before_year (y' + 1)"
  shows "y = y'"
proof (rule ccontr)
  assume "y \<noteq> y'"
  then consider "y + 1 \<le> y'" | "y' + 1 \<le> y" by linarith
  then show False
    using days_before_year_mono [of "y + 1" y'] days_before_year_mono [of "y' + 1" y] assms
    by cases simp_all
qed

lemma mod_eqI: "a = b * q + r \<Longrightarrow> 0 \<le> r \<Longrightarrow> r < b \<Longrightarrow> a mod b = r" for a b q r :: int
  by (rule int_mod_pos_eq)

lemma days_before_year_parts:
  assumes "0 \<le> b" "b \<le> 3" "0 \<le> c" "c \<le> 24" "0 \<le> d" "d \<le> 3"
  shows "days_before_year (400 * a + 100 * b + 4 * c + d + 1) = 146097 * a + 36524 * b + 1461 * c + 365 * d"
proof -
  let ?p = "400 * a + 100 * b + 4 * c + d"
  have "?p div 4 = 100 * a + 25 * b + c"
    by (rule div_eqI [of _ _ _ d]) (use assms in \<open>simp_all add: algebra_simps\<close>)
  moreover have "?p div 100 = 4 * a + b"
    by (rule div_eqI [of _ _ _ "4 * c + d"]) (use assms in \<open>simp_all add: algebra_simps\<close>)
  moreover have "?p div 400 = a"
    by (rule div_eqI [of _ _ _ "100 * b + 4 * c + d"]) (use assms in \<open>simp_all add: algebra_simps\<close>)
  ultimately show ?thesis by (simp add: days_before_year_def Let_def)
qed

lemma is_leap_parts:
  assumes "0 \<le> b" "b \<le> 3" "0 \<le> c" "c \<le> 24" "0 \<le> d" "d \<le> 3"
  shows "is_leap (400 * a + 100 * b + 4 * c + d + 1) \<longleftrightarrow> d = 3 \<and> (c < 24 \<or> b = 3)"
proof (cases "d = 3")
  case False
  have "(400 * a + 100 * b + 4 * c + d + 1) mod 4 = d + 1"
    by (rule mod_eqI [of _ _ "100 * a + 25 * b + c"]) (use assms False in \<open>simp_all add: algebra_simps\<close>)
  with False assms show ?thesis by (simp add: is_leap_def)
next
  case d: True
  have m4: "(400 * a + 100 * b + 4 * c + d + 1) mod 4 = 0"
    by (rule mod_eqI [of _ _ "100 * a + 25 * b + c + 1"]) (use d in \<open>simp_all add: algebra_simps\<close>)
  show ?thesis
  proof (cases "c < 24")
    case True
    have "(400 * a + 100 * b + 4 * c + d + 1) mod 100 = 4 * c + 4"
      by (rule mod_eqI [of _ _ "4 * a + b"]) (use assms d True in \<open>simp_all add: algebra_simps\<close>)
    with assms m4 d True show ?thesis by (simp add: is_leap_def)
  next
    case False
    with assms have c: "c = 24" by simp
    have m100: "(400 * a + 100 * b + 4 * c + d + 1) mod 100 = 0"
      by (rule mod_eqI [of _ _ "4 * a + b + 1"]) (use d c in \<open>simp_all add: algebra_simps\<close>)
    show ?thesis
    proof (cases "b = 3")
      case True
      have "(400 * a + 100 * b + 4 * c + d + 1) mod 400 = 0"
        by (rule mod_eqI [of _ _ "a + 1"]) (use d c True in \<open>simp_all add: algebra_simps\<close>)
      with m4 d True show ?thesis by (simp add: is_leap_def)
    next
      case b: False
      have "(400 * a + 100 * b + 4 * c + d + 1) mod 400 = 100 * b + 100"
        by (rule mod_eqI [of _ _ a]) (use assms d c b in \<open>simp_all add: algebra_simps\<close>)
      with m100 d c b assms show ?thesis by (simp add: is_leap_def)
    qed
  qed
qed

lemma days_before_year_next:
  assumes "0 \<le> b" "b \<le> 3" "0 \<le> c" "c \<le> 24" "0 \<le> d" "d \<le> 3"
  shows "days_before_year (400 * a + 100 * b + 4 * c + d + 1 + 1) =
    146097 * a + 36524 * b + 1461 * c + 365 * d + 365
    + (if d = 3 \<and> (c < 24 \<or> b = 3) then 1 else 0)"
  by (simp only: year_length [of "400 * a + 100 * b + 4 * c + d + 1"] is_leap_parts [OF assms]
      days_before_year_parts [OF assms] if_distrib [of "\<lambda>x. _ + x"] split: if_split) simp

lemma cut_cycle:
  fixes r k :: int
  assumes "0 < k" "0 \<le> r" "r \<le> 4 * k"
  defines "b \<equiv> min (r div k) 3"
  shows "0 \<le> b" "b \<le> 3" "0 \<le> r - k * b" "r - k * b \<le> k" "b < 3 \<Longrightarrow> r - k * b < k"
proof -
  define q s where "q = r div k" and "s = r mod k"
  have r: "r = k * q + s" "0 \<le> s" "s < k" "0 \<le> q"
    using assms by (simp_all add: q_def s_def pos_imp_zdiv_nonneg_iff)
  have "0 \<le> b \<and> b \<le> 3 \<and> 0 \<le> r - k * b \<and> r - k * b \<le> k \<and> (b < 3 \<longrightarrow> r - k * b < k)"
  proof (cases "q \<le> 3")
    case True
    then have "b = q" by (simp add: b_def q_def min_def)
    with r True show ?thesis by simp
  next
    case False
    then have b: "b = 3" by (simp add: b_def q_def min_def)
    have "k * 4 \<le> k * q" using False assms by (intro mult_left_mono) simp_all
    moreover have "r - k * b = r - k * 3" using b by simp
    ultimately have "0 \<le> r - k * b" "r - k * b \<le> k" using r assms(3) by linarith+
    with b show ?thesis by simp
  qed
  then show "0 \<le> b" "b \<le> 3" "0 \<le> r - k * b" "r - k * b \<le> k" "b < 3 \<Longrightarrow> r - k * b < k" by simp_all
qed

lemma year_of_days_bounds:
  "days_before_year (year_of_days z) \<le> z \<and> z < days_before_year (year_of_days z + 1)"
proof -
  define a r where "a = z div 146097" and "r = z mod 146097"
  define b where "b = min (r div 36524) 3"
  define r2 where "r2 = r - 36524 * b"
  define c r3 where "c = r2 div 1461" and "r3 = r2 mod 1461"
  define d where "d = min (r3 div 365) 3"
  have z: "z = 146097 * a + r" "0 \<le> r" "r < 146097" by (simp_all add: a_def r_def)
  have b: "0 \<le> b" "b \<le> 3" "0 \<le> r2" "r2 \<le> 36524" "b < 3 \<Longrightarrow> r2 < 36524"
    unfolding r2_def b_def using cut_cycle [of 36524 r] z by simp_all
  have c: "r2 = 1461 * c + r3" "0 \<le> r3" "r3 < 1461" "0 \<le> c"
    unfolding c_def r3_def using b by (simp_all add: pos_imp_zdiv_nonneg_iff)
  have c24: "c \<le> 24" using c b by linarith
  have d: "0 \<le> d" "d \<le> 3" "0 \<le> r3 - 365 * d" "r3 - 365 * d \<le> 365" "d < 3 \<Longrightarrow> r3 - 365 * d < 365"
    unfolding d_def using cut_cycle [of 365 r3] c by simp_all
  have y: "year_of_days z = 400 * a + 100 * b + 4 * c + d + 1"
    unfolding year_of_days_def Let_def a_def b_def c_def d_def r_def r2_def r3_def by simp
  have lo: "days_before_year (year_of_days z) = 146097 * a + 36524 * b + 1461 * c + 365 * d"
    unfolding y by (rule days_before_year_parts) (use b c c24 d in simp_all)
  have hi: "days_before_year (year_of_days z + 1) = 146097 * a + 36524 * b + 1461 * c + 365 * d + 365
    + (if d = 3 \<and> (c < 24 \<or> b = 3) then 1 else 0)"
    unfolding y by (rule days_before_year_next) (use b c c24 d in simp_all)
  have r: "r = 36524 * b + r2" by (simp add: r2_def)
  have "days_before_year (year_of_days z) \<le> z" using lo z c d r by linarith
  moreover have "z < days_before_year (year_of_days z + 1)"
  proof (cases "d = 3 \<and> (c < 24 \<or> b = 3)")
    case True
    then show ?thesis using hi z c d r by simp
  next
    case False
    then show ?thesis using hi z b c c24 d r by (cases "d = 3") auto
  qed
  ultimately show ?thesis ..
qed

lemma days_before_month_values:
  "days_before_month l 1 = 0" "days_before_month l 2 = 31"
  "days_before_month l 3 = 59 + (if l then 1 else 0)" "days_before_month l 4 = 90 + (if l then 1 else 0)"
  "days_before_month l 5 = 120 + (if l then 1 else 0)" "days_before_month l 6 = 151 + (if l then 1 else 0)"
  "days_before_month l 7 = 181 + (if l then 1 else 0)" "days_before_month l 8 = 212 + (if l then 1 else 0)"
  "days_before_month l 9 = 243 + (if l then 1 else 0)" "days_before_month l 10 = 273 + (if l then 1 else 0)"
  "days_before_month l 11 = 304 + (if l then 1 else 0)" "days_before_month l 12 = 334 + (if l then 1 else 0)"
  by (simp_all add: days_before_month_def)

lemma month_cases:
  "1 \<le> m \<Longrightarrow> m \<le> 12 \<Longrightarrow> m = 1 \<or> m = 2 \<or> m = 3 \<or> m = 4 \<or> m = 5 \<or> m = 6 \<or> m = 7 \<or> m = 8
    \<or> m = 9 \<or> m = 10 \<or> m = 11 \<or> m = 12" for m :: int
  by presburger

lemma yday_bounds:
  assumes "1 \<le> m" "m \<le> 12" "1 \<le> d" "d \<le> last_day y m"
  shows "0 \<le> days_before_month (is_leap y) m + (d - 1)"
    and "days_before_month (is_leap y) m + (d - 1) < (if is_leap y then 366 else 365)"
    and "month_of_yday (is_leap y) (days_before_month (is_leap y) m + (d - 1)) = m"
  using month_cases [OF assms(1,2)] assms(3,4)
  by (elim disjE; simp add: days_before_month_values last_day_def month_of_yday_def split: if_splits)+

lemma year_month_day_sys_days:
  assumes "ymd_ok y m d"
  shows "year_month_day (sys_days y m d) = (y, m, d)"
proof -
  let ?z = "days_before_year y + days_before_month (is_leap y) m + (d - 1)"
  have b: "0 \<le> days_before_month (is_leap y) m + (d - 1)"
    "days_before_month (is_leap y) m + (d - 1) < (if is_leap y then 366 else 365)"
    "month_of_yday (is_leap y) (days_before_month (is_leap y) m + (d - 1)) = m"
    by (rule yday_bounds; use assms in \<open>simp add: ymd_ok_def\<close>)+
  have "year_of_days ?z = y"
    by (rule year_unique [of _ ?z]) (use b year_of_days_bounds [of ?z] year_length [of y] in simp_all)
  then show ?thesis
    using b by (simp add: year_month_day_def sys_days_def Let_def add.assoc)
qed

lemma sys_days_year_month_day: "(case year_month_day z of (y, m, d) \<Rightarrow> sys_days y m d) = z"
  by (simp add: year_month_day_def sys_days_def Let_def)

lemma month_of_yday_ok:
  assumes "0 \<le> doy" "doy < (if is_leap y then 366 else 365)"
  defines "m \<equiv> month_of_yday (is_leap y) doy"
  shows "1 \<le> m \<and> m \<le> 12 \<and> 1 \<le> doy - days_before_month (is_leap y) m + 1
    \<and> doy - days_before_month (is_leap y) m + 1 \<le> last_day y m"
proof (cases "is_leap y")
  case True
  with assms(1,2) show ?thesis unfolding m_def
    by (simp add: month_of_yday_def days_before_month_values last_day_def)
next
  case False
  with assms(1,2) show ?thesis unfolding m_def
    by (simp add: month_of_yday_def days_before_month_values last_day_def)
qed

end
