(* ===== verification/Timestamp.thy ===== *)
theory Timestamp
  imports Chrono Text
begin

text \<open>
  \<open>cUtils::ParseISOTimestamp\<close> (Discord/Utils/Utils.cpp) and \<open>FormatISOTimestamp\<close>
  (Discord/Utils.h). The parser walks raw pointers into the input; here a position is
  an index and every read is checked, with a read outside the string a result of its
  own, \<open>Iso_oob\<close>, so that memory safety is a statement about the parser.
\<close>

section \<open>Checked reads\<close>

datatype iso_error = Iso_invalid | Iso_oob

definition rd :: "string \<Rightarrow> nat \<Rightarrow> iso_error + char" where
  "rd s i = (if i < length s then Inr (s ! i) else Inl Iso_oob)"

text \<open>\<open>(dgt = str[i] - '0')\<close> as \<open>uint8_t\<close>: below 10 exactly for a digit.\<close>

definition digit_u8 :: "char \<Rightarrow> nat" where
  "digit_u8 c = (byte_of c + 208) mod 256"

text \<open>
  A chain of tests joined by \<open>||\<close> reads the characters in order and throws at the first
  one that is not as expected: a digit, which is stored, or a fixed separator.
\<close>

datatype expect = Dgt nat | Sep nat char

fun rd_seq :: "string \<Rightarrow> expect list \<Rightarrow> iso_error + nat list" where
  "rd_seq s [] = Inr []"
| "rd_seq s (Dgt i # es) =
     bindS (rd s i) (\<lambda>c. if digit_u8 c > 9 then Inl Iso_invalid
       else bindS (rd_seq s es) (\<lambda>ds. Inr (digit_u8 c # ds)))"
| "rd_seq s (Sep i sep # es) =
     bindS (rd s i) (\<lambda>c. if c \<noteq> sep then Inl Iso_invalid else rd_seq s es)"

section \<open>The parser\<close>

text \<open>The date: whether it is in extended format, its digits, and the position after it.\<close>

definition iso_date :: "string \<Rightarrow> iso_error + (bool \<times> nat list \<times> nat)" where
  "iso_date s =
     bindS (rd_seq s [Dgt 0, Dgt 1, Dgt 2, Dgt 3]) (\<lambda>yd.
     bindS (rd s 4) (\<lambda>c.
       if c = CHR ''-'' then
         bindS (rd_seq s [Dgt 5, Dgt 6, Sep 7 (CHR ''-''), Dgt 8, Dgt 9]) (\<lambda>md. Inr (True, yd @ md, 10))
       else
         bindS (rd_seq s [Dgt 4, Dgt 5, Dgt 6, Dgt 7]) (\<lambda>md. Inr (False, yd @ md, 8))))"

text \<open>
  The optional decimals of the seconds, at position \<open>p\<close>: the three digits that are kept
  (zero when missing) and the position after the last decimal.
\<close>

definition iso_fraction :: "string \<Rightarrow> nat \<Rightarrow> iso_error + (nat list \<times> nat)" where
  "iso_fraction s p =
     (if length s - p > 1 then
        bindS (rd s p) (\<lambda>c0. if c0 \<noteq> CHR ''.'' then Inr ([0, 0, 0], p) else
        bindS (rd s (p + 1)) (\<lambda>c1. if digit_u8 c1 \<ge> 10 then Inr ([0, 0, 0], p) else
          if length s - (p + 2) > 0 then
            bindS (rd s (p + 2)) (\<lambda>c2. if digit_u8 c2 \<ge> 10 then Inr ([digit_u8 c1, 0, 0], p + 2) else
              if length s - (p + 3) > 0 then
                bindS (rd s (p + 3)) (\<lambda>c3. if digit_u8 c3 \<ge> 10 then Inr ([digit_u8 c1, digit_u8 c2, 0], p + 3) else
                  Inr ([digit_u8 c1, digit_u8 c2, digit_u8 c3],
                       p + 4 + length (takeWhile (\<lambda>c. \<not> digit_u8 c > 9) (drop (p + 4) s))))
              else Inr ([digit_u8 c1, digit_u8 c2, 0], p + 3))
          else Inr ([digit_u8 c1, 0, 0], p + 2)))
      else Inr ([0, 0, 0], p))"

text \<open>The time, from the position after the T: format, digits, decimals and end position.\<close>

definition iso_time :: "string \<Rightarrow> nat \<Rightarrow> iso_error + (bool \<times> nat list \<times> nat list \<times> nat)" where
  "iso_time s p =
     bindS (rd_seq s [Dgt p, Dgt (p + 1)]) (\<lambda>hd.
     let len = length s - p in
     bindS (rd s (p + 2)) (\<lambda>c.
       if c = CHR '':'' \<and> len \<ge> 8 then
         bindS (rd_seq s [Dgt (p + 3), Dgt (p + 4), Sep (p + 5) (CHR '':''), Dgt (p + 6), Dgt (p + 7)]) (\<lambda>ms.
         bindS (iso_fraction s (p + 8)) (\<lambda>(frac, q). Inr (True, hd @ ms, frac, q)))
       else if len \<ge> 6 then
         bindS (rd_seq s [Dgt (p + 2), Dgt (p + 3), Dgt (p + 4), Dgt (p + 5)]) (\<lambda>ms.
         Inr (False, hd @ ms, [0, 0, 0], p + 6))
       else Inl Iso_invalid))"

text \<open>
  The optional time zone at position \<open>p\<close>: its sign and the digits of hours and minutes.
  Every path that does not leave the switch by a break falls into the default, which throws.
\<close>

definition iso_zone :: "bool \<Rightarrow> string \<Rightarrow> nat \<Rightarrow> iso_error + (bool \<times> nat list)" where
  "iso_zone ext s p =
     (let len = length s - p in
      if len = 0 then Inr (False, [0, 0, 0, 0]) else
      bindS (rd s p) (\<lambda>c.
        if c = CHR ''Z'' then (if len = 1 then Inr (False, [0, 0, 0, 0]) else Inl Iso_invalid)
        else if c = CHR ''+'' \<or> c = CHR ''-'' then
          let plus = (c = CHR ''+'') in
          if ext then
            if len = 6 then
              bindS (rd_seq s [Dgt (p + 1), Dgt (p + 2), Sep (p + 3) (CHR '':''), Dgt (p + 4), Dgt (p + 5)]) (\<lambda>z.
              Inr (plus, z))
            else Inl Iso_invalid
          else if len = 5 then
            bindS (rd_seq s [Dgt (p + 3), Dgt (p + 4)]) (\<lambda>zm.
            bindS (rd_seq s [Dgt (p + 1), Dgt (p + 2)]) (\<lambda>zh. Inr (plus, zh @ zm)))
          else if len = 3 then
            bindS (rd_seq s [Dgt (p + 1), Dgt (p + 2)]) (\<lambda>zh. Inr (plus, zh @ [0, 0]))
          else Inl Iso_invalid
        else Inl Iso_invalid))"

definition num2 :: "nat list \<Rightarrow> nat \<Rightarrow> int" where
  "num2 ds i = 10 * int (ds ! i) + int (ds ! Suc i)"

definition ParseISOTimestamp :: "string \<Rightarrow> iso_error + int" where
  "ParseISOTimestamp s =
     (if length s < 15 then Inl Iso_invalid else
      bindS (iso_date s) (\<lambda>(ext_date, dd, p).
      let y = 100 * num2 dd 0 + num2 dd 2; m = num2 dd 4; d = num2 dd 6 in
      if \<not> ymd_ok y m d then Inl Iso_invalid else
      bindS (rd s p) (\<lambda>t. if t \<noteq> CHR ''T'' then Inl Iso_invalid else
      bindS (iso_time s (p + 1)) (\<lambda>(ext_time, td, frac, q).
      if ext_date \<noteq> ext_time then Inl Iso_invalid else
      let h = num2 td 0; mi = num2 td 2; sec = num2 td 4 in
      if h > 23 \<or> mi > 59 \<or> sec > 59 then Inl Iso_invalid else
      let result = sys_days y m d * ms_day + h * ms_hour + mi * ms_minute + sec * ms_second
            + (100 * int (frac ! 0) + 10 * int (frac ! 1) + int (frac ! 2)) in
      bindS (iso_zone ext_time s q) (\<lambda>(plus, zd).
      let zh = num2 zd 0; zm = num2 zd 2 in
      if zh > 23 \<or> zm > 59 then Inl Iso_invalid else
      let tz = zh * ms_hour + zm * ms_minute in
      Inr (if plus then result - tz else result + tz))))))"

section \<open>The formatter\<close>

text \<open>
  \<open>FormatISOTimestamp\<close> of a time point in milliseconds: the fractional width is 3, so
  the six-digit branch prints microseconds. \<open>{:04}\<close> counts the sign of a negative year.
\<close>

definition fmt_int0 :: "nat \<Rightarrow> int \<Rightarrow> string" where
  "fmt_int0 w i = (if i < 0 then CHR ''-'' # pad0 (w - 1) (to_dec (nat (- i))) else pad0 w (to_dec (nat i)))"

definition FormatISOTimestamp :: "int \<Rightarrow> string" where
  "FormatISOTimestamp tp =
     (case year_month_day (tp div ms_day) of (y, m, d) \<Rightarrow>
      let r = tp mod ms_day;
          h = r div ms_hour; mi = r mod ms_hour div ms_minute; sec = r mod ms_minute div ms_second;
          sub = r mod ms_second
      in fmt_int0 4 y @ ''-'' @ fmt_int0 2 m @ ''-'' @ fmt_int0 2 d @ ''T''
         @ fmt_int0 2 h @ '':'' @ fmt_int0 2 mi @ '':'' @ fmt_int0 2 sec @ ''.''
         @ fmt_int0 6 (sub * 1000) @ ''Z'')"

section \<open>Memory safety\<close>

definition safe :: "iso_error + 'a \<Rightarrow> bool" where
  "safe m \<longleftrightarrow> m \<noteq> Inl Iso_oob"

lemma safe_Inr [simp]: "safe (Inr x)" by (simp add: safe_def)
lemma safe_invalid [simp]: "safe (Inl Iso_invalid)" by (simp add: safe_def)

lemma safe_bindS [intro!]: "safe m \<Longrightarrow> (\<And>x. m = Inr x \<Longrightarrow> safe (k x)) \<Longrightarrow> safe (bindS m k)"
  by (cases m) (auto simp: safe_def)

lemma safe_rd [simp]: "i < length s \<Longrightarrow> safe (rd s i)"
  by (simp add: rd_def safe_def)

lemma safe_if [intro!]: "(b \<Longrightarrow> safe x) \<Longrightarrow> (\<not> b \<Longrightarrow> safe y) \<Longrightarrow> safe (if b then x else y)"
  by simp

fun expect_pos :: "expect \<Rightarrow> nat" where
  "expect_pos (Dgt i) = i"
| "expect_pos (Sep i c) = i"

lemma safe_rd_seq: "\<forall>e \<in> set es. expect_pos e < length s \<Longrightarrow> safe (rd_seq s es)"
  by (induction s es rule: rd_seq.induct) auto

lemma rd_Inr: "rd s i = Inr c \<Longrightarrow> i < length s \<and> c = s ! i"
  by (auto simp: rd_def split: if_splits)

lemma safe_iso_date: "15 \<le> length s \<Longrightarrow> safe (iso_date s)"
  unfolding iso_date_def by (auto intro!: safe_rd_seq simp del: rd_seq.simps)

lemma iso_date_pos: "iso_date s = Inr (e, dd, p) \<Longrightarrow> p = 8 \<or> p = 10"
  by (auto simp: iso_date_def bindS_eq_Inr split: if_splits)

lemma safe_iso_fraction: "safe (iso_fraction s p)"
  unfolding iso_fraction_def by (auto simp: Let_def)

lemma safe_iso_time: "p + 4 \<le> length s \<Longrightarrow> safe (iso_time s p)"
  unfolding iso_time_def Let_def
  by (auto intro!: safe_rd_seq simp: safe_iso_fraction simp del: rd_seq.simps split: prod.splits)

lemma safe_iso_zone: "safe (iso_zone e s p)"
  unfolding iso_zone_def Let_def by (auto intro!: safe_rd_seq simp del: rd_seq.simps)

lemma ParseISOTimestamp_safe: "safe (ParseISOTimestamp s)"
  unfolding ParseISOTimestamp_def Let_def
  by (auto split: prod.splits intro!: safe_iso_date safe_iso_time safe_iso_zone dest!: iso_date_pos)

section \<open>Fixed-width decimal fields\<close>

fun fixed_dec :: "nat \<Rightarrow> nat \<Rightarrow> string" where
  "fixed_dec 0 n = []"
| "fixed_dec (Suc k) n = fixed_dec k (n div 10) @ [digit_char (n mod 10)]"

lemma fixed_dec_0: "fixed_dec k 0 = replicate k (CHR ''0'')"
  by (induction k) (simp_all add: replicate_append_same digit_char_0)

lemma pad0_to_dec: "n < 10 ^ k \<Longrightarrow> 0 < k \<Longrightarrow> pad0 k (to_dec n) = fixed_dec k n"
proof (induction k arbitrary: n)
  case (Suc k)
  show ?case
  proof (cases "n < 10")
    case True
    then show ?thesis by (subst to_dec.simps) (simp add: pad0_def fixed_dec_0)
  next
    case False
    with Suc.prems have k: "0 < k" "n div 10 < 10 ^ k" by (auto simp: less_mult_imp_div_less mult.commute intro: gr0I)
    have "pad0 (Suc k) (to_dec n) = pad0 k (to_dec (n div 10)) @ [digit_char (n mod 10)]"
      using False by (subst to_dec.simps) (simp add: pad0_def)
    with Suc.IH [OF k(2,1)] show ?thesis by simp
  qed
qed simp

lemma digit_u8_digit_char [simp]: "d < 10 \<Longrightarrow> digit_u8 (digit_char d) = d"
  by (simp add: digit_u8_def)

lemma fmt_int0_fixed: "0 \<le> i \<Longrightarrow> i < 10 ^ w \<Longrightarrow> 0 < w \<Longrightarrow> fmt_int0 w i = fixed_dec w (nat i)"
  by (simp add: fmt_int0_def pad0_to_dec nat_less_iff)


text \<open>The text of a time point in extended format with six decimals, from its digits.\<close>

definition iso_text :: "nat list \<Rightarrow> string" where
  "iso_text ds = map digit_char (take 4 ds) @ ''-'' @ map digit_char (take 2 (drop 4 ds)) @ ''-''
     @ map digit_char (take 2 (drop 6 ds)) @ ''T'' @ map digit_char (take 2 (drop 8 ds)) @ '':''
     @ map digit_char (take 2 (drop 10 ds)) @ '':'' @ map digit_char (take 2 (drop 12 ds)) @ ''.''
     @ map digit_char (drop 14 ds) @ ''Z''"

lemma digit_u8_Z: "digit_u8 (CHR ''Z'') = 42"
  by (simp add: digit_u8_def byte_of_def)

lemma ParseISOTimestamp_digits:
  fixes y1 y2 y3 y4 m1 m2 d1 d2 h1 h2 i1 i2 s1 s2 f1 f2 f3 :: nat
  defines "y \<equiv> 100 * (10 * int y1 + int y2) + (10 * int y3 + int y4)"
    and "m \<equiv> 10 * int m1 + int m2" and "d \<equiv> 10 * int d1 + int d2"
    and "h \<equiv> 10 * int h1 + int h2" and "mi \<equiv> 10 * int i1 + int i2" and "se \<equiv> 10 * int s1 + int s2"
  assumes dd: "y1 < 10" "y2 < 10" "y3 < 10" "y4 < 10" "m1 < 10" "m2 < 10" "d1 < 10" "d2 < 10"
   "h1 < 10" "h2 < 10" "i1 < 10" "i2 < 10" "s1 < 10" "s2 < 10" "f1 < 10" "f2 < 10" "f3 < 10"
   and ok: "ymd_ok y m d" "\<not> h > 23" "\<not> mi > 59" "\<not> se > 59"
  shows "ParseISOTimestamp (iso_text [y1,y2,y3,y4,m1,m2,d1,d2,h1,h2,i1,i2,s1,s2,f1,f2,f3,0,0,0]) =
    Inr (sys_days y m d * ms_day + h * ms_hour + mi * ms_minute + se * ms_second
         + (100 * int f1 + 10 * int f2 + int f3))"
    (is "ParseISOTimestamp ?s = _")
proof -
  have s: "?s = [digit_char y1, digit_char y2, digit_char y3, digit_char y4, CHR ''-'', digit_char m1, digit_char m2,
    CHR ''-'', digit_char d1, digit_char d2, CHR ''T'', digit_char h1, digit_char h2, CHR '':'', digit_char i1,
    digit_char i2, CHR '':'', digit_char s1, digit_char s2, CHR ''.'', digit_char f1, digit_char f2, digit_char f3,
    digit_char 0, digit_char 0, digit_char 0, CHR ''Z'']"
    by (simp add: iso_text_def)
  have len: "\<not> length ?s < 15" by (simp add: s)
  have date: "iso_date ?s = Inr (True, [y1, y2, y3, y4, m1, m2, d1, d2], 10)"
    unfolding s using dd by (simp add: iso_date_def rd_def)
  have T: "rd ?s 10 = Inr (CHR ''T'')" unfolding s by (simp add: rd_def)
  have frac: "iso_fraction ?s 19 = Inr ([f1, f2, f3], 26)"
    unfolding s using dd by (simp add: iso_fraction_def rd_def digit_u8_Z)
  have time: "iso_time ?s 11 = Inr (True, [h1, h2, i1, i2, s1, s2], [f1, f2, f3], 26)"
    using dd frac unfolding s by (simp add: iso_time_def rd_def Let_def)
  have zone: "iso_zone True ?s 26 = Inr (False, [0, 0, 0, 0])"
    unfolding s by (simp add: iso_zone_def rd_def Let_def)
  from ok show ?thesis
    by (simp add: ParseISOTimestamp_def len date T time zone num2_def y_def m_def d_def h_def mi_def se_def Let_def
        del: One_nat_def)
qed

lemma fixed_dec_numeral:
  "fixed_dec (numeral k) n = fixed_dec (pred_numeral k) (n div 10) @ [digit_char (n mod 10)]"
  by (subst numeral_eq_Suc) (rule fixed_dec.simps)

lemma div_10_div: "n div 10 div 10 = n div 100" "n div 100 div 10 = n div 1000"
  "n div 1000 div 10 = n div 10000" "n div 10000 div 10 = n div 100000" for n :: nat
  using div_mult2_eq [of n 10 10] div_mult2_eq [of n 100 10] div_mult2_eq [of n 1000 10]
    div_mult2_eq [of n 10000 10] by simp_all

lemma fixed_dec_map:
  "fixed_dec 2 n = map digit_char [n div 10 mod 10, n mod 10]"
  "fixed_dec 4 n = map digit_char [n div 1000 mod 10, n div 100 mod 10, n div 10 mod 10, n mod 10]"
  "fixed_dec 6 n = map digit_char [n div 100000 mod 10, n div 10000 mod 10, n div 1000 mod 10,
     n div 100 mod 10, n div 10 mod 10, n mod 10]"
  by (simp_all only: fixed_dec_numeral pred_numeral_simps Num.BitM.simps div_10_div fixed_dec.simps
      numeral_One One_nat_def append.simps list.map)

section \<open>Formatting and parsing back\<close>

lemma dec_digits_2: "n < 100 \<Longrightarrow> 10 * int (n div 10 mod 10) + int (n mod 10) = int n"
proof -
  assume "n < 100"
  then have "n div 10 mod 10 = n div 10" by (simp add: less_mult_imp_div_less)
  moreover have "10 * (n div 10) + n mod 10 = n" by simp
  ultimately show ?thesis by (metis of_nat_add of_nat_mult of_nat_numeral)
qed

lemma horner_4: "a = q3 \<Longrightarrow> 10 * q1 + d = n \<Longrightarrow> 10 * q2 + c = q1 \<Longrightarrow> 10 * q3 + b = q2 \<Longrightarrow>
  100 * (10 * a + b) + (10 * c + d) = n" for n :: nat
  by simp

lemma dec_digits_4: "n < 10000 \<Longrightarrow>
  100 * (10 * int (n div 1000 mod 10) + int (n div 100 mod 10)) + (10 * int (n div 10 mod 10) + int (n mod 10)) = int n"
proof -
  assume n: "n < 10000"
  define a b c d where "a = n div 1000 mod 10" "b = n div 100 mod 10" "c = n div 10 mod 10" "d = n mod 10"
  have "n div 1000 mod 10 = n div 1000" using n by (simp add: less_mult_imp_div_less)
  moreover have "10 * (n div 10) + n mod 10 = n" by simp
  moreover have "10 * (n div 100) + n div 10 mod 10 = n div 10"
    using mult_div_mod_eq [of 10 "n div 10"] by (simp add: div_10_div)
  moreover have "10 * (n div 1000) + n div 100 mod 10 = n div 100"
    using mult_div_mod_eq [of 10 "n div 100"] by (simp add: div_10_div)
  ultimately have "100 * (10 * a + b) + (10 * c + d) = n" unfolding a_b_c_d_def by (rule horner_4)
  then have "int (100 * (10 * a + b) + (10 * c + d)) = int n" by (rule arg_cong)
  then show ?thesis by (simp only: a_b_c_d_def of_nat_add of_nat_mult of_nat_numeral)
qed

lemma micro_digits:
  assumes "f < 1000"
  shows "fixed_dec 6 (f * 1000) = map digit_char [f div 100 mod 10, f div 10 mod 10, f mod 10, 0, 0, 0]"
    and "100 * int (f div 100 mod 10) + 10 * int (f div 10 mod 10) + int (f mod 10) = int f"
proof -
  have "f * 1000 div 100000 = f div 100" "f * 1000 div 10000 = f div 10" "f * 1000 div 1000 = f"
    "f * 1000 div 100 = f * 10" "f * 1000 div 10 = f * 100"
    using div_mult_mult2 [of 1000 f 100] div_mult_mult2 [of 1000 f 10]
      div_mult_mult2 [of 100 "f * 10" 1] div_mult_mult2 [of 10 "f * 100" 1] by simp_all
  moreover have "f * 10 mod 10 = 0" "f * 100 mod 10 = 0" "f * 1000 mod 10 = 0" by (simp_all add: mod_mult_right_eq [symmetric] mod_0_imp_dvd mod_eq_0_iff_dvd)
  ultimately show "fixed_dec 6 (f * 1000) = map digit_char [f div 100 mod 10, f div 10 mod 10, f mod 10, 0, 0, 0]"
    by (simp only: fixed_dec_map)
  have "f div 100 mod 10 = f div 100" using assms by (simp add: less_mult_imp_div_less)
  moreover have "10 * (f div 10) + f mod 10 = f" by simp
  moreover have "10 * (f div 100) + f div 10 mod 10 = f div 10"
    using mult_div_mod_eq [of 10 "f div 10"] by (simp add: div_10_div)
  ultimately have "100 * (f div 100 mod 10) + 10 * (f div 10 mod 10) + f mod 10 = f" by linarith
  then have "int (100 * (f div 100 mod 10) + 10 * (f div 10 mod 10) + f mod 10) = int f" by (rule arg_cong)
  then show "100 * int (f div 100 mod 10) + 10 * int (f div 10 mod 10) + int (f mod 10) = int f"
    by (simp only: of_nat_add of_nat_mult of_nat_numeral)
qed

lemma year_range:
  assumes "-62167219200000 \<le> tp" "tp \<le> 253402300799999" "year_month_day (tp div ms_day) = (y, m, d)"
  shows "0 \<le> y \<and> y \<le> 9999"
proof -
  let ?z = "tp div ms_day + epoch_days"
  have z: "-366 \<le> ?z" "?z < 3652059" using assms(1,2) by (simp_all add: ms_day_def epoch_days_def) 
  have y: "y = year_of_days ?z" using assms(3) by (simp add: year_month_day_def Let_def)
  have "0 \<le> y"
  proof (rule ccontr)
    assume "\<not> 0 \<le> y"
    then have "days_before_year (y + 1) \<le> days_before_year 0" by (intro days_before_year_mono) simp
    moreover have "days_before_year 0 = -366" by (simp add: days_before_year_def Let_def)
    ultimately show False using year_of_days_bounds [of ?z, folded y] z by linarith
  qed
  moreover have "y \<le> 9999"
  proof (rule ccontr)
    assume "\<not> y \<le> 9999"
    then have "days_before_year 10000 \<le> days_before_year y" by (intro days_before_year_mono) simp
    moreover have "days_before_year 10000 = 3652059" by (simp add: days_before_year_def Let_def)
    ultimately show False using year_of_days_bounds [of ?z, folded y] z by linarith
  qed
  ultimately show ?thesis ..
qed
lemma time_parts:
  fixes r :: int assumes "0 \<le> r" "r < ms_day"
  shows "0 \<le> r div ms_hour" "r div ms_hour \<le> 23" "0 \<le> r mod ms_hour div ms_minute" "r mod ms_hour div ms_minute \<le> 59"
   "0 \<le> r mod ms_minute div ms_second" "r mod ms_minute div ms_second \<le> 59" "0 \<le> r mod ms_second" "r mod ms_second < 1000"
   "r div ms_hour * ms_hour + r mod ms_hour div ms_minute * ms_minute + r mod ms_minute div ms_second * ms_second + r mod ms_second = r"
proof -
  have h: "r mod ms_hour mod ms_minute = r mod ms_minute" "r mod ms_minute mod ms_second = r mod ms_second"
    by (simp_all add: ms_units mod_mod_cancel)
  have "r = r div ms_hour * ms_hour + r mod ms_hour" by simp
  moreover have "r mod ms_hour = r mod ms_hour div ms_minute * ms_minute + r mod ms_minute"
    using h(1) div_mult_mod_eq [of "r mod ms_hour" ms_minute] by simp
  moreover have "r mod ms_minute = r mod ms_minute div ms_second * ms_second + r mod ms_second"
    using h(2) div_mult_mod_eq [of "r mod ms_minute" ms_second] by simp
  ultimately show "r div ms_hour * ms_hour + r mod ms_hour div ms_minute * ms_minute + r mod ms_minute div ms_second * ms_second + r mod ms_second = r"
    by linarith
  have b: "0 \<le> r mod ms_hour" "r mod ms_hour < ms_hour" "0 \<le> r mod ms_minute" "r mod ms_minute < ms_minute"
    by (simp_all add: ms_units)
  show "0 \<le> r mod ms_second" "r mod ms_second < 1000" by (simp_all add: ms_units)
  show "0 \<le> r div ms_hour" "0 \<le> r mod ms_hour div ms_minute" "0 \<le> r mod ms_minute div ms_second"
    using assms b by (simp_all add: ms_units pos_imp_zdiv_nonneg_iff)
  show "r div ms_hour \<le> 23" "r mod ms_hour div ms_minute \<le> 59" "r mod ms_minute div ms_second \<le> 59"
    using assms b by (simp_all add: ms_units)
qed

lemma year_month_day_ok:
  assumes "year_month_day z = (y, m, d)" "0 \<le> y" "y \<le> 9999"
  shows "ymd_ok y m d"
proof -
  let ?z = "z + epoch_days"
  have y: "y = year_of_days ?z" using assms(1) by (simp add: year_month_day_def Let_def)
  then have "0 \<le> ?z - days_before_year y" "?z - days_before_year y < (if is_leap y then 366 else 365)"
    using year_of_days_bounds [of ?z, folded y] year_length [of y] by auto
  from month_of_yday_ok [OF this] show ?thesis
    using assms by (auto simp: year_month_day_def ymd_ok_def Let_def)
qed

lemma nat_digits_2: "0 \<le> i \<Longrightarrow> i < 100 \<Longrightarrow> 10 * int (nat i div 10 mod 10) + int (nat i mod 10) = i"
  using dec_digits_2 [of "nat i"] by simp

lemma nat_digits_4: "0 \<le> i \<Longrightarrow> i < 10000 \<Longrightarrow>
  100 * (10 * int (nat i div 1000 mod 10) + int (nat i div 100 mod 10)) + (10 * int (nat i div 10 mod 10) + int (nat i mod 10)) = i"
  using dec_digits_4 [of "nat i"] by simp

lemma FormatISOTimestamp_text:
  assumes "year_month_day (tp div ms_day) = (y, m, d)" "0 \<le> y" "y \<le> 9999" "ymd_ok y m d"
  defines "r \<equiv> tp mod ms_day"
  defines "h \<equiv> nat (r div ms_hour)" and "mi \<equiv> nat (r mod ms_hour div ms_minute)"
    and "se \<equiv> nat (r mod ms_minute div ms_second)" and "f \<equiv> nat (r mod ms_second)"
  shows "FormatISOTimestamp tp = iso_text
    [nat y div 1000 mod 10, nat y div 100 mod 10, nat y div 10 mod 10, nat y mod 10,
     nat m div 10 mod 10, nat m mod 10, nat d div 10 mod 10, nat d mod 10,
     h div 10 mod 10, h mod 10, mi div 10 mod 10, mi mod 10, se div 10 mod 10, se mod 10,
     f div 100 mod 10, f div 10 mod 10, f mod 10, 0, 0, 0]"
proof -
  have r: "0 \<le> r" "r < ms_day" by (simp_all add: r_def ms_units)
  note tp = time_parts [OF r]
  have md: "0 \<le> m" "m < 100" "0 \<le> d" "d < 100"
    using assms(4) by (auto simp: ymd_ok_def last_day_def split: if_splits)
  have f: "f < 1000" using tp(7,8) by (simp add: f_def nat_less_iff)
  have "FormatISOTimestamp tp = fixed_dec 4 (nat y) @ ''-'' @ fixed_dec 2 (nat m) @ ''-'' @ fixed_dec 2 (nat d) @ ''T''
         @ fixed_dec 2 h @ '':'' @ fixed_dec 2 mi @ '':'' @ fixed_dec 2 se @ ''.'' @ fixed_dec 6 (f * 1000) @ ''Z''"
    using assms(1,2,3) md tp
    by (simp add: FormatISOTimestamp_def Let_def fmt_int0_fixed nat_mult_distrib flip: r_def h_def mi_def se_def f_def)
  also have "\<dots> = iso_text
    [nat y div 1000 mod 10, nat y div 100 mod 10, nat y div 10 mod 10, nat y mod 10,
     nat m div 10 mod 10, nat m mod 10, nat d div 10 mod 10, nat d mod 10,
     h div 10 mod 10, h mod 10, mi div 10 mod 10, mi mod 10, se div 10 mod 10, se mod 10,
     f div 100 mod 10, f div 10 mod 10, f mod 10, 0, 0, 0]"
    by (simp add: iso_text_def fixed_dec_map(1,2) micro_digits(1) [OF f])
  finally show ?thesis .
qed

lemma ParseISOTimestamp_digits_eq:
  assumes "100 * (10 * int y1 + int y2) + (10 * int y3 + int y4) = y"
    "10 * int m1 + int m2 = m" "10 * int d1 + int d2 = d" "10 * int h1 + int h2 = h"
    "10 * int i1 + int i2 = mi" "10 * int s1 + int s2 = se" "100 * int f1 + 10 * int f2 + int f3 = f"
    "\<forall>n \<in> {y1, y2, y3, y4, m1, m2, d1, d2, h1, h2, i1, i2, s1, s2, f1, f2, f3}. n < 10"
    "ymd_ok y m d" "h \<le> 23" "mi \<le> 59" "se \<le> 59"
  shows "ParseISOTimestamp (iso_text [y1,y2,y3,y4,m1,m2,d1,d2,h1,h2,i1,i2,s1,s2,f1,f2,f3,0,0,0]) =
    Inr (sys_days y m d * ms_day + h * ms_hour + mi * ms_minute + se * ms_second + f)"
  using assms ParseISOTimestamp_digits [of y1 y2 y3 y4 m1 m2 d1 d2 h1 h2 i1 i2 s1 s2 f1 f2 f3]
  by (simp del: One_nat_def)

lemma ParseISOTimestamp_fields:
  fixes y m d h mi se f :: int
  assumes "0 \<le> y" "y \<le> 9999" "ymd_ok y m d" "0 \<le> h" "h \<le> 23" "0 \<le> mi" "mi \<le> 59" "0 \<le> se" "se \<le> 59"
    "0 \<le> f" "f < 1000"
  shows "ParseISOTimestamp (iso_text
    [nat y div 1000 mod 10, nat y div 100 mod 10, nat y div 10 mod 10, nat y mod 10,
     nat m div 10 mod 10, nat m mod 10, nat d div 10 mod 10, nat d mod 10,
     nat h div 10 mod 10, nat h mod 10, nat mi div 10 mod 10, nat mi mod 10, nat se div 10 mod 10, nat se mod 10,
     nat f div 100 mod 10, nat f div 10 mod 10, nat f mod 10, 0, 0, 0]) =
    Inr (sys_days y m d * ms_day + h * ms_hour + mi * ms_minute + se * ms_second + f)"
proof (rule ParseISOTimestamp_digits_eq)
  have md: "0 \<le> m" "m < 100" "0 \<le> d" "d < 100"
    using assms(3) by (auto simp: ymd_ok_def last_day_def split: if_splits)
  show "100 * (10 * int (nat y div 1000 mod 10) + int (nat y div 100 mod 10))
      + (10 * int (nat y div 10 mod 10) + int (nat y mod 10)) = y"
    by (rule nat_digits_4) (use assms in simp_all)
  show "10 * int (nat m div 10 mod 10) + int (nat m mod 10) = m" "10 * int (nat d div 10 mod 10) + int (nat d mod 10) = d"
    by (rule nat_digits_2, use md in simp, use md in simp)+
  show "10 * int (nat h div 10 mod 10) + int (nat h mod 10) = h" "10 * int (nat mi div 10 mod 10) + int (nat mi mod 10) = mi"
    "10 * int (nat se div 10 mod 10) + int (nat se mod 10) = se"
    by (rule nat_digits_2, use assms in simp, use assms in simp)+
  show "100 * int (nat f div 100 mod 10) + 10 * int (nat f div 10 mod 10) + int (nat f mod 10) = f"
    using micro_digits(2) [of "nat f"] assms by (simp only: nat_0_le nat_less_iff)
  show "\<forall>n\<in>{nat y div 1000 mod 10, nat y div 100 mod 10, nat y div 10 mod 10, nat y mod 10,
     nat m div 10 mod 10, nat m mod 10, nat d div 10 mod 10, nat d mod 10,
     nat h div 10 mod 10, nat h mod 10, nat mi div 10 mod 10, nat mi mod 10, nat se div 10 mod 10, nat se mod 10,
     nat f div 100 mod 10, nat f div 10 mod 10, nat f mod 10}. n < 10"
    by (simp only: ball_simps mod_less_divisor zero_less_numeral simp_thms)
qed (use assms in simp_all)

lemma ParseISOTimestamp_Format:
  assumes "-62167219200000 \<le> tp" "tp \<le> 253402300799999"
  shows "ParseISOTimestamp (FormatISOTimestamp tp) = Inr tp"
proof -
  obtain y m d where ymd: "year_month_day (tp div ms_day) = (y, m, d)" by (metis prod_cases3)
  have r: "0 \<le> tp mod ms_day" "tp mod ms_day < ms_day" by (simp_all add: ms_units)
  note parts = time_parts [OF r]
  have y: "0 \<le> y" "y \<le> 9999" using year_range [OF assms ymd] by auto
  have sd: "sys_days y m d = tp div ms_day" and ok: "ymd_ok y m d"
    using year_month_day_ok [OF ymd y] sys_days_year_month_day [of "tp div ms_day"] ymd by auto
  show ?thesis
    unfolding FormatISOTimestamp_text [OF ymd y ok] ParseISOTimestamp_fields [OF y ok parts(1-8)] sd
    using parts(9) div_mult_mod_eq [of tp ms_day] by (simp only: add.assoc)
qed

text \<open>The years 0000 to 9999, whose four digits the parser reads.\<close>

definition iso_range :: "int \<Rightarrow> bool" where
  "iso_range tp \<longleftrightarrow> -62167219200000 \<le> tp \<and> tp \<le> 253402300799999"

interpretation iso: codec FormatISOTimestamp ParseISOTimestamp iso_range
  by unfold_locales (simp add: ParseISOTimestamp_Format iso_range_def)

section \<open>Properties\<close>

text \<open>C26: on no input, however short or malformed, does the parser read outside the string.\<close>

theorem iso_timestamp_memory_safe: "ParseISOTimestamp s \<noteq> Inl Iso_oob"
  using ParseISOTimestamp_safe by (simp add: safe_def)

text \<open>
  C25: a time point of the years 0000 to 9999, to the millisecond, is read back exactly
  from the text that the formatter writes of it.
\<close>

theorem iso_timestamp_roundtrip:
  assumes "-62167219200000 \<le> tp" and "tp \<le> 253402300799999"
  shows "ParseISOTimestamp (FormatISOTimestamp tp) = Inr tp"
  by (rule iso.dec_enc) (simp add: iso_range_def assms)

theorem iso_timestamp_roundtrip_witness:
  "ParseISOTimestamp (FormatISOTimestamp 1703507760123) = Inr 1703507760123"
  by (rule iso_timestamp_roundtrip) simp_all

end
