(* ===== verification/Snowflake.thy ===== *)
theory Snowflake
  imports Text Chrono
begin

text \<open>
  The base types of Discord/Base: \<open>cSnowflake\<close> (Snowflake.h, Snowflake.cpp), the 64-bit
  identifier kept both as a number and as text, with its comparison, its components, its
  mention formats and its JSON conversion; and \<open>cColor\<close> (Color.h).
\<close>

section \<open>Construction\<close>

text \<open>The text is the first \<open>m_len\<close> characters of the 20-character array.\<close>

record cSnowflake =
  m_str :: string
  m_int :: u64

datatype xBadSnowflakeError = xBadSnowflakeError string

definition sf_default :: cSnowflake where
  "sf_default = \<lparr>m_str = ''0'', m_int = 0\<rparr>"

definition sf_of_int :: "u64 \<Rightarrow> cSnowflake" where
  "sf_of_int arg = \<lparr>m_str = to_dec (unat arg), m_int = arg\<rparr>"

definition sf_of_string :: "string \<Rightarrow> xBadSnowflakeError + cSnowflake" where
  "sf_of_string s =
     (case from_chars 0 18446744073709551615 s of
        (Inr v, []) \<Rightarrow> Inr \<lparr>m_str = take 20 s, m_int = word_of_int v\<rparr>
      | _ \<Rightarrow> Inl (xBadSnowflakeError s))"

definition ToString :: "cSnowflake \<Rightarrow> string" where
  "ToString sf = m_str sf"

definition ToInt :: "cSnowflake \<Rightarrow> u64" where
  "ToInt sf = m_int sf"

definition sf_less :: "cSnowflake \<Rightarrow> cSnowflake \<Rightarrow> bool" where
  "sf_less a b \<longleftrightarrow> m_int a < m_int b"

definition sf_eq :: "cSnowflake \<Rightarrow> cSnowflake \<Rightarrow> bool" where
  "sf_eq a b \<longleftrightarrow> m_int a = m_int b"

section \<open>Components\<close>

definition GetInternalWorkerId :: "cSnowflake \<Rightarrow> u8" where
  "GetInternalWorkerId sf = ucast (0x1F AND drop_bit 17 (m_int sf))"

definition GetInternalProcessId :: "cSnowflake \<Rightarrow> u8" where
  "GetInternalProcessId sf = ucast (0x1F AND drop_bit 12 (m_int sf))"

definition GetIncrement :: "cSnowflake \<Rightarrow> u16" where
  "GetIncrement sf = ucast (0xFFF AND m_int sf)"

text \<open>A point in time in milliseconds since 1970.\<close>

definition GetTimestamp :: "cSnowflake \<Rightarrow> int" where
  "GetTimestamp sf = sys_days 2015 1 1 * ms_day + uint (drop_bit 22 (m_int sf))"

section \<open>Mention formats\<close>

datatype format_error = Format_error

definition sf_format_spec :: "string \<Rightarrow> format_error + string" where
  "sf_format_spec spec =
     (if spec = [] then Inr []
      else if spec = ''u'' \<or> spec = ''user'' then Inr ''@''
      else if spec = ''r'' \<or> spec = ''role'' then Inr ''@&''
      else if spec = ''c'' \<or> spec = ''channel'' then Inr ''#''
      else Inl Format_error)"

definition sf_format :: "string \<Rightarrow> cSnowflake \<Rightarrow> string" where
  "sf_format prefix sf =
     (if prefix = [] then ToString sf else ''<'' @ prefix @ ToString sf @ ''>'')"

section \<open>Colours\<close>

text \<open>The components are promoted to \<open>int\<close>, shifted and joined.\<close>

definition color_rgb :: "u8 \<Rightarrow> u8 \<Rightarrow> u8 \<Rightarrow> u32" where
  "color_rgb r g b = (push_bit 16 (ucast r) OR push_bit 8 (ucast g)) OR ucast b"

definition GetRed :: "u32 \<Rightarrow> u8" where "GetRed v = ucast (drop_bit 16 v AND 0xFF)"
definition GetGreen :: "u32 \<Rightarrow> u8" where "GetGreen v = ucast (drop_bit 8 v AND 0xFF)"
definition GetBlue :: "u32 \<Rightarrow> u8" where "GetBlue v = ucast (v AND 0xFF)"

section \<open>Lemmas\<close>

text \<open>The snowflakes whose text is the canonical text of their number.\<close>

definition sf_canonical :: "cSnowflake \<Rightarrow> bool" where
  "sf_canonical sf \<longleftrightarrow> sf = sf_of_int (m_int sf)"

lemma sf_canonical_of_int [simp]: "sf_canonical (sf_of_int n)"
  by (simp add: sf_canonical_def sf_of_int_def)

lemma sf_canonical_default [simp]: "sf_canonical sf_default"
  by (simp add: sf_canonical_def sf_of_int_def sf_default_def to_dec.simps digit_char_0)

lemma unat_u64_bound: "int (unat (n :: u64)) \<le> 18446744073709551615"
  using unsigned_less [of n, where ?'a = int] by simp

lemma length_to_dec_u64: "length (to_dec (unat (n :: u64))) \<le> 20"
  by (rule length_to_dec) (use unsigned_less [of n, where ?'a = nat] in simp_all)

lemma from_chars_u64: "from_chars 0 18446744073709551615 (to_dec (unat (n :: u64))) = (Inr (int (unat n)), [])"
  using from_chars_to_dec [of "[]" "unat n" 18446744073709551615 0] unat_u64_bound [of n] by simp

lemma sf_of_string_to_dec: "sf_of_string (to_dec (unat n)) = Inr (sf_of_int n)"
  using length_to_dec_u64 [of n] by (simp add: sf_of_string_def from_chars_u64 sf_of_int_def)

lemma sf_of_string_Inr:
  "sf_of_string s = Inr sf \<Longrightarrow> s \<noteq> [] \<and> list_all is_digit s \<and> dec_value 0 s < 2 ^ 64
     \<and> sf = \<lparr>m_str = take 20 s, m_int = of_nat (dec_value 0 s)\<rparr>"
proof -
  assume s: "sf_of_string s = Inr sf"
  then have d: "\<forall>c \<in> set s. is_digit c"
    by (auto simp: sf_of_string_def from_chars_def Let_def dropWhile_eq_Nil_conv split: sum.splits list.splits if_splits)
  then have "takeWhile is_digit s = s" "dropWhile is_digit s = []"
    by (simp_all add: takeWhile_eq_all_conv dropWhile_eq_Nil_conv)
  with s d show ?thesis
    by (auto simp: sf_of_string_def from_chars_def Let_def list_all_iff simp del: takeWhile_eq_all_conv dropWhile_eq_Nil_conv split: if_splits)
qed

lemma word_masks: "(31 :: u64) = mask 5" "(4095 :: u64) = mask 12"
  by (simp_all add: mask_eq_exp_minus_1)

lemma from_chars_digits:
  assumes "list_all is_digit s" "s \<noteq> []" "int (dec_value 0 s) \<le> hi"
  shows "from_chars 0 hi s = (Inr (int (dec_value 0 s)), [])"
proof -
  have "takeWhile is_digit s = s" "dropWhile is_digit s = []"
    using assms(1) by (auto simp: takeWhile_eq_all_conv dropWhile_eq_Nil_conv list_all_iff)
  then show ?thesis using assms(2,3) by (simp add: from_chars_def Let_def del: takeWhile_eq_all_conv dropWhile_eq_Nil_conv)
qed

interpretation snowflake: codec ToString sf_of_string sf_canonical
  by unfold_locales (metis ToString_def sf_canonical_def sf_of_int_def sf_of_string_to_dec select_convs(1))

section \<open>Properties\<close>

text \<open>
  A snowflake made from a number is read back from its text, and a text of at most 20
  characters that is accepted is kept as it is and read back to an equal snowflake.
\<close>

theorem snowflake_roundtrip:
  "sf_of_string (ToString (sf_of_int n)) = Inr (sf_of_int n) \<and>
   (sf_of_string s = Inr sf \<and> length s \<le> 20 \<longrightarrow> ToString sf = s \<and> sf_of_string (ToString sf) = Inr sf)"
  using snowflake.dec_enc [of "sf_of_int n"] sf_of_string_Inr [of s sf] by (auto simp: ToString_def)

theorem snowflake_roundtrip_witness:
  "sf_of_string ''0007'' = Inr \<lparr>m_str = ''0007'', m_int = 7\<rparr> \<and> ToString \<lparr>m_str = ''0007'', m_int = 7\<rparr> = ''0007''"
proof -
  have "sf_of_string ''0007'' = Inr \<lparr>m_str = ''0007'', m_int = 7\<rparr>"
    by (simp add: sf_of_string_def from_chars_def Let_def is_digit_def digit_val_def byte_of_def)
  with snowflake_roundtrip [of 0 "''0007''" "\<lparr>m_str = ''0007'', m_int = 7\<rparr>"] show ?thesis by simp
qed

text \<open>
  The text of a snowflake is cut at 20 characters while its number is not: a longer
  text, which needs leading zeros to be in range, gives a snowflake whose own text is
  read back as another snowflake.
\<close>

theorem snowflake_truncates:
  assumes "sf_of_string s = Inr sf" and "length s > 20" and "ToInt sf \<noteq> 0"
  shows "\<exists>sf'. sf_of_string (ToString sf) = Inr sf' \<and> \<not> sf_eq sf' sf"
proof -
  from sf_of_string_Inr [OF assms(1)] have s: "list_all is_digit s" "dec_value 0 s < 2 ^ 64"
    and sf: "m_str sf = take 20 s" "m_int sf = of_nat (dec_value 0 s)" by auto
  let ?d = "dec_value 0 s div 10 ^ (length s - 20)"
  have u: "unat (m_int sf) = dec_value 0 s" using s(2) sf(2) by (simp add: unat_of_nat take_bit_nat_eq_self)
  with assms(3) have pos: "0 < dec_value 0 s" by (auto simp: ToInt_def unsigned_eq_0_iff intro!: gr0I)
  have "(10 :: nat) ^ 1 \<le> 10 ^ (length s - 20)" by (rule power_increasing) (use assms(2) in simp_all)
  then have less: "?d < dec_value 0 s" using pos by (intro div_less_dividend) simp_all
  have "list_all is_digit (take 20 s)" using s(1) by (auto simp: list_all_iff dest: in_set_takeD)
  moreover have "take 20 s \<noteq> []" using assms(2) by auto
  moreover have v: "dec_value 0 (take 20 s) = ?d" using s(1) by (rule dec_value_take)
  ultimately have "from_chars 0 18446744073709551615 (take 20 s) = (Inr (int ?d), [])"
    using less s(2) by (simp add: from_chars_digits)
  then have "sf_of_string (ToString sf) = Inr \<lparr>m_str = take 20 s, m_int = of_nat ?d\<rparr>"
    by (simp add: sf_of_string_def ToString_def sf(1))
  moreover have "(of_nat ?d :: u64) \<noteq> m_int sf"
  proof
    assume "of_nat ?d = m_int sf"
    then have "unat (of_nat ?d :: u64) = dec_value 0 s" using u by simp
    then show False using less s(2) by (simp add: unat_of_nat take_bit_nat_eq_self)
  qed
  ultimately show ?thesis by (auto simp: sf_eq_def)
qed

theorem snowflake_truncates_witness:
  "\<exists>sf'. sf_of_string (take 20 ''000000000000000000042'') = Inr sf' \<and> m_int sf' \<noteq> 42"
proof -
  let ?sf = "\<lparr>m_str = take 20 ''000000000000000000042'', m_int = 42\<rparr>"
  have "sf_of_string ''000000000000000000042'' = Inr ?sf"
    by (simp add: sf_of_string_def from_chars_def Let_def is_digit_def digit_val_def byte_of_def)
  from snowflake_truncates [OF this] show ?thesis by (simp add: ToString_def ToInt_def sf_eq_def)
qed

text \<open>
  The four components of a snowflake are disjoint bit fields that make up the whole
  number, and the timestamp follows the order of the snowflakes.
\<close>

theorem snowflake_components:
  "m_int sf = push_bit 22 (word_of_int (GetTimestamp sf - 1420070400000))
     OR push_bit 17 (ucast (GetInternalWorkerId sf)) OR push_bit 12 (ucast (GetInternalProcessId sf))
     OR ucast (GetIncrement sf)"
proof -
  have t: "GetTimestamp sf - 1420070400000 = uint (drop_bit 22 (m_int sf))" by (simp add: GetTimestamp_def) code_simp
  show ?thesis
    unfolding t
  proof (rule bit_word_eqI)
    fix n assume "n < LENGTH(64)"
    then consider "n < 12" | "12 \<le> n" "n < 17" | "17 \<le> n" "n < 22" | "22 \<le> n" "n < 64" by fastforce
    then show "bit (m_int sf) n \<longleftrightarrow> bit (push_bit 22 (word_of_int (uint (drop_bit 22 (m_int sf))))
        OR push_bit 17 (ucast (GetInternalWorkerId sf)) OR push_bit 12 (ucast (GetInternalProcessId sf))
        OR (ucast (GetIncrement sf) :: u64)) n"
      by cases (auto simp: GetInternalWorkerId_def GetInternalProcessId_def GetIncrement_def word_masks bit_simps)
  qed
qed

end
