(* ===== verification/Permission.thy ===== *)
theory Permission
  imports Text
begin

text \<open>
  \<open>cFlagSet\<close> (Discord/Common/FlagSet.h), the bit-set base of the flag types, and
  \<open>ePermission\<close> (Discord/Permission.h, Permission.cpp) on 64 bits: the permission
  constants, their names, the printed form and the conversion from JSON text.
\<close>

section \<open>Flag sets\<close>

definition flags_Any :: "'a::len word \<Rightarrow> bool" where "flags_Any v \<longleftrightarrow> v \<noteq> 0"
definition flags_None :: "'a::len word \<Rightarrow> bool" where "flags_None v \<longleftrightarrow> \<not> v \<noteq> 0"
definition TestAll :: "'a::len word \<Rightarrow> 'a word \<Rightarrow> bool" where "TestAll self flags \<longleftrightarrow> self AND flags = flags"
definition TestAny :: "'a::len word \<Rightarrow> 'a word \<Rightarrow> bool" where "TestAny self flags \<longleftrightarrow> flags_Any (self AND flags)"
definition TestNone :: "'a::len word \<Rightarrow> 'a word \<Rightarrow> bool" where "TestNone self flags \<longleftrightarrow> flags_None (self AND flags)"

section \<open>Permissions\<close>

type_synonym ePermission = u64

definition P_CreateInstantInvite :: ePermission where "P_CreateInstantInvite = 0x1"
definition P_KickMembers :: ePermission where "P_KickMembers = 0x2"
definition P_BanMembers :: ePermission where "P_BanMembers = 0x4"
definition P_Administrator :: ePermission where "P_Administrator = 0x8"
definition P_ManageChannels :: ePermission where "P_ManageChannels = 0x10"
definition P_ManageGuild :: ePermission where "P_ManageGuild = 0x20"
definition P_AddReactions :: ePermission where "P_AddReactions = 0x40"
definition P_ViewAuditLog :: ePermission where "P_ViewAuditLog = 0x80"
definition P_PrioritySpeaker :: ePermission where "P_PrioritySpeaker = 0x100"
definition P_Stream :: ePermission where "P_Stream = 0x200"
definition P_ViewChannel :: ePermission where "P_ViewChannel = 0x400"
definition P_SendMessages :: ePermission where "P_SendMessages = 0x800"
definition P_SendTTSMessages :: ePermission where "P_SendTTSMessages = 0x1000"
definition P_ManageMessages :: ePermission where "P_ManageMessages = 0x2000"
definition P_EmbedLinks :: ePermission where "P_EmbedLinks = 0x4000"
definition P_AttachFiles :: ePermission where "P_AttachFiles = 0x8000"
definition P_ReadMessageHistory :: ePermission where "P_ReadMessageHistory = 0x10000"
definition P_MentionEveryone :: ePermission where "P_MentionEveryone = 0x20000"
definition P_UseExternalEmojis :: ePermission where "P_UseExternalEmojis = 0x40000"
definition P_ViewGuildInsights :: ePermission where "P_ViewGuildInsights = 0x80000"
definition P_Connect :: ePermission where "P_Connect = 0x100000"
definition P_Speak :: ePermission where "P_Speak = 0x200000"
definition P_MuteMembers :: ePermission where "P_MuteMembers = 0x400000"
definition P_DeafenMembers :: ePermission where "P_DeafenMembers = 0x800000"
definition P_MoveMembers :: ePermission where "P_MoveMembers = 0x1000000"
definition P_UseVAD :: ePermission where "P_UseVAD = 0x2000000"
definition P_ChangeNickname :: ePermission where "P_ChangeNickname = 0x4000000"
definition P_ManageNicknames :: ePermission where "P_ManageNicknames = 0x8000000"
definition P_ManageRoles :: ePermission where "P_ManageRoles = 0x10000000"
definition P_ManageWebhooks :: ePermission where "P_ManageWebhooks = 0x20000000"
definition P_ManageGuildExpressions :: ePermission where "P_ManageGuildExpressions = 0x40000000"
definition P_UseApplicationCommands :: ePermission where "P_UseApplicationCommands = 0x80000000"
definition P_RequestToSpeak :: ePermission where "P_RequestToSpeak = 0x100000000"
definition P_ManageEvents :: ePermission where "P_ManageEvents = 0x200000000"
definition P_ManageThreads :: ePermission where "P_ManageThreads = 0x400000000"
definition P_CreatePublicThreads :: ePermission where "P_CreatePublicThreads = 0x800000000"
definition P_CreatePrivateThreads :: ePermission where "P_CreatePrivateThreads = 0x1000000000"
definition P_UseExternalStickers :: ePermission where "P_UseExternalStickers = 0x2000000000"
definition P_SendMessagesInThreads :: ePermission where "P_SendMessagesInThreads = 0x4000000000"
definition P_UseEmbeddedActivities :: ePermission where "P_UseEmbeddedActivities = 0x8000000000"
definition P_ModerateMembers :: ePermission where "P_ModerateMembers = 0x10000000000"
definition P_ViewCreatorMonetizationAnalytics :: ePermission where "P_ViewCreatorMonetizationAnalytics = 0x20000000000"
definition P_UseSoundboard :: ePermission where "P_UseSoundboard = 0x40000000000"
definition P_CreateGuildExpressions :: ePermission where "P_CreateGuildExpressions = 0x80000000000"
definition P_CreateEvents :: ePermission where "P_CreateEvents = 0x100000000000"
definition P_UseExternalSounds :: ePermission where "P_UseExternalSounds = 0x200000000000"
definition P_SendVoiceMessages :: ePermission where "P_SendVoiceMessages = 0x400000000000"
definition P_SendPolls :: ePermission where "P_SendPolls = 0x2000000000000"
definition P_UseExternalApps :: ePermission where "P_UseExternalApps = 0x4000000000000"
definition P_PinMessages :: ePermission where "P_PinMessages = 0x8000000000000"
definition P_BypassSlowmode :: ePermission where "P_BypassSlowmode = 0x10000000000000"

definition ms_names :: "string list" where
  "ms_names = [
   ''CREATE_INSTANT_INVITE'', ''KICK_MEMBERS'', ''BAN_MEMBERS'', ''ADMINISTRATOR'',
   ''MANAGE_CHANNELS'', ''MANAGE_GUILD'', ''ADD_REACTIONS'', ''VIEW_AUDIT_LOG'',
   ''PRIORITY_SPEAKER'', ''STREAM'', ''VIEW_CHANNEL'', ''SEND_MESSAGES'',
   ''SEND_TTS_MESSAGES'', ''MANAGE_MESSAGES'', ''EMBED_LINKS'', ''ATTACH_FILES'',
   ''READ_MESSAGE_HISTORY'', ''MENTION_EVERYONE'', ''USE_EXTERNAL_EMOJIS'', ''VIEW_GUILD_INSIGHTS'',
   ''CONNECT'', ''SPEAK'', ''MUTE_MEMBERS'', ''DEAFEN_MEMBERS'',
   ''MOVE_MEMBERS'', ''USE_VAD'', ''CHANGE_NICKNAME'', ''MANAGE_NICKNAMES'',
   ''MANAGE_ROLES'', ''MANAGE_WEBHOOKS'', ''MANAGE_GUILD_EXPRESSIONS'', ''USE_APPLICATION_COMMANDS'',
   ''REQUEST_TO_SPEAK'', ''MANAGE_EVENTS'', ''MANAGE_THREADS'', ''CREATE_PUBLIC_THREADS'',
   ''CREATE_PRIVATE_THREADS'', ''USE_EXTERNAL_STICKERS'', ''SEND_MESSAGES_IN_THREADS'', ''USE_EMBEDDED_ACTIVITIES'',
   ''MODERATE_MEMBERS'', ''VIEW_CREATOR_MONETIZATION_ANALYTICS'', ''USE_SOUNDBOARD'', ''CREATE_GUILD_EXPRESSIONS'',
   ''CREATE_EVENTS'', ''USE_EXTERNAL_SOUNDS'', ''SEND_VOICE_MESSAGES'', '''',
   '''', ''SEND_POLLS'', ''USE_EXTERNAL_APPS'', ''PIN_MESSAGES'',
   ''BYPASS_SLOWMODE'', '''', '''', '''',
   '''', '''', '''', '''',
   '''', '''', '''', '''']"

text \<open>The loop of \<open>FormatString\<close> over the bits \<open>is\<close> with the separator to print first.\<close>

fun FormatBits :: "ePermission \<Rightarrow> string \<Rightarrow> nat list \<Rightarrow> string" where
  "FormatBits perm sep [] = []"
| "FormatBits perm sep (i # is) =
     (if perm AND push_bit i 1 \<noteq> 0 then
        let name = ms_names ! i
        in sep @ (if name = [] then ''UNKNOWN_'' @ to_dec i else name) @ FormatBits perm '' | '' is
      else FormatBits perm sep is)"

definition FormatString :: "ePermission \<Rightarrow> string" where
  "FormatString self =
     (if TestAny self P_Administrator then ms_names ! 3
      else FormatBits self [] [0..<64])"

definition permission_of_text :: "string \<Rightarrow> errc + ePermission" where
  "permission_of_text s = bindS (ParseInt_u64 s) (\<lambda>v. Inr (word_of_int v))"

section \<open>Lemmas\<close>

lemma TestAll_bits: "TestAll self flags \<longleftrightarrow> (\<forall>n. bit flags n \<longrightarrow> bit self n)"
  unfolding TestAll_def bit_eq_iff [of "self AND flags"] by (auto simp: bit_and_iff dest: bit_imp_le_length)

lemma TestAny_bits: "TestAny self flags \<longleftrightarrow> (\<exists>n. bit flags n \<and> bit self n)"
  unfolding TestAny_def flags_Any_def bit_eq_iff [of "self AND flags"] by (auto simp: bit_and_iff dest: bit_imp_le_length)

lemma TestNone_bits: "TestNone self flags \<longleftrightarrow> (\<forall>n. bit flags n \<longrightarrow> \<not> bit self n)"
  unfolding TestNone_def flags_None_def bit_eq_iff [of "self AND flags"] by (auto simp: bit_and_iff dest: bit_imp_le_length)

definition bit_name :: "nat \<Rightarrow> string" where
  "bit_name i = (if ms_names ! i = [] then ''UNKNOWN_'' @ to_dec i else ms_names ! i)"

fun join :: "string \<Rightarrow> string list \<Rightarrow> string" where
  "join sep [] = []"
| "join sep [x] = x"
| "join sep (x # xs) = x @ sep @ join sep xs"

lemma join_Cons: "join sep (x # xs) = x @ (if xs = [] then [] else sep @ join sep xs)"
  by (cases xs) simp_all

lemma and_push_bit: "(perm :: u64) AND push_bit i 1 \<noteq> 0 \<longleftrightarrow> bit perm i"
  by (simp add: push_bit_of_1 and_exp_eq_0_iff_not_bit)

lemma FormatBits_join:
  "FormatBits perm sep is =
     (let names = map bit_name (filter (bit perm) is) in if names = [] then [] else sep @ join '' | '' names)"
  by (induction perm sep "is" rule: FormatBits.induct) (simp_all add: Let_def and_push_bit join_Cons bit_name_def del: push_bit_of_1)

section \<open>Properties\<close>

text \<open>
  The printed form of a permission set is the name of Administrator when that bit is
  set, which grants everything, and otherwise the names of exactly the set bits, lowest
  first, separated by bars.
\<close>

theorem permission_text:
  "FormatString p =
     (if bit p 3 then ''ADMINISTRATOR'' else join '' | '' (map bit_name (filter (bit p) [0..<64])))"
proof -
  have "TestAny p P_Administrator \<longleftrightarrow> bit p 3"
    using and_push_bit [of p 3] by (simp add: TestAny_def flags_Any_def P_Administrator_def push_bit_eq_mult)
  then show ?thesis by (simp add: FormatString_def FormatBits_join Let_def ms_names_def)
qed

end
