(* ===== verification/Txn.thy ===== *)
theory Txn
  imports Prelude
begin

text \<open>
  Transactions and statement execution (Database/Database.h, Database.cpp and the
  \<open>prepare\<close>/\<open>step\<close> wrappers of SQLite.cpp). The SQLite engine itself is a parameter: what
  it answers to the next calls is a list of outcomes in the state, an exhausted list
  meaning that every later call succeeds. A session is the view of one connection: what
  is committed, what the open transaction has written, whether the transaction object
  owns a connection and whether the global connection is in the pool.
\<close>

section \<open>Sessions\<close>

datatype sqlerr = SQLITE_BUSY | SQLITE_CONSTRAINT | SQLITE_INTERNAL | SQLITE_OTHER int

text \<open>
  A call succeeds, fails and leaves the transaction as it is, or fails after the engine
  has rolled the whole transaction back by itself.
\<close>

datatype outcome = Ran | Fails sqlerr | Aborts sqlerr

record 'd session =
  committed :: 'd
  working :: "'d option"
  handle :: bool
  pooled :: bool
  engine :: "outcome list"
  clock :: nat

definition autocommit :: "'d session \<Rightarrow> bool" where
  "autocommit s \<longleftrightarrow> working s = None"

definition visible :: "'d session \<Rightarrow> 'd" where
  "visible s = (case working s of None \<Rightarrow> committed s | Some d \<Rightarrow> d)"

definition write_db :: "'d \<Rightarrow> 'd session \<Rightarrow> 'd session" where
  "write_db d s = (if autocommit s then s\<lparr>committed := d\<rparr> else s\<lparr>working := Some d\<rparr>)"

text \<open>One call of the engine; the result is a \<open>std::error_code\<close>, \<open>None\<close> when it is clear.\<close>

definition engine_call :: "'d session \<Rightarrow> sqlerr option \<times> 'd session" where
  "engine_call s =
     (case engine s of
        [] \<Rightarrow> (None, s)
      | Ran # os \<Rightarrow> (None, s\<lparr>engine := os\<rparr>)
      | Fails e # os \<Rightarrow> (Some e, s\<lparr>engine := os\<rparr>)
      | Aborts e # os \<Rightarrow> (Some e, s\<lparr>engine := os, working := None\<rparr>))"

text \<open>Prepare a statement and, while no error is set, step it to its end.\<close>

definition run_control :: "('d session \<Rightarrow> 'd session) \<Rightarrow> 'd session \<Rightarrow> sqlerr option \<times> 'd session" where
  "run_control eff s =
     (case engine_call s of
        (Some e, s1) \<Rightarrow> (Some e, s1)
      | (None, s1) \<Rightarrow> (case engine_call s1 of
          (Some e, s2) \<Rightarrow> (Some e, s2)
        | (None, s2) \<Rightarrow> (None, eff s2)))"

section \<open>Transactions\<close>

definition begin_impl :: "'d session \<Rightarrow> sqlerr option \<times> 'd session" where
  "begin_impl s =
     (if \<not> handle s \<or> \<not> autocommit s then (None, s)
      else run_control (\<lambda>s. s\<lparr>working := Some (committed s)\<rparr>) s)"

definition commit_impl :: "'d session \<Rightarrow> sqlerr option \<times> 'd session" where
  "commit_impl s =
     (if \<not> handle s \<or> autocommit s then (None, s)
      else run_control (\<lambda>s. s\<lparr>committed := visible s, working := None\<rparr>) s)"

definition rollback_impl :: "'d session \<Rightarrow> sqlerr option \<times> 'd session" where
  "rollback_impl s =
     (if \<not> handle s \<or> autocommit s then (None, s)
      else run_control (\<lambda>s. s\<lparr>working := None\<rparr>) s)"

definition dbWait :: "nat \<Rightarrow> 'd session \<Rightarrow> 'd session" where
  "dbWait ms s = s\<lparr>clock := clock s + ms\<rparr>"

text \<open>The retry loops; the number is what is left of the 100 rounds.\<close>

fun Begin_retry :: "nat \<Rightarrow> sqlerr option \<Rightarrow> 'd session \<Rightarrow> sqlerr option \<times> 'd session" where
  "Begin_retry 0 ec s = (ec, s)"
| "Begin_retry (Suc n) ec s =
     (if ec \<noteq> Some SQLITE_BUSY then (ec, s)
      else case rollback_impl s of
        (Some e, s1) \<Rightarrow> (Some e, s1)
      | (None, s1) \<Rightarrow> (case begin_impl (dbWait 100 s1) of (ec', s2) \<Rightarrow> Begin_retry n ec' s2))"

definition Begin :: "'d session \<Rightarrow> sqlerr option \<times> 'd session" where
  "Begin s = (case begin_impl s of (ec, s1) \<Rightarrow> Begin_retry 100 ec s1)"

fun Commit_retry :: "nat \<Rightarrow> sqlerr option \<Rightarrow> 'd session \<Rightarrow> sqlerr option \<times> 'd session" where
  "Commit_retry 0 ec s = (ec, s)"
| "Commit_retry (Suc n) ec s =
     (if ec \<noteq> Some SQLITE_BUSY then (ec, s)
      else case commit_impl (dbWait 100 s) of (ec', s1) \<Rightarrow> Commit_retry n ec' s1)"

definition Commit :: "'d session \<Rightarrow> sqlerr option \<times> 'd session" where
  "Commit s = (case commit_impl s of (ec, s1) \<Rightarrow> Commit_retry 100 ec s1)"

definition Rollback :: "'d session \<Rightarrow> sqlerr option \<times> 'd session" where
  "Rollback s = rollback_impl s"

text \<open>The overloads without an error code throw it.\<close>

definition throwing :: "('d session \<Rightarrow> sqlerr option \<times> 'd session) \<Rightarrow> 'd session \<Rightarrow> (sqlerr + unit) \<times> 'd session" where
  "throwing f s = (case f s of (None, s1) \<Rightarrow> (Inr (), s1) | (Some e, s1) \<Rightarrow> (Inl e, s1))"

text \<open>
  \<open>Close\<close>: the connection goes back to the pool when the rollback succeeds and is closed
  otherwise; closing a connection discards its open transaction.
\<close>

definition Close :: "'d session \<Rightarrow> 'd session" where
  "Close s =
     (if handle s then
        (case rollback_impl s of
           (Some e, s1) \<Rightarrow> s1\<lparr>working := None, handle := False\<rparr>
         | (None, s1) \<Rightarrow> s1\<lparr>handle := False, pooled := True\<rparr>)
      else s)"

text \<open>A new transaction takes the pooled connection or opens one, which may throw.\<close>

definition New :: "'d session \<Rightarrow> (sqlerr + unit) \<times> 'd session" where
  "New s =
     (if pooled s then (Inr (), s\<lparr>pooled := False, handle := True\<rparr>)
      else case engine_call s of
        (None, s1) \<Rightarrow> (Inr (), s1\<lparr>handle := True\<rparr>)
      | (Some e, s1) \<Rightarrow> (Inl e, s1))"

text \<open>\<open>ReleaseConnection\<close>: the connection to hand over, if the rollback succeeded.\<close>

definition ReleaseConnection :: "'d session \<Rightarrow> bool \<times> 'd session" where
  "ReleaseConnection s =
     (case rollback_impl s of
        (Some e, s1) \<Rightarrow> (False, s1)
      | (None, s1) \<Rightarrow> (handle s1, s1\<lparr>handle := False\<rparr>))"

section \<open>Statements\<close>

text \<open>
  A prepared statement on the database that the session sees: it fails as a whole or
  returns its rows with the new contents.
\<close>

type_synonym ('d, 'r) query = "'d \<Rightarrow> sqlerr + 'r \<times> 'd"

definition statement :: "('d, 'r) query \<Rightarrow> 'd session \<Rightarrow> (sqlerr + 'r) \<times> 'd session" where
  "statement q s =
     (case engine_call s of
        (Some e, s1) \<Rightarrow> (Inl e, s1)
      | (None, s1) \<Rightarrow> (case engine_call s1 of
          (Some e, s2) \<Rightarrow> (Inl e, s2)
        | (None, s2) \<Rightarrow> (case q (visible s2) of
            Inl e \<Rightarrow> (Inl e, s2)
          | Inr (r, d) \<Rightarrow> (Inr r, write_db d s2))))"

text \<open>
  \<open>cBaseDAO::Exec\<close>: a busy error rolls the current transaction back, waits and invokes
  the function again, up to 300 attempts in all.
\<close>

function Exec_loop :: "nat \<Rightarrow> ('d session \<Rightarrow> (sqlerr + 'r) \<times> 'd session) \<Rightarrow> 'd session \<Rightarrow> (sqlerr + 'r) \<times> 'd session" where
  "Exec_loop i f s =
     (case f s of
        (Inr r, s1) \<Rightarrow> (Inr r, s1)
      | (Inl e, s1) \<Rightarrow>
          if e \<noteq> SQLITE_BUSY \<or> i + 1 \<ge> 300 then (Inl e, s1)
          else case throwing Rollback s1 of
            (Inl e', s2) \<Rightarrow> (Inl e', s2)
          | (Inr _, s2) \<Rightarrow> Exec_loop (i + 1) f (dbWait 100 s2))"
  by pat_completeness auto
termination
  by (relation "measure (\<lambda>(i, f, s). 300 - i)") auto

declare Exec_loop.simps [simp del]

definition Exec :: "('d, 'r) query \<Rightarrow> 'd session \<Rightarrow> (sqlerr + 'r) \<times> 'd session" where
  "Exec q s = Exec_loop 0 (statement q) s"

section \<open>What a call can change\<close>

definition not_busy :: "'d session \<Rightarrow> bool" where
  "not_busy s \<longleftrightarrow> Fails SQLITE_BUSY \<notin> set (engine s) \<and> Aborts SQLITE_BUSY \<notin> set (engine s)"

lemma engine_call_frame:
  assumes "engine_call s = (ec, s')"
  shows "committed s' = committed s" and "handle s' = handle s" and "pooled s' = pooled s" and "clock s' = clock s"
    and "ec = None \<Longrightarrow> working s' = working s" and "working s' = working s \<or> working s' = None"
    and "not_busy s \<Longrightarrow> not_busy s'" and "not_busy s \<Longrightarrow> ec \<noteq> Some SQLITE_BUSY"
  using assms by (auto simp: engine_call_def not_busy_def split: list.splits outcome.splits)

text \<open>An invariant of the contents holds for what is committed and for what is written.\<close>

definition sess_inv :: "('d \<Rightarrow> bool) \<Rightarrow> 'd session \<Rightarrow> bool" where
  "sess_inv P s \<longleftrightarrow> P (committed s) \<and> (\<forall>d. working s = Some d \<longrightarrow> P d)"

lemma sess_inv_visible: "sess_inv P s \<Longrightarrow> P (visible s)"
  by (auto simp: sess_inv_def visible_def split: option.splits)

lemma sess_inv_write: "sess_inv P s \<Longrightarrow> P d \<Longrightarrow> sess_inv P (write_db d s)"
  by (auto simp: sess_inv_def write_db_def autocommit_def)

lemma sess_inv_engine: "engine_call s = (ec, s') \<Longrightarrow> sess_inv P s \<Longrightarrow> sess_inv P s'"
  using engine_call_frame(1,6) [of s ec s'] by (auto simp: sess_inv_def)

lemma sess_inv_upd [simp]:
  "sess_inv P (s\<lparr>handle := h\<rparr>) = sess_inv P s" "sess_inv P (s\<lparr>pooled := b\<rparr>) = sess_inv P s"
  "sess_inv P (dbWait n s) = sess_inv P s" "sess_inv P s \<Longrightarrow> sess_inv P (s\<lparr>working := None\<rparr>)"
  by (simp_all add: sess_inv_def dbWait_def)

lemma sess_inv_run_control:
  assumes "sess_inv P s" "\<And>s. sess_inv P s \<Longrightarrow> sess_inv P (eff s)" "run_control eff s = (ec, s')"
  shows "sess_inv P s'"
  using assms by (auto simp: run_control_def split: prod.splits option.splits dest: sess_inv_engine)

lemma sess_inv_start: "sess_inv P s \<Longrightarrow> sess_inv P (s\<lparr>working := Some (committed s)\<rparr>)"
  by (simp add: sess_inv_def)

lemma sess_inv_finish: "sess_inv P s \<Longrightarrow> sess_inv P (s\<lparr>committed := visible s, working := None\<rparr>)"
  by (simp add: sess_inv_def sess_inv_visible [unfolded sess_inv_def])

lemma sess_inv_begin: "begin_impl s = (ec, s') \<Longrightarrow> sess_inv P s \<Longrightarrow> sess_inv P s'"
  unfolding begin_impl_def by (auto split: if_splits elim!: sess_inv_run_control [rotated 2] intro: sess_inv_start)

lemma sess_inv_commit: "commit_impl s = (ec, s') \<Longrightarrow> sess_inv P s \<Longrightarrow> sess_inv P s'"
  unfolding commit_impl_def
  by (auto split: if_splits elim!: sess_inv_run_control [rotated 2] intro: sess_inv_finish)

lemma sess_inv_rollback: "rollback_impl s = (ec, s') \<Longrightarrow> sess_inv P s \<Longrightarrow> sess_inv P s'"
  unfolding rollback_impl_def by (auto split: if_splits elim!: sess_inv_run_control [rotated 2])

lemma sess_inv_begin_wait: "begin_impl (dbWait n s) = (ec, s') \<Longrightarrow> sess_inv P s \<Longrightarrow> sess_inv P s'"
  using sess_inv_begin [of "dbWait n s"] by simp

lemma sess_inv_commit_wait: "commit_impl (dbWait n s) = (ec, s') \<Longrightarrow> sess_inv P s \<Longrightarrow> sess_inv P s'"
  using sess_inv_commit [of "dbWait n s"] by simp

lemma sess_inv_Begin_retry: "sess_inv P s \<Longrightarrow> sess_inv P (snd (Begin_retry n ec s))"
proof (induction n arbitrary: ec s)
  case (Suc n)
  obtain e1 s1 where rb: "rollback_impl s = (e1, s1)" by fastforce
  obtain e2 s2 where bg: "begin_impl (dbWait 100 s1) = (e2, s2)" by fastforce
  have "sess_inv P s1" using rb Suc.prems by (rule sess_inv_rollback)
  moreover from bg this have "sess_inv P s2" by (rule sess_inv_begin_wait)
  ultimately show ?case using Suc.IH [of s2 e2] Suc.prems rb bg by (simp split: option.splits)
qed simp

lemma sess_inv_Begin: "sess_inv P s \<Longrightarrow> sess_inv P (snd (Begin s))"
  by (auto simp: Begin_def split: prod.splits dest: sess_inv_begin sess_inv_Begin_retry)

lemma sess_inv_Commit_retry: "sess_inv P s \<Longrightarrow> sess_inv P (snd (Commit_retry n ec s))"
proof (induction n arbitrary: ec s)
  case (Suc n)
  obtain e1 s1 where cm: "commit_impl (dbWait 100 s) = (e1, s1)" by fastforce
  from cm Suc.prems have "sess_inv P s1" by (rule sess_inv_commit_wait)
  then show ?case using Suc.IH [of s1 e1] Suc.prems cm by simp
qed simp

lemma sess_inv_Commit: "sess_inv P s \<Longrightarrow> sess_inv P (snd (Commit s))"
  by (auto simp: Commit_def split: prod.splits dest: sess_inv_commit sess_inv_Commit_retry)

lemma sess_inv_Rollback: "sess_inv P s \<Longrightarrow> sess_inv P (snd (Rollback s))"
  by (cases "rollback_impl s") (auto simp: Rollback_def dest: sess_inv_rollback)

lemma sess_inv_Close: "sess_inv P s \<Longrightarrow> sess_inv P (Close s)"
  by (auto simp: Close_def split: prod.splits option.splits dest: sess_inv_rollback)

lemma sess_inv_New: "sess_inv P s \<Longrightarrow> sess_inv P (snd (New s))"
  by (auto simp: New_def split: prod.splits option.splits dest: sess_inv_engine)

lemmas sess_inv_control = sess_inv_Begin sess_inv_Commit sess_inv_Rollback sess_inv_Close sess_inv_New

section \<open>The contract of a query\<close>

text \<open>
  What the access objects promise of each query: it keeps the invariant of the tables and
  never reports a busy error of its own, which only the engine does. The client is the
  execution of the query in a session, with its retries.
\<close>

locale dao_query =
  fixes q :: "('d, 'r) query"
    and inv :: "'d \<Rightarrow> bool"
  assumes q_inv: "inv d \<Longrightarrow> q d = Inr (r, d') \<Longrightarrow> inv d'"
    and q_not_busy: "q d \<noteq> Inl SQLITE_BUSY"
begin

lemma statement_inv: "statement q s = (res, s') \<Longrightarrow> sess_inv inv s \<Longrightarrow> sess_inv inv s'"
  by (auto simp: statement_def split: prod.splits option.splits sum.splits
      dest!: sess_inv_engine [where P = inv] dest: q_inv [OF sess_inv_visible] intro!: sess_inv_write)

lemma Exec_loop_inv: "sess_inv inv s \<Longrightarrow> sess_inv inv (snd (Exec_loop i (statement q) s))"
proof (induction "300 - i" arbitrary: i s rule: less_induct)
  case less
  obtain res s1 where st: "statement q s = (res, s1)" by fastforce
  note inv1 = statement_inv [OF st less.prems]
  show ?case
  proof (cases res)
    case (Inl e)
    obtain ec s2 where rb: "rollback_impl s1 = (ec, s2)" by fastforce
    from sess_inv_rollback [OF rb inv1] st Inl inv1 rb less.hyps [of "i + 1" "dbWait 100 s2"] show ?thesis
      by (subst Exec_loop.simps) (auto simp: throwing_def Rollback_def split: option.splits)
  qed (use st inv1 in \<open>subst Exec_loop.simps, simp\<close>)
qed

lemma Exec_inv: "sess_inv inv s \<Longrightarrow> sess_inv inv (snd (Exec q s))"
  unfolding Exec_def by (rule Exec_loop_inv)

end

section \<open>Retries\<close>

lemma throwing_fst: "throwing f s = (Inl e, s') \<longleftrightarrow> f s = (Some e, s')" "throwing f s = (Inr u, s') \<longleftrightarrow> f s = (None, s')"
  by (auto simp: throwing_def split: prod.splits option.splits)

lemma run_control_frame:
  assumes "run_control eff s = (ec, s')" "\<And>s. clock (eff s) = clock s"
  shows "clock s' = clock s"
  using assms by (auto simp: run_control_def dest!: engine_call_frame(4) split: prod.splits option.splits)

lemma rollback_clock: "rollback_impl s = (ec, s') \<Longrightarrow> clock s' = clock s"
  by (auto simp: rollback_impl_def split: if_splits dest: run_control_frame)

lemma statement_clock: "statement q s = (res, s') \<Longrightarrow> clock s' = clock s"
  by (auto simp: statement_def write_db_def dest!: engine_call_frame(4) split: prod.splits option.splits sum.splits)

lemma Exec_loop_clock: "i < 300 \<Longrightarrow> clock (snd (Exec_loop i (statement q) s)) \<le> clock s + 100 * (299 - i)"
proof (induction "300 - i" arbitrary: i s rule: less_induct)
  case less
  obtain res s1 where st: "statement q s = (res, s1)" by fastforce
  obtain ec s2 where rb: "rollback_impl s1 = (ec, s2)" by fastforce
  have c: "clock s1 = clock s" "clock s2 = clock s" using statement_clock [OF st] rollback_clock [OF rb] by simp_all
  show ?case
  proof (cases "\<exists>e. res = Inl e \<and> e = SQLITE_BUSY \<and> i + 1 < 300 \<and> ec = None")
    case True
    then have "Exec_loop i (statement q) s = Exec_loop (i + 1) (statement q) (dbWait 100 s2)"
      using st rb by (subst Exec_loop.simps) (simp add: throwing_def Rollback_def)
    moreover have "clock (snd (Exec_loop (i + 1) (statement q) (dbWait 100 s2))) \<le> clock (dbWait 100 s2) + 100 * (299 - (i + 1))"
      by (rule less.hyps) (use True in auto)
    moreover have "299 - i = Suc (298 - i)" using True by (auto simp: Suc_diff_Suc [symmetric])
    ultimately show ?thesis using c True by (simp add: dbWait_def)
  next
    case False
    then show ?thesis using st rb c
      by (subst Exec_loop.simps) (auto simp: throwing_def Rollback_def split: sum.splits option.splits)
  qed
qed

lemma engine_busy: "engine s = Fails SQLITE_BUSY # os \<Longrightarrow> engine_call s = (Some SQLITE_BUSY, s\<lparr>engine := os\<rparr>)"
  by (simp add: engine_call_def)

lemma engine_done: "engine s = [] \<Longrightarrow> engine_call s = (None, s)"
  by (simp add: engine_call_def)

lemma rollback_autocommit: "autocommit s \<Longrightarrow> rollback_impl s = (None, s)"
  by (simp add: rollback_impl_def)

lemma Exec_loop_busy:
  assumes "autocommit s" "q (committed s) = Inr (r, d)" "engine s = replicate k (Fails SQLITE_BUSY)" "i < 300"
  shows "Exec_loop i (statement q) s =
    (if k + i < 300 then (Inr r, s\<lparr>committed := d, engine := [], clock := clock s + 100 * k\<rparr>)
     else (Inl SQLITE_BUSY, s\<lparr>engine := replicate (k + i - 300) (Fails SQLITE_BUSY), clock := clock s + 100 * (299 - i)\<rparr>))"
  using assms
proof (induction k arbitrary: i s)
  case 0
  then show ?case
    by (subst Exec_loop.simps) (simp add: statement_def engine_done visible_def autocommit_def write_db_def)
next
  case (Suc k)
  let ?s = "s\<lparr>engine := replicate k (Fails SQLITE_BUSY)\<rparr>"
  have st: "statement q s = (Inl SQLITE_BUSY, ?s)" using Suc.prems by (simp add: statement_def engine_busy)
  have rb: "rollback_impl ?s = (None, ?s)" using Suc.prems by (intro rollback_autocommit) (simp add: autocommit_def)
  show ?case
  proof (cases "i + 1 < 300")
    case True
    have "Exec_loop i (statement q) s = Exec_loop (i + 1) (statement q) (dbWait 100 ?s)"
      using st rb True by (subst Exec_loop.simps) (simp add: throwing_def Rollback_def)
    moreover note Suc.IH [of "dbWait 100 ?s" "i + 1"]
    ultimately show ?thesis using Suc.prems True by (auto simp: dbWait_def autocommit_def)
  next
    case False
    then show ?thesis using st Suc.prems(4) by (subst Exec_loop.simps) (simp add: dbWait_def)
  qed
qed

lemma begin_busy: "autocommit s \<Longrightarrow> handle s \<Longrightarrow> engine s = Fails SQLITE_BUSY # os \<Longrightarrow>
  begin_impl s = (Some SQLITE_BUSY, s\<lparr>engine := os\<rparr>)"
  by (simp add: begin_impl_def run_control_def engine_busy)

lemma begin_done: "autocommit s \<Longrightarrow> handle s \<Longrightarrow> engine s = [] \<Longrightarrow>
  begin_impl s = (None, s\<lparr>working := Some (committed s)\<rparr>)"
  by (simp add: begin_impl_def run_control_def engine_done)

lemma Begin_retry_busy:
  assumes "autocommit s" "handle s" "engine s = replicate k (Fails SQLITE_BUSY)" "k < n"
  shows "Begin_retry n (Some SQLITE_BUSY) s =
    (None, s\<lparr>working := Some (committed s), engine := [], clock := clock s + 100 * (k + 1)\<rparr>)"
  using assms
proof (induction n arbitrary: k s)
  case (Suc n)
  show ?case
  proof (cases k)
    case 0
    then show ?thesis using Suc.prems
      by (cases n) (simp_all add: rollback_autocommit begin_done dbWait_def autocommit_def)
  next
    case (Suc k')
    have "Begin_retry (Suc n) (Some SQLITE_BUSY) s =
      Begin_retry n (Some SQLITE_BUSY) (dbWait 100 s\<lparr>engine := replicate k' (Fails SQLITE_BUSY)\<rparr>)"
      using Suc Suc.prems by (simp add: rollback_autocommit begin_busy dbWait_def autocommit_def)
    then show ?thesis using Suc Suc.prems Suc.IH [of _ k'] by (simp add: dbWait_def autocommit_def)
  qed
qed simp

section \<open>All or nothing\<close>

text \<open>The queries of a handler between \<open>Begin\<close> and \<open>Commit\<close>, up to the first that throws.\<close>

fun exec_all :: "('d, unit) query list \<Rightarrow> 'd session \<Rightarrow> (sqlerr + unit) \<times> 'd session" where
  "exec_all [] s = (Inr (), s)"
| "exec_all (q # qs) s =
     (case Exec q s of (Inl e, s1) \<Rightarrow> (Inl e, s1) | (Inr _, s1) \<Rightarrow> exec_all qs s1)"

definition unit_of_work :: "('d, unit) query list \<Rightarrow> 'd session \<Rightarrow> (sqlerr + unit) \<times> 'd session" where
  "unit_of_work qs s =
     (case throwing Begin s of
        (Inl e, s1) \<Rightarrow> (Inl e, s1)
      | (Inr _, s1) \<Rightarrow> (case exec_all qs s1 of
          (Inl e, s2) \<Rightarrow> (Inl e, s2)
        | (Inr _, s2) \<Rightarrow> throwing Commit s2))"

fun run_queries :: "('d, unit) query list \<Rightarrow> 'd \<Rightarrow> sqlerr + 'd" where
  "run_queries [] d = Inr d"
| "run_queries (q # qs) d = bindS (q d) (\<lambda>(_, d'). run_queries qs d')"

lemma committed_rollback: "rollback_impl s = (ec, s') \<Longrightarrow> committed s' = committed s"
  by (auto simp: rollback_impl_def run_control_def dest!: engine_call_frame(1) split: if_splits prod.splits option.splits)

lemma committed_Close: "committed (Close s) = committed s"
  by (auto simp: Close_def dest!: committed_rollback split: prod.splits option.splits)

lemma Exec_not_busy:
  assumes "not_busy s" "\<And>d. q d \<noteq> Inl SQLITE_BUSY"
  shows "Exec q s = statement q s"
proof -
  have "fst (statement q s) \<noteq> Inl SQLITE_BUSY"
    using assms by (auto simp: statement_def dest: engine_call_frame(7,8) split: prod.splits option.splits sum.splits)
  then show ?thesis
    unfolding Exec_def by (subst Exec_loop.simps) (auto split: prod.splits sum.splits)
qed

lemma engine_call_all:
  "engine_call s = (ec, s') \<Longrightarrow> committed s' = committed s \<and> handle s' = handle s \<and> (not_busy s \<longrightarrow> not_busy s')
     \<and> (ec = None \<longrightarrow> working s' = working s)"
  using engine_call_frame [of s ec s'] by auto

lemma statement_in_txn:
  assumes "statement q s = (res, s')" "working s = Some d" "handle s" "not_busy s"
  shows "committed s' = committed s \<and> handle s' \<and> not_busy s' \<and>
    (\<forall>r. res = Inr r \<longrightarrow> (\<exists>d'. q d = Inr (r, d') \<and> working s' = Some d'))"
  using assms
  by (auto simp: statement_def write_db_def autocommit_def visible_def dest!: engine_call_all
      split: prod.splits option.splits sum.splits) (auto simp: not_busy_def)

lemma exec_all_in_txn:
  assumes "working s = Some d" "handle s" "not_busy s" "\<forall>q \<in> set qs. \<forall>d. q d \<noteq> Inl SQLITE_BUSY"
    and "exec_all qs s = (res, s')"
  shows "committed s' = committed s \<and>
    (\<forall>r. res = Inr r \<longrightarrow> handle s' \<and> not_busy s' \<and> (\<exists>d'. run_queries qs d = Inr d' \<and> working s' = Some d'))"
  using assms
proof (induction qs arbitrary: s d)
  case (Cons q qs)
  obtain res1 s1 where st: "statement q s = (res1, s1)" by fastforce
  have ex: "Exec q s = (res1, s1)" using Exec_not_busy [of s q] Cons.prems st by simp
  note fr = statement_in_txn [OF st Cons.prems(1-3)]
  show ?case
  proof (cases res1)
    case (Inl e)
    then show ?thesis using Cons.prems(5) ex fr by auto
  next
    case (Inr u)
    then obtain d' where d': "q d = Inr (u, d')" "working s1 = Some d'" using fr by auto
    have rest: "exec_all qs s1 = (res, s')" using Cons.prems(5) ex Inr by simp
    from Cons.IH [OF d'(2) _ _ _ rest] fr Cons.prems(4) d' show ?thesis by auto
  qed
qed auto

lemma Begin_not_busy:
  assumes "not_busy s" "handle s" "autocommit s" "Begin s = (ec, s')"
  shows "committed s' = committed s \<and> (ec = None \<longrightarrow> working s' = Some (committed s) \<and> handle s' \<and> not_busy s')"
proof -
  obtain e1 s1 where b: "begin_impl s = (e1, s1)" by fastforce
  have "e1 \<noteq> Some SQLITE_BUSY" using b assms(1-3)
    by (auto simp: begin_impl_def run_control_def dest: engine_call_frame(7,8) split: prod.splits option.splits)
  then have "Begin s = (e1, s1)" using b by (simp add: Begin_def numeral_eq_Suc)
  then show ?thesis using b assms
    by (auto simp: begin_impl_def run_control_def not_busy_def dest!: engine_call_all split: prod.splits option.splits)
qed

lemma Commit_not_busy:
  assumes "not_busy s" "handle s" "working s = Some d" "Commit s = (ec, s')"
  shows "(ec = None \<longrightarrow> committed s' = d \<and> autocommit s') \<and> (ec \<noteq> None \<longrightarrow> committed s' = committed s)"
proof -
  obtain e1 s1 where b: "commit_impl s = (e1, s1)" by fastforce
  have "e1 \<noteq> Some SQLITE_BUSY" using b assms(1-3)
    by (auto simp: commit_impl_def autocommit_def run_control_def dest: engine_call_frame(7,8) split: prod.splits option.splits)
  then have "Commit s = (e1, s1)" using b by (simp add: Commit_def numeral_eq_Suc)
  then show ?thesis using b assms
    by (auto simp: commit_impl_def run_control_def autocommit_def visible_def dest!: engine_call_all
        split: prod.splits option.splits)
qed

section \<open>Properties\<close>

text \<open>
  C2: when the engine reports no busy error, a unit of work between \<open>Begin\<close> and \<open>Commit\<close>
  is all or nothing: if it returns, exactly the composition of its queries has been
  committed, and if it throws, closing the transaction leaves what was committed before.
\<close>

theorem transaction_all_or_nothing:
  assumes "handle s" and "autocommit s" and "not_busy s" and "\<forall>q \<in> set qs. \<forall>d. q d \<noteq> Inl SQLITE_BUSY"
    and "unit_of_work qs s = (res, s')"
  shows "case res of Inr _ \<Rightarrow> run_queries qs (committed s) = Inr (committed s') \<and> autocommit s'
    | Inl _ \<Rightarrow> committed (Close s') = committed s"
proof -
  obtain e1 s1 where b: "Begin s = (e1, s1)" by fastforce
  note b' = Begin_not_busy [OF assms(3,1,2) b]
  show ?thesis
  proof (cases e1)
    case None
    obtain r2 s2 where x: "exec_all qs s1 = (r2, s2)" by fastforce
    have x': "committed s2 = committed s1 \<and> (\<forall>r. r2 = Inr r \<longrightarrow> handle s2 \<and> not_busy s2 \<and>
       (\<exists>d'. run_queries qs (committed s) = Inr d' \<and> working s2 = Some d'))"
      by (rule exec_all_in_txn) (use b' None assms(4) x in auto)
    show ?thesis
    proof (cases r2)
      case (Inl e)
      then show ?thesis using assms(5) b None x x' b' by (auto simp: unit_of_work_def throwing_def committed_Close)
    next
      case (Inr u)
      obtain e3 s3 where c: "Commit s2 = (e3, s3)" by fastforce
      from x' Inr obtain d' where d': "run_queries qs (committed s) = Inr d'" "working s2 = Some d'"
        and h: "handle s2" "not_busy s2" by auto
      from Commit_not_busy [OF h(2,1) d'(2) c] show ?thesis
        using assms(5) b None x Inr c d' x' b'
        by (auto simp: unit_of_work_def throwing_def committed_Close split: option.splits)
    qed
  qed (use assms(5) b b' in \<open>auto simp: unit_of_work_def throwing_def committed_Close\<close>)
qed

theorem transaction_all_or_nothing_witness:
  "let s = \<lparr>committed = 1, working = None, handle = True, pooled = False, engine = [Ran, Ran, Ran, Fails SQLITE_CONSTRAINT], clock = 0\<rparr>;
       r = unit_of_work [\<lambda>d. Inr ((), d + 1)] s in committed (Close (snd r)) = (1 :: nat)"
proof -
  let ?s = "\<lparr>committed = (1 :: nat), working = None, handle = True, pooled = False,
    engine = [Ran, Ran, Ran, Fails SQLITE_CONSTRAINT], clock = 0\<rparr>"
  let ?q = "\<lambda>d :: nat. (Inr ((), d + 1) :: sqlerr + unit \<times> nat)"
  obtain res s' where r: "unit_of_work [?q] ?s = (res, s')" by fastforce
  have "\<exists>e. fst (unit_of_work [?q] ?s) = Inl e"
    by (simp add: unit_of_work_def throwing_def Begin_def begin_impl_def run_control_def engine_call_def autocommit_def
        Exec_def Exec_loop.simps statement_def numeral_eq_Suc)
  with r transaction_all_or_nothing [OF _ _ _ _ r] show ?thesis
    by (auto simp: not_busy_def autocommit_def)
qed

text \<open>
  C39: a busy error on a statement inside a transaction makes \<open>Exec\<close> roll the transaction
  back and run the statement again on its own: what the transaction had written is lost,
  while the statement itself is committed at once, before any \<open>Commit\<close>.
\<close>

theorem exec_busy_leaves_transaction:
  assumes "handle s" and "working s = Some d" and "engine s = [Ran, Fails SQLITE_BUSY]"
    and "q (committed s) = Inr (r, d')"
  shows "Exec q s = (Inr r, s\<lparr>committed := d', working := None, engine := [], clock := clock s + 100\<rparr>)"
proof -
  let ?s = "s\<lparr>engine := []\<rparr>"
  have "statement q s = (Inl SQLITE_BUSY, ?s)" using assms(3) by (simp add: statement_def engine_call_def)
  moreover have "rollback_impl ?s = (None, ?s\<lparr>working := None\<rparr>)"
    using assms(1,2) by (simp add: rollback_impl_def autocommit_def run_control_def engine_done)
  ultimately have "Exec q s = Exec_loop 1 (statement q) (dbWait 100 (?s\<lparr>working := None\<rparr>))"
    unfolding Exec_def by (subst Exec_loop.simps) (simp add: throwing_def Rollback_def)
  also have "\<dots> = (Inr r, s\<lparr>committed := d', working := None, engine := [], clock := clock s + 100\<rparr>)"
    using Exec_loop_busy [of "dbWait 100 (?s\<lparr>working := None\<rparr>)" q r d' 0 1] assms(4)
    by (simp add: dbWait_def autocommit_def)
  finally show ?thesis .
qed

theorem exec_busy_leaves_transaction_witness:
  "Exec (\<lambda>d. Inr ((), ''write 2'' # d))
     \<lparr>committed = [], working = Some [''write 1''], handle = True, pooled = False,
        engine = [Ran, Fails SQLITE_BUSY], clock = 0\<rparr> =
   (Inr (), \<lparr>committed = [''write 2''], working = None, handle = True, pooled = False, engine = [], clock = 100\<rparr>)"
  by (subst exec_busy_leaves_transaction) simp_all

text \<open>
  Outside a transaction a query survives 299 busy answers of the engine in a row,
  waiting a tenth of a second after each, and is then applied once; after the 300th it
  gives up with the busy error. In all cases it waits less than 30 seconds.
\<close>

theorem exec_retries:
  assumes "autocommit s" and "q (committed s) = Inr (r, d)" and "engine s = replicate k (Fails SQLITE_BUSY)"
  shows "Exec q s =
    (if k < 300 then (Inr r, s\<lparr>committed := d, engine := [], clock := clock s + 100 * k\<rparr>)
     else (Inl SQLITE_BUSY, s\<lparr>engine := replicate (k - 300) (Fails SQLITE_BUSY), clock := clock s + 29900\<rparr>))"
  using Exec_loop_busy [of s q r d k 0, OF assms] by (simp add: Exec_def)

theorem exec_retries_witness:
  "clock (snd (Exec (\<lambda>d. Inr ((), d + 1)) \<lparr>committed = (0 :: nat), working = None, handle = True, pooled = False,
     engine = replicate 299 (Fails SQLITE_BUSY), clock = 0\<rparr>)) = 29900"
  by (subst exec_retries [where k = 299 and d = 1]) (simp_all add: autocommit_def)

text \<open>Whatever the engine answers, one query keeps its caller waiting less than 30 seconds.\<close>

theorem exec_wait_bound: "clock (snd (Exec q s)) \<le> clock s + 29900"
  using Exec_loop_clock [of 0 q s] by (simp add: Exec_def)

end
