(* ===== verification/Tables.thy ===== *)
theory Tables
  imports Prelude
begin

text \<open>
  Database tables: the rows under their primary key, in the order of the key as the
  engine's B-tree keeps and scans them. The tables are used through the contract of a
  keyed table.
\<close>

type_synonym ('k, 'r) table = "('k \<times> 'r) list"

fun tput :: "'k::linorder \<Rightarrow> 'r \<Rightarrow> ('k, 'r) table \<Rightarrow> ('k, 'r) table" where
  "tput k r [] = [(k, r)]"
| "tput k r ((k', r') # t) =
     (if k < k' then (k, r) # (k', r') # t
      else if k = k' then (k, r) # t
      else (k', r') # tput k r t)"

definition tdel :: "'k \<Rightarrow> ('k, 'r) table \<Rightarrow> ('k, 'r) table" where
  "tdel k t = filter (\<lambda>(k', _). k' \<noteq> k) t"

text \<open>\<open>DELETE ... WHERE\<close>: the rows that stay are those for which the condition fails.\<close>

definition tdel_where :: "('k \<Rightarrow> 'r \<Rightarrow> bool) \<Rightarrow> ('k, 'r) table \<Rightarrow> ('k, 'r) table" where
  "tdel_where P t = filter (\<lambda>(k, r). \<not> P k r) t"

text \<open>\<open>SELECT\<close> and \<open>RETURNING\<close> list the rows that satisfy the condition, in scan order.\<close>

definition tselect :: "('k \<Rightarrow> 'r \<Rightarrow> bool) \<Rightarrow> ('k, 'r) table \<Rightarrow> ('k \<times> 'r) list" where
  "tselect P t = filter (\<lambda>(k, r). P k r) t"

text \<open>\<open>UPDATE ... WHERE\<close> of columns outside the key.\<close>

definition tupd_where :: "('k \<Rightarrow> 'r \<Rightarrow> bool) \<Rightarrow> ('r \<Rightarrow> 'r) \<Rightarrow> ('k, 'r) table \<Rightarrow> ('k, 'r) table" where
  "tupd_where P f t = map (\<lambda>(k, r). (k, if P k r then f r else r)) t"

definition twf :: "('k::linorder, 'r) table \<Rightarrow> bool" where
  "twf t \<longleftrightarrow> sorted_wrt (<) (map fst t)"

section \<open>The contract of a keyed table\<close>

locale keyed_table =
  fixes get :: "'t \<Rightarrow> 'k \<Rightarrow> 'r option"
    and put :: "'k \<Rightarrow> 'r \<Rightarrow> 't \<Rightarrow> 't"
    and del :: "'k \<Rightarrow> 't \<Rightarrow> 't"
    and wf :: "'t \<Rightarrow> bool"
  assumes get_put: "wf t \<Longrightarrow> get (put k r t) = (get t)(k \<mapsto> r)"
    and get_del: "wf t \<Longrightarrow> get (del k t) = (get t)(k := None)"
    and wf_put: "wf t \<Longrightarrow> wf (put k r t)"
    and wf_del: "wf t \<Longrightarrow> wf (del k t)"
begin

lemma get_put_same: "wf t \<Longrightarrow> get (put k r t) k = Some r"
  by (simp add: get_put)

lemma get_put_other: "wf t \<Longrightarrow> k' \<noteq> k \<Longrightarrow> get (put k r t) k' = get t k'"
  by (simp add: get_put)

lemma get_put_put: "wf t \<Longrightarrow> get (put k r (put k r' t)) = get (put k r t)"
  by (simp add: get_put wf_put)

lemma get_del_put: "wf t \<Longrightarrow> get t k = None \<Longrightarrow> get (del k (put k r t)) = get t"
  by (auto simp: get_put get_del wf_put)

text \<open>A property of all rows is kept by every insertion of a row that has it.\<close>

lemma put_all:
  "wf t \<Longrightarrow> (\<And>k r. get t k = Some r \<Longrightarrow> P k r) \<Longrightarrow> P k r \<Longrightarrow> get (put k r t) k' = Some r' \<Longrightarrow> P k' r'"
  by (simp add: get_put split: if_splits)

lemma del_all:
  "wf t \<Longrightarrow> (\<And>k r. get t k = Some r \<Longrightarrow> P k r) \<Longrightarrow> get (del k t) k' = Some r' \<Longrightarrow> P k' r'"
  by (simp add: get_del split: if_splits)

end

section \<open>The tables satisfy it\<close>

lemma twf_Cons: "twf ((k, r) # t) \<longleftrightarrow> (\<forall>k' \<in> fst ` set t. k < k') \<and> twf t"
  by (auto simp: twf_def)

lemma twf_Nil [simp]: "twf []"
  by (simp add: twf_def)

lemma map_of_above: "\<forall>k' \<in> fst ` set t. k < k' \<Longrightarrow> map_of t (k :: 'k::linorder) = None"
  by (metis less_irrefl map_of_eq_None_iff)

lemma set_tput: "set (tput k r t) \<subseteq> insert (k, r) (set t)"
  by (induction k r t rule: tput.induct) auto

lemma twf_tput: "twf t \<Longrightarrow> twf (tput k r t)"
proof (induction k r t rule: tput.induct)
  case (2 k r k' r' t)
  show ?case
  proof (cases "k' < k")
    case True
    have "\<forall>x \<in> fst ` set (tput k r t). k' < x"
      using set_tput [of k r t] 2(2) True by (fastforce simp: twf_Cons)
    with 2 True show ?thesis by (auto simp: twf_Cons)
  qed (use 2 in \<open>auto simp: twf_Cons\<close>)
qed (simp add: twf_def)

lemma twf_filter: "twf t \<Longrightarrow> twf (filter P t)"
  by (auto simp: twf_def intro: sorted_wrt_filter [of _ _ "\<lambda>_. True"] simp flip: filter_map)
    (induction t; auto)

lemma map_of_tput: "twf t \<Longrightarrow> map_of (tput k r t) = (map_of t)(k \<mapsto> r)"
  by (induction k r t rule: tput.induct) (auto simp: twf_Cons fun_eq_iff)

lemma map_of_filter_keys: "map_of (filter (\<lambda>(k', _). k' \<noteq> k) t) = (map_of t)(k := None)"
  by (induction t) (auto simp: fun_eq_iff)

interpretation table: keyed_table map_of tput tdel twf
  by unfold_locales (simp_all add: map_of_tput twf_tput tdel_def map_of_filter_keys twf_filter)

lemma map_of_tupd_where: "map_of (tupd_where P f t) k = map_option (\<lambda>r. if P k r then f r else r) (map_of t k)"
  by (induction t) (auto simp: tupd_where_def)

lemma twf_tupd_where [simp]: "twf (tupd_where P f t) = twf t"
  by (simp add: twf_def tupd_where_def comp_def case_prod_beta)

lemma twf_tdel_where: "twf t \<Longrightarrow> twf (tdel_where P t)"
  by (simp add: tdel_where_def twf_filter)

lemma twf_distinct: "twf t \<Longrightarrow> distinct (map fst t)"
  by (simp add: twf_def strict_sorted_iff)

lemma map_of_tdel_where: "twf t \<Longrightarrow> map_of (tdel_where P t) k = (case map_of t k of Some r \<Rightarrow> if P k r then None else Some r | None \<Rightarrow> None)"
  by (induction t) (auto simp: tdel_where_def twf_Cons map_of_above split: option.splits)

lemma in_table: "twf t \<Longrightarrow> (k, r) \<in> set t \<longleftrightarrow> map_of t k = Some r"
  by (simp add: map_of_eq_Some_iff twf_distinct)

section \<open>Lists of rows\<close>

lemma find_SomeD: "find P xs = Some x \<Longrightarrow> x \<in> set xs \<and> P x"
  by (auto simp: find_Some_iff)

lemma filter_singleton: "distinct (map f xs) \<Longrightarrow> filter (\<lambda>x. f x = a) xs = (case find (\<lambda>x. f x = a) xs of None \<Rightarrow> [] | Some x \<Rightarrow> [x])"
proof (induction xs)
  case (Cons x xs)
  show ?case
  proof (cases "f x = a")
    case True
    then have "filter (\<lambda>x. f x = a) xs = []" using Cons.prems by (auto simp: filter_empty_conv image_iff)
    with True show ?thesis by simp
  qed (use Cons in simp)
qed simp

lemma map_enumerate_snd: "map (\<lambda>p. g (snd p)) (enumerate n xs) = map g xs"
  by (metis (no_types) map_map map_snd_enumerate comp_apply map_eq_conv)

lemma find_map: "find P (map f xs) = map_option f (find (P \<circ> f) xs)"
  by (induction xs) auto

lemma find_cong_set: "(\<And>x. x \<in> set xs \<Longrightarrow> P x = Q x) \<Longrightarrow> find P xs = find Q xs"
  by (induction xs) auto

lemma first_of_filter:
  "distinct (map f xs) \<Longrightarrow>
   (case filter (\<lambda>x. f x = a) xs of [] \<Rightarrow> None | x # _ \<Rightarrow> Some (h x)) = map_option h (find (\<lambda>x. f x = a) xs)"
  by (simp add: filter_singleton split: option.splits)

lemma take_enumerate: "take k (enumerate n xs) = enumerate n (take k xs)"
  by (induction xs arbitrary: n k) (simp_all add: take_Cons' )

lemma length_filter_mono: "(\<And>x. P x \<Longrightarrow> Q x) \<Longrightarrow> length (filter P xs) \<le> length (filter Q xs)"
  by (induction xs) (auto simp: le_SucI)

end
