(* ===== verification/Schema.thy ===== *)
theory Schema
  imports Txn Tables "HOL-Library.Product_Lexorder"
begin

text \<open>
  The schema of Database/query_init.sql: one table per access object, with its integrity
  constraints. Identifiers are stored as the signed 64-bit integers that
  \<open>binder<cSnowflake>\<close> (Database.h) binds and read back into snowflakes.
\<close>

section \<open>Columns\<close>

definition bind_id :: "u64 \<Rightarrow> int" where
  "bind_id n = sint n"

definition column_id :: "int \<Rightarrow> u64" where
  "column_id i = word_of_int i"

lemma column_bind [simp]: "column_id (bind_id n) = n"
  by (simp add: column_id_def bind_id_def)

lemma bind_id_inject [simp]: "bind_id m = bind_id n \<longleftrightarrow> m = n"
  by (metis column_bind)

text \<open>The column values that denote a snowflake.\<close>

definition is_id :: "int \<Rightarrow> bool" where
  "is_id i \<longleftrightarrow> bind_id (column_id i) = i"

lemma is_id_bind [simp]: "is_id (bind_id n)"
  by (simp add: is_id_def)

text \<open>\<open>column_int\<close> reads NULL as 0, and the code takes 0 for an absent identifier.\<close>

definition opt_id :: "int option \<Rightarrow> u64 option" where
  "opt_id v = (case v of None \<Rightarrow> None | Some i \<Rightarrow> if i = 0 then None else Some (column_id i))"

text \<open>\<open>id >> 22\<close> on a signed column.\<close>

definition shift22 :: "int \<Rightarrow> int" where
  "shift22 i = drop_bit 22 i"

section \<open>Rows and tables\<close>

record lb_row =
  num_msg :: int
  xp :: int
  lb_time :: int

record nick_row =
  nick_msg :: "int option"
  nick :: "string option"

record sb_row =
  author_id :: int
  sb_msg_id :: "int option"
  num :: int

record msg_row =
  msg_channel :: int
  msg_author :: int
  content :: "string option"

record warn_row =
  timed_out :: int
  reason :: "string option"

record db =
  leaderboard :: "(int, lb_row) table"
  nicknames :: "(int, nick_row) table"
  starboard :: "(int, sb_row) table"
  messages :: "(int, msg_row) table"
  tempbans :: "(int, int) table"
  infractions :: "(int \<times> int, warn_row) table"

text \<open>\<open>CREATE TABLE IF NOT EXISTS\<close> on an empty file.\<close>

definition db_empty :: db where
  "db_empty = \<lparr>leaderboard = [], nicknames = [], starboard = [], messages = [], tempbans = [], infractions = []\<rparr>"

section \<open>Constraints\<close>

text \<open>A nullable column that is UNIQUE: two rows with the same value are the same row.\<close>

definition unique_col :: "('r \<Rightarrow> int option) \<Rightarrow> (int, 'r) table \<Rightarrow> bool" where
  "unique_col col t \<longleftrightarrow>
     (\<forall>k r k' r'. map_of t k = Some r \<longrightarrow> map_of t k' = Some r' \<longrightarrow> col r \<noteq> None \<longrightarrow> col r = col r' \<longrightarrow> k = k')"

text \<open>A row other than \<open>k\<close> that holds the value already.\<close>

definition col_taken :: "('r \<Rightarrow> int option) \<Rightarrow> int \<Rightarrow> int \<Rightarrow> (int, 'r) table \<Rightarrow> bool" where
  "col_taken col k v t \<longleftrightarrow> (\<exists>(k', r) \<in> set t. k' \<noteq> k \<and> col r = Some v)"

definition lb_ok :: "(int, lb_row) table \<Rightarrow> bool" where
  "lb_ok t \<longleftrightarrow> twf t \<and>
     (\<forall>k r. map_of t k = Some r \<longrightarrow> is_id k \<and> 1 \<le> num_msg r \<and> 15 * num_msg r \<le> xp r \<and> xp r \<le> 24 * num_msg r)"

definition nick_ok :: "(int, nick_row) table \<Rightarrow> bool" where
  "nick_ok t \<longleftrightarrow> twf t \<and> unique_col nick_msg t"

definition sb_ok :: "(int, sb_row) table \<Rightarrow> bool" where
  "sb_ok t \<longleftrightarrow> twf t \<and> unique_col sb_msg_id t \<and> (\<forall>k r. map_of t k = Some r \<longrightarrow> num r > 0 \<and> is_id (author_id r))"

definition tb_ok :: "(int, int) table \<Rightarrow> bool" where
  "tb_ok t \<longleftrightarrow> twf t \<and> (\<forall>k r. map_of t k = Some r \<longrightarrow> is_id k)"

definition db_inv :: "db \<Rightarrow> bool" where
  "db_inv d \<longleftrightarrow> lb_ok (leaderboard d) \<and> nick_ok (nicknames d) \<and> sb_ok (starboard d)
     \<and> twf (messages d) \<and> tb_ok (tempbans d) \<and> twf (infractions d)"

lemma db_inv_empty: "db_inv db_empty"
  by (simp add: db_inv_def db_empty_def lb_ok_def nick_ok_def sb_ok_def tb_ok_def unique_col_def)

lemma db_inv_parts:
  "db_inv d \<Longrightarrow> lb_ok (leaderboard d)" "db_inv d \<Longrightarrow> nick_ok (nicknames d)" "db_inv d \<Longrightarrow> sb_ok (starboard d)"
  "db_inv d \<Longrightarrow> twf (messages d)" "db_inv d \<Longrightarrow> tb_ok (tempbans d)" "db_inv d \<Longrightarrow> twf (infractions d)"
  by (simp_all add: db_inv_def)

lemma db_inv_upd:
  "db_inv d \<Longrightarrow> lb_ok lb \<Longrightarrow> db_inv (d\<lparr>leaderboard := lb\<rparr>)"
  "db_inv d \<Longrightarrow> nick_ok nk \<Longrightarrow> db_inv (d\<lparr>nicknames := nk\<rparr>)"
  "db_inv d \<Longrightarrow> sb_ok sb \<Longrightarrow> db_inv (d\<lparr>starboard := sb\<rparr>)"
  "db_inv d \<Longrightarrow> twf ms \<Longrightarrow> db_inv (d\<lparr>messages := ms\<rparr>)"
  "db_inv d \<Longrightarrow> tb_ok tb \<Longrightarrow> db_inv (d\<lparr>tempbans := tb\<rparr>)"
  "db_inv d \<Longrightarrow> twf wn \<Longrightarrow> db_inv (d\<lparr>infractions := wn\<rparr>)"
  by (simp_all add: db_inv_def)

lemma unique_col_put:
  assumes "twf t" "unique_col col t" "\<forall>v. col r = Some v \<longrightarrow> \<not> col_taken col k v t"
  shows "unique_col col (tput k r t)"
proof -
  have "\<not> (map_of t k' = Some r' \<and> k' \<noteq> k \<and> col r' = Some v)" if "col r = Some v" for k' r' v
    using assms(3) that map_of_SomeD [of t k' r'] by (fastforce simp: col_taken_def)
  then show ?thesis
    using assms(2) unfolding unique_col_def table.get_put [OF assms(1)]
    by (auto split: if_splits) metis+
qed

lemma unique_col_sub: "unique_col col t \<Longrightarrow> (\<And>k r. map_of t' k = Some r \<Longrightarrow> map_of t k = Some r) \<Longrightarrow> unique_col col t'"
  unfolding unique_col_def by blast

section \<open>Reading the rows of a query\<close>

text \<open>What an access object makes of the rows that a query returns.\<close>

definition map_query :: "('r \<Rightarrow> 'q) \<Rightarrow> ('d, 'r) query \<Rightarrow> ('d, 'q) query" where
  "map_query f q d = (case q d of Inl e \<Rightarrow> Inl e | Inr (r, d') \<Rightarrow> Inr (f r, d'))"

lemma map_query_Inr: "map_query f q d = Inr (r, d') \<longleftrightarrow> (\<exists>r'. q d = Inr (r', d') \<and> r = f r')"
  by (auto simp: map_query_def split: sum.splits prod.splits)

lemma map_query_Inl: "map_query f q d = Inl e \<longleftrightarrow> q d = Inl e"
  by (auto simp: map_query_def split: sum.splits prod.splits)

end
