(* ===== verification/Leaderboard_DB.thy ===== *)
theory Leaderboard_DB
  imports Schema "HOL-Library.Multiset"
begin

text \<open>
  \<open>cLeaderboardDAO\<close> (Database/Leaderboard): the experience of each member, updated at most
  once a minute by a message, and the ranking. The engine's \<open>RANDOM()\<close> is a parameter, and so is
  the order of rows where a query leaves it open: among rows that compare equal, and among the rows
  of a query without \<open>ORDER BY\<close>, of which a \<open>LIMIT\<close> takes any.
\<close>

section \<open>Updating\<close>

text \<open>
  \<open>ABS(RANDOM()%10)+15\<close>. The remainder takes the sign of the dividend, so its absolute
  value is the remainder of the absolute value.
\<close>

definition xp_gain :: "int \<Rightarrow> int" where
  "xp_gain rnd = abs rnd mod 10 + 15"

text \<open>
  \<open>query_lb_update.sql\<close>; \<open>rnd_i\<close> and \<open>rnd_u\<close> are the random numbers of the insertion and
  of the update. The result is the returned row, absent when the condition of the update
  fails.
\<close>

definition query_lb_update :: "int \<Rightarrow> int \<Rightarrow> int \<Rightarrow> int \<Rightarrow> (db, int option) query" where
  "query_lb_update uid ts rnd_i rnd_u d =
     (case map_of (leaderboard d) uid of
        None \<Rightarrow> Inr (Some (xp_gain rnd_i),
          d\<lparr>leaderboard := tput uid \<lparr>num_msg = 1, xp = xp_gain rnd_i, lb_time = ts\<rparr> (leaderboard d)\<rparr>)
      | Some r \<Rightarrow>
          if ts - lb_time r \<ge> 60 then
            let r' = \<lparr>num_msg = num_msg r + 1, xp = xp r + xp_gain rnd_u, lb_time = ts\<rparr>
            in Inr (Some (xp r'), d\<lparr>leaderboard := tput uid r' (leaderboard d)\<rparr>)
          else Inr (None, d))"

text \<open>\<open>Update\<close> on a message of \<open>author\<close> sent at \<open>timestamp\<close> milliseconds: 0 for no row.\<close>

definition Leaderboard_Update :: "u64 \<Rightarrow> int \<Rightarrow> int \<Rightarrow> int \<Rightarrow> (db, int) query" where
  "Leaderboard_Update author timestamp rnd_i rnd_u =
     map_query (\<lambda>row. case row of Some x \<Rightarrow> x | None \<Rightarrow> 0)
       (query_lb_update (bind_id author) (timestamp div 1000) rnd_i rnd_u)"

section \<open>Ranking\<close>

text \<open>\<open>ORDER BY xp DESC, num_msg DESC\<close> as a linear order of its own.\<close>

datatype lb_key = Lb_key int int

instantiation lb_key :: linorder
begin

definition less_eq_lb_key :: "lb_key \<Rightarrow> lb_key \<Rightarrow> bool" where
  "less_eq_lb_key a b = (case a of Lb_key x n \<Rightarrow> case b of Lb_key y m \<Rightarrow> x > y \<or> x = y \<and> n \<ge> m)"

definition less_lb_key :: "lb_key \<Rightarrow> lb_key \<Rightarrow> bool" where
  "less_lb_key a b = (case a of Lb_key x n \<Rightarrow> case b of Lb_key y m \<Rightarrow> x > y \<or> x = y \<and> n > m)"

instance
  by standard (auto simp: less_eq_lb_key_def less_lb_key_def split: lb_key.splits)

end

definition lb_key_of :: "int \<times> lb_row \<Rightarrow> lb_key" where
  "lb_key_of e = Lb_key (xp (snd e)) (num_msg (snd e))"

text \<open>
  An order that the engine chooses: the first element by the choice modulo the length, the others
  by what is left of it. Every order can be chosen (lemma \<open>arrange_all\<close>).
\<close>

function arrange :: "nat \<Rightarrow> 'a list \<Rightarrow> 'a list" where
  "arrange c [] = []"
| "arrange c (x # xs) =
     (let n = Suc (length xs); i = c mod n in
      (x # xs) ! i # arrange (c div n) (take i (x # xs) @ drop (Suc i) (x # xs)))"
  by pat_completeness auto
termination
  by (relation "measure (\<lambda>(c, xs). length xs)") (auto simp: Let_def min_def mod_Suc_le_divisor less_Suc_eq_le)

declare arrange.simps(2) [simp del]

text \<open>
  \<open>ROW_NUMBER() OVER (ORDER BY ...)\<close>; rows that compare equal come in the order \<open>ties\<close> that the
  engine has them in.
\<close>

definition lb_ranking :: "nat \<Rightarrow> (int, lb_row) table \<Rightarrow> (int \<times> lb_row) list" where
  "lb_ranking ties t = sort_key lb_key_of (arrange ties t)"

record leaderboard_entry =
  user_id :: u64
  rank :: int
  entry_xp :: int
  entry_msgs :: int

definition lb_entries :: "nat \<Rightarrow> (int, lb_row) table \<Rightarrow> leaderboard_entry list" where
  "lb_entries ties t =
     map (\<lambda>(i, (k, r)). \<lparr>user_id = column_id k, rank = int i, entry_xp = xp r, entry_msgs = num_msg r\<rparr>)
       (enumerate 1 (lb_ranking ties t))"

text \<open>\<open>query_lb_rank.sql\<close>: the user's row of the ranking.\<close>

definition query_lb_rank :: "nat \<Rightarrow> int \<Rightarrow> (db, (int \<times> int \<times> int) option) query" where
  "query_lb_rank ties uid d =
     (case filter (\<lambda>(i, (k, r)). k = uid) (enumerate 1 (lb_ranking ties (leaderboard d))) of
        [] \<Rightarrow> Inr (None, d)
      | (i, (k, r)) # _ \<Rightarrow> Inr (Some (int i, xp r, num_msg r), d))"

definition GetEntryByUser :: "nat \<Rightarrow> u64 \<Rightarrow> (db, leaderboard_entry option) query" where
  "GetEntryByUser ties user =
     map_query (map_option (\<lambda>(i, x, n). \<lparr>user_id = user, rank = i, entry_xp = x, entry_msgs = n\<rparr>))
       (query_lb_rank ties (bind_id user))"

text \<open>
  \<open>query_lb_top.sql\<close> numbers the rows, but it has no \<open>ORDER BY\<close> of its own: ten rows are taken from
  any order \<open>picks\<close> of the numbered rows.
\<close>

definition GetTop10Entries :: "nat \<Rightarrow> nat \<Rightarrow> (db, leaderboard_entry list) query" where
  "GetTop10Entries ties picks d = Inr (take 10 (arrange picks (lb_entries ties (leaderboard d))), d)"

section \<open>The update keeps the constraints\<close>

lemma xp_gain_bounds: "15 \<le> xp_gain rnd" "xp_gain rnd \<le> 24"
proof -
  have "0 \<le> abs rnd mod 10" "abs rnd mod 10 < 10" by simp_all
  then show "15 \<le> xp_gain rnd" "xp_gain rnd \<le> 24" unfolding xp_gain_def by linarith+
qed

lemma lb_ok_put:
  assumes "lb_ok t" "is_id k" "1 \<le> num_msg r" "15 * num_msg r \<le> xp r" "xp r \<le> 24 * num_msg r"
  shows "lb_ok (tput k r t)"
  using assms by (auto simp: lb_ok_def table.wf_put table.get_put split: if_splits)

lemma lb_ok_row:
  "lb_ok t \<Longrightarrow> map_of t k = Some r \<Longrightarrow> is_id k \<and> 1 \<le> num_msg r \<and> 15 * num_msg r \<le> xp r \<and> xp r \<le> 24 * num_msg r"
  by (auto simp: lb_ok_def)

lemma query_lb_update_inv:
  assumes "db_inv d" "is_id uid" "query_lb_update uid ts rnd_i rnd_u d = Inr (r, d')"
  shows "db_inv d'"
proof (cases "map_of (leaderboard d) uid")
  case None
  then show ?thesis using assms xp_gain_bounds [of rnd_i]
    by (auto simp: query_lb_update_def intro!: db_inv_upd lb_ok_put db_inv_parts)
next
  case (Some row)
  then show ?thesis
    using assms xp_gain_bounds [of rnd_u] lb_ok_row [OF db_inv_parts(1) [OF assms(1)] Some]
    by (auto simp: query_lb_update_def Let_def intro!: db_inv_upd lb_ok_put db_inv_parts split: if_splits)
qed

interpretation lb_update: dao_query "Leaderboard_Update author timestamp rnd_i rnd_u" db_inv
proof
  show "db_inv d \<Longrightarrow> Leaderboard_Update author timestamp rnd_i rnd_u d = Inr (r, d') \<Longrightarrow> db_inv d'" for d r d'
    by (auto simp: Leaderboard_Update_def map_query_Inr intro: query_lb_update_inv [OF _ is_id_bind])
  show "Leaderboard_Update author timestamp rnd_i rnd_u d \<noteq> Inl SQLITE_BUSY" for d
    by (auto simp: Leaderboard_Update_def map_query_Inl query_lb_update_def Let_def split: option.splits)
qed

interpretation lb_top: dao_query "GetTop10Entries ties picks" db_inv
  by unfold_locales (auto simp: GetTop10Entries_def)

interpretation lb_rank: dao_query "GetEntryByUser ties user" db_inv
  by unfold_locales (auto simp: GetEntryByUser_def map_query_Inr map_query_Inl query_lb_rank_def split: list.splits)

section \<open>Orders\<close>

lemma mset_arrange: "mset (arrange c xs) = mset xs"
proof (induction c xs rule: arrange.induct)
  case (2 c x xs)
  let ?n = "Suc (length xs)"
  let ?i = "c mod ?n"
  have i: "?i < length (x # xs)" by simp
  have "mset (x # xs) = add_mset ((x # xs) ! ?i) (mset (take ?i (x # xs) @ drop (Suc ?i) (x # xs)))"
    by (subst id_take_nth_drop [OF i]) simp
  with 2 [OF refl refl] show ?case by (simp add: arrange.simps(2) Let_def)
qed simp

lemma set_arrange: "set (arrange c xs) = set xs"
  by (metis mset_arrange set_mset_mset)

lemma length_arrange: "length (arrange c xs) = length xs"
  by (metis mset_arrange size_mset)

lemma arrange_all: "mset ys = mset xs \<Longrightarrow> \<exists>c. arrange c xs = ys"
proof (induction ys arbitrary: xs)
  case (Cons y ys)
  then have "y \<in> set xs" by (metis list.set_intros(1) set_mset_mset)
  then obtain i where i: "i < length xs" "xs ! i = y" by (auto simp: in_set_conv_nth)
  let ?zs = "take i xs @ drop (Suc i) xs"
  have "mset xs = add_mset y (mset ?zs)" by (subst id_take_nth_drop [OF i(1)]) (simp add: i(2))
  with Cons.prems have "mset ys = mset ?zs" by simp
  from Cons.IH [OF this] obtain c where c: "arrange c ?zs = ys" by blast
  obtain x xs' where xs: "xs = x # xs'" using i(1) by (cases xs) auto
  have "(i + Suc (length xs') * c) mod Suc (length xs') = i" "(i + Suc (length xs') * c) div Suc (length xs') = c"
    using i(1) by (simp_all only: xs mod_mult_self2 div_mult_self2 list.size) simp_all
  with c i show ?case
    by (intro exI [of _ "i + Suc (length xs') * c"]) (simp only: xs arrange.simps(2) Let_def)
qed simp

text \<open>In a sorted list an element comes after all smaller ones and before all greater ones.\<close>

lemma sorted_position:
  assumes "sorted (map f xs)" "i < length xs"
  shows "length (filter (\<lambda>x. f x < f (xs ! i)) xs) \<le> i \<and> i < length (filter (\<lambda>x. f x \<le> f (xs ! i)) xs)"
proof -
  have mono: "f (xs ! j) \<le> f (xs ! k)" if "j \<le> k" "k < length xs" for j k
    using sorted_nth_mono [OF assms(1), of j k] that by simp
  have "filter (\<lambda>x. f x < f (xs ! i)) (drop i xs) = []"
    using mono by (auto simp: filter_empty_conv in_set_conv_nth leD)
  then have "filter (\<lambda>x. f x < f (xs ! i)) xs = filter (\<lambda>x. f x < f (xs ! i)) (take i xs)"
    by (metis append_Nil2 append_take_drop_id filter_append)
  then have "length (filter (\<lambda>x. f x < f (xs ! i)) xs) \<le> i"
    by (metis length_filter_le length_take min.coboundedI2 min.commute order_trans min.cobounded2)
  moreover have "filter (\<lambda>x. f x \<le> f (xs ! i)) (take (Suc i) xs) = take (Suc i) xs"
    using mono assms(2) by (auto simp: filter_id_conv in_set_conv_nth less_Suc_eq_le)
  then have "Suc i \<le> length (filter (\<lambda>x. f x \<le> f (xs ! i)) xs)"
    using assms(2) by (metis append_take_drop_id filter_append le_add1 length_append length_take min.absorb2 Suc_leI)
  ultimately show ?thesis by simp
qed

section \<open>The ranking\<close>

lemma set_lb_ranking [simp]: "set (lb_ranking ties t) = set t"
  by (simp add: lb_ranking_def set_arrange)

lemma length_lb_ranking [simp]: "length (lb_ranking ties t) = length t"
  by (simp add: lb_ranking_def length_arrange)

lemma sorted_lb_ranking: "sorted (map lb_key_of (lb_ranking ties t))"
  by (simp add: lb_ranking_def)

lemma distinct_lb_ranking: "twf t \<Longrightarrow> distinct (map fst (lb_ranking ties t))"
proof -
  assume "twf t"
  moreover have "mset (map fst (lb_ranking ties t)) = mset (map fst t)" by (simp add: lb_ranking_def mset_arrange)
  ultimately show ?thesis using mset_eq_imp_distinct_iff twf_distinct by blast
qed

lemma GetEntryByUser_find:
  assumes "db_inv d"
  shows "GetEntryByUser ties user d = Inr (find (\<lambda>e. user_id e = user) (lb_entries ties (leaderboard d)), d)"
proof -
  let ?es = "enumerate 1 (lb_ranking ties (leaderboard d))"
  note ok = db_inv_parts(1) [OF assms]
  have wf: "twf (leaderboard d)" using ok by (simp add: lb_ok_def)
  have "map (fst \<circ> snd) ?es = map fst (lb_ranking ties (leaderboard d))"
    unfolding comp_def by (rule map_enumerate_snd)
  then have dist: "distinct (map (fst \<circ> snd) ?es)" using distinct_lb_ranking [OF wf] by simp
  have ids: "bind_id (column_id k) = k" if "(i, k, r) \<in> set ?es" for i k r
  proof -
    have "(k, r) \<in> set (map snd ?es)" using imageI [OF that, of snd] by (simp del: map_snd_enumerate)
    then have "(k, r) \<in> set (leaderboard d)" by (simp only: map_snd_enumerate set_lb_ranking)
    then show ?thesis using lb_ok_row [OF ok] in_table [OF wf] by (simp add: is_id_def)
  qed
  have key: "column_id (fst (snd x)) = user \<longleftrightarrow> fst (snd x) = bind_id user" if "x \<in> set ?es" for x
    using ids [of "fst x" "fst (snd x)" "snd (snd x)"] that by auto
  have "find (\<lambda>e. user_id e = user) (lb_entries ties (leaderboard d)) =
    map_option (\<lambda>(i, (k, r)). \<lparr>user_id = column_id k, rank = int i, entry_xp = xp r, entry_msgs = num_msg r\<rparr>)
      (find (\<lambda>x. (fst \<circ> snd) x = bind_id user) ?es)"
    unfolding lb_entries_def find_map by (intro arg_cong [where f = "map_option _"] find_cong_set)
      (simp add: key case_prod_beta del: One_nat_def)
  moreover have "filter (\<lambda>(i, k, r). k = bind_id user) ?es = (case find (\<lambda>x. (fst \<circ> snd) x = bind_id user) ?es of None \<Rightarrow> [] | Some x \<Rightarrow> [x])"
    using filter_singleton [OF dist, of "bind_id user"] by (simp add: case_prod_unfold)
  moreover have "(find (\<lambda>x. (fst \<circ> snd) x = bind_id user) ?es = Some (i, k, r)) \<Longrightarrow> k = bind_id user" for i k r
    using find_SomeD by fastforce
  ultimately show ?thesis
    by (cases "find (\<lambda>x. (fst \<circ> snd) x = bind_id user) ?es")
      (auto simp: GetEntryByUser_def map_query_def query_lb_rank_def simp del: One_nat_def)
qed

text \<open>How many rows are ahead of an entry, and how many are not behind it.\<close>

definition entry_key :: "leaderboard_entry \<Rightarrow> lb_key" where
  "entry_key e = Lb_key (entry_xp e) (entry_msgs e)"

definition rows_ahead :: "(int, lb_row) table \<Rightarrow> leaderboard_entry \<Rightarrow> nat" where
  "rows_ahead t e = length (filter (\<lambda>p. lb_key_of p < entry_key e) t)"

definition rows_not_behind :: "(int, lb_row) table \<Rightarrow> leaderboard_entry \<Rightarrow> nat" where
  "rows_not_behind t e = length (filter (\<lambda>p. lb_key_of p \<le> entry_key e) t)"

text \<open>An entry tells the row of its user, and a rank that this row can have.\<close>

definition entry_of :: "(int, lb_row) table \<Rightarrow> leaderboard_entry \<Rightarrow> bool" where
  "entry_of t e \<longleftrightarrow>
     (\<exists>r. map_of t (bind_id (user_id e)) = Some r \<and> entry_xp e = xp r \<and> entry_msgs e = num_msg r)
     \<and> int (rows_ahead t e) < rank e \<and> rank e \<le> int (rows_not_behind t e)"

lemma length_filter_arrange:
  "mset xs = mset ys \<Longrightarrow> length (filter P xs) = length (filter P ys)"
  by (metis mset_filter size_mset)

lemma length_lb_entries [simp]: "length (lb_entries ties t) = length t"
  by (simp add: lb_entries_def)

lemma nth_lb_entries:
  "i < length t \<Longrightarrow> lb_entries ties t ! i = (case lb_ranking ties t ! i of (k, r) \<Rightarrow>
     \<lparr>user_id = column_id k, rank = int (Suc i), entry_xp = xp r, entry_msgs = num_msg r\<rparr>)"
  by (simp add: lb_entries_def nth_enumerate_eq split: prod.split)

lemma lb_entries_entry:
  assumes "lb_ok t" "e \<in> set (lb_entries ties t)"
  shows "entry_of t e"
proof -
  obtain i where i: "i < length t" "e = lb_entries ties t ! i" using assms(2) by (auto simp: in_set_conv_nth)
  obtain k r where kr: "lb_ranking ties t ! i = (k, r)" by fastforce
  then have e: "e = \<lparr>user_id = column_id k, rank = int (Suc i), entry_xp = xp r, entry_msgs = num_msg r\<rparr>"
    using i by (simp add: nth_lb_entries)
  have wf: "twf t" using assms(1) by (simp add: lb_ok_def)
  have "(k, r) \<in> set (lb_ranking ties t)" using i(1) kr by (metis length_lb_ranking nth_mem)
  then have row: "map_of t k = Some r" using in_table [OF wf] by simp
  then have "is_id k" using lb_ok_row [OF assms(1)] by blast
  moreover have key: "entry_key e = lb_key_of (lb_ranking ties t ! i)" by (simp add: e kr entry_key_def lb_key_of_def)
  have "mset (lb_ranking ties t) = mset t" by (simp add: lb_ranking_def mset_arrange)
  note same = length_filter_arrange [OF this]
  have "rows_ahead t e \<le> i \<and> i < rows_not_behind t e"
    using sorted_position [OF sorted_lb_ranking, of i ties t] i(1)
    by (simp add: rows_ahead_def rows_not_behind_def key same)
  ultimately show ?thesis using row by (simp add: entry_of_def e is_id_def)
qed

text \<open>An entry that is level with no other one has the same rank in every ranking.\<close>

lemma entry_unique:
  assumes "entry_of t e" "entry_of t e'" "user_id e = user_id e'" "rows_not_behind t e = Suc (rows_ahead t e)"
  shows "e = e'"
proof -
  have "entry_xp e = entry_xp e'" "entry_msgs e = entry_msgs e'" using assms(1-3) by (auto simp: entry_of_def)
  moreover from this have "rows_ahead t e = rows_ahead t e'" "rows_not_behind t e = rows_not_behind t e'"
    by (simp_all add: rows_ahead_def rows_not_behind_def entry_key_def)
  then have "rank e = rank e'" using assms(1,2,4) by (simp add: entry_of_def)
  ultimately show ?thesis using assms(3) by simp
qed

lemma lb_entries_users:
  assumes "lb_ok t"
  shows "distinct (map user_id (lb_entries ties t))" and "bind_id u \<in> fst ` set t \<longleftrightarrow> u \<in> user_id ` set (lb_entries ties t)"
proof -
  have wf: "twf t" using assms by (simp add: lb_ok_def)
  have users: "map user_id (lb_entries ties t) = map column_id (map fst (lb_ranking ties t))"
    using map_enumerate_snd [of "\<lambda>p. column_id (fst p)" 1 "lb_ranking ties t"]
    by (simp add: lb_entries_def case_prod_beta comp_def del: One_nat_def)
  have ids: "is_id k" if "k \<in> fst ` set t" for k
    using that lb_ok_row [OF assms] in_table [OF wf] by fastforce
  have "inj_on column_id (fst ` set t)"
    using ids by (intro inj_onI) (metis is_id_def)
  then show "distinct (map user_id (lb_entries ties t))"
    unfolding users distinct_map [of column_id] using distinct_lb_ranking [OF wf, of ties] by simp
  have "user_id ` set (lb_entries ties t) = column_id ` fst ` set t"
    by (metis users list.set_map set_lb_ranking)
  then show "bind_id u \<in> fst ` set t \<longleftrightarrow> u \<in> user_id ` set (lb_entries ties t)"
    using ids by (auto simp: is_id_def image_iff) (metis column_bind fst_conv)+
qed

section \<open>The rate limit\<close>

text \<open>The updates of a history of messages: author, time in milliseconds, random numbers.\<close>

fun lb_history :: "(u64 \<times> int \<times> int \<times> int) list \<Rightarrow> db \<Rightarrow> sqlerr + db" where
  "lb_history [] d = Inr d"
| "lb_history ((a, ts, ri, ru) # ms) d = bindS (Leaderboard_Update a ts ri ru d) (\<lambda>(_, d'). lb_history ms d')"

lemma lb_update_cases:
  assumes "db_inv d" "Leaderboard_Update a ts ri ru d = Inr (x, d')"
  obtains (fresh) "map_of (leaderboard d) (bind_id a) = None" "x = xp_gain ri"
      "map_of (leaderboard d') = (map_of (leaderboard d))(bind_id a \<mapsto> \<lparr>num_msg = 1, xp = x, lb_time = ts div 1000\<rparr>)"
  | (counted) r where "map_of (leaderboard d) (bind_id a) = Some r" "60 \<le> ts div 1000 - lb_time r" "x = xp r + xp_gain ru"
      "map_of (leaderboard d') = (map_of (leaderboard d))(bind_id a \<mapsto> \<lparr>num_msg = num_msg r + 1, xp = x, lb_time = ts div 1000\<rparr>)"
  | (ignored) r where "map_of (leaderboard d) (bind_id a) = Some r" "ts div 1000 - lb_time r < 60" "x = 0" "d' = d"
proof -
  have wf: "twf (leaderboard d)" using assms(1) by (simp add: db_inv_def lb_ok_def)
  show thesis
  proof (cases "map_of (leaderboard d) (bind_id a)")
    case None
    show thesis
      by (rule fresh) (use assms(2) None in
        \<open>auto simp: Leaderboard_Update_def map_query_Inr query_lb_update_def table.get_put [OF wf]\<close>)
  next
    case (Some r)
    show thesis
    proof (cases "60 \<le> ts div 1000 - lb_time r")
      case True
      show thesis
        by (rule counted [OF Some True]) (use assms(2) Some True in
          \<open>auto simp: Leaderboard_Update_def map_query_Inr query_lb_update_def Let_def table.get_put [OF wf]\<close>)
    next
      case False
      show thesis
        by (rule ignored [OF Some]) (use assms(2) Some False in
          \<open>auto simp: Leaderboard_Update_def map_query_Inr query_lb_update_def Let_def\<close>)
    qed
  qed
qed

lemma lb_history_rate:
  assumes "db_inv d" "lb_history ms d = Inr d'" "map_of (leaderboard d) k = Some r"
  shows "\<exists>r'. map_of (leaderboard d') k = Some r' \<and> 60 * (num_msg r' - num_msg r) \<le> lb_time r' - lb_time r"
  using assms
proof (induction ms arbitrary: d r)
  case (Cons m ms)
  obtain a ts ri ru where m: "m = (a, ts, ri, ru)" by (metis prod_cases4)
  from Cons.prems(2) m obtain x d1 where u: "Leaderboard_Update a ts ri ru d = Inr (x, d1)" and rest: "lb_history ms d1 = Inr d'"
    by (auto simp: bindS_eq_Inr)
  have inv1: "db_inv d1" using lb_update.q_inv [OF Cons.prems(1) u] .
  from Cons.prems(1) u have "\<exists>r1. map_of (leaderboard d1) k = Some r1 \<and> 60 * (num_msg r1 - num_msg r) \<le> lb_time r1 - lb_time r"
    by (cases rule: lb_update_cases) (use Cons.prems(3) in auto)
  then obtain r1 where r1: "map_of (leaderboard d1) k = Some r1" "60 * (num_msg r1 - num_msg r) \<le> lb_time r1 - lb_time r" by blast
  from Cons.IH [OF inv1 rest r1(1)] r1(2) show ?case by fastforce
qed auto

section \<open>Properties\<close>

text \<open>
  C28: whatever order the engine has rows in where the queries leave it open, the entry of a user
  is there just when the table has a row of that user, and the top query returns the entries of
  ten different users, or of all if there are fewer. Each entry tells what the row of its user has,
  with a rank greater than the number of rows with more experience, or as much and more counted
  messages, and at most the number of those that are not behind. So both queries tell the same
  rank of a user who is level with nobody. Which ten users these are is not determined.
\<close>

theorem leaderboard_ranking:
  assumes "db_inv d"
  shows "\<exists>es. GetTop10Entries ties picks d = Inr (es, d)
    \<and> distinct (map user_id es) \<and> length es = min 10 (length (leaderboard d)) \<and> (\<forall>e \<in> set es. entry_of (leaderboard d) e)
    \<and> (\<forall>user. \<exists>p. GetEntryByUser ties' user d = Inr (p, d)
         \<and> (p = None \<longleftrightarrow> map_of (leaderboard d) (bind_id user) = None)
         \<and> (\<forall>e'. p = Some e' \<longrightarrow> user_id e' = user \<and> entry_of (leaderboard d) e'
              \<and> (\<forall>e \<in> set es. user_id e = user \<and> rows_not_behind (leaderboard d) e = Suc (rows_ahead (leaderboard d) e) \<longrightarrow> e = e')))"
proof -
  let ?t = "leaderboard d"
  let ?es = "take 10 (arrange picks (lb_entries ties ?t))"
  have ok: "lb_ok ?t" using db_inv_parts(1) [OF assms] .
  have "distinct (map user_id (arrange picks (lb_entries ties ?t)))"
    using lb_entries_users(1) [OF ok] by (metis mset_arrange mset_map mset_eq_imp_distinct_iff)
  then have d: "distinct (map user_id ?es)" by (metis distinct_take take_map)
  have sub: "set ?es \<subseteq> set (lb_entries ties ?t)" using set_take_subset set_arrange by fastforce
  then have es: "\<forall>e \<in> set ?es. entry_of ?t e" using lb_entries_entry [OF ok] by blast
  have user: "\<exists>p. GetEntryByUser ties' user d = Inr (p, d) \<and> (p = None \<longleftrightarrow> map_of ?t (bind_id user) = None)
     \<and> (\<forall>e'. p = Some e' \<longrightarrow> user_id e' = user \<and> entry_of ?t e'
        \<and> (\<forall>e \<in> set ?es. user_id e = user \<and> rows_not_behind ?t e = Suc (rows_ahead ?t e) \<longrightarrow> e = e'))" for user
  proof -
    let ?p = "find (\<lambda>e. user_id e = user) (lb_entries ties' ?t)"
    have "?p = None \<longleftrightarrow> user \<notin> user_id ` set (lb_entries ties' ?t)" by (auto simp: find_None_iff)
    then have none: "?p = None \<longleftrightarrow> map_of ?t (bind_id user) = None"
      using lb_entries_users(2) [OF ok, of user ties'] by (simp add: map_of_eq_None_iff)
    have some: "user_id e' = user \<and> entry_of ?t e'" if "?p = Some e'" for e'
      using find_SomeD [OF that] lb_entries_entry [OF ok] by blast
    have same: "e = e'" if "?p = Some e'" "e \<in> set ?es" "user_id e = user" "rows_not_behind ?t e = Suc (rows_ahead ?t e)" for e e'
      by (rule entry_unique [of ?t]) (use that es some [OF that(1)] in simp_all)
    show ?thesis
    proof (intro exI conjI allI impI ballI)
      show "GetEntryByUser ties' user d = Inr (?p, d)" by (rule GetEntryByUser_find [OF assms])
      show "?p = None \<longleftrightarrow> map_of ?t (bind_id user) = None" by (rule none)
    next
      fix e' assume p: "?p = Some e'"
      show "user_id e' = user" "entry_of ?t e'" using some [OF p] by simp_all
      show "e = e'" if "e \<in> set ?es" "user_id e = user \<and> rows_not_behind ?t e = Suc (rows_ahead ?t e)" for e
        using same [OF p] that by simp
    qed
  qed
  show ?thesis
  proof (intro exI conjI)
    show "GetTop10Entries ties picks d = Inr (?es, d)" by (simp add: GetTop10Entries_def)
    show "length ?es = min 10 (length ?t)" by (simp add: length_arrange)
  qed (rule d es user allI)+
qed

theorem leaderboard_ranking_witness:
  "let d = db_empty\<lparr>leaderboard := [(7, \<lparr>num_msg = 1, xp = 20, lb_time = 0\<rparr>), (9, \<lparr>num_msg = 2, xp = 40, lb_time = 0\<rparr>)]\<rparr>
   in \<exists>es p. GetTop10Entries 0 1 d = Inr (es, d) \<and> length es = 2 \<and> GetEntryByUser 0 9 d = Inr (Some p, d) \<and> rank p = 1"
proof -
  let ?d = "db_empty\<lparr>leaderboard := [(7, \<lparr>num_msg = 1, xp = 20, lb_time = 0\<rparr>), (9, \<lparr>num_msg = 2, xp = 40, lb_time = 0\<rparr>)]\<rparr>"
  have "db_inv ?d"
    by (rule db_inv_upd(1) [OF db_inv_empty])
      (auto simp: lb_ok_def twf_def is_id_def bind_id_def column_id_def split: if_splits)
  from leaderboard_ranking [OF this, of 0 1 0] obtain es where
    all: "GetTop10Entries 0 1 ?d = Inr (es, ?d) \<and> distinct (map user_id es) \<and> length es = min 10 (length (leaderboard ?d))
      \<and> (\<forall>e \<in> set es. entry_of (leaderboard ?d) e)
      \<and> (\<forall>user. \<exists>p. GetEntryByUser 0 user ?d = Inr (p, ?d) \<and> (p = None \<longleftrightarrow> map_of (leaderboard ?d) (bind_id user) = None)
         \<and> (\<forall>e'. p = Some e' \<longrightarrow> user_id e' = user \<and> entry_of (leaderboard ?d) e'
              \<and> (\<forall>e \<in> set es. user_id e = user \<and> rows_not_behind (leaderboard ?d) e = Suc (rows_ahead (leaderboard ?d) e) \<longrightarrow> e = e')))"
    by (rule exE)
  then have es: "GetTop10Entries 0 1 ?d = Inr (es, ?d)" "length es = 2" by simp_all
  from all [THEN conjunct2, THEN conjunct2, THEN conjunct2, THEN conjunct2, THEN spec [of _ 9]] obtain q where
    w: "GetEntryByUser 0 9 ?d = Inr (q, ?d) \<and> (q = None \<longleftrightarrow> map_of (leaderboard ?d) (bind_id 9) = None)
      \<and> (\<forall>e'. q = Some e' \<longrightarrow> user_id e' = 9 \<and> entry_of (leaderboard ?d) e'
           \<and> (\<forall>e \<in> set es. user_id e = 9 \<and> rows_not_behind (leaderboard ?d) e = Suc (rows_ahead (leaderboard ?d) e) \<longrightarrow> e = e'))"
    by (rule exE)
  note q = w [THEN conjunct1] w [THEN conjunct2, THEN conjunct1] w [THEN conjunct2, THEN conjunct2, THEN spec, THEN mp]
  have "map_of (leaderboard ?d) (bind_id 9) \<noteq> None" by (simp add: bind_id_def)
  with q(2) have "q \<noteq> None" by simp
  then obtain p where "q = Some p" by (cases q) simp_all
  then have p: "GetEntryByUser 0 9 ?d = Inr (Some p, ?d)" "user_id p = 9" "entry_of (leaderboard ?d) p"
    using q(1) q(3) [of p] by simp_all
  then have "rank p = 1"
    by (auto simp: entry_of_def rows_ahead_def rows_not_behind_def entry_key_def lb_key_of_def less_lb_key_def less_eq_lb_key_def bind_id_def)
  with es p(1) show ?thesis unfolding Let_def by blast
qed

text \<open>
  With more than ten members the engine may leave out the best one: the outer query does not sort.
\<close>

lemma top_ten_may_miss_best:
  assumes "10 < length (leaderboard d)"
  shows "\<exists>picks. \<forall>e \<in> set (fst (projr (GetTop10Entries ties picks d))). rank e \<noteq> 1"
proof -
  let ?es = "lb_entries ties (leaderboard d)"
  obtain e es where es: "?es = e # es" using assms by (cases ?es) (auto simp flip: length_0_conv)
  have "mset (es @ [e]) = mset ?es" by (simp add: es)
  from arrange_all [OF this] obtain picks where p: "arrange picks ?es = es @ [e]" by blast
  have len: "10 \<le> length es" using assms length_lb_entries [of ties "leaderboard d"] by (simp add: es)
  have "rank e' \<noteq> 1" if "e' \<in> set es" for e'
  proof -
    obtain i where i: "i < length es" "e' = es ! i" using \<open>e' \<in> set es\<close> by (auto simp: in_set_conv_nth)
    have "e' = ?es ! Suc i" "Suc i < length (leaderboard d)"
      using i length_lb_entries [of ties "leaderboard d"] by (simp_all add: es)
    then show ?thesis by (simp add: nth_lb_entries split: prod.split)
  qed
  then have "\<forall>e' \<in> set (take 10 (es @ [e])). rank e' \<noteq> 1" using len by (auto dest: in_set_takeD)
  then show ?thesis by (intro exI [of _ picks]) (simp add: GetTop10Entries_def p)
qed

text \<open>
  C29: over any history of messages, by any authors and in any order, a member's counted
  messages grow by at most one per minute between the recorded times.
\<close>

theorem leaderboard_rate_limit:
  assumes "db_inv d" and "lb_history ms d = Inr d'" and "map_of (leaderboard d) (bind_id user) = Some r"
  shows "\<exists>r'. map_of (leaderboard d') (bind_id user) = Some r' \<and> 60 * (num_msg r' - num_msg r) \<le> lb_time r' - lb_time r"
  by (rule lb_history_rate [OF assms])

theorem leaderboard_rate_limit_witness:
  "\<exists>d'. lb_history [(7, 59000, 0, 0), (7, 60000, 0, 3), (8, 0, 5, 5), (7, 61000, 0, 0)]
     (db_empty\<lparr>leaderboard := [(7, \<lparr>num_msg = 1, xp = 20, lb_time = 0\<rparr>)]\<rparr>) = Inr d'
   \<and> map_of (leaderboard d') 7 = Some \<lparr>num_msg = 2, xp = 38, lb_time = 60\<rparr>
   \<and> (60 :: int) * (2 - 1) \<le> 60 - 0"
proof -
  let ?d = "db_empty\<lparr>leaderboard := [(7, \<lparr>num_msg = 1, xp = 20, lb_time = 0\<rparr>)]\<rparr>"
  have inv: "db_inv ?d"
    by (rule db_inv_upd(1) [OF db_inv_empty]) (auto simp: lb_ok_def twf_def is_id_def bind_id_def column_id_def)
  have b: "bind_id 7 = 7" "bind_id 8 = 8" by (simp_all add: bind_id_def)
  have h: "\<exists>d'. lb_history [(7, 59000, 0, 0), (7, 60000, 0, 3), (8, 0, 5, 5), (7, 61000, 0, 0)] ?d = Inr d'
     \<and> map_of (leaderboard d') 7 = Some \<lparr>num_msg = 2, xp = 38, lb_time = 60\<rparr>"
    by (simp add: Leaderboard_Update_def map_query_def query_lb_update_def b db_empty_def xp_gain_def)
  then obtain d' where d': "lb_history [(7, 59000, 0, 0), (7, 60000, 0, 3), (8, 0, 5, 5), (7, 61000, 0, 0)] ?d = Inr d'"
    "map_of (leaderboard d') 7 = Some \<lparr>num_msg = 2, xp = 38, lb_time = 60\<rparr>" by blast
  from leaderboard_rate_limit [OF inv d'(1), of 7] d' show ?thesis by (auto simp: b)
qed

end
