(* ===== verification/Starboard_DB.thy ===== *)
theory Starboard_DB
  imports Schema "HOL-Library.Multiset"
begin

text \<open>
  \<open>cStarboardDAO\<close> (Database/Starboard): the reactions that each message has collected, the
  starboard message that shows it, and the ranking of the authors.
\<close>

record reaction_entry =
  starboard_message_id :: "u64 option"
  num_reactions :: int

record starboard_entry =
  entry_author :: u64
  entry_num_msg :: int
  react_total :: int
  max_react_per_msg :: int
  sb_rank :: int

section \<open>Reactions\<close>

definition query_sb_get_msg_author :: "int \<Rightarrow> (db, int option) query" where
  "query_sb_get_msg_author mid d = Inr (map_option author_id (map_of (starboard d) mid), d)"

definition GetMessageAuthor :: "u64 \<Rightarrow> (db, u64 option) query" where
  "GetMessageAuthor message = map_query (map_option column_id) (query_sb_get_msg_author (bind_id message))"

definition query_sb_register_reaction :: "int \<Rightarrow> int \<Rightarrow> (db, int option \<times> int) query" where
  "query_sb_register_reaction mid author d =
     (let r = (case map_of (starboard d) mid of
            None \<Rightarrow> \<lparr>author_id = author, sb_msg_id = None, num = 1\<rparr>
          | Some r \<Rightarrow> r\<lparr>num := num r + 1\<rparr>)
      in Inr ((sb_msg_id r, num r), d\<lparr>starboard := tput mid r (starboard d)\<rparr>))"

definition RegisterReaction :: "u64 \<Rightarrow> u64 \<Rightarrow> (db, reaction_entry) query" where
  "RegisterReaction message author =
     map_query (\<lambda>(sb, n). \<lparr>starboard_message_id = opt_id sb, num_reactions = n\<rparr>)
       (query_sb_register_reaction (bind_id message) (bind_id author))"

text \<open>The table's \<open>CHECK(num > 0)\<close> makes the update that would reach 0 fail.\<close>

definition query_sb_remove_reaction :: "int \<Rightarrow> (db, (int option \<times> int) option) query" where
  "query_sb_remove_reaction mid d =
     (case map_of (starboard d) mid of
        None \<Rightarrow> Inr (None, d)
      | Some r \<Rightarrow>
          if num r - 1 > 0 then
            let r' = r\<lparr>num := num r - 1\<rparr>
            in Inr (Some (sb_msg_id r', num r'), d\<lparr>starboard := tput mid r' (starboard d)\<rparr>)
          else Inl SQLITE_CONSTRAINT)"

definition RemoveReaction :: "u64 \<Rightarrow> (db, reaction_entry) query" where
  "RemoveReaction message =
     map_query (\<lambda>row. case row of
         None \<Rightarrow> \<lparr>starboard_message_id = None, num_reactions = 0\<rparr>
       | Some (sb, n) \<Rightarrow> \<lparr>starboard_message_id = opt_id sb, num_reactions = n\<rparr>)
       (query_sb_remove_reaction (bind_id message))"

section \<open>Starboard messages\<close>

definition query_sb_register_message :: "int \<Rightarrow> int \<Rightarrow> (db, unit) query" where
  "query_sb_register_message sb mid d =
     (case map_of (starboard d) mid of
        None \<Rightarrow> Inr ((), d)
      | Some r \<Rightarrow>
          if col_taken sb_msg_id mid sb (starboard d) then Inl SQLITE_CONSTRAINT
          else Inr ((), d\<lparr>starboard := tput mid (r\<lparr>sb_msg_id := Some sb\<rparr>) (starboard d)\<rparr>))"

definition RegisterStarboardMessage :: "u64 \<Rightarrow> u64 \<Rightarrow> (db, unit) query" where
  "RegisterStarboardMessage message starboard_message =
     query_sb_register_message (bind_id starboard_message) (bind_id message)"

definition query_sb_remove_message :: "int \<Rightarrow> (db, unit) query" where
  "query_sb_remove_message mid d =
     Inr ((), d\<lparr>starboard := tupd_where (\<lambda>k r. k = mid) (\<lambda>r. r\<lparr>sb_msg_id := None\<rparr>) (starboard d)\<rparr>)"

definition RemoveStarboardMessage :: "u64 \<Rightarrow> (db, unit) query" where
  "RemoveStarboardMessage message = query_sb_remove_message (bind_id message)"

text \<open>The starboard messages of the deleted rows; nothing is executed for no identifiers.\<close>

definition StarboardDeleteAll :: "u64 list \<Rightarrow> (db, u64 list) query" where
  "StarboardDeleteAll msg_ids d =
     (if msg_ids = [] then Inr ([], d)
      else let sel = (\<lambda>k (r :: sb_row). k \<in> set (map bind_id msg_ids))
        in Inr (List.map_filter (\<lambda>(k, r). opt_id (sb_msg_id r)) (tselect sel (starboard d)),
                d\<lparr>starboard := tdel_where sel (starboard d)\<rparr>))"

section \<open>Ranking\<close>

text \<open>
  \<open>WHERE num >= ? GROUP BY author_id\<close> with the aggregates \<open>COUNT\<close>, \<open>SUM\<close> and \<open>MAX\<close>, ordered
  by sum and maximum descending, then by count and author.
\<close>

definition sb_group :: "int \<Rightarrow> (int, sb_row) table \<Rightarrow> int \<Rightarrow> int list" where
  "sb_group threshold t a = map (\<lambda>(k, r). num r) (filter (\<lambda>(k, r). num r \<ge> threshold \<and> author_id r = a) t)"

definition sb_stats :: "int \<Rightarrow> (int, sb_row) table \<Rightarrow> (int \<times> int \<times> int \<times> int) list" where
  "sb_stats threshold t =
     map (\<lambda>a. let ns = sb_group threshold t a in (a, int (length ns), sum_list ns, fold max (tl ns) (hd ns)))
       (sort (remdups (map (\<lambda>(k, r). author_id r) (filter (\<lambda>(k, r). num r \<ge> threshold) t))))"

definition sb_order :: "int \<times> int \<times> int \<times> int \<Rightarrow> int \<times> int \<times> int \<times> int" where
  "sb_order = (\<lambda>(a, c, s, m). (- s, - m, c, a))"

definition sb_ranking :: "int \<Rightarrow> (int, sb_row) table \<Rightarrow> (int \<times> int \<times> int \<times> int) list" where
  "sb_ranking threshold t = sort_key sb_order (sb_stats threshold t)"

definition sb_entry :: "nat \<times> int \<times> int \<times> int \<times> int \<Rightarrow> starboard_entry" where
  "sb_entry = (\<lambda>(i, a, c, s, m). \<lparr>entry_author = column_id a, entry_num_msg = c, react_total = s,
     max_react_per_msg = m, sb_rank = int i\<rparr>)"

text \<open>The loop of \<open>GetTop10\<close> counts the ranks, the query of \<open>GetRank\<close> numbers the rows.\<close>

definition GetTop10 :: "int \<Rightarrow> (db, starboard_entry list) query" where
  "GetTop10 threshold d =
     Inr (map sb_entry (enumerate 1 (take 10 (sb_ranking threshold (starboard d)))), d)"

definition GetRank :: "u64 \<Rightarrow> int \<Rightarrow> (db, starboard_entry option) query" where
  "GetRank user threshold d =
     (case filter (\<lambda>(i, a, _). a = bind_id user) (enumerate 1 (sb_ranking threshold (starboard d))) of
        [] \<Rightarrow> Inr (None, d)
      | row # _ \<Rightarrow> Inr (Some (sb_entry row), d))"

section \<open>The queries keep the constraints\<close>

lemma sb_ok_put:
  assumes "sb_ok t" "num r > 0" "is_id (author_id r)" "\<forall>v. sb_msg_id r = Some v \<longrightarrow> \<not> col_taken sb_msg_id k v t"
  shows "sb_ok (tput k r t)"
  using assms unique_col_put [of t sb_msg_id r k]
  by (auto simp: sb_ok_def table.wf_put table.get_put split: if_splits)

lemma sb_not_taken:
  assumes "sb_ok t" "map_of t k = Some r" "sb_msg_id r = Some v"
  shows "\<not> col_taken sb_msg_id k v t"
  using assms by (force simp: sb_ok_def unique_col_def col_taken_def in_table)

lemma sb_ok_row: "sb_ok t \<Longrightarrow> map_of t k = Some r \<Longrightarrow> num r > 0 \<and> is_id (author_id r)"
  by (auto simp: sb_ok_def)

lemma sb_ok_sub: "sb_ok t \<Longrightarrow> twf t' \<Longrightarrow> (\<And>k r. map_of t' k = Some r \<Longrightarrow> map_of t k = Some r) \<Longrightarrow> sb_ok t'"
  unfolding sb_ok_def using unique_col_sub by blast

lemma register_reaction_inv: "db_inv d \<Longrightarrow> is_id a \<Longrightarrow> query_sb_register_reaction mid a d = Inr (r, d') \<Longrightarrow> db_inv d'"
  using sb_not_taken [of "starboard d" mid] sb_ok_row [of "starboard d" mid]
  by (fastforce simp: query_sb_register_reaction_def Let_def db_inv_parts intro!: db_inv_upd sb_ok_put split: option.splits)

lemma remove_reaction_inv: "db_inv d \<Longrightarrow> query_sb_remove_reaction mid d = Inr (r, d') \<Longrightarrow> db_inv d'"
  using sb_not_taken [of "starboard d" mid] sb_ok_row [of "starboard d" mid]
  by (fastforce simp: query_sb_remove_reaction_def Let_def db_inv_parts intro!: db_inv_upd sb_ok_put split: option.splits if_splits)

lemma register_message_inv: "db_inv d \<Longrightarrow> query_sb_register_message sb mid d = Inr (r, d') \<Longrightarrow> db_inv d'"
  using sb_ok_row [of "starboard d" mid]
  by (auto simp: query_sb_register_message_def db_inv_parts intro!: db_inv_upd sb_ok_put split: option.splits if_splits)

lemma remove_message_inv: "db_inv d \<Longrightarrow> db_inv (d\<lparr>starboard := tupd_where (\<lambda>k r. k = mid) (\<lambda>r. r\<lparr>sb_msg_id := None\<rparr>) (starboard d)\<rparr>)"
proof (rule db_inv_upd(3))
  assume "db_inv d"
  then have ok: "sb_ok (starboard d)" by (rule db_inv_parts)
  let ?t = "tupd_where (\<lambda>k r. k = mid) (\<lambda>r. r\<lparr>sb_msg_id := None\<rparr>) (starboard d)"
  have row: "\<exists>r0. map_of (starboard d) k = Some r0 \<and> num r = num r0 \<and> author_id r = author_id r0 \<and> (sb_msg_id r = sb_msg_id r0 \<or> sb_msg_id r = None)"
    if "map_of ?t k = Some r" for k r
    using that by (auto simp: map_of_tupd_where split: if_splits)
  show "sb_ok ?t"
    using ok row unfolding sb_ok_def unique_col_def by simp (metis option.distinct(1))
qed

lemma delete_all_inv: "db_inv d \<Longrightarrow> db_inv (d\<lparr>starboard := tdel_where P (starboard d)\<rparr>)"
proof (rule db_inv_upd(3))
  assume "db_inv d"
  then have ok: "sb_ok (starboard d)" by (rule db_inv_parts)
  then have wf: "twf (starboard d)" by (simp add: sb_ok_def)
  show "sb_ok (tdel_where P (starboard d))"
    by (rule sb_ok_sub [OF ok]) (auto simp: twf_tdel_where [OF wf] map_of_tdel_where [OF wf] split: option.splits if_splits)
qed

interpretation sb_author: dao_query "GetMessageAuthor message" db_inv
  by unfold_locales (auto simp: GetMessageAuthor_def map_query_Inr map_query_Inl query_sb_get_msg_author_def)

interpretation sb_register: dao_query "RegisterReaction message author" db_inv
  by unfold_locales (auto simp: RegisterReaction_def map_query_Inr map_query_Inl intro: register_reaction_inv [OF _ is_id_bind],
      simp add: RegisterReaction_def map_query_Inl query_sb_register_reaction_def Let_def)

interpretation sb_remove: dao_query "RemoveReaction message" db_inv
  by unfold_locales (auto simp: RemoveReaction_def map_query_Inr map_query_Inl intro: remove_reaction_inv,
      auto simp: RemoveReaction_def map_query_Inl query_sb_remove_reaction_def Let_def split: option.splits if_splits)

interpretation sb_register_message: dao_query "RegisterStarboardMessage message sb" db_inv
  by unfold_locales (auto simp: RegisterStarboardMessage_def intro: register_message_inv,
      auto simp: RegisterStarboardMessage_def query_sb_register_message_def split: option.splits if_splits)

interpretation sb_remove_message: dao_query "RemoveStarboardMessage message" db_inv
  by unfold_locales (auto simp: RemoveStarboardMessage_def query_sb_remove_message_def intro: remove_message_inv)

interpretation sb_delete_all: dao_query "StarboardDeleteAll ids" db_inv
  by unfold_locales (auto simp: StarboardDeleteAll_def Let_def intro: delete_all_inv split: if_splits)

interpretation sb_top: dao_query "GetTop10 threshold" db_inv
  by unfold_locales (auto simp: GetTop10_def)

interpretation sb_get_rank: dao_query "GetRank user threshold" db_inv
  by unfold_locales (auto simp: GetRank_def split: list.splits)

section \<open>The ranking of authors\<close>

lemma sum_list_groups:
  fixes f :: "'a \<Rightarrow> int"
  assumes "distinct as" "g ` set xs \<subseteq> set as"
  shows "sum_list (map (\<lambda>a. sum_list (map f (filter (\<lambda>x. g x = a) xs))) as) = sum_list (map f xs)"
  using assms(2)
proof (induction xs)
  case (Cons x xs)
  have "(\<Sum>a\<leftarrow>as. if g x = a then f x else 0) = f x"
    using assms(1) Cons.prems by (simp add: sum_list_distinct_conv_sum_set sum.delta)
  moreover have "(\<Sum>a\<leftarrow>as. sum_list (map f (filter (\<lambda>y. g y = a) (x # xs)))) =
    (\<Sum>a\<leftarrow>as. (if g x = a then f x else 0) + sum_list (map f (filter (\<lambda>y. g y = a) xs)))"
    by (intro arg_cong [where f = sum_list] map_cong) auto
  ultimately show ?case using Cons by (simp add: sum_list_addf)
qed (simp add: sum_list_0)

definition sb_authors :: "int \<Rightarrow> (int, sb_row) table \<Rightarrow> int list" where
  "sb_authors threshold t = sort (remdups (map (\<lambda>(k, r). author_id r) (filter (\<lambda>(k, r). num r \<ge> threshold) t)))"

lemma sb_stats_authors: "map fst (sb_stats threshold t) = sb_authors threshold t"
  by (simp add: sb_stats_def sb_authors_def comp_def Let_def)

lemma sb_authors_distinct: "distinct (sb_authors threshold t)"
  by (simp add: sb_authors_def)

lemma sb_stats_total:
  "sum_list (map (\<lambda>(a, c, s, m). s) (sb_stats threshold t)) =
   sum_list (map (\<lambda>(k, r). num r) (filter (\<lambda>(k, r). num r \<ge> threshold) t))"
proof -
  let ?rows = "filter (\<lambda>(k, r). num r \<ge> threshold) t"
  have g: "sb_group threshold t a = map (\<lambda>(k, r). num r) (filter (\<lambda>x. author_id (snd x) = a) ?rows)" for a
    by (simp add: sb_group_def case_prod_unfold conj_commute)
  have "sum_list (map (\<lambda>(a, c, s, m). s) (sb_stats threshold t)) =
    (\<Sum>a\<leftarrow>sb_authors threshold t. sum_list (map (\<lambda>(k, r). num r) (filter (\<lambda>x. author_id (snd x) = a) ?rows)))"
    by (simp add: sb_stats_def sb_authors_def comp_def Let_def g)
  also have "\<dots> = sum_list (map (\<lambda>(k, r). num r) ?rows)"
    by (rule sum_list_groups) (auto simp: sb_authors_def)
  finally show ?thesis .
qed

lemma sb_ranking_mset: "mset (sb_ranking threshold t) = mset (sb_stats threshold t)"
  by (simp add: sb_ranking_def)

lemma distinct_sb_ranking: "distinct (map fst (sb_ranking threshold t))"
proof -
  have "mset (map fst (sb_ranking threshold t)) = mset (sb_authors threshold t)"
    by (simp add: sb_ranking_mset flip: sb_stats_authors)
  then show ?thesis using mset_eq_imp_distinct_iff sb_authors_distinct by blast
qed

definition sb_entries :: "int \<Rightarrow> (int, sb_row) table \<Rightarrow> starboard_entry list" where
  "sb_entries threshold t = map sb_entry (enumerate 1 (sb_ranking threshold t))"

lemma GetTop10_take: "GetTop10 threshold d = Inr (take 10 (sb_entries threshold (starboard d)), d)"
  by (simp add: GetTop10_def sb_entries_def take_map take_enumerate)

lemma sb_ranking_ids:
  assumes "sb_ok t" "x \<in> set (sb_ranking threshold t)"
  shows "is_id (fst x)"
proof -
  have "fst x \<in> set (sb_authors threshold t)"
    using assms(2) by (simp add: sb_ranking_def flip: sb_stats_authors)
  then show ?thesis using assms(1) by (auto simp: sb_authors_def sb_ok_def in_table)
qed

lemma GetRank_find:
  assumes "db_inv d"
  shows "GetRank user threshold d = Inr (find (\<lambda>e. entry_author e = user) (sb_entries threshold (starboard d)), d)"
proof -
  let ?es = "enumerate 1 (sb_ranking threshold (starboard d))"
  have "map (\<lambda>x. fst (snd x)) ?es = map fst (sb_ranking threshold (starboard d))" by (rule map_enumerate_snd)
  then have dist: "distinct (map (\<lambda>x. fst (snd x)) ?es)" by (simp add: distinct_sb_ranking)
  have key: "entry_author (sb_entry x) = user \<longleftrightarrow> fst (snd x) = bind_id user" if "x \<in> set ?es" for x
  proof -
    have "snd x \<in> set (map snd ?es)" using imageI [OF that, of snd] by (simp del: map_snd_enumerate)
    then have "is_id (fst (snd x))"
      using sb_ranking_ids [OF db_inv_parts(3) [OF assms]] by (simp only: map_snd_enumerate)
    then show ?thesis by (auto simp: is_id_def sb_entry_def split: prod.splits)
  qed
  have "find (\<lambda>e. entry_author e = user) (sb_entries threshold (starboard d)) =
    map_option sb_entry (find (\<lambda>x. fst (snd x) = bind_id user) ?es)"
    unfolding sb_entries_def find_map
    by (intro arg_cong [where f = "map_option _"] find_cong_set) (simp add: key del: One_nat_def)
  also have "\<dots> = (case filter (\<lambda>x. fst (snd x) = bind_id user) ?es of [] \<Rightarrow> None | x # _ \<Rightarrow> Some (sb_entry x))"
    by (rule first_of_filter [OF dist, symmetric])
  finally show ?thesis
    by (simp add: GetRank_def case_prod_unfold del: One_nat_def split: list.splits)
qed

lemma sb_entries_ranks: "map sb_rank (sb_entries threshold t) = map int [1..<Suc (length (sb_entries threshold t))]"
proof -
  have "map sb_rank (sb_entries threshold t) = map int (map fst (enumerate 1 (sb_ranking threshold t)))"
    by (simp add: sb_entries_def sb_entry_def case_prod_unfold comp_def del: map_fst_enumerate)
  also have "map fst (enumerate 1 (sb_ranking threshold t)) = [1..<Suc (length (sb_entries threshold t))]"
    unfolding map_fst_enumerate by (simp add: sb_entries_def)
  finally show ?thesis .
qed

lemma sb_entries_total:
  "sum_list (map react_total (sb_entries threshold t)) =
   sum_list (map (\<lambda>(k, r). num r) (filter (\<lambda>(k, r). num r \<ge> threshold) t))"
proof -
  have "map react_total (sb_entries threshold t) =
      map (\<lambda>p. (\<lambda>(a, c, s, m). s) (snd p)) (enumerate 1 (sb_ranking threshold t))"
    by (simp add: sb_entries_def sb_entry_def case_prod_unfold comp_def)
  then have "map react_total (sb_entries threshold t) = map (\<lambda>(a, c, s, m). s) (sb_ranking threshold t)"
    by (simp only: map_enumerate_snd)
  then have "mset (map react_total (sb_entries threshold t)) = mset (map (\<lambda>(a, c, s, m). s) (sb_stats threshold t))"
    by (simp add: sb_ranking_mset)
  then have "sum_list (map react_total (sb_entries threshold t)) = sum_list (map (\<lambda>(a, c, s, m). s) (sb_stats threshold t))"
    by (metis sum_mset_sum_list)
  then show ?thesis by (simp only: sb_stats_total)
qed

section \<open>Histories of reactions\<close>

text \<open>
  The reactions added to (\<open>True\<close>) and removed from (\<open>False\<close>) one message; a query that
  throws changes nothing.
\<close>

fun sb_events :: "u64 \<Rightarrow> u64 \<Rightarrow> bool list \<Rightarrow> db \<Rightarrow> db" where
  "sb_events message author [] d = d"
| "sb_events message author (added # es) d =
     (let res = (if added then RegisterReaction message author d else RemoveReaction message d)
      in sb_events message author es (case res of Inl e \<Rightarrow> d | Inr (_, d') \<Rightarrow> d'))"

definition sb_count :: "u64 \<Rightarrow> db \<Rightarrow> int" where
  "sb_count message d = (case map_of (starboard d) (bind_id message) of None \<Rightarrow> 0 | Some r \<Rightarrow> num r)"

lemma sb_count_register:
  assumes "db_inv d" "RegisterReaction m a d = Inr (e, d')"
  shows "sb_count m d' = sb_count m d + 1 \<and> num_reactions e = sb_count m d'"
  using assms table.get_put_same [of "starboard d"] db_inv_parts(3) [OF assms(1)]
  by (auto simp: RegisterReaction_def map_query_Inr query_sb_register_reaction_def sb_count_def Let_def sb_ok_def
      split: option.splits)

lemma sb_count_remove:
  assumes "db_inv d" "sb_count m d > 1"
  shows "\<exists>e d'. RemoveReaction m d = Inr (e, d') \<and> sb_count m d' = sb_count m d - 1"
  using assms table.get_put_same [of "starboard d"] db_inv_parts(3) [OF assms(1)]
  by (auto simp: RemoveReaction_def map_query_def query_sb_remove_reaction_def sb_count_def Let_def sb_ok_def
      split: option.splits)

lemma sb_count_stuck: "sb_count m d = 1 \<Longrightarrow> RemoveReaction m d = Inl SQLITE_CONSTRAINT"
  by (auto simp: RemoveReaction_def map_query_def query_sb_remove_reaction_def sb_count_def split: option.splits)

lemma sb_events_add:
  "db_inv d \<Longrightarrow> db_inv (sb_events m a (replicate k True) d) \<and> sb_count m (sb_events m a (replicate k True) d) = sb_count m d + int k"
proof (induction k arbitrary: d)
  case (Suc k)
  obtain e d' where r: "RegisterReaction m a d = Inr (e, d')"
    by (auto simp: RegisterReaction_def map_query_def query_sb_register_reaction_def Let_def)
  from sb_register.q_inv [OF Suc.prems r] Suc.IH [of d'] sb_count_register [OF Suc.prems r] r show ?case by simp
qed simp

lemma sb_events_remove:
  "db_inv d \<Longrightarrow> 1 \<le> sb_count m d \<Longrightarrow> sb_count m (sb_events m a (replicate j False) d) = max 1 (sb_count m d - int j)"
proof (induction j arbitrary: d)
  case (Suc j)
  show ?case
  proof (cases "sb_count m d = 1")
    case True
    then show ?thesis using Suc.IH [OF Suc.prems] sb_count_stuck [OF True] by simp
  next
    case False
    with Suc.prems obtain e d' where r: "RemoveReaction m d = Inr (e, d')" "sb_count m d' = sb_count m d - 1"
      using sb_count_remove [of d m] by fastforce
    with Suc.IH [OF sb_remove.q_inv [OF Suc.prems(1) r(1)]] Suc.prems False show ?thesis by simp
  qed
qed simp

lemma sb_events_append: "sb_events m a (xs @ ys) d = sb_events m a ys (sb_events m a xs d)"
  by (induction xs arbitrary: d) (auto simp: Let_def)

section \<open>Properties\<close>

text \<open>
  The ranking is one list of the authors with messages above the threshold: the top ten
  are its first ten, numbered from 1, the rank of a user is the entry that the list holds
  for that user, and every counted reaction belongs to exactly one author.
\<close>

theorem starboard_ranking:
  assumes "db_inv d"
  shows "\<exists>es. GetTop10 threshold d = Inr (take 10 es, d)
    \<and> (\<forall>user. GetRank user threshold d = Inr (find (\<lambda>e. entry_author e = user) es, d))
    \<and> map sb_rank es = map int [1..<Suc (length es)]
    \<and> sum_list (map react_total es) = sum_list (map (\<lambda>(k, r). num r) (filter (\<lambda>(k, r). num r \<ge> threshold) (starboard d)))"
  using GetTop10_take GetRank_find [OF assms] sb_entries_ranks sb_entries_total by blast

theorem starboard_ranking_witness:
  "let d = snd (projr (RegisterReaction 5 7 db_empty)) in db_inv d \<and>
     (\<exists>es. GetTop10 1 d = Inr (take 10 es, d) \<and> sum_list (map react_total es) = 1)"
proof -
  let ?d = "snd (projr (RegisterReaction 5 7 db_empty))"
  have r: "RegisterReaction 5 7 db_empty = Inr (\<lparr>starboard_message_id = None, num_reactions = 1\<rparr>, ?d)"
    by (simp add: RegisterReaction_def map_query_def query_sb_register_reaction_def db_empty_def Let_def opt_id_def)
  then have inv: "db_inv ?d" using sb_register.q_inv [OF db_inv_empty] by blast
  have s: "starboard ?d = [(5, \<lparr>author_id = 7, sb_msg_id = None, num = 1\<rparr>)]"
    by (simp add: RegisterReaction_def map_query_def query_sb_register_reaction_def db_empty_def bind_id_def Let_def)
  from starboard_ranking [OF inv, of 1] obtain es where "GetTop10 1 ?d = Inr (take 10 es, ?d)"
    "sum_list (map react_total es) = 1" by (auto simp: s)
  with inv show ?thesis unfolding Let_def by blast
qed

text \<open>
  C40: after \<open>k\<close> reactions are added to a new message and \<open>j\<close> of them are removed, the stored
  number is their difference only while one is left: the removal of the last reaction
  violates the check of the table and throws, and the message keeps one reaction forever.
\<close>

theorem starboard_last_reaction:
  assumes "db_inv d" and "sb_count m d = 0" and "1 \<le> k" and "j \<le> k"
  shows "sb_count m (sb_events m a (replicate k True @ replicate j False) d) = max 1 (int k - int j)"
  using sb_events_add [OF assms(1), of m a k] assms
  by (simp add: sb_events_append sb_events_remove)

theorem starboard_last_reaction_witness:
  "sb_count 5 (sb_events 5 7 [True, True, False, False] db_empty) = 1"
  using starboard_last_reaction [OF db_inv_empty, of 5 2 2 7]
  by (simp add: sb_count_def db_empty_def numeral_eq_Suc)

end
