(* ===== verification/Nicknames_DB.thy ===== *)
theory Nicknames_DB
  imports Schema
begin

text \<open>
  \<open>cNicknamesDAO\<close> (Database/Nicknames): the nickname each member had and the message that
  asks for one.
\<close>

record nickname_entry =
  entry_msg_id :: "u64 option"
  entry_nick :: string

definition text_or_empty :: "string option \<Rightarrow> string" where
  "text_or_empty v = (case v of None \<Rightarrow> [] | Some s \<Rightarrow> s)"

definition query_nick_get :: "int \<Rightarrow> (db, nick_row option) query" where
  "query_nick_get uid d = Inr (map_of (nicknames d) uid, d)"

definition NicknamesGet :: "u64 \<Rightarrow> (db, nickname_entry) query" where
  "NicknamesGet user =
     map_query (\<lambda>row. case row of
         None \<Rightarrow> \<lparr>entry_msg_id = None, entry_nick = []\<rparr>
       | Some r \<Rightarrow> \<lparr>entry_msg_id = opt_id (nick_msg r), entry_nick = text_or_empty (nick r)\<rparr>)
       (query_nick_get (bind_id user))"

text \<open>The message before the update is what the statement returns.\<close>

definition query_nick_delete_message :: "int \<Rightarrow> (db, int option option) query" where
  "query_nick_delete_message uid d =
     (case map_of (nicknames d) uid of
        None \<Rightarrow> Inr (None, d)
      | Some r \<Rightarrow> Inr (Some (nick_msg r), d\<lparr>nicknames := tput uid (r\<lparr>nick_msg := None\<rparr>) (nicknames d)\<rparr>))"

definition NicknamesDeleteMessage :: "u64 \<Rightarrow> (db, u64 option) query" where
  "NicknamesDeleteMessage user =
     map_query (\<lambda>row. case row of None \<Rightarrow> None | Some v \<Rightarrow> opt_id v) (query_nick_delete_message (bind_id user))"

definition query_nick_update :: "int \<Rightarrow> string \<Rightarrow> (db, unit) query" where
  "query_nick_update uid nk d =
     (let r = (case map_of (nicknames d) uid of
            None \<Rightarrow> \<lparr>nick_msg = None, nick = Some nk\<rparr>
          | Some r \<Rightarrow> r\<lparr>nick := Some nk\<rparr>)
      in Inr ((), d\<lparr>nicknames := tput uid r (nicknames d)\<rparr>))"

definition NicknamesUpdate :: "u64 \<Rightarrow> string \<Rightarrow> (db, unit) query" where
  "NicknamesUpdate user nk = query_nick_update (bind_id user) nk"

text \<open>
  The upsert has no conflict target: it meets the row of the user, which it updates unless
  another row holds the message already, or else a row of another user with that message,
  which its condition leaves alone.
\<close>

definition query_nick_register_message :: "int \<Rightarrow> int \<Rightarrow> (db, unit) query" where
  "query_nick_register_message uid mid d =
     (case map_of (nicknames d) uid of
        Some r \<Rightarrow>
          if col_taken nick_msg uid mid (nicknames d) then Inl SQLITE_CONSTRAINT
          else Inr ((), d\<lparr>nicknames := tput uid (r\<lparr>nick_msg := Some mid\<rparr>) (nicknames d)\<rparr>)
      | None \<Rightarrow>
          if col_taken nick_msg uid mid (nicknames d) then Inr ((), d)
          else Inr ((), d\<lparr>nicknames := tput uid \<lparr>nick_msg = Some mid, nick = None\<rparr> (nicknames d)\<rparr>))"

definition NicknamesRegisterMessage :: "u64 \<Rightarrow> u64 \<Rightarrow> (db, unit) query" where
  "NicknamesRegisterMessage user msg = query_nick_register_message (bind_id user) (bind_id msg)"

text \<open>\<open>Cleanup\<close> returns the number of rows that the statement deleted.\<close>

definition NicknamesCleanup :: "(db, int) query" where
  "NicknamesCleanup d =
     (let stale = (\<lambda>(k :: int) r. nick_msg r = None \<and> nick r = None)
      in Inr (int (length (tselect stale (nicknames d))), d\<lparr>nicknames := tdel_where stale (nicknames d)\<rparr>))"

section \<open>The queries keep the constraints\<close>

lemma nick_ok_put:
  assumes "nick_ok t" "\<forall>v. nick_msg r = Some v \<longrightarrow> \<not> col_taken nick_msg k v t"
  shows "nick_ok (tput k r t)"
  using assms unique_col_put [of t nick_msg r k] by (auto simp: nick_ok_def table.wf_put)

lemma nick_not_taken:
  assumes "nick_ok t" "map_of t k = Some r" "nick_msg r = Some v"
  shows "\<not> col_taken nick_msg k v t"
  using assms by (force simp: nick_ok_def unique_col_def col_taken_def in_table)

interpretation nick_get: dao_query "NicknamesGet user" db_inv
  by unfold_locales (auto simp: NicknamesGet_def query_nick_get_def map_query_def)

interpretation nick_delete: dao_query "NicknamesDeleteMessage user" db_inv
  by unfold_locales (auto simp: NicknamesDeleteMessage_def query_nick_delete_message_def map_query_Inr map_query_Inl
      db_inv_parts intro!: db_inv_upd nick_ok_put split: option.splits)

lemma query_nick_update_inv: "db_inv d \<Longrightarrow> query_nick_update uid nk d = Inr (r, d') \<Longrightarrow> db_inv d'"
  using nick_not_taken [of "nicknames d" uid]
  by (fastforce simp: query_nick_update_def Let_def db_inv_parts intro!: db_inv_upd nick_ok_put split: option.splits)

interpretation nick_update: dao_query "NicknamesUpdate user nk" db_inv
  by unfold_locales (auto simp: NicknamesUpdate_def intro: query_nick_update_inv,
      simp add: NicknamesUpdate_def query_nick_update_def Let_def)

interpretation nick_register: dao_query "NicknamesRegisterMessage user msg" db_inv
  by unfold_locales (auto simp: NicknamesRegisterMessage_def query_nick_register_message_def
      db_inv_parts intro!: db_inv_upd nick_ok_put split: option.splits if_splits)

lemma nick_ok_tdel_where: "nick_ok t \<Longrightarrow> nick_ok (tdel_where P t)"
  unfolding nick_ok_def
  by (auto simp: twf_tdel_where map_of_tdel_where intro!: unique_col_sub [of nick_msg t] split: option.splits if_splits)

interpretation nick_cleanup: dao_query NicknamesCleanup db_inv
  by unfold_locales (auto simp: NicknamesCleanup_def Let_def db_inv_parts intro!: db_inv_upd nick_ok_tdel_where)

section \<open>What is read back\<close>

lemma NicknamesGet_eq:
  "NicknamesGet user d = Inr ((case map_of (nicknames d) (bind_id user) of
      None \<Rightarrow> \<lparr>entry_msg_id = None, entry_nick = []\<rparr>
    | Some r \<Rightarrow> \<lparr>entry_msg_id = opt_id (nick_msg r), entry_nick = text_or_empty (nick r)\<rparr>), d)"
  by (simp add: NicknamesGet_def query_nick_get_def map_query_def)

lemma nicknames_of_update:
  assumes "db_inv d" "NicknamesUpdate user nk d = Inr (u, d')"
  shows "map_of (nicknames d') = (map_of (nicknames d))(bind_id user \<mapsto>
    (case map_of (nicknames d) (bind_id user) of None \<Rightarrow> \<lparr>nick_msg = None, nick = Some nk\<rparr> | Some r \<Rightarrow> r\<lparr>nick := Some nk\<rparr>))"
  using assms db_inv_parts(2) [OF assms(1)]
  by (auto simp: NicknamesUpdate_def query_nick_update_def Let_def nick_ok_def table.get_put)

lemma nick_get_updated:
  assumes "db_inv d" "NicknamesUpdate user nk d = Inr (u, d')"
  shows "fst (projr (NicknamesGet user d')) = (fst (projr (NicknamesGet user d)))\<lparr>entry_nick := nk\<rparr>"
    and "user' \<noteq> user \<Longrightarrow> fst (projr (NicknamesGet user' d')) = fst (projr (NicknamesGet user' d))"
  by (simp_all add: NicknamesGet_eq nicknames_of_update [OF assms] text_or_empty_def opt_id_def split: option.splits)

lemma nick_delete_message_get:
  assumes "db_inv d" "NicknamesDeleteMessage user d = Inr (m, d')"
  shows "m = entry_msg_id (fst (projr (NicknamesGet user d)))"
    and "fst (projr (NicknamesGet user d')) = (fst (projr (NicknamesGet user d)))\<lparr>entry_msg_id := None\<rparr>"
  using assms db_inv_parts(2) [OF assms(1)]
  by (auto simp: NicknamesDeleteMessage_def query_nick_delete_message_def NicknamesGet_eq map_query_Inr nick_ok_def
      table.get_put text_or_empty_def opt_id_def split: option.splits)

end
