(* ===== verification/MessageLog_DB.thy ===== *)
theory MessageLog_DB
  imports Schema Snowflake
begin

text \<open>
  \<open>cMessageLogDAO\<close> (Database/MessageLog), the contents of recent messages, and
  \<open>cCompromisedAccountsDAO\<close> (Database/CompromisedAccounts), which counts the channels in
  which a member posted the same content.
\<close>

record message_entry =
  me_id :: u64
  me_channel :: u64
  me_author :: u64
  me_content :: string

definition bind_text :: "string \<Rightarrow> string option" where
  "bind_text s = (if s = [] then None else Some s)"

definition column_text :: "string option \<Rightarrow> string" where
  "column_text v = (case v of None \<Rightarrow> [] | Some s \<Rightarrow> s)"

lemma column_text_bind [simp]: "column_text (bind_text s) = s"
  by (simp add: column_text_def bind_text_def)

definition MessageLogRegister :: "u64 \<Rightarrow> u64 \<Rightarrow> u64 \<Rightarrow> string \<Rightarrow> (db, unit) query" where
  "MessageLogRegister mid channel author text d =
     (case map_of (messages d) (bind_id mid) of
        Some _ \<Rightarrow> Inl SQLITE_CONSTRAINT
      | None \<Rightarrow> Inr ((), d\<lparr>messages := tput (bind_id mid)
          \<lparr>msg_channel = bind_id channel, msg_author = bind_id author, content = bind_text text\<rparr> (messages d)\<rparr>))"

definition MessageLogGet :: "u64 \<Rightarrow> (db, message_entry option) query" where
  "MessageLogGet mid d =
     Inr (map_option (\<lambda>r. \<lparr>me_id = mid, me_channel = column_id (msg_channel r), me_author = column_id (msg_author r),
         me_content = column_text (content r)\<rparr>) (map_of (messages d) (bind_id mid)), d)"

definition MessageLogUpdate :: "u64 \<Rightarrow> string \<Rightarrow> (db, unit) query" where
  "MessageLogUpdate mid text d =
     Inr ((), d\<lparr>messages := tupd_where (\<lambda>k r. k = bind_id mid) (\<lambda>r. r\<lparr>content := bind_text text\<rparr>) (messages d)\<rparr>)"

definition message_entry_of :: "int \<times> msg_row \<Rightarrow> message_entry" where
  "message_entry_of = (\<lambda>(k, r). \<lparr>me_id = column_id k, me_channel = column_id (msg_channel r),
     me_author = column_id (msg_author r), me_content = column_text (content r)\<rparr>)"

definition MessageLogDelete :: "u64 list \<Rightarrow> (db, message_entry list) query" where
  "MessageLogDelete ids d =
     (if ids = [] then Inr ([], d)
      else let sel = (\<lambda>k (r :: msg_row). k \<in> set (map bind_id ids))
        in Inr (map message_entry_of (tselect sel (messages d)), d\<lparr>messages := tdel_where sel (messages d)\<rparr>))"

text \<open>
  \<open>Cleanup\<close> at time \<open>now\<close> in milliseconds since 1970: the bound is counted from 2015, like
  the upper bits of an identifier, and lies 15 days back.
\<close>

definition cleanup_bound :: "int \<Rightarrow> int" where
  "cleanup_bound now = now - sys_days 2015 1 1 * ms_day - 15 * 24 * ms_hour"

definition MessageLogCleanup :: "int \<Rightarrow> (db, int) query" where
  "MessageLogCleanup now d =
     (let old = (\<lambda>k (r :: msg_row). shift22 k < cleanup_bound now)
      in Inr (int (length (tselect old (messages d))), d\<lparr>messages := tdel_where old (messages d)\<rparr>))"

section \<open>Metrics of a compromised account\<close>

record compromised_entry =
  num_channels :: int
  period :: int

text \<open>\<open>IS\<close> compares NULL with NULL as equal; the aggregate of no rows is 0 and NULL.\<close>

definition query_compro_metrics :: "int \<Rightarrow> string option \<Rightarrow> int \<Rightarrow> (db, int \<times> int) query" where
  "query_compro_metrics author text mid d =
     (let rows = tselect (\<lambda>k r. msg_author r = author \<and> content r = text \<and> shift22 mid - shift22 k < 60000) (messages d);
          ts = map (\<lambda>(k, r). shift22 k) rows
      in Inr ((int (length (remdups (map (\<lambda>(k, r). msg_channel r) rows))),
               if ts = [] then 0 else fold max ts (hd ts) - fold min ts (hd ts)), d))"

definition GetMetrics :: "u64 \<Rightarrow> string \<Rightarrow> u64 \<Rightarrow> (db, compromised_entry) query" where
  "GetMetrics author text mid =
     map_query (\<lambda>(n, p). \<lparr>num_channels = n, period = p\<rparr>)
       (query_compro_metrics (bind_id author) (bind_text text) (bind_id mid))"

section \<open>The queries keep the constraints\<close>

interpretation log_register: dao_query "MessageLogRegister mid channel author text" db_inv
  by unfold_locales (auto simp: MessageLogRegister_def db_inv_parts table.wf_put intro!: db_inv_upd split: option.splits)

interpretation log_get: dao_query "MessageLogGet mid" db_inv
  by unfold_locales (auto simp: MessageLogGet_def)

interpretation log_update: dao_query "MessageLogUpdate mid text" db_inv
  by unfold_locales (auto simp: MessageLogUpdate_def db_inv_parts intro!: db_inv_upd)

interpretation log_delete: dao_query "MessageLogDelete ids" db_inv
  by unfold_locales (auto simp: MessageLogDelete_def Let_def db_inv_parts twf_tdel_where intro!: db_inv_upd split: if_splits)

interpretation log_cleanup: dao_query "MessageLogCleanup now" db_inv
  by unfold_locales (auto simp: MessageLogCleanup_def Let_def db_inv_parts twf_tdel_where intro!: db_inv_upd)

interpretation compro: dao_query "GetMetrics author text mid" db_inv
  by unfold_locales (auto simp: GetMetrics_def query_compro_metrics_def map_query_Inr map_query_Inl Let_def)

section \<open>What stays in the log\<close>

lemma log_get_row: "MessageLogGet mid d = Inr (e, d') \<Longrightarrow> d' = d \<and> (e = None \<longleftrightarrow> map_of (messages d) (bind_id mid) = None)"
  by (auto simp: MessageLogGet_def)

text \<open>The upper bits of a stored identifier are the milliseconds of its timestamp.\<close>

lemma shift22_bind: "n < 2 ^ 63 \<Longrightarrow> shift22 (bind_id n) = GetTimestamp (sf_of_int n) - sys_days 2015 1 1 * ms_day"
proof -
  assume "n < 2 ^ 63"
  then have "uint n < 2 ^ 63" by (simp add: word_less_alt)
  then have s: "sint n = uint n" by (simp add: sint_uint signed_take_bit_int_eq_self_iff order_trans [OF _ uint_ge_0])
  have "take_bit 64 (uint n) = uint n"
    by (rule take_bit_int_eq_self) (use unsigned_less [of n, where ?'a = int] in simp_all)
  then have "uint (drop_bit 22 n) = drop_bit 22 (uint n)" by (simp only: unsigned_drop_bit_eq) simp
  with s show ?thesis
    by (simp add: shift22_def bind_id_def GetTimestamp_def sf_of_int_def del: unsigned_drop_bit_eq)
qed

section \<open>Properties\<close>

text \<open>
  A logged message is read back as it was registered, and updating its content changes
  nothing else of it.
\<close>

theorem message_log_roundtrip:
  assumes "db_inv d" and "MessageLogRegister mid channel author text d = Inr ((), d1)"
    and "MessageLogUpdate mid text' d1 = Inr ((), d2)"
  shows "MessageLogGet mid d1 = Inr (Some \<lparr>me_id = mid, me_channel = channel, me_author = author, me_content = text\<rparr>, d1)
    \<and> MessageLogGet mid d2 = Inr (Some \<lparr>me_id = mid, me_channel = channel, me_author = author, me_content = text'\<rparr>, d2)
    \<and> (\<forall>m. m \<noteq> mid \<longrightarrow> fst (projr (MessageLogGet m d2)) = fst (projr (MessageLogGet m d)))"
  using assms db_inv_parts(4) [OF assms(1)]
  by (auto simp: MessageLogRegister_def MessageLogUpdate_def MessageLogGet_def table.get_put map_of_tupd_where
      option.map_ident split: option.splits)

theorem message_log_roundtrip_witness:
  "\<exists>d1. MessageLogRegister 9 3 7 ''hi'' db_empty = Inr ((), d1) \<and>
     MessageLogGet 9 d1 = Inr (Some \<lparr>me_id = 9, me_channel = 3, me_author = 7, me_content = ''hi''\<rparr>, d1)"
proof -
  obtain d1 where r: "MessageLogRegister 9 3 7 ''hi'' db_empty = Inr ((), d1)"
    by (simp add: MessageLogRegister_def db_empty_def)
  obtain d2 where u: "MessageLogUpdate 9 [] d1 = Inr ((), d2)" by (simp add: MessageLogUpdate_def)
  from message_log_roundtrip [OF db_inv_empty r u] r show ?thesis by blast
qed

text \<open>
  The cleanup removes exactly the messages whose snowflake timestamp is more than 15
  days before the given time, for identifiers below the sign bit.
\<close>

theorem message_log_cleanup:
  assumes "db_inv d" and "MessageLogCleanup now d = Inr (n, d')" and "mid < 2 ^ 63"
  shows "fst (projr (MessageLogGet mid d')) =
    (if GetTimestamp (sf_of_int mid) < now - 15 * ms_day then None else fst (projr (MessageLogGet mid d)))"
proof -
  have d': "messages d' = tdel_where (\<lambda>k r. shift22 k < cleanup_bound now) (messages d)"
    using assms(2) by (auto simp: MessageLogCleanup_def Let_def)
  have "shift22 (bind_id mid) < cleanup_bound now \<longleftrightarrow> GetTimestamp (sf_of_int mid) < now - 15 * ms_day"
    by (simp add: shift22_bind [OF assms(3)] cleanup_bound_def ms_units)
  then show ?thesis
    by (simp add: MessageLogGet_def d' map_of_tdel_where [OF db_inv_parts(4) [OF assms(1)]] split: option.splits)
qed

theorem message_log_cleanup_witness:
  "\<exists>n d'. MessageLogCleanup 1420070400000 db_empty = Inr (n, d') \<and> fst (projr (MessageLogGet 9 d')) = None"
proof -
  obtain n d' where c: "MessageLogCleanup 1420070400000 db_empty = Inr (n, d')"
    by (simp add: MessageLogCleanup_def Let_def)
  have "fst (projr (MessageLogGet 9 db_empty)) = None" by (simp add: MessageLogGet_def db_empty_def)
  with c message_log_cleanup [OF db_inv_empty c, of 9] show ?thesis by auto
qed

end
