(* ===== verification/Moderation_DB.thy ===== *)
theory Moderation_DB
  imports Schema Chrono "HOL-Library.Multiset"
begin

text \<open>
  \<open>cTempBanDAO\<close> (Database/TempBans) and \<open>cInfractionsDAO\<close> (Database/Infractions): the bans
  that expire on a day and the warnings of each member. Dates are days and time points are
  milliseconds since 1970.
\<close>

section \<open>Temporary bans\<close>

definition query_tempban_remove :: "int \<Rightarrow> (db, unit) query" where
  "query_tempban_remove uid d = Inr ((), d\<lparr>tempbans := tdel uid (tempbans d)\<rparr>)"

definition TempBanRemove :: "u64 \<Rightarrow> (db, unit) query" where
  "TempBanRemove user = query_tempban_remove (bind_id user)"

definition query_tempban_register :: "int \<Rightarrow> int \<Rightarrow> (db, unit) query" where
  "query_tempban_register uid expires d = Inr ((), d\<lparr>tempbans := tput uid expires (tempbans d)\<rparr>)"

text \<open>The epoch stands for a ban without an end: only a registered one is removed.\<close>

definition TempBanRegister :: "u64 \<Rightarrow> int \<Rightarrow> (db, unit) query" where
  "TempBanRegister user expires_at =
     (if expires_at = 0 then TempBanRemove user else query_tempban_register (bind_id user) expires_at)"

text \<open>\<open>GetExpired\<close> at \<open>now\<close> milliseconds.\<close>

definition GetExpired :: "int \<Rightarrow> (db, u64 list) query" where
  "GetExpired now d =
     Inr (map (\<lambda>(k, r). column_id k) (tselect (\<lambda>k r. now div ms_day \<ge> r) (tempbans d)), d)"

definition TempBanRemoveAll :: "u64 list \<Rightarrow> (db, unit) query" where
  "TempBanRemoveAll user_ids d =
     (if user_ids = [] then Inr ((), d)
      else Inr ((), d\<lparr>tempbans := tdel_where (\<lambda>k r. k \<in> set (map bind_id user_ids)) (tempbans d)\<rparr>))"

section \<open>Infractions\<close>

record infraction_entry =
  inf_timestamp :: int
  inf_reason :: string

record infraction_result =
  stats_today :: int
  stats_this_week :: int
  stats_total :: int
  inf_entries :: "infraction_entry list"

definition query_warn_register :: "int \<Rightarrow> int \<Rightarrow> string option \<Rightarrow> (db, unit) query" where
  "query_warn_register uid ts text d =
     (case map_of (infractions d) (uid, ts) of
        Some _ \<Rightarrow> Inl SQLITE_CONSTRAINT
      | None \<Rightarrow> Inr ((), d\<lparr>infractions := tput (uid, ts) \<lparr>timed_out = 0, reason = text\<rparr> (infractions d)\<rparr>))"

definition InfractionsRegister :: "u64 \<Rightarrow> int \<Rightarrow> string \<Rightarrow> (db, unit) query" where
  "InfractionsRegister user timepoint text =
     query_warn_register (bind_id user) timepoint (if text = [] then None else Some text)"

text \<open>
  \<open>LAG(timestamp) OVER (ORDER BY timestamp DESC) - timestamp\<close> of the second row: the
  difference between the two newest warnings that have not been timed out for yet.
\<close>

definition warn_open :: "int \<Rightarrow> ((int \<times> int), warn_row) table \<Rightarrow> int list" where
  "warn_open uid t = rev (sort (map (\<lambda>((u, ts), r). ts) (tselect (\<lambda>(u, ts) r. u = uid \<and> timed_out r = 0) t)))"

definition query_warn_delta :: "int \<Rightarrow> (db, int option) query" where
  "query_warn_delta uid d =
     Inr ((case warn_open uid (infractions d) of newest # second # _ \<Rightarrow> Some (newest - second) | _ \<Rightarrow> None), d)"

definition ms_max :: int where
  "ms_max = 9223372036854775807"

definition GetRecentDeltaTime :: "u64 \<Rightarrow> (db, int) query" where
  "GetRecentDeltaTime user = map_query (\<lambda>row. case row of None \<Rightarrow> ms_max | Some dt \<Rightarrow> dt) (query_warn_delta (bind_id user))"

text \<open>
  \<open>query_warn_stats.sql\<close>: three rows of counts, then the warnings up to \<open>now\<close>, newest
  first, 13 rows in all.
\<close>

definition warns_of :: "int \<Rightarrow> ((int \<times> int), warn_row) table \<Rightarrow> (int \<times> string option) list" where
  "warns_of uid t = map (\<lambda>((u, ts), r). (ts, reason r)) (tselect (\<lambda>(u, ts) r. u = uid) t)"

definition query_warn_stats :: "int \<Rightarrow> int \<Rightarrow> int \<Rightarrow> int \<Rightarrow> (db, (int \<times> string option) list) query" where
  "query_warn_stats uid now day week d =
     (let ws = warns_of uid (infractions d);
          today = int (length (filter (\<lambda>(ts, r). now - ts < day) ws));
          this_week = int (length (filter (\<lambda>(ts, r). now - ts < week) ws));
          listed = sort_key (\<lambda>(ts, r). - ts) (filter (\<lambda>(ts, r). ts \<le> now) ws)
      in Inr (take 13 ([(today, None), (this_week, None), (int (length ws), None)] @ listed), d))"

definition GetStatsByUser :: "u64 \<Rightarrow> int \<Rightarrow> (db, infraction_result) query" where
  "GetStatsByUser user now d =
     (case query_warn_stats (bind_id user) now ms_day ms_week d of
        Inl e \<Rightarrow> Inl e
      | Inr ((a, _) # (b, _) # (c, _) # rows, d') \<Rightarrow>
          Inr (\<lparr>stats_today = a, stats_this_week = b, stats_total = c,
                inf_entries = map (\<lambda>(ts, r). \<lparr>inf_timestamp = ts, inf_reason = (case r of None \<Rightarrow> [] | Some s \<Rightarrow> s)\<rparr>) rows\<rparr>, d')
      | Inr (_, d') \<Rightarrow> Inl SQLITE_INTERNAL)"

definition InfractionsDelete :: "u64 \<Rightarrow> int \<Rightarrow> (db, unit) query" where
  "InfractionsDelete user ts d = Inr ((), d\<lparr>infractions := tdel (bind_id user, ts) (infractions d)\<rparr>)"

definition InfractionsDeleteAll :: "u64 \<Rightarrow> (db, unit) query" where
  "InfractionsDeleteAll user d =
     Inr ((), d\<lparr>infractions := tdel_where (\<lambda>(u, ts) r. u = bind_id user) (infractions d)\<rparr>)"

definition InfractionsTimeOut :: "u64 \<Rightarrow> int \<Rightarrow> (db, unit) query" where
  "InfractionsTimeOut user now d =
     Inr ((), d\<lparr>infractions := tupd_where (\<lambda>(u, ts) r. u = bind_id user \<and> ts \<le> now) (\<lambda>r. r\<lparr>timed_out := 1\<rparr>) (infractions d)\<rparr>)"

section \<open>The queries keep the constraints\<close>

lemma tb_ok_put: "tb_ok t \<Longrightarrow> is_id k \<Longrightarrow> tb_ok (tput k r t)"
  by (auto simp: tb_ok_def table.wf_put table.get_put split: if_splits)

lemma tb_ok_del: "tb_ok t \<Longrightarrow> tb_ok (tdel k t)"
  by (auto simp: tb_ok_def table.wf_del table.get_del split: if_splits)

lemma tb_ok_del_where: "tb_ok t \<Longrightarrow> tb_ok (tdel_where P t)"
  by (auto simp: tb_ok_def twf_tdel_where map_of_tdel_where split: option.splits if_splits)

interpretation ban_register: dao_query "TempBanRegister user expires" db_inv
  by unfold_locales (auto simp: TempBanRegister_def TempBanRemove_def query_tempban_remove_def query_tempban_register_def
      db_inv_parts tb_ok_put tb_ok_del intro!: db_inv_upd split: if_splits)

interpretation ban_expired: dao_query "GetExpired now" db_inv
  by unfold_locales (auto simp: GetExpired_def)

interpretation ban_remove: dao_query "TempBanRemove user" db_inv
  by unfold_locales (auto simp: TempBanRemove_def query_tempban_remove_def db_inv_parts tb_ok_del intro!: db_inv_upd)

interpretation ban_remove_all: dao_query "TempBanRemoveAll users" db_inv
  by unfold_locales (auto simp: TempBanRemoveAll_def db_inv_parts tb_ok_del_where intro!: db_inv_upd split: if_splits)

interpretation warn_register: dao_query "InfractionsRegister user ts text" db_inv
  by unfold_locales (auto simp: InfractionsRegister_def query_warn_register_def db_inv_parts table.wf_put
      intro!: db_inv_upd split: option.splits)

interpretation warn_delta: dao_query "GetRecentDeltaTime user" db_inv
  by unfold_locales (auto simp: GetRecentDeltaTime_def query_warn_delta_def map_query_def)

interpretation warn_stats: dao_query "GetStatsByUser user now" db_inv
  by unfold_locales (auto simp: GetStatsByUser_def query_warn_stats_def Let_def)

interpretation warn_delete: dao_query "InfractionsDelete user ts" db_inv
  by unfold_locales (auto simp: InfractionsDelete_def db_inv_parts table.wf_del intro!: db_inv_upd)

interpretation warn_delete_all: dao_query "InfractionsDeleteAll user" db_inv
  by unfold_locales (auto simp: InfractionsDeleteAll_def db_inv_parts twf_tdel_where intro!: db_inv_upd)

interpretation warn_timeout: dao_query "InfractionsTimeOut user now" db_inv
  by unfold_locales (auto simp: InfractionsTimeOut_def db_inv_parts intro!: db_inv_upd)

section \<open>Expiry\<close>

lemma in_tselect: "twf t \<Longrightarrow> (k, r) \<in> set (tselect P t) \<longleftrightarrow> map_of t k = Some r \<and> P k r"
  by (auto simp: tselect_def in_table)

lemma in_expired:
  assumes "db_inv d"
  shows "u \<in> set (fst (projr (GetExpired now d))) \<longleftrightarrow> (\<exists>e. map_of (tempbans d) (bind_id u) = Some e \<and> now div ms_day \<ge> e)"
proof -
  have ok: "tb_ok (tempbans d)" using assms by (rule db_inv_parts)
  then have wf: "twf (tempbans d)" by (simp add: tb_ok_def)
  have "(\<exists>k r. (k, r) \<in> set (tselect (\<lambda>k r. now div ms_day \<ge> r) (tempbans d)) \<and> column_id k = u) \<longleftrightarrow>
    (\<exists>e. map_of (tempbans d) (bind_id u) = Some e \<and> now div ms_day \<ge> e)"
    unfolding in_tselect [OF wf] using ok by (auto simp: tb_ok_def is_id_def) (metis column_bind)
  then show ?thesis by (force simp: GetExpired_def)
qed

section \<open>The time between warnings\<close>

lemma mset_tput: "twf t \<Longrightarrow> map_of t k = None \<Longrightarrow> mset (tput k r t) = add_mset (k, r) (mset t)"
  by (induction k r t rule: tput.induct) (auto simp: twf_Cons split: if_splits)

lemma sort_new_max:
  fixes xs :: "int list"
  assumes "mset ys = add_mset x (mset xs)" "\<forall>y \<in> set xs. y \<le> x"
  shows "rev (sort ys) = x # rev (sort xs)"
proof -
  have "sort ys = sort xs @ [x]"
    by (rule properties_for_sort) (use assms in \<open>auto simp: sorted_append\<close>)
  then show ?thesis by simp
qed

lemma warn_open_put:
  assumes "twf t" "map_of t (uid, ts) = None" "\<forall>x \<in> set (warn_open uid t). x \<le> ts"
  shows "warn_open uid (tput (uid, ts) \<lparr>timed_out = 0, reason = r\<rparr> t) = ts # warn_open uid t"
  unfolding warn_open_def
  by (rule sort_new_max)
    (use assms in \<open>auto simp: tselect_def mset_tput warn_open_def\<close>)

definition warn_listed :: "int \<Rightarrow> int \<Rightarrow> ((int \<times> int), warn_row) table \<Rightarrow> (int \<times> string option) list" where
  "warn_listed uid now t = take 10 (sort_key (\<lambda>(ts, r). - ts) (filter (\<lambda>(ts, r). ts \<le> now) (warns_of uid t)))"

definition warns_within :: "int \<Rightarrow> int \<Rightarrow> int \<Rightarrow> ((int \<times> int), warn_row) table \<Rightarrow> int" where
  "warns_within uid now span t = int (length (filter (\<lambda>(ts, r). now - ts < span) (warns_of uid t)))"

lemma GetStatsByUser_eq:
  "GetStatsByUser user now d =
   Inr (\<lparr>stats_today = warns_within (bind_id user) now ms_day (infractions d),
         stats_this_week = warns_within (bind_id user) now ms_week (infractions d),
         stats_total = int (length (warns_of (bind_id user) (infractions d))),
         inf_entries = map (\<lambda>(ts, r). \<lparr>inf_timestamp = ts, inf_reason = (case r of None \<Rightarrow> [] | Some s \<Rightarrow> s)\<rparr>)
           (warn_listed (bind_id user) now (infractions d))\<rparr>, d)"
  by (simp add: GetStatsByUser_def query_warn_stats_def warn_listed_def warns_within_def Let_def)

lemma warns_within_mono: "s \<le> s' \<Longrightarrow> warns_within uid now s t \<le> warns_within uid now s' t"
  unfolding warns_within_def of_nat_le_iff by (rule length_filter_mono) auto

lemma warns_within_total: "warns_within uid now s t \<le> int (length (warns_of uid t))"
  unfolding warns_within_def of_nat_le_iff by (rule length_filter_le)

lemma warn_listed_sorted: "sorted_wrt (\<lambda>a b. fst b \<le> fst a) (warn_listed uid now t)"
  unfolding warn_listed_def
  using sorted_sort_key [of "\<lambda>(ts, r). - ts" "filter (\<lambda>(ts, r). ts \<le> now) (warns_of uid t)"]
  by (intro sorted_wrt_take) (simp add: sorted_wrt_map case_prod_unfold)

lemma warn_listed_past: "x \<in> set (warn_listed uid now t) \<Longrightarrow> fst x \<le> now"
  unfolding warn_listed_def using in_set_takeD by fastforce

section \<open>Properties\<close>

text \<open>
  Registering a ban makes it expire from the given day on and never for the epoch, which
  removes an earlier registration; the bans of other members do not change.
\<close>

theorem tempban_expiry:
  assumes "db_inv d" and "TempBanRegister user expires d = Inr ((), d')"
  shows "(user \<in> set (fst (projr (GetExpired now d'))) \<longleftrightarrow> expires \<noteq> 0 \<and> expires \<le> now div ms_day)
    \<and> (\<forall>v. v \<noteq> user \<longrightarrow> v \<in> set (fst (projr (GetExpired now d'))) \<longleftrightarrow> v \<in> set (fst (projr (GetExpired now d))))"
proof -
  have wf: "twf (tempbans d)" using db_inv_parts(5) [OF assms(1)] by (simp add: tb_ok_def)
  have "db_inv d'" using ban_register.q_inv [OF assms] .
  then show ?thesis
    using assms(2) unfolding in_expired [OF assms(1)] in_expired [OF \<open>db_inv d'\<close>]
    by (auto simp: TempBanRegister_def TempBanRemove_def query_tempban_remove_def query_tempban_register_def
        table.get_put [OF wf] table.get_del [OF wf] split: if_splits)
qed

theorem tempban_expiry_witness:
  "\<exists>d'. TempBanRegister 7 20000 db_empty = Inr ((), d') \<and> 7 \<in> set (fst (projr (GetExpired 1728000000000 d')))
     \<and> 7 \<notin> set (fst (projr (GetExpired 1727999999999 d')))"
proof -
  obtain d' where r: "TempBanRegister 7 20000 db_empty = Inr ((), d')"
    by (simp add: TempBanRegister_def query_tempban_register_def)
  from tempban_expiry [OF db_inv_empty r] r show ?thesis by (simp add: ms_day_def)
qed

text \<open>
  A new warning is measured against the newest earlier one that has not led to a
  timeout; without such a warning, and once all of them are timed out, the time between
  warnings is the maximum.
\<close>

theorem warning_delta:
  assumes "db_inv d" and "InfractionsRegister user ts text d = Inr ((), d1)"
    and "\<forall>x \<in> set (warn_open (bind_id user) (infractions d)). x \<le> ts"
    and "InfractionsTimeOut user ts d1 = Inr ((), d2)"
  shows "fst (projr (GetRecentDeltaTime user d1)) =
      (case warn_open (bind_id user) (infractions d) of [] \<Rightarrow> ms_max | t0 # _ \<Rightarrow> ts - t0)
    \<and> fst (projr (GetRecentDeltaTime user d2)) = ms_max"
proof -
  let ?u = "bind_id user"
  let ?r = "if text = [] then None else Some text"
  from assms(2) have none: "map_of (infractions d) (?u, ts) = None"
    and d1: "infractions d1 = tput (?u, ts) \<lparr>timed_out = 0, reason = ?r\<rparr> (infractions d)"
    by (auto simp: InfractionsRegister_def query_warn_register_def split: option.splits)
  note o1 = warn_open_put [OF db_inv_parts(6) [OF assms(1)] none assms(3), where r = ?r, folded d1]
  have "inv d1" if "inv = db_inv" for inv using that warn_register.q_inv [OF assms(1,2)] by simp
  then have wf1: "twf (infractions d1)" by (auto intro: db_inv_parts)
  have "warn_open ?u (infractions d2) = []"
  proof -
    have "ts' \<le> ts" if "((?u, ts'), r) \<in> set (infractions d1)" "timed_out r = 0" for ts' r
    proof -
      have "ts' \<in> set (warn_open ?u (infractions d1))"
        using that by (force simp: warn_open_def tselect_def)
      then show ?thesis using assms(3) by (auto simp: o1)
    qed
    then have "set (warn_open ?u (infractions d2)) = {}" using assms(4)
      by (auto simp: InfractionsTimeOut_def warn_open_def tselect_def tupd_where_def split: if_splits)
    then show ?thesis by simp
  qed
  then show ?thesis
    by (auto simp: GetRecentDeltaTime_def query_warn_delta_def map_query_def o1 split: list.splits)
qed

theorem warning_delta_witness:
  "let d = db_empty\<lparr>infractions := [((7, 1000), \<lparr>timed_out = 0, reason = None\<rparr>)]\<rparr> in
   \<exists>d1. InfractionsRegister 7 5000 ''spam'' d = Inr ((), d1) \<and> fst (projr (GetRecentDeltaTime 7 d1)) = 4000"
proof -
  let ?d = "db_empty\<lparr>infractions := [((7, 1000), \<lparr>timed_out = 0, reason = None\<rparr>)]\<rparr>"
  have inv: "db_inv ?d" by (rule db_inv_upd(6) [OF db_inv_empty]) (simp add: twf_def)
  obtain d1 where r: "InfractionsRegister 7 5000 ''spam'' ?d = Inr ((), d1)"
    by (simp add: InfractionsRegister_def query_warn_register_def bind_id_def)
  obtain d2 where t: "InfractionsTimeOut 7 5000 d1 = Inr ((), d2)" by (simp add: InfractionsTimeOut_def)
  have o: "warn_open (bind_id 7) (infractions ?d) = [1000]"
    by (simp add: warn_open_def tselect_def bind_id_def)
  from warning_delta [OF inv r _ t] o r show ?thesis by (auto simp: Let_def)
qed

text \<open>The statistics of a member never fail, count every warning, and list at most ten of
  those up to the present, newest first.\<close>

theorem warning_stats:
  "\<exists>r. GetStatsByUser user now d = Inr (r, d) \<and> length (inf_entries r) \<le> 10
    \<and> sorted_wrt (\<lambda>a b. inf_timestamp a \<ge> inf_timestamp b) (inf_entries r)
    \<and> (\<forall>e \<in> set (inf_entries r). inf_timestamp e \<le> now)
    \<and> stats_today r \<le> stats_this_week r \<and> stats_this_week r \<le> stats_total r
    \<and> stats_total r = int (length (filter (\<lambda>((u, ts), w). u = bind_id user) (infractions d)))"
proof (intro exI conjI)
  let ?r = "fst (projr (GetStatsByUser user now d))"
  show "GetStatsByUser user now d = Inr (?r, d)" by (simp add: GetStatsByUser_eq)
  show "length (inf_entries ?r) \<le> 10" by (simp add: GetStatsByUser_eq warn_listed_def)
  show "sorted_wrt (\<lambda>a b. inf_timestamp a \<ge> inf_timestamp b) (inf_entries ?r)"
    using warn_listed_sorted [of "bind_id user" now] by (simp add: GetStatsByUser_eq sorted_wrt_map case_prod_unfold)
  show "\<forall>e \<in> set (inf_entries ?r). inf_timestamp e \<le> now"
    using warn_listed_past [of _ "bind_id user" now] by (force simp: GetStatsByUser_eq)
  show "stats_today ?r \<le> stats_this_week ?r"
    by (simp add: GetStatsByUser_eq warns_within_mono ms_units)
  show "stats_this_week ?r \<le> stats_total ?r" by (simp add: GetStatsByUser_eq warns_within_total)
  show "stats_total ?r = int (length (filter (\<lambda>((u, ts), w). u = bind_id user) (infractions d)))"
    by (simp add: GetStatsByUser_eq warns_of_def tselect_def case_prod_unfold)
qed

theorem warning_stats_witness:
  "let d = db_empty\<lparr>infractions := [((7, 1000), \<lparr>timed_out = 0, reason = None\<rparr>)]\<rparr> in
   \<exists>r. GetStatsByUser 7 5000 d = Inr (r, d) \<and> stats_total r = 1 \<and> length (inf_entries r) \<le> 10"
  using warning_stats [of 7 5000 "db_empty\<lparr>infractions := [((7, 1000), \<lparr>timed_out = 0, reason = None\<rparr>)]\<rparr>"]
  by (auto simp: bind_id_def Let_def)

end
