(* ===== verification/Store.thy ===== *)
theory Store
  imports Leaderboard_DB Starboard_DB Nicknames_DB MessageLog_DB Moderation_DB
begin

text \<open>
  The store as the handlers use it: any sequence of transaction control and of queries of
  the access objects, each executed with its retries, whatever the engine answers.
\<close>

inductive reachable :: "db session \<Rightarrow> bool" where
  init: "committed s = db_empty \<Longrightarrow> working s = None \<Longrightarrow> reachable s"
| new: "reachable s \<Longrightarrow> reachable (snd (New s))"
| begin_txn: "reachable s \<Longrightarrow> reachable (snd (Begin s))"
| commit_txn: "reachable s \<Longrightarrow> reachable (snd (Commit s))"
| rollback_txn: "reachable s \<Longrightarrow> reachable (snd (Rollback s))"
| close: "reachable s \<Longrightarrow> reachable (Close s)"
| lb_update: "reachable s \<Longrightarrow> reachable (snd (Exec (Leaderboard_Update author ts ri ru) s))"
| lb_rank: "reachable s \<Longrightarrow> reachable (snd (Exec (GetEntryByUser ties user) s))"
| lb_top: "reachable s \<Longrightarrow> reachable (snd (Exec (GetTop10Entries ties picks) s))"
| sb_author: "reachable s \<Longrightarrow> reachable (snd (Exec (GetMessageAuthor m) s))"
| sb_register: "reachable s \<Longrightarrow> reachable (snd (Exec (RegisterReaction m author) s))"
| sb_remove: "reachable s \<Longrightarrow> reachable (snd (Exec (RemoveReaction m) s))"
| sb_register_message: "reachable s \<Longrightarrow> reachable (snd (Exec (RegisterStarboardMessage m sb) s))"
| sb_remove_message: "reachable s \<Longrightarrow> reachable (snd (Exec (RemoveStarboardMessage m) s))"
| sb_delete_all: "reachable s \<Longrightarrow> reachable (snd (Exec (StarboardDeleteAll ids) s))"
| sb_top: "reachable s \<Longrightarrow> reachable (snd (Exec (GetTop10 threshold) s))"
| sb_get_rank: "reachable s \<Longrightarrow> reachable (snd (Exec (GetRank user threshold) s))"
| nick_get: "reachable s \<Longrightarrow> reachable (snd (Exec (NicknamesGet user) s))"
| nick_delete: "reachable s \<Longrightarrow> reachable (snd (Exec (NicknamesDeleteMessage user) s))"
| nick_update: "reachable s \<Longrightarrow> reachable (snd (Exec (NicknamesUpdate user nk) s))"
| nick_register: "reachable s \<Longrightarrow> reachable (snd (Exec (NicknamesRegisterMessage user m) s))"
| nick_cleanup: "reachable s \<Longrightarrow> reachable (snd (Exec (NicknamesCleanup) s))"
| log_register: "reachable s \<Longrightarrow> reachable (snd (Exec (MessageLogRegister m channel author text) s))"
| log_get: "reachable s \<Longrightarrow> reachable (snd (Exec (MessageLogGet m) s))"
| log_update: "reachable s \<Longrightarrow> reachable (snd (Exec (MessageLogUpdate m text) s))"
| log_delete: "reachable s \<Longrightarrow> reachable (snd (Exec (MessageLogDelete ids) s))"
| log_cleanup: "reachable s \<Longrightarrow> reachable (snd (Exec (MessageLogCleanup now) s))"
| compro: "reachable s \<Longrightarrow> reachable (snd (Exec (GetMetrics author text m) s))"
| ban_register: "reachable s \<Longrightarrow> reachable (snd (Exec (TempBanRegister user day) s))"
| ban_expired: "reachable s \<Longrightarrow> reachable (snd (Exec (GetExpired now) s))"
| ban_remove: "reachable s \<Longrightarrow> reachable (snd (Exec (TempBanRemove user) s))"
| ban_remove_all: "reachable s \<Longrightarrow> reachable (snd (Exec (TempBanRemoveAll ids) s))"
| warn_register: "reachable s \<Longrightarrow> reachable (snd (Exec (InfractionsRegister user ts text) s))"
| warn_delta: "reachable s \<Longrightarrow> reachable (snd (Exec (GetRecentDeltaTime user) s))"
| warn_stats: "reachable s \<Longrightarrow> reachable (snd (Exec (GetStatsByUser user now) s))"
| warn_delete: "reachable s \<Longrightarrow> reachable (snd (Exec (InfractionsDelete user ts) s))"
| warn_delete_all: "reachable s \<Longrightarrow> reachable (snd (Exec (InfractionsDeleteAll user) s))"
| warn_timeout: "reachable s \<Longrightarrow> reachable (snd (Exec (InfractionsTimeOut user now) s))"

lemma reachable_inv: "reachable s \<Longrightarrow> sess_inv db_inv s"
proof (induction rule: reachable.induct)
  case (init s)
  then show ?case by (simp add: sess_inv_def db_inv_empty)
qed (blast intro: sess_inv_control lb_update.Exec_inv lb_rank.Exec_inv lb_top.Exec_inv sb_author.Exec_inv sb_register.Exec_inv sb_remove.Exec_inv
    sb_register_message.Exec_inv sb_remove_message.Exec_inv sb_delete_all.Exec_inv sb_top.Exec_inv sb_get_rank.Exec_inv
    nick_get.Exec_inv nick_delete.Exec_inv nick_update.Exec_inv nick_register.Exec_inv nick_cleanup.Exec_inv
    log_register.Exec_inv log_get.Exec_inv log_update.Exec_inv log_delete.Exec_inv log_cleanup.Exec_inv compro.Exec_inv ban_register.Exec_inv ban_expired.Exec_inv ban_remove.Exec_inv ban_remove_all.Exec_inv
    warn_register.Exec_inv warn_delta.Exec_inv warn_stats.Exec_inv warn_delete.Exec_inv warn_delete_all.Exec_inv warn_timeout.Exec_inv)+

section \<open>Properties\<close>

text \<open>
  C10: Every session that the program can reach, through any interleaving of transactions,
  queries, retries and engine faults, satisfies the integrity constraints of the schema and
  the bounds of the leaderboard, both in what is committed and in what it sees.
\<close>

theorem store_invariant:
  assumes "reachable s"
  shows "db_inv (committed s) \<and> db_inv (visible s)"
  using reachable_inv [OF assms] sess_inv_visible by (auto simp: sess_inv_def)

theorem store_invariant_witness:
  "db_inv (committed (snd (Exec (RegisterReaction 5 7) (snd (Begin
     \<lparr>committed = db_empty, working = None, handle = True, pooled = False, engine = [Ran, Fails SQLITE_BUSY], clock = 0\<rparr>)))))"
  using store_invariant [OF reachable.sb_register [OF reachable.begin_txn [OF reachable.init]],
      of "\<lparr>committed = db_empty, working = None, handle = True, pooled = False, engine = [Ran, Fails SQLITE_BUSY], clock = 0\<rparr>" 5 7]
  by simp

end
