(* ===== verification/Json.thy ===== *)
theory Json
  imports Complex_Main Text Timestamp Snowflake Permission Txn
begin

text \<open>
  JSON values and the exceptions of the program. The values are what the parser of
  Boost.JSON hands over; the accessors below follow its documentation: which kind of
  value each of them takes and which error it throws otherwise. On top of them come the
  conversions of the scalar types of Discord/Base and Discord/Permission.cpp.
\<close>

section \<open>Exceptions\<close>

datatype json_error =
    not_object | not_array | not_string | not_bool | not_number | not_int64 | not_double
  | out_of_range | not_exact | exhausted_variants

datatype gateway_error = SessionReset | EventError | TimeoutError | PrivilegedIntents

datatype exn =
    xJson json_error
  | xBadSnowflake string
  | xInvalidArgument string
  | xOutOfRange string
  | xRuntimeError string
  | xNullPtrError
  | xBadOptionalAccess
  | xBadVariantAccess
  | xAppCmdOptionTypeError string
  | xDiscordError int string
  | xRateLimitError int bool
  | xGatewayError gateway_error
  | xSqlError sqlerr
  | xTransport int
  | xHandler string exn

text \<open>\<open>std::invalid_argument\<close> and the classes of the program derived from it.\<close>

fun is_invalid_argument :: "exn \<Rightarrow> bool" where
  "is_invalid_argument (xBadSnowflake s) = True"
| "is_invalid_argument (xInvalidArgument s) = True"
| "is_invalid_argument (xAppCmdOptionTypeError s) = True"
| "is_invalid_argument e = False"

fun is_discord_error :: "exn \<Rightarrow> bool" where
  "is_discord_error (xDiscordError c s) = True"
| "is_discord_error e = False"

definition eUnknownMessage :: int where "eUnknownMessage = 10008"
definition eInteractionAcknowledged :: int where "eInteractionAcknowledged = 40060"
definition eInvalidFormBody :: int where "eInvalidFormBody = 50035"
definition eGeneralError :: int where "eGeneralError = -1"

lemmas discord_codes = eUnknownMessage_def eInteractionAcknowledged_def eInvalidFormBody_def eGeneralError_def

section \<open>Values and accessors\<close>

datatype json =
    JNull
  | JBool bool
  | JInt int
  | JReal rat
  | JStr string
  | JArr "json list"
  | JObj "(string \<times> json) list"

type_synonym jobject = "(string \<times> json) list"

fun as_object :: "json \<Rightarrow> exn + jobject" where
  "as_object (JObj o1) = Inr o1"
| "as_object v = Inl (xJson not_object)"

fun as_array :: "json \<Rightarrow> exn + json list" where
  "as_array (JArr xs) = Inr xs"
| "as_array v = Inl (xJson not_array)"

fun as_string :: "json \<Rightarrow> exn + string" where
  "as_string (JStr s) = Inr s"
| "as_string v = Inl (xJson not_string)"

fun as_bool :: "json \<Rightarrow> exn + bool" where
  "as_bool (JBool b) = Inr b"
| "as_bool v = Inl (xJson not_bool)"

text \<open>An integer above the range of \<open>int64_t\<close> has the kind of \<open>uint64_t\<close>.\<close>

fun as_int64 :: "json \<Rightarrow> exn + int" where
  "as_int64 (JInt i) = (if i \<le> 9223372036854775807 then Inr i else Inl (xJson not_int64))"
| "as_int64 v = Inl (xJson not_int64)"

fun as_double :: "json \<Rightarrow> exn + rat" where
  "as_double (JReal r) = Inr r"
| "as_double v = Inl (xJson not_double)"

text \<open>\<open>to_number<T>\<close> for an integral type of range \<open>lo..hi\<close>: the conversion has to be exact.\<close>

fun to_number :: "int \<Rightarrow> int \<Rightarrow> json \<Rightarrow> exn + int" where
  "to_number lo hi (JInt i) = (if lo \<le> i \<and> i \<le> hi then Inr i else Inl (xJson not_exact))"
| "to_number lo hi (JReal r) =
     (if of_int (floor r) = r \<and> lo \<le> floor r \<and> floor r \<le> hi then Inr (floor r) else Inl (xJson not_exact))"
| "to_number lo hi v = Inl (xJson not_number)"

definition to_i32 :: "json \<Rightarrow> exn + int" where
  "to_i32 = to_number (-2147483648) 2147483647"

definition to_i64 :: "json \<Rightarrow> exn + int" where
  "to_i64 = to_number (-9223372036854775808) 9223372036854775807"

definition to_u8 :: "json \<Rightarrow> exn + int" where
  "to_u8 = to_number 0 255"

definition to_u32 :: "json \<Rightarrow> exn + int" where
  "to_u32 = to_number 0 4294967295"

definition to_u64 :: "json \<Rightarrow> exn + int" where
  "to_u64 = to_number 0 18446744073709551615"

fun to_double :: "json \<Rightarrow> exn + rat" where
  "to_double (JInt i) = Inr (of_int i)"
| "to_double (JReal r) = Inr r"
| "to_double v = Inl (xJson not_number)"

definition obj_at :: "string \<Rightarrow> jobject \<Rightarrow> exn + json" where
  "obj_at k ob = (case map_of ob k of None \<Rightarrow> Inl (xJson out_of_range) | Some v \<Rightarrow> Inr v)"

text \<open>\<open>value::at\<close>: the value has to be an object first.\<close>

definition val_at :: "string \<Rightarrow> json \<Rightarrow> exn + json" where
  "val_at k v = bindS (as_object v) (obj_at k)"

text \<open>Conversion of an array, element by element; the first failure is the result.\<close>

fun mapS :: "('a \<Rightarrow> 'e + 'b) \<Rightarrow> 'a list \<Rightarrow> 'e + 'b list" where
  "mapS f [] = Inr []"
| "mapS f (x # xs) = bindS (f x) (\<lambda>y. bindS (mapS f xs) (\<lambda>ys. Inr (y # ys)))"

definition value_to_vector :: "(json \<Rightarrow> exn + 'a) \<Rightarrow> json \<Rightarrow> exn + 'a list" where
  "value_to_vector f v = bindS (as_array v) (mapS f)"

text \<open>The ways in which the constructors read a member: required, required or null, optional, optional or null.\<close>

definition fld :: "(json \<Rightarrow> exn + 'a) \<Rightarrow> string \<Rightarrow> jobject \<Rightarrow> exn + 'a" where
  "fld f k ob = bindS (obj_at k ob) f"

definition fld_null :: "(json \<Rightarrow> exn + 'a) \<Rightarrow> 'a \<Rightarrow> string \<Rightarrow> jobject \<Rightarrow> exn + 'a" where
  "fld_null f d k ob = bindS (obj_at k ob) (\<lambda>v. if v = JNull then Inr d else f v)"

definition fld_opt :: "(json \<Rightarrow> exn + 'a) \<Rightarrow> 'a \<Rightarrow> string \<Rightarrow> jobject \<Rightarrow> exn + 'a" where
  "fld_opt f d k ob = (case map_of ob k of None \<Rightarrow> Inr d | Some v \<Rightarrow> f v)"

definition fld_optnull :: "(json \<Rightarrow> exn + 'a) \<Rightarrow> 'a \<Rightarrow> string \<Rightarrow> jobject \<Rightarrow> exn + 'a" where
  "fld_optnull f d k ob = (case map_of ob k of None \<Rightarrow> Inr d | Some v \<Rightarrow> if v = JNull then Inr d else f v)"

text \<open>An optional object member, stored in a \<open>std::optional\<close>.\<close>

definition someS :: "(json \<Rightarrow> exn + 'a) \<Rightarrow> json \<Rightarrow> exn + 'a option" where
  "someS f v = bindS (f v) (\<lambda>x. Inr (Some x))"

section \<open>Scalar types\<close>

fun exn_of_errc :: "errc \<Rightarrow> exn" where
  "exn_of_errc invalid_argument = xInvalidArgument ''Input string can't be parsed into an integer''"
| "exn_of_errc result_out_of_range = xOutOfRange ''Parsed integer is out of range''"

fun mapL :: "('e \<Rightarrow> 'f) \<Rightarrow> 'e + 'a \<Rightarrow> 'f + 'a" where
  "mapL f (Inl e) = Inl (f e)"
| "mapL f (Inr x) = Inr x"

definition parse_u16 :: "string \<Rightarrow> exn + u16" where
  "parse_u16 s = bindS (mapL exn_of_errc (ParseInt_u16 s)) (\<lambda>i. Inr (word_of_int i))"

definition parse_i32 :: "string \<Rightarrow> exn + int" where
  "parse_i32 s = mapL exn_of_errc (ParseInt_i32 s)"

definition parse_i64 :: "string \<Rightarrow> exn + int" where
  "parse_i64 s = mapL exn_of_errc (ParseInt_i64 s)"

definition parse_u64 :: "string \<Rightarrow> exn + int" where
  "parse_u64 s = mapL exn_of_errc (ParseInt_u64 s)"

fun exn_of_snowflake :: "xBadSnowflakeError \<Rightarrow> exn" where
  "exn_of_snowflake (xBadSnowflakeError s) = xBadSnowflake s"

definition snowflake_of :: "string \<Rightarrow> exn + cSnowflake" where
  "snowflake_of s = mapL exn_of_snowflake (sf_of_string s)"

definition cSnowflake_of_json :: "json \<Rightarrow> exn + cSnowflake" where
  "cSnowflake_of_json v = bindS (as_string v) snowflake_of"

definition cSnowflake_to_json :: "cSnowflake \<Rightarrow> json" where
  "cSnowflake_to_json sf = JStr (ToString sf)"

definition iso_text_error :: exn where
  "iso_text_error = xInvalidArgument ''Input string is not a valid ISO 8601 timestamp''"

definition timestamp_of :: "string \<Rightarrow> exn + int" where
  "timestamp_of s = mapL (\<lambda>_. iso_text_error) (ParseISOTimestamp s)"

definition timestamp_of_json :: "json \<Rightarrow> exn + int" where
  "timestamp_of_json v = bindS (as_string v) timestamp_of"

definition cColor_of_json :: "json \<Rightarrow> exn + int" where
  "cColor_of_json v = to_i32 v"

definition cColor_to_json :: "int \<Rightarrow> json" where
  "cColor_to_json c = JInt c"

definition ePermission_of_json :: "json \<Rightarrow> exn + ePermission" where
  "ePermission_of_json v = bindS (as_string v) (\<lambda>s. mapL exn_of_errc (permission_of_text s))"

section \<open>Lemmas\<close>

lemma mapS_Inr: "(\<And>x. x \<in> set xs \<Longrightarrow> f (g x) = Inr x) \<Longrightarrow> mapS f (map g xs) = Inr xs"
  by (induction xs) simp_all

lemma mapS_length: "mapS f xs = Inr ys \<Longrightarrow> length ys = length xs"
  by (induction xs arbitrary: ys) (auto simp: bindS_eq_Inr)

lemma bindS_cong [fundef_cong]:
  "m = m' \<Longrightarrow> (\<And>x. m' = Inr x \<Longrightarrow> k x = k' x) \<Longrightarrow> bindS m k = bindS m' k'"
  by (cases m') simp_all

lemma mapS_cong [fundef_cong]: "xs = ys \<Longrightarrow> (\<And>x. x \<in> set ys \<Longrightarrow> f x = g x) \<Longrightarrow> mapS f xs = mapS g ys"
  by (induction ys arbitrary: xs) simp_all

lemma bindS_assoc: "bindS (bindS m f) g = bindS m (\<lambda>x. bindS (f x) g)"
  by (cases m) simp_all

lemma value_to_vector_JArr [simp]: "value_to_vector f (JArr xs) = mapS f xs"
  by (simp add: value_to_vector_def)

lemmas json_reads = fld_def fld_null_def fld_opt_def fld_optnull_def obj_at_def val_at_def

lemma snowflake_of_ToString: "sf_canonical sf \<Longrightarrow> snowflake_of (ToString sf) = Inr sf"
  using snowflake.dec_enc by (auto simp: snowflake_of_def)

lemma cSnowflake_json: "sf_canonical sf \<Longrightarrow> cSnowflake_of_json (cSnowflake_to_json sf) = Inr sf"
  by (simp add: cSnowflake_of_json_def cSnowflake_to_json_def snowflake_of_ToString)

lemma timestamp_json: "iso_range t \<Longrightarrow> timestamp_of_json (JStr (FormatISOTimestamp t)) = Inr t"
  by (simp add: timestamp_of_json_def timestamp_of_def iso.dec_enc)

end
