(* ===== verification/Objects.thy ===== *)
theory Objects
  imports Json
begin

text \<open>
  The objects of the Discord API that the bot reads (Discord/Objects and
  Discord/VoiceState.cpp): one record per class with the members of the class, and its
  constructor from JSON as a function that throws where the constructor throws. Members
  are read in the order of their declaration, which is the order in which C++ initialises
  them. Time points are milliseconds since 1970, 0 standing for the default value.
\<close>

section \<open>Users\<close>

record cUser =
  u_id :: cSnowflake
  u_username :: string
  u_avatar :: string
  u_global_name :: string
  u_discriminator :: u16
  u_bot :: bool
  u_system :: bool

definition cUser_of_object :: "jobject \<Rightarrow> exn + cUser" where
  "cUser_of_object ob =
     bindS (fld cSnowflake_of_json ''id'' ob) (\<lambda>uid.
     bindS (fld_null as_string [] ''avatar'' ob) (\<lambda>avatar.
     bindS (fld_null as_string [] ''global_name'' ob) (\<lambda>global_name.
     bindS (fld as_string ''discriminator'' ob) (\<lambda>disc_str.
     bindS (fld as_string ''username'' ob) (\<lambda>username.
     bindS (parse_u16 disc_str) (\<lambda>disc_int.
     bindS (fld_opt as_bool False ''bot'' ob) (\<lambda>bot.
     bindS (fld_opt as_bool False ''system'' ob) (\<lambda>system.
     Inr \<lparr>u_id = uid,
          u_username = (if disc_int \<noteq> 0 then username @ ''#'' @ disc_str else username),
          u_avatar = avatar, u_global_name = global_name, u_discriminator = disc_int,
          u_bot = bot, u_system = system\<rparr>))))))))"

definition cUser_of_json :: "json \<Rightarrow> exn + cUser" where
  "cUser_of_json v = bindS (as_object v) cUser_of_object"

section \<open>Roles\<close>

record cRoleTags =
  t_bot_id :: cSnowflake
  t_integration_id :: cSnowflake

definition cRoleTags_of_json :: "json \<Rightarrow> exn + cRoleTags" where
  "cRoleTags_of_json v =
     bindS (as_object v) (\<lambda>ob.
     bindS (fld_opt cSnowflake_of_json sf_default ''bot_id'' ob) (\<lambda>b.
     bindS (fld_opt cSnowflake_of_json sf_default ''integration_id'' ob) (\<lambda>i.
     Inr \<lparr>t_bot_id = b, t_integration_id = i\<rparr>)))"

record cRole =
  r_id :: cSnowflake
  r_position :: int
  r_permissions :: ePermission
  r_color :: int
  r_hoist :: bool
  r_managed :: bool
  r_mentionable :: bool
  r_name :: string
  r_icon :: string
  r_unicode_emoji :: string
  r_tags :: "cRoleTags option"

definition cRole_of_json :: "json \<Rightarrow> exn + cRole" where
  "cRole_of_json v =
     bindS (as_object v) (\<lambda>ob.
     bindS (fld cSnowflake_of_json ''id'' ob) (\<lambda>rid.
     bindS (fld to_u64 ''position'' ob) (\<lambda>position.
     bindS (fld ePermission_of_json ''permissions'' ob) (\<lambda>permissions.
     bindS (fld cColor_of_json ''color'' ob) (\<lambda>color.
     bindS (fld as_bool ''hoist'' ob) (\<lambda>hoist.
     bindS (fld as_bool ''managed'' ob) (\<lambda>managed.
     bindS (fld as_bool ''mentionable'' ob) (\<lambda>mentionable.
     bindS (fld as_string ''name'' ob) (\<lambda>name.
     bindS (fld_optnull as_string [] ''icon'' ob) (\<lambda>icon.
     bindS (fld_optnull as_string [] ''unicode_emoji'' ob) (\<lambda>emoji.
     bindS (fld_opt (someS cRoleTags_of_json) None ''tags'' ob) (\<lambda>tags.
     Inr \<lparr>r_id = rid, r_position = position, r_permissions = permissions, r_color = color,
          r_hoist = hoist, r_managed = managed, r_mentionable = mentionable, r_name = name,
          r_icon = icon, r_unicode_emoji = emoji, r_tags = tags\<rparr>))))))))))))"

section \<open>Emojis\<close>

record cEmoji =
  e_id :: cSnowflake
  e_name :: string
  e_animated :: bool

definition unicode_emoji :: "string \<Rightarrow> cEmoji" where
  "unicode_emoji s = \<lparr>e_id = sf_default, e_name = s, e_animated = False\<rparr>"

definition custom_emoji :: "string \<Rightarrow> cSnowflake \<Rightarrow> cEmoji" where
  "custom_emoji s i = \<lparr>e_id = i, e_name = s, e_animated = False\<rparr>"

text \<open>The defaulted comparison; identifiers are compared as numbers.\<close>

definition emoji_eq :: "cEmoji \<Rightarrow> cEmoji \<Rightarrow> bool" where
  "emoji_eq a b \<longleftrightarrow> sf_eq (e_id a) (e_id b) \<and> e_name a = e_name b \<and> e_animated a = e_animated b"

text \<open>\<open>GetId\<close>: no pointer for the identifier 0.\<close>

definition emoji_id :: "cEmoji \<Rightarrow> cSnowflake option" where
  "emoji_id e = (if ToInt (e_id e) \<noteq> 0 then Some (e_id e) else None)"

definition cEmoji_of_json :: "json \<Rightarrow> exn + cEmoji" where
  "cEmoji_of_json v =
     bindS (as_object v) (\<lambda>ob.
     bindS (fld_optnull cSnowflake_of_json sf_default ''id'' ob) (\<lambda>eid.
     bindS (fld_null as_string [] ''name'' ob) (\<lambda>name.
     bindS (fld_opt as_bool False ''animated'' ob) (\<lambda>animated.
     Inr \<lparr>e_id = eid, e_name = name, e_animated = animated\<rparr>))))"

definition cEmoji_to_json :: "cEmoji \<Rightarrow> json" where
  "cEmoji_to_json e =
     JObj ([(''name'', JStr (e_name e)),
            (''id'', case emoji_id e of Some i \<Rightarrow> cSnowflake_to_json i | None \<Rightarrow> JNull)]
           @ (if e_animated e then [(''animated'', JBool True)] else []))"

text \<open>The two formats of an emoji: percent-encoded for a path, and as it is written in a message.\<close>

definition emoji_pct :: "cEmoji \<Rightarrow> string" where
  "emoji_pct e =
     (case emoji_id e of
        Some i \<Rightarrow> PercentEncodeTo (PercentEncodeTo [] (e_name e)) '':'' @ ToString i
      | None \<Rightarrow> PercentEncodeTo [] (e_name e))"

definition emoji_text :: "cEmoji \<Rightarrow> string" where
  "emoji_text e =
     (case emoji_id e of
        Some i \<Rightarrow> ''<'' @ (if e_animated e then ''a'' else []) @ '':'' @ e_name e @ '':'' @ ToString i @ ''>''
      | None \<Rightarrow> e_name e)"

section \<open>Members\<close>

record cPartialMember =
  m_nick :: string
  m_avatar :: string
  m_joined_at :: int
  m_premium_since :: int
  m_communication_disabled_until :: int
  m_deaf :: bool
  m_mute :: bool
  m_pending :: bool
  m_flags :: int
  m_permissions :: ePermission
  m_roles :: "cSnowflake list"

record cMember = cPartialMember +
  m_user :: "cUser option"

definition cPartialMember_of_object :: "jobject \<Rightarrow> exn + cPartialMember" where
  "cPartialMember_of_object ob =
     bindS (fld_optnull as_string [] ''nick'' ob) (\<lambda>nick.
     bindS (fld_optnull as_string [] ''avatar'' ob) (\<lambda>avatar.
     bindS (fld timestamp_of_json ''joined_at'' ob) (\<lambda>joined.
     bindS (fld_optnull timestamp_of_json 0 ''premium_since'' ob) (\<lambda>premium.
     bindS (fld_optnull timestamp_of_json 0 ''communication_disabled_until'' ob) (\<lambda>disabled.
     bindS (fld_opt as_bool False ''deaf'' ob) (\<lambda>deaf.
     bindS (fld_opt as_bool False ''mute'' ob) (\<lambda>mute.
     bindS (fld_opt as_bool False ''pending'' ob) (\<lambda>pending.
     bindS (fld to_i32 ''flags'' ob) (\<lambda>flags.
     bindS (fld_opt ePermission_of_json 0 ''permissions'' ob) (\<lambda>permissions.
     bindS (fld (value_to_vector cSnowflake_of_json) ''roles'' ob) (\<lambda>roles.
     Inr \<lparr>m_nick = nick, m_avatar = avatar, m_joined_at = joined, m_premium_since = premium,
          m_communication_disabled_until = disabled, m_deaf = deaf, m_mute = mute,
          m_pending = pending, m_flags = flags, m_permissions = permissions, m_roles = roles\<rparr>)))))))))))"

definition cPartialMember_of_json :: "json \<Rightarrow> exn + cPartialMember" where
  "cPartialMember_of_json v = bindS (as_object v) cPartialMember_of_object"

definition cMember_of_json :: "json \<Rightarrow> exn + cMember" where
  "cMember_of_json v =
     bindS (as_object v) (\<lambda>ob.
     bindS (cPartialMember_of_object ob) (\<lambda>pm.
     bindS (fld_opt (someS cUser_of_json) None ''user'' ob) (\<lambda>user.
     Inr (cPartialMember.extend pm \<lparr>m_user = user\<rparr>))))"

text \<open>
  \<open>cMemberUpdate\<close>: a nickname that is not a string counts as no nickname.
\<close>

record cMemberUpdate =
  mu_user :: cUser
  mu_nick :: string
  mu_roles :: "cSnowflake list"
  mu_pending :: bool
  mu_flags :: int

definition cMemberUpdate_of_object :: "jobject \<Rightarrow> exn + cMemberUpdate" where
  "cMemberUpdate_of_object ob =
     bindS (fld cUser_of_json ''user'' ob) (\<lambda>user.
     bindS (fld (value_to_vector cSnowflake_of_json) ''roles'' ob) (\<lambda>roles.
     let nick = (case map_of ob ''nick'' of Some (JStr s) \<Rightarrow> s | _ \<Rightarrow> []) in
     bindS (fld_opt as_bool False ''pending'' ob) (\<lambda>pending.
     bindS (fld_opt to_i32 0 ''flags'' ob) (\<lambda>flags.
     Inr \<lparr>mu_user = user, mu_nick = nick, mu_roles = roles, mu_pending = pending, mu_flags = flags\<rparr>))))"

record cMemberOptions =
  mo_nick :: "string option"
  mo_roles :: "cSnowflake list option"
  mo_disabled_until :: "int option"

definition no_options :: cMemberOptions where
  "no_options = \<lparr>mo_nick = None, mo_roles = None, mo_disabled_until = None\<rparr>"

definition SetNick :: "string \<Rightarrow> cMemberOptions \<Rightarrow> cMemberOptions" where
  "SetNick s mo = mo\<lparr>mo_nick := Some s\<rparr>"

definition SetRoles :: "cSnowflake list \<Rightarrow> cMemberOptions \<Rightarrow> cMemberOptions" where
  "SetRoles rs mo = mo\<lparr>mo_roles := Some rs\<rparr>"

definition SetCommunicationsDisabledUntil :: "int \<Rightarrow> cMemberOptions \<Rightarrow> cMemberOptions" where
  "SetCommunicationsDisabledUntil t mo = mo\<lparr>mo_disabled_until := Some t\<rparr>"

text \<open>The members that are set; the epoch stands for no timeout and is sent as null.\<close>

definition cMemberOptions_to_json :: "cMemberOptions \<Rightarrow> jobject" where
  "cMemberOptions_to_json mo =
     (case mo_nick mo of None \<Rightarrow> [] | Some s \<Rightarrow> [(''nick'', JStr s)])
     @ (case mo_roles mo of None \<Rightarrow> [] | Some rs \<Rightarrow> [(''roles'', JArr (map cSnowflake_to_json rs))])
     @ (case mo_disabled_until mo of None \<Rightarrow> []
        | Some t \<Rightarrow> [(''communication_disabled_until'', if t \<noteq> 0 then JStr (FormatISOTimestamp t) else JNull)])"

section \<open>Voice states\<close>

record cVoiceState =
  v_guild_id :: cSnowflake
  v_channel_id :: cSnowflake
  v_user_id :: cSnowflake
  v_member :: "cMember option"
  v_session_id :: string
  v_deaf :: bool
  v_mute :: bool
  v_self_deaf :: bool
  v_self_mute :: bool
  v_self_stream :: bool
  v_self_video :: bool
  v_suppress :: bool
  v_request_to_speak :: int

definition cVoiceState_of_json :: "json \<Rightarrow> exn + cVoiceState" where
  "cVoiceState_of_json v =
     bindS (as_object v) (\<lambda>ob.
     bindS (fld_opt cSnowflake_of_json sf_default ''guild_id'' ob) (\<lambda>guild.
     bindS (fld_null cSnowflake_of_json sf_default ''channel_id'' ob) (\<lambda>channel.
     bindS (fld cSnowflake_of_json ''user_id'' ob) (\<lambda>user.
     bindS (fld as_string ''session_id'' ob) (\<lambda>sess.
     bindS (fld as_bool ''deaf'' ob) (\<lambda>deaf.
     bindS (fld as_bool ''mute'' ob) (\<lambda>mute.
     bindS (fld as_bool ''self_deaf'' ob) (\<lambda>self_deaf.
     bindS (fld as_bool ''self_mute'' ob) (\<lambda>self_mute.
     bindS (fld as_bool ''self_video'' ob) (\<lambda>self_video.
     bindS (fld as_bool ''suppress'' ob) (\<lambda>suppress.
     bindS (fld_opt (someS cMember_of_json) None ''member'' ob) (\<lambda>member.
     bindS (fld_opt as_bool False ''self_stream'' ob) (\<lambda>self_stream.
     bindS (fld_null timestamp_of_json 0 ''request_to_speak_timestamp'' ob) (\<lambda>rts.
     Inr \<lparr>v_guild_id = guild, v_channel_id = channel, v_user_id = user, v_member = member,
          v_session_id = sess, v_deaf = deaf, v_mute = mute, v_self_deaf = self_deaf,
          v_self_mute = self_mute, v_self_stream = self_stream, v_self_video = self_video,
          v_suppress = suppress, v_request_to_speak = rts\<rparr>))))))))))))))"

text \<open>The getters of the optional identifiers.\<close>

definition sf_ptr :: "cSnowflake \<Rightarrow> cSnowflake option" where
  "sf_ptr sf = (if ToInt sf = 0 then None else Some sf)"

definition GetChannelId :: "cVoiceState \<Rightarrow> cSnowflake option" where
  "GetChannelId vs = sf_ptr (v_channel_id vs)"

definition GetGuildId :: "cVoiceState \<Rightarrow> cSnowflake option" where
  "GetGuildId vs = sf_ptr (v_guild_id vs)"

section \<open>Channels, guilds and attachments\<close>

record cChannel =
  c_id :: cSnowflake
  c_type :: int

definition cChannel_of_json :: "json \<Rightarrow> exn + cChannel" where
  "cChannel_of_json v =
     bindS (as_object v) (\<lambda>ob.
     bindS (fld cSnowflake_of_json ''id'' ob) (\<lambda>cid.
     bindS (fld to_u32 ''type'' ob) (\<lambda>ctype.
     Inr \<lparr>c_id = cid, c_type = ctype\<rparr>)))"

record cGuild =
  g_id :: cSnowflake
  g_name :: string
  g_roles :: "cRole list"

definition cGuild_of_object :: "jobject \<Rightarrow> exn + cGuild" where
  "cGuild_of_object ob =
     bindS (fld cSnowflake_of_json ''id'' ob) (\<lambda>gid.
     bindS (fld as_string ''name'' ob) (\<lambda>name.
     bindS (fld (value_to_vector cRole_of_json) ''roles'' ob) (\<lambda>roles.
     Inr \<lparr>g_id = gid, g_name = name, g_roles = roles\<rparr>)))"

definition cGuildCreate_of_object :: "jobject \<Rightarrow> exn + cVoiceState list" where
  "cGuildCreate_of_object ob = fld (value_to_vector cVoiceState_of_json) ''voice_states'' ob"

record cAttachment =
  a_id :: cSnowflake
  a_content_type :: string
  a_size :: int
  a_url :: string
  a_proxy_url :: string
  a_height :: int
  a_width :: int

definition cAttachment_of_json :: "json \<Rightarrow> exn + cAttachment" where
  "cAttachment_of_json v =
     bindS (as_object v) (\<lambda>ob.
     bindS (fld cSnowflake_of_json ''id'' ob) (\<lambda>aid.
     bindS (fld_opt as_string [] ''content_type'' ob) (\<lambda>ctype.
     bindS (fld to_u64 ''size'' ob) (\<lambda>size.
     bindS (fld as_string ''url'' ob) (\<lambda>url.
     bindS (fld as_string ''proxy_url'' ob) (\<lambda>proxy.
     bindS (fld_optnull to_i32 (- 1) ''height'' ob) (\<lambda>height.
     bindS (fld_optnull to_i32 (- 1) ''width'' ob) (\<lambda>width.
     Inr \<lparr>a_id = aid, a_content_type = ctype, a_size = size, a_url = url, a_proxy_url = proxy,
          a_height = height, a_width = width\<rparr>))))))))"

section \<open>Images of users and roles\<close>

datatype eImageFormat = PNG | JPG | JPEG | WEBP

fun get_extension :: "eImageFormat \<Rightarrow> string" where
  "get_extension PNG = ''png''"
| "get_extension JPG = ''jpg''"
| "get_extension JPEG = ''jpeg''"
| "get_extension WEBP = ''webp''"

definition base_url :: string where
  "base_url = ''https://cdn.discordapp.com/''"

definition GetDefaultUserAvatar :: "cSnowflake \<Rightarrow> u16 \<Rightarrow> string" where
  "GetDefaultUserAvatar user discr =
     base_url @ ''embed/avatars/''
     @ to_dec (if discr \<noteq> 0 then unat discr mod 5 else unat (drop_bit 22 (ToInt user)) mod 6) @ ''.png''"

definition starts_with :: "string \<Rightarrow> string \<Rightarrow> bool" where
  "starts_with p s \<longleftrightarrow> take (length p) s = p"

definition UserAvatar :: "cSnowflake \<Rightarrow> string \<Rightarrow> u16 \<Rightarrow> eImageFormat \<Rightarrow> nat \<Rightarrow> string" where
  "UserAvatar user hash discr img sz =
     (if hash = [] then GetDefaultUserAvatar user discr
      else base_url @ ''avatars/'' @ ToString user @ ''/'' @ hash @ ''.''
        @ (if starts_with ''a_'' hash then ''gif'' else get_extension img) @ ''?size='' @ to_dec sz)"

text \<open>The overload that takes a user, with its default arguments.\<close>

definition GetUserAvatar :: "cUser \<Rightarrow> string" where
  "GetUserAvatar user = UserAvatar (u_id user) (u_avatar user) (u_discriminator user) PNG 4096"

definition GetRoleIcon :: "cSnowflake \<Rightarrow> string \<Rightarrow> eImageFormat \<Rightarrow> nat \<Rightarrow> string" where
  "GetRoleIcon role hash img sz =
     (if hash = [] then []
      else base_url @ ''role-icons/'' @ ToString role @ ''/'' @ hash @ ''.'' @ get_extension img
        @ ''?size='' @ to_dec sz)"

section \<open>Lemmas\<close>

lemma sf_of_int_0: "sf_of_int 0 = sf_default"
  using sf_canonical_default by (simp add: sf_canonical_def sf_default_def)

lemma sf_canonical_zero: "sf_canonical sf \<Longrightarrow> ToInt sf = 0 \<Longrightarrow> sf = sf_default"
  by (simp add: sf_canonical_def ToInt_def sf_of_int_0)

lemma cEmoji_json: "sf_canonical (e_id e) \<Longrightarrow> cEmoji_of_json (cEmoji_to_json e) = Inr e"
  using sf_canonical_zero [of "e_id e"]
  by (cases "ToInt (e_id e) = 0"; cases "e_animated e")
    (auto simp: cEmoji_of_json_def cEmoji_to_json_def emoji_id_def json_reads cSnowflake_json [unfolded cSnowflake_to_json_def]
      cSnowflake_to_json_def)

end
