(* ===== verification/Embed.thy ===== *)
theory Embed
  imports Objects
begin

text \<open>
  Embeds (Discord/Objects/Embed): the records, their constructors from JSON, the JSON that
  is sent, and the setters the bot uses. The proxied addresses, the sizes of media and the
  video are only ever read.
\<close>

section \<open>Parts of an embed\<close>

record cEmbedAuthor =
  ea_name :: string
  ea_url :: string
  ea_icon_url :: string
  ea_proxy_icon_url :: string

definition embed_author :: "string \<Rightarrow> cEmbedAuthor" where
  "embed_author name = \<lparr>ea_name = name, ea_url = [], ea_icon_url = [], ea_proxy_icon_url = []\<rparr>"

definition cEmbedAuthor_of_json :: "json \<Rightarrow> exn + cEmbedAuthor" where
  "cEmbedAuthor_of_json v =
     bindS (as_object v) (\<lambda>ob.
     bindS (fld as_string ''name'' ob) (\<lambda>name.
     bindS (fld_opt as_string [] ''url'' ob) (\<lambda>url.
     bindS (fld_opt as_string [] ''icon_url'' ob) (\<lambda>icon.
     bindS (fld_opt as_string [] ''proxy_icon_url'' ob) (\<lambda>proxy.
     Inr \<lparr>ea_name = name, ea_url = url, ea_icon_url = icon, ea_proxy_icon_url = proxy\<rparr>)))))"

definition unless_empty :: "string \<Rightarrow> string \<Rightarrow> jobject" where
  "unless_empty k s = (if s = [] then [] else [(k, JStr s)])"

definition cEmbedAuthor_to_json :: "cEmbedAuthor \<Rightarrow> json" where
  "cEmbedAuthor_to_json e =
     JObj ([(''name'', JStr (ea_name e))] @ unless_empty ''url'' (ea_url e) @ unless_empty ''icon_url'' (ea_icon_url e))"

record cEmbedField =
  ef_name :: string
  ef_value :: string
  ef_inline :: bool

definition cEmbedField_of_json :: "json \<Rightarrow> exn + cEmbedField" where
  "cEmbedField_of_json v =
     bindS (as_object v) (\<lambda>ob.
     bindS (fld as_string ''name'' ob) (\<lambda>name.
     bindS (fld as_string ''value'' ob) (\<lambda>val.
     bindS (fld_opt as_bool False ''inline'' ob) (\<lambda>inl.
     Inr \<lparr>ef_name = name, ef_value = val, ef_inline = inl\<rparr>))))"

definition cEmbedField_to_json :: "cEmbedField \<Rightarrow> json" where
  "cEmbedField_to_json e =
     JObj ([(''name'', JStr (ef_name e)), (''value'', JStr (ef_value e))]
           @ (if ef_inline e then [(''inline'', JBool True)] else []))"

definition embed_field :: "string \<Rightarrow> string \<Rightarrow> cEmbedField" where
  "embed_field n v = \<lparr>ef_name = n, ef_value = v, ef_inline = False\<rparr>"

definition inline_field :: "string \<Rightarrow> string \<Rightarrow> cEmbedField" where
  "inline_field n v = \<lparr>ef_name = n, ef_value = v, ef_inline = True\<rparr>"

record cEmbedFooter =
  eo_text :: string
  eo_icon_url :: string
  eo_proxy_icon_url :: string

definition cEmbedFooter_of_json :: "json \<Rightarrow> exn + cEmbedFooter" where
  "cEmbedFooter_of_json v =
     bindS (as_object v) (\<lambda>ob.
     bindS (fld as_string ''text'' ob) (\<lambda>txt.
     bindS (fld_opt as_string [] ''icon_url'' ob) (\<lambda>icon.
     bindS (fld_opt as_string [] ''proxy_icon_url'' ob) (\<lambda>proxy.
     Inr \<lparr>eo_text = txt, eo_icon_url = icon, eo_proxy_icon_url = proxy\<rparr>))))"

definition cEmbedFooter_to_json :: "cEmbedFooter \<Rightarrow> json" where
  "cEmbedFooter_to_json e = JObj ([(''text'', JStr (eo_text e))] @ unless_empty ''icon_url'' (eo_icon_url e))"

record cEmbedMedia =
  ei_url :: string
  ei_proxy_url :: string
  ei_width :: int
  ei_height :: int

definition embed_media :: "string \<Rightarrow> cEmbedMedia" where
  "embed_media url = \<lparr>ei_url = url, ei_proxy_url = [], ei_width = - 1, ei_height = - 1\<rparr>"

definition cEmbedMedia_of_json :: "json \<Rightarrow> exn + cEmbedMedia" where
  "cEmbedMedia_of_json v =
     bindS (as_object v) (\<lambda>ob.
     bindS (fld_opt as_string [] ''url'' ob) (\<lambda>url.
     bindS (fld_opt as_string [] ''proxy_url'' ob) (\<lambda>proxy.
     bindS (fld_opt to_i32 (- 1) ''width'' ob) (\<lambda>width.
     bindS (fld_opt to_i32 (- 1) ''height'' ob) (\<lambda>height.
     Inr \<lparr>ei_url = url, ei_proxy_url = proxy, ei_width = width, ei_height = height\<rparr>)))))"

definition cEmbedMedia_to_json :: "cEmbedMedia \<Rightarrow> json" where
  "cEmbedMedia_to_json e = JObj [(''url'', JStr (ei_url e))]"

section \<open>Embeds\<close>

record cEmbed =
  em_color :: int
  em_title :: string
  em_description :: string
  em_url :: string
  em_timestamp :: int
  em_fields :: "cEmbedField list"
  em_thumbnail :: "cEmbedMedia option"
  em_image :: "cEmbedMedia option"
  em_video :: "cEmbedMedia option"
  em_footer :: "cEmbedFooter option"
  em_author :: "cEmbedAuthor option"

definition cEmbed_default :: cEmbed where
  "cEmbed_default = \<lparr>em_color = 0, em_title = [], em_description = [], em_url = [], em_timestamp = 0,
     em_fields = [], em_thumbnail = None, em_image = None, em_video = None, em_footer = None, em_author = None\<rparr>"

definition cEmbed_of_json :: "json \<Rightarrow> exn + cEmbed" where
  "cEmbed_of_json v =
     bindS (as_object v) (\<lambda>ob.
     bindS (fld_opt cColor_of_json 0 ''color'' ob) (\<lambda>color.
     bindS (fld_opt as_string [] ''title'' ob) (\<lambda>title.
     bindS (fld_opt as_string [] ''description'' ob) (\<lambda>description.
     bindS (fld_opt as_string [] ''url'' ob) (\<lambda>url.
     bindS (fld_opt timestamp_of_json 0 ''timestamp'' ob) (\<lambda>ts.
     bindS (fld_opt (someS cEmbedMedia_of_json) None ''thumbnail'' ob) (\<lambda>thumbnail.
     bindS (fld_opt (someS cEmbedMedia_of_json) None ''image'' ob) (\<lambda>img.
     bindS (fld_opt (someS cEmbedMedia_of_json) None ''video'' ob) (\<lambda>video.
     bindS (fld_opt (someS cEmbedFooter_of_json) None ''footer'' ob) (\<lambda>footer.
     bindS (fld_opt (someS cEmbedAuthor_of_json) None ''author'' ob) (\<lambda>author.
     bindS (fld_opt (value_to_vector cEmbedField_of_json) [] ''fields'' ob) (\<lambda>fields.
     Inr \<lparr>em_color = color, em_title = title, em_description = description, em_url = url,
          em_timestamp = ts, em_fields = fields, em_thumbnail = thumbnail, em_image = img,
          em_video = video, em_footer = footer, em_author = author\<rparr>))))))))))))"

definition opt_member :: "('a \<Rightarrow> json) \<Rightarrow> string \<Rightarrow> 'a option \<Rightarrow> jobject" where
  "opt_member f k x = (case x of None \<Rightarrow> [] | Some y \<Rightarrow> [(k, f y)])"

definition cEmbed_to_json :: "cEmbed \<Rightarrow> json" where
  "cEmbed_to_json e =
     JObj ([(''color'', cColor_to_json (em_color e)), (''title'', JStr (em_title e)),
            (''description'', JStr (em_description e)), (''url'', JStr (em_url e))]
           @ (if em_timestamp e \<noteq> 0 then [(''timestamp'', JStr (FormatISOTimestamp (em_timestamp e)))] else [])
           @ [(''fields'', JArr (map cEmbedField_to_json (em_fields e)))]
           @ opt_member cEmbedMedia_to_json ''thumbnail'' (em_thumbnail e)
           @ opt_member cEmbedMedia_to_json ''image'' (em_image e)
           @ opt_member cEmbedFooter_to_json ''footer'' (em_footer e)
           @ opt_member cEmbedAuthor_to_json ''author'' (em_author e))"

section \<open>Setters\<close>

definition SetColor :: "int \<Rightarrow> cEmbed \<Rightarrow> cEmbed" where "SetColor c e = e\<lparr>em_color := c\<rparr>"
definition SetTitle :: "string \<Rightarrow> cEmbed \<Rightarrow> cEmbed" where "SetTitle s e = e\<lparr>em_title := s\<rparr>"
definition SetDescription :: "string \<Rightarrow> cEmbed \<Rightarrow> cEmbed" where "SetDescription s e = e\<lparr>em_description := s\<rparr>"
definition SetImage :: "string \<Rightarrow> cEmbed \<Rightarrow> cEmbed" where "SetImage s e = e\<lparr>em_image := Some (embed_media s)\<rparr>"
definition SetFields :: "cEmbedField list \<Rightarrow> cEmbed \<Rightarrow> cEmbed" where "SetFields fs e = e\<lparr>em_fields := fs\<rparr>"
definition SetTimestamp :: "int \<Rightarrow> cEmbed \<Rightarrow> cEmbed" where "SetTimestamp t e = e\<lparr>em_timestamp := t\<rparr>"
definition ResetFields :: "cEmbed \<Rightarrow> cEmbed" where "ResetFields e = e\<lparr>em_fields := []\<rparr>"
definition SetFooter :: "string \<Rightarrow> cEmbed \<Rightarrow> cEmbed" where
  "SetFooter s e = e\<lparr>em_footer := Some \<lparr>eo_text = s, eo_icon_url = [], eo_proxy_icon_url = []\<rparr>\<rparr>"

text \<open>\<open>EmplaceAuthor(name).SetIconUrl(icon)\<close>.\<close>

definition SetAuthor :: "string \<Rightarrow> string \<Rightarrow> cEmbed \<Rightarrow> cEmbed" where
  "SetAuthor name icon e = e\<lparr>em_author := Some ((embed_author name)\<lparr>ea_icon_url := icon\<rparr>)\<rparr>"

lemmas embed_setters = SetColor_def SetTitle_def SetDescription_def SetImage_def SetFields_def SetTimestamp_def
  ResetFields_def SetFooter_def SetAuthor_def embed_author_def embed_media_def

section \<open>What is sent is read back\<close>

definition media_sendable :: "cEmbedMedia \<Rightarrow> bool" where
  "media_sendable m \<longleftrightarrow> ei_proxy_url m = [] \<and> ei_width m = - 1 \<and> ei_height m = - 1"

definition embed_sendable :: "cEmbed \<Rightarrow> bool" where
  "embed_sendable e \<longleftrightarrow>
     - 2147483648 \<le> em_color e \<and> em_color e \<le> 2147483647 \<and> iso_range (em_timestamp e) \<and> em_video e = None
     \<and> pred_option media_sendable (em_thumbnail e) \<and> pred_option media_sendable (em_image e)
     \<and> pred_option (\<lambda>f. eo_proxy_icon_url f = []) (em_footer e)
     \<and> pred_option (\<lambda>a. ea_proxy_icon_url a = []) (em_author e)"

lemma cEmbedField_json: "cEmbedField_of_json (cEmbedField_to_json f) = Inr f"
  by (cases "ef_inline f") (simp_all add: cEmbedField_of_json_def cEmbedField_to_json_def json_reads)

lemma cEmbedMedia_json: "media_sendable m \<Longrightarrow> cEmbedMedia_of_json (cEmbedMedia_to_json m) = Inr m"
  by (simp add: cEmbedMedia_of_json_def cEmbedMedia_to_json_def json_reads media_sendable_def)

lemma cEmbedFooter_json: "eo_proxy_icon_url f = [] \<Longrightarrow> cEmbedFooter_of_json (cEmbedFooter_to_json f) = Inr f"
  by (cases "eo_icon_url f = []")
    (simp_all add: cEmbedFooter_of_json_def cEmbedFooter_to_json_def unless_empty_def json_reads)

lemma cEmbedAuthor_json: "ea_proxy_icon_url a = [] \<Longrightarrow> cEmbedAuthor_of_json (cEmbedAuthor_to_json a) = Inr a"
  by (cases "ea_url a = []"; cases "ea_icon_url a = []")
    (simp_all add: cEmbedAuthor_of_json_def cEmbedAuthor_to_json_def unless_empty_def json_reads)

text \<open>Reading one optional member of an object that is a concatenation of optional members.\<close>

lemma map_of_opt_member:
  "map_of (opt_member f k x @ ob) k' = (if k = k' \<and> x \<noteq> None then map_option f x else map_of ob k')"
  by (cases x) (auto simp: opt_member_def)

lemma map_of_opt_member_end: "map_of (opt_member f k x) k' = (if k = k' then map_option f x else None)"
  by (cases x) (auto simp: opt_member_def)

lemma cEmbed_members:
  assumes "cEmbed_to_json e = JObj ob"
  shows "map_of ob ''color'' = Some (JInt (em_color e))" "map_of ob ''title'' = Some (JStr (em_title e))"
    "map_of ob ''description'' = Some (JStr (em_description e))" "map_of ob ''url'' = Some (JStr (em_url e))"
    "map_of ob ''timestamp'' = (if em_timestamp e \<noteq> 0 then Some (JStr (FormatISOTimestamp (em_timestamp e))) else None)"
    "map_of ob ''thumbnail'' = map_option cEmbedMedia_to_json (em_thumbnail e)"
    "map_of ob ''image'' = map_option cEmbedMedia_to_json (em_image e)" "map_of ob ''video'' = None"
    "map_of ob ''footer'' = map_option cEmbedFooter_to_json (em_footer e)"
    "map_of ob ''author'' = map_option cEmbedAuthor_to_json (em_author e)"
    "map_of ob ''fields'' = Some (JArr (map cEmbedField_to_json (em_fields e)))"
  using assms
  by (auto simp: cEmbed_to_json_def cColor_to_json_def map_of_opt_member map_of_opt_member_end simp del: map_of_append)

lemma fld_opt_read: "map_of ob k = Some v \<Longrightarrow> fld_opt f d k ob = f v" "map_of ob k = None \<Longrightarrow> fld_opt f d k ob = Inr d"
  by (simp_all add: fld_opt_def)

lemma fld_opt_map: "map_of ob k = map_option g x \<Longrightarrow> pred_option P x \<Longrightarrow> (\<And>y. P y \<Longrightarrow> f (g y) = Inr y) \<Longrightarrow>
    fld_opt (someS f) None k ob = Inr x"
  by (cases x) (simp_all add: fld_opt_def someS_def)

lemma mapS_fields: "mapS cEmbedField_of_json (map cEmbedField_to_json fs) = Inr fs"
  by (rule mapS_Inr) (rule cEmbedField_json)

lemma cEmbed_json:
  assumes "embed_sendable e"
  shows "cEmbed_of_json (cEmbed_to_json e) = Inr e"
proof -
  obtain ob where ob: "cEmbed_to_json e = JObj ob" by (simp add: cEmbed_to_json_def)
  note mem = cEmbed_members [OF ob]
  from assms have e: "cColor_of_json (JInt (em_color e)) = Inr (em_color e)" "iso_range (em_timestamp e)" "em_video e = None"
    and p: "pred_option media_sendable (em_thumbnail e)" "pred_option media_sendable (em_image e)"
      "pred_option (\<lambda>f. eo_proxy_icon_url f = []) (em_footer e)" "pred_option (\<lambda>a. ea_proxy_icon_url a = []) (em_author e)"
    by (simp_all add: embed_sendable_def cColor_of_json_def to_i32_def)
  have ts: "fld_opt timestamp_of_json 0 ''timestamp'' ob = Inr (em_timestamp e)"
    using e(2) by (simp add: fld_opt_def mem timestamp_json)
  show ?thesis
    unfolding ob cEmbed_of_json_def as_object.simps
    by (simp add: fld_opt_read(1) [OF mem(1)] fld_opt_read(1) [OF mem(2)] fld_opt_read(1) [OF mem(3)] fld_opt_read(1) [OF mem(4)] ts e
        fld_opt_map [OF mem(6) p(1) cEmbedMedia_json] fld_opt_map [OF mem(7) p(2) cEmbedMedia_json] fld_opt_read(2) [OF mem(8)]
        fld_opt_map [OF mem(9) p(3) cEmbedFooter_json] fld_opt_map [OF mem(10) p(4) cEmbedAuthor_json]
        fld_opt_read(1) [OF mem(11)] mapS_fields)
qed

end
