(* ===== verification/Message.thy ===== *)
theory Message
  imports Embed
begin

text \<open>
  Components and messages (Discord/Objects/Component, Message and Modal): what the bot
  receives, what it sends, and the messages it edits.
\<close>

section \<open>Components\<close>

definition COMPONENT_ACTION_ROW :: int where "COMPONENT_ACTION_ROW = 1"
definition COMPONENT_BUTTON :: int where "COMPONENT_BUTTON = 2"
definition COMPONENT_SELECT_MENU :: int where "COMPONENT_SELECT_MENU = 3"
definition COMPONENT_TEXT_INPUT :: int where "COMPONENT_TEXT_INPUT = 4"
definition COMPONENT_TEXT_DISPLAY :: int where "COMPONENT_TEXT_DISPLAY = 10"
definition COMPONENT_LABEL :: int where "COMPONENT_LABEL = 18"

lemmas component_types = COMPONENT_ACTION_ROW_def COMPONENT_BUTTON_def COMPONENT_SELECT_MENU_def
  COMPONENT_TEXT_INPUT_def COMPONENT_TEXT_DISPLAY_def COMPONENT_LABEL_def

definition component_id :: "jobject \<Rightarrow> exn + int" where
  "component_id ob = fld_opt to_i32 0 ''id'' ob"

definition component_type :: "json \<Rightarrow> exn + int" where
  "component_type v = bindS (val_at ''type'' v) to_u32"

datatype eButtonStyle = Primary | Secondary | Success | Danger | Link | OtherStyle int

fun style_of_int :: "int \<Rightarrow> eButtonStyle" where
  "style_of_int i =
     (if i = 1 then Primary else if i = 2 then Secondary else if i = 3 then Success
      else if i = 4 then Danger else if i = 5 then Link else OtherStyle i)"

fun int_of_style :: "eButtonStyle \<Rightarrow> int" where
  "int_of_style Primary = 1"
| "int_of_style Secondary = 2"
| "int_of_style Success = 3"
| "int_of_style Danger = 4"
| "int_of_style Link = 5"
| "int_of_style (OtherStyle i) = i"

record cButton =
  b_id :: int
  b_style :: eButtonStyle
  b_disabled :: bool
  b_custom_id_or_url :: string
  b_label :: string
  b_emoji :: "cEmoji option"

definition button :: "eButtonStyle \<Rightarrow> string \<Rightarrow> string \<Rightarrow> cButton" where
  "button style cid label = \<lparr>b_id = 0, b_style = style, b_disabled = False,
     b_custom_id_or_url = cid, b_label = label, b_emoji = None\<rparr>"

definition cButton_of_json :: "json \<Rightarrow> exn + cButton" where
  "cButton_of_json v =
     bindS (as_object v) (\<lambda>ob.
     bindS (component_id ob) (\<lambda>bid.
     bindS (fld to_u8 ''style'' ob) (\<lambda>st.
     bindS (fld_opt as_bool False ''disabled'' ob) (\<lambda>disabled.
     bindS (fld as_string (if style_of_int st = Link then ''url'' else ''custom_id'') ob) (\<lambda>cid.
     bindS (fld_opt as_string [] ''label'' ob) (\<lambda>label.
     bindS (fld_opt (someS cEmoji_of_json) None ''emoji'' ob) (\<lambda>emoji.
     Inr \<lparr>b_id = bid, b_style = style_of_int st, b_disabled = disabled, b_custom_id_or_url = cid,
          b_label = label, b_emoji = emoji\<rparr>)))))))"

definition cButton_to_json :: "cButton \<Rightarrow> json" where
  "cButton_to_json b =
     JObj ([(''type'', JInt COMPONENT_BUTTON), (''id'', JInt (b_id b)), (''disabled'', JBool (b_disabled b)),
            (''style'', JInt (int_of_style (b_style b)))]
           @ unless_empty ''label'' (b_label b)
           @ [(if b_style b = Link then ''url'' else ''custom_id'', JStr (b_custom_id_or_url b))]
           @ opt_member cEmoji_to_json ''emoji'' (b_emoji b))"

definition SetCustomId :: "string \<Rightarrow> cButton \<Rightarrow> cButton" where
  "SetCustomId s b = (if b_style b = Link then b else b\<lparr>b_custom_id_or_url := s\<rparr>)"

definition SetLabel :: "string \<Rightarrow> cButton \<Rightarrow> cButton" where
  "SetLabel s b = b\<lparr>b_label := s\<rparr>"

record cSelectOption =
  so_label :: string
  so_value :: string
  so_description :: string
  so_emoji :: "cEmoji option"

definition select_option :: "string \<Rightarrow> string \<Rightarrow> cSelectOption" where
  "select_option label val = \<lparr>so_label = label, so_value = val, so_description = [], so_emoji = None\<rparr>"

definition cSelectOption_of_json :: "json \<Rightarrow> exn + cSelectOption" where
  "cSelectOption_of_json v =
     bindS (as_object v) (\<lambda>ob.
     bindS (fld as_string ''label'' ob) (\<lambda>label.
     bindS (fld as_string ''value'' ob) (\<lambda>val.
     bindS (fld_opt as_string [] ''description'' ob) (\<lambda>description.
     bindS (fld_opt (someS cEmoji_of_json) None ''emoji'' ob) (\<lambda>emoji.
     Inr \<lparr>so_label = label, so_value = val, so_description = description, so_emoji = emoji\<rparr>)))))"

definition cSelectOption_to_json :: "cSelectOption \<Rightarrow> json" where
  "cSelectOption_to_json so =
     JObj ([(''label'', JStr (so_label so)), (''value'', JStr (so_value so))]
           @ unless_empty ''description'' (so_description so)
           @ opt_member cEmoji_to_json ''emoji'' (so_emoji so))"

record cSelectMenu =
  sm_id :: int
  sm_custom_id :: string
  sm_placeholder :: string
  sm_options :: "cSelectOption list"

definition cSelectMenu_of_json :: "json \<Rightarrow> exn + cSelectMenu" where
  "cSelectMenu_of_json v =
     bindS (as_object v) (\<lambda>ob.
     bindS (component_id ob) (\<lambda>sid.
     bindS (fld as_string ''custom_id'' ob) (\<lambda>cid.
     bindS (fld_opt as_string [] ''placeholder'' ob) (\<lambda>placeholder.
     bindS (fld (value_to_vector cSelectOption_of_json) ''options'' ob) (\<lambda>opts.
     Inr \<lparr>sm_id = sid, sm_custom_id = cid, sm_placeholder = placeholder, sm_options = opts\<rparr>)))))"

definition cSelectMenu_to_json :: "cSelectMenu \<Rightarrow> json" where
  "cSelectMenu_to_json sm =
     JObj ([(''type'', JInt COMPONENT_SELECT_MENU), (''id'', JInt (sm_id sm)), (''custom_id'', JStr (sm_custom_id sm)),
            (''options'', JArr (map cSelectOption_to_json (sm_options sm)))]
           @ unless_empty ''placeholder'' (sm_placeholder sm))"

text \<open>A component of a kind that the variant does not list keeps its JSON.\<close>

datatype row_child = RButton cButton | RSelect cSelectMenu | RUnsupported json

fun row_child_of_json :: "json \<Rightarrow> exn + row_child" where
  "row_child_of_json v =
     bindS (component_type v) (\<lambda>t.
       if t = COMPONENT_BUTTON then bindS (cButton_of_json v) (\<lambda>b. Inr (RButton b))
       else if t = COMPONENT_SELECT_MENU then bindS (cSelectMenu_of_json v) (\<lambda>s. Inr (RSelect s))
       else Inr (RUnsupported v))"

fun row_child_to_json :: "row_child \<Rightarrow> json" where
  "row_child_to_json (RButton b) = cButton_to_json b"
| "row_child_to_json (RSelect s) = cSelectMenu_to_json s"
| "row_child_to_json (RUnsupported v) = v"

record cActionRow =
  ar_id :: int
  ar_components :: "row_child list"

definition action_row :: "row_child list \<Rightarrow> cActionRow" where
  "action_row cs = \<lparr>ar_id = 0, ar_components = cs\<rparr>"

definition cActionRow_of_json :: "json \<Rightarrow> exn + cActionRow" where
  "cActionRow_of_json v =
     bindS (as_object v) (\<lambda>ob.
     bindS (component_id ob) (\<lambda>rid.
     bindS (fld (value_to_vector row_child_of_json) ''components'' ob) (\<lambda>cs.
     Inr \<lparr>ar_id = rid, ar_components = cs\<rparr>)))"

definition cActionRow_to_json :: "cActionRow \<Rightarrow> json" where
  "cActionRow_to_json row =
     JObj [(''type'', JInt COMPONENT_ACTION_ROW), (''id'', JInt (ar_id row)),
           (''components'', JArr (map row_child_to_json (ar_components row)))]"

record cTextDisplay =
  td_id :: int
  td_content :: string

definition text_display :: "string \<Rightarrow> cTextDisplay" where
  "text_display s = \<lparr>td_id = 0, td_content = s\<rparr>"

definition cTextDisplay_of_json :: "json \<Rightarrow> exn + cTextDisplay" where
  "cTextDisplay_of_json v =
     bindS (as_object v) (\<lambda>ob.
     bindS (component_id ob) (\<lambda>tid.
     bindS (fld as_string ''content'' ob) (\<lambda>content.
     Inr \<lparr>td_id = tid, td_content = content\<rparr>)))"

definition cTextDisplay_to_json :: "cTextDisplay \<Rightarrow> json" where
  "cTextDisplay_to_json td =
     JObj [(''type'', JInt COMPONENT_TEXT_DISPLAY), (''id'', JInt (td_id td)), (''content'', JStr (td_content td))]"

datatype layout = LRow cActionRow | LText cTextDisplay | LUnsupported json

fun layout_of_json :: "json \<Rightarrow> exn + layout" where
  "layout_of_json v =
     bindS (component_type v) (\<lambda>t.
       if t = COMPONENT_ACTION_ROW then bindS (cActionRow_of_json v) (\<lambda>r. Inr (LRow r))
       else if t = COMPONENT_TEXT_DISPLAY then bindS (cTextDisplay_of_json v) (\<lambda>d. Inr (LText d))
       else Inr (LUnsupported v))"

fun layout_to_json :: "layout \<Rightarrow> json" where
  "layout_to_json (LRow r) = cActionRow_to_json r"
| "layout_to_json (LText d) = cTextDisplay_to_json d"
| "layout_to_json (LUnsupported v) = v"

section \<open>Modals\<close>

record cPartialTextInput =
  pti_id :: int
  pti_custom_id :: string
  pti_value :: string

definition cPartialTextInput_of_json :: "json \<Rightarrow> exn + cPartialTextInput" where
  "cPartialTextInput_of_json v =
     bindS (as_object v) (\<lambda>ob.
     bindS (component_id ob) (\<lambda>tid.
     bindS (fld as_string ''custom_id'' ob) (\<lambda>cid.
     bindS (fld as_string ''value'' ob) (\<lambda>val.
     Inr \<lparr>pti_id = tid, pti_custom_id = cid, pti_value = val\<rparr>))))"

datatype label_child = LInput cPartialTextInput | LOther json

fun label_child_of_json :: "json \<Rightarrow> exn + label_child" where
  "label_child_of_json v =
     bindS (component_type v) (\<lambda>t.
       if t = COMPONENT_TEXT_INPUT then bindS (cPartialTextInput_of_json v) (\<lambda>i. Inr (LInput i))
       else Inr (LOther v))"

record cPartialLabel =
  pl_id :: int
  pl_component :: label_child

definition cPartialLabel_of_json :: "json \<Rightarrow> exn + cPartialLabel" where
  "cPartialLabel_of_json v =
     bindS (as_object v) (\<lambda>ob.
     bindS (component_id ob) (\<lambda>lid.
     bindS (fld label_child_of_json ''component'' ob) (\<lambda>c.
     Inr \<lparr>pl_id = lid, pl_component = c\<rparr>)))"

datatype submitted = SRow cActionRow | SLabel cPartialLabel | SUnsupported json

fun submitted_of_json :: "json \<Rightarrow> exn + submitted" where
  "submitted_of_json v =
     bindS (component_type v) (\<lambda>t.
       if t = COMPONENT_ACTION_ROW then bindS (cActionRow_of_json v) (\<lambda>r. Inr (SRow r))
       else if t = COMPONENT_LABEL then bindS (cPartialLabel_of_json v) (\<lambda>l. Inr (SLabel l))
       else Inr (SUnsupported v))"

definition TEXT_INPUT_SHORT :: int where "TEXT_INPUT_SHORT = 1"
definition TEXT_INPUT_PARAGRAPH :: int where "TEXT_INPUT_PARAGRAPH = 2"

record cTextInput =
  ti_id :: int
  ti_custom_id :: string
  ti_style :: int
  ti_required :: bool
  ti_min_length :: u16
  ti_max_length :: u16

definition text_input :: "int \<Rightarrow> string \<Rightarrow> bool \<Rightarrow> cTextInput" where
  "text_input style cid required = \<lparr>ti_id = 0, ti_custom_id = cid, ti_style = style, ti_required = required,
     ti_min_length = 0, ti_max_length = 4000\<rparr>"

text \<open>The lengths are clamped to what Discord accepts; a required input has at least one character.\<close>

definition sent_min :: "cTextInput \<Rightarrow> u16" where
  "sent_min ti = (let m = min (ti_min_length ti) 4000 in if ti_required ti then max m 1 else m)"

definition cTextInput_to_json :: "cTextInput \<Rightarrow> json" where
  "cTextInput_to_json ti =
     (let m = sent_min ti; x = max (ti_max_length ti) 1 in
      JObj ([(''type'', JInt COMPONENT_TEXT_INPUT), (''id'', JInt (ti_id ti)), (''custom_id'', JStr (ti_custom_id ti)),
             (''style'', JInt (ti_style ti))]
            @ (if ti_required ti then [] else [(''required'', JBool False)])
            @ (if m \<noteq> 0 then [(''min_length'', JInt (uint m))] else [])
            @ (if x < 4000 then [(''max_length'', JInt (uint (max m x)))] else [])))"

record cLabel =
  lab_id :: int
  lab_label :: string
  lab_description :: string
  lab_input :: cTextInput

definition label_of :: "string \<Rightarrow> cTextInput \<Rightarrow> string \<Rightarrow> cLabel" where
  "label_of s ti d = \<lparr>lab_id = 0, lab_label = s, lab_description = d, lab_input = ti\<rparr>"

definition cLabel_to_json :: "cLabel \<Rightarrow> json" where
  "cLabel_to_json l =
     JObj ([(''type'', JInt COMPONENT_LABEL), (''id'', JInt (lab_id l)), (''label'', JStr (lab_label l)),
            (''component'', cTextInput_to_json (lab_input l))]
           @ unless_empty ''description'' (lab_description l))"

record cModal =
  mod_custom_id :: string
  mod_title :: string
  mod_components :: "cLabel list"

definition cModal_to_json :: "cModal \<Rightarrow> json" where
  "cModal_to_json m =
     JObj [(''custom_id'', JStr (mod_custom_id m)), (''title'', JStr (mod_title m)),
           (''components'', JArr (map cLabel_to_json (mod_components m)))]"

section \<open>Messages\<close>

definition MESSAGE_FLAG_SUPPRESS_EMBEDS :: u32 where "MESSAGE_FLAG_SUPPRESS_EMBEDS = push_bit 2 1"
definition MESSAGE_FLAG_EPHEMERAL :: u32 where "MESSAGE_FLAG_EPHEMERAL = push_bit 6 1"
definition MESSAGE_FLAG_IS_COMPONENTS_V2 :: u32 where "MESSAGE_FLAG_IS_COMPONENTS_V2 = push_bit 15 1"
definition MESSAGE_FLAG_TTS :: u32 where "MESSAGE_FLAG_TTS = push_bit 30 1"
definition MESSAGE_FLAG_MENTION_EVERYONE :: u32 where "MESSAGE_FLAG_MENTION_EVERYONE = push_bit 31 1"

lemmas message_flags = MESSAGE_FLAG_SUPPRESS_EMBEDS_def MESSAGE_FLAG_EPHEMERAL_def MESSAGE_FLAG_IS_COMPONENTS_V2_def
  MESSAGE_FLAG_TTS_def MESSAGE_FLAG_MENTION_EVERYONE_def

definition eMessageFlag_of_json :: "json \<Rightarrow> exn + u32" where
  "eMessageFlag_of_json v = bindS (to_u32 v) (\<lambda>i. Inr (word_of_int i))"

definition get_message_flags :: "jobject \<Rightarrow> exn + u32" where
  "get_message_flags ob =
     bindS (fld as_bool ''tts'' ob) (\<lambda>tts.
     bindS (fld as_bool ''mention_everyone'' ob) (\<lambda>me.
     bindS (fld_opt eMessageFlag_of_json 0 ''flags'' ob) (\<lambda>flags.
     Inr (push_bit 30 (of_bool tts) OR push_bit 31 (of_bool me) OR flags))))"

text \<open>A message to be sent with content, embeds and action rows, or with the new components.\<close>

record cPartialMessage =
  p_flags :: u32
  p_content :: string
  p_components :: "cActionRow list"
  p_embeds :: "cEmbed list"

record cPartialMessageV2 =
  v2_flags :: u32
  v2_components :: "layout list"

datatype cMessageView = Legacy cPartialMessage | V2 cPartialMessageV2

definition no_message :: cPartialMessage where
  "no_message = \<lparr>p_flags = 0, p_content = [], p_components = [], p_embeds = []\<rparr>"

definition SetFlags :: "u32 \<Rightarrow> cPartialMessage \<Rightarrow> cPartialMessage" where "SetFlags f m = m\<lparr>p_flags := f\<rparr>"
definition SetContent :: "string \<Rightarrow> cPartialMessage \<Rightarrow> cPartialMessage" where "SetContent s m = m\<lparr>p_content := s\<rparr>"
definition SetComponents :: "cActionRow list \<Rightarrow> cPartialMessage \<Rightarrow> cPartialMessage" where "SetComponents cs m = m\<lparr>p_components := cs\<rparr>"
definition SetEmbeds :: "cEmbed list \<Rightarrow> cPartialMessage \<Rightarrow> cPartialMessage" where "SetEmbeds es m = m\<lparr>p_embeds := es\<rparr>"

lemmas message_setters = SetFlags_def SetContent_def SetComponents_def SetEmbeds_def no_message_def

definition cPartialMessage_of_object :: "u32 \<Rightarrow> jobject \<Rightarrow> exn + cPartialMessage" where
  "cPartialMessage_of_object flags ob =
     bindS (fld as_string ''content'' ob) (\<lambda>content.
     bindS (fld_opt (value_to_vector cActionRow_of_json) [] ''components'' ob) (\<lambda>comps.
     bindS (fld (value_to_vector cEmbed_of_json) ''embeds'' ob) (\<lambda>embeds.
     Inr \<lparr>p_flags = flags, p_content = content, p_components = comps, p_embeds = embeds\<rparr>)))"

definition cPartialMessageV2_of_object :: "u32 \<Rightarrow> jobject \<Rightarrow> exn + cPartialMessageV2" where
  "cPartialMessageV2_of_object flags ob =
     bindS (fld (value_to_vector layout_of_json) ''components'' ob) (\<lambda>comps.
     Inr \<lparr>v2_flags = flags, v2_components = comps\<rparr>)"

definition cPartialMessage_to_json :: "cPartialMessage \<Rightarrow> jobject" where
  "cPartialMessage_to_json m =
     (let flags = p_flags m AND (MESSAGE_FLAG_EPHEMERAL OR MESSAGE_FLAG_SUPPRESS_EMBEDS) in
      (if p_flags m AND MESSAGE_FLAG_TTS \<noteq> 0 then [(''tts'', JBool True)] else [])
      @ (if flags \<noteq> 0 then [(''flags'', JInt (uint flags))] else [])
      @ unless_empty ''content'' (p_content m)
      @ (if p_components m = [] then [] else [(''components'', JArr (map cActionRow_to_json (p_components m)))])
      @ (if p_embeds m = [] then [] else [(''embeds'', JArr (map cEmbed_to_json (p_embeds m)))]))"

definition cPartialMessageV2_to_json :: "cPartialMessageV2 \<Rightarrow> jobject" where
  "cPartialMessageV2_to_json m =
     (if v2_flags m AND MESSAGE_FLAG_TTS \<noteq> 0 then [(''tts'', JBool True)] else [])
     @ [(''flags'', JInt (uint (v2_flags m AND (MESSAGE_FLAG_EPHEMERAL OR MESSAGE_FLAG_SUPPRESS_EMBEDS)
                               OR MESSAGE_FLAG_IS_COMPONENTS_V2))),
        (''components'', JArr (map layout_to_json (v2_components m)))]"

fun cMessageView_to_json :: "cMessageView \<Rightarrow> jobject" where
  "cMessageView_to_json (Legacy m) = cPartialMessage_to_json m"
| "cMessageView_to_json (V2 m) = cPartialMessageV2_to_json m"

record cMessage =
  ms_data :: cMessageView
  ms_id :: cSnowflake
  ms_channel_id :: cSnowflake
  ms_author :: cUser
  ms_timestamp :: int
  ms_edited_timestamp :: int
  ms_type :: int
  ms_attachments :: "cAttachment list"

definition cMessage_of_object :: "jobject \<Rightarrow> exn + cMessage" where
  "cMessage_of_object ob =
     bindS (get_message_flags ob) (\<lambda>flags.
     bindS (if flags AND MESSAGE_FLAG_IS_COMPONENTS_V2 \<noteq> 0
            then bindS (cPartialMessageV2_of_object flags ob) (\<lambda>m. Inr (V2 m))
            else bindS (cPartialMessage_of_object flags ob) (\<lambda>m. Inr (Legacy m))) (\<lambda>data.
     bindS (fld cSnowflake_of_json ''id'' ob) (\<lambda>mid.
     bindS (fld cSnowflake_of_json ''channel_id'' ob) (\<lambda>channel.
     bindS (fld cUser_of_json ''author'' ob) (\<lambda>author.
     bindS (fld timestamp_of_json ''timestamp'' ob) (\<lambda>ts.
     bindS (fld to_u32 ''type'' ob) (\<lambda>mtype.
     bindS (fld (value_to_vector cAttachment_of_json) ''attachments'' ob) (\<lambda>atts.
     bindS (fld_null timestamp_of_json 0 ''edited_timestamp'' ob) (\<lambda>edited.
     Inr \<lparr>ms_data = data, ms_id = mid, ms_channel_id = channel, ms_author = author, ms_timestamp = ts,
          ms_edited_timestamp = edited, ms_type = mtype, ms_attachments = atts\<rparr>)))))))))"

definition cMessage_of_json :: "json \<Rightarrow> exn + cMessage" where
  "cMessage_of_json v = bindS (as_object v) cMessage_of_object"

text \<open>The getters: a message with the new components has no content, embeds or action rows of its own.\<close>

definition GetContent :: "cMessage \<Rightarrow> string" where
  "GetContent m = (case ms_data m of Legacy p \<Rightarrow> p_content p | V2 _ \<Rightarrow> [])"

definition GetEmbeds :: "cMessage \<Rightarrow> cEmbed list" where
  "GetEmbeds m = (case ms_data m of Legacy p \<Rightarrow> p_embeds p | V2 _ \<Rightarrow> [])"

definition GetComponents :: "cMessage \<Rightarrow> cActionRow list" where
  "GetComponents m = (case ms_data m of Legacy p \<Rightarrow> p_components p | V2 _ \<Rightarrow> [])"

lemmas message_getters = GetContent_def GetEmbeds_def GetComponents_def

record cMessageUpdate =
  up_id :: cSnowflake
  up_channel_id :: cSnowflake
  up_content :: "string option"
  up_components :: "layout list option"
  up_embeds :: "cEmbed list option"

definition no_update :: cMessageUpdate where
  "no_update = \<lparr>up_id = sf_default, up_channel_id = sf_default, up_content = None, up_components = None, up_embeds = None\<rparr>"

definition cMessageUpdate_of_object :: "jobject \<Rightarrow> exn + cMessageUpdate" where
  "cMessageUpdate_of_object ob =
     bindS (fld cSnowflake_of_json ''id'' ob) (\<lambda>mid.
     bindS (fld cSnowflake_of_json ''channel_id'' ob) (\<lambda>channel.
     bindS (fld_opt (someS as_string) None ''content'' ob) (\<lambda>content.
     bindS (fld_opt (someS (value_to_vector layout_of_json)) None ''components'' ob) (\<lambda>comps.
     bindS (fld_opt (someS (value_to_vector cEmbed_of_json)) None ''embeds'' ob) (\<lambda>embeds.
     Inr \<lparr>up_id = mid, up_channel_id = channel, up_content = content, up_components = comps, up_embeds = embeds\<rparr>)))))"

fun is_row :: "layout \<Rightarrow> bool" where
  "is_row (LRow r) = True"
| "is_row l = False"

text \<open>
  An edit that puts in a component other than an action row turns the message into one with
  the new components, for which content and embeds have to be null.
\<close>

definition cMessageUpdate_to_json :: "cMessageUpdate \<Rightarrow> jobject" where
  "cMessageUpdate_to_json u =
     (let comps = opt_member (\<lambda>cs. JArr (map layout_to_json cs)) ''components'' (up_components u) in
      if (case up_components u of None \<Rightarrow> False | Some cs \<Rightarrow> \<not> list_all is_row cs) then
        comps @ [(''flags'', JInt (uint MESSAGE_FLAG_IS_COMPONENTS_V2)), (''content'', JNull), (''embeds'', JNull)]
      else
        comps @ opt_member JStr ''content'' (up_content u)
        @ opt_member (\<lambda>es. JArr (map cEmbed_to_json es)) ''embeds'' (up_embeds u))"

section \<open>What is sent is read back\<close>

text \<open>
  An embed that the bot sends is read back unchanged from a message that carries it, as
  when a handler edits the embed of its own earlier message: every member survives, an
  empty member stays empty and the timestamp keeps its milliseconds.
\<close>

theorem embed_roundtrip:
  assumes "embed_sendable e"
  shows "cEmbed_of_json (cEmbed_to_json e) = Inr e"
  using assms by (rule cEmbed_json)

theorem embed_roundtrip_witness:
  "cEmbed_of_json (cEmbed_to_json (SetAuthor ''bot'' ''icon'' (SetTimestamp 1703507760123 (SetFields [inline_field ''n'' ''v''] cEmbed_default))))
   = Inr (SetAuthor ''bot'' ''icon'' (SetTimestamp 1703507760123 (SetFields [inline_field ''n'' ''v''] cEmbed_default)))"
  by (rule embed_roundtrip) (simp add: embed_sendable_def embed_setters inline_field_def cEmbed_default_def iso_range_def)

definition button_sendable :: "cButton \<Rightarrow> bool" where
  "button_sendable b \<longleftrightarrow> - 2147483648 \<le> b_id b \<and> b_id b \<le> 2147483647 \<and> style_of_int (int_of_style (b_style b)) = b_style b
     \<and> 0 \<le> int_of_style (b_style b) \<and> int_of_style (b_style b) \<le> 255 \<and> pred_option (\<lambda>e. sf_canonical (e_id e)) (b_emoji b)"

lemma cButton_members:
  assumes "cButton_to_json b = JObj ob"
  shows "map_of ob ''type'' = Some (JInt 2)" "map_of ob ''id'' = Some (JInt (b_id b))" "map_of ob ''disabled'' = Some (JBool (b_disabled b))"
    "map_of ob ''style'' = Some (JInt (int_of_style (b_style b)))"
    "map_of ob ''label'' = (if b_label b = [] then None else Some (JStr (b_label b)))"
    "map_of ob (if b_style b = Link then ''url'' else ''custom_id'') = Some (JStr (b_custom_id_or_url b))"
    "map_of ob ''emoji'' = map_option cEmoji_to_json (b_emoji b)"
  using assms
  by (auto simp: cButton_to_json_def component_types unless_empty_def map_of_opt_member map_of_opt_member_end simp del: map_of_append)

lemma cButton_json:
  assumes "button_sendable b"
  shows "row_child_of_json (row_child_to_json (RButton b)) = Inr (RButton b)"
proof -
  obtain ob where ob: "cButton_to_json b = JObj ob" by (simp add: cButton_to_json_def)
  note mem = cButton_members [OF ob]
  from assms have b: "to_i32 (JInt (b_id b)) = Inr (b_id b)" "to_u8 (JInt (int_of_style (b_style b))) = Inr (int_of_style (b_style b))"
    "style_of_int (int_of_style (b_style b)) = b_style b" and p: "pred_option (\<lambda>e. sf_canonical (e_id e)) (b_emoji b)"
    by (simp_all add: button_sendable_def to_i32_def to_u8_def)
  have l: "fld_opt as_string [] ''label'' ob = Inr (b_label b)" by (simp add: fld_opt_def mem)
  have "cButton_of_json (JObj ob) = Inr b"
    unfolding cButton_of_json_def component_id_def as_object.simps
    by (simp add: fld_opt_read(1) [OF mem(2)] fld_opt_read(1) [OF mem(3)] fld_def obj_at_def mem b l
        fld_opt_map [OF mem(7) p cEmoji_json] del: style_of_int.simps)
  then show ?thesis
    by (simp add: ob component_type_def val_at_def obj_at_def mem to_u32_def component_types)
qed

end
