(* ===== verification/Interaction.thy ===== *)
theory Interaction
  imports Message
begin

text \<open>
  Interactions (Discord/Interaction): what a slash command, a click on a component or a
  submitted modal hands to the bot. Whether an interaction has been acknowledged is part
  of the state of the bot and not of the records here.
\<close>

section \<open>Options of a command\<close>

definition APP_CMD_CHAT_INPUT :: int where "APP_CMD_CHAT_INPUT = 1"
definition APP_CMD_USER :: int where "APP_CMD_USER = 2"

definition APP_CMD_OPT_SUB_COMMAND :: int where "APP_CMD_OPT_SUB_COMMAND = 1"
definition APP_CMD_OPT_SUB_COMMAND_GROUP :: int where "APP_CMD_OPT_SUB_COMMAND_GROUP = 2"
definition APP_CMD_OPT_STRING :: int where "APP_CMD_OPT_STRING = 3"
definition APP_CMD_OPT_INTEGER :: int where "APP_CMD_OPT_INTEGER = 4"
definition APP_CMD_OPT_BOOLEAN :: int where "APP_CMD_OPT_BOOLEAN = 5"
definition APP_CMD_OPT_USER :: int where "APP_CMD_OPT_USER = 6"
definition APP_CMD_OPT_CHANNEL :: int where "APP_CMD_OPT_CHANNEL = 7"
definition APP_CMD_OPT_ROLE :: int where "APP_CMD_OPT_ROLE = 8"
definition APP_CMD_OPT_MENTIONABLE :: int where "APP_CMD_OPT_MENTIONABLE = 9"

lemmas option_types = APP_CMD_CHAT_INPUT_def APP_CMD_USER_def APP_CMD_OPT_SUB_COMMAND_def
  APP_CMD_OPT_SUB_COMMAND_GROUP_def APP_CMD_OPT_STRING_def APP_CMD_OPT_INTEGER_def APP_CMD_OPT_BOOLEAN_def
  APP_CMD_OPT_USER_def APP_CMD_OPT_CHANNEL_def APP_CMD_OPT_ROLE_def APP_CMD_OPT_MENTIONABLE_def

datatype cAppCmdOption =
    AppCmdOption (opt_name: string) (opt_type: int) (opt_value: option_value)
and option_value =
    VInt int
  | VDouble rat
  | VBool bool
  | VString string
  | VSnowflake cSnowflake
  | VOptions "cAppCmdOption list"
  | VUser cUser "cPartialMember option"

definition option_user :: "json \<Rightarrow> json option \<Rightarrow> exn + option_value" where
  "option_user v pm =
     bindS (cUser_of_json v) (\<lambda>user.
     bindS (case pm of None \<Rightarrow> Inr None | Some p \<Rightarrow> someS cPartialMember_of_json p) (\<lambda>member.
     Inr (VUser user member)))"

text \<open>\<open>r\<close> is the object of resolved users and members, a null pointer when it is missing.\<close>

definition resolved_user :: "json option \<Rightarrow> string \<Rightarrow> exn + option_value" where
  "resolved_user r s =
     (case r of None \<Rightarrow> Inl xNullPtrError
      | Some rv \<Rightarrow>
          bindS (as_object rv) (\<lambda>ro.
          bindS (case map_of ro ''members'' of None \<Rightarrow> Inr None
                 | Some ms \<Rightarrow> bindS (as_object ms) (\<lambda>mo. Inr (map_of mo s))) (\<lambda>pm.
          bindS (val_at ''users'' rv) (\<lambda>us.
          bindS (val_at s us) (\<lambda>u. option_user u pm)))))"

lemma as_object_size: "as_object v = Inr ob \<Longrightarrow> map_of ob k = Some w \<Longrightarrow> size w < size v"
proof (cases v)
  case (JObj o1)
  assume "as_object v = Inr ob" "map_of ob k = Some w"
  with JObj have "size_prod (\<lambda>x. 0) size (k, w) \<in> set (map (size_prod (\<lambda>x. 0) size) o1)"
    by (auto dest: map_of_SomeD intro: rev_image_eqI)
  from member_le_sum_list [OF this] show ?thesis by (simp add: JObj size_list_conv_sum_list)
qed simp_all

lemma val_at_size: "val_at k v = Inr w \<Longrightarrow> size w < size v"
  by (auto simp: val_at_def obj_at_def bindS_eq_Inr split: option.splits dest: as_object_size)

lemma as_array_size: "as_array v = Inr xs \<Longrightarrow> x \<in> set xs \<Longrightarrow> size x < size v"
  by (cases v) (auto simp: size_list_estimation' less_Suc_eq_le)

function cAppCmdOption_of_json :: "json option \<Rightarrow> json \<Rightarrow> exn + cAppCmdOption" where
  "cAppCmdOption_of_json r v =
     bindS (bindS (val_at ''name'' v) as_string) (\<lambda>name.
     bindS (bindS (val_at ''type'' v) to_i32) (\<lambda>t.
     bindS
       (if t = APP_CMD_OPT_SUB_COMMAND \<or> t = APP_CMD_OPT_SUB_COMMAND_GROUP then
          bindS (val_at ''options'' v) (\<lambda>a.
          bindS (as_array a) (\<lambda>xs.
          bindS (mapS (cAppCmdOption_of_json r) xs) (\<lambda>os. Inr (VOptions os))))
        else if t = APP_CMD_OPT_STRING then bindS (val_at ''value'' v) (\<lambda>w. bindS (as_string w) (\<lambda>s. Inr (VString s)))
        else if t = APP_CMD_OPT_INTEGER then bindS (val_at ''value'' v) (\<lambda>w. bindS (to_i32 w) (\<lambda>i. Inr (VInt i)))
        else if t = APP_CMD_OPT_BOOLEAN then bindS (val_at ''value'' v) (\<lambda>w. bindS (as_bool w) (\<lambda>b. Inr (VBool b)))
        else if t = APP_CMD_OPT_USER then bindS (val_at ''value'' v) (\<lambda>w. bindS (as_string w) (resolved_user r))
        else if t = APP_CMD_OPT_CHANNEL \<or> t = APP_CMD_OPT_ROLE \<or> t = APP_CMD_OPT_MENTIONABLE then
          bindS (val_at ''value'' v) (\<lambda>w. bindS (cSnowflake_of_json w) (\<lambda>sf. Inr (VSnowflake sf)))
        else bindS (val_at ''value'' v) (\<lambda>w. bindS (as_double w) (\<lambda>d. Inr (VDouble d))))
       (\<lambda>x. Inr (AppCmdOption name t x))))"
  by pat_completeness auto
termination
  by (relation "measure (\<lambda>(r, v). size v)") (auto dest!: val_at_size as_array_size)

declare cAppCmdOption_of_json.simps [simp del]

text \<open>The option of a context menu command on a user.\<close>

definition option_of_target :: "string \<Rightarrow> jobject \<Rightarrow> exn + cAppCmdOption" where
  "option_of_target uid resolved =
     bindS (bindS (obj_at ''users'' resolved) (val_at uid)) (\<lambda>u.
     bindS (case map_of resolved ''members'' of None \<Rightarrow> Inr None
            | Some ms \<Rightarrow> bindS (as_object ms) (\<lambda>mo. Inr (map_of mo uid))) (\<lambda>pm.
     bindS (option_user u pm) (\<lambda>x. Inr (AppCmdOption [] APP_CMD_OPT_USER x))))"

text \<open>The value getters throw when the option is of another kind.\<close>

definition GetOptions :: "cAppCmdOption \<Rightarrow> cAppCmdOption list" where
  "GetOptions p = (case opt_value p of VOptions os \<Rightarrow> os | _ \<Rightarrow> [])"

definition GetValue_STRING :: "cAppCmdOption \<Rightarrow> exn + string" where
  "GetValue_STRING p = (case opt_value p of VString s \<Rightarrow> Inr s | _ \<Rightarrow> Inl (xAppCmdOptionTypeError ''APP_CMD_OPT_STRING''))"

definition GetValue_INTEGER :: "cAppCmdOption \<Rightarrow> exn + int" where
  "GetValue_INTEGER p = (case opt_value p of VInt i \<Rightarrow> Inr i | _ \<Rightarrow> Inl (xAppCmdOptionTypeError ''APP_CMD_OPT_INTEGER''))"

definition GetValue_BOOLEAN :: "cAppCmdOption \<Rightarrow> exn + bool" where
  "GetValue_BOOLEAN p = (case opt_value p of VBool b \<Rightarrow> Inr b | _ \<Rightarrow> Inl (xAppCmdOptionTypeError ''APP_CMD_OPT_BOOLEAN''))"

definition GetValue_NUMBER :: "cAppCmdOption \<Rightarrow> exn + rat" where
  "GetValue_NUMBER p = (case opt_value p of VDouble d \<Rightarrow> Inr d | _ \<Rightarrow> Inl (xAppCmdOptionTypeError ''APP_CMD_OPT_NUMBER''))"

definition GetValue_id :: "int \<Rightarrow> string \<Rightarrow> cAppCmdOption \<Rightarrow> exn + cSnowflake" where
  "GetValue_id t name p =
     (case opt_value p of
        VSnowflake sf \<Rightarrow> if opt_type p = t then Inr sf else Inl (xAppCmdOptionTypeError name)
      | _ \<Rightarrow> Inl (xAppCmdOptionTypeError name))"

definition GetValue_USER :: "cAppCmdOption \<Rightarrow> exn + cUser \<times> cPartialMember option" where
  "GetValue_USER p = (case opt_value p of VUser u m \<Rightarrow> Inr (u, m) | _ \<Rightarrow> Inl (xAppCmdOptionTypeError ''APP_CMD_OPT_USER''))"

section \<open>Interactions\<close>

record cInteraction =
  i_id :: cSnowflake
  i_application_id :: cSnowflake
  i_channel_id :: cSnowflake
  i_token :: string
  i_app_permissions :: ePermission
  i_user :: cUser
  i_guild :: "(cSnowflake \<times> cPartialMember) option"

definition i_guild_id :: "cInteraction \<Rightarrow> cSnowflake option" where
  "i_guild_id i = map_option fst (i_guild i)"

definition i_member :: "cInteraction \<Rightarrow> cPartialMember option" where
  "i_member i = map_option snd (i_guild i)"

text \<open>An interaction of a direct message carries a user, one of a guild carries a member.\<close>

definition cInteraction_of_object :: "jobject \<Rightarrow> exn + cInteraction" where
  "cInteraction_of_object ob =
     bindS (fld cSnowflake_of_json ''id'' ob) (\<lambda>iid.
     bindS (fld cSnowflake_of_json ''application_id'' ob) (\<lambda>app.
     bindS (fld cSnowflake_of_json ''channel_id'' ob) (\<lambda>channel.
     bindS (fld as_string ''token'' ob) (\<lambda>token.
     bindS (case map_of ob ''user'' of Some u \<Rightarrow> Inr u | None \<Rightarrow> bindS (obj_at ''member'' ob) (val_at ''user'')) (\<lambda>uv.
     bindS (cUser_of_json uv) (\<lambda>user.
     if map_of ob ''user'' \<noteq> None then
       Inr \<lparr>i_id = iid, i_application_id = app, i_channel_id = channel, i_token = token, i_app_permissions = 0,
            i_user = user, i_guild = None\<rparr>
     else
       bindS (fld ePermission_of_json ''app_permissions'' ob) (\<lambda>perms.
       bindS (fld cSnowflake_of_json ''guild_id'' ob) (\<lambda>guild.
       bindS (fld cPartialMember_of_json ''member'' ob) (\<lambda>member.
       Inr \<lparr>i_id = iid, i_application_id = app, i_channel_id = channel, i_token = token, i_app_permissions = perms,
            i_user = user, i_guild = Some (guild, member)\<rparr>)))))))))"

record cAppCmdInteraction =
  ac_base :: cInteraction
  ac_command_id :: cSnowflake
  ac_type :: int
  ac_name :: string
  ac_guild_id :: "cSnowflake option"
  ac_options :: "cAppCmdOption list"

definition cAppCmdInteraction_of_object :: "jobject \<Rightarrow> exn + cAppCmdInteraction" where
  "cAppCmdInteraction_of_object ob =
     bindS (fld as_object ''data'' ob) (\<lambda>d.
     bindS (cInteraction_of_object ob) (\<lambda>base.
     bindS (fld cSnowflake_of_json ''id'' d) (\<lambda>cid.
     bindS (fld to_i32 ''type'' d) (\<lambda>t.
     bindS (fld as_string ''name'' d) (\<lambda>name.
     bindS (fld_opt (someS cSnowflake_of_json) None ''guild_id'' d) (\<lambda>guild.
     bindS
       (if t = APP_CMD_CHAT_INPUT then
          fld_opt (value_to_vector (cAppCmdOption_of_json (map_of d ''resolved''))) [] ''options'' d
        else if t = APP_CMD_USER then
          bindS (fld as_string ''target_id'' d) (\<lambda>tid.
          bindS (fld as_object ''resolved'' d) (\<lambda>resolved.
          bindS (option_of_target tid resolved) (\<lambda>p. Inr [p])))
        else Inr []) (\<lambda>os.
     Inr \<lparr>ac_base = base, ac_command_id = cid, ac_type = t, ac_name = name, ac_guild_id = guild, ac_options = os\<rparr>)))))))"

record cMsgCompInteraction =
  mc_base :: cInteraction
  mc_message :: cMessage
  mc_custom_id :: string
  mc_component_type :: int
  mc_values :: "string list"

definition cMsgCompInteraction_of_object :: "jobject \<Rightarrow> exn + cMsgCompInteraction" where
  "cMsgCompInteraction_of_object ob =
     bindS (fld as_object ''data'' ob) (\<lambda>d.
     bindS (cInteraction_of_object ob) (\<lambda>base.
     bindS (fld cMessage_of_json ''message'' ob) (\<lambda>m.
     bindS (fld as_string ''custom_id'' d) (\<lambda>cid.
     bindS (fld to_u32 ''component_type'' d) (\<lambda>t.
     bindS (fld_opt (value_to_vector as_string) [] ''values'' d) (\<lambda>vs.
     Inr \<lparr>mc_base = base, mc_message = m, mc_custom_id = cid, mc_component_type = t, mc_values = vs\<rparr>))))))"

record cModalSubmitInteraction =
  mo_base :: cInteraction
  mo_custom_id :: string
  mo_components :: "submitted list"

definition cModalSubmitInteraction_of_object :: "jobject \<Rightarrow> exn + cModalSubmitInteraction" where
  "cModalSubmitInteraction_of_object ob =
     bindS (fld as_object ''data'' ob) (\<lambda>d.
     bindS (cInteraction_of_object ob) (\<lambda>base.
     bindS (fld as_string ''custom_id'' d) (\<lambda>cid.
     bindS (fld (value_to_vector submitted_of_json) ''components'' d) (\<lambda>cs.
     Inr \<lparr>mo_base = base, mo_custom_id = cid, mo_components = cs\<rparr>))))"

text \<open>\<open>cInteraction::Visit\<close>: one of the three kinds.\<close>

datatype interaction =
    AppCmd cAppCmdInteraction
  | MsgComp cMsgCompInteraction
  | ModalSubmit cModalSubmitInteraction

fun base :: "interaction \<Rightarrow> cInteraction" where
  "base (AppCmd i) = ac_base i"
| "base (MsgComp i) = mc_base i"
| "base (ModalSubmit i) = mo_base i"

section \<open>An example\<close>

text \<open>A member of a guild submits a modal; the values are those of a fresh account.\<close>

definition example_user :: cUser where
  "example_user =
     \<lparr>u_id = sf_of_int 7, u_username = ''anna'', u_avatar = [], u_global_name = [], u_discriminator = 0,
      u_bot = False, u_system = False\<rparr>"

definition example_member :: cPartialMember where
  "example_member =
     \<lparr>m_nick = [], m_avatar = [], m_joined_at = 0, m_premium_since = 0, m_communication_disabled_until = 0,
      m_deaf = False, m_mute = False, m_pending = False, m_flags = 0, m_permissions = 0, m_roles = []\<rparr>"

definition example_base :: cInteraction where
  "example_base =
     \<lparr>i_id = sf_of_int 11, i_application_id = sf_of_int 12, i_channel_id = sf_of_int 13, i_token = ''token'',
      i_app_permissions = 0, i_user = example_user, i_guild = Some (sf_of_int 350234668680871946, example_member)\<rparr>"

definition example_modal :: cModalSubmitInteraction where
  "example_modal = \<lparr>mo_base = example_base, mo_custom_id = ''NICKNAME_MODAL'', mo_components = []\<rparr>"

definition example_command :: "cAppCmdInteraction" where
  "example_command =
     \<lparr>ac_base = example_base, ac_command_id = sf_of_int 1, ac_type = 1, ac_name = ''test'', ac_guild_id = None, ac_options = []\<rparr>"

end
