(* ===== verification/World.thy ===== *)
theory World
  imports Interaction Store
begin

text \<open>
  The state of the running bot and the computations on it. A handler is a coroutine; here
  it is a function from the state to its result and the next state, the result being an
  exception or a value. The state holds what \<open>cGreekBot\<close> and \<open>cBot\<close> keep (GreekBot.h,
  Bot.h), the connection to the database, whether the interaction being handled has been
  acknowledged, and the calls made so far. What the outside answers is a parameter: the
  answer of the Discord API to a request and the members that the gateway streams are
  functions of the calls made before; the clocks and the random numbers are sequences. So
  are the farewell texts of bans (\<open>GreekBot_Ban.cpp\<close>), whose wording does not matter here, and
  how the standard library writes a floating-point number and what the URL library does: the
  host and scheme of a text, and the removal of a query parameter with the number of
  occurrences removed; so is whether a member is the first of its chunk.
\<close>

section \<open>The state\<close>

datatype verb = GET | POST | PATCH | PUT | DELETE

record request =
  rq_verb :: verb
  rq_path :: string
  rq_body :: "jobject option"
  rq_fields :: "(string \<times> string) list"

datatype call = Http request | MembersRequest cSnowflake string "cSnowflake list"

text \<open>
  The strand on which the running coroutine is, and the members of \<open>cBot\<close> and \<open>cGreekBot\<close>,
  which the coroutines share without a lock. What was used of them on another strand than that of
  the events is listed in \<open>w_strays\<close>.
\<close>

datatype strand = EventStrand | DatabaseStrand | SocketStrand

datatype shared = TheUser | TheRoles | TheGuilds | TheVoiceStates | TheHeartbeat

record world =
  w_store :: "db session"
  w_calls :: "call list"
  w_http :: "call list \<Rightarrow> request \<Rightarrow> exn + json"
  w_members :: "call list \<Rightarrow> call \<Rightarrow> cMember list \<times> exn option"
  w_system_clock :: "nat \<Rightarrow> int"
  w_steady_clock :: "nat \<Rightarrow> int"
  w_random :: "nat \<Rightarrow> nat"
  w_ticks :: nat
  w_crc32 :: "string \<Rightarrow> u32"
  w_acked :: bool
  w_user :: "cUser option"
  w_lmg_roles :: "cRole list"
  w_sorted :: bool
  w_guilds :: "u64 \<Rightarrow> cGuild option"
  w_before :: int
  w_lmg_voice_states :: "cVoiceState list"
  w_goodbyes :: "nat \<Rightarrow> string"
  w_goodbye_turk :: string
  w_fmt_percent :: "real \<Rightarrow> string"
  w_fmt_seconds :: "int \<Rightarrow> string"
  w_parse_uri :: "string \<Rightarrow> (string \<times> string) option"
  w_erase_param :: "string \<Rightarrow> string \<Rightarrow> nat \<times> string"
  w_first_of_chunk :: "cMember \<Rightarrow> bool"
  w_strand :: strand
  w_strays :: "shared list"

text \<open>A bot that has just started, on an empty database, with services that answer nothing.\<close>

definition start_session :: "db session" where
  "start_session = \<lparr>committed = db_empty, working = None, handle = False, pooled = False, engine = [], clock = 0\<rparr>"

definition start_world :: world where
  "start_world =
     \<lparr>w_store = start_session, w_calls = [], w_http = (\<lambda>cs r. Inr JNull), w_members = (\<lambda>cs c. ([], None)),
      w_system_clock = (\<lambda>n. 0), w_steady_clock = (\<lambda>n. 0), w_random = (\<lambda>n. 0), w_ticks = 0, w_crc32 = (\<lambda>s. 0),
      w_acked = False, w_user = None, w_lmg_roles = [], w_sorted = False, w_guilds = (\<lambda>g. None), w_before = 0,
      w_lmg_voice_states = [], w_goodbyes = (\<lambda>n. []), w_goodbye_turk = [], w_fmt_percent = (\<lambda>p. []),
      w_fmt_seconds = (\<lambda>t. []), w_parse_uri = (\<lambda>s. None), w_erase_param = (\<lambda>k u. (0, u)),
      w_first_of_chunk = (\<lambda>m. True), w_strand = EventStrand, w_strays = []\<rparr>"

section \<open>Computations\<close>

type_synonym 'a eff = "world \<Rightarrow> (exn + 'a) \<times> world"

definition ret :: "'a \<Rightarrow> 'a eff" where
  "ret x w = (Inr x, w)"

definition raise :: "exn \<Rightarrow> 'a eff" where
  "raise e w = (Inl e, w)"

definition bindE :: "'a eff \<Rightarrow> ('a \<Rightarrow> 'b eff) \<Rightarrow> 'b eff" where
  "bindE m k w = (case m w of (Inl e, w1) \<Rightarrow> (Inl e, w1) | (Inr x, w1) \<Rightarrow> k x w1)"

definition seqE :: "'a eff \<Rightarrow> 'b eff \<Rightarrow> 'b eff" where
  "seqE m k = bindE m (\<lambda>_. k)"

definition lift :: "exn + 'a \<Rightarrow> 'a eff" where
  "lift r w = (r, w)"

text \<open>\<open>catch\<close> of the exceptions of a class, and \<open>catch (...)\<close>.\<close>

definition catchE :: "(exn \<Rightarrow> bool) \<Rightarrow> 'a eff \<Rightarrow> (exn \<Rightarrow> 'a eff) \<Rightarrow> 'a eff" where
  "catchE P m h w =
     (case m w of
        (Inl e, w1) \<Rightarrow> if P e then h e w1 else (Inl e, w1)
      | (Inr x, w1) \<Rightarrow> (Inr x, w1))"

text \<open>\<open>HANDLER_BEGIN\<close>/\<open>END\<close>: the exception is rethrown in a pair with the name of the handler.\<close>

definition handler :: "string \<Rightarrow> 'a eff \<Rightarrow> 'a eff" where
  "handler name m = catchE (\<lambda>_. True) m (\<lambda>e. raise (xHandler name e))"

text \<open>\<open>HANDLER_TRY\<close>/\<open>CATCH\<close>: the exception is reported and dropped.\<close>

definition handler_try :: "unit eff \<Rightarrow> unit eff" where
  "handler_try m = catchE (\<lambda>_. True) m (\<lambda>_. ret ())"

fun mapE :: "('a \<Rightarrow> 'b eff) \<Rightarrow> 'a list \<Rightarrow> 'b list eff" where
  "mapE f [] = ret []"
| "mapE f (x # xs) = bindE (f x) (\<lambda>y. bindE (mapE f xs) (\<lambda>ys. ret (y # ys)))"

fun forE :: "'a list \<Rightarrow> ('a \<Rightarrow> unit eff) \<Rightarrow> unit eff" where
  "forE [] f = ret ()"
| "forE (x # xs) f = seqE (f x) (forE xs f)"

text \<open>A loop that carries a value along.\<close>

fun foldE :: "('a \<Rightarrow> 's \<Rightarrow> 's eff) \<Rightarrow> 'a list \<Rightarrow> 's \<Rightarrow> 's eff" where
  "foldE f [] s = ret s"
| "foldE f (x # xs) s = bindE (f x s) (foldE f xs)"

definition whenE :: "bool \<Rightarrow> unit eff \<Rightarrow> unit eff" where
  "whenE b m = (if b then m else ret ())"

definition getE :: "(world \<Rightarrow> 'a) \<Rightarrow> 'a eff" where
  "getE f w = (Inr (f w), w)"

definition putE :: "(world \<Rightarrow> world) \<Rightarrow> unit eff" where
  "putE f w = (Inr (), f w)"

text \<open>Dereferencing a \<open>cPtr\<close> and a \<open>std::optional\<close>.\<close>

definition deref :: "'a option \<Rightarrow> 'a eff" where
  "deref p = (case p of None \<Rightarrow> raise xNullPtrError | Some x \<Rightarrow> ret x)"

section \<open>Strands\<close>

definition visit :: "shared \<Rightarrow> world \<Rightarrow> world" where
  "visit x w = w\<lparr>w_strays := w_strays w @ (if w_strand w = EventStrand then [] else [x])\<rparr>"

lemma visit_simps [simp]:
  "w_store (visit x w) = w_store w" "w_calls (visit x w) = w_calls w"
  "w_http (visit x w) = w_http w" "w_members (visit x w) = w_members w"
  "w_system_clock (visit x w) = w_system_clock w" "w_steady_clock (visit x w) = w_steady_clock w"
  "w_random (visit x w) = w_random w" "w_ticks (visit x w) = w_ticks w"
  "w_crc32 (visit x w) = w_crc32 w" "w_acked (visit x w) = w_acked w"
  "w_user (visit x w) = w_user w" "w_lmg_roles (visit x w) = w_lmg_roles w"
  "w_sorted (visit x w) = w_sorted w" "w_guilds (visit x w) = w_guilds w"
  "w_before (visit x w) = w_before w" "w_lmg_voice_states (visit x w) = w_lmg_voice_states w"
  "w_goodbyes (visit x w) = w_goodbyes w" "w_goodbye_turk (visit x w) = w_goodbye_turk w"
  "w_fmt_percent (visit x w) = w_fmt_percent w" "w_fmt_seconds (visit x w) = w_fmt_seconds w"
  "w_parse_uri (visit x w) = w_parse_uri w" "w_erase_param (visit x w) = w_erase_param w"
  "w_first_of_chunk (visit x w) = w_first_of_chunk w" "w_strand (visit x w) = w_strand w"
  "w_strays (visit x w) = w_strays w @ (if w_strand w = EventStrand then [] else [x])"
  by (simp_all add: visit_def)

text \<open>\<open>ResumeOnEventStrand\<close> and what follows it.\<close>

definition ResumeOnEventStrand :: "'a eff \<Rightarrow> 'a eff" where
  "ResumeOnEventStrand m w = m (w\<lparr>w_strand := EventStrand\<rparr>)"

text \<open>
  A loop over members goes on where its body ended, and on the strand of the websocket when the
  next member is in another chunk.
\<close>

definition next_member :: "cMember \<Rightarrow> world \<Rightarrow> world" where
  "next_member m w = (if w_first_of_chunk w m then w\<lparr>w_strand := SocketStrand\<rparr> else w)"

section \<open>Clocks, random numbers and checksums\<close>

text \<open>Both clocks count nanoseconds.\<close>

definition system_now :: "int eff" where
  "system_now w = (Inr (w_system_clock w (w_ticks w)), w\<lparr>w_ticks := Suc (w_ticks w)\<rparr>)"

definition steady_now :: "int eff" where
  "steady_now w = (Inr (w_steady_clock w (w_ticks w)), w\<lparr>w_ticks := Suc (w_ticks w)\<rparr>)"

definition ns_ms :: int where "ns_ms = 1000000"
definition ns_second :: int where "ns_second = 1000000000"

text \<open>\<open>cUtils::Random(a, b)\<close> for two naturals: a number of the closed interval.\<close>

definition Random :: "nat \<Rightarrow> nat \<Rightarrow> nat eff" where
  "Random a b w = (Inr (a + w_random w (w_ticks w) mod (b - a + 1)), w\<lparr>w_ticks := Suc (w_ticks w)\<rparr>)"

definition CRC32 :: "string \<Rightarrow> u32 eff" where
  "CRC32 s = getE (\<lambda>w. w_crc32 w s)"

section \<open>The database\<close>

text \<open>Everything that talks to the database resumes on its strand first.\<close>

definition on_store :: "(db session \<Rightarrow> (sqlerr + 'a) \<times> db session) \<Rightarrow> 'a eff" where
  "on_store f w = (case f (w_store w) of (r, s) \<Rightarrow> (mapL xSqlError r, w\<lparr>w_store := s, w_strand := DatabaseStrand\<rparr>))"

definition dao :: "(db, 'r) query \<Rightarrow> 'r eff" where
  "dao q = on_store (Exec q)"

definition txn_begin :: "unit eff" where
  "txn_begin = on_store (throwing Begin)"

definition txn_commit :: "unit eff" where
  "txn_commit = on_store (throwing Commit)"

definition txn_close :: "unit eff" where
  "txn_close = putE (\<lambda>w. w\<lparr>w_store := Close (w_store w)\<rparr>)"

text \<open>
  The scope of a \<open>cTransaction\<close>: it is closed by its destructor, whether the scope is left
  by a value or by an exception.
\<close>

definition with_txn :: "'a eff \<Rightarrow> 'a eff" where
  "with_txn m =
     bindE (on_store New) (\<lambda>_ w. case m w of (r, w1) \<Rightarrow> (r, w1\<lparr>w_store := Close (w_store w1)\<rparr>))"

section \<open>Requests\<close>

text \<open>A request is sent and its response arrives on the strand of the events.\<close>

definition http_send :: "request \<Rightarrow> json eff" where
  "http_send r w = (w_http w (w_calls w) r, w\<lparr>w_calls := w_calls w @ [Http r], w_strand := EventStrand\<rparr>)"

definition DiscordGet :: "string \<Rightarrow> json eff" where
  "DiscordGet path = http_send \<lparr>rq_verb = GET, rq_path = path, rq_body = None, rq_fields = []\<rparr>"

definition DiscordPost :: "string \<Rightarrow> jobject \<Rightarrow> (string \<times> string) list \<Rightarrow> json eff" where
  "DiscordPost path ob hf = http_send \<lparr>rq_verb = POST, rq_path = path, rq_body = Some ob, rq_fields = hf\<rparr>"

text \<open>
  What the service answers is what comes of the repetitions of a request; only a request by this
  method is not repeated (theory Http).
\<close>

definition DiscordPostNoRetry :: "string \<Rightarrow> jobject \<Rightarrow> (string \<times> string) list \<Rightarrow> json eff" where
  "DiscordPostNoRetry path ob hf = http_send \<lparr>rq_verb = POST, rq_path = path, rq_body = Some ob, rq_fields = hf\<rparr>"

definition DiscordPatch :: "string \<Rightarrow> jobject \<Rightarrow> json eff" where
  "DiscordPatch path ob = http_send \<lparr>rq_verb = PATCH, rq_path = path, rq_body = Some ob, rq_fields = []\<rparr>"

definition DiscordPut :: "string \<Rightarrow> jobject option \<Rightarrow> (string \<times> string) list \<Rightarrow> json eff" where
  "DiscordPut path ob hf = http_send \<lparr>rq_verb = PUT, rq_path = path, rq_body = ob, rq_fields = hf\<rparr>"

definition DiscordDelete :: "string \<Rightarrow> (string \<times> string) list \<Rightarrow> json eff" where
  "DiscordDelete path hf = http_send \<lparr>rq_verb = DELETE, rq_path = path, rq_body = None, rq_fields = hf\<rparr>"

text \<open>
  One request for guild members over the gateway. The members that arrive are consumed one
  by one on the strand of the websocket; the request may end with an exception after some of them.
\<close>

type_synonym 'a gen = "world \<Rightarrow> ('a list \<times> exn option) \<times> world"

definition members_request :: "cSnowflake \<Rightarrow> string \<Rightarrow> cSnowflake list \<Rightarrow> cMember gen" where
  "members_request guild query users w =
     (let c = MembersRequest guild query users
      in (w_members w (w_calls w) c, w\<lparr>w_calls := w_calls w @ [c], w_strand := SocketStrand\<rparr>))"

text \<open>\<open>co_for\<close>: the body runs for every value, then the exception of the generator is thrown.\<close>

definition co_for :: "'a gen \<Rightarrow> ('a \<Rightarrow> unit eff) \<Rightarrow> unit eff" where
  "co_for g f w =
     (case g w of ((xs, e), w1) \<Rightarrow>
        seqE (forE xs f) (case e of None \<Rightarrow> ret () | Some x \<Rightarrow> raise x) w1)"

definition co_collect :: "'a gen \<Rightarrow> 'a list eff" where
  "co_collect g w = (case g w of ((xs, e), w1) \<Rightarrow> ((case e of None \<Rightarrow> Inr xs | Some x \<Rightarrow> Inl x), w1))"

text \<open>\<open>co_for\<close> with a body that appends to a vector.\<close>

definition co_map :: "'a gen \<Rightarrow> ('a \<Rightarrow> 'b eff) \<Rightarrow> 'b list eff" where
  "co_map g f w =
     (case g w of ((xs, e), w1) \<Rightarrow>
        bindE (mapE f xs) (\<lambda>ys. case e of None \<Rightarrow> ret ys | Some x \<Rightarrow> raise x) w1)"

definition seqG :: "'a gen \<Rightarrow> 'a gen \<Rightarrow> 'a gen" where
  "seqG g h w =
     (case g w of
        ((xs, Some e), w1) \<Rightarrow> ((xs, Some e), w1)
      | ((xs, None), w1) \<Rightarrow> (case h w1 of ((ys, e), w2) \<Rightarrow> ((xs @ ys, e), w2)))"

text \<open>At most 100 members can be requested by identifier at a time.\<close>

function RequestGuildMembers_batches :: "cSnowflake \<Rightarrow> cSnowflake list \<Rightarrow> cMember gen" where
  "RequestGuildMembers_batches guild users =
     (if length users \<le> 100 then members_request guild [] users
      else seqG (members_request guild [] (take 100 users)) (RequestGuildMembers_batches guild (drop 100 users)))"
  by pat_completeness auto
termination
  by (relation "measure (\<lambda>(g, us). length us)") auto

declare RequestGuildMembers_batches.simps [simp del]

definition RequestGuildMembers_ids :: "cSnowflake \<Rightarrow> cSnowflake list \<Rightarrow> cMember gen" where
  "RequestGuildMembers_ids guild users =
     (if users = [] then (\<lambda>w. (([], None), w)) else RequestGuildMembers_batches guild users)"

definition RequestGuildMembers :: "cSnowflake \<Rightarrow> cMember gen" where
  "RequestGuildMembers guild = members_request guild [] []"

section \<open>Running a computation\<close>

lemma run_simps [simp]:
  "ret x w = (Inr x, w)" "raise e w = (Inl e, w)" "lift r w = (r, w)" "getE f w = (Inr (f w), w)" "putE g w = (Inr (), g w)"
  by (simp_all add: ret_def raise_def lift_def getE_def putE_def)

lemma bindE_run:
  "m w = (Inr x, w1) \<Longrightarrow> bindE m k w = k x w1"
  "m w = (Inl e, w1) \<Longrightarrow> bindE m k w = (Inl e, w1)"
  by (simp_all add: bindE_def)

lemma bindE_simps [simp]: "bindE (ret x) k = k x" "bindE (raise e) k = raise e"
  by (simp_all add: bindE_def fun_eq_iff)

lemma bindE_lift: "bindE (lift r) k = (case r of Inl e \<Rightarrow> raise e | Inr x \<Rightarrow> k x)"
  by (cases r) (simp_all add: bindE_def fun_eq_iff)

lemma bindE_getE: "bindE (getE f) k w = k (f w) w"
  by (simp add: bindE_def)

lemma deref_simps [simp]: "deref (Some x) = ret x" "deref None = raise xNullPtrError"
  by (simp_all add: deref_def)

lemma bindE_Inr: "bindE m k w = (Inr x, w') \<longleftrightarrow> (\<exists>y w1. m w = (Inr y, w1) \<and> k y w1 = (Inr x, w'))"
  by (auto simp: bindE_def split: prod.splits sum.splits)

lemma seqE_Inr: "seqE m k w = (Inr x, w') \<longleftrightarrow> (\<exists>y w1. m w = (Inr y, w1) \<and> k w1 = (Inr x, w'))"
  by (simp add: seqE_def bindE_Inr)

lemmas run_defs = bindE_def seqE_def catchE_def handler_def handler_try_def whenE_def

end
