(* ===== verification/Bot.thy ===== *)
theory Bot
  imports World "HOL-Library.Multiset"
begin

text \<open>
  The API of the bot (Discord/Bot.cpp, Bot_Interaction.cpp, Bot_ChannelMessages.cpp): each
  function with the path, the body and the header fields of the request it sends, and what
  it makes of the answer. Interactions have to be acknowledged exactly once; the messages
  of a channel are deleted in bulk where Discord allows it.
\<close>

section \<open>Requests\<close>

definition audit_reason :: "string \<Rightarrow> (string \<times> string) list" where
  "audit_reason rsn = (if rsn = [] then [] else [(''X-Audit-Log-Reason'', PercentEncode rsn)])"

definition no_result :: "json eff \<Rightarrow> unit eff" where
  "no_result m = bindE m (\<lambda>_. ret ())"

definition parsed :: "(json \<Rightarrow> exn + 'a) \<Rightarrow> json eff \<Rightarrow> 'a eff" where
  "parsed f m = bindE m (\<lambda>v. lift (f v))"

definition GetUser_self :: "cUser eff" where
  "GetUser_self w = (case w_user w of None \<Rightarrow> (Inl xBadOptionalAccess, visit TheUser w) | Some u \<Rightarrow> (Inr u, visit TheUser w))"

definition OnReady :: "cUser \<Rightarrow> unit eff" where
  "OnReady user = putE (\<lambda>w. (visit TheUser w)\<lparr>w_user := Some user\<rparr>)"

definition OnUserUpdate :: "cUser \<Rightarrow> unit eff" where
  "OnUserUpdate user = putE (\<lambda>w. (visit TheUser w)\<lparr>w_user := Some user\<rparr>)"

definition GetGuildRoles :: "cSnowflake \<Rightarrow> cRole list eff" where
  "GetGuildRoles guild = parsed (value_to_vector cRole_of_json) (DiscordGet (''/guilds/'' @ ToString guild @ ''/roles''))"

definition GetUser :: "cSnowflake \<Rightarrow> cUser eff" where
  "GetUser user = parsed cUser_of_json (DiscordGet (''/users/'' @ ToString user))"

definition member_path :: "cSnowflake \<Rightarrow> cSnowflake \<Rightarrow> string" where
  "member_path guild user = ''/guilds/'' @ ToString guild @ ''/members/'' @ ToString user"

definition GetGuildMember :: "cSnowflake \<Rightarrow> cSnowflake \<Rightarrow> cMember eff" where
  "GetGuildMember guild user = parsed cMember_of_json (DiscordGet (member_path guild user))"

definition AddGuildMemberRole :: "cSnowflake \<Rightarrow> cSnowflake \<Rightarrow> cSnowflake \<Rightarrow> unit eff" where
  "AddGuildMemberRole guild user role =
     no_result (DiscordPut (member_path guild user @ ''/roles/'' @ ToString role) None [])"

definition RemoveGuildMemberRole :: "cSnowflake \<Rightarrow> cSnowflake \<Rightarrow> cSnowflake \<Rightarrow> unit eff" where
  "RemoveGuildMemberRole guild user role =
     no_result (DiscordDelete (member_path guild user @ ''/roles/'' @ ToString role) [])"

definition ModifyGuildMember :: "cSnowflake \<Rightarrow> cSnowflake \<Rightarrow> cMemberOptions \<Rightarrow> unit eff" where
  "ModifyGuildMember guild user opts = no_result (DiscordPatch (member_path guild user) (cMemberOptions_to_json opts))"

definition BeginGuildPrune :: "cSnowflake \<Rightarrow> int \<Rightarrow> string \<Rightarrow> int eff" where
  "BeginGuildPrune guild days rsn =
     parsed (\<lambda>v. bindS (val_at ''pruned'' v) to_i32)
       (DiscordPostNoRetry (''/guilds/'' @ ToString guild @ ''/prune'') [(''days'', JInt days)] (audit_reason rsn))"

definition CreateDM :: "cSnowflake \<Rightarrow> cChannel eff" where
  "CreateDM recipient =
     parsed cChannel_of_json (DiscordPost ''/users/@me/channels'' [(''recipient_id'', JStr (ToString recipient))] [])"

definition CreateMessage :: "cSnowflake \<Rightarrow> cMessageView \<Rightarrow> cMessage eff" where
  "CreateMessage channel msg =
     parsed cMessage_of_json (DiscordPost (''/channels/'' @ ToString channel @ ''/messages'') (cMessageView_to_json msg) [])"

definition CreateDMMessage :: "cSnowflake \<Rightarrow> cMessageView \<Rightarrow> cMessage eff" where
  "CreateDMMessage recipient msg = bindE (CreateDM recipient) (\<lambda>channel. CreateMessage (c_id channel) msg)"

definition message_path :: "cSnowflake \<Rightarrow> cSnowflake \<Rightarrow> string" where
  "message_path channel msg = ''/channels/'' @ ToString channel @ ''/messages/'' @ ToString msg"

definition EditMessage :: "cSnowflake \<Rightarrow> cSnowflake \<Rightarrow> cMessageUpdate \<Rightarrow> cMessage eff" where
  "EditMessage channel target upd = parsed cMessage_of_json (DiscordPatch (message_path channel target) (cMessageUpdate_to_json upd))"

definition GetChannelMessage :: "cSnowflake \<Rightarrow> cSnowflake \<Rightarrow> cMessage eff" where
  "GetChannelMessage channel msg = parsed cMessage_of_json (DiscordGet (message_path channel msg))"

definition DeleteReaction :: "cSnowflake \<Rightarrow> cSnowflake \<Rightarrow> cEmoji \<Rightarrow> cSnowflake \<Rightarrow> unit eff" where
  "DeleteReaction channel msg emoji user =
     no_result (DiscordDelete (message_path channel msg @ ''/reactions/'' @ emoji_pct emoji @ ''/''
       @ (if ToInt user = 0 then ''@me'' else ToString user)) [])"

definition RemoveGuildMember :: "cSnowflake \<Rightarrow> cSnowflake \<Rightarrow> string \<Rightarrow> unit eff" where
  "RemoveGuildMember guild user rsn = no_result (DiscordDelete (member_path guild user) (audit_reason rsn))"

definition ban_path :: "cSnowflake \<Rightarrow> cSnowflake \<Rightarrow> string" where
  "ban_path guild user = ''/guilds/'' @ ToString guild @ ''/bans/'' @ ToString user"

definition CreateGuildBan :: "cSnowflake \<Rightarrow> cSnowflake \<Rightarrow> int \<Rightarrow> string \<Rightarrow> unit eff" where
  "CreateGuildBan guild user secs rsn =
     no_result (DiscordPut (ban_path guild user) (Some [(''delete_message_seconds'', JInt secs)]) (audit_reason rsn))"

definition RemoveGuildBan :: "cSnowflake \<Rightarrow> cSnowflake \<Rightarrow> string \<Rightarrow> unit eff" where
  "RemoveGuildBan guild user rsn = no_result (DiscordDelete (ban_path guild user) (audit_reason rsn))"

section \<open>Interactions\<close>

definition CHANNEL_MESSAGE_WITH_SOURCE :: int where "CHANNEL_MESSAGE_WITH_SOURCE = 4"
definition DEFERRED_CHANNEL_MESSAGE_WITH_SOURCE :: int where "DEFERRED_CHANNEL_MESSAGE_WITH_SOURCE = 5"
definition DEFERRED_UPDATE_MESSAGE :: int where "DEFERRED_UPDATE_MESSAGE = 6"
definition UPDATE_MESSAGE :: int where "UPDATE_MESSAGE = 7"
definition MODAL :: int where "MODAL = 9"

lemmas callback_types = CHANNEL_MESSAGE_WITH_SOURCE_def DEFERRED_CHANNEL_MESSAGE_WITH_SOURCE_def
  DEFERRED_UPDATE_MESSAGE_def UPDATE_MESSAGE_def MODAL_def

definition interaction_acknowledged :: exn where
  "interaction_acknowledged = xDiscordError eInteractionAcknowledged ''Interaction has already been acknowledged''"

definition invalid_form_body :: exn where
  "invalid_form_body = xDiscordError eInvalidFormBody ''Invalid form body''"

definition set_interaction_ack :: "unit eff" where
  "set_interaction_ack = putE (\<lambda>w. w\<lparr>w_acked := True\<rparr>)"

definition callback_path :: "cInteraction \<Rightarrow> string" where
  "callback_path i = ''/interactions/'' @ ToString (i_id i) @ ''/'' @ i_token i @ ''/callback''"

definition webhook_path :: "cInteraction \<Rightarrow> string" where
  "webhook_path i = ''/webhooks/'' @ ToString (i_application_id i) @ ''/'' @ i_token i"

definition webhook_message_path :: "cInteraction \<Rightarrow> cSnowflake \<Rightarrow> string" where
  "webhook_message_path i msg =
     webhook_path i @ ''/messages/'' @ (if ToInt msg \<noteq> 0 then ToString msg else ''@original'')"

text \<open>The first response: fails if there was one before, marks the interaction on success.\<close>

definition first_response :: "cInteraction \<Rightarrow> jobject \<Rightarrow> unit eff" where
  "first_response i ob =
     bindE (getE w_acked) (\<lambda>acked.
     if acked then raise interaction_acknowledged
     else bindE (DiscordPost (callback_path i) ob []) (\<lambda>_. set_interaction_ack))"

fun defer_type :: "interaction \<Rightarrow> bool \<Rightarrow> int" where
  "defer_type (AppCmd i) thinking = DEFERRED_CHANNEL_MESSAGE_WITH_SOURCE"
| "defer_type (MsgComp i) thinking = (if thinking then DEFERRED_CHANNEL_MESSAGE_WITH_SOURCE else DEFERRED_UPDATE_MESSAGE)"
| "defer_type (ModalSubmit i) thinking = (if thinking then DEFERRED_CHANNEL_MESSAGE_WITH_SOURCE else DEFERRED_UPDATE_MESSAGE)"

definition InteractionDefer :: "interaction \<Rightarrow> bool \<Rightarrow> unit eff" where
  "InteractionDefer i thinking = first_response (base i) [(''type'', JInt (defer_type i thinking))]"

definition InteractionSendMessage :: "interaction \<Rightarrow> cMessageView \<Rightarrow> unit eff" where
  "InteractionSendMessage i msg =
     bindE (getE w_acked) (\<lambda>acked.
     if acked then no_result (DiscordPost (webhook_path (base i)) (cMessageView_to_json msg) [])
     else bindE (DiscordPost (callback_path (base i))
                  [(''type'', JInt CHANNEL_MESSAGE_WITH_SOURCE), (''data'', JObj (cMessageView_to_json msg))] [])
       (\<lambda>_. set_interaction_ack))"

definition InteractionSendModal :: "interaction \<Rightarrow> cModal \<Rightarrow> unit eff" where
  "InteractionSendModal i modal =
     (case i of ModalSubmit _ \<Rightarrow> raise invalid_form_body
      | _ \<Rightarrow> first_response (base i) [(''type'', JInt MODAL), (''data'', cModal_to_json modal)])"

definition InteractionEditMessageImpl :: "cInteraction \<Rightarrow> cMessageUpdate \<Rightarrow> cSnowflake \<Rightarrow> cMessage eff" where
  "InteractionEditMessageImpl i upd msg =
     parsed cMessage_of_json (DiscordPatch (webhook_message_path i msg) (cMessageUpdate_to_json upd))"

text \<open>
  The click of a component that was not acknowledged is answered by an update of the message
  the component is on.
\<close>

definition InteractionEditMessage :: "interaction \<Rightarrow> cMessageUpdate \<Rightarrow> cSnowflake \<Rightarrow> cMessage eff" where
  "InteractionEditMessage i upd msg =
     (case i of
        MsgComp c \<Rightarrow>
          bindE (getE w_acked) (\<lambda>acked.
          if \<not> acked \<and> (sf_eq msg sf_default \<or> sf_eq msg (ms_id (mc_message c))) then
            bindE (DiscordPost (callback_path (mc_base c) @ ''?with_response=1'')
                    [(''type'', JInt UPDATE_MESSAGE), (''data'', JObj (cMessageUpdate_to_json upd))] []) (\<lambda>result.
            seqE set_interaction_ack
              (lift (bindS (val_at ''resource'' result) (\<lambda>r. bindS (val_at ''message'' r) cMessage_of_json))))
          else InteractionEditMessageImpl (mc_base c) upd msg)
      | _ \<Rightarrow> InteractionEditMessageImpl (base i) upd msg)"

definition InteractionGetMessage :: "interaction \<Rightarrow> cSnowflake \<Rightarrow> cMessage eff" where
  "InteractionGetMessage i msg = parsed cMessage_of_json (DiscordGet (webhook_message_path (base i) msg))"

definition InteractionDeleteMessage :: "interaction \<Rightarrow> cSnowflake \<Rightarrow> unit eff" where
  "InteractionDeleteMessage i msg = no_result (DiscordDelete (webhook_message_path (base i) msg) [])"

section \<open>Deleting messages\<close>

definition delete_message :: "cSnowflake \<Rightarrow> cSnowflake \<Rightarrow> (string \<times> string) list \<Rightarrow> unit eff" where
  "delete_message channel msg hf = no_result (DiscordDelete (message_path channel msg) hf)"

definition DeleteMessage :: "cSnowflake \<Rightarrow> cSnowflake \<Rightarrow> string \<Rightarrow> unit eff" where
  "DeleteMessage channel msg rsn = delete_message channel msg (audit_reason rsn)"

definition ns_day :: int where "ns_day = 86400000000000"

text \<open>\<open>ceil<days>(now - id.GetTimestamp()) < days(14)\<close>, the clock being in nanoseconds.\<close>

definition newer_than_two_weeks :: "int \<Rightarrow> cSnowflake \<Rightarrow> bool" where
  "newer_than_two_weeks now m \<longleftrightarrow> ceil_div (now - GetTimestamp m * ns_ms) ns_day < 14"

text \<open>
  The array of one batch is filled from both ends: the newer messages in order from the
  front, the older ones from the back. Fewer than two newer messages are deleted one by one
  like the older ones.
\<close>

definition batch_newer :: "int \<Rightarrow> cSnowflake list \<Rightarrow> cSnowflake list" where
  "batch_newer now ids = filter (newer_than_two_weeks now) ids"

definition batch_array :: "int \<Rightarrow> cSnowflake list \<Rightarrow> cSnowflake list" where
  "batch_array now ids = batch_newer now ids @ rev (filter (\<lambda>m. \<not> newer_than_two_weeks now m) ids)"

definition newest_first :: "cSnowflake list \<Rightarrow> cSnowflake list" where
  "newest_first ids = sort_key (\<lambda>m. - uint (ToInt m)) ids"

definition delete_batch :: "cSnowflake \<Rightarrow> (string \<times> string) list \<Rightarrow> cSnowflake list \<Rightarrow> unit eff" where
  "delete_batch channel hf ids =
     bindE system_now (\<lambda>now.
     let newer = batch_newer now ids; bulk = (2 \<le> length newer) in
     seqE (whenE bulk (no_result (DiscordPost (''/channels/'' @ ToString channel @ ''/messages/bulk-delete'')
                         [(''messages'', JArr (map (\<lambda>m. JStr (ToString m)) newer))] hf)))
       (forE (newest_first (drop (if bulk then length newer else 0) (batch_array now ids)))
          (\<lambda>m. delete_message channel m hf)))"

function delete_batches :: "cSnowflake \<Rightarrow> (string \<times> string) list \<Rightarrow> cSnowflake list \<Rightarrow> unit eff" where
  "delete_batches channel hf ids =
     (if ids = [] then ret ()
      else seqE (delete_batch channel hf (take 100 ids)) (delete_batches channel hf (drop 100 ids)))"
  by pat_completeness auto
termination
  by (relation "measure (\<lambda>(c, h, ids). length ids)") auto

declare delete_batches.simps [simp del]

definition DeleteMessages :: "cSnowflake \<Rightarrow> cSnowflake list \<Rightarrow> string \<Rightarrow> unit eff" where
  "DeleteMessages channel ids rsn = delete_batches channel (audit_reason rsn) ids"

section \<open>Reading messages\<close>

text \<open>
  The generators of messages: the answer of one request is parsed message by message. For
  more than 100 messages the next request asks for what was sent before the last message.
\<close>

fun parse_messages :: "json list \<Rightarrow> cMessage list \<times> exn option" where
  "parse_messages [] = ([], None)"
| "parse_messages (v # vs) =
     (case cMessage_of_json v of
        Inl e \<Rightarrow> ([], Some e)
      | Inr m \<Rightarrow> (case parse_messages vs of (ms, e) \<Rightarrow> (m # ms, e)))"

definition get_channel_messages :: "string \<Rightarrow> cMessage gen" where
  "get_channel_messages path w =
     (case DiscordGet path w of
        (Inl e, w1) \<Rightarrow> (([], Some e), w1)
      | (Inr v, w1) \<Rightarrow> (case as_array v of Inl e \<Rightarrow> (([], Some e), w1) | Inr vs \<Rightarrow> (parse_messages vs, w1)))"

definition messages_path :: "cSnowflake \<Rightarrow> u64 option \<Rightarrow> nat \<Rightarrow> string" where
  "messages_path channel before limit =
     ''/channels/'' @ ToString channel @ ''/messages?''
     @ (case before of None \<Rightarrow> [] | Some b \<Rightarrow> ''before='' @ to_dec (unat b) @ ''&'') @ ''limit='' @ to_dec limit"

definition last_id :: "u64 \<Rightarrow> cMessage list \<Rightarrow> u64" where
  "last_id d ms = (if ms = [] then d else ToInt (ms_id (last ms)))"

function messages_before_loop :: "cSnowflake \<Rightarrow> u64 \<Rightarrow> nat \<Rightarrow> cMessage gen" where
  "messages_before_loop channel before limit w =
     (if limit \<le> 100 then get_channel_messages (messages_path channel (Some before) limit) w
      else
        (case get_channel_messages (messages_path channel (Some before) 100) w of
           ((ms, Some e), w1) \<Rightarrow> ((ms, Some e), w1)
         | ((ms, None), w1) \<Rightarrow>
             if length ms < 100 then ((ms, None), w1)
             else (case messages_before_loop channel (last_id before ms) (limit - 100) w1 of
                     ((ms', e), w2) \<Rightarrow> ((ms @ ms', e), w2))))"
  by pat_completeness auto
termination
  by (relation "measure (\<lambda>(c, b, l, w). l)") auto

declare messages_before_loop.simps [simp del]

definition GetChannelMessagesBefore :: "cSnowflake \<Rightarrow> cSnowflake \<Rightarrow> nat \<Rightarrow> cMessage gen" where
  "GetChannelMessagesBefore channel before limit w =
     (if limit = 0 then (([], None), w)
      else if limit > 100 then messages_before_loop (sf_of_int (ToInt channel)) (ToInt before) limit w
      else get_channel_messages
        (''/channels/'' @ ToString channel @ ''/messages?before='' @ ToString before @ ''&limit='' @ to_dec limit) w)"

definition GetChannelMessages :: "cSnowflake \<Rightarrow> nat \<Rightarrow> cMessage gen" where
  "GetChannelMessages channel limit w =
     (if limit = 0 then (([], None), w)
      else if limit > 100 then
        (case get_channel_messages (messages_path channel None 100) w of
           ((ms, Some e), w1) \<Rightarrow> ((ms, Some e), w1)
         | ((ms, None), w1) \<Rightarrow>
             if length ms < 100 then ((ms, None), w1)
             else (case GetChannelMessagesBefore channel (sf_of_int (last_id 0 ms)) (limit - 100) w1 of
                     ((ms', e), w2) \<Rightarrow> ((ms @ ms', e), w2)))
      else get_channel_messages (messages_path channel None limit) w)"

section \<open>Acknowledging an interaction\<close>

text \<open>What a handler can do with the interaction it is given.\<close>

datatype api =
    Defer bool
  | Send cMessageView
  | Modal cModal
  | Edit cMessageUpdate cSnowflake
  | Fetch cSnowflake
  | Remove cSnowflake

fun run_api :: "interaction \<Rightarrow> api \<Rightarrow> world \<Rightarrow> world" where
  "run_api i (Defer thinking) w = snd (InteractionDefer i thinking w)"
| "run_api i (Send msg) w = snd (InteractionSendMessage i msg w)"
| "run_api i (Modal modal) w = snd (InteractionSendModal i modal w)"
| "run_api i (Edit upd msg) w = snd (InteractionEditMessage i upd msg w)"
| "run_api i (Fetch msg) w = snd (InteractionGetMessage i msg w)"
| "run_api i (Remove msg) w = snd (InteractionDeleteMessage i msg w)"

definition is_callback :: "interaction \<Rightarrow> request \<Rightarrow> bool" where
  "is_callback i r \<longleftrightarrow>
     rq_path r = callback_path (base i) \<or> rq_path r = callback_path (base i) @ ''?with_response=1''"

text \<open>The callbacks among some calls, each with whether it was answered without an error.\<close>

fun callback_answers :: "interaction \<Rightarrow> (call list \<Rightarrow> request \<Rightarrow> exn + json) \<Rightarrow> call list \<Rightarrow> call list \<Rightarrow> bool list" where
  "callback_answers i h pre [] = []"
| "callback_answers i h pre (Http r # cs) =
     (if is_callback i r then [\<not> isl (h pre r)] else []) @ callback_answers i h (pre @ [Http r]) cs"
| "callback_answers i h pre (c # cs) = callback_answers i h (pre @ [c]) cs"

lemma callback_answers_append:
  "callback_answers i h pre (cs @ ds) = callback_answers i h pre cs @ callback_answers i h (pre @ cs) ds"
  by (induction i h pre cs rule: callback_answers.induct) simp_all

lemma webhook_not_callback [simp]:
  "webhook_path j \<noteq> callback_path k" "webhook_path j \<noteq> callback_path k @ s"
  "webhook_path j @ t \<noteq> callback_path k" "webhook_path j @ t \<noteq> callback_path k @ s"
  "webhook_message_path j m \<noteq> callback_path k" "webhook_message_path j m \<noteq> callback_path k @ s"
  by (simp_all add: webhook_path_def callback_path_def webhook_message_path_def)

lemmas api_defs = InteractionDefer_def InteractionSendMessage_def InteractionSendModal_def InteractionEditMessage_def
  InteractionEditMessageImpl_def InteractionGetMessage_def InteractionDeleteMessage_def first_response_def
  no_result_def parsed_def DiscordPost_def DiscordPatch_def DiscordGet_def DiscordDelete_def http_send_def
  set_interaction_ack_def bindE_def seqE_def

lemma run_api_step:
  "\<exists>new. w_calls (run_api i a w) = w_calls w @ new \<and> w_http (run_api i a w) = w_http w
     \<and> (if w_acked w then w_acked (run_api i a w) \<and> callback_answers i (w_http w) (w_calls w) new = []
        else callback_answers i (w_http w) (w_calls w) new
               \<in> (if w_acked (run_api i a w) then {[True]} else {[], [False]}))"
proof (cases a)
  case (Defer b) then show ?thesis
    by (cases i) (auto simp: api_defs is_callback_def split: sum.splits)
next
  case (Send m) then show ?thesis
    by (auto simp: api_defs is_callback_def split: sum.splits)
next
  case (Modal m) then show ?thesis
    by (cases i) (auto simp: api_defs is_callback_def split: sum.splits)
next
  case (Edit u m) then show ?thesis
    by (cases i) (auto simp: api_defs is_callback_def split: sum.splits)
next
  case (Fetch m) then show ?thesis
    by (auto simp: api_defs is_callback_def split: sum.splits)
next
  case (Remove m) then show ?thesis
    by (auto simp: api_defs is_callback_def split: sum.splits)
qed

lemma run_api_acked:
  "w_acked w \<Longrightarrow> \<exists>new. w_calls (fold (run_api i) ops w) = w_calls w @ new \<and> w_acked (fold (run_api i) ops w)
     \<and> callback_answers i (w_http w) (w_calls w) new = []"
proof (induction ops arbitrary: w)
  case (Cons a ops)
  from run_api_step [of i a w] Cons.prems obtain n1 where
    n1: "w_calls (run_api i a w) = w_calls w @ n1" "w_http (run_api i a w) = w_http w" "w_acked (run_api i a w)"
      "callback_answers i (w_http w) (w_calls w) n1 = []" by auto
  from Cons.IH [OF n1(3)] n1 obtain n2 where
    "w_calls (fold (run_api i) ops (run_api i a w)) = (w_calls w @ n1) @ n2" "w_acked (fold (run_api i) ops (run_api i a w))"
    "callback_answers i (w_http w) (w_calls w @ n1) n2 = []" by auto
  with n1(4) show ?case by (auto simp: callback_answers_append)
qed simp

text \<open>
  C7: whatever a handler does with an interaction, in whatever order and whatever the
  service answers, at most one of the callbacks it sends is accepted, none is sent after it,
  and the interaction counts as acknowledged exactly when there was one.
\<close>

theorem acknowledged_once:
  assumes "\<not> w_acked w"
  shows "\<exists>new k. w_calls (fold (run_api i) ops w) = w_calls w @ new
     \<and> callback_answers i (w_http w) (w_calls w) new
         = replicate k False @ (if w_acked (fold (run_api i) ops w) then [True] else [])"
  using assms
proof (induction ops arbitrary: w)
  case Nil
  have "w_calls w = w_calls w @ []" "callback_answers i (w_http w) (w_calls w) [] = replicate 0 False @ []" by simp_all
  with Nil show ?case unfolding fold.simps id_apply by metis
next
  case (Cons a ops)
  let ?w = "run_api i a w"
  from run_api_step [of i a w] Cons.prems obtain n1 where
    n1: "w_calls ?w = w_calls w @ n1" "w_http ?w = w_http w"
      "callback_answers i (w_http w) (w_calls w) n1 \<in> (if w_acked ?w then {[True]} else {[], [False]})" by auto
  show ?case
  proof (cases "w_acked ?w")
    case True
    then obtain n2 where n2: "w_calls (fold (run_api i) ops ?w) = w_calls ?w @ n2" "w_acked (fold (run_api i) ops ?w)"
      "callback_answers i (w_http ?w) (w_calls ?w) n2 = []" using run_api_acked by blast
    show ?thesis using n1 n2 True
      by (intro exI [of _ "n1 @ n2"] exI [of _ 0]) (simp add: callback_answers_append)
  next
    case False
    from Cons.IH [OF False] obtain n2 k where n2: "w_calls (fold (run_api i) ops ?w) = w_calls ?w @ n2"
      "callback_answers i (w_http ?w) (w_calls ?w) n2
         = replicate k False @ (if w_acked (fold (run_api i) ops ?w) then [True] else [])" by blast
    obtain k1 where "callback_answers i (w_http w) (w_calls w) n1 = replicate k1 False"
      using n1(3) False by (metis insertE replicate_0 replicate_Suc singletonD)
    then show ?thesis using n1 n2
      by (intro exI [of _ "n1 @ n2"] exI [of _ "k1 + k"]) (simp add: callback_answers_append replicate_add)
  qed
qed

theorem acknowledged_once_witness:
  "\<exists>new k. w_calls (fold (run_api (AppCmd example_command)) [Defer True, Defer False, Send (Legacy no_message)] start_world) = new
     \<and> callback_answers (AppCmd example_command) (w_http start_world) [] new
         = replicate k False @ (if w_acked (fold (run_api (AppCmd example_command)) [Defer True, Defer False, Send (Legacy no_message)] start_world)
             then [True] else [])"
  using acknowledged_once [of start_world "AppCmd example_command" "[Defer True, Defer False, Send (Legacy no_message)]"]
  by (simp add: start_world_def)

section \<open>Deleting messages in bulk\<close>

text \<open>One batch as its bulk part and the messages deleted one by one, and the requests of it.\<close>

type_synonym batch = "cSnowflake list \<times> cSnowflake list"

definition batch_calls :: "cSnowflake \<Rightarrow> (string \<times> string) list \<Rightarrow> batch \<Rightarrow> call list" where
  "batch_calls channel hf b =
     (case b of (bulk, single) \<Rightarrow>
        (if bulk = [] then [] else [Http \<lparr>rq_verb = POST, rq_path = ''/channels/'' @ ToString channel @ ''/messages/bulk-delete'',
            rq_body = Some [(''messages'', JArr (map (\<lambda>m. JStr (ToString m)) bulk))], rq_fields = hf\<rparr>])
        @ map (\<lambda>m. Http \<lparr>rq_verb = DELETE, rq_path = message_path channel m, rq_body = None, rq_fields = hf\<rparr>) single)"

definition batch_of :: "int \<Rightarrow> cSnowflake list \<Rightarrow> batch" where
  "batch_of now ids =
     (if 2 \<le> length (batch_newer now ids)
      then (batch_newer now ids, newest_first (drop (length (batch_newer now ids)) (batch_array now ids)))
      else ([], newest_first (batch_array now ids)))"

lemma newest_first_sorted: "sorted (map (\<lambda>m. - uint (ToInt m)) (newest_first ids))"
  by (simp add: newest_first_def)

lemma batch_of_mset: "mset (fst (batch_of now ids)) + mset (snd (batch_of now ids)) = mset ids"
  by (simp add: batch_of_def batch_array_def batch_newer_def newest_first_def)

lemma delete_message_run:
  "delete_message channel m hf w = (Inr (), w') \<Longrightarrow>
     w_calls w' = w_calls w @ [Http \<lparr>rq_verb = DELETE, rq_path = message_path channel m, rq_body = None, rq_fields = hf\<rparr>]
     \<and> w_ticks w' = w_ticks w \<and> w_system_clock w' = w_system_clock w"
  by (auto simp: delete_message_def no_result_def DiscordDelete_def http_send_def bindE_Inr)

lemma forE_delete:
  "forE ms (\<lambda>m. delete_message channel m hf) w = (Inr (), w') \<Longrightarrow>
     w_calls w' = w_calls w @ map (\<lambda>m. Http \<lparr>rq_verb = DELETE, rq_path = message_path channel m, rq_body = None, rq_fields = hf\<rparr>) ms
     \<and> w_ticks w' = w_ticks w \<and> w_system_clock w' = w_system_clock w"
  by (induction ms arbitrary: w) (auto simp: seqE_Inr dest!: delete_message_run)

lemma delete_batch_run:
  assumes "delete_batch channel hf ids w = (Inr (), w')"
  shows "w_calls w' = w_calls w @ batch_calls channel hf (batch_of (w_system_clock w (w_ticks w)) ids)
     \<and> w_ticks w' = Suc (w_ticks w) \<and> w_system_clock w' = w_system_clock w"
  using assms
  by (auto simp: delete_batch_def system_now_def bindE_def seqE_def whenE_def no_result_def DiscordPost_def http_send_def
      batch_of_def batch_calls_def Let_def split: sum.splits if_splits dest!: forE_delete)

text \<open>
  C23: when \<open>DeleteMessages\<close> returns, it has sent exactly the requests of some batches that
  together hold every given message exactly once: those of a bulk request are between 2 and
  100 and all newer than two weeks when the batch is sent, the others are deleted one by one
  from the newest to the oldest.
\<close>

theorem delete_messages_correct:
  assumes "DeleteMessages channel ids rsn w = (Inr (), w')"
  shows "\<exists>bs. w_calls w' = w_calls w @ concat (map (batch_calls channel (audit_reason rsn)) bs)
     \<and> sum_list (map (\<lambda>b. mset (fst b) + mset (snd b)) bs) = mset ids
     \<and> (\<forall>k < length bs. case bs ! k of (bulk, single) \<Rightarrow>
          (bulk = [] \<or> 2 \<le> length bulk \<and> length bulk \<le> 100)
          \<and> (\<forall>m \<in> set bulk. newer_than_two_weeks (w_system_clock w (w_ticks w + k)) m)
          \<and> sorted (map (\<lambda>m. - uint (ToInt m)) single))"
  using assms unfolding DeleteMessages_def
proof (induction channel "audit_reason rsn" ids arbitrary: w rule: delete_batches.induct)
  case (1 channel ids)
  show ?case
  proof (cases "ids = []")
    case True
    with "1.prems" show ?thesis
      by (intro exI [of _ "[]"]) (simp add: delete_batches.simps)
  next
    case False
    let ?now = "w_system_clock w (w_ticks w)"
    let ?b = "batch_of ?now (take 100 ids)"
    from "1.prems" False obtain w1 where
      w1: "delete_batch channel (audit_reason rsn) (take 100 ids) w = (Inr (), w1)"
        "delete_batches channel (audit_reason rsn) (drop 100 ids) w1 = (Inr (), w')"
      by (subst (asm) delete_batches.simps) (auto simp: seqE_def bindE_def split: prod.splits sum.splits)
    note r1 = delete_batch_run [OF w1(1)]
    from "1.hyps" [OF False w1(2)] obtain bs where bs:
      "w_calls w' = w_calls w1 @ concat (map (batch_calls channel (audit_reason rsn)) bs)"
      "sum_list (map (\<lambda>b. mset (fst b) + mset (snd b)) bs) = mset (drop 100 ids)"
      "\<forall>k < length bs. case bs ! k of (bulk, single) \<Rightarrow>
          (bulk = [] \<or> 2 \<le> length bulk \<and> length bulk \<le> 100)
          \<and> (\<forall>m \<in> set bulk. newer_than_two_weeks (w_system_clock w1 (w_ticks w1 + k)) m)
          \<and> sorted (map (\<lambda>m. - uint (ToInt m)) single)" by blast
    have "mset (fst ?b) + mset (snd ?b) + mset (drop 100 ids) = mset ids"
      unfolding batch_of_mset by (simp flip: mset_append)
    moreover have "case ?b of (bulk, single) \<Rightarrow>
          (bulk = [] \<or> 2 \<le> length bulk \<and> length bulk \<le> 100)
          \<and> (\<forall>m \<in> set bulk. newer_than_two_weeks ?now m) \<and> sorted (map (\<lambda>m. - uint (ToInt m)) single)"
      using length_filter_le [of "newer_than_two_weeks ?now" "take 100 ids"]
      by (auto simp: batch_of_def batch_newer_def newest_first_sorted)
    ultimately show ?thesis using bs r1
      by (intro exI [of _ "?b # bs"]) (auto simp: less_Suc_eq_0_disj nth_Cons')
  qed
qed

theorem delete_messages_correct_witness:
  "\<exists>w' bs. DeleteMessages (sf_of_int 1) [sf_of_int 2, sf_of_int 3] [] start_world = (Inr (), w')
     \<and> w_calls w' = concat (map (batch_calls (sf_of_int 1) []) bs)
     \<and> sum_list (map (\<lambda>b. mset (fst b) + mset (snd b)) bs) = {#sf_of_int 2, sf_of_int 3#}"
proof -
  have "fst (DeleteMessages (sf_of_int 1) [sf_of_int 2, sf_of_int 3] [] start_world) = Inr ()"
    by (simp add: DeleteMessages_def delete_batches.simps delete_batch_def system_now_def bindE_def seqE_def whenE_def
        no_result_def DiscordPost_def DiscordDelete_def http_send_def Let_def batch_array_def batch_newer_def newest_first_def
        delete_message_def start_world_def split: sum.splits)
  then obtain w' where w': "DeleteMessages (sf_of_int 1) [sf_of_int 2, sf_of_int 3] [] start_world = (Inr (), w')"
    by (metis prod.collapse)
  from delete_messages_correct [OF w'] w' show ?thesis
    by (auto simp: start_world_def audit_reason_def)
qed

end
