(* ===== verification/LMG.thy ===== *)
theory LMG
  imports Bot
begin

text \<open>
  What all handlers share: the identifiers of the Learning Greek server
  (GreekBot/LearningGreek.h), the texts and messages they are made of, and the cache of the
  server's roles that \<open>cGreekBot\<close> keeps (GreekBot.cpp). Texts are UTF-8 bytes.
\<close>

section \<open>Text\<close>

definition bytes :: "nat list \<Rightarrow> string" where
  "bytes ns = map char_of ns"

definition newline :: string where "newline = bytes [10]"

text \<open>The mention formats \<open>{:u}\<close>, \<open>{:r}\<close> and \<open>{:c}\<close> of an identifier, and a number in backticks.\<close>

definition fmt_u :: "cSnowflake \<Rightarrow> string" where "fmt_u = sf_format ''@''"
definition fmt_r :: "cSnowflake \<Rightarrow> string" where "fmt_r = sf_format ''@&''"
definition fmt_c :: "cSnowflake \<Rightarrow> string" where "fmt_c = sf_format ''#''"
definition fmt_code :: "cSnowflake \<Rightarrow> string" where "fmt_code sf = ''`'' @ ToString sf @ ''`''"

text \<open>The suffix of a noun in the singular and the plural.\<close>

definition plural :: "int \<Rightarrow> string" where
  "plural n = (if n = 1 then [] else ''s'')"

definition message_link :: "cSnowflake \<Rightarrow> cSnowflake \<Rightarrow> cSnowflake \<Rightarrow> string" where
  "message_link guild channel msg =
     ''https://discord.com/channels/'' @ ToString guild @ ''/'' @ ToString channel @ ''/'' @ ToString msg"

text \<open>\<open>find\<close> and \<open>rfind\<close> of characters and of strings, from the start or the end of the text.\<close>

definition find_char :: "char \<Rightarrow> string \<Rightarrow> nat option" where
  "find_char c s = find (\<lambda>i. s ! i = c) [0..<length s]"

definition rfind_char :: "char \<Rightarrow> string \<Rightarrow> nat option" where
  "rfind_char c s = find (\<lambda>i. s ! i = c) (rev [0..<length s])"

definition rfind :: "string \<Rightarrow> string \<Rightarrow> nat option" where
  "rfind p s = find (\<lambda>i. starts_with p (drop i s)) (rev [0..<Suc (length s)])"

section \<open>Identifiers\<close>

definition LMG_GUILD_ID :: cSnowflake where "LMG_GUILD_ID = sf_of_int 350234668680871946"

definition LMG_CHANNEL_USER_LOG :: cSnowflake where "LMG_CHANNEL_USER_LOG = sf_of_int 469274019565142017"
definition LMG_CHANNEL_MESSAGE_LOG :: cSnowflake where "LMG_CHANNEL_MESSAGE_LOG = sf_of_int 539521989061378048"
definition LMG_CHANNEL_NATIVE_POLLS :: cSnowflake where "LMG_CHANNEL_NATIVE_POLLS = sf_of_int 650331739293745172"
definition LMG_CHANNEL_STARBOARD :: cSnowflake where "LMG_CHANNEL_STARBOARD = sf_of_int 978993330694266920"
definition LMG_CHANNEL_NEW_MEMBERS :: cSnowflake where "LMG_CHANNEL_NEW_MEMBERS = sf_of_int 1143888492422770778"
definition LMG_CHANNEL_COMPROMISED :: cSnowflake where "LMG_CHANNEL_COMPROMISED = sf_of_int 1520755509567819894"

definition LMG_ROLE_FLUENT :: cSnowflake where "LMG_ROLE_FLUENT = sf_of_int 350483489461895168"
definition LMG_ROLE_NATIVE :: cSnowflake where "LMG_ROLE_NATIVE = sf_of_int 350483752490631181"
definition LMG_ROLE_ADVANCED :: cSnowflake where "LMG_ROLE_ADVANCED = sf_of_int 350485279238258689"
definition LMG_ROLE_INTERMEDIATE :: cSnowflake where "LMG_ROLE_INTERMEDIATE = sf_of_int 350485376109903882"
definition LMG_ROLE_BEGINNER :: cSnowflake where "LMG_ROLE_BEGINNER = sf_of_int 351117824300679169"
definition LMG_ROLE_ELEMENTARY :: cSnowflake where "LMG_ROLE_ELEMENTARY = sf_of_int 351117954974482435"
definition LMG_ROLE_UPPER_INTERMEDIATE :: cSnowflake where "LMG_ROLE_UPPER_INTERMEDIATE = sf_of_int 351118486426091521"
definition LMG_ROLE_NON_LEARNER :: cSnowflake where "LMG_ROLE_NON_LEARNER = sf_of_int 352001527780474881"
definition LMG_ROLE_ACTIVE_USER :: cSnowflake where "LMG_ROLE_ACTIVE_USER = sf_of_int 352009155864821760"
definition LMG_ROLE_MEMBER :: cSnowflake where "LMG_ROLE_MEMBER = sf_of_int 350264923806367754"
definition LMG_ROLE_ACTIVE_MEMBER :: cSnowflake where "LMG_ROLE_ACTIVE_MEMBER = sf_of_int 352008860904456192"
definition LMG_ROLE_REALLY_ACTIVE_MEMBER :: cSnowflake where "LMG_ROLE_REALLY_ACTIVE_MEMBER = sf_of_int 353354156783960075"
definition LMG_ROLE_USUAL_SUSPECT :: cSnowflake where "LMG_ROLE_USUAL_SUSPECT = sf_of_int 410753563543732225"
definition LMG_ROLE_GREEK_LOVER :: cSnowflake where "LMG_ROLE_GREEK_LOVER = sf_of_int 410754841556549633"
definition LMG_ROLE_PROESTOS :: cSnowflake where "LMG_ROLE_PROESTOS = sf_of_int 414523335595130905"
definition LMG_ROLE_EPITIMOS :: cSnowflake where "LMG_ROLE_EPITIMOS = sf_of_int 466238555304230913"
definition LMG_ROLE_NITRO_BOOSTER :: cSnowflake where "LMG_ROLE_NITRO_BOOSTER = sf_of_int 593038680608735233"
definition LMG_ROLE_ELLINOPOULO :: cSnowflake where "LMG_ROLE_ELLINOPOULO = sf_of_int 608687509291008000"
definition LMG_ROLE_PALIOS :: cSnowflake where "LMG_ROLE_PALIOS = sf_of_int 631559446782410752"
definition LMG_ROLE_POLL :: cSnowflake where "LMG_ROLE_POLL = sf_of_int 650330610358943755"
definition LMG_ROLE_VETERANOS :: cSnowflake where "LMG_ROLE_VETERANOS = sf_of_int 817337981979066398"
definition LMG_ROLE_CYPRUS :: cSnowflake where "LMG_ROLE_CYPRUS = sf_of_int 1247132108686884894"

definition LMG_RANK_ROLES :: "cSnowflake list" where
  "LMG_RANK_ROLES =
     [LMG_ROLE_MEMBER, LMG_ROLE_ACTIVE_MEMBER, LMG_ROLE_ACTIVE_USER, LMG_ROLE_REALLY_ACTIVE_MEMBER,
      LMG_ROLE_USUAL_SUSPECT, LMG_ROLE_GREEK_LOVER, LMG_ROLE_PROESTOS, LMG_ROLE_EPITIMOS,
      LMG_ROLE_ELLINOPOULO, LMG_ROLE_PALIOS]"

definition LMG_PROFICIENCY_ROLES :: "cSnowflake list" where
  "LMG_PROFICIENCY_ROLES =
     [LMG_ROLE_NON_LEARNER, LMG_ROLE_BEGINNER, LMG_ROLE_ELEMENTARY, LMG_ROLE_INTERMEDIATE,
      LMG_ROLE_UPPER_INTERMEDIATE, LMG_ROLE_ADVANCED, LMG_ROLE_FLUENT, LMG_ROLE_NATIVE, LMG_ROLE_CYPRUS]"

definition LMG_NITRO_BOOSTER_COLOR_ROLES :: "cSnowflake list" where
  "LMG_NITRO_BOOSTER_COLOR_ROLES = map sf_of_int
     [657145859439329280, 677183404743327764, 735954079355895889, 755763454266179595,
      777323857018617877, 793570278084968488, 925379778251485206, 941041008169336913,
      1109212629882392586, 1121773567785308181, 1156980445058170991, 1163945469567832215,
      1265742860783845558, 1468608859567554631]"

definition LMG_EMOJI_ID_HOLY :: cSnowflake where "LMG_EMOJI_ID_HOLY = sf_of_int 409075809723219969"
definition LMG_EMOJI_ID_HEBONK :: cSnowflake where "LMG_EMOJI_ID_HEBONK = sf_of_int 831316355214606386"
definition LMG_EMOJI_HOLY :: cEmoji where "LMG_EMOJI_HOLY = custom_emoji ''Holy'' LMG_EMOJI_ID_HOLY"
definition LMG_EMOJI_HEBONK :: cEmoji where "LMG_EMOJI_HEBONK = custom_emoji ''hebonk'' LMG_EMOJI_ID_HEBONK"

definition LMG_COLOR_RED :: int where "LMG_COLOR_RED = 0xC43135"
definition LMG_COLOR_GREEN :: int where "LMG_COLOR_GREEN = 0x248046"
definition LMG_COLOR_BLUE :: int where "LMG_COLOR_BLUE = 0x0096FF"
definition LMG_COLOR_YELLOW :: int where "LMG_COLOR_YELLOW = 0xFFCC4C"
definition LMG_COLOR_LIGHT_GREEN :: int where "LMG_COLOR_LIGHT_GREEN = 0x2ECD72"

text \<open>\<open>std::ranges::contains\<close>, and \<open>binary_search\<close> in a sorted array; identifiers are compared as numbers.\<close>

definition sf_in :: "cSnowflake \<Rightarrow> cSnowflake list \<Rightarrow> bool" where
  "sf_in x xs \<longleftrightarrow> (\<exists>y \<in> set xs. sf_eq x y)"

lemmas lmg_rank_ids = LMG_ROLE_MEMBER_def LMG_ROLE_ACTIVE_MEMBER_def LMG_ROLE_ACTIVE_USER_def
  LMG_ROLE_REALLY_ACTIVE_MEMBER_def LMG_ROLE_USUAL_SUSPECT_def LMG_ROLE_GREEK_LOVER_def LMG_ROLE_PROESTOS_def
  LMG_ROLE_EPITIMOS_def LMG_ROLE_ELLINOPOULO_def LMG_ROLE_PALIOS_def LMG_ROLE_VETERANOS_def

lemma lmg_rank_roles_sorted: "sorted (map (\<lambda>r. uint (ToInt r)) LMG_RANK_ROLES)"
  by (simp add: LMG_RANK_ROLES_def lmg_rank_ids ToInt_def sf_of_int_def)

section \<open>Messages\<close>

definition ephemeral :: "cPartialMessage \<Rightarrow> cPartialMessage" where
  "ephemeral m = SetFlags MESSAGE_FLAG_EPHEMERAL m"

definition embed_message :: "cEmbed \<Rightarrow> cPartialMessage" where
  "embed_message e = SetEmbeds [e] no_message"

definition button_row :: "cButton list \<Rightarrow> cActionRow" where
  "button_row bs = action_row (map RButton bs)"

text \<open>The button that removes a message, with the identifier of whoever may click it.\<close>

definition dismiss_button :: "cSnowflake \<Rightarrow> cButton" where
  "dismiss_button author = button Secondary (''DLT#'' @ ToString author) ''Dismiss''"

definition reply :: "interaction \<Rightarrow> cPartialMessage \<Rightarrow> unit eff" where
  "reply i m = InteractionSendMessage i (Legacy m)"

definition post :: "cSnowflake \<Rightarrow> cPartialMessage \<Rightarrow> unit eff" where
  "post channel m = bindE (CreateMessage channel (Legacy m)) (\<lambda>_. ret ())"

definition author_of :: "cUser \<Rightarrow> cEmbed \<Rightarrow> cEmbed" where
  "author_of user = SetAuthor (u_username user) (GetUserAvatar user)"

text \<open>\<open>i.GetMember()-> ...\<close> throws for an interaction outside a guild.\<close>

definition member_of :: "cInteraction \<Rightarrow> cPartialMember eff" where
  "member_of i = deref (i_member i)"

definition guild_of :: "cInteraction \<Rightarrow> cSnowflake eff" where
  "guild_of i = deref (i_guild_id i)"

text \<open>\<open>options.front()\<close>; of no options it is undefined behaviour, here an exception.\<close>

definition front :: "'a list \<Rightarrow> 'a eff" where
  "front xs = (case xs of [] \<Rightarrow> raise (xOutOfRange ''front'') | x # _ \<Rightarrow> ret x)"

definition guild_name :: "cSnowflake \<Rightarrow> string eff" where
  "guild_name guild w =
     (case w_guilds w (ToInt guild) of
        None \<Rightarrow> (Inl (xOutOfRange ''unordered_map::at''), visit TheGuilds w)
      | Some g \<Rightarrow> (Inr (g_name g), visit TheGuilds w))"

text \<open>A text that has to be an identifier.\<close>

definition to_snowflake :: "string \<Rightarrow> cSnowflake eff" where
  "to_snowflake s = lift (snowflake_of s)"

text \<open>Most commands first look at the permissions of the member who used them.\<close>

definition guarded :: "ePermission \<Rightarrow> cInteraction \<Rightarrow> unit eff \<Rightarrow> unit eff \<Rightarrow> unit eff" where
  "guarded p i denied body = bindE (member_of i) (\<lambda>m. if TestNone (m_permissions m) p then denied else body)"

text \<open>The text input of a label that was submitted.\<close>

fun label_input :: "submitted \<Rightarrow> cPartialTextInput eff" where
  "label_input (SLabel l) = (case pl_component l of LInput t \<Rightarrow> ret t | LOther _ \<Rightarrow> raise xBadVariantAccess)"
| "label_input _ = raise xBadVariantAccess"

text \<open>\<open>at(0)\<close> and \<open>at(1)\<close> of a vector.\<close>

definition at_index :: "nat \<Rightarrow> 'a list \<Rightarrow> 'a eff" where
  "at_index n xs = (if n < length xs then ret (xs ! n) else raise (xOutOfRange ''vector::at''))"

section \<open>The cache of roles\<close>

text \<open>\<open>get_lmg_roles\<close>: the roles by decreasing position, sorted when they are first asked for.\<close>

definition by_position :: "cRole list \<Rightarrow> cRole list" where
  "by_position rs = sort_key (\<lambda>r. - r_position r) rs"

definition get_lmg_roles :: "cRole list eff" where
  "get_lmg_roles w =
     (if w_sorted w then (Inr (w_lmg_roles w), visit TheRoles w)
      else (Inr (by_position (w_lmg_roles w)),
        (visit TheRoles w)\<lparr>w_lmg_roles := by_position (w_lmg_roles w), w_sorted := True\<rparr>))"

definition first_color :: "cRole list \<Rightarrow> cSnowflake list \<Rightarrow> int" where
  "first_color rs ids =
     (case find (\<lambda>r. (\<exists>i \<in> set ids. sf_eq (r_id r) i) \<and> r_color r \<noteq> 0) rs of
        None \<Rightarrow> 0 | Some r \<Rightarrow> r_color r)"

definition get_lmg_member_color :: "'a cPartialMember_scheme \<Rightarrow> int eff" where
  "get_lmg_member_color member = bindE get_lmg_roles (\<lambda>rs. ret (first_color rs (m_roles member)))"

text \<open>The events of guilds and roles; the roles are moved out of the guild that is stored.\<close>

definition OnGuildCreate :: "cGuild \<Rightarrow> cVoiceState list \<Rightarrow> unit eff" where
  "OnGuildCreate guild voice_states = putE (\<lambda>w.
     if sf_eq (g_id guild) LMG_GUILD_ID then
       (visit TheGuilds (visit TheVoiceStates (visit TheRoles w)))
         \<lparr>w_lmg_roles := g_roles guild, w_sorted := False, w_lmg_voice_states := voice_states,
          w_guilds := (w_guilds w)(ToInt (g_id guild) \<mapsto> guild\<lparr>g_roles := []\<rparr>)\<rparr>
     else (visit TheGuilds w)\<lparr>w_guilds := (w_guilds w)(ToInt (g_id guild) \<mapsto> guild)\<rparr>)"

definition OnGuildRoleCreate :: "cSnowflake \<Rightarrow> cRole \<Rightarrow> unit eff" where
  "OnGuildRoleCreate guild role = putE (\<lambda>w.
     if sf_eq guild LMG_GUILD_ID then (visit TheRoles w)\<lparr>w_lmg_roles := w_lmg_roles w @ [role], w_sorted := False\<rparr> else w)"

fun update_first :: "('a \<Rightarrow> bool) \<Rightarrow> 'a \<Rightarrow> 'a list \<Rightarrow> 'a list" where
  "update_first P y [] = [y]"
| "update_first P y (x # xs) = (if P x then y # xs else x # update_first P y xs)"

definition OnGuildRoleUpdate :: "cSnowflake \<Rightarrow> cRole \<Rightarrow> unit eff" where
  "OnGuildRoleUpdate guild role = putE (\<lambda>w.
     if sf_eq guild LMG_GUILD_ID then
       (visit TheRoles w)\<lparr>w_lmg_roles := update_first (\<lambda>r. sf_eq (r_id r) (r_id role)) role (w_lmg_roles w), w_sorted := False\<rparr>
     else w)"

definition OnGuildRoleDelete :: "cSnowflake \<Rightarrow> cSnowflake \<Rightarrow> unit eff" where
  "OnGuildRoleDelete guild role = putE (\<lambda>w.
     if sf_eq guild LMG_GUILD_ID then (visit TheRoles w)\<lparr>w_lmg_roles := filter (\<lambda>r. \<not> sf_eq (r_id r) role) (w_lmg_roles w)\<rparr> else w)"

section \<open>The cache refines a map of roles\<close>

text \<open>
  What the cache stands for: the current role of every identifier. The abstract operations
  know nothing of sorting; the colour of a member is that of a coloured role of theirs of the
  highest position.
\<close>

definition role_abs :: "world \<Rightarrow> (u64 \<rightharpoonup> cRole)" where
  "role_abs w = map_of (map (\<lambda>r. (ToInt (r_id r), r)) (w_lmg_roles w))"

definition role_inv :: "world \<Rightarrow> bool" where
  "role_inv w \<longleftrightarrow> distinct (map (\<lambda>r. ToInt (r_id r)) (w_lmg_roles w))
     \<and> (w_sorted w \<longrightarrow> sorted (map (\<lambda>r. - r_position r) (w_lmg_roles w)))"

datatype role_event =
    GuildCreated cGuild "cVoiceState list"
  | RoleCreated cSnowflake cRole
  | RoleUpdated cSnowflake cRole
  | RoleDeleted cSnowflake cSnowflake
  | ColorAsked cMember

fun run_role_event :: "role_event \<Rightarrow> world \<Rightarrow> world" where
  "run_role_event (GuildCreated g vs) w = snd (OnGuildCreate g vs w)"
| "run_role_event (RoleCreated g r) w = snd (OnGuildRoleCreate g r w)"
| "run_role_event (RoleUpdated g r) w = snd (OnGuildRoleUpdate g r w)"
| "run_role_event (RoleDeleted g i) w = snd (OnGuildRoleDelete g i w)"
| "run_role_event (ColorAsked m) w = snd (get_lmg_member_color m w)"

fun spec_role_event :: "role_event \<Rightarrow> (u64 \<rightharpoonup> cRole) \<Rightarrow> (u64 \<rightharpoonup> cRole)" where
  "spec_role_event (GuildCreated g vs) M =
     (if sf_eq (g_id g) LMG_GUILD_ID then map_of (map (\<lambda>r. (ToInt (r_id r), r)) (g_roles g)) else M)"
| "spec_role_event (RoleCreated g r) M = (if sf_eq g LMG_GUILD_ID then M(ToInt (r_id r) \<mapsto> r) else M)"
| "spec_role_event (RoleUpdated g r) M = (if sf_eq g LMG_GUILD_ID then M(ToInt (r_id r) \<mapsto> r) else M)"
| "spec_role_event (RoleDeleted g i) M = (if sf_eq g LMG_GUILD_ID then M(ToInt i := None) else M)"
| "spec_role_event (ColorAsked m) M = M"

text \<open>Discord sends a guild with different roles, and creates roles with new identifiers.\<close>

fun role_event_ok :: "role_event \<Rightarrow> (u64 \<rightharpoonup> cRole) \<Rightarrow> bool" where
  "role_event_ok (GuildCreated g vs) M = distinct (map (\<lambda>r. ToInt (r_id r)) (g_roles g))"
| "role_event_ok (RoleCreated g r) M = (M (ToInt (r_id r)) = None)"
| "role_event_ok _ M = True"

fun role_events_ok :: "role_event list \<Rightarrow> (u64 \<rightharpoonup> cRole) \<Rightarrow> bool" where
  "role_events_ok [] M = True"
| "role_events_ok (e # es) M = (role_event_ok e M \<and> role_events_ok es (spec_role_event e M))"

definition wears :: "(u64 \<rightharpoonup> cRole) \<Rightarrow> cSnowflake list \<Rightarrow> cRole \<Rightarrow> bool" where
  "wears M ids r \<longleftrightarrow> M (ToInt (r_id r)) = Some r \<and> ToInt (r_id r) \<in> ToInt ` set ids \<and> r_color r \<noteq> 0"

definition top_color :: "(u64 \<rightharpoonup> cRole) \<Rightarrow> cSnowflake list \<Rightarrow> int \<Rightarrow> bool" where
  "top_color M ids c \<longleftrightarrow>
     (if \<exists>r. wears M ids r then \<exists>r. wears M ids r \<and> c = r_color r \<and> (\<forall>r'. wears M ids r' \<longrightarrow> r_position r' \<le> r_position r)
      else c = 0)"

lemma sf_eq_iff: "sf_eq a b \<longleftrightarrow> ToInt a = ToInt b"
  by (simp add: sf_eq_def ToInt_def)

lemma set_by_position [simp]: "set (by_position rs) = set rs"
  by (simp add: by_position_def)

lemma distinct_by_position: "distinct (map f (by_position rs)) = distinct (map f rs)"
  by (simp add: by_position_def distinct_map)

lemma sorted_by_position: "sorted (map (\<lambda>r. - r_position r) (by_position rs))"
  by (simp add: by_position_def)

lemma map_of_by_position:
  assumes "distinct (map (\<lambda>r. ToInt (r_id r)) rs)"
  shows "map_of (map (\<lambda>r. (ToInt (r_id r), r)) (by_position rs)) = map_of (map (\<lambda>r. (ToInt (r_id r), r)) rs)"
  by (rule map_of_inject_set [THEN iffD2]) (use assms in \<open>simp_all add: distinct_by_position comp_def\<close>)

lemma map_of_update_first:
  "map_of (map (\<lambda>r. (ToInt (r_id r), r)) (update_first (\<lambda>r. sf_eq (r_id r) (r_id y)) y xs))
     = (map_of (map (\<lambda>r. (ToInt (r_id r), r)) xs))(ToInt (r_id y) \<mapsto> y)"
  by (induction xs) (auto simp: sf_eq_iff)

lemma ids_update_first:
  "set (map (\<lambda>r. ToInt (r_id r)) (update_first (\<lambda>r. sf_eq (r_id r) (r_id y)) y xs))
     = insert (ToInt (r_id y)) (set (map (\<lambda>r. ToInt (r_id r)) xs))"
  by (induction xs) (auto simp: sf_eq_iff)

lemma distinct_update_first:
  "distinct (map (\<lambda>r. ToInt (r_id r)) xs) \<Longrightarrow>
     distinct (map (\<lambda>r. ToInt (r_id r)) (update_first (\<lambda>r. sf_eq (r_id r) (r_id y)) y xs))"
  using ids_update_first [of y] by (induction xs) (auto simp: sf_eq_iff)

lemma map_of_roles_filter:
  "map_of (map (\<lambda>r. (ToInt (r_id r), r)) (filter (\<lambda>r. \<not> sf_eq (r_id r) i) xs))
     = (map_of (map (\<lambda>r. (ToInt (r_id r), r)) xs))(ToInt i := None)"
  by (induction xs) (auto simp: sf_eq_iff)

lemma map_add_fresh: "M k = None \<Longrightarrow> [k \<mapsto> y] ++ M = M(k \<mapsto> y)"
  by (auto simp: fun_eq_iff map_add_def split: option.splits)

lemma map_of_roles_None:
  "map_of (map (\<lambda>r. (ToInt (r_id r), r)) xs) k = None \<longleftrightarrow> k \<notin> ToInt ` r_id ` set xs"
  by (induction xs) auto

lemma get_lmg_roles_state:
  "snd (get_lmg_member_color m w) =
     (if w_sorted w then visit TheRoles w
      else (visit TheRoles w)\<lparr>w_lmg_roles := by_position (w_lmg_roles w), w_sorted := True\<rparr>)"
  by (simp add: get_lmg_member_color_def bindE_def get_lmg_roles_def)

lemma get_lmg_roles_inv:
  assumes "role_inv w"
  shows "\<exists>rs. fst (get_lmg_roles w) = Inr rs \<and> distinct (map (\<lambda>r. ToInt (r_id r)) rs)
     \<and> sorted (map (\<lambda>r. - r_position r) rs) \<and> map_of (map (\<lambda>r. (ToInt (r_id r), r)) rs) = role_abs w"
  using assms
  by (cases "w_sorted w")
    (simp_all add: get_lmg_roles_def role_inv_def role_abs_def map_of_by_position distinct_by_position sorted_by_position)

lemma role_event_step:
  assumes "role_inv w" "role_event_ok e (role_abs w)"
  shows "role_inv (run_role_event e w) \<and> role_abs (run_role_event e w) = spec_role_event e (role_abs w)"
proof (cases e)
  case (RoleUpdated g r)
  then show ?thesis using assms
    by (simp add: OnGuildRoleUpdate_def role_inv_def role_abs_def map_of_update_first distinct_update_first)
next
  case (RoleCreated g r)
  then show ?thesis using assms
    by (auto simp: OnGuildRoleCreate_def role_inv_def role_abs_def map_add_fresh map_of_roles_None)
next
  case (RoleDeleted g i)
  then show ?thesis using assms
    by (auto simp: OnGuildRoleDelete_def role_inv_def role_abs_def map_of_roles_filter distinct_map_filter sorted_filter)
next
  case (ColorAsked m)
  then show ?thesis using assms
    by (auto simp: get_lmg_roles_state role_inv_def role_abs_def map_of_by_position distinct_by_position sorted_by_position)
qed (use assms in \<open>auto simp: OnGuildCreate_def role_inv_def role_abs_def\<close>)

lemma role_events_run:
  "role_inv w \<Longrightarrow> role_events_ok es (role_abs w) \<Longrightarrow>
     role_inv (fold run_role_event es w) \<and> role_abs (fold run_role_event es w) = fold spec_role_event es (role_abs w)"
proof (induction es arbitrary: w)
  case (Cons e es)
  then show ?case using role_event_step [of w e] by simp
qed simp

lemma find_first_max:
  assumes "sorted (map (\<lambda>x. - f x) xs)" "find P xs = Some x" "y \<in> set xs" "P y"
  shows "f y \<le> (f x :: int)"
  using assms by (induction xs) (auto split: if_splits)

lemma first_color_top:
  assumes "distinct (map (\<lambda>r. ToInt (r_id r)) rs)" "sorted (map (\<lambda>r. - r_position r) rs)"
  shows "top_color (map_of (map (\<lambda>r. (ToInt (r_id r), r)) rs)) ids (first_color rs ids)"
proof -
  let ?M = "map_of (map (\<lambda>r. (ToInt (r_id r), r)) rs)"
  let ?P = "\<lambda>r. (\<exists>i \<in> set ids. sf_eq (r_id r) i) \<and> r_color r \<noteq> 0"
  have M: "?M (ToInt (r_id r)) = Some r \<longleftrightarrow> r \<in> set rs" for r
    using assms(1) by (induction rs) (auto simp: image_iff)
  have w: "wears ?M ids r \<longleftrightarrow> r \<in> set rs \<and> ?P r" for r
    unfolding wears_def M by (auto simp: sf_eq_iff)
  show ?thesis
  proof (cases "find ?P rs")
    case None
    then have "first_color rs ids = 0" by (simp add: first_color_def)
    then show ?thesis using None by (auto simp: top_color_def w find_None_iff)
  next
    case (Some r)
    then have "wears ?M ids r" by (auto simp: w find_Some_iff)
    moreover have "r_position r' \<le> r_position r" if "wears ?M ids r'" for r'
      using find_first_max [OF assms(2) Some] that by (auto simp: w)
    ultimately show ?thesis using Some by (auto simp: top_color_def first_color_def)
  qed
qed

section \<open>Properties\<close>

text \<open>
  C11: the lazily sorted cache of roles refines a map from identifiers to roles: whatever
  guild and role events arrive, in whatever order with questions for colours in between,
  it stands for the roles that the events leave, and the colour it answers for a member is
  that of the coloured role of theirs with the highest position, or none.
\<close>

theorem role_cache_refines:
  assumes "role_inv w" "role_events_ok es (role_abs w)"
  shows "role_abs (fold run_role_event es w) = fold spec_role_event es (role_abs w)
     \<and> (\<exists>c. fst (get_lmg_member_color (m :: cMember) (fold run_role_event es w)) = Inr c
            \<and> top_color (fold spec_role_event es (role_abs w)) (m_roles m) c)"
proof -
  let ?w = "fold run_role_event es w"
  have inv: "role_inv ?w" and abs: "role_abs ?w = fold spec_role_event es (role_abs w)"
    using role_events_run [OF assms] by auto
  obtain rs where rs: "fst (get_lmg_roles ?w) = Inr rs" "distinct (map (\<lambda>r. ToInt (r_id r)) rs)"
    "sorted (map (\<lambda>r. - r_position r) rs)" "map_of (map (\<lambda>r. (ToInt (r_id r), r)) rs) = role_abs ?w"
    using get_lmg_roles_inv [OF inv] by auto
  then have "fst (get_lmg_member_color m ?w) = Inr (first_color rs (m_roles m))"
    by (auto simp: get_lmg_member_color_def bindE_def split: prod.splits)
  with first_color_top [OF rs(2,3), of "m_roles m"] rs(4) abs show ?thesis by auto
qed

theorem role_cache_refines_witness:
  "role_abs (fold run_role_event [RoleDeleted LMG_GUILD_ID (sf_of_int 6)] start_world)
     = (role_abs start_world)(ToInt (sf_of_int 6) := None)"
  using role_cache_refines [of start_world "[RoleDeleted LMG_GUILD_ID (sf_of_int 6)]"]
  by (simp add: role_inv_def start_world_def sf_eq_iff)

end
