(* ===== verification/Levels.thy ===== *)
theory Levels
  imports LMG
begin

text \<open>
  Levels and ranks (GreekBot/GreekBot_Leaderboard.cpp): the level of an amount of experience,
  the rank role that goes with a level, the handler of new messages that keeps the roles of
  their authors up to date, and the commands that show the leaderboard.
\<close>

section \<open>Levels\<close>

record level_info =
  li_level :: int
  li_level_xp :: int
  li_next_level_xp :: int

text \<open>The loop; the level counts up from 0.\<close>

lemma level_step_pos: "- ((5 + 5 * int n) * (11 + int n)) < 100"
proof -
  have "0 \<le> (5 + 5 * int n) * (11 + int n)" by simp
  then show ?thesis by linarith
qed

function level_loop :: "int \<Rightarrow> nat \<Rightarrow> int \<Rightarrow> int \<Rightarrow> level_info" where
  "level_loop tot lvl level_xp next_xp =
     (if next_xp < tot then
        level_loop tot (Suc lvl) next_xp (next_xp + (5 * int (Suc lvl) * (int (Suc lvl) + 10) + 100))
      else \<lparr>li_level = int lvl, li_level_xp = level_xp, li_next_level_xp = next_xp\<rparr>)"
  by pat_completeness auto
termination
  by (relation "measure (\<lambda>(tot, lvl, l, n). nat (tot - n))") (auto intro: level_step_pos)

declare level_loop.simps [simp del]

definition calculate_level_info :: "int \<Rightarrow> level_info" where
  "calculate_level_info tot = level_loop tot 0 0 100"

section \<open>Rank roles\<close>

definition target_role :: "int \<Rightarrow> cSnowflake" where
  "target_role lvl =
     (if lvl \<ge> 150 then LMG_ROLE_VETERANOS
      else if lvl \<ge> 100 then LMG_ROLE_PALIOS
      else if lvl \<ge> 70 then LMG_ROLE_ELLINOPOULO
      else if lvl \<ge> 50 then LMG_ROLE_EPITIMOS
      else if lvl \<ge> 40 then LMG_ROLE_PROESTOS
      else if lvl \<ge> 35 then LMG_ROLE_GREEK_LOVER
      else if lvl \<ge> 25 then LMG_ROLE_USUAL_SUSPECT
      else if lvl \<ge> 20 then LMG_ROLE_REALLY_ACTIVE_MEMBER
      else if lvl \<ge> 15 then LMG_ROLE_ACTIVE_MEMBER
      else if lvl \<ge> 10 then LMG_ROLE_MEMBER
      else if lvl \<ge> 6 then LMG_ROLE_ACTIVE_USER
      else sf_default)"

definition is_rank_role :: "cSnowflake \<Rightarrow> bool" where
  "is_rank_role r = sf_in r LMG_RANK_ROLES"

text \<open>
  The roles to give to a member, nothing when they need no change. \<open>partition\<close> moves the rank
  roles to the end; it does not say in which order the others are left, here their own.
\<close>

definition rank_update :: "cSnowflake \<Rightarrow> cSnowflake list \<Rightarrow> cSnowflake list option" where
  "rank_update target roles =
     (let others = filter (\<lambda>r. \<not> is_rank_role r) roles in
      case filter is_rank_role roles of
        [] \<Rightarrow> if ToInt target = 0 then None else Some (others @ [target])
      | [r] \<Rightarrow>
          if ToInt target = 0 then Some others
          else if \<not> sf_eq r target then Some (others @ [target])
          else None
      | _ \<Rightarrow> Some (others @ (if ToInt target \<noteq> 0 then [target] else [])))"

section \<open>New messages\<close>

definition sqlite_random :: "int eff" where
  "sqlite_random w = (Inr (int (w_random w (w_ticks w))), w\<lparr>w_ticks := Suc (w_ticks w)\<rparr>)"

text \<open>The order that the engine has rows in where a query leaves it open: one of all, as a number.\<close>

definition sqlite_order :: "nat eff" where
  "sqlite_order w = (Inr (w_random w (w_ticks w)), w\<lparr>w_ticks := Suc (w_ticks w)\<rparr>)"

definition update_leaderboard :: "cMessage \<Rightarrow> int eff" where
  "update_leaderboard msg =
     bindE sqlite_random (\<lambda>rnd_i. bindE sqlite_random (\<lambda>rnd_u.
     with_txn (dao (Leaderboard_Update (ToInt (u_id (ms_author msg))) (ms_timestamp msg) rnd_i rnd_u))))"

definition process_leaderboard_new_message :: "cMessage \<Rightarrow> cPartialMember \<Rightarrow> unit eff" where
  "process_leaderboard_new_message msg member =
     handler ''process_leaderboard_new_message'' (
     bindE (update_leaderboard msg) (\<lambda>total.
     if total = 0 then ret ()
     else
       (case rank_update (target_role (li_level (calculate_level_info total))) (m_roles member) of
          None \<Rightarrow> ret ()
        | Some roles \<Rightarrow> ModifyGuildMember LMG_GUILD_ID (u_id (ms_author msg)) (SetRoles roles no_options))))"

section \<open>Embeds\<close>

definition medal :: "int \<Rightarrow> string" where
  "medal r = (if r = 1 then (bytes [240, 159, 165, 135]) else if r = 2 then (bytes [240, 159, 165, 136]) else if r = 3 then (bytes [240, 159, 165, 137]) else (bytes [240, 159, 143, 133]))"

definition user_or_deleted :: "string \<Rightarrow> cUser option \<Rightarrow> cEmbed \<Rightarrow> cEmbed" where
  "user_or_deleted name user =
     (case user of Some u \<Rightarrow> author_of u | None \<Rightarrow> SetAuthor name (GetDefaultUserAvatar sf_default 0))"

definition lb_no_member_embed :: "cUser option \<Rightarrow> string \<Rightarrow> bool \<Rightarrow> cEmbed" where
  "lb_no_member_embed user guild anymore =
     user_or_deleted ''Deleted user'' user (SetColor LMG_COLOR_BLUE (SetDescription
       (''User is not a member of **'' @ guild @ ''**'' @ (if anymore then '' anymore'' else []) @ ''.'') cEmbed_default))"

definition lb_embed :: "cUser \<Rightarrow> int \<Rightarrow> leaderboard_entry option \<Rightarrow> cEmbed" where
  "lb_embed user color lb =
     (let e = SetColor color (author_of user cEmbed_default) in
      case lb of
        None \<Rightarrow> SetDescription ''User has no XP yet.'' e
      | Some entry \<Rightarrow>
          let info = calculate_level_info (entry_xp entry) in
          SetFields
            [inline_field ''XP Progress'' (to_dec_int (entry_xp entry - li_level_xp info) @ ''/''
               @ to_dec_int (li_next_level_xp info - li_level_xp info)),
             inline_field ''Total XP'' (to_dec_int (entry_xp entry)),
             inline_field ''Messages'' (to_dec_int (entry_msgs entry))]
          (SetTitle (medal (rank entry) @ '' Rank **#'' @ to_dec_int (rank entry) @ (''**'' @ bytes [9] @ ''Level **'')
             @ to_dec_int (li_level info) @ ''**'') e))"

section \<open>Commands\<close>

text \<open>The member a command is about: the one of its option, or else the one who used it.\<close>

definition target_user :: "cInteraction \<Rightarrow> cAppCmdOption list \<Rightarrow> (cUser \<times> cPartialMember option) eff" where
  "target_user i os = (case os of p # _ \<Rightarrow> lift (GetValue_USER p) | [] \<Rightarrow> ret (i_user i, i_member i))"

definition help_row :: "string \<Rightarrow> cActionRow" where
  "help_row cid = button_row [button Secondary cid ''How does this work?'']"

definition process_rank :: "cAppCmdInteraction \<Rightarrow> unit eff" where
  "process_rank i =
     handler ''process_rank'' (
     bindE (target_user (ac_base i) (ac_options i)) (\<lambda>(user, member).
     if u_bot user then reply (AppCmd i) (SetContent ''Ranking isn't available for bot users.'' (ephemeral no_message))
     else if u_system user then reply (AppCmd i) (SetContent ''Ranking isn't available for system users.'' (ephemeral no_message))
     else
       seqE (InteractionDefer (AppCmd i) True) (
       bindE sqlite_order (\<lambda>ties.
       bindE (with_txn (dao (GetEntryByUser ties (ToInt (u_id user))))) (\<lambda>db_result.
       ResumeOnEventStrand (
       bindE (case member of
                Some m \<Rightarrow> bindE (get_lmg_member_color m) (\<lambda>c. ret (lb_embed user c db_result))
              | None \<Rightarrow> bindE (guild_name LMG_GUILD_ID) (\<lambda>name. ret (lb_no_member_embed (Some user) name (db_result \<noteq> None)))) (\<lambda>e.
       reply (AppCmd i) (SetComponents [help_row ''LEADERBOARD_HELP''] (embed_message e)))))))))"

text \<open>\<open>find\<close> by identifier among the members that were received; their user is dereferenced.\<close>

fun find_member :: "u64 \<Rightarrow> cMember list \<Rightarrow> (cMember \<times> cUser) option eff" where
  "find_member uid [] = ret None"
| "find_member uid (m # ms) =
     bindE (deref (m_user m)) (\<lambda>u. if ToInt (u_id u) = uid then ret (Some (m, u)) else find_member uid ms)"

text \<open>A user that Discord does not know any more is no user.\<close>

definition user_if_found :: "u64 \<Rightarrow> cUser option eff" where
  "user_if_found uid = catchE is_discord_error (bindE (GetUser (sf_of_int uid)) (\<lambda>u. ret (Some u))) (\<lambda>_. ret None)"

definition top_embed :: "cInteraction \<Rightarrow> cMember list \<Rightarrow> leaderboard_entry \<Rightarrow> cEmbed eff" where
  "top_embed i ms entry =
     bindE (find_member (user_id entry) ms) (\<lambda>found.
     case found of
       Some (m, u) \<Rightarrow> bindE (get_lmg_member_color m) (\<lambda>c. ret (lb_embed u c (Some entry)))
     | None \<Rightarrow>
         bindE (user_if_found (user_id entry)) (\<lambda>user.
         bindE (guild_of i) (\<lambda>guild.
         bindE (guild_name guild) (\<lambda>name. ret (lb_no_member_embed user name True)))))"

definition process_top :: "cAppCmdInteraction \<Rightarrow> unit eff" where
  "process_top i =
     handler ''process_top'' (
     seqE (InteractionDefer (AppCmd i) False) (
     bindE sqlite_order (\<lambda>ties. bindE sqlite_order (\<lambda>picks.
     bindE (with_txn (dao (GetTop10Entries ties picks))) (\<lambda>entries.
     if entries = [] then reply (AppCmd i) (SetContent ''I don't have any data yet. Start talking!'' no_message)
     else
       bindE (guild_of (ac_base i)) (\<lambda>guild.
       bindE (co_collect (RequestGuildMembers_ids guild (map (\<lambda>e. sf_of_int (user_id e)) entries))) (\<lambda>ms.
       ResumeOnEventStrand (
       bindE (mapE (top_embed (ac_base i) ms) entries) (\<lambda>es.
       reply (AppCmd i) (SetComponents [help_row ''LEADERBOARD_HELP''] (SetEmbeds es no_message)))))))))))"

definition process_leaderboard_help :: "cMsgCompInteraction \<Rightarrow> unit eff" where
  "process_leaderboard_help i =
     handler ''process_leaderboard_help'' (
     reply (MsgComp i) (SetContent
       ''Every minute that you're messaging, you randomly gain between 15 and 25 **XP**.'' (ephemeral no_message)))"

definition levels_text :: string where
  "levels_text =
     (''# Earn XP just by chatting!'' @ bytes [10] @ ''Every minute that you're messaging, you randomly gain between 15 and 25 **XP**. Keep chatting to level up, unlock new roles and gain extra server perks.'' @ bytes [10])
     @ ''### Level 6 '' @ fmt_r LMG_ROLE_ACTIVE_USER @ newline
     @ ''### Level 10 '' @ fmt_r LMG_ROLE_MEMBER @ newline
     @ ''### Level 15 '' @ fmt_r LMG_ROLE_ACTIVE_MEMBER @ newline @ ''- Create threads'' @ newline
     @ ''### Level 20 '' @ fmt_r LMG_ROLE_REALLY_ACTIVE_MEMBER @ newline @ ''- Create polls'' @ newline
     @ ''### Level 25 '' @ fmt_r LMG_ROLE_USUAL_SUSPECT @ newline @ ''- Use soundboard'' @ newline @ ''- Create events'' @ newline
     @ ''### Level 35 '' @ fmt_r LMG_ROLE_GREEK_LOVER @ newline
     @ ''### Level 40 '' @ fmt_r LMG_ROLE_PROESTOS @ newline
     @ ''### Level 50 '' @ fmt_r LMG_ROLE_EPITIMOS @ newline @ ''- Change your nickname'' @ newline
     @ ''### Level 70 '' @ fmt_r LMG_ROLE_ELLINOPOULO @ newline
     @ ''### Level 100 '' @ fmt_r LMG_ROLE_PALIOS @ newline
     @ ''### Level 150 '' @ fmt_r LMG_ROLE_VETERANOS"

definition process_levels :: "cAppCmdInteraction \<Rightarrow> unit eff" where
  "process_levels i = handler ''process_levels'' (reply (AppCmd i) (SetContent levels_text (ephemeral no_message)))"

section \<open>The levels\<close>

text \<open>The experience at which a level ends, by the recursion of the loop and in closed form.\<close>

fun level_end :: "nat \<Rightarrow> int" where
  "level_end 0 = 100"
| "level_end (Suc n) = level_end n + 5 * int (Suc n) * (int (Suc n) + 10) + 100"

definition level_start :: "nat \<Rightarrow> int" where
  "level_start n = (case n of 0 \<Rightarrow> 0 | Suc m \<Rightarrow> level_end m)"

lemma level_end_closed: "6 * level_end n = 5 * (int n + 1) * (2 * (int n + 1)^2 + 27 * (int n + 1) + 91)"
  by (induction n) (simp_all add: algebra_simps power2_eq_square)

lemma level_start_closed: "6 * level_start n = 5 * int n * (2 * (int n)^2 + 27 * int n + 91)"
  using level_end_closed by (cases n) (simp_all add: level_start_def algebra_simps power2_eq_square)

lemma level_end_pos: "0 < level_end n"
  by (induction n) (simp_all add: add_pos_nonneg)

lemma level_end_growth: "level_end (Suc n) \<le> 3 * level_end n + 100"
proof (induction n)
  case (Suc n)
  have "0 \<le> int n * int n" "0 < level_end n" by (simp_all add: level_end_pos)
  with Suc show ?case by (simp add: algebra_simps)
qed simp

lemma level_loop_result:
  "next_xp = level_end lvl \<Longrightarrow> level_xp = level_start lvl \<Longrightarrow>
     \<exists>n. level_loop tot lvl level_xp next_xp = \<lparr>li_level = int n, li_level_xp = level_start n, li_next_level_xp = level_end n\<rparr>
       \<and> tot \<le> level_end n \<and> (n = lvl \<or> level_start n < tot)"
proof (induction tot lvl level_xp next_xp rule: level_loop.induct)
  case (1 tot lvl level_xp next_xp)
  show ?case
  proof (cases "next_xp < tot")
    case True
    from "1.IH" [OF True] "1.prems" obtain n where
      n: "level_loop tot (Suc lvl) next_xp (next_xp + (5 * int (Suc lvl) * (int (Suc lvl) + 10) + 100))
            = \<lparr>li_level = int n, li_level_xp = level_start n, li_next_level_xp = level_end n\<rparr>"
         "tot \<le> level_end n" "n = Suc lvl \<or> level_start n < tot"
      by (auto simp: level_start_def)
    have "level_start (Suc lvl) < tot" using True "1.prems" by (simp add: level_start_def)
    with n True show ?thesis by (subst level_loop.simps) auto
  qed (use "1.prems" in \<open>subst level_loop.simps, auto\<close>)
qed

section \<open>Rank roles\<close>

lemma rank_update_cases:
  fixes roles :: "cSnowflake list"
  obtains "filter is_rank_role roles = []"
  | r where "filter is_rank_role roles = [r]"
  | a b rs where "filter is_rank_role roles = a # b # rs"
  by (metis list.exhaust)

lemma target_role_is_rank: "lvl < 150 \<Longrightarrow> ToInt (target_role lvl) \<noteq> 0 \<Longrightarrow> is_rank_role (target_role lvl)"
  by (auto simp: target_role_def is_rank_role_def sf_in_def LMG_RANK_ROLES_def sf_eq_iff sf_of_int_0 [symmetric]
      ToInt_def sf_of_int_def split: if_splits)

lemma veteranos_no_rank: "\<not> is_rank_role LMG_ROLE_VETERANOS"
  by (simp add: is_rank_role_def sf_in_def LMG_RANK_ROLES_def sf_eq_iff lmg_rank_ids ToInt_def sf_of_int_def)

lemma filter_others [simp]: "filter is_rank_role (filter (\<lambda>r. \<not> is_rank_role r) rs) = []"
  "filter (\<lambda>r. \<not> is_rank_role r) (filter (\<lambda>r. \<not> is_rank_role r) rs) = filter (\<lambda>r. \<not> is_rank_role r) rs"
  by (auto simp: filter_empty_conv)

section \<open>Properties\<close>

text \<open>
  The level of any amount of experience is the number of the interval that holds it: the
  levels end at \<open>5 n (2 n\<^sup>2 + 27 n + 91) / 6\<close> for 1, 2 and so on, the end belongs to the
  level, and no number of the computation exceeds three times the experience by more than 100,
  so that nothing overflows 64 bits up to \<open>2 ^ 61\<close> of experience.
\<close>

theorem level_info_correct:
  "\<exists>n. li_level (calculate_level_info tot) = int n
     \<and> 6 * li_level_xp (calculate_level_info tot) = 5 * int n * (2 * (int n)^2 + 27 * int n + 91)
     \<and> 6 * li_next_level_xp (calculate_level_info tot) = 5 * (int n + 1) * (2 * (int n + 1)^2 + 27 * (int n + 1) + 91)
     \<and> tot \<le> li_next_level_xp (calculate_level_info tot)
     \<and> (n = 0 \<or> li_level_xp (calculate_level_info tot) < tot)
     \<and> li_next_level_xp (calculate_level_info tot) \<le> 3 * max tot 0 + 100"
proof -
  obtain n where n: "calculate_level_info tot
        = \<lparr>li_level = int n, li_level_xp = level_start n, li_next_level_xp = level_end n\<rparr>"
      "tot \<le> level_end n" "n = 0 \<or> level_start n < tot"
    using level_loop_result [of 100 0 0 tot] by (auto simp: calculate_level_info_def level_start_def)
  have "level_end n \<le> 3 * max tot 0 + 100"
  proof (cases n)
    case (Suc m)
    have "level_end (Suc m) \<le> 3 * level_end m + 100" by (rule level_end_growth)
    with n(3) Suc show ?thesis by (simp add: level_start_def)
  qed simp
  with n level_start_closed [of n] level_end_closed [of n] show ?thesis by auto
qed

text \<open>
  C30: after the roles of a member were brought up to date with a level below 150 the member has
  exactly the rank role of that level, or none if there is none for it; all other roles are as
  they were, and a second update finds nothing to do.
\<close>

theorem rank_update_correct:
  assumes "lvl < 150"
  shows "(let t = target_role lvl; new = (case rank_update t roles of None \<Rightarrow> roles | Some rs \<Rightarrow> rs) in
     filter (\<lambda>r. \<not> is_rank_role r) new = filter (\<lambda>r. \<not> is_rank_role r) roles
     \<and> map ToInt (filter is_rank_role new) = (if ToInt t = 0 then [] else [ToInt t])
     \<and> rank_update t new = None)"
  using target_role_is_rank [OF assms]
  by (cases rule: rank_update_cases [of roles]; cases "ToInt (target_role lvl) = 0")
    (auto simp: rank_update_def Let_def sf_eq_iff split: list.splits)

theorem rank_update_correct_witness:
  "rank_update (target_role 7) [sf_of_int 1, LMG_ROLE_ACTIVE_USER] = None
     \<or> (\<exists>rs. rank_update (target_role 7) [sf_of_int 1, LMG_ROLE_ACTIVE_USER] = Some rs \<and> rank_update (target_role 7) rs = None)"
  using rank_update_correct [of 7 "[sf_of_int 1, LMG_ROLE_ACTIVE_USER]"]
  by (auto simp: Let_def split: option.splits)

text \<open>
  The role of level 150 is not among the rank roles, so every message of a member of that
  level or above sends an update, which adds the role once more.
\<close>

theorem veteranos_added_again:
  assumes "150 \<le> lvl"
  shows "\<exists>new. rank_update (target_role lvl) roles = Some new
     \<and> count_list new LMG_ROLE_VETERANOS = Suc (count_list roles LMG_ROLE_VETERANOS)"
proof -
  let ?V = LMG_ROLE_VETERANOS
  have t: "target_role lvl = ?V" using assms by (simp add: target_role_def)
  have nz: "ToInt ?V \<noteq> 0" by (simp add: LMG_ROLE_VETERANOS_def ToInt_def sf_of_int_def)
  have c: "count_list (filter (\<lambda>r. \<not> is_rank_role r) rs) ?V = count_list rs ?V" for rs
    using veteranos_no_rank by (induction rs) auto
  have neq: "\<not> sf_eq r ?V" if "is_rank_role r" for r
    using that veteranos_no_rank by (auto simp: is_rank_role_def sf_in_def sf_eq_iff)
  show ?thesis unfolding t
  proof (cases rule: rank_update_cases [of roles])
    case (2 r)
    then have "is_rank_role r" by (metis filter_eq_ConsD)
    with 2 show "\<exists>new. rank_update ?V roles = Some new \<and> count_list new ?V = Suc (count_list roles ?V)"
      by (simp add: rank_update_def Let_def nz neq c)
  qed (simp_all add: rank_update_def Let_def nz c)
qed

theorem veteranos_added_again_witness:
  "\<exists>new. rank_update (target_role 150) [LMG_ROLE_VETERANOS] = Some new
     \<and> count_list new LMG_ROLE_VETERANOS = Suc (count_list [LMG_ROLE_VETERANOS] LMG_ROLE_VETERANOS)"
  by (rule veteranos_added_again) simp

end
