(* ===== verification/Starboard.thy ===== *)
theory Starboard
  imports Levels
begin

text \<open>
  The starboard (GreekBot/GreekBot_Starboard.cpp): messages that collect enough reactions are
  shown in a channel of their own, where their count is kept up to date; and the commands
  that rank the authors.
\<close>

section \<open>Reactions\<close>

definition REACTION_THRESHOLD :: int where "REACTION_THRESHOLD = 5"

definition excluded_channels :: "cSnowflake list" where
  "excluded_channels = map sf_of_int
     [350234736754688020, 355242373380308993, 363441099307483139, 366366855117668383,
      469274019565142017, 486311040477298690, 539521989061378048, 595658812128624670,
      598873442288271423, 611889781227520003, 618350374348390406, 627082548706541568,
      630486369495679007, 645650220440485927, 645650358042886175, 650331739293745172,
      672924470750478338, 817078394331856907, 1138145632134115348, 1140760999331381260,
      1143284169502367805, 1143888492422770778]"

definition counter_emoji :: "int \<Rightarrow> string" where
  "counter_emoji n =
     (if n = REACTION_THRESHOLD then ''<:Holy:409075809723219969>''
      else if n = REACTION_THRESHOLD + 1 then ''<:magik:1167594533849149450>''
      else ''<a:spin:1167594572050866207>'')"

definition starboard_content :: "int \<Rightarrow> cSnowflake \<Rightarrow> cSnowflake \<Rightarrow> string" where
  "starboard_content n channel message =
     counter_emoji n @ '' **'' @ to_dec_int n @ ''** '' @ message_link LMG_GUILD_ID channel message"

text \<open>The first image and the first video of the attachments; the search ends when it has both.\<close>

fun pick_media :: "cAttachment list \<Rightarrow> cAttachment option \<Rightarrow> cAttachment option \<Rightarrow> cAttachment option \<times> cAttachment option" where
  "pick_media [] img vid = (img, vid)"
| "pick_media (a # as) img vid =
     (if starts_with ''image/'' (a_content_type a) then
        (case img of
           Some _ \<Rightarrow> pick_media as img vid
         | None \<Rightarrow> if vid \<noteq> None then (Some a, vid) else pick_media as (Some a) vid)
      else if starts_with ''video/'' (a_content_type a) then
        (case vid of
           Some _ \<Rightarrow> pick_media as img vid
         | None \<Rightarrow> if img \<noteq> None then (img, Some a) else pick_media as img (Some a))
      else pick_media as img vid)"

definition preview_media :: "string \<Rightarrow> cAttachment option \<Rightarrow> cAttachment option \<Rightarrow> cEmbed \<Rightarrow> cEmbed" where
  "preview_media text img vid e =
     (let e1 = (case img of
                  None \<Rightarrow> e
                | Some a \<Rightarrow>
                    let e' = SetImage (a_url a) e in
                    if vid = None then SetDescription text e' else e')
      in case vid of
           None \<Rightarrow> e1
         | Some v \<Rightarrow>
             if text = [] then SetDescription (a_url v) (SetTitle ''Video'' e1)
             else SetDescription (text @ newline @ newline @ ''**Video**'' @ newline @ a_url v) e1)"

text \<open>The address of the animation behind the thumbnail of a tenor link.\<close>

definition tenor_gif :: "string \<Rightarrow> string" where
  "tenor_gif url =
     (let u = (case rfind_char (CHR ''/'') url of None \<Rightarrow> url | Some p \<Rightarrow> url[p - 1 := CHR ''C'']) in
      take (length u - 3) u @ ''gif'')"

fun thumbnail_url :: "string \<Rightarrow> cEmbed list \<Rightarrow> string" where
  "thumbnail_url text [] = []"
| "thumbnail_url text (e # es) =
     (case em_thumbnail e of
        None \<Rightarrow> thumbnail_url text es
      | Some t \<Rightarrow>
          if starts_with ''https://media.tenor.com/'' (ei_url t) then tenor_gif (ei_url t)
          else if ei_url t = text then ei_url t
          else thumbnail_url text es)"

definition preview_embed :: "cMessage \<Rightarrow> cEmbed \<Rightarrow> cEmbed" where
  "preview_embed m e =
     (let (img, vid) = pick_media (ms_attachments m) None None in
      if img \<noteq> None \<or> vid \<noteq> None then preview_media (GetContent m) img vid e
      else
        let url = thumbnail_url (GetContent m) (GetEmbeds m) in
        if url \<noteq> [] then SetImage url e else SetDescription (GetContent m) e)"

text \<open>
  The transaction is handed over to \<open>process_reaction\<close>; it stays open to its end unless the
  starboard message has to be deleted.
\<close>

definition post_starboard :: "cSnowflake \<Rightarrow> cSnowflake \<Rightarrow> cMessage option \<Rightarrow> string \<Rightarrow> unit eff" where
  "post_starboard channel message msg txt =
     bindE (case msg of Some m \<Rightarrow> ret m | None \<Rightarrow> GetChannelMessage channel message) (\<lambda>m.
     bindE (GetGuildMember LMG_GUILD_ID (u_id (ms_author m))) (\<lambda>member.
     bindE (deref (m_user member)) (\<lambda>user.
     bindE (get_lmg_member_color member) (\<lambda>color.
     let preview = preview_embed m (SetTimestamp (ms_timestamp m) (SetColor color (author_of user cEmbed_default))) in
     bindE (CreateMessage LMG_CHANNEL_STARBOARD (Legacy (SetContent txt (embed_message preview)))) (\<lambda>sb_msg.
     dao (RegisterStarboardMessage (ToInt message) (ToInt (ms_id sb_msg))))))))"

definition process_reaction ::
  "cSnowflake \<Rightarrow> cSnowflake \<Rightarrow> cMessage option \<Rightarrow> cSnowflake option \<Rightarrow> int \<Rightarrow> unit eff" where
  "process_reaction channel message msg sb_msg n =
     (if n < REACTION_THRESHOLD then
        (case sb_msg of
           None \<Rightarrow> ret ()
         | Some sb \<Rightarrow>
             seqE (dao (RemoveStarboardMessage (ToInt message)))
               (seqE txn_close (DeleteMessage LMG_CHANNEL_STARBOARD sb [])))
      else
        let txt = starboard_content n channel message in
        case sb_msg of
          Some sb \<Rightarrow> bindE (EditMessage LMG_CHANNEL_STARBOARD sb (no_update\<lparr>up_content := Some txt\<rparr>)) (\<lambda>_. ret ())
        | None \<Rightarrow> post_starboard channel message msg txt)"

definition starboard_counts :: "cSnowflake \<Rightarrow> cEmoji \<Rightarrow> bool" where
  "starboard_counts channel emoji \<longleftrightarrow> emoji_eq emoji LMG_EMOJI_HOLY \<and> \<not> sf_in channel excluded_channels"

definition process_starboard_reaction_add ::
  "cSnowflake \<Rightarrow> cSnowflake \<Rightarrow> cSnowflake \<Rightarrow> cSnowflake option \<Rightarrow> cEmoji \<Rightarrow> unit eff" where
  "process_starboard_reaction_add user channel message author emoji =
     handler ''process_starboard_reaction_add'' (
     if \<not> starboard_counts channel emoji then ret ()
     else
       bindE (case author of
                Some a \<Rightarrow> ret (None, a)
              | None \<Rightarrow> bindE (GetChannelMessage channel message) (\<lambda>m. ret (Some m, u_id (ms_author m)))) (\<lambda>(msg, a).
       if sf_eq a user then ret ()
       else
         bindE GetUser_self (\<lambda>me.
         if sf_eq a (u_id me) then ret ()
         else
           with_txn (
           bindE (dao (RegisterReaction (ToInt message) (ToInt a))) (\<lambda>entry.
           process_reaction channel message msg (map_option sf_of_int (starboard_message_id entry)) (num_reactions entry))))))"

definition process_starboard_reaction_remove ::
  "cSnowflake \<Rightarrow> cSnowflake \<Rightarrow> cSnowflake \<Rightarrow> cEmoji \<Rightarrow> unit eff" where
  "process_starboard_reaction_remove user channel message emoji =
     handler ''process_starboard_reaction_remove'' (
     if \<not> starboard_counts channel emoji then ret ()
     else
       with_txn (
       bindE (dao (GetMessageAuthor (ToInt message))) (\<lambda>author.
       case author of
         None \<Rightarrow> ret ()
       | Some a \<Rightarrow>
           if a = ToInt user then ret ()
           else
             bindE GetUser_self (\<lambda>me.
             if a = ToInt (u_id me) then ret ()
             else
               bindE (dao (RemoveReaction (ToInt message))) (\<lambda>entry.
               process_reaction channel message None (map_option sf_of_int (starboard_message_id entry)) (num_reactions entry))))))"

definition process_starboard_message_delete :: "cSnowflake list \<Rightarrow> unit eff" where
  "process_starboard_message_delete ids =
     handler ''process_starboard_message_delete'' (
     bindE (with_txn (dao (StarboardDeleteAll (map ToInt ids)))) (\<lambda>sbs.
     DeleteMessages LMG_CHANNEL_STARBOARD (map sf_of_int sbs) []))"

section \<open>The ranking of the authors\<close>

definition sb_embed :: "cUser \<Rightarrow> starboard_entry \<Rightarrow> int \<Rightarrow> cEmbed" where
  "sb_embed user entry color =
     SetFields
       [inline_field ''Total <:Holy:409075809723219969>'' (to_dec_int (react_total entry)),
        inline_field ''Messages'' (to_dec_int (entry_num_msg entry)),
        embed_field ''Most in a single message'' (to_dec_int (max_react_per_msg entry))]
       (SetColor color
         (SetTitle (medal (sb_rank entry) @ '' Rank **#'' @ to_dec_int (sb_rank entry) @ ''**'')
           (author_of user cEmbed_default)))"

definition sb_no_member_embed :: "cUser option \<Rightarrow> string \<Rightarrow> bool \<Rightarrow> cEmbed" where
  "sb_no_member_embed user guild anymore =
     user_or_deleted ''Deleted User'' user (SetDescription
       (''User is not a member of **'' @ guild @ ''**'' @ (if anymore then '' anymore'' else []) @ ''.'')
       (SetColor LMG_COLOR_BLUE cEmbed_default))"

definition sb_boring :: "nat \<Rightarrow> string" where
  "sb_boring n = (if n = 0 then ''Booooring!'' else if n = 1 then ''SAD!'' else if n = 2 then ''Meh...'' else ''Laaaaame!'')"

definition sb_no_entry_embed :: "cUser \<Rightarrow> int \<Rightarrow> nat \<Rightarrow> cEmbed" where
  "sb_no_entry_embed user color n =
     SetDescription (''User has no '' @ emoji_text LMG_EMOJI_HOLY @ ''ed messages. '' @ sb_boring n)
       (SetColor color (author_of user cEmbed_default))"

definition send_ranking :: "cAppCmdInteraction \<Rightarrow> cEmbed list \<Rightarrow> unit eff" where
  "send_ranking i es = reply (AppCmd i) (SetComponents [help_row ''STARBOARD_HELP''] (SetEmbeds es no_message))"

definition starboard_rank :: "cAppCmdInteraction \<Rightarrow> cAppCmdOption \<Rightarrow> unit eff" where
  "starboard_rank i subcommand =
     bindE (target_user (ac_base i) (GetOptions subcommand)) (\<lambda>(user, member).
     if u_bot user then reply (AppCmd i) (SetContent ''Ranking isn't available for bot users.'' (ephemeral no_message))
     else if u_system user then reply (AppCmd i) (SetContent ''Ranking isn't available for system users.'' (ephemeral no_message))
     else
       seqE (InteractionDefer (AppCmd i) False) (
       bindE (with_txn (dao (GetRank (ToInt (u_id user)) REACTION_THRESHOLD))) (\<lambda>db_entry.
       ResumeOnEventStrand (
       bindE (case member of
                None \<Rightarrow> bindE (guild_name LMG_GUILD_ID) (\<lambda>name. ret (sb_no_member_embed (Some user) name (db_entry \<noteq> None)))
              | Some m \<Rightarrow>
                  bindE (get_lmg_member_color m) (\<lambda>color.
                  case db_entry of
                    Some entry \<Rightarrow> ret (sb_embed user entry color)
                  | None \<Rightarrow> bindE (Random 0 3) (\<lambda>n. ret (sb_no_entry_embed user color n)))) (\<lambda>e.
       send_ranking i [e])))))"

definition sb_top_embed :: "string \<Rightarrow> cMember list \<Rightarrow> starboard_entry \<Rightarrow> cEmbed eff" where
  "sb_top_embed guild ms entry =
     bindE (find_member (entry_author entry) ms) (\<lambda>found.
     case found of
       Some (m, u) \<Rightarrow> bindE (get_lmg_member_color m) (\<lambda>color. ret (sb_embed u entry color))
     | None \<Rightarrow> bindE (user_if_found (entry_author entry)) (\<lambda>user. ret (sb_no_member_embed user guild True)))"

definition starboard_top10 :: "cAppCmdInteraction \<Rightarrow> unit eff" where
  "starboard_top10 i =
     seqE (InteractionDefer (AppCmd i) False) (
     bindE (with_txn (dao (GetTop10 REACTION_THRESHOLD))) (\<lambda>results.
     if results = [] then
       reply (AppCmd i) (SetContent (''I have no '' @ emoji_text LMG_EMOJI_HOLY @ '' data yet. Y'all boring as fuck!'') no_message)
     else
       bindE (guild_of (ac_base i)) (\<lambda>guild.
       bindE (co_collect (RequestGuildMembers_ids guild (map (\<lambda>e. sf_of_int (entry_author e)) results))) (\<lambda>ms.
       ResumeOnEventStrand (
       bindE (guild_name LMG_GUILD_ID) (\<lambda>name.
       bindE (mapE (sb_top_embed name ms) results) (send_ranking i)))))))"

definition process_starboard_leaderboard :: "cAppCmdInteraction \<Rightarrow> unit eff" where
  "process_starboard_leaderboard i =
     handler ''process_starboard_leaderboard'' (
     bindE (front (ac_options i)) (\<lambda>subcommand.
     bindE (CRC32 (opt_name subcommand)) (\<lambda>crc.
     if crc = 0x8879E8E5 then starboard_rank i subcommand
     else if crc = 0x1D400909 then starboard_top10 i
     else raise (xRuntimeError ''Unknown subsommand''))))"

definition process_starboard_help :: "cMsgCompInteraction \<Rightarrow> unit eff" where
  "process_starboard_help i =
     handler ''process_starboard_help'' (
     reply (MsgComp i) (SetContent
       (''When a message receives **5 or more** '' @ emoji_text LMG_EMOJI_HOLY @ '' reactions, it gets to appear in ''
         @ fmt_c LMG_CHANNEL_STARBOARD @ ''. Reacting to *your own* messages doesn't count!'') (ephemeral no_message)))"

end
