(* ===== verification/Commands.thy ===== *)
theory Commands
  imports LMG
begin

text \<open>
  The smaller commands and components: /avatar, /clear and the button that dismisses a message
  (GreekBot_Avatar.cpp, GreekBot_Clear.cpp), the menus and buttons that give roles
  (GreekBot_Role.cpp), the button and modal that assign a nickname (GreekBot_Button.cpp) and
  /timestamp (GreekBot_Timestamp.cpp).
\<close>

section \<open>Avatars\<close>

definition process_avatar :: "cAppCmdInteraction \<Rightarrow> unit eff" where
  "process_avatar i =
     handler ''process_avatar'' (
     bindE (case ac_options i of p # _ \<Rightarrow> lift (GetValue_USER p) | [] \<Rightarrow> ret (i_user (ac_base i), None)) (\<lambda>(user, _).
     reply (AppCmd i) (SetContent (GetUserAvatar user) no_message)))"

section \<open>Deleting messages\<close>

definition MISSING_PERMISSION_MSG :: cPartialMessage where
  "MISSING_PERMISSION_MSG =
     SetContent ''You can't do that. You're missing the `MANAGE_MESSAGES` permission'' (ephemeral no_message)"

definition clear_limit :: "int \<Rightarrow> nat" where
  "clear_limit n = nat (max 1 (min 100 n))"

definition clear_response :: "cInteraction \<Rightarrow> nat \<Rightarrow> cPartialMessage" where
  "clear_response i n =
     (if n = 0 then SetContent ''There are no messages to delete.'' no_message
      else SetComponents [button_row [dismiss_button (u_id (i_user i))]]
        (SetContent (''I deleted **'' @ to_dec n @ ''** message'' @ plural (int n) @ ''<a:mop:1255169498051379361>'') no_message))"

text \<open>
  The messages are requested before the interaction is acknowledged, so that the answer is not
  among them. An error of the request, or of reading its first message, comes before the
  acknowledgement, an error of reading a later message after it.
\<close>

definition clear_messages :: "cAppCmdInteraction \<Rightarrow> cMessage list \<Rightarrow> exn option \<Rightarrow> unit eff" where
  "clear_messages i ms e =
     (case e of
        Some x \<Rightarrow> if ms = [] then raise x else seqE (InteractionDefer (AppCmd i) False) (raise x)
      | None \<Rightarrow>
          seqE (InteractionDefer (AppCmd i) False) (
          seqE (whenE (ms \<noteq> []) (DeleteMessages (i_channel_id (ac_base i)) (map ms_id ms) ''/clear command''))
            (reply (AppCmd i) (clear_response (ac_base i) (length ms)))))"

definition process_clear :: "cAppCmdInteraction \<Rightarrow> unit eff" where
  "process_clear i =
     guarded P_ManageMessages (ac_base i) (reply (AppCmd i) MISSING_PERMISSION_MSG) (
     bindE (front (ac_options i)) (\<lambda>p.
     bindE (lift (GetValue_INTEGER p)) (\<lambda>n w.
     case GetChannelMessages (i_channel_id (ac_base i)) (clear_limit n) w of
       ((ms, e), w1) \<Rightarrow> clear_messages i ms e w1)))"

definition may_dismiss :: "cInteraction \<Rightarrow> cSnowflake \<Rightarrow> bool" where
  "may_dismiss i author \<longleftrightarrow>
     sf_eq (u_id (i_user i)) author
     \<or> (case i_member i of None \<Rightarrow> True | Some m \<Rightarrow> \<not> TestNone (m_permissions m) P_ManageMessages)"

definition process_dismiss :: "cMsgCompInteraction \<Rightarrow> cSnowflake \<Rightarrow> unit eff" where
  "process_dismiss i author =
     handler ''process_dismiss'' (
     if \<not> may_dismiss (mc_base i) author then reply (MsgComp i) MISSING_PERMISSION_MSG
     else
       seqE (InteractionDefer (MsgComp i) False)
         (InteractionDeleteMessage (MsgComp i) (ms_id (mc_message i))))"

section \<open>Roles\<close>

definition valid_roles :: "cSnowflake list" where
  "valid_roles = map sf_of_int
     [357714047698993162, 469239964119597056, 481544681520365577, 637359870009409576,
      649313942002466826, 683443550410506273, 762747975164100608, 800464173385515058,
      886625423167979541, 928364890601685033]"

definition took_role :: "cSnowflake \<Rightarrow> string" where
  "took_role r = ''I took away your '' @ fmt_r r @ '' role!''"

definition gave_role :: "cSnowflake \<Rightarrow> string" where
  "gave_role r = ''I gave you the '' @ fmt_r r @ '' role!''"

definition toggle_role :: "cMsgCompInteraction \<Rightarrow> cSnowflake list \<Rightarrow> cSnowflake \<Rightarrow> unit eff" where
  "toggle_role i roles selected =
     seqE (InteractionDefer (MsgComp i) False) (
     if sf_in selected roles then
       seqE (RemoveGuildMemberRole LMG_GUILD_ID (u_id (i_user (mc_base i))) selected)
         (reply (MsgComp i) (SetContent (took_role selected) (ephemeral no_message)))
     else
       bindE (guild_of (mc_base i)) (\<lambda>guild.
       seqE (AddGuildMemberRole guild (u_id (i_user (mc_base i))) selected)
         (reply (MsgComp i) (SetContent (gave_role selected) (ephemeral no_message)))))"

definition process_role_button :: "cMsgCompInteraction \<Rightarrow> cSnowflake \<Rightarrow> unit eff" where
  "process_role_button i selected =
     handler ''process_role_button'' (
     bindE (member_of (mc_base i)) (\<lambda>m.
     if sf_eq selected LMG_ROLE_POLL then
       (if \<not> sf_in LMG_ROLE_NATIVE (m_roles m) then
          reply (MsgComp i) (SetContent
            (''Sorry, '' @ fmt_r selected @ '' is only available for '' @ fmt_r LMG_ROLE_NATIVE @ ''s!'') (ephemeral no_message))
        else toggle_role i (m_roles m) selected)
     else if \<not> sf_in selected valid_roles then
       raise (xRuntimeError (''Role id '' @ ToString selected @ '' was unexpected''))
     else toggle_role i (m_roles m) selected))"

text \<open>The roles after a choice of proficiency.\<close>

definition proficiency_update :: "cSnowflake list \<Rightarrow> cSnowflake \<Rightarrow> cSnowflake list" where
  "proficiency_update roles selected =
     filter (\<lambda>r. \<not> sf_in r LMG_PROFICIENCY_ROLES) roles @ [selected]
     @ (if sf_eq selected LMG_ROLE_CYPRUS then [LMG_ROLE_NATIVE] else [])"

definition selected_value :: "cMsgCompInteraction \<Rightarrow> cSnowflake eff" where
  "selected_value i = bindE (front (mc_values i)) to_snowflake"

definition process_proficiency_menu :: "cMsgCompInteraction \<Rightarrow> unit eff" where
  "process_proficiency_menu i =
     handler ''process_proficiency_menu'' (
     seqE (InteractionDefer (MsgComp i) False) (
     bindE (member_of (mc_base i)) (\<lambda>m.
     bindE (selected_value i) (\<lambda>selected.
     bindE (guild_of (mc_base i)) (\<lambda>guild.
     seqE (ModifyGuildMember guild (u_id (i_user (mc_base i)))
             (SetRoles (proficiency_update (m_roles m) selected) no_options))
       (reply (MsgComp i) (SetContent (gave_role selected) (ephemeral no_message))))))))"

definition colorless :: "cSnowflake list \<Rightarrow> cSnowflake list" where
  "colorless roles = filter (\<lambda>r. \<not> sf_in r LMG_NITRO_BOOSTER_COLOR_ROLES) roles"

definition process_booster_menu :: "cMsgCompInteraction \<Rightarrow> unit eff" where
  "process_booster_menu i =
     handler ''process_booster_menu'' (
     seqE (InteractionDefer (MsgComp i) False) (
     bindE (member_of (mc_base i)) (\<lambda>m.
     bindE (selected_value i) (\<lambda>selected.
     bindE
       (if ToInt selected = 0 then
          seqE (ModifyGuildMember LMG_GUILD_ID (u_id (i_user (mc_base i))) (SetRoles (colorless (m_roles m)) no_options))
            (ret ''I took away your color role!'')
        else if m_premium_since m = 0 then
          ret (''Sorry, custom colors are only available for '' @ fmt_r LMG_ROLE_NITRO_BOOSTER @ ''s!'')
        else
          seqE (ModifyGuildMember LMG_GUILD_ID (u_id (i_user (mc_base i)))
                 (SetRoles (colorless (m_roles m) @ [selected]) no_options))
            (ret (gave_role selected))) (\<lambda>s.
     reply (MsgComp i) (ephemeral (SetContent s no_message)))))))"

section \<open>Assigning a nickname\<close>

definition NO_NICKNAMES_MSG :: cPartialMessage where
  "NO_NICKNAMES_MSG =
     SetContent ''You can't do that. You're missing the `MANAGE_NICKNAMES` permission.'' (ephemeral no_message)"

text \<open>The identifier of the member travels in the identifier of the text input.\<close>

definition nickname_modal :: "cSnowflake \<Rightarrow> cModal" where
  "nickname_modal user =
     \<lparr>mod_custom_id = ''NICKNAME_MODAL'', mod_title = ''Assign a nickname!'',
      mod_components = [label_of ''Greek nickname'' ((text_input TEXT_INPUT_SHORT (ToString user) True)\<lparr>ti_max_length := 30\<rparr>) []]\<rparr>"

definition process_nickname_button :: "cMsgCompInteraction \<Rightarrow> cSnowflake \<Rightarrow> unit eff" where
  "process_nickname_button i user =
     handler ''process_nickname_button'' (
     guarded P_ManageNicknames (mc_base i) (reply (MsgComp i) NO_NICKNAMES_MSG)
       (InteractionSendModal (MsgComp i) (nickname_modal user)))"

definition process_modal :: "cModalSubmitInteraction \<Rightarrow> unit eff" where
  "process_modal i =
     handler ''process_modal'' (
     guarded P_ManageNicknames (mo_base i) (reply (ModalSubmit i) NO_NICKNAMES_MSG) (
     seqE (InteractionDefer (ModalSubmit i) False) (
     bindE (front (mo_components i)) (\<lambda>c.
     bindE (label_input c) (\<lambda>t.
     bindE (guild_of (mo_base i)) (\<lambda>guild.
     bindE (to_snowflake (pti_custom_id t)) (\<lambda>user.
     ModifyGuildMember guild user (SetNick (pti_value t) no_options))))))))"

section \<open>Timestamps\<close>

definition timestamp_help :: string where
  "timestamp_help =
     (''Use this command to format an **ISO 8601** timestamp to a Discord format for messages. The accepted string specification is described as follows:'' @ bytes [10])
     @ (''## Basic format'' @ bytes [10] @ ''- `YYYYMMDDThhmmss     `'' @ bytes [10] @ ''- `YYYYMMDDThhmmssZ    ` (UTC time)'' @ bytes [10])
     @ (''- `YYYYMMDDThhmmss'' @ bytes [194, 177] @ ''hh  ` (Timezone offset)'' @ bytes [10] @ ''- `YYYYMMDDThhmmss'' @ bytes [194, 177] @ ''hhmm` (Timezone offset)'' @ bytes [10])
     @ (''## Extended format'' @ bytes [10] @ ''- `YYYY-MM-DDThh:mm:ss      `'' @ bytes [10] @ ''- `YYYY-MM-DDThh:mm:ssZ     ` (UTC time)'' @ bytes [10])
     @ (''- `YYYY-MM-DDThh:mm:ss'' @ bytes [194, 177] @ ''hh:mm` (Timezone offset)'' @ bytes [10])
     @ (''## Examples'' @ bytes [10] @ ''- `20231225T123600`'' @ bytes [10] @ ''- `20231225T103600-02`'' @ bytes [10] @ ''- `2023-12-25T15:36:00+03:00`'' @ bytes [10])
     @ ''All of the above describe <t:1703507760:f>''"

text \<open>The option \<open>style\<close> is the style, any other one the text.\<close>

fun timestamp_options :: "cAppCmdOption list \<Rightarrow> string \<Rightarrow> string \<Rightarrow> (string \<times> string) eff" where
  "timestamp_options [] input style = ret (input, style)"
| "timestamp_options (p # ps) input style =
     bindE (lift (GetValue_STRING p)) (\<lambda>s.
     if opt_name p = ''style'' then timestamp_options ps input s else timestamp_options ps s style)"

definition timestamp_response :: "cInteraction \<Rightarrow> string \<Rightarrow> string \<Rightarrow> cPartialMessage" where
  "timestamp_response i input style =
     (case ParseISOTimestamp input of
        Inr t \<Rightarrow>
          let tag = ''<t:'' @ to_dec_int (t div 1000) @ '':'' @ style @ ''>'' in
          SetComponents [button_row [dismiss_button (u_id (i_user i))]]
            (SetContent (tag @ newline @ ''```'' @ tag @ ''```'') no_message)
      | Inl _ \<Rightarrow>
          SetContent (''`'' @ (if input = [] then '' '' else input) @ (''` is not a valid timestamp '' @ bytes [240, 159, 146, 128] @ '' Try again!''))
            (ephemeral no_message))"

definition process_timestamp :: "cAppCmdInteraction \<Rightarrow> unit eff" where
  "process_timestamp i =
     handler ''process_timestamp'' (
     bindE (front (ac_options i)) (\<lambda>subcmd.
     bindE (CRC32 (opt_name subcmd)) (\<lambda>crc.
     if crc = 0x08875CAC then reply (AppCmd i) (SetContent timestamp_help (ephemeral no_message))
     else if crc = 0xDEBA72DF then
       bindE (timestamp_options (GetOptions subcmd) [] ''f'') (\<lambda>(input, style).
       reply (AppCmd i) (timestamp_response (ac_base i) input style))
     else raise (xRuntimeError ''Unknown subcommand''))))"

end
