(* ===== verification/Events.thy ===== *)
theory Events
  imports LMG
begin

text \<open>
  What the bot does by itself when something happens on the server: the logs of voice channels
  (GreekBot_Voice.cpp), of members (UserLogging.cpp) and of messages (MessageLogging.cpp), the
  watch over polls among natives (NativePolls.cpp) and the detection of compromised accounts
  (CompromisedAccounts.cpp).
\<close>

section \<open>Voice channels\<close>

definition VOICE_LOG_CHANNEL_ID :: cSnowflake where "VOICE_LOG_CHANNEL_ID = sf_of_int 672924470750478338"

fun erase_first :: "('a \<Rightarrow> bool) \<Rightarrow> 'a list \<Rightarrow> 'a list" where
  "erase_first P [] = []"
| "erase_first P (x # xs) = (if P x then xs else x # erase_first P xs)"

definition system_now_ms :: "int eff" where
  "system_now_ms = bindE system_now (\<lambda>t. ret (t div ns_ms))"

definition user_field :: "string \<Rightarrow> cSnowflake \<Rightarrow> cEmbedField" where
  "user_field name sf = inline_field name (fmt_code sf)"

definition same_user :: "cVoiceState \<Rightarrow> cVoiceState \<Rightarrow> bool" where
  "same_user v x \<longleftrightarrow> sf_eq (v_user_id v) (v_user_id x)"

definition voice_states :: "(cVoiceState list \<Rightarrow> cVoiceState list) \<Rightarrow> unit eff" where
  "voice_states f = putE (\<lambda>w. (visit TheVoiceStates w)\<lparr>w_lmg_voice_states := f (w_lmg_voice_states w)\<rparr>)"

text \<open>
  What is logged, a colour, a text and fields, if anything; the list of voice states is
  brought up to date with it.
\<close>

definition voice_change :: "cVoiceState \<Rightarrow> (int \<times> string \<times> cEmbedField list) option eff" where
  "voice_change v =
     bindE (\<lambda>w. (Inr (find (same_user v) (w_lmg_voice_states w)), visit TheVoiceStates w)) (\<lambda>old.
     case GetChannelId v of
       None \<Rightarrow>
         (case old of
            None \<Rightarrow> ret (Some (0xE91D63, ''<:vc_leave:1253820278816112720> Left a voice channel'', []))
          | Some o1 \<Rightarrow>
              bindE (deref (GetChannelId o1)) (\<lambda>c.
              seqE (voice_states (erase_first (same_user v)))
                (ret (Some (0xE91D63, ''<:vc_leave:1253820278816112720> Left '' @ fmt_c c, [user_field ''Channel ID'' c])))))
     | Some new \<Rightarrow>
         (case old of
            None \<Rightarrow>
              seqE (voice_states (\<lambda>vs. vs @ [v]))
                (ret (Some (0x3598DC, ''<:vc_join:1253810834950586472> Joined '' @ fmt_c new, [user_field ''Channel ID'' new])))
          | Some o1 \<Rightarrow>
              bindE (deref (GetChannelId o1)) (\<lambda>c.
              seqE (voice_states (update_first (same_user v) v))
                (ret (if sf_eq new c then None
                      else Some (0x9B59B6, ''<:vc_move:1253816785405349948> Moved from '' @ fmt_c c @ '' to '' @ fmt_c new,
                             [user_field ''Old Channel ID'' c, user_field ''New Channel ID'' new]))))))"

definition OnVoiceStateUpdate :: "cVoiceState \<Rightarrow> unit eff" where
  "OnVoiceStateUpdate v =
     (if (case GetGuildId v of None \<Rightarrow> True | Some g \<Rightarrow> \<not> sf_eq g LMG_GUILD_ID) then ret ()
      else
        bindE (deref (v_member v)) (\<lambda>member.
        bindE (deref (m_user member)) (\<lambda>user.
        bindE system_now_ms (\<lambda>now.
        bindE (voice_change v) (\<lambda>change.
        case change of
          None \<Rightarrow> ret ()
        | Some (color, txt, fs) \<Rightarrow>
            post VOICE_LOG_CHANNEL_ID (embed_message
              (SetDescription txt (SetColor color (SetFields (user_field ''User ID'' (u_id user) # fs)
                (SetTimestamp now (author_of user cEmbed_default)))))))))))"

section \<open>Members\<close>

definition usrlog_message :: "cUser \<Rightarrow> int \<Rightarrow> string \<Rightarrow> cPartialMessage eff" where
  "usrlog_message user color txt =
     bindE system_now_ms (\<lambda>now.
     ret (embed_message (SetFields [embed_field ''User ID'' (fmt_code (u_id user))]
       (SetDescription txt (SetTimestamp now (SetColor color (author_of user cEmbed_default)))))))"

definition process_usrlog_new_member :: "cMember \<Rightarrow> unit eff" where
  "process_usrlog_new_member member =
     handler ''process_usrlog_new_member'' (
     bindE (deref (m_user member)) (\<lambda>user.
     bindE (usrlog_message user LMG_COLOR_GREEN (bytes [240, 159, 142, 137] @ '' Joined the server'')) (post LMG_CHANNEL_USER_LOG)))"

definition process_usrlog_member_remove :: "cUser \<Rightarrow> unit eff" where
  "process_usrlog_member_remove user =
     handler ''process_usrlog_member_remove'' (
     bindE (usrlog_message user LMG_COLOR_RED (bytes [240, 159, 154, 170] @ '' Left the server'')) (post LMG_CHANNEL_USER_LOG))"

section \<open>Polls among natives\<close>

definition process_native_polls_reaction_add ::
  "cSnowflake \<Rightarrow> cSnowflake \<Rightarrow> cSnowflake \<Rightarrow> cMember option \<Rightarrow> cEmoji \<Rightarrow> unit eff" where
  "process_native_polls_reaction_add user channel message member emoji =
     handler ''process_native_polls_reaction_add'' (
     if \<not> sf_eq channel LMG_CHANNEL_NATIVE_POLLS then ret ()
     else
       bindE (case member of Some m \<Rightarrow> ret m | None \<Rightarrow> GetGuildMember LMG_GUILD_ID user) (\<lambda>m.
       if sf_in LMG_ROLE_NATIVE (m_roles m) then ret ()
       else
         seqE (DeleteReaction channel message emoji user)
           (catchE is_discord_error
             (bindE (CreateDMMessage user (Legacy (SetContent
                (''Your reaction in '' @ fmt_c channel @ '' was removed '' @ emoji_text LMG_EMOJI_HEBONK @ newline
                  @ ''This channel is meant to give insight into how common different variants of a given word are, so only native input counts.'')
                no_message))) (\<lambda>_. ret ()))
             (\<lambda>_. ret ()))))"

section \<open>Messages\<close>

definition process_msglog_new_message :: "cMessage \<Rightarrow> unit eff" where
  "process_msglog_new_message msg =
     handler ''process_msglog_new_message''
       (with_txn (dao (MessageLogRegister (ToInt (ms_id msg)) (ToInt (ms_channel_id msg)) (ToInt (u_id (ms_author msg))) (GetContent msg))))"

definition msglog_author :: "u64 \<Rightarrow> cUser option \<Rightarrow> cEmbed \<Rightarrow> cEmbed" where
  "msglog_author uid user =
     (case user of
        Some u \<Rightarrow> author_of u
      | None \<Rightarrow> SetAuthor ''Deleted user'' (GetDefaultUserAvatar (sf_of_int uid) 0))"

definition edited_embed :: "message_entry \<Rightarrow> string \<Rightarrow> cUser option \<Rightarrow> cEmbed" where
  "edited_embed m txt user =
     SetFields
       ([user_field ''Message ID'' (sf_of_int (me_id m)), user_field ''User ID'' (sf_of_int (me_author m))]
        @ (if me_content m = [] then [] else [embed_field ''Old content'' (me_content m)])
        @ [embed_field (if txt = [] then ''No new content'' else ''New content'') txt])
       (SetTimestamp (GetTimestamp (sf_of_int (me_id m)))
         (SetDescription ((bytes [240, 159, 147, 157] @ '' '') @ ''Their message was **edited** ''
             @ message_link LMG_GUILD_ID (sf_of_int (me_channel m)) (sf_of_int (me_id m)))
           (SetColor LMG_COLOR_LIGHT_GREEN (msglog_author (me_author m) user cEmbed_default))))"

definition find_user :: "u64 \<Rightarrow> cUser option eff" where
  "find_user uid = catchE is_discord_error (bindE (GetUser (sf_of_int uid)) (\<lambda>u. ret (Some u))) (\<lambda>_. ret None)"

definition process_msglog_message_update :: "cMessageUpdate \<Rightarrow> unit eff" where
  "process_msglog_message_update msg =
     handler ''process_msglog_message_update'' (
     bindE (deref (up_content msg)) (\<lambda>txt.
     bindE (with_txn (
       seqE txn_begin (
       bindE (dao (MessageLogGet (ToInt (up_id msg)))) (\<lambda>db_msg.
       seqE (case db_msg of None \<Rightarrow> ret () | Some m \<Rightarrow> dao (MessageLogUpdate (me_id m) txt)) (
       seqE txn_commit (ret db_msg)))))) (\<lambda>db_msg.
     case db_msg of
       None \<Rightarrow> ret ()
     | Some m \<Rightarrow>
         bindE (find_user (me_author m)) (\<lambda>user.
         post LMG_CHANNEL_MESSAGE_LOG (embed_message (edited_embed m txt user))))))"

text \<open>The authors of deleted messages: known users, and identifiers that were asked for in vain.\<close>

datatype msg_author = Known cUser | Unknown u64

fun author_id_of :: "msg_author \<Rightarrow> u64" where
  "author_id_of (Known u) = ToInt (u_id u)"
| "author_id_of (Unknown i) = i"

definition lookup_author :: "u64 \<Rightarrow> msg_author list \<Rightarrow> (cUser option \<times> msg_author list) eff" where
  "lookup_author uid authors =
     (case find (\<lambda>a. author_id_of a = uid) authors of
        Some (Known u) \<Rightarrow> ret (Some u, authors)
      | Some (Unknown _) \<Rightarrow> ret (None, authors)
      | None \<Rightarrow>
          bindE (find_user uid) (\<lambda>r.
          case r of Some u \<Rightarrow> ret (Some u, authors @ [Known u]) | None \<Rightarrow> ret (None, authors @ [Unknown uid])))"

definition deleted_embed :: "message_entry \<Rightarrow> cUser option \<Rightarrow> cEmbed" where
  "deleted_embed m user =
     SetFields
       [user_field ''Message ID'' (sf_of_int (me_id m)), user_field ''User ID'' (sf_of_int (me_author m)),
        embed_field (if me_content m = [] then ''No content'' else ''Content'') (me_content m)]
       (SetTimestamp (GetTimestamp (sf_of_int (me_id m)))
         (SetDescription ((bytes [226, 157, 140] @ '' '') @ ''Their message was **deleted** in '' @ fmt_c (sf_of_int (me_channel m)))
           (SetColor LMG_COLOR_RED (msglog_author (me_author m) user cEmbed_default))))"

text \<open>Ten embeds fit into a message; a full message is sent at once.\<close>

definition log_deleted :: "message_entry \<Rightarrow> msg_author list \<times> cEmbed list \<Rightarrow> (msg_author list \<times> cEmbed list) eff" where
  "log_deleted m = (\<lambda>(authors, es).
     bindE (lookup_author (me_author m) authors) (\<lambda>(user, authors').
     let es' = es @ [deleted_embed m user] in
     if length es' = 10 then
       seqE (post LMG_CHANNEL_MESSAGE_LOG (SetEmbeds es' no_message)) (ret (authors', []))
     else ret (authors', es')))"

definition process_msglog_message_delete :: "cSnowflake list \<Rightarrow> unit eff" where
  "process_msglog_message_delete ids =
     handler ''process_msglog_message_delete'' (
     bindE (with_txn (dao (MessageLogDelete (map ToInt ids)))) (\<lambda>db_msgs.
     bindE (co_map (RequestGuildMembers_ids LMG_GUILD_ID (map (\<lambda>m. sf_of_int (me_author m)) db_msgs))
              (\<lambda>member. bindE (deref (m_user member)) (\<lambda>u. ret (Known u)))) (\<lambda>authors.
     bindE (foldE log_deleted db_msgs (authors, [])) (\<lambda>(_, es).
     whenE (es \<noteq> []) (post LMG_CHANNEL_MESSAGE_LOG (SetEmbeds es no_message))))))"

section \<open>Compromised accounts\<close>

text \<open>
  The probability that messages are spam, over the real numbers in place of \<open>double\<close>; the
  weights are the constants of the code. A period is in milliseconds.
\<close>

definition CHANNEL_THRESHOLD :: real where "CHANNEL_THRESHOLD = 10"
definition RATE_THRESHOLD :: real where "RATE_THRESHOLD = 6 / 10"
definition LOGIT :: real where "LOGIT = 38918202981106256 / 10 ^ 16"
definition wC :: real where "wC = 1522261218861711 / 10 ^ 15"
definition wR :: real where "wR = 17582488800599083 / 10 ^ 16"

definition sigmoid :: "real \<Rightarrow> real" where
  "sigmoid x = 1 / (1 + exp (- x))"

definition spam_score :: "int \<Rightarrow> int \<Rightarrow> real" where
  "spam_score n ms =
     LOGIT + wC * (of_int n - CHANNEL_THRESHOLD) + wR * (of_int n / (of_int ms / 1000) - RATE_THRESHOLD)"

definition spam_probability :: "int \<Rightarrow> int \<Rightarrow> real" where
  "spam_probability n ms = (if ms = 0 then 0 else sigmoid (spam_score n ms))"

definition compro_message :: "cMessage \<Rightarrow> cSnowflake \<Rightarrow> int \<Rightarrow> string \<Rightarrow> string \<Rightarrow> cPartialMessage" where
  "compro_message msg me n probability time_span =
     SetContent (''Staff wake up! '' @ message_link LMG_GUILD_ID (ms_channel_id msg) (ms_id msg))
       (SetComponents [button_row [dismiss_button me]]
         (embed_message
           (SetTimestamp (ms_timestamp msg)
             (SetFields
               [embed_field ''User ID'' (fmt_code (u_id (ms_author msg))),
                embed_field ''Message ID'' (fmt_code (ms_id msg)),
                inline_field ''Probability'' (probability @ ''%''),
                inline_field ''Messages'' (to_dec_int n),
                inline_field ''Time span'' time_span]
               (SetDescription (bytes [226, 154, 160, 239, 184, 143] @ '' Potentially compromised account'')
                 (author_of (ms_author msg) (SetColor LMG_COLOR_RED cEmbed_default)))))))"

definition process_compro_new_message :: "cMessage \<Rightarrow> unit eff" where
  "process_compro_new_message msg =
     bindE (with_txn (dao (GetMetrics (ToInt (u_id (ms_author msg))) (GetContent msg) (ToInt (ms_id msg))))) (\<lambda>e.
     let p = spam_probability (num_channels e) (period e) in
     if p < 99 / 100 then ret ()
     else
       bindE (getE w_fmt_percent) (\<lambda>fmt_percent.
       bindE (getE w_fmt_seconds) (\<lambda>fmt_seconds.
       bindE GetUser_self (\<lambda>me.
       post LMG_CHANNEL_COMPROMISED
         (compro_message msg (u_id me) (num_channels e) (fmt_percent (p * 100)) (fmt_seconds (period e)))))))"

section \<open>Who is in which voice channel\<close>

text \<open>The list as a map from users to channels; it holds one state for each user in a channel.\<close>

definition voice_entry :: "cVoiceState \<Rightarrow> u64 \<times> u64" where
  "voice_entry x = (ToInt (v_user_id x), ToInt (v_channel_id x))"

definition voice_abs :: "cVoiceState list \<Rightarrow> u64 \<Rightarrow> u64 option" where
  "voice_abs vs = map_of (map voice_entry vs)"

definition voice_inv :: "cVoiceState list \<Rightarrow> bool" where
  "voice_inv vs \<longleftrightarrow> distinct (map (\<lambda>x. ToInt (v_user_id x)) vs) \<and> (\<forall>x \<in> set vs. ToInt (v_channel_id x) \<noteq> 0)"

lemma channel_Some: "GetChannelId x = (if ToInt (v_channel_id x) = 0 then None else Some (v_channel_id x))"
  by (simp add: GetChannelId_def sf_ptr_def)

lemma find_same_user:
  "find (same_user v) vs = None \<longleftrightarrow> voice_abs vs (ToInt (v_user_id v)) = None"
  "find (same_user v) vs = Some x \<Longrightarrow> x \<in> set vs \<and> voice_abs vs (ToInt (v_user_id v)) = Some (ToInt (v_channel_id x))"
  by (induction vs) (auto simp: voice_abs_def voice_entry_def same_user_def sf_eq_iff split: if_splits)

lemma voice_update:
  "voice_abs (update_first (same_user v) v vs) = (voice_abs vs)(ToInt (v_user_id v) \<mapsto> ToInt (v_channel_id v))"
  by (induction vs) (auto simp: voice_abs_def voice_entry_def same_user_def sf_eq_iff)

lemma voice_update_users:
  "set (map (\<lambda>x. ToInt (v_user_id x)) (update_first (same_user v) v vs))
     = insert (ToInt (v_user_id v)) (set (map (\<lambda>x. ToInt (v_user_id x)) vs))"
  by (induction vs) (auto simp: same_user_def sf_eq_iff)

lemma voice_update_inv:
  "voice_inv vs \<Longrightarrow> ToInt (v_channel_id v) \<noteq> 0 \<Longrightarrow> voice_inv (update_first (same_user v) v vs)"
proof (induction vs)
  case (Cons a vs)
  have "same_user v a \<longleftrightarrow> ToInt (v_user_id v) = ToInt (v_user_id a)" by (simp add: same_user_def sf_eq_iff)
  then show ?case using Cons voice_update_users [of v vs] by (cases "same_user v a") (auto simp: voice_inv_def)
qed (simp add: voice_inv_def)

lemma erase_user_None: "a \<notin> set (map (\<lambda>x. ToInt (v_user_id x)) vs) \<Longrightarrow> map_of (map voice_entry vs) a = None"
  by (induction vs) (auto simp: voice_entry_def)

lemma voice_erase:
  "voice_inv vs \<Longrightarrow> voice_abs (erase_first (same_user v) vs) = (voice_abs vs)(ToInt (v_user_id v) := None)"
proof (induction vs)
  case (Cons a vs)
  then show ?case using erase_user_None [of "ToInt (v_user_id v)" vs]
    by (auto simp: voice_abs_def voice_inv_def voice_entry_def same_user_def sf_eq_iff fun_eq_iff)
qed (simp add: voice_abs_def)

lemma erase_subset: "set (erase_first P vs) \<subseteq> set vs"
  by (induction vs) auto

lemma voice_erase_inv: "voice_inv vs \<Longrightarrow> voice_inv (erase_first P vs)"
proof (induction vs)
  case (Cons a vs)
  then show ?case using erase_subset [of P vs] by (auto simp: voice_inv_def)
qed (simp add: voice_inv_def)

text \<open>What the map says of the channel before and after decides whether something is logged.\<close>

lemma voice_change_run:
  assumes "voice_inv (w_lmg_voice_states w)"
  shows "\<exists>c w'. voice_change v w = (Inr c, w') \<and> w_calls w' = w_calls w \<and> voice_inv (w_lmg_voice_states w')
     \<and> voice_abs (w_lmg_voice_states w') = (voice_abs (w_lmg_voice_states w))(ToInt (v_user_id v) := map_option ToInt (GetChannelId v))
     \<and> (c = None \<longleftrightarrow> GetChannelId v \<noteq> None
          \<and> voice_abs (w_lmg_voice_states w) (ToInt (v_user_id v)) = map_option ToInt (GetChannelId v))"
proof (cases "find (same_user v) (w_lmg_voice_states w)")
  case None
  then have n: "voice_abs (w_lmg_voice_states w) (ToInt (v_user_id v)) = None" by (simp add: find_same_user)
  then have u: "ToInt (v_user_id v) \<notin> (\<lambda>x. ToInt (v_user_id x)) ` set (w_lmg_voice_states w)"
    by (force simp: voice_abs_def voice_entry_def map_of_eq_None_iff)
  have f: "(voice_abs (w_lmg_voice_states w))(ToInt (v_user_id v) := None) = voice_abs (w_lmg_voice_states w)"
    using n by auto
  show ?thesis
  proof (cases "ToInt (v_channel_id v) = 0")
    case True
    with None n f assms show ?thesis
      by (simp add: voice_change_def channel_Some bindE_def voice_states_def seqE_def)
  next
    case False
    have "voice_inv (w_lmg_voice_states w @ [v])" using assms u False by (auto simp: voice_inv_def)
    moreover have "voice_abs (w_lmg_voice_states w @ [v])
        = (voice_abs (w_lmg_voice_states w))(ToInt (v_user_id v) \<mapsto> ToInt (v_channel_id v))"
      using n by (auto simp: voice_abs_def voice_entry_def map_add_def fun_eq_iff split: option.splits)
    ultimately show ?thesis using None n False
      by (simp add: voice_change_def channel_Some bindE_def voice_states_def seqE_def)
  qed
next
  case (Some x)
  from find_same_user(2) [OF this] have x: "x \<in> set (w_lmg_voice_states w)"
    "voice_abs (w_lmg_voice_states w) (ToInt (v_user_id v)) = Some (ToInt (v_channel_id x))" by auto
  then have c: "ToInt (v_channel_id x) \<noteq> 0" using assms by (auto simp: voice_inv_def)
  show ?thesis
  proof (cases "ToInt (v_channel_id v) = 0")
    case True
    with Some x c voice_erase [OF assms, of v] voice_erase_inv [OF assms, of "same_user v"] show ?thesis
      by (simp add: voice_change_def channel_Some bindE_def voice_states_def seqE_def)
  next
    case False
    with Some x c voice_update [of v] voice_update_inv [OF assms False] show ?thesis
      by (simp add: voice_change_def channel_Some bindE_def voice_states_def seqE_def sf_eq_iff)
  qed
qed

section \<open>Properties\<close>

text \<open>
  C12: the list of voice states is the map from the users to the voice channels they are in: a
  state that arrives sets or removes exactly the entry of its user, and a message is sent to
  the log of voice channels unless the user stays in the channel they were in.
\<close>

theorem voice_states_refine:
  assumes "voice_inv (w_lmg_voice_states w)" and "GetGuildId v = Some g" and "sf_eq g LMG_GUILD_ID"
    and "v_member v = Some member" and "m_user member = Some user"
  shows "(let w' = snd (OnVoiceStateUpdate v w); old = voice_abs (w_lmg_voice_states w) (ToInt (v_user_id v));
              new = map_option ToInt (GetChannelId v) in
     voice_inv (w_lmg_voice_states w')
     \<and> voice_abs (w_lmg_voice_states w') = (voice_abs (w_lmg_voice_states w))(ToInt (v_user_id v) := new)
     \<and> (if new \<noteq> None \<and> old = new then w_calls w' = w_calls w
        else \<exists>q. w_calls w' = w_calls w @ [Http q] \<and> rq_verb q = POST
               \<and> rq_path q = ''/channels/'' @ ToString VOICE_LOG_CHANNEL_ID @ ''/messages''))"
proof -
  let ?w = "snd (system_now w)"
  have w: "w_lmg_voice_states ?w = w_lmg_voice_states w" "w_calls ?w = w_calls w" by (simp_all add: system_now_def)
  from voice_change_run [of ?w v] assms(1) w obtain c w1 where
    c: "voice_change v ?w = (Inr c, w1)" "w_calls w1 = w_calls w" "voice_inv (w_lmg_voice_states w1)"
      "voice_abs (w_lmg_voice_states w1) = (voice_abs (w_lmg_voice_states w))(ToInt (v_user_id v) := map_option ToInt (GetChannelId v))"
      "c = None \<longleftrightarrow> GetChannelId v \<noteq> None
          \<and> voice_abs (w_lmg_voice_states w) (ToInt (v_user_id v)) = map_option ToInt (GetChannelId v)" by auto
  have run: "OnVoiceStateUpdate v w = (case c of None \<Rightarrow> ret () | Some (color, txt1, fs) \<Rightarrow>
      post VOICE_LOG_CHANNEL_ID (embed_message
              (SetDescription txt1 (SetColor color (SetFields (user_field ''User ID'' (u_id user) # fs)
                (SetTimestamp (w_system_clock w (w_ticks w) div ns_ms) (author_of user cEmbed_default))))))) w1"
    using assms(2-5) c(1) by (simp add: OnVoiceStateUpdate_def system_now_ms_def system_now_def bindE_def)
  show ?thesis
    using c(2-5) run
    by (cases c) (auto simp: Let_def post_def CreateMessage_def parsed_def DiscordPost_def http_send_def bindE_def
        split: sum.splits)
qed

theorem voice_states_refine_witness:
  "\<exists>v. voice_abs (w_lmg_voice_states (snd (OnVoiceStateUpdate v start_world))) 7 = Some 5"
proof -
  let ?v = "\<lparr>v_guild_id = LMG_GUILD_ID, v_channel_id = sf_of_int 5, v_user_id = sf_of_int 7,
    v_member = Some (cPartialMember.extend example_member \<lparr>m_user = Some example_user\<rparr>), v_session_id = [],
    v_deaf = False, v_mute = False, v_self_deaf = False, v_self_mute = False, v_self_stream = False, v_self_video = False,
    v_suppress = False, v_request_to_speak = 0\<rparr>"
  have "ToInt (sf_of_int 5) = 5" "ToInt (sf_of_int 7) = 7" "ToInt LMG_GUILD_ID \<noteq> 0"
    by (simp_all add: ToInt_def sf_of_int_def LMG_GUILD_ID_def)
  then have "voice_abs (w_lmg_voice_states (snd (OnVoiceStateUpdate ?v start_world))) 7 = Some 5"
    using voice_states_refine [of start_world ?v LMG_GUILD_ID "cPartialMember.extend example_member \<lparr>m_user = Some example_user\<rparr>" example_user]
    by (simp add: start_world_def voice_inv_def GetGuildId_def sf_ptr_def sf_eq_def cPartialMember.defs GetChannelId_def Let_def
        voice_abs_def)
  then show ?thesis by blast
qed

end
