(* ===== verification/Ban.thy ===== *)
theory Ban
  imports LMG
begin

text \<open>
  Bans (GreekBot/GreekBot_Ban.cpp): the command, the context menus with their modal, the
  duration of a ban, and the button that revokes it.
\<close>

section \<open>How long a ban lasts\<close>

text \<open>
  The time points of the clock are signed 64-bit numbers of nanoseconds; what does not fit is
  taken modulo \<open>2 ^ 64\<close>, as the machine does (the standard leaves it undefined).
\<close>

definition wrap64 :: "int \<Rightarrow> int" where
  "wrap64 x = signed_take_bit 63 x"

text \<open>The units that were read so far, 0 for none.\<close>

record units =
  un_y :: int
  un_m :: int
  un_w :: int
  un_d :: int

definition no_units :: units where
  "no_units = \<lparr>un_y = 0, un_m = 0, un_w = 0, un_d = 0\<rparr>"

definition set_unit :: "char \<Rightarrow> int \<Rightarrow> units \<Rightarrow> units option" where
  "set_unit c v u =
     (if c = CHR ''y'' \<and> un_y u = 0 then Some (u\<lparr>un_y := v\<rparr>)
      else if c = CHR ''m'' \<and> un_m u = 0 then Some (u\<lparr>un_m := v\<rparr>)
      else if c = CHR ''w'' \<and> un_w u = 0 then Some (u\<lparr>un_w := v\<rparr>)
      else if c = CHR ''d'' \<and> un_d u = 0 then Some (u\<lparr>un_d := v\<rparr>)
      else None)"

definition units_ns :: "units \<Rightarrow> int" where
  "units_ns u = (un_y u * ms_year + un_m u * ms_month + un_w u * ms_week + un_d u * ms_day) * ns_ms"

definition from_chars_unsigned :: "string \<Rightarrow> (errc + int) \<times> string" where
  "from_chars_unsigned = from_chars 0 4294967295"

text \<open>The loop over the units; \<open>s\<close> starts at the unit of \<open>v\<close>.\<close>

lemma from_chars_rest: "length (snd (from_chars lo hi s)) \<le> length s"
  by (auto simp: from_chars_def Let_def intro: order_trans [OF length_dropWhile_le])

lemma from_chars_shorter: "from_chars lo hi s = (r, s') \<Longrightarrow> length s' \<le> length s"
  using from_chars_rest [of lo hi s] by simp

function parse_units :: "int \<Rightarrow> units \<Rightarrow> int \<Rightarrow> string \<Rightarrow> int option" where
  "parse_units now u v [] = None"
| "parse_units now u v (c # s) =
     (if v = 0 then None
      else case set_unit c v u of
        None \<Rightarrow> None
      | Some u' \<Rightarrow>
          if s = [] then Some (ceil_div (wrap64 (now + units_ns u')) ns_day)
          else case from_chars_unsigned s of
            (Inr v', s') \<Rightarrow> if s' = [] then None else parse_units now u' v' s'
          | _ \<Rightarrow> None)"
  by pat_completeness auto
termination
  by (relation "measure (\<lambda>(now, u, v, s). length s)")
    (auto simp: from_chars_unsigned_def less_Suc_eq_le dest: from_chars_shorter [OF sym])

text \<open>The rest of a date after the year and its hyphen: two digits each, with a hyphen between.\<close>

definition parse_month_day :: "int \<Rightarrow> string \<Rightarrow> int option" where
  "parse_month_day y s =
     (case from_chars_unsigned s of
        (Inr m, r) \<Rightarrow>
          if length s - length r = 2 \<and> r \<noteq> [] \<and> hd r = CHR ''-'' then
            (case from_chars_unsigned (tl r) of
               (Inr d, r') \<Rightarrow>
                 if length (tl r) = 2 \<and> r' = [] \<and> ymd_ok y m d then Some (sys_days y m d) else None
             | _ \<Rightarrow> None)
          else None
      | _ \<Rightarrow> None)"

definition parse_ban_duration :: "int \<Rightarrow> string \<Rightarrow> int option" where
  "parse_ban_duration now fmt =
     (case from_chars_unsigned fmt of
        (Inr v, r) \<Rightarrow>
          if r = [] then None
          else if hd r = CHR ''-'' \<and> length fmt - length r = 4 then parse_month_day v (tl r)
          else parse_units now no_units v r
      | _ \<Rightarrow> None)"

text \<open>A day is compared with the clock in nanoseconds.\<close>

definition in_future :: "int \<Rightarrow> int \<Rightarrow> bool" where
  "in_future now day \<longleftrightarrow> now < wrap64 (day * ns_day)"

definition ban_expiry :: "int \<Rightarrow> int \<Rightarrow> string \<Rightarrow> int option" where
  "ban_expiry now now' fmt =
     (case parse_ban_duration now' fmt of Some day \<Rightarrow> if in_future now day then Some day else None | None \<Rightarrow> None)"

section \<open>Texts\<close>

definition SUBCMD_USER :: u32 where "SUBCMD_USER = 0x8D93D649"
definition SUBCMD_TURK :: u32 where "SUBCMD_TURK = 0x504AE1C8"
definition SUBCMD_GREEK :: u32 where "SUBCMD_GREEK = 0xA0F01AAE"

definition NO_BAN_PERMISSION :: cPartialMessage where
  "NO_BAN_PERMISSION =
     SetContent ''You can't do that. You're missing the `BAN_MEMBERS` permission.'' (ephemeral no_message)"

definition get_no_ban_msg :: "u32 \<Rightarrow> cPartialMessage" where
  "get_no_ban_msg sc =
     SetContent
       (if sc = SUBCMD_TURK then (''Excuse me, '' @ bytes [196, 177] @ bytes [39, 109, 32, 110, 111, 116, 32, 116] @ bytes [195, 188] @ ''rk! Beep Bop... '' @ bytes [240, 159, 164, 150])
        else if sc = SUBCMD_GREEK then (bytes [206, 140, 207, 128, 206, 177] @ '' '' @ bytes [206, 186, 206, 172, 207, 132, 207, 131, 206, 181] @ '', '' @ bytes [207, 132, 206, 185] @ '' '' @ bytes [206, 173, 206, 186, 206, 177, 206, 189, 206, 177] @ ''; '' @ bytes [206, 149, 206, 175, 206, 188, 206, 177, 206, 185] @ '' '' @ bytes [206, 186, 206, 177, 206, 187, 207, 140] @ '' '' @ bytes [206, 188, 207, 128, 206, 191, 207, 132] @ '' '' @ bytes [206, 181, 206, 179, 207, 142] @ ''. Beep Bop... '' @ bytes [240, 159, 164, 150])
        else (''I'm not gonna ban myself, I'm a good bot. Beep Bop... '' @ bytes [240, 159, 164, 150])) (ephemeral no_message)"

text \<open>\<open>{:%F}\<close> of a time point in seconds, for years of four digits.\<close>

definition fmt_date :: "int \<Rightarrow> string" where
  "fmt_date secs =
     (case year_month_day (secs div 86400) of (y, m, d) \<Rightarrow>
        pad0 4 (to_dec_int y) @ ''-'' @ pad0 2 (to_dec_int m) @ ''-'' @ pad0 2 (to_dec_int d))"

definition invalid_expiry_text :: "int \<Rightarrow> string" where
  "invalid_expiry_text now =
     (let t = (now + 8 * ms_month * ns_ms) div ns_second in
      (''Invalid format string!'' @ bytes [10] @ ''To specify a ban until a specific *future* date, specify a `YYYY-MM-DD` date.'' @ bytes [10] @ ''For example:'' @ bytes [10])
      @ ''- `'' @ fmt_date t @ ''`, for the ban to last until <t:'' @ to_dec_int t @ ('':D>'' @ bytes [10])
      @ (''To specify a ban as a duration, use any (non-zero) value combination of `y` years, `m` months, `w` weeks or `d` days.'' @ bytes [10])
      @ (''For example:'' @ bytes [10] @ ''- ` 25d`, for the ban to last for **25** days'' @ bytes [10] @ ''- `3m2d`, for the ban to last for **3** months and **2** days'' @ bytes [10])
      @ ''- `1y5w`, for the ban to last for **1** year and **5** weeks'')"

definition expiry_text :: "int \<Rightarrow> string" where
  "expiry_text day = (if day = 0 then [] else ''<t:'' @ to_dec_int (day * 86400) @ '':D>'')"

section \<open>Banning\<close>

text \<open>Who is banned, as far as the command or the modal says.\<close>

record target =
  t_id :: cSnowflake
  t_avatar :: string
  t_username :: string
  t_discriminator :: u16

definition target_of :: "cUser \<Rightarrow> target" where
  "target_of u = \<lparr>t_id = u_id u, t_avatar = u_avatar u, t_username = u_username u, t_discriminator = u_discriminator u\<rparr>"

definition target_avatar :: "target \<Rightarrow> string" where
  "target_avatar t = UserAvatar (t_id t) (t_avatar t) (t_discriminator t) PNG 4096"

record ban_options =
  bo_delete :: int
  bo_reason :: string
  bo_goodbye :: string
  bo_expiry :: string

definition no_ban_options :: ban_options where
  "no_ban_options = \<lparr>bo_delete = 7 * 86400, bo_reason = [], bo_goodbye = [], bo_expiry = []\<rparr>"

definition ban_texts :: "u32 \<Rightarrow> string \<Rightarrow> string \<Rightarrow> (string \<times> string) eff" where
  "ban_texts sc rsn goodbye =
     (if sc = SUBCMD_TURK then bindE (getE w_goodbye_turk) (\<lambda>g. ret (''Turk troll'', g))
      else if sc = SUBCMD_GREEK then
        bindE (Random 0 9) (\<lambda>n. bindE (getE (\<lambda>w. w_goodbyes w n)) (\<lambda>g. ret (''Greek troll'', g)))
      else
        let rsn' = (if rsn = [] then ''Unspecified'' else rsn) in
        ret (rsn', if goodbye = [] then rsn' else goodbye))"

definition goodbye_content :: "string \<Rightarrow> int \<Rightarrow> string \<Rightarrow> string" where
  "goodbye_content guild day goodbye =
     ''You've been banned from **'' @ guild @ ''**'' @ (if expiry_text day = [] then [] else '' until '') @ expiry_text day
     @ '' with reason:'' @ newline @ ''```'' @ goodbye @ ''```''"

definition send_goodbye :: "cInteraction \<Rightarrow> target \<Rightarrow> int \<Rightarrow> string \<Rightarrow> bool eff" where
  "send_goodbye i t day goodbye =
     catchE (\<lambda>_. True)
       (bindE (guild_of i) (\<lambda>guild.
        bindE (guild_name guild) (\<lambda>name.
        bindE (CreateDMMessage (t_id t) (Legacy (SetContent (goodbye_content name day goodbye) no_message))) (\<lambda>_. ret True))))
       (\<lambda>_. ret False)"

definition ban_embed :: "target \<Rightarrow> int \<Rightarrow> string \<Rightarrow> string \<Rightarrow> bool \<Rightarrow> cEmbed" where
  "ban_embed t day rsn goodbye delivered =
     SetFields
       ((if expiry_text day = [] then [] else [embed_field ''Until'' (expiry_text day)])
        @ [embed_field ''Reason'' rsn]
        @ (if delivered \<and> rsn \<noteq> goodbye then [embed_field ''Goodbye message'' goodbye] else []))
       (SetColor LMG_COLOR_RED
         (SetAuthor (t_username t @ '' was banned'' @ (if expiry_text day = [] then [] else '' temporarily''))
           (target_avatar t) cEmbed_default))"

text \<open>
  The ban is recorded and carried out in one transaction: it is committed once Discord has
  accepted the ban.
\<close>

definition register_ban :: "cInteraction \<Rightarrow> target \<Rightarrow> int \<Rightarrow> int \<Rightarrow> string \<Rightarrow> unit eff" where
  "register_ban i t day delete_messages rsn =
     seqE txn_begin (
     seqE (dao (TempBanRegister (ToInt (t_id t)) day)) (
     bindE (guild_of i) (\<lambda>guild.
     seqE (CreateGuildBan guild (t_id t) delete_messages rsn)
     txn_commit)))"

definition carry_out_ban :: "interaction \<Rightarrow> u32 \<Rightarrow> target \<Rightarrow> int \<Rightarrow> ban_options \<Rightarrow> unit eff" where
  "carry_out_ban i sc t day opts =
     seqE (InteractionDefer i True) (
     bindE (ban_texts sc (bo_reason opts) (bo_goodbye opts)) (\<lambda>(rsn, goodbye).
     bindE (send_goodbye (base i) t day goodbye) (\<lambda>delivered.
     with_txn (
       seqE (register_ban (base i) t day (bo_delete opts) rsn) (
       seqE txn_close (
       reply i (SetComponents
         [button_row [button Danger (''BAN#'' @ ToString (t_id t)) ''Revoke ban'', dismiss_button (u_id (i_user (base i)))]]
         (embed_message (ban_embed t day rsn goodbye delivered)))))))))"

text \<open>The clock is read once for the comparison and once more for a duration.\<close>

definition process_ban_impl :: "interaction \<Rightarrow> u32 \<Rightarrow> target \<Rightarrow> ban_options \<Rightarrow> unit eff" where
  "process_ban_impl i sc t opts =
     (if bo_expiry opts = [] then carry_out_ban i sc t 0 opts
      else
        bindE system_now (\<lambda>now.
        bindE system_now (\<lambda>now'.
        case ban_expiry now now' (bo_expiry opts) of
          Some day \<Rightarrow> carry_out_ban i sc t day opts
        | None \<Rightarrow> reply i (SetContent (invalid_expiry_text now) (ephemeral no_message)))))"

section \<open>The command\<close>

fun collect_ban_options :: "cAppCmdOption list \<Rightarrow> cUser option \<Rightarrow> ban_options \<Rightarrow> (cUser option \<times> ban_options) eff" where
  "collect_ban_options [] user opts = ret (user, opts)"
| "collect_ban_options (p # ps) user opts =
     bindE (CRC32 (opt_name p)) (\<lambda>crc.
     if crc = 0x8D93D649 then bindE (lift (GetValue_USER p)) (\<lambda>(u, _). collect_ban_options ps (Some u) opts)
     else if crc = 0x3A127C87 then
       bindE (lift (GetValue_STRING p)) (\<lambda>s.
       bindE (lift (parse_i32 s)) (\<lambda>h. collect_ban_options ps user (opts\<lparr>bo_delete := h * 3600\<rparr>)))
     else if crc = 0x3BB8880C then
       bindE (lift (GetValue_STRING p)) (\<lambda>s. collect_ban_options ps user (opts\<lparr>bo_reason := s\<rparr>))
     else if crc = 0xB6BD307F then
       bindE (lift (GetValue_STRING p)) (\<lambda>s. collect_ban_options ps user (opts\<lparr>bo_goodbye := s\<rparr>))
     else if crc = 0xDEBA72DF then
       bindE (lift (GetValue_STRING p)) (\<lambda>s. collect_ban_options ps user (opts\<lparr>bo_expiry := s\<rparr>))
     else raise (xRuntimeError ''Unknown ban command option''))"

text \<open>It is the one who uses the command whose identifier is compared with that of the bot.\<close>

definition process_ban :: "cAppCmdInteraction \<Rightarrow> unit eff" where
  "process_ban i =
     handler ''process_ban'' (
     guarded P_BanMembers (ac_base i) (reply (AppCmd i) NO_BAN_PERMISSION) (
     bindE (front (ac_options i)) (\<lambda>subcommand.
     bindE (collect_ban_options (GetOptions subcommand) None no_ban_options) (\<lambda>(user, opts).
     bindE (CRC32 (opt_name subcommand)) (\<lambda>sc.
     bindE GetUser_self (\<lambda>me.
     if sf_eq (u_id (i_user (ac_base i))) (u_id me) then reply (AppCmd i) (get_no_ban_msg sc)
     else bindE (deref user) (\<lambda>u. process_ban_impl (AppCmd i) sc (target_of u) opts)))))))"

section \<open>The context menus and the modal\<close>

definition display_name :: "cUser \<Rightarrow> cPartialMember option \<Rightarrow> string" where
  "display_name user member =
     (case member of
        Some m \<Rightarrow> if m_nick m \<noteq> [] then m_nick m else if u_global_name user \<noteq> [] then u_global_name user else u_username user
      | None \<Rightarrow> if u_global_name user \<noteq> [] then u_global_name user else u_username user)"

definition ban_custom_id :: "target \<Rightarrow> string" where
  "ban_custom_id t =
     ToString (t_id t) @ '':'' @ t_avatar t @ '':'' @ t_username t @ '':'' @ to_dec (unat (t_discriminator t))"

definition ban_modal :: "target \<Rightarrow> string \<Rightarrow> cModal" where
  "ban_modal t name =
     \<lparr>mod_custom_id = ''ban:'' @ ban_custom_id t, mod_title = ''Ban @'' @ name,
      mod_components =
        [label_of ''Ban reason (optional)'' (text_input TEXT_INPUT_SHORT ''BAN_REASON'' False) [],
         label_of ''Custom goodbye message (optional)'' (text_input TEXT_INPUT_PARAGRAPH ''BAN_MESSAGE'' False) [],
         label_of ''For how long or until when to ban (optional)'' (text_input TEXT_INPUT_SHORT ''BAN_UNTIL'' False)
           ''Duration (e.g., 30d, 1y2m) or date (YYYY-MM-DD)'']\<rparr>"

definition process_ban_ctx_menu :: "cAppCmdInteraction \<Rightarrow> string \<Rightarrow> unit eff" where
  "process_ban_ctx_menu i subcommand =
     handler ''process_ban_ctx_menu'' (
     guarded P_BanMembers (ac_base i) (reply (AppCmd i) NO_BAN_PERMISSION) (
     bindE (front (ac_options i)) (\<lambda>p.
     bindE (lift (GetValue_USER p)) (\<lambda>(user, member).
     bindE (CRC32 subcommand) (\<lambda>sc.
     bindE GetUser_self (\<lambda>me.
     if sf_eq (u_id user) (u_id me) then reply (AppCmd i) (get_no_ban_msg sc)
     else if sc = SUBCMD_GREEK \<or> sc = SUBCMD_TURK then process_ban_impl (AppCmd i) sc (target_of user) no_ban_options
     else InteractionSendModal (AppCmd i) (ban_modal (target_of user) (display_name user member))))))))"

text \<open>The part of a text before a colon and the rest, if it has a colon.\<close>

definition split_colon :: "string \<Rightarrow> (string \<times> string) option" where
  "split_colon s =
     (case dropWhile (\<lambda>c. c \<noteq> CHR '':'') s of [] \<Rightarrow> None | _ # r \<Rightarrow> Some (takeWhile (\<lambda>c. c \<noteq> CHR '':'') s, r))"

definition colon_part :: "exn \<Rightarrow> string \<Rightarrow> exn + (string \<times> string)" where
  "colon_part e s = (case split_colon s of None \<Rightarrow> Inl e | Some p \<Rightarrow> Inr p)"

definition parse_ban_id :: "string \<Rightarrow> exn + target" where
  "parse_ban_id s =
     (let bad = xRuntimeError ''Invalid modal id'' in
      bindS (colon_part bad s) (\<lambda>(a, r1).
      bindS (snowflake_of a) (\<lambda>uid.
      bindS (colon_part bad r1) (\<lambda>(avatar, r2).
      bindS (colon_part bad r2) (\<lambda>(username, d).
      bindS (parse_u16 d) (\<lambda>disc.
      Inr \<lparr>t_id = uid, t_avatar = avatar, t_username = username, t_discriminator = disc\<rparr>))))))"

fun collect_ban_inputs :: "submitted list \<Rightarrow> ban_options \<Rightarrow> ban_options eff" where
  "collect_ban_inputs [] opts = ret opts"
| "collect_ban_inputs (c # cs) opts =
     bindE (label_input c) (\<lambda>t.
     bindE (CRC32 (pti_custom_id t)) (\<lambda>crc.
     if crc = 0x23240F07 then collect_ban_inputs cs (opts\<lparr>bo_reason := pti_value t\<rparr>)
     else if crc = 0x1A1955B8 then collect_ban_inputs cs (opts\<lparr>bo_goodbye := pti_value t\<rparr>)
     else if crc = 0xA4EA5974 then collect_ban_inputs cs (opts\<lparr>bo_expiry := pti_value t\<rparr>)
     else raise (xRuntimeError ''Unexpected text input id'')))"

definition process_ban_modal :: "cModalSubmitInteraction \<Rightarrow> string \<Rightarrow> unit eff" where
  "process_ban_modal i custom_id =
     handler ''process_ban_modal'' (
     guarded P_BanMembers (mo_base i) (reply (ModalSubmit i) NO_BAN_PERMISSION) (
     bindE (lift (parse_ban_id custom_id)) (\<lambda>t.
     bindE GetUser_self (\<lambda>me.
     if sf_eq (t_id t) (u_id me) then reply (ModalSubmit i) (get_no_ban_msg SUBCMD_USER)
     else bindE (collect_ban_inputs (mo_components i) no_ban_options) (process_ban_impl (ModalSubmit i) SUBCMD_USER t)))))"

section \<open>Revoking a ban\<close>

definition unbanned_name :: "string \<Rightarrow> string" where
  "unbanned_name name = (case rfind ''banned'' name of None \<Rightarrow> ''User was '' | Some n \<Rightarrow> take n name) @ ''unbanned''"

text \<open>The embed that reports the unban and the user it is about.\<close>

fun unban_embeds :: "interaction \<Rightarrow> cSnowflake \<Rightarrow> (cEmbed list \<times> cSnowflake) eff" where
  "unban_embeds (AppCmd i) user =
     (if length (ac_options i) \<noteq> 1 then raise (xRuntimeError ''meow'')
      else
        bindE (front (ac_options i)) (\<lambda>p.
        bindE (lift (GetValue_USER p)) (\<lambda>(u, _).
        ret ([SetAuthor (u_username u @ '' was unbanned'') (GetUserAvatar u) (SetColor LMG_COLOR_GREEN cEmbed_default)], u_id u))))"
| "unban_embeds (MsgComp i) user =
     (let es = GetEmbeds (mc_message i) in
      bindE (at_index 0 es) (\<lambda>e.
      bindE (deref (em_author e)) (\<lambda>a.
      ret ((ResetFields (SetColor LMG_COLOR_GREEN e))\<lparr>em_author := Some (a\<lparr>ea_name := unbanned_name (ea_name a)\<rparr>)\<rparr> # tl es, user))))"
| "unban_embeds (ModalSubmit i) user = raise (xRuntimeError [])"

definition process_unban :: "interaction \<Rightarrow> cSnowflake \<Rightarrow> unit eff" where
  "process_unban i user =
     handler ''process_unban'' (
     guarded P_BanMembers (base i) (reply i NO_BAN_PERMISSION) (
     seqE (InteractionDefer i False) (
     bindE (unban_embeds i user) (\<lambda>(es, uid).
     with_txn (
       seqE txn_begin (
       seqE (dao (TempBanRemove (ToInt uid))) (
       seqE (catchE is_discord_error
               (bindE (guild_of (base i)) (\<lambda>guild.
                RemoveGuildBan guild uid (u_username (i_user (base i)) @ '' used the /unban command'')))
               (\<lambda>_. ret ())) (
       seqE txn_commit (
       seqE txn_close (
       bindE (InteractionEditMessage i
                (no_update\<lparr>up_embeds := Some es, up_components := Some [LRow (button_row [dismiss_button (u_id (i_user (base i)))])]\<rparr>)
                sf_default) (\<lambda>_. ret ())))))))))))"

end
