(* ===== verification/Infractions.thy ===== *)
theory Infractions
  imports Ban
begin

text \<open>
  Warnings (GreekBot/GreekBot_Infractions.cpp): the command, its context menu and its modal,
  which end in \<open>process_warn_impl\<close>; the list of the warnings of a member; the buttons and the
  menu that remove warnings; and the button that ends a timeout.
\<close>

section \<open>Texts and buttons\<close>

definition NO_PERM_MSG :: cPartialMessage where
  "NO_PERM_MSG =
     SetContent ''You can't do that! You're missing the `MODERATE_MEMBERS` permission.'' (ephemeral no_message)"

definition ONLY_YOUR_OWN :: cPartialMessage where
  "ONLY_YOUR_OWN =
     SetContent ''You can't do that! You are only allowed to view your own infractions.'' (ephemeral no_message)"

definition removal_row :: "cSnowflake \<Rightarrow> cActionRow" where
  "removal_row user =
     button_row [button Secondary (''unwarn:'' @ ToString user) ''Remove an infraction'',
                 button Danger (''unwarn:all:'' @ ToString user) ''Remove all infractions'']"

definition count_text :: "int \<Rightarrow> string" where
  "count_text n = to_dec_int n @ '' infraction'' @ plural n"

definition entry_text :: "nat \<Rightarrow> infraction_entry \<Rightarrow> string" where
  "entry_text n e =
     to_dec n @ ''. '' @ (if inf_reason e = [] then ''`Unspecified`'' else inf_reason e) @ ('' '' @ bytes [226, 128, 162] @ '' <t:'')
     @ to_dec_int (inf_timestamp e div 1000) @ ('':R>'' @ bytes [10])"

definition make_stats :: "infraction_result \<Rightarrow> cEmbed \<Rightarrow> cEmbed" where
  "make_stats res e =
     SetFields
       [inline_field ''Today'' (count_text (stats_today res)), inline_field ''This week'' (count_text (stats_this_week res)),
        inline_field ''Total'' (count_text (stats_total res)),
        embed_field ''Latest infractions'' (concat (map (\<lambda>(n, x). entry_text n x) (enumerate 1 (inf_entries res))))]
       (SetDescription (bytes [226, 154, 160, 239, 184, 143]) e)"

text \<open>The first embed of a message replaced.\<close>

definition first_embed :: "cMessage \<Rightarrow> (cEmbed \<Rightarrow> cEmbed eff) \<Rightarrow> cEmbed list eff" where
  "first_embed m f =
     bindE (at_index 0 (GetEmbeds m)) (\<lambda>e. bindE (f e) (\<lambda>e'. ret (e' # tl (GetEmbeds m))))"

definition update_with :: "cEmbed list \<Rightarrow> cActionRow list \<Rightarrow> cMessageUpdate" where
  "update_with es rows = no_update\<lparr>up_embeds := Some es, up_components := Some (map LRow rows)\<rparr>"

text \<open>The name of an author up to the last \<open>" was"\<close>.\<close>

definition plain_name :: "string \<Rightarrow> string" where
  "plain_name name = (case rfind '' was'' name of None \<Rightarrow> name | Some n \<Rightarrow> take n name)"

definition plain_author :: "cEmbed \<Rightarrow> cEmbed eff" where
  "plain_author e =
     bindE (deref (em_author e)) (\<lambda>a. ret (e\<lparr>em_author := Some (a\<lparr>ea_name := plain_name (ea_name a)\<rparr>)\<rparr>))"

section \<open>Giving a warning\<close>

definition timeout_days :: "int \<Rightarrow> int" where
  "timeout_days dt =
     (if dt < 3 * ms_day then 7 else if dt < 5 * ms_day then 5 else if dt < 15 * ms_day then 3 else 1)"

definition timeout_reason :: "int \<Rightarrow> string" where
  "timeout_reason dt =
     ''Was warned multiple times''
     @ (if dt \<le> ms_day then '' in a day''
        else if dt \<le> ms_month then '' within '' @ to_dec_int (ceil_div dt ms_day) @ '' days''
        else '' within '' @ to_dec_int (ceil_div dt ms_month) @ '' months'')"

definition warn_embed :: "target \<Rightarrow> int \<Rightarrow> string \<Rightarrow> cEmbed" where
  "warn_embed t now rsn =
     SetFields [embed_field ''Reason'' (if rsn = [] then ''`Unspecified`'' else rsn)]
       (SetAuthor (t_username t @ ('' was warned '' @ bytes [226, 154, 160, 239, 184, 143])) (target_avatar t)
         (SetColor LMG_COLOR_YELLOW (SetTimestamp now cEmbed_default)))"

definition warn_message :: "target \<Rightarrow> int \<Rightarrow> string \<Rightarrow> cPartialMessage" where
  "warn_message t now rsn =
     SetComponents
       [button_row [button Secondary (''infractions:'' @ ToString (t_id t)) ''View all infractions'',
                    button Danger (''unwarn:undo:'' @ ToString (t_id t) @ '':'' @ to_dec_int now) ''Undo'']]
       (embed_message (warn_embed t now rsn))"

definition timeout_message :: "target \<Rightarrow> int \<Rightarrow> int \<Rightarrow> cPartialMessage" where
  "timeout_message t now dt =
     SetComponents [button_row [button Danger (''timeout:'' @ ToString (t_id t)) ''Remove timeout'']]
       (embed_message
         (SetFields [embed_field ''Reason'' (timeout_reason dt)]
           (SetDescription (''User timed out for **'' @ to_dec_int (timeout_days dt) @ ''** day'' @ plural (timeout_days dt))
             (SetAuthor (t_username t) (target_avatar t)
               (SetColor LMG_COLOR_YELLOW (SetTimestamp now cEmbed_default))))))"

text \<open>
  Two transactions: one for the warning, committed once the answer was sent, and one for the
  timeout, committed once Discord has accepted it.
\<close>

definition register_warning :: "interaction \<Rightarrow> target \<Rightarrow> int \<Rightarrow> string \<Rightarrow> int eff" where
  "register_warning i t now rsn =
     seqE txn_begin (
     seqE (dao (InfractionsRegister (ToInt (t_id t)) now rsn)) (
     bindE (dao (GetRecentDeltaTime (ToInt (t_id t)))) (\<lambda>dt.
     seqE (reply i (warn_message t now rsn)) (
     seqE txn_commit (ret dt)))))"

definition time_out :: "cInteraction \<Rightarrow> target \<Rightarrow> int \<Rightarrow> int \<Rightarrow> unit eff" where
  "time_out i t now dt =
     seqE txn_begin (
     seqE (dao (InfractionsTimeOut (ToInt (t_id t)) now)) (
     bindE (guild_of i) (\<lambda>guild.
     seqE (ModifyGuildMember guild (t_id t) (SetCommunicationsDisabledUntil (now + timeout_days dt * ms_day) no_options))
     txn_commit)))"

definition process_warn_impl :: "interaction \<Rightarrow> target \<Rightarrow> string \<Rightarrow> unit eff" where
  "process_warn_impl i t rsn =
     (let now = GetTimestamp (i_id (base i)) in
      seqE (InteractionDefer i True) (
      with_txn (
        bindE (register_warning i t now rsn) (\<lambda>dt.
        if dt < 3 * ms_month then
          seqE (time_out (base i) t now dt) (reply i (timeout_message t now dt))
        else ret ()))))"

text \<open>Who cannot be warned; the first condition that holds gives the text.\<close>

definition PRITS :: string where "PRITS = (bytes [206, 160, 207, 129, 206, 185, 207, 132, 207, 130])"
definition VERY_HUMBLE :: string where "VERY_HUMBLE = (''You want to warn yourself? Very humble of you '' @ bytes [240, 159, 164, 163])"

definition warn_error :: "cSnowflake \<Rightarrow> cSnowflake \<Rightarrow> cUser \<Rightarrow> cPartialMember \<Rightarrow> string option" where
  "warn_error me invoker user member =
     (if sf_eq (u_id user) me then Some PRITS
      else if sf_eq (u_id user) invoker then Some VERY_HUMBLE
      else if u_bot user \<or> u_system user then Some (''You can't warn bots! Bots '' @ bytes [206, 181, 206, 189, 207, 137, 206, 188, 206, 173, 206, 189, 206, 177] @ '' '' @ bytes [207, 128, 206, 191, 207, 132, 206, 173] @ '' '' @ bytes [206, 189, 206, 185, 206, 186, 206, 183, 206, 188, 206, 173, 206, 189, 206, 177] @ ''! '' @ bytes [240, 159, 164, 150])
      else if TestAny (m_permissions member) P_ModerateMembers then Some ''You can't warn a fellow moderator!''
      else None)"

fun collect_warn_options ::
  "cAppCmdOption list \<Rightarrow> (cUser \<times> cPartialMember option) option \<Rightarrow> string \<Rightarrow> ((cUser \<times> cPartialMember option) option \<times> string) eff" where
  "collect_warn_options [] user rsn = ret (user, rsn)"
| "collect_warn_options (p # ps) user rsn =
     (if opt_name p = ''user'' then bindE (lift (GetValue_USER p)) (\<lambda>u. collect_warn_options ps (Some u) rsn)
      else if opt_name p = ''reason'' then bindE (lift (GetValue_STRING p)) (\<lambda>s. collect_warn_options ps user s)
      else raise (xRuntimeError ''Unexpected option''))"

definition warn_custom_id :: "target \<Rightarrow> string" where
  "warn_custom_id t =
     ToString (t_id t) @ '':'' @ t_username t @ '':'' @ t_avatar t @ '':'' @ to_dec (unat (t_discriminator t))"

definition warn_modal :: "target \<Rightarrow> string \<Rightarrow> cModal" where
  "warn_modal t name =
     \<lparr>mod_custom_id = ''warn:'' @ warn_custom_id t, mod_title = ''Warn @'' @ name,
      mod_components = [label_of ''Reason'' (text_input TEXT_INPUT_SHORT ''dummy_id'' False) []]\<rparr>"

text \<open>A target that is no member may be no user at all; a member comes with its user.\<close>

definition process_warn :: "cAppCmdInteraction \<Rightarrow> unit eff" where
  "process_warn i =
     handler ''process_warn'' (
     guarded P_ModerateMembers (ac_base i) (reply (AppCmd i) NO_PERM_MSG) (
     bindE
       (if ac_type i = APP_CMD_USER then
          bindE (front (ac_options i)) (\<lambda>p. bindE (lift (GetValue_USER p)) (\<lambda>u. ret (Some u, [])))
        else collect_warn_options (ac_options i) None []) (\<lambda>(target, rsn).
     case target of
       Some (user, Some member) \<Rightarrow>
         bindE GetUser_self (\<lambda>me.
         case warn_error (u_id me) (u_id (i_user (ac_base i))) user member of
           Some msg \<Rightarrow> reply (AppCmd i) (SetContent msg (ephemeral no_message))
         | None \<Rightarrow>
             if ac_type i = APP_CMD_USER then
               InteractionSendModal (AppCmd i) (warn_modal (target_of user) (display_name user (Some member)))
             else process_warn_impl (AppCmd i) (target_of user) rsn)
     | _ \<Rightarrow> reply (AppCmd i) (SetContent ''Warning non-members is kinda pointless, innit?'' (ephemeral no_message)))))"

definition parse_warn_id :: "string \<Rightarrow> exn + target" where
  "parse_warn_id s =
     (let bad = xRuntimeError ''Invalid warn modal custom id'' in
      bindS (colon_part bad s) (\<lambda>(a, r1).
      bindS (snowflake_of a) (\<lambda>uid.
      bindS (colon_part bad r1) (\<lambda>(username, r2).
      bindS (colon_part bad r2) (\<lambda>(avatar, d).
      bindS (parse_u16 d) (\<lambda>disc.
      Inr \<lparr>t_id = uid, t_avatar = avatar, t_username = username, t_discriminator = disc\<rparr>))))))"

definition process_warn_modal :: "cModalSubmitInteraction \<Rightarrow> string \<Rightarrow> unit eff" where
  "process_warn_modal i custom_id =
     handler ''process_warn'' (
     guarded P_ModerateMembers (mo_base i) (reply (ModalSubmit i) NO_PERM_MSG) (
     bindE (lift (parse_warn_id custom_id)) (\<lambda>t.
     bindE GetUser_self (\<lambda>me.
     if sf_eq (t_id t) (u_id me) then reply (ModalSubmit i) (SetContent PRITS (ephemeral no_message))
     else if sf_eq (t_id t) (u_id (i_user (mo_base i))) then
       reply (ModalSubmit i) (SetContent VERY_HUMBLE (ephemeral no_message))
     else
       bindE (front (mo_components i)) (\<lambda>c.
       bindE (label_input c) (\<lambda>ti. process_warn_impl (ModalSubmit i) t (pti_value ti)))))))"

section \<open>Viewing warnings\<close>

definition get_stats :: "cSnowflake \<Rightarrow> int \<Rightarrow> infraction_result eff" where
  "get_stats user now = dao (GetStatsByUser (ToInt user) now)"

text \<open>Options other than \<open>user\<close> are ignored.\<close>

fun find_user_option :: "cAppCmdOption list \<Rightarrow> (cUser \<times> cPartialMember option) option \<Rightarrow> (cUser \<times> cPartialMember option) option eff" where
  "find_user_option [] user = ret user"
| "find_user_option (p # ps) user =
     (if opt_name p = ''user'' then bindE (lift (GetValue_USER p)) (\<lambda>u. find_user_option ps (Some u))
      else find_user_option ps user)"

definition infractions_message :: "cUser \<Rightarrow> int \<Rightarrow> infraction_result \<Rightarrow> string option \<Rightarrow> cPartialMessage" where
  "infractions_message user now stats not_member_of =
     (let e0 = SetTimestamp now (SetColor LMG_COLOR_YELLOW (author_of user cEmbed_default));
          none = (inf_entries stats = []);
          e1 = (if none then SetDescription (bytes [226, 156, 133] @ '' No infractions found'') e0 else make_stats stats e0);
          e2 = (case not_member_of of None \<Rightarrow> e1
                | Some g \<Rightarrow> SetFooter (''Not a member of '' @ g @ (if none then [] else '' anymore'')) e1)
      in (if none then embed_message e2 else SetComponents [removal_row (u_id user)] (embed_message e2)))"

definition show_infractions :: "cAppCmdInteraction \<Rightarrow> cUser \<Rightarrow> cPartialMember option \<Rightarrow> unit eff" where
  "show_infractions i user member =
     (let now = GetTimestamp (i_id (ac_base i)) in
      seqE (InteractionDefer (AppCmd i) True) (
      bindE (with_txn (get_stats (u_id user) now)) (\<lambda>stats.
      bindE (case member of
               Some _ \<Rightarrow> ret None
             | None \<Rightarrow>
                 ResumeOnEventStrand
                   (bindE (guild_of (ac_base i)) (\<lambda>guild. bindE (guild_name guild) (\<lambda>g. ret (Some g))))) (\<lambda>g.
      reply (AppCmd i) (infractions_message user now stats g)))))"

definition process_infractions :: "cAppCmdInteraction \<Rightarrow> unit eff" where
  "process_infractions i =
     handler ''process_infractions'' (
     bindE
       (if ac_type i = APP_CMD_USER then
          bindE (front (ac_options i)) (\<lambda>p. bindE (lift (GetValue_USER p)) (\<lambda>u. ret (Some u)))
        else find_user_option (ac_options i) None) (\<lambda>target.
     case target of
       None \<Rightarrow> show_infractions i (i_user (ac_base i)) (i_member (ac_base i))
     | Some (user, member) \<Rightarrow>
         guarded P_ModerateMembers (ac_base i) (reply (AppCmd i) ONLY_YOUR_OWN) (show_infractions i user member)))"

definition edit_message :: "cMsgCompInteraction \<Rightarrow> cMessageUpdate \<Rightarrow> unit eff" where
  "edit_message i upd = bindE (InteractionEditMessage (MsgComp i) upd sf_default) (\<lambda>_. ret ())"

definition stats_update :: "cMsgCompInteraction \<Rightarrow> cSnowflake \<Rightarrow> int \<Rightarrow> infraction_result \<Rightarrow> cMessageUpdate eff" where
  "stats_update i user now stats =
     bindE (first_embed (mc_message i) (\<lambda>e.
              bindE (plain_author (SetTimestamp now e)) (\<lambda>e'.
              ret (if inf_entries stats = [] then ResetFields (SetDescription (bytes [226, 156, 133] @ '' No infractions found'') e')
                   else make_stats stats e')))) (\<lambda>es.
     ret (update_with es (if inf_entries stats = [] then [] else [removal_row user])))"

definition process_infractions_button :: "cMsgCompInteraction \<Rightarrow> cSnowflake \<Rightarrow> unit eff" where
  "process_infractions_button i user =
     handler ''process_infractions_button'' (
     let body =
       (let now = GetTimestamp (i_id (mc_base i)) in
        seqE (InteractionDefer (MsgComp i) False) (
        bindE (with_txn (get_stats user now)) (\<lambda>stats.
        bindE (stats_update i user now stats) (edit_message i))))
     in
     if sf_eq (u_id (i_user (mc_base i))) user then body
     else guarded P_ModerateMembers (mc_base i) (reply (MsgComp i) ONLY_YOUR_OWN) body)"

section \<open>Removing warnings\<close>

text \<open>A label and an identifier for the first button of an action row.\<close>

definition relabel :: "string \<Rightarrow> string \<Rightarrow> cActionRow \<Rightarrow> cActionRow eff" where
  "relabel label cid row =
     (case ar_components row of
        [] \<Rightarrow> raise (xOutOfRange ''front'')
      | RButton b # cs \<Rightarrow> ret (row\<lparr>ar_components := RButton (SetCustomId cid (SetLabel label b)) # cs\<rparr>)
      | _ \<Rightarrow> raise xBadVariantAccess)"

text \<open>The menu is taken away: the second row is what remains, with its button as it was.\<close>

definition without_menu :: "cMsgCompInteraction \<Rightarrow> string \<Rightarrow> cActionRow list eff" where
  "without_menu i user =
     bindE (at_index 1 (GetComponents (mc_message i))) (\<lambda>row.
     bindE (relabel ''Remove an infraction'' (''unwarn:'' @ user) row) (\<lambda>row'. ret [row']))"

definition menu_row :: "cSnowflake \<Rightarrow> infraction_entry list \<Rightarrow> cActionRow" where
  "menu_row user es =
     action_row [RSelect \<lparr>sm_id = 0, sm_custom_id = ''unwarn:menu:'' @ ToString user,
       sm_placeholder = ''Choose which infraction to remove'',
       sm_options = map (\<lambda>e. select_option (if inf_reason e = [] then ''Unspecified'' else inf_reason e)
                               (to_dec_int (inf_timestamp e))) es\<rparr>]"

text \<open>The menu is put above the rows of the message, whose first button now cancels.\<close>

definition with_menu :: "cMsgCompInteraction \<Rightarrow> cSnowflake \<Rightarrow> infraction_entry list \<Rightarrow> cActionRow list eff" where
  "with_menu i user es =
     (let rows = GetComponents (mc_message i) in
      bindE (at_index 0 rows) (\<lambda>row.
      bindE (relabel ''Cancel'' (''unwarn:cancel:'' @ ToString user) row) (\<lambda>row'.
      ret (menu_row user es # row' # tl rows))))"

definition empty_stats :: "int \<Rightarrow> string \<Rightarrow> cMsgCompInteraction \<Rightarrow> cMessageUpdate eff" where
  "empty_stats now txt i =
     bindE (first_embed (mc_message i) (\<lambda>e. ret (ResetFields (SetDescription txt (SetTimestamp now e))))) (\<lambda>es.
     ret (update_with es []))"

definition remove_selected :: "cMsgCompInteraction \<Rightarrow> int \<Rightarrow> string \<Rightarrow> cMessageUpdate eff" where
  "remove_selected i now s =
     bindE (to_snowflake s) (\<lambda>user.
     bindE (front (mc_values i)) (\<lambda>v.
     bindE (lift (parse_i64 v)) (\<lambda>ts.
     seqE (dao (InfractionsDelete (ToInt user) ts)) (
     bindE (get_stats user now) (\<lambda>stats.
     if inf_entries stats = [] then empty_stats now (bytes [226, 156, 133] @ '' All infractions removed'') i
     else
       bindE (first_embed (mc_message i) (\<lambda>e. ret (make_stats stats (SetTimestamp now e)))) (\<lambda>es.
       bindE (without_menu i (ToString user)) (\<lambda>rows. ret (update_with es rows))))))))"

definition remove_all :: "cMsgCompInteraction \<Rightarrow> int \<Rightarrow> string \<Rightarrow> cMessageUpdate eff" where
  "remove_all i now s =
     bindE (to_snowflake s) (\<lambda>user.
     seqE (dao (InfractionsDeleteAll (ToInt user)))
       (empty_stats now (bytes [226, 156, 133] @ '' All infractions removed'') i))"

definition undo_warning :: "cMsgCompInteraction \<Rightarrow> int \<Rightarrow> string \<Rightarrow> string \<Rightarrow> cMessageUpdate eff" where
  "undo_warning i now s t =
     bindE (to_snowflake s) (\<lambda>user.
     bindE (lift (parse_i64 t)) (\<lambda>ts.
     seqE (dao (InfractionsDelete (ToInt user) ts)) (
     bindE (first_embed (mc_message i) (\<lambda>e.
              bindE (plain_author (SetTimestamp now (SetDescription (bytes [226, 156, 133] @ '' Infraction removed'') e))) (\<lambda>e'. ret (ResetFields e')))) (\<lambda>es.
     ret (update_with es [])))))"

definition open_menu :: "cMsgCompInteraction \<Rightarrow> int \<Rightarrow> string \<Rightarrow> cMessageUpdate eff" where
  "open_menu i now s =
     bindE (to_snowflake s) (\<lambda>user.
     bindE (get_stats user now) (\<lambda>stats.
     if inf_entries stats = [] then empty_stats now (bytes [226, 156, 133] @ '' No infractions to remove'') i
     else
       bindE (first_embed (mc_message i) (\<lambda>e. ret (make_stats stats (SetTimestamp now e)))) (\<lambda>es.
       bindE (with_menu i user (inf_entries stats)) (\<lambda>rows. ret (update_with es rows)))))"

definition removal_update :: "cMsgCompInteraction \<Rightarrow> int \<Rightarrow> string \<Rightarrow> cMessageUpdate eff" where
  "removal_update i now fmt =
     (if starts_with ''menu:'' fmt then remove_selected i now (drop 5 fmt)
      else if starts_with ''all:'' fmt then remove_all i now (drop 4 fmt)
      else
        case (if starts_with ''undo:'' fmt then split_colon (drop 5 fmt) else None) of
          Some (s, t) \<Rightarrow> undo_warning i now s t
        | None \<Rightarrow> open_menu i now fmt)"

text \<open>What is removed is committed once the message was edited.\<close>

definition process_infractions_remove :: "cMsgCompInteraction \<Rightarrow> string \<Rightarrow> unit eff" where
  "process_infractions_remove i fmt =
     handler ''process_infractions_remove'' (
     guarded P_ModerateMembers (mc_base i) (reply (MsgComp i) NO_PERM_MSG) (
     let now = GetTimestamp (i_id (mc_base i)) in
     if starts_with ''cancel:'' fmt then
       bindE (without_menu i (drop 7 fmt)) (\<lambda>rows. edit_message i (no_update\<lparr>up_components := Some (map LRow rows)\<rparr>))
     else
       seqE (InteractionDefer (MsgComp i) False) (
       with_txn (
         seqE txn_begin (
         bindE (removal_update i now fmt) (\<lambda>upd.
         seqE (edit_message i upd) txn_commit))))))"

definition process_timeout_remove :: "cMsgCompInteraction \<Rightarrow> cSnowflake \<Rightarrow> unit eff" where
  "process_timeout_remove i user =
     handler ''process_timeout_remove'' (
     guarded P_ModerateMembers (mc_base i) (reply (MsgComp i) NO_PERM_MSG) (
     bindE (empty_stats (GetTimestamp (i_id (mc_base i))) (bytes [226, 156, 133] @ '' Timeout removed'') i) (\<lambda>upd.
     bindE (guild_of (mc_base i)) (\<lambda>guild.
     seqE (ModifyGuildMember guild user (SetCommunicationsDisabledUntil 0 no_options)) (edit_message i upd)))))"

end
