(* ===== verification/Nicknames.thy ===== *)
theory Nicknames
  imports LMG
begin

text \<open>
  Nicknames (GreekBot/Nicknames.cpp): the notifications about members who need one, what is
  restored when they come back, and the command that lists the members without one.
\<close>

section \<open>Notifications\<close>

fun is_unknown_message :: "exn \<Rightarrow> bool" where
  "is_unknown_message (xDiscordError c s) = (c = eUnknownMessage)"
| "is_unknown_message e = False"

text \<open>A message that Discord does not know any more was deleted already.\<close>

definition unless_gone :: "unit eff \<Rightarrow> unit eff" where
  "unless_gone m = catchE is_unknown_message m (\<lambda>_. ret ())"

definition uid_of :: "cUser \<Rightarrow> u64" where
  "uid_of u = ToInt (u_id u)"

definition process_nick_new_member :: "cMember \<Rightarrow> unit eff" where
  "process_nick_new_member member =
     handler ''process_nick_new_member'' (
     bindE (deref (m_user member)) (\<lambda>user.
     bindE (with_txn (dao (NicknamesDeleteMessage (uid_of user)))) (\<lambda>msg_id.
     case msg_id of
       None \<Rightarrow> ret ()
     | Some m \<Rightarrow> unless_gone (DeleteMessage LMG_CHANNEL_NEW_MEMBERS (sf_of_int m) []))))"

text \<open>The message with a text and buttons, the last of which dismisses it in the name of the bot.\<close>

definition notification :: "string \<Rightarrow> cButton list \<Rightarrow> layout list eff" where
  "notification txt bs =
     bindE GetUser_self (\<lambda>me.
     ret [LText (text_display txt), LRow (button_row (bs @ [dismiss_button (u_id me)]))])"

definition edit_notification :: "u64 \<Rightarrow> layout list \<Rightarrow> unit eff" where
  "edit_notification msg comps =
     bindE (EditMessage LMG_CHANNEL_NEW_MEMBERS (sf_of_int msg) (no_update\<lparr>up_components := Some comps\<rparr>)) (\<lambda>_. ret ())"

definition create_notification :: "layout list \<Rightarrow> cMessage eff" where
  "create_notification comps = CreateMessage LMG_CHANNEL_NEW_MEMBERS (V2 \<lparr>v2_flags = 0, v2_components = comps\<rparr>)"

definition has_proficiency :: "cSnowflake list \<Rightarrow> bool" where
  "has_proficiency roles \<longleftrightarrow> list_ex (\<lambda>r. sf_in r LMG_PROFICIENCY_ROLES) roles"

text \<open>Not verified yet: no nickname, no proficiency and no notification.\<close>

definition reset_member :: "cMemberUpdate \<Rightarrow> unit eff" where
  "reset_member member =
     (let roles = mu_roles member;
          new_roles = filter (\<lambda>r. \<not> sf_in r LMG_PROFICIENCY_ROLES) roles;
          uid = uid_of (mu_user member) in
      seqE (whenE (mu_nick member \<noteq> [] \<or> length new_roles \<noteq> length roles)
              (ModifyGuildMember LMG_GUILD_ID (u_id (mu_user member)) (SetRoles new_roles (SetNick [] no_options)))) (
      seqE txn_begin (
      bindE (dao (NicknamesDeleteMessage uid)) (\<lambda>msg_id.
      case msg_id of None \<Rightarrow> ret () | Some m \<Rightarrow> DeleteMessage LMG_CHANNEL_NEW_MEMBERS (sf_of_int m) []))))"

definition save_nickname :: "cMemberUpdate \<Rightarrow> unit eff" where
  "save_nickname member =
     (let uid = uid_of (mu_user member) in
      seqE (dao (NicknamesUpdate uid (mu_nick member))) (
      seqE txn_begin (
      bindE (dao (NicknamesDeleteMessage uid)) (\<lambda>msg_id.
      case msg_id of
        None \<Rightarrow> ret ()
      | Some m \<Rightarrow>
          bindE (notification (fmt_u (u_id (mu_user member)) @ '' Just got a nickname!'') []) (edit_notification m)))))"

definition restore_nickname :: "cMemberUpdate \<Rightarrow> unit eff" where
  "restore_nickname member =
     (let user = u_id (mu_user member); uid = uid_of (mu_user member) in
      seqE txn_begin (
      bindE (dao (NicknamesGet uid)) (\<lambda>entry.
      if entry_nick entry \<noteq> [] then
        seqE (ModifyGuildMember LMG_GUILD_ID user (SetNick (entry_nick entry) no_options)) (
        bindE (notification (fmt_u user @ '' rejoined and their nickname was restored!'') []) (\<lambda>comps.
        case entry_msg_id entry of
          Some m \<Rightarrow> bindE (dao (NicknamesDeleteMessage uid)) (\<lambda>_. edit_notification m comps)
        | None \<Rightarrow> bindE (create_notification comps) (\<lambda>_. ret ())))
      else if entry_msg_id entry = None then
        bindE (notification (fmt_u user @ '' just got a rank!'')
                 [button Primary (''NCK#'' @ ToString user) ''Assign nickname'']) (\<lambda>comps.
        bindE (create_notification comps) (\<lambda>m.
        dao (NicknamesRegisterMessage uid (ToInt (ms_id m)))))
      else ret ())))"

text \<open>The commit at the end does nothing if no transaction was begun.\<close>

definition process_nick_member_update :: "cMemberUpdate \<Rightarrow> unit eff" where
  "process_nick_member_update member =
     handler ''process_nick_member_update'' (
     with_txn (
       seqE (unless_gone
              (if mu_pending member then reset_member member
               else if mu_nick member \<noteq> [] then save_nickname member
               else if has_proficiency (mu_roles member) then restore_nickname member
               else ret ()))
         txn_commit))"

definition process_nick_member_remove :: "cUser \<Rightarrow> unit eff" where
  "process_nick_member_remove user =
     handler ''process_nick_member_remove'' (
     with_txn (
       seqE txn_begin (
       seqE (bindE (dao (NicknamesDeleteMessage (uid_of user))) (\<lambda>msg_id.
             case msg_id of
               None \<Rightarrow> ret ()
             | Some m \<Rightarrow> unless_gone (DeleteMessage LMG_CHANNEL_NEW_MEMBERS (sf_of_int m) [])))
         txn_commit)))"

section \<open>The list of members without a nickname\<close>

datatype member_group = NonLearner | FluentSpeaker | Learner

text \<open>The first role that tells the proficiency decides.\<close>

definition group_of_role :: "cSnowflake \<Rightarrow> member_group option" where
  "group_of_role r =
     (if sf_in r [LMG_ROLE_NATIVE, LMG_ROLE_NON_LEARNER] then Some NonLearner
      else if sf_eq r LMG_ROLE_FLUENT then Some FluentSpeaker
      else if sf_in r [LMG_ROLE_BEGINNER, LMG_ROLE_ELEMENTARY, LMG_ROLE_INTERMEDIATE,
                       LMG_ROLE_UPPER_INTERMEDIATE, LMG_ROLE_ADVANCED] then Some Learner
      else None)"

fun group_of_roles :: "cSnowflake list \<Rightarrow> member_group option" where
  "group_of_roles [] = None"
| "group_of_roles (r # rs) = (case group_of_role r of None \<Rightarrow> group_of_roles rs | Some g \<Rightarrow> Some g)"

definition in_group :: "member_group \<Rightarrow> cMember \<Rightarrow> bool" where
  "in_group g m \<longleftrightarrow> m_nick m = [] \<and> group_of_roles (m_roles m) = Some g"

definition section_text :: "string \<Rightarrow> cSnowflake list \<Rightarrow> string" where
  "section_text title ids =
     (if ids = [] then []
      else butlast (title @ newline @ concat (map (\<lambda>i. fmt_u i @ '' '') ids)) @ newline)"

definition report_text :: "cSnowflake list \<Rightarrow> cSnowflake list \<Rightarrow> cSnowflake list \<Rightarrow> string" where
  "report_text learners fluents nonlearners =
     (let s = section_text ''## Learners'' learners @ section_text ''## Fluents'' fluents
            @ section_text ''## Natives and non-learners'' nonlearners
      in if s = [] then ''Nothing to show'' else s)"

text \<open>
  A text that is too long is cut at the last space up to position 2000. Where there is none
  the search for it never ends, which is the result \<open>None\<close>.
\<close>

function chunks :: "string \<Rightarrow> string list option" where
  "chunks s =
     (if length s \<le> 2000 then Some [s]
      else case rfind_char (CHR '' '') (take 2001 s) of
        None \<Rightarrow> None
      | Some p \<Rightarrow> map_option (Cons (take p s)) (chunks (drop (Suc p) s)))"
  by pat_completeness auto
termination
  by (relation "measure length") auto

declare chunks.simps [simp del]

definition nicknames_message :: "cInteraction \<Rightarrow> string \<Rightarrow> cPartialMessage" where
  "nicknames_message i s = SetContent s (SetComponents [button_row [dismiss_button (u_id (i_user i))]] no_message)"

definition user_ids :: "cMember list \<Rightarrow> cSnowflake list eff" where
  "user_ids ms = mapE (\<lambda>m. bindE (deref (m_user m)) (\<lambda>u. ret (u_id u))) ms"

definition send_report :: "cAppCmdInteraction \<Rightarrow> cMember list \<Rightarrow> unit eff" where
  "send_report i ms =
     bindE (user_ids (filter (in_group Learner) ms)) (\<lambda>ls.
     bindE (user_ids (filter (in_group FluentSpeaker) ms)) (\<lambda>fs.
     bindE (user_ids (filter (in_group NonLearner) ms)) (\<lambda>ns.
     case chunks (report_text ls fs ns) of
       Some cs \<Rightarrow> forE cs (\<lambda>c. reply (AppCmd i) (nicknames_message (ac_base i) c))
     | None \<Rightarrow> raise (xRuntimeError ''no end''))))"

definition try_again_text :: "int \<Rightarrow> int \<Rightarrow> string" where
  "try_again_text now retry_ms =
     ''You are being rate limited. Try again <t:'' @ to_dec_int ((now + retry_ms * ns_ms) div ns_second) @ '':R>''"

text \<open>The members that arrived before a rate limit are dropped, unless there is nothing to wait for.\<close>

definition report_members :: "cAppCmdInteraction \<Rightarrow> cMember list \<Rightarrow> exn option \<Rightarrow> unit eff" where
  "report_members i ms e =
     (case e of
        None \<Rightarrow> send_report i ms
      | Some (xRateLimitError retry_ms g) \<Rightarrow>
          if retry_ms \<noteq> 0 then
            bindE system_now (\<lambda>now. reply (AppCmd i) (nicknames_message (ac_base i) (try_again_text now retry_ms)))
          else send_report i ms
      | Some x \<Rightarrow> raise x)"

definition process_nicknames :: "cAppCmdInteraction \<Rightarrow> unit eff" where
  "process_nicknames i =
     handler ''process_nicknames'' (
     guarded P_ManageNicknames (ac_base i)
       (reply (AppCmd i) (SetContent
          (''You can't do that! You're missing the `'' @ FormatString P_ManageNicknames @ ''` permission.'') (ephemeral no_message)))
     (seqE (InteractionDefer (AppCmd i) False) (
      \<lambda>w. case RequestGuildMembers LMG_GUILD_ID w of ((ms, e), w1) \<Rightarrow> report_members i ms e w1)))"

section \<open>The report fits into messages\<close>

text \<open>\<open>gap k s\<close>: no stretch without a space is longer than 2000, the first counted from \<open>k\<close> on.\<close>

fun gap :: "nat \<Rightarrow> string \<Rightarrow> bool" where
  "gap k [] \<longleftrightarrow> True"
| "gap k (c # s) \<longleftrightarrow> (if c = CHR '' '' then gap 0 s else k < 2000 \<and> gap (Suc k) s)"

lemma gap_mono: "gap k s \<Longrightarrow> j \<le> k \<Longrightarrow> gap j s"
proof (induction k s arbitrary: j rule: gap.induct)
  case (2 k c s)
  then show ?case using "2.IH"(2) [of "Suc j"] by (auto split: if_splits)
qed simp

lemma gap_append: "k + length x \<le> 2000 \<Longrightarrow> gap (k + length x) s \<Longrightarrow> gap k (x @ s)"
proof (induction x arbitrary: k)
  case (Cons c x)
  then show ?case using Cons.IH [of "Suc k"] Cons.IH [of 0] gap_mono [of "k + length (c # x)" s "length x"] by simp
qed simp

lemma gap_drop: "gap k s \<Longrightarrow> \<exists>j. gap j (drop n s)"
proof (induction k s arbitrary: n rule: gap.induct)
  case (2 k c s)
  then show ?case by (cases n) (auto split: if_splits)
qed simp

lemma gap_space: "gap k s \<Longrightarrow> 2000 < k + length s \<Longrightarrow> k \<le> 2000 \<Longrightarrow> CHR '' '' \<in> set (take (2001 - k) s)"
proof (induction k s rule: gap.induct)
  case (2 k c s)
  have "2001 - k = Suc (2000 - k)" using "2.prems"(3) by simp
  with 2 show ?case by (cases "c = CHR '' ''") simp_all
qed simp

lemma rfind_char_Some:
  "rfind_char c s = Some p \<Longrightarrow> p < length s \<and> s ! p = c"
  by (auto simp: rfind_char_def find_Some_iff rev_nth)

lemma rfind_char_in: "c \<in> set s \<Longrightarrow> \<exists>p. rfind_char c s = Some p"
  by (auto simp: rfind_char_def in_set_conv_nth find_None_iff not_None_eq [symmetric])

lemma length_newline [simp]: "length newline = 1"
  by (simp add: newline_def bytes_def)

text \<open>The pieces joined with the spaces at which the text was cut.\<close>

fun rejoin :: "string list \<Rightarrow> string" where
  "rejoin [] = []"
| "rejoin [c] = c"
| "rejoin (c # cs) = c @ '' '' @ rejoin cs"

lemma rejoin_Cons: "cs \<noteq> [] \<Longrightarrow> rejoin (c # cs) = c @ '' '' @ rejoin cs"
  by (cases cs) simp_all

lemma chunks_of_gap:
  "gap 0 s \<Longrightarrow> \<exists>cs. chunks s = Some cs \<and> cs \<noteq> [] \<and> (\<forall>c \<in> set cs. length c \<le> 2000) \<and> rejoin cs = s"
proof (induction s rule: chunks.induct)
  case (1 s)
  show ?case
  proof (cases "length s \<le> 2000")
    case False
    then have "CHR '' '' \<in> set (take 2001 s)" using gap_space [OF 1(2)] by simp
    then obtain p where p: "rfind_char (CHR '' '') (take 2001 s) = Some p" using rfind_char_in by blast
    then have p': "p \<le> 2000" "p < length s" "s ! p = CHR '' ''" using rfind_char_Some [OF p] by auto
    obtain j where "gap j (drop (Suc p) s)" using gap_drop [OF 1(2)] by blast
    then have "gap 0 (drop (Suc p) s)" by (rule gap_mono) simp
    from 1(1) [OF False p this] obtain cs where
      "chunks (drop (Suc p) s) = Some cs" "cs \<noteq> []" "\<forall>c \<in> set cs. length c \<le> 2000" "rejoin cs = drop (Suc p) s" by blast
    with p p' False id_take_nth_drop [OF p'(2)] show ?thesis
      by (subst chunks.simps) (auto simp: rejoin_Cons)
  qed (subst chunks.simps, simp)
qed

lemma length_fmt_u: "length (ToString i) \<le> 20 \<Longrightarrow> length (fmt_u i) \<le> 23"
  by (simp add: fmt_u_def sf_format_def)

lemma gap_ids:
  assumes "ids \<noteq> []" "\<forall>i \<in> set ids. length (ToString i) \<le> 20" "k + 30 \<le> 2000" "gap (k + 30) t"
  shows "gap k (butlast (concat (map (\<lambda>i. fmt_u i @ '' '') ids)) @ newline @ t)"
  using assms
proof (induction ids arbitrary: k)
  case (Cons i ids)
  have l: "length (fmt_u i) \<le> 23" using Cons.prems(2) by (simp add: length_fmt_u)
  show ?case
  proof (cases "ids = []")
    case True
    have "gap k ((fmt_u i @ newline) @ t)"
      by (rule gap_append) (use l Cons.prems(3,4) in \<open>auto elim: gap_mono\<close>)
    then show ?thesis using True by (simp add: butlast_append)
  next
    case False
    have "gap (0 + 30) t" using gap_mono [OF Cons.prems(4)] by simp
    with Cons.IH [of 0] False Cons.prems have
      "gap 0 (butlast (concat (map (\<lambda>i. fmt_u i @ '' '') ids)) @ newline @ t)" by simp
    then have "gap (k + length (fmt_u i)) ('' '' @ butlast (concat (map (\<lambda>i. fmt_u i @ '' '') ids)) @ newline @ t)"
      by simp
    then have "gap k (fmt_u i @ '' '' @ butlast (concat (map (\<lambda>i. fmt_u i @ '' '') ids)) @ newline @ t)"
      by (rule gap_append [rotated]) (use l Cons.prems(3) in simp_all)
    then show ?thesis using False by (cases ids) (simp_all add: butlast_append)
  qed
qed simp

lemma gap_section:
  assumes "\<forall>i \<in> set ids. length (ToString i) \<le> 20" "length title \<le> 30" "k + 61 \<le> 2000" "gap (k + 61) t"
  shows "gap k (section_text title ids @ t)"
proof (cases "ids = []")
  case False
  have "gap (k + length (title @ newline)) (butlast (concat (map (\<lambda>i. fmt_u i @ '' '') ids)) @ newline @ t)"
    by (rule gap_ids) (use False assms gap_mono [OF assms(4)] in \<open>simp_all\<close>)
  then have "gap k ((title @ newline) @ butlast (concat (map (\<lambda>i. fmt_u i @ '' '') ids)) @ newline @ t)"
    by (rule gap_append [rotated]) (use assms(2,3) in \<open>simp_all\<close>)
  moreover have "concat (map (\<lambda>i. fmt_u i @ '' '') ids) \<noteq> []" using False by (cases ids) simp_all
  ultimately show ?thesis using False by (simp add: section_text_def butlast_append)
qed (use gap_mono [OF assms(4)] in \<open>simp add: section_text_def\<close>)

section \<open>Properties\<close>

text \<open>
  C31: the report of the members without a nickname is always cut into messages: the search
  for a space to cut at ends, every message has at most 2000 characters, and together they
  are the report with nothing lost but the spaces between them.
\<close>

theorem nickname_report_fits:
  assumes "\<forall>i \<in> set (ls @ fs @ ns). length (ToString i) \<le> 20"
  shows "\<exists>cs. chunks (report_text ls fs ns) = Some cs \<and> cs \<noteq> [] \<and> (\<forall>c \<in> set cs. length c \<le> 2000)
     \<and> rejoin cs = report_text ls fs ns"
proof (rule chunks_of_gap)
  have "gap 0 (section_text ''## Learners'' ls @ section_text ''## Fluents'' fs
            @ section_text ''## Natives and non-learners'' ns @ [])"
    by (intro gap_section) (use assms in simp_all)
  then show "gap 0 (report_text ls fs ns)" by (simp add: report_text_def Let_def)
qed

theorem nickname_report_fits_witness:
  "\<exists>cs. chunks (report_text (replicate 200 (sf_of_int 7)) [sf_of_int 8] []) = Some cs \<and> (\<forall>c \<in> set cs. length c \<le> 2000)"
  using nickname_report_fits [of "replicate 200 (sf_of_int 7)" "[sf_of_int 8]" "[]"]
  by (auto simp: ToString_def sf_of_int_def to_dec.simps)

end
