(* ===== verification/Heartbeat.thy ===== *)
theory Heartbeat
  imports LMG
begin

text \<open>
  What is done every few hours (GreekBot/GreekBot_TimedActions.cpp): old messages and stale
  nicknames are forgotten, expired bans are lifted, members without a role are removed and
  colour roles are taken from those who stopped boosting.
\<close>

definition now_ms :: "int eff" where
  "now_ms = bindE system_now (\<lambda>t. ret (t div ns_ms))"

text \<open>
  A ban that Discord does not know counts as an error: its row is kept. A message that cannot
  be sent does not matter.
\<close>

definition lift_ban :: "u64 \<Rightarrow> u64 list \<Rightarrow> u64 list eff" where
  "lift_ban uid unbanned =
     bindE (catchE is_discord_error
              (seqE (RemoveGuildBan LMG_GUILD_ID (sf_of_int uid) ''Temporary ban expired'') (ret True))
              (\<lambda>_. ret False)) (\<lambda>ok.
     if ok then
       seqE (catchE is_discord_error (post LMG_CHANNEL_USER_LOG (SetContent (fmt_u (sf_of_int uid) @ (bytes [39, 115, 32, 98, 97, 110, 32, 101, 120, 112, 105, 114, 101, 100])) no_message))
               (\<lambda>_. ret ()))
         (ret (unbanned @ [uid]))
     else ret unbanned)"

definition lift_bans :: "unit eff" where
  "lift_bans =
     bindE now_ms (\<lambda>now.
     bindE (dao (GetExpired now)) (\<lambda>expired.
     bindE (foldE lift_ban expired []) (\<lambda>unbanned.
     whenE (unbanned \<noteq> []) (dao (TempBanRemoveAll unbanned)))))"

definition member_days :: "int \<Rightarrow> cMember \<Rightarrow> int" where
  "member_days started_at m = (started_at - m_joined_at m * ns_ms) div ns_day"

definition kick_text :: "string \<Rightarrow> int \<Rightarrow> string" where
  "kick_text guild days =
     ''You have been kicked from **'' @ guild @ ''** because **'' @ to_dec_int days @ ''** day'' @ plural days
     @ ('' have passed since you joined and you didn't get a proficiency rank.'' @ bytes [10, 10] @ ''But don't fret! You are free to rejoin, just make sure to:'' @ bytes [10])
     @ (''- Verify your phone number'' @ bytes [10] @ ''- Get a proficiency rank as mentioned in `#welcoming`'' @ bytes [10] @ ''https://discord.gg/greek'')"

definition without_colors :: "cSnowflake list \<Rightarrow> cSnowflake list" where
  "without_colors roles = filter (\<lambda>r. \<not> sf_in r LMG_NITRO_BOOSTER_COLOR_ROLES) roles"

text \<open>One member; the result tells whether the member was removed.\<close>

definition prune_member :: "string \<Rightarrow> int \<Rightarrow> cMember \<Rightarrow> bool eff" where
  "prune_member guild started_at m =
     (if member_days started_at m \<ge> 2 \<and> m_roles m = [] then
        bindE (deref (m_user m)) (\<lambda>user.
        seqE (catchE (\<lambda>_. True)
                (bindE (CreateDMMessage (u_id user) (Legacy (SetContent (kick_text guild (member_days started_at m)) no_message))) (\<lambda>_. ret ()))
                (\<lambda>_. ret ())) (
        seqE (RemoveGuildMember LMG_GUILD_ID (u_id user) ''Failed to get a rank'') (ret True)))
      else if m_premium_since m = 0 \<and> TestNone (m_permissions m) P_ManageRoles then
        bindE (deref (m_user m)) (\<lambda>user.
        seqE (whenE (length (without_colors (m_roles m)) \<noteq> length (m_roles m))
                (catchE is_discord_error
                  (ModifyGuildMember LMG_GUILD_ID (u_id user) (SetRoles (without_colors (m_roles m)) no_options))
                  (\<lambda>_. ret ())))
          (ret False))
      else ret False)"

text \<open>
  The loop over the members counts; an exception ends it, and with it the search for members.
  When there are no members left, control comes from the strand of the websocket.
\<close>

fun prune_loop :: "string \<Rightarrow> int \<Rightarrow> cMember list \<Rightarrow> nat \<Rightarrow> world \<Rightarrow> nat \<times> world" where
  "prune_loop guild started_at [] n w = (n, w\<lparr>w_strand := SocketStrand\<rparr>)"
| "prune_loop guild started_at (m # ms) n w =
     (case prune_member guild started_at m (next_member m w) of
        (Inl e, w1) \<Rightarrow> (n, w1)
      | (Inr kicked, w1) \<Rightarrow> prune_loop guild started_at ms (if kicked then Suc n else n) w1)"

definition prune :: "nat eff" where
  "prune =
     catchE (\<lambda>_. True)
       (ResumeOnEventStrand (
        bindE (guild_name LMG_GUILD_ID) (\<lambda>guild.
        bindE system_now (\<lambda>started_at w.
        case RequestGuildMembers LMG_GUILD_ID w of
          ((ms, e), w1) \<Rightarrow> (case prune_loop guild started_at ms 0 w1 of (n, w2) \<Rightarrow> (Inr n, w2))))))
       (\<lambda>_. ret 0)"

definition timed_actions :: "unit eff" where
  "timed_actions =
     with_txn (
       bindE now_ms (\<lambda>now.
       bindE (dao (MessageLogCleanup now)) (\<lambda>_.
       bindE (dao NicknamesCleanup) (\<lambda>_.
       seqE lift_bans (
       bindE prune (\<lambda>n.
       whenE (n \<noteq> 0)
         (post LMG_CHANNEL_USER_LOG
           (SetContent (''Pruned **'' @ to_dec n @ ''** member'' @ plural (int n)) no_message))))))))"

definition three_hours :: int where "three_hours = 3 * 3600 * ns_second"

text \<open>The actions are not repeated before three hours have passed, even if they fail.\<close>

definition OnHeartbeat :: "unit eff" where
  "OnHeartbeat =
     catchE (\<lambda>_. True)
       (bindE steady_now (\<lambda>now.
        bindE (\<lambda>w. (Inr (w_before w), visit TheHeartbeat w)) (\<lambda>before.
        if now - before > three_hours then
          seqE (putE (\<lambda>w. (visit TheHeartbeat w)\<lparr>w_before := now\<rparr>)) timed_actions
        else ret ())))
       (\<lambda>_. ret ())"

end
