(* ===== verification/Handlers.thy ===== *)
theory Handlers
  imports Levels Starboard Commands Events Infractions Nicknames Heartbeat
begin

text \<open>
  Where events and interactions come in (GreekBot.cpp, GreekBot_Members.cpp,
  GreekBot_MessageEvents.cpp) and are handed to what deals with them, and the command that
  cleans a link (Sanitize.cpp). An exception that leaves a handler is reported and does not
  keep the next handler from running.
\<close>

section \<open>Sanitizing links\<close>

definition ends_with :: "string \<Rightarrow> string \<Rightarrow> bool" where
  "ends_with p s \<longleftrightarrow> starts_with (rev p) (rev s)"

definition sanitized :: "string \<Rightarrow> string eff" where
  "sanitized s =
     bindE (getE (\<lambda>w. w_parse_uri w s)) (\<lambda>uri.
     bindE (getE w_erase_param) (\<lambda>erase.
     case uri of
       None \<Rightarrow> ret ''Please provide a youtube url.''
     | Some (host, scheme) \<Rightarrow>
         if \<not> ends_with ''youtube.com'' host \<and> \<not> ends_with ''youtu.be'' host
            \<or> scheme \<noteq> ''https'' \<and> scheme \<noteq> ''http'' then ret ''Please provide a youtube url.''
         else
           (case erase ''si'' s of (n, u) \<Rightarrow>
              if n \<noteq> 0 then ret u
              else (case erase ''is'' u of (n', u') \<Rightarrow>
                if n' \<noteq> 0 then ret u' else ret ''Your youtube link is already clean!''))))"

definition process_sanitize :: "cAppCmdInteraction \<Rightarrow> unit eff" where
  "process_sanitize i =
     bindE (front (ac_options i)) (\<lambda>p.
     bindE (lift (GetValue_STRING p)) (\<lambda>s.
     bindE (sanitized s) (\<lambda>txt. reply (AppCmd i) (ephemeral (SetContent txt no_message)))))"

section \<open>Interactions\<close>

definition CMP_ID_LEADERBOARD_HELP :: u32 where "CMP_ID_LEADERBOARD_HELP = 0x4ECEBDEC"
definition CMP_ID_STARBOARD_HELP :: u32 where "CMP_ID_STARBOARD_HELP = 0x33330ADE"
definition CMP_ID_PROFICIENCY_MENU :: u32 where "CMP_ID_PROFICIENCY_MENU = 0xAE90F56B"
definition CMP_ID_BOOSTER_MENU :: u32 where "CMP_ID_BOOSTER_MENU = 0x90DD7D88"

definition process_test :: "cAppCmdInteraction \<Rightarrow> unit eff" where
  "process_test i =
     handler ''process_test'' (
     InteractionSendMessage (AppCmd i)
       (V2 \<lparr>v2_flags = MESSAGE_FLAG_EPHEMERAL, v2_components = [LText (text_display ''Nothing to see here, go look elsewhere.'')]\<rparr>))"

text \<open>
  The task for an interaction. Choosing it may fail, which is an exception of
  \<open>process_interaction\<close>; what the task itself throws is not caught there.
\<close>

type_synonym task = "unit eff"

definition task_with :: "string \<Rightarrow> (cSnowflake \<Rightarrow> task) \<Rightarrow> exn + task" where
  "task_with s f = bindS (snowflake_of s) (\<lambda>sf. Inr (f sf))"

definition app_cmd_task :: "cAppCmdInteraction \<Rightarrow> exn + task" where
  "app_cmd_task i =
     (let c = ToInt (ac_command_id i) in
      if c = 878391425568473098 then Inr (process_avatar i)
      else if c = 938199801420456066 then Inr (process_rank i)
      else if c = 938863857466757131 then Inr (process_top i)
      else if c = 1031907652541890621 then Inr (process_ban i)
      else if c = 904462004071313448 then Inr (process_starboard_leaderboard i)
      else if c = 1177042125205024868 then Inr (process_timestamp i)
      else if c = 1170787836434317363 then Inr (process_ban_ctx_menu i ''user'')
      else if c = 1174826008474570892 then Inr (process_ban_ctx_menu i ''turk'')
      else if c = 1174836455714078740 then Inr (process_ban_ctx_menu i ''greek'')
      else if c = 1254933366562754591 then Inr (process_clear i)
      else if c = 1336758756062527581 \<or> c = 1340296154868613231 then Inr (process_warn i)
      else if c = 1336832339753570386 \<or> c = 1340461497221910568 then Inr (process_infractions i)
      else if c = 1477021827246198949 then Inr (process_sanitize i)
      else if c = 1178824125192613939 then Inr (process_test i)
      else if c = 1294358361248370698 then Inr (process_unban (AppCmd i) sf_default)
      else if c = 1472307604041629920 then Inr (process_levels i)
      else if c = 1505552326000246895 then Inr (process_nicknames i)
      else Inl (xRuntimeError (''Unhandled command '' @ ac_name i @ '' '' @ ToString (ac_command_id i))))"

definition msg_comp_task :: "u32 \<Rightarrow> cMsgCompInteraction \<Rightarrow> exn + task" where
  "msg_comp_task hash i =
     (let cid = mc_custom_id i in
      if hash = CMP_ID_LEADERBOARD_HELP then Inr (process_leaderboard_help i)
      else if hash = CMP_ID_STARBOARD_HELP then Inr (process_starboard_help i)
      else if hash = CMP_ID_PROFICIENCY_MENU then Inr (process_proficiency_menu i)
      else if hash = CMP_ID_BOOSTER_MENU then Inr (process_booster_menu i)
      else if starts_with ''BAN#'' cid then task_with (drop 4 cid) (process_unban (MsgComp i))
      else if starts_with ''DLT#'' cid then task_with (drop 4 cid) (process_dismiss i)
      else if starts_with ''NCK#'' cid then task_with (drop 4 cid) (process_nickname_button i)
      else if starts_with ''role:'' cid then task_with (drop 5 cid) (process_role_button i)
      else if starts_with ''unwarn:'' cid then Inr (process_infractions_remove i (drop 7 cid))
      else if starts_with ''infractions:'' cid then task_with (drop 12 cid) (process_infractions_button i)
      else if starts_with ''timeout:'' cid then task_with (drop 8 cid) (process_timeout_remove i)
      else Inl (xRuntimeError (''Unknown component id '' @ cid)))"

definition modal_task :: "cModalSubmitInteraction \<Rightarrow> exn + task" where
  "modal_task i =
     (let cid = mo_custom_id i in
      if starts_with ''ban:'' cid then Inr (process_ban_modal i (drop 4 cid))
      else if starts_with ''warn:'' cid then Inr (process_warn_modal i (drop 5 cid))
      else if cid = ''NICKNAME_MODAL'' then Inr (process_modal i)
      else Inl (xRuntimeError (''Unknown modal id '' @ cid)))"

definition run_task :: "exn + task \<Rightarrow> unit eff" where
  "run_task r = (case r of Inl e \<Rightarrow> raise (xHandler ''process_interaction'' e) | Inr t \<Rightarrow> t)"

fun process_interaction :: "interaction \<Rightarrow> unit eff" where
  "process_interaction (AppCmd i) = run_task (app_cmd_task i)"
| "process_interaction (MsgComp i) = bindE (CRC32 (mc_custom_id i)) (\<lambda>hash. run_task (msg_comp_task hash i))"
| "process_interaction (ModalSubmit i) = run_task (modal_task i)"

definition FAIL_MESSAGE :: cPartialMessage where
  "FAIL_MESSAGE = SetContent ''An unexpected error has occurred. Try again later.'' (ephemeral no_message)"

definition OnInteractionCreate :: "interaction \<Rightarrow> unit eff" where
  "OnInteractionCreate i = catchE (\<lambda>_. True) (process_interaction i) (\<lambda>_. reply i FAIL_MESSAGE)"

section \<open>Members\<close>

definition OnGuildMemberAdd :: "cSnowflake \<Rightarrow> cMember \<Rightarrow> unit eff" where
  "OnGuildMemberAdd guild member =
     (if \<not> sf_eq guild LMG_GUILD_ID then ret ()
      else seqE (handler_try (process_nick_new_member member)) (handler_try (process_usrlog_new_member member)))"

definition OnGuildMemberUpdate :: "cSnowflake \<Rightarrow> cMemberUpdate \<Rightarrow> unit eff" where
  "OnGuildMemberUpdate guild member =
     whenE (sf_eq guild LMG_GUILD_ID) (handler_try (process_nick_member_update member))"

definition OnGuildMemberRemove :: "cSnowflake \<Rightarrow> cUser \<Rightarrow> unit eff" where
  "OnGuildMemberRemove guild user =
     (if \<not> sf_eq guild LMG_GUILD_ID then ret ()
      else seqE (handler_try (process_nick_member_remove user)) (handler_try (process_usrlog_member_remove user)))"

section \<open>Messages\<close>

definition in_lmg :: "cSnowflake option \<Rightarrow> bool" where
  "in_lmg guild \<longleftrightarrow> (case guild of None \<Rightarrow> False | Some g \<Rightarrow> sf_eq g LMG_GUILD_ID)"

definition OnMessageCreate :: "cMessage \<Rightarrow> cSnowflake option \<Rightarrow> cPartialMember option \<Rightarrow> unit eff" where
  "OnMessageCreate msg guild member =
     whenE (in_lmg guild \<and> \<not> u_bot (ms_author msg) \<and> \<not> u_system (ms_author msg)) (
     seqE (handler_try (process_msglog_new_message msg)) (
     seqE (handler_try (bindE (deref member) (process_leaderboard_new_message msg)))
       (handler_try (bindE (deref member) (\<lambda>_. process_compro_new_message msg)))))"

definition OnMessageUpdate :: "cMessageUpdate \<Rightarrow> cSnowflake option \<Rightarrow> unit eff" where
  "OnMessageUpdate msg guild =
     whenE (in_lmg guild \<and> up_content msg \<noteq> None) (handler_try (process_msglog_message_update msg))"

definition OnMessageDeleteBulk :: "cSnowflake list \<Rightarrow> cSnowflake option \<Rightarrow> unit eff" where
  "OnMessageDeleteBulk ids guild =
     whenE (in_lmg guild) (
     seqE (handler_try (process_msglog_message_delete ids)) (handler_try (process_starboard_message_delete ids)))"

definition OnMessageDelete :: "cSnowflake \<Rightarrow> cSnowflake option \<Rightarrow> unit eff" where
  "OnMessageDelete message guild =
     whenE (in_lmg guild) (
     seqE (handler_try (process_msglog_message_delete [message])) (handler_try (process_starboard_message_delete [message])))"

definition OnMessageReactionAdd ::
  "cSnowflake \<Rightarrow> cSnowflake \<Rightarrow> cSnowflake \<Rightarrow> cSnowflake option \<Rightarrow> cSnowflake option \<Rightarrow> cMember option \<Rightarrow> cEmoji \<Rightarrow> unit eff" where
  "OnMessageReactionAdd user channel message guild author member emoji =
     whenE (in_lmg guild) (
     seqE (handler_try (process_starboard_reaction_add user channel message author emoji))
       (handler_try (process_native_polls_reaction_add user channel message member emoji)))"

definition OnMessageReactionRemove ::
  "cSnowflake \<Rightarrow> cSnowflake \<Rightarrow> cSnowflake \<Rightarrow> cSnowflake option \<Rightarrow> cEmoji \<Rightarrow> unit eff" where
  "OnMessageReactionRemove user channel message guild emoji =
     whenE (in_lmg guild) (handler_try (process_starboard_reaction_remove user channel message emoji))"

definition OnMessageReactionRemoveAll :: "cSnowflake \<Rightarrow> cSnowflake option \<Rightarrow> unit eff" where
  "OnMessageReactionRemoveAll message guild =
     whenE (in_lmg guild) (handler_try (process_starboard_message_delete [message]))"

definition OnMessageReactionRemoveEmoji :: "cSnowflake \<Rightarrow> cSnowflake option \<Rightarrow> cEmoji \<Rightarrow> unit eff" where
  "OnMessageReactionRemoveEmoji message guild emoji =
     whenE (in_lmg guild \<and> emoji_eq emoji LMG_EMOJI_HOLY) (handler_try (process_starboard_message_delete [message]))"

section \<open>Events\<close>

text \<open>The events of the gateway that the bot handles; an interaction comes in unacknowledged.\<close>

datatype event =
    Ready cUser
  | UserUpdate cUser
  | GuildCreate cGuild "cVoiceState list"
  | GuildRoleCreate cSnowflake cRole
  | GuildRoleUpdate cSnowflake cRole
  | GuildRoleDelete cSnowflake cSnowflake
  | GuildMemberAdd cSnowflake cMember
  | GuildMemberUpdate cSnowflake cMemberUpdate
  | GuildMemberRemove cSnowflake cUser
  | InteractionCreate interaction
  | MessageCreate cMessage "cSnowflake option" "cPartialMember option"
  | MessageUpdate cMessageUpdate "cSnowflake option" "cPartialMember option"
  | MessageDelete cSnowflake cSnowflake "cSnowflake option"
  | MessageDeleteBulk "cSnowflake list" cSnowflake "cSnowflake option"
  | MessageReactionAdd cSnowflake cSnowflake cSnowflake "cSnowflake option" "cSnowflake option" "cMember option" cEmoji
  | MessageReactionRemove cSnowflake cSnowflake cSnowflake "cSnowflake option" cEmoji
  | MessageReactionRemoveAll cSnowflake cSnowflake "cSnowflake option"
  | MessageReactionRemoveEmoji cSnowflake cSnowflake "cSnowflake option" cEmoji
  | VoiceStateUpdate cVoiceState
  | Heartbeat

fun on_event :: "event \<Rightarrow> unit eff" where
  "on_event (Ready user) = OnReady user"
| "on_event (UserUpdate user) = OnUserUpdate user"
| "on_event (GuildCreate guild vs) = OnGuildCreate guild vs"
| "on_event (GuildRoleCreate guild role) = OnGuildRoleCreate guild role"
| "on_event (GuildRoleUpdate guild role) = OnGuildRoleUpdate guild role"
| "on_event (GuildRoleDelete guild role) = OnGuildRoleDelete guild role"
| "on_event (GuildMemberAdd guild member) = OnGuildMemberAdd guild member"
| "on_event (GuildMemberUpdate guild member) = OnGuildMemberUpdate guild member"
| "on_event (GuildMemberRemove guild user) = OnGuildMemberRemove guild user"
| "on_event (InteractionCreate i) = seqE (putE (\<lambda>w. w\<lparr>w_acked := False\<rparr>)) (OnInteractionCreate i)"
| "on_event (MessageCreate msg guild member) = OnMessageCreate msg guild member"
| "on_event (MessageUpdate msg guild member) = OnMessageUpdate msg guild"
| "on_event (MessageDelete message channel guild) = OnMessageDelete message guild"
| "on_event (MessageDeleteBulk ids channel guild) = OnMessageDeleteBulk ids guild"
| "on_event (MessageReactionAdd user channel message guild author member emoji) =
     OnMessageReactionAdd user channel message guild author member emoji"
| "on_event (MessageReactionRemove user channel message guild emoji) =
     OnMessageReactionRemove user channel message guild emoji"
| "on_event (MessageReactionRemoveAll channel message guild) = OnMessageReactionRemoveAll message guild"
| "on_event (MessageReactionRemoveEmoji channel message guild emoji) = OnMessageReactionRemoveEmoji message guild emoji"
| "on_event (VoiceStateUpdate v) = OnVoiceStateUpdate v"
| "on_event Heartbeat = OnHeartbeat"

text \<open>A handler starts on the strand of the events.\<close>

definition run_event :: "event \<Rightarrow> unit eff" where
  "run_event e = ResumeOnEventStrand (on_event e)"

end
