(* ===== verification/Invariants.thy ===== *)
theory Invariants
  imports Handlers
begin

text \<open>
  What holds whatever the bot does: its store satisfies the constraints of the schema and no
  transaction stays open after an event, and what needs a permission is not done without it.
  The first is proved by one rule for each construct of the computations, collected in
  \<open>keep_intros\<close>, and one lemma for each handler.
\<close>

section \<open>Sessions\<close>

text \<open>Without a connection there is no transaction.\<close>

definition tied :: "'d session \<Rightarrow> bool" where
  "tied s \<longleftrightarrow> handle s \<or> working s = None"

definition store_ok :: "db session \<Rightarrow> bool" where
  "store_ok s \<longleftrightarrow> sess_inv db_inv s \<and> tied s"

definition store_idle :: "db session \<Rightarrow> bool" where
  "store_idle s \<longleftrightarrow> sess_inv db_inv s \<and> \<not> handle s \<and> working s = None"

lemma tied_engine: "engine_call s = (ec, s') \<Longrightarrow> tied s \<Longrightarrow> tied s'"
  by (auto simp: engine_call_def tied_def split: list.splits outcome.splits)

lemma handle_engine: "engine_call s = (ec, s') \<Longrightarrow> handle s' = handle s"
  by (auto simp: engine_call_def split: list.splits outcome.splits)

lemma handle_run_control:
  "run_control eff s = (ec, s') \<Longrightarrow> (\<And>s. handle (eff s) = handle s) \<Longrightarrow> handle s' = handle s"
  by (auto simp: run_control_def split: prod.splits option.splits dest!: handle_engine)

lemma tied_begin: "begin_impl s = (ec, s') \<Longrightarrow> tied s \<Longrightarrow> tied s'"
  by (auto simp: begin_impl_def tied_def split: if_splits dest: handle_run_control)

lemma tied_commit: "commit_impl s = (ec, s') \<Longrightarrow> tied s \<Longrightarrow> tied s'"
  by (auto simp: commit_impl_def tied_def split: if_splits dest: handle_run_control)

lemma tied_rollback: "rollback_impl s = (ec, s') \<Longrightarrow> tied s \<Longrightarrow> tied s'"
  by (auto simp: rollback_impl_def tied_def split: if_splits dest: handle_run_control)

lemma tied_wait [simp]: "tied (dbWait n s) = tied s"
  by (simp add: tied_def dbWait_def)

lemma tied_Begin_retry: "tied s \<Longrightarrow> tied (snd (Begin_retry n ec s))"
proof (induction n arbitrary: ec s)
  case (Suc n)
  obtain e1 s1 where rb: "rollback_impl s = (e1, s1)" by fastforce
  obtain e2 s2 where bg: "begin_impl (dbWait 100 s1) = (e2, s2)" by fastforce
  have "tied s1" using tied_rollback [OF rb Suc.prems] .
  moreover from this have "tied s2" using tied_begin [OF bg] by simp
  ultimately show ?case using Suc.IH [of s2 e2] Suc.prems rb bg by (simp split: option.splits)
qed simp

lemma tied_Begin: "tied s \<Longrightarrow> tied (snd (Begin s))"
  by (auto simp: Begin_def split: prod.splits dest: tied_begin tied_Begin_retry)

lemma tied_Commit_retry: "tied s \<Longrightarrow> tied (snd (Commit_retry n ec s))"
proof (induction n arbitrary: ec s)
  case (Suc n)
  obtain e1 s1 where cm: "commit_impl (dbWait 100 s) = (e1, s1)" by fastforce
  then have "tied s1" using tied_commit [OF cm] Suc.prems by simp
  then show ?case using Suc.IH [of s1 e1] Suc.prems cm by simp
qed simp

lemma tied_Commit: "tied s \<Longrightarrow> tied (snd (Commit s))"
  by (auto simp: Commit_def split: prod.splits dest: tied_commit tied_Commit_retry)

lemma tied_statement: "statement q s = (res, s') \<Longrightarrow> tied s \<Longrightarrow> tied s'"
  by (auto simp: statement_def split: prod.splits option.splits sum.splits dest!: tied_engine)
    (auto simp: tied_def write_db_def autocommit_def)

lemma tied_Exec_loop: "tied s \<Longrightarrow> tied (snd (Exec_loop i (statement q) s))"
proof (induction "300 - i" arbitrary: i s rule: less_induct)
  case less
  obtain res s1 where st: "statement q s = (res, s1)" by fastforce
  note t1 = tied_statement [OF st less.prems]
  show ?case
  proof (cases res)
    case (Inl e)
    obtain ec s2 where rb: "rollback_impl s1 = (ec, s2)" by fastforce
    from tied_rollback [OF rb t1] st Inl t1 rb less.hyps [of "i + 1" "dbWait 100 s2"] show ?thesis
      by (subst Exec_loop.simps) (auto simp: throwing_def Rollback_def split: option.splits)
  qed (use st t1 in \<open>subst Exec_loop.simps, simp\<close>)
qed

lemma tied_Exec: "tied s \<Longrightarrow> tied (snd (Exec q s))"
  unfolding Exec_def by (rule tied_Exec_loop)

lemma rollback_done: "rollback_impl s = (None, s') \<Longrightarrow> handle s \<Longrightarrow> working s' = None"
  by (auto simp: rollback_impl_def run_control_def autocommit_def split: if_splits prod.splits option.splits)

lemma closed_Close: "tied s \<Longrightarrow> \<not> handle (Close s) \<and> working (Close s) = None"
  by (auto simp: Close_def tied_def split: prod.splits option.splits dest: rollback_done)

section \<open>One rule for each construct\<close>

text \<open>
  \<open>runs a b J m\<close>: started where the store satisfies \<open>J\<close>, and on the strand of the events if \<open>a\<close>
  holds, \<open>m\<close> keeps \<open>J\<close>, uses no shared member of the bot but its user on another strand, and ends
  on the strand of the events if \<open>b\<close> holds, whether with a value or with an exception.
\<close>

definition runs :: "bool \<Rightarrow> bool \<Rightarrow> (db session \<Rightarrow> bool) \<Rightarrow> 'a eff \<Rightarrow> bool" where
  "runs a b J m \<longleftrightarrow>
     (\<forall>w. J (w_store w) \<and> (a \<longrightarrow> w_strand w = EventStrand) \<longrightarrow>
        J (w_store (snd (m w))) \<and> (b \<longrightarrow> w_strand (snd (m w)) = EventStrand)
        \<and> set (w_strays w) \<subseteq> set (w_strays (snd (m w)))
        \<and> set (w_strays (snd (m w))) \<subseteq> insert TheUser (set (w_strays w)))"

text \<open>From any strand; on the strand of the events throughout; and from there to anywhere.\<close>

abbreviation keep :: "(db session \<Rightarrow> bool) \<Rightarrow> 'a eff \<Rightarrow> bool" where
  "keep \<equiv> runs False False"

abbreviation home :: "(db session \<Rightarrow> bool) \<Rightarrow> 'a eff \<Rightarrow> bool" where
  "home \<equiv> runs True True"

abbreviation starts :: "(db session \<Rightarrow> bool) \<Rightarrow> 'a eff \<Rightarrow> bool" where
  "starts \<equiv> runs True False"

lemma runsI:
  assumes "\<And>w r w'. m w = (r, w') \<Longrightarrow> J (w_store w) \<Longrightarrow> (a \<Longrightarrow> w_strand w = EventStrand) \<Longrightarrow>
      J (w_store w') \<and> (b \<longrightarrow> w_strand w' = EventStrand)
      \<and> set (w_strays w) \<subseteq> set (w_strays w') \<and> set (w_strays w') \<subseteq> insert TheUser (set (w_strays w))"
  shows "runs a b J m"
  unfolding runs_def by (metis assms prod.collapse)

lemma runsD:
  assumes "runs a b J m" "m w = (r, w')" "J (w_store w)" "a \<Longrightarrow> w_strand w = EventStrand"
  shows "J (w_store w')" "b \<Longrightarrow> w_strand w' = EventStrand"
    and "set (w_strays w) \<subseteq> set (w_strays w')" "set (w_strays w') \<subseteq> insert TheUser (set (w_strays w))"
  using assms(1) [unfolded runs_def, rule_format, of w] assms(2-4) by auto

lemma keepD:
  assumes "keep J m" "m w = (r, w')" "J (w_store w)"
  shows "J (w_store w')" "set (w_strays w) \<subseteq> set (w_strays w')" "set (w_strays w') \<subseteq> insert TheUser (set (w_strays w))"
  using runsD [OF assms] by simp_all

lemma runs_weaken: "runs a b J m \<Longrightarrow> (a \<Longrightarrow> a') \<Longrightarrow> (b' \<Longrightarrow> b) \<Longrightarrow> runs a' b' J m"
  unfolding runs_def by blast

lemma runs_basic:
  "runs a a J (ret x)" "runs a a J (Pair r)" "runs a a J (raise e)" "runs a a J (lift r)" "runs a a J (getE f)"
  "runs a a J (deref p)" "runs a a J (CRC32 s)" "runs a a J system_now" "runs a a J steady_now" "runs a a J (Random l h)"
  "runs a a J sqlite_random" "runs a a J sqlite_order" "runs a a J GetUser_self"
  by (auto simp: runs_def deref_def CRC32_def system_now_def steady_now_def Random_def sqlite_random_def sqlite_order_def GetUser_self_def
      split: option.splits)

text \<open>What happens after a part of a computation, and after an exception in it.\<close>

lemma runs_bind:
  assumes "runs a b J m" "\<And>x. runs b c J (k x)" "c \<Longrightarrow> b"
  shows "runs a c J (bindE m k)"
proof (rule runsI)
  fix w r w' assume run: "bindE m k w = (r, w')" and J: "J (w_store w)" and E: "a \<Longrightarrow> w_strand w = EventStrand"
  obtain r1 w1 where m: "m w = (r1, w1)" by fastforce
  note one = runsD [OF assms(1) m J E]
  show "J (w_store w') \<and> (c \<longrightarrow> w_strand w' = EventStrand)
      \<and> set (w_strays w) \<subseteq> set (w_strays w') \<and> set (w_strays w') \<subseteq> insert TheUser (set (w_strays w))"
  proof (cases r1)
    case (Inl e)
    with run m one assms(3) show ?thesis by (auto simp: bindE_def)
  next
    case (Inr x)
    with run m have "k x w1 = (r, w')" by (simp add: bindE_def)
    from runsD [OF assms(2) this one(1,2)] one(3,4) show ?thesis by blast
  qed
qed

lemma runs_catch:
  assumes "runs a b J m" "\<And>e. runs b b J (h e)"
  shows "runs a b J (catchE P m h)"
proof (rule runsI)
  fix w r w' assume run: "catchE P m h w = (r, w')" and J: "J (w_store w)" and E: "a \<Longrightarrow> w_strand w = EventStrand"
  obtain r1 w1 where m: "m w = (r1, w1)" by fastforce
  note one = runsD [OF assms(1) m J E]
  show "J (w_store w') \<and> (b \<longrightarrow> w_strand w' = EventStrand)
      \<and> set (w_strays w) \<subseteq> set (w_strays w') \<and> set (w_strays w') \<subseteq> insert TheUser (set (w_strays w))"
  proof (cases "\<exists>e. r1 = Inl e \<and> P e")
    case True
    then obtain e where "r1 = Inl e" "P e" by blast
    with run m have "h e w1 = (r, w')" by (simp add: catchE_def)
    from runsD [OF assms(2) this one(1,2)] one(3,4) show ?thesis by blast
  next
    case False
    with run m have "w' = w1" by (auto simp: catchE_def split: sum.splits if_splits)
    with one show ?thesis by blast
  qed
qed

lemma runs_bindE: "runs a a J m \<Longrightarrow> (\<And>x. runs a a J (k x)) \<Longrightarrow> runs a a J (bindE m k)"
  by (rule runs_bind)

lemma runs_seqE: "runs a a J m \<Longrightarrow> runs a a J k \<Longrightarrow> runs a a J (seqE m k)"
  by (simp add: seqE_def runs_bindE)

lemma runs_handler: "runs a b J m \<Longrightarrow> runs a b J (handler s m)"
  by (simp add: handler_def runs_catch runs_basic)

lemma runs_handler_try: "runs a b J m \<Longrightarrow> runs a b J (handler_try m)"
  by (simp add: handler_try_def runs_catch runs_basic)

lemma runs_whenE: "runs a a J m \<Longrightarrow> runs a a J (whenE b m)"
  by (simp add: whenE_def runs_basic)

lemma runs_if: "(b \<Longrightarrow> runs a c J m) \<Longrightarrow> (\<not> b \<Longrightarrow> runs a c J k) \<Longrightarrow> runs a c J (if b then m else k)"
  by simp

lemma runs_Let: "(\<And>x. runs a c J (f x)) \<Longrightarrow> runs a c J (Let t f)"
  by (simp add: Let_def)

lemma runs_cases:
  "runs a c J m \<Longrightarrow> (\<And>x. runs a c J (f x)) \<Longrightarrow> runs a c J (case_option m f p)"
  "(\<And>x y. runs a c J (g x y)) \<Longrightarrow> runs a c J (case_prod g q)"
  "runs a c J n \<Longrightarrow> (\<And>x xs. runs a c J (h x xs)) \<Longrightarrow> runs a c J (case_list n h l)"
  by (auto split: option.splits prod.splits list.splits)

lemma runs_mapE: "(\<And>x. runs a a J (f x)) \<Longrightarrow> runs a a J (mapE f xs)"
  by (induction xs) (auto intro!: runs_basic runs_bindE)

lemma runs_forE: "(\<And>x. runs a a J (f x)) \<Longrightarrow> runs a a J (forE xs f)"
  by (induction xs) (auto intro!: runs_basic runs_seqE)

lemma runs_foldE: "(\<And>x s. runs a a J (f x s)) \<Longrightarrow> runs a a J (foldE f xs s)"
  by (induction xs arbitrary: s) (auto intro!: runs_basic runs_bindE)

text \<open>A request ends on the strand of the events, wherever it starts, and so does what turns its result into a value.\<close>

lemma land_http: "runs a b J (http_send r)" "runs a b J (DiscordGet p)" "runs a b J (DiscordPost p ob hf)"
  "runs a b J (DiscordPatch p ob)" "runs a b J (DiscordPut p oo hf)" "runs a b J (DiscordDelete p hf)"
  by (auto simp: runs_def http_send_def DiscordGet_def DiscordPost_def DiscordPatch_def DiscordPut_def DiscordDelete_def)

lemma land_bind: "(\<And>a b. runs a b J m) \<Longrightarrow> (\<And>x. runs b b J (k x)) \<Longrightarrow> runs a b J (bindE m k)"
  by (rule runs_bind)

lemma land_answers: "(\<And>a b. runs a b J m) \<Longrightarrow> runs a b J (no_result m)" "(\<And>a b. runs a b J m) \<Longrightarrow> runs a b J (parsed p m)"
  unfolding no_result_def parsed_def by (rule land_bind; simp add: runs_basic)+

text \<open>The rest of a computation may rely on it.\<close>

lemma keep_land: "(\<And>a b. runs a b J m) \<Longrightarrow> (\<And>x. starts J (k x)) \<Longrightarrow> keep J (bindE m k)"
  by (rule runs_bind [where b = True]) auto

lemma keep_resume: "starts J k \<Longrightarrow> keep J (ResumeOnEventStrand k)"
  unfolding runs_def
proof (intro allI impI)
  fix w :: world
  assume k: "\<forall>w. J (w_store w) \<and> (True \<longrightarrow> w_strand w = EventStrand) \<longrightarrow>
      J (w_store (snd (k w))) \<and> (False \<longrightarrow> w_strand (snd (k w)) = EventStrand)
      \<and> set (w_strays w) \<subseteq> set (w_strays (snd (k w))) \<and> set (w_strays (snd (k w))) \<subseteq> insert TheUser (set (w_strays w))"
    and "J (w_store w) \<and> (False \<longrightarrow> w_strand w = EventStrand)"
  then show "J (w_store (snd (ResumeOnEventStrand k w))) \<and> (False \<longrightarrow> w_strand (snd (ResumeOnEventStrand k w)) = EventStrand)
      \<and> set (w_strays w) \<subseteq> set (w_strays (snd (ResumeOnEventStrand k w)))
      \<and> set (w_strays (snd (ResumeOnEventStrand k w))) \<subseteq> insert TheUser (set (w_strays w))"
    using k [rule_format, of "w\<lparr>w_strand := EventStrand\<rparr>"] by (simp add: ResumeOnEventStrand_def)
qed

lemma starts_home: "home J m \<Longrightarrow> (\<And>x. starts J (k x)) \<Longrightarrow> starts J (bindE m k)"
  by (rule runs_bind) auto

lemma starts_keep: "keep J m \<Longrightarrow> starts J m"
  by (rule runs_weaken) auto

lemma keep_resume_bind: "home J m \<Longrightarrow> (\<And>x. keep J (k x)) \<Longrightarrow> keep J (ResumeOnEventStrand (bindE m k))"
  by (intro keep_resume starts_home starts_keep)

lemma starts_seq: "home J m \<Longrightarrow> starts J k \<Longrightarrow> starts J (seqE m k)"
  by (simp add: seqE_def starts_home)

lemma home_read: "home J (\<lambda>w. (Inr (f w), visit x w))"
  by (auto simp: runs_def)

lemma home_put: "(\<And>w. w_store (f w) = w_store w \<and> w_strand (f w) = w_strand w
    \<and> (w_strand w = EventStrand \<longrightarrow> w_strays (f w) = w_strays w)) \<Longrightarrow> home J (putE f)"
  by (auto simp: runs_def)

lemmas runs_constructs = runs_basic runs_bindE runs_seqE runs_catch runs_handler runs_handler_try runs_whenE runs_if runs_Let
  runs_cases runs_mapE runs_forE runs_foldE

lemmas keep_rules = runs_constructs land_http land_answers

lemma land_requests:
  "runs a b J (GetUser u)" "runs a b J (GetGuildMember g u)" "runs a b J (AddGuildMemberRole g u r)" "runs a b J (RemoveGuildMemberRole g u r)"
  "runs a b J (ModifyGuildMember g u opts)" "runs a b J (CreateDM u)" "runs a b J (CreateMessage c msg)" "runs a b J (CreateDMMessage u msg)"
  "runs a b J (EditMessage c t upd)" "runs a b J (GetChannelMessage c m)" "runs a b J (DeleteReaction c m em u)"
  "runs a b J (RemoveGuildMember g u rsn)" "runs a b J (CreateGuildBan g u secs rsn)" "runs a b J (RemoveGuildBan g u rsn)"
  "runs a b J (DeleteMessage c m rsn)" "runs a b J (post c pm)"
  by (auto simp: GetUser_def GetGuildMember_def AddGuildMemberRole_def RemoveGuildMemberRole_def ModifyGuildMember_def
      CreateDM_def CreateMessage_def CreateDMMessage_def EditMessage_def GetChannelMessage_def DeleteReaction_def
      RemoveGuildMember_def CreateGuildBan_def RemoveGuildBan_def DeleteMessage_def delete_message_def post_def
      intro!: runs_basic land_http land_answers land_bind)

lemma runs_putE: "(\<And>w. w_store (f w) = w_store w \<and> w_strand (f w) = w_strand w
    \<and> set (w_strays w) \<subseteq> set (w_strays (f w)) \<and> set (w_strays (f w)) \<subseteq> insert TheUser (set (w_strays w))) \<Longrightarrow> runs a a J (putE f)"
  by (simp add: runs_def)

lemma runs_ack: "runs a a J set_interaction_ack"
  unfolding set_interaction_ack_def by (rule runs_putE) auto

lemma runs_responses:
  "runs a a J (InteractionDefer i b)" "runs a a J (InteractionSendMessage i msg)" "runs a a J (InteractionSendModal i modal)"
  "runs a a J (InteractionEditMessage i upd m)" "runs a a J (InteractionDeleteMessage i m)" "runs a a J (reply i pm)"
  by (auto simp: InteractionDefer_def first_response_def InteractionSendMessage_def InteractionSendModal_def
      InteractionEditMessage_def InteractionEditMessageImpl_def InteractionDeleteMessage_def reply_def
      split: interaction.splits intro!: keep_rules runs_ack)

lemma runs_DeleteMessages: "runs a a J (DeleteMessages c ids rsn)"
proof -
  have "runs a a J (delete_batch c hf xs)" for hf xs
    by (auto simp: delete_batch_def delete_message_def intro!: keep_rules)
  then have "runs a a J (delete_batches c hf ids)" for hf
    by (induction c hf ids rule: delete_batches.induct) (subst delete_batches.simps, auto intro!: keep_rules)
  then show ?thesis by (simp add: DeleteMessages_def)
qed

lemma runs_helpers:
  "runs a a J (member_of i)" "runs a a J (guild_of i)" "runs a a J (front xs)" "runs a a J (to_snowflake s)"
  "runs a a J (label_input c)" "runs a a J (at_index n xs)"
  "runs a a J (target_user i os)" "runs a a J (user_if_found uid)" "runs a a J (find_user uid)"
  "runs a a J system_now_ms" "runs a a J now_ms"
proof -
  show "runs a a J (label_input c)" by (cases c) (auto split: label_child.splits intro!: keep_rules)
qed (auto simp: member_of_def guild_of_def front_def to_snowflake_def at_index_def target_user_def user_if_found_def
    find_user_def system_now_ms_def now_ms_def split: list.splits intro!: keep_rules land_requests)

text \<open>The roles and the guilds are for the strand of the events.\<close>

lemma home_members: "home J (guild_name g)" "home J get_lmg_roles" "home J (get_lmg_member_color m)"
proof -
  show "home J get_lmg_roles" by (auto simp: runs_def get_lmg_roles_def)
  then show "home J (get_lmg_member_color m)" by (auto simp: get_lmg_member_color_def intro!: keep_rules)
qed (auto simp: runs_def guild_name_def split: option.splits)

lemma runs_guarded: "runs a b J d \<Longrightarrow> runs a b J m \<Longrightarrow> b = a \<Longrightarrow> runs a b J (guarded p i d m)"
  by (auto simp: guarded_def intro!: keep_rules runs_helpers)

lemma starts_guarded: "starts J d \<Longrightarrow> starts J m \<Longrightarrow> starts J (guarded p i d m)"
  by (auto simp: guarded_def intro!: starts_home keep_rules runs_helpers)

lemmas keep_intros = keep_rules land_requests runs_responses runs_DeleteMessages runs_helpers runs_guarded

lemma starts_leaf: "starts J (ret x)" "starts J (raise e)" "starts J (reply i m)" "starts J (post c m)"
  "starts J (InteractionSendModal i modal)"
  by (intro starts_keep runs_basic runs_responses land_requests)+

lemmas starts_intros = starts_home starts_seq starts_guarded starts_leaf runs_handler runs_if runs_Let runs_cases

section \<open>Generators\<close>

text \<open>A generator as a computation that returns what it yields and how it ends.\<close>

definition drained :: "'a gen \<Rightarrow> ('a list \<times> exn option) eff" where
  "drained g w = (case g w of (r, w1) \<Rightarrow> (Inr r, w1))"

abbreviation keep_gen :: "(db session \<Rightarrow> bool) \<Rightarrow> 'a gen \<Rightarrow> bool" where
  "keep_gen J g \<equiv> keep J (drained g)"

lemma drained_seqG:
  "drained (seqG g h) = bindE (drained g) (\<lambda>(xs, e).
     case e of Some x \<Rightarrow> ret (xs, Some x) | None \<Rightarrow> bindE (drained h) (\<lambda>(ys, e'). ret (xs @ ys, e')))"
  by (auto simp: fun_eq_iff drained_def seqG_def bindE_def split: prod.splits option.splits)

lemma keep_gen_seq: "keep_gen J g \<Longrightarrow> keep_gen J h \<Longrightarrow> keep_gen J (seqG g h)"
  unfolding drained_seqG by (auto split: prod.splits intro!: keep_rules)

lemma keep_gen_request: "keep_gen J (members_request g q us)"
  by (auto simp: runs_def drained_def members_request_def Let_def)

lemma keep_gen_members: "keep_gen J (RequestGuildMembers_ids g us)" "keep_gen J (RequestGuildMembers g)"
proof -
  have "keep_gen J (RequestGuildMembers_batches g us)"
    by (induction g us rule: RequestGuildMembers_batches.induct)
      (subst RequestGuildMembers_batches.simps, auto intro: keep_gen_seq keep_gen_request)
  moreover have "keep_gen J (\<lambda>w. (([], None), w))" by (auto simp: runs_def drained_def)
  ultimately show "keep_gen J (RequestGuildMembers_ids g us)"
    by (auto simp: RequestGuildMembers_ids_def)
  show "keep_gen J (RequestGuildMembers g)" by (simp add: RequestGuildMembers_def keep_gen_request)
qed

lemma keep_gen_messages: "limit \<le> 100 \<Longrightarrow> keep_gen J (GetChannelMessages c limit)"
proof -
  assume "limit \<le> 100"
  moreover have "keep_gen J (get_channel_messages p)" for p
    by (auto simp: runs_def drained_def get_channel_messages_def DiscordGet_def http_send_def split: prod.splits sum.splits)
  ultimately show ?thesis by (auto simp: runs_def drained_def GetChannelMessages_def)
qed

lemma keep_gen_bind:
  assumes "keep_gen J g" "\<And>xs e. keep J (f xs e)"
  shows "keep J (\<lambda>w. case g w of ((xs, e), w1) \<Rightarrow> f xs e w1)"
proof -
  have "(\<lambda>w. case g w of ((xs, e), w1) \<Rightarrow> f xs e w1) = bindE (drained g) (\<lambda>(xs, e). f xs e)"
    by (auto simp: fun_eq_iff drained_def bindE_def split: prod.splits)
  with assms show ?thesis by (auto split: prod.splits intro!: keep_rules)
qed

lemma keep_co_collect: "keep_gen J g \<Longrightarrow> keep J (co_collect g)"
proof -
  have "co_collect g = bindE (drained g) (\<lambda>(xs, e). lift (case e of None \<Rightarrow> Inr xs | Some x \<Rightarrow> Inl x))"
    by (auto simp: fun_eq_iff drained_def co_collect_def bindE_def split: prod.splits)
  then show "keep_gen J g \<Longrightarrow> keep J (co_collect g)" by (auto split: prod.splits intro!: keep_rules)
qed

lemma keep_co_map: "keep_gen J g \<Longrightarrow> (\<And>x. keep J (f x)) \<Longrightarrow> keep J (co_map g f)"
  unfolding co_map_def by (auto intro!: keep_gen_bind keep_intros)

section \<open>The database\<close>

lemma runs_on_store:
  "(\<And>s. J s \<Longrightarrow> J (snd (f s))) \<Longrightarrow> keep J (on_store f)"
  by (auto simp: runs_def on_store_def split: prod.splits) (metis snd_conv)

lemma keep_Exec:
  assumes "\<And>s. sess_inv db_inv s \<Longrightarrow> sess_inv db_inv (snd (Exec q s))"
  shows "keep store_ok (dao q)"
  unfolding dao_def using assms by (intro runs_on_store) (simp add: store_ok_def tied_Exec)

lemmas keep_dao =
  lb_update.Exec_inv [THEN keep_Exec] lb_rank.Exec_inv [THEN keep_Exec] lb_top.Exec_inv [THEN keep_Exec]
  sb_author.Exec_inv [THEN keep_Exec] sb_register.Exec_inv [THEN keep_Exec] sb_remove.Exec_inv [THEN keep_Exec]
  sb_register_message.Exec_inv [THEN keep_Exec] sb_remove_message.Exec_inv [THEN keep_Exec]
  sb_delete_all.Exec_inv [THEN keep_Exec] sb_top.Exec_inv [THEN keep_Exec] sb_get_rank.Exec_inv [THEN keep_Exec]
  nick_get.Exec_inv [THEN keep_Exec] nick_delete.Exec_inv [THEN keep_Exec] nick_update.Exec_inv [THEN keep_Exec]
  nick_register.Exec_inv [THEN keep_Exec] nick_cleanup.Exec_inv [THEN keep_Exec]
  log_register.Exec_inv [THEN keep_Exec] log_get.Exec_inv [THEN keep_Exec] log_update.Exec_inv [THEN keep_Exec]
  log_delete.Exec_inv [THEN keep_Exec] log_cleanup.Exec_inv [THEN keep_Exec] compro.Exec_inv [THEN keep_Exec]
  ban_register.Exec_inv [THEN keep_Exec] ban_expired.Exec_inv [THEN keep_Exec] ban_remove.Exec_inv [THEN keep_Exec]
  ban_remove_all.Exec_inv [THEN keep_Exec]
  warn_register.Exec_inv [THEN keep_Exec] warn_delta.Exec_inv [THEN keep_Exec] warn_stats.Exec_inv [THEN keep_Exec]
  warn_delete.Exec_inv [THEN keep_Exec] warn_delete_all.Exec_inv [THEN keep_Exec] warn_timeout.Exec_inv [THEN keep_Exec]

lemma keep_txn: "keep store_ok txn_begin" "keep store_ok txn_commit" "keep store_ok txn_close"
proof -
  have throw: "snd (throwing f s) = snd (f s)" for f and s :: "db session"
    by (simp add: throwing_def split: prod.splits option.splits)
  show "keep store_ok txn_begin" "keep store_ok txn_commit" unfolding txn_begin_def txn_commit_def
    by (intro runs_on_store; simp add: throw store_ok_def sess_inv_Begin tied_Begin sess_inv_Commit tied_Commit)+
  show "keep store_ok txn_close"
    by (auto simp: runs_def txn_close_def store_ok_def sess_inv_Close tied_def closed_Close [unfolded tied_def])
qed

lemma idle_New:
  assumes "store_idle s" "New s = (r, s1)"
  shows "case r of Inl e \<Rightarrow> store_idle s1 | Inr u \<Rightarrow> store_ok s1"
proof -
  have inv: "sess_inv db_inv s1"
    using sess_inv_New [of db_inv s] assms by (simp add: store_idle_def)
  show ?thesis
  proof (cases r)
    case (Inl e)
    with assms inv show ?thesis
      by (auto simp: New_def store_idle_def engine_call_def split: if_splits prod.splits option.splits list.splits outcome.splits)
  next
    case (Inr u)
    with assms have "handle s1" by (auto simp: New_def split: if_splits prod.splits option.splits)
    with Inr inv show ?thesis by (simp add: store_ok_def tied_def)
  qed
qed

lemma keep_with_txn:
  assumes "keep store_ok m"
  shows "keep store_idle (with_txn m)"
proof (rule runsI)
  fix w r w' assume run: "with_txn m w = (r, w')" and idle: "store_idle (w_store w)"
  obtain r1 s1 where n: "New (w_store w) = (r1, s1)" by fastforce
  let ?w = "w\<lparr>w_store := s1, w_strand := DatabaseStrand\<rparr>"
  show "store_idle (w_store w') \<and> (False \<longrightarrow> w_strand w' = EventStrand)
      \<and> set (w_strays w) \<subseteq> set (w_strays w') \<and> set (w_strays w') \<subseteq> insert TheUser (set (w_strays w))"
  proof (cases r1)
    case (Inl e)
    with idle_New [OF idle n] n run show ?thesis by (auto simp: with_txn_def bindE_def on_store_def)
  next
    case (Inr u)
    obtain r2 w2 where m: "m ?w = (r2, w2)" by fastforce
    from idle_New [OF idle n] Inr have "store_ok (w_store ?w)" by simp
    note ends = keepD [OF assms m this]
    then have "store_idle (Close (w_store w2))"
      by (simp add: store_idle_def store_ok_def sess_inv_Close closed_Close)
    moreover have "w' = w2\<lparr>w_store := Close (w_store w2)\<rparr>"
      using Inr n m run by (simp add: with_txn_def bindE_def on_store_def)
    ultimately show ?thesis using ends(2,3) by simp
  qed
qed

section \<open>The handlers\<close>

lemmas keep_all = keep_intros keep_with_txn keep_dao keep_txn keep_co_collect keep_co_map keep_gen_members

lemma keep_find_member: "runs a a J (find_member uid ms)"
  by (induction uid ms rule: find_member.induct) (auto intro!: keep_all)

lemma keep_leaderboard:
  "keep store_idle (process_leaderboard_new_message msg m)" "keep store_idle (process_rank i)"
  "keep store_idle (process_top i)" "keep store_idle (process_leaderboard_help c)" "keep store_idle (process_levels i)"
proof -
  show "keep store_idle (process_leaderboard_new_message msg m)"
    by (auto simp: process_leaderboard_new_message_def update_leaderboard_def intro!: keep_all)
  show "keep store_idle (process_rank i)"
    unfolding process_rank_def by (auto intro!: keep_all keep_resume_bind home_members)
  have "home store_idle (top_embed j ms e)" for j ms e
    unfolding top_embed_def by (auto intro!: keep_all keep_find_member home_members)
  then show "keep store_idle (process_top i)"
    unfolding process_top_def by (auto intro!: keep_all keep_resume_bind)
qed (auto simp: process_leaderboard_help_def process_levels_def intro!: keep_all)

lemma keep_process_reaction: "keep store_ok (process_reaction c m msg sb n)"
proof -
  have rest: "keep store_ok (bindE (GetGuildMember g u) (\<lambda>member. bindE (deref (m_user member)) (\<lambda>user.
      bindE (get_lmg_member_color member) (k user))))" if "\<And>u x. keep store_ok (k u x)" for g u and k :: "cUser \<Rightarrow> int \<Rightarrow> unit eff"
    by (intro keep_land land_requests starts_home home_members runs_basic starts_keep that)
  have "keep store_ok (post_starboard c m msg s)" for s
    unfolding post_starboard_def Let_def by (rule runs_bindE; (rule rest)?) (auto intro!: keep_all)
  then show ?thesis by (auto simp: process_reaction_def intro!: keep_all)
qed

lemma keep_starboard:
  "keep store_idle (process_starboard_reaction_add u c m a e)" "keep store_idle (process_starboard_reaction_remove u c m e)"
  "keep store_idle (process_starboard_message_delete ids)" "keep store_idle (process_starboard_leaderboard i)"
  "keep store_idle (process_starboard_help k)"
proof -
  have send: "keep J (send_ranking j es)" for J j es
    by (auto simp: send_ranking_def intro!: keep_all)
  have "keep store_idle (starboard_rank j s)" for j s
    unfolding starboard_rank_def by (auto intro!: keep_all keep_resume_bind home_members send)
  moreover have "home store_idle (sb_top_embed g ms e)" for g ms e
    unfolding sb_top_embed_def by (auto intro!: keep_all keep_find_member home_members)
  then have "keep store_idle (ResumeOnEventStrand (bindE (guild_name g)
      (\<lambda>name. bindE (mapE (sb_top_embed name ms) es) (send_ranking j))))" for g ms es j
    by (intro keep_resume starts_home starts_keep runs_mapE home_members send)
  then have "keep store_idle (starboard_top10 j)" for j
    unfolding starboard_top10_def by (auto intro!: keep_all)
  ultimately show "keep store_idle (process_starboard_leaderboard i)"
    by (auto simp: process_starboard_leaderboard_def intro!: keep_all)
qed (auto simp: process_starboard_reaction_add_def process_starboard_reaction_remove_def process_starboard_message_delete_def
    process_starboard_help_def intro!: keep_all keep_process_reaction)

lemma keep_commands:
  "keep store_idle (process_avatar i)" "keep store_idle (process_clear i)" "keep store_idle (process_dismiss c sf)"
  "keep store_idle (process_role_button c sf)" "keep store_idle (process_proficiency_menu c)"
  "keep store_idle (process_booster_menu c)" "keep store_idle (process_nickname_button c sf)"
  "keep store_idle (process_modal k)" "keep store_idle (process_timestamp i)"
proof -
  have toggle: "keep J (toggle_role c rs sf)" for J rs by (auto simp: toggle_role_def intro!: keep_all)
  show "keep store_idle (process_role_button c sf)"
    by (auto simp: process_role_button_def intro!: keep_all toggle)
  have opts: "keep J (timestamp_options ps s t)" for J ps s t
    by (induction ps s t rule: timestamp_options.induct) (auto intro!: keep_all)
  show "keep store_idle (process_timestamp i)"
    by (auto simp: process_timestamp_def intro!: keep_all opts)
  have sel: "keep J (selected_value c)" for J by (auto simp: selected_value_def intro!: keep_all)
  show "keep store_idle (process_proficiency_menu c)" "keep store_idle (process_booster_menu c)"
    by (auto simp: process_proficiency_menu_def process_booster_menu_def intro!: keep_all sel)
  have "keep J (clear_messages i ms e)" for J ms e
    by (auto simp: clear_messages_def intro!: keep_all)
  moreover have "clear_limit n \<le> 100" for n by (simp add: clear_limit_def)
  ultimately show "keep store_idle (process_clear i)"
    by (auto simp: process_clear_def intro!: keep_all keep_gen_bind keep_gen_messages)
qed (auto simp: process_avatar_def process_dismiss_def process_nickname_button_def process_modal_def intro!: keep_all)

lemma keep_events:
  "starts store_idle (OnVoiceStateUpdate v)" "keep store_idle (process_usrlog_new_member m)"
  "keep store_idle (process_usrlog_member_remove u)" "keep store_idle (process_native_polls_reaction_add a b c d e)"
  "keep store_idle (process_msglog_new_message msg)" "keep store_idle (process_msglog_message_update upd)"
  "keep store_idle (process_msglog_message_delete ids)" "keep store_idle (process_compro_new_message msg)"
proof -
  have "home J (voice_states f)" for J f
    unfolding voice_states_def by (rule home_put) simp
  then have "home J (voice_change v)" for J
    unfolding voice_change_def by (auto intro!: keep_all home_read)
  then show "starts store_idle (OnVoiceStateUpdate v)"
    unfolding OnVoiceStateUpdate_def by (auto intro!: starts_intros runs_basic runs_helpers)
  have "keep J (lookup_author uid as)" for J uid as
    by (auto simp: lookup_author_def split: option.splits msg_author.splits intro!: keep_all)
  then have "keep J (log_deleted m s)" for J m s
    by (auto simp: log_deleted_def split: prod.splits intro!: keep_all)
  then show "keep store_idle (process_msglog_message_delete ids)"
    unfolding process_msglog_message_delete_def by (auto intro!: keep_all)
qed (auto simp: process_usrlog_new_member_def process_usrlog_member_remove_def process_native_polls_reaction_add_def usrlog_message_def
    process_msglog_new_message_def process_msglog_message_update_def process_compro_new_message_def Let_def intro!: keep_all)

lemma starts_process_ban_impl: "starts store_idle (process_ban_impl i sc t opts)"
proof -
  have "home J (ban_texts sc x y)" "home J (send_goodbye j t day y)" for J j x y day
    by (auto simp: ban_texts_def send_goodbye_def intro!: keep_all home_members)
  moreover have "starts store_idle (with_txn (seqE (register_ban j t day d x) (seqE txn_close (reply i m))))" for j day d x m
    by (rule starts_keep) (auto simp: register_ban_def intro!: keep_all)
  ultimately have "starts store_idle (carry_out_ban i sc t day opts)" for day
    unfolding carry_out_ban_def
    by (auto intro!: starts_seq starts_home runs_responses)
  then show ?thesis by (auto simp: process_ban_impl_def intro!: starts_intros keep_all)
qed

lemma keep_ban:
  "starts store_idle (process_ban i)" "starts store_idle (process_ban_ctx_menu i s)" "starts store_idle (process_ban_modal k s)"
  "keep store_idle (process_unban j sf)"
proof -
  have "home J (collect_ban_options ps u opts)" for J ps u opts
    by (induction ps u opts rule: collect_ban_options.induct) (auto intro!: keep_all)
  then show "starts store_idle (process_ban i)"
    by (auto simp: process_ban_def intro!: starts_intros starts_process_ban_impl keep_all)
  have "home J (collect_ban_inputs cs opts)" for J cs opts
    by (induction cs opts rule: collect_ban_inputs.induct) (auto intro!: keep_all)
  then show "starts store_idle (process_ban_modal k s)"
    by (auto simp: process_ban_modal_def intro!: starts_intros starts_process_ban_impl keep_all)
  have "keep J (unban_embeds j sf)" for J
    by (cases j) (auto simp: Let_def intro!: keep_all)
  then show "keep store_idle (process_unban j sf)"
    by (auto simp: process_unban_def intro!: keep_all)
qed (auto simp: process_ban_ctx_menu_def intro!: starts_intros starts_process_ban_impl keep_all)

lemma keep_get_stats: "keep store_ok (get_stats u now)"
  by (auto simp: get_stats_def intro!: keep_all)

lemma keep_process_warn_impl: "keep store_idle (process_warn_impl i t rsn)"
  by (auto simp: process_warn_impl_def register_warning_def time_out_def Let_def intro!: keep_all)

lemma keep_embeds:
  "keep J (edit_message c upd)" "keep J (stats_update c u now stats)" "keep J (empty_stats now s c)"
  "keep J (without_menu c s)" "keep J (with_menu c u es)" "(\<And>e. keep J (f e)) \<Longrightarrow> keep J (first_embed m f)" "keep J (plain_author e)"
proof -
  have relabel: "keep J (relabel a b r)" for a b r
    by (auto simp: relabel_def split: list.splits row_child.splits intro!: keep_all)
  have first: "keep J (first_embed m f)" if "\<And>e. keep J (f e)" for m f
    using that by (auto simp: first_embed_def intro!: keep_all)
  have plain: "keep J (plain_author e)" for e by (auto simp: plain_author_def intro!: keep_all)
  show "keep J (without_menu c s)" "keep J (with_menu c u es)"
    by (auto simp: without_menu_def with_menu_def Let_def intro!: keep_all relabel)
  show "keep J (stats_update c u now stats)" "keep J (empty_stats now s c)"
    by (auto simp: stats_update_def empty_stats_def intro!: keep_all first plain)
  show "(\<And>e. keep J (f e)) \<Longrightarrow> keep J (first_embed m f)" by (rule first)
  show "keep J (plain_author e)" by (rule plain)
qed (auto simp: edit_message_def intro!: keep_all)

lemma keep_removal_update: "keep store_ok (removal_update c now s)"
  by (auto simp: removal_update_def remove_selected_def remove_all_def undo_warning_def open_menu_def
      split: option.splits prod.splits intro!: keep_all keep_embeds keep_get_stats)

lemma keep_infractions:
  "keep store_idle (process_warn i)" "keep store_idle (process_warn_modal k s)" "keep store_idle (process_infractions i)"
  "keep store_idle (process_infractions_button c sf)" "keep store_idle (process_infractions_remove c s)"
  "keep store_idle (process_timeout_remove c sf)"
proof -
  have "keep J (collect_warn_options ps u rsn)" for J ps u rsn
    by (induction ps u rsn rule: collect_warn_options.induct) (auto intro!: keep_all)
  then show "keep store_idle (process_warn i)"
    by (auto simp: process_warn_def split: option.splits prod.splits intro!: keep_all keep_process_warn_impl)
  have options: "keep J (find_user_option ps u)" for J ps u
    by (induction ps u rule: find_user_option.induct) (auto intro!: keep_all)
  have resumed: "keep J (ResumeOnEventStrand (bindE (guild_of j) (\<lambda>guild. bindE (guild_name guild) (\<lambda>g. ret (Some g)))))" for J j
    by (intro keep_resume starts_home starts_keep runs_helpers home_members runs_basic)
  then have "keep store_idle (show_infractions i u m)" for u m
    by (auto simp: show_infractions_def Let_def intro!: keep_all keep_get_stats)
  with options show "keep store_idle (process_infractions i)"
    by (auto simp: process_infractions_def intro!: keep_all)
  show "keep store_idle (process_infractions_button c sf)" "keep store_idle (process_infractions_remove c s)"
    by (auto simp: process_infractions_button_def process_infractions_remove_def Let_def
        intro!: keep_all keep_embeds keep_get_stats keep_removal_update)
qed (auto simp: process_warn_modal_def process_timeout_remove_def intro!: keep_all keep_process_warn_impl keep_embeds)

lemma keep_unless_gone: "keep J m \<Longrightarrow> keep J (unless_gone m)"
  by (auto simp: unless_gone_def intro!: keep_all)

lemma keep_nicknames:
  "keep store_idle (process_nick_new_member m)" "keep store_idle (process_nick_member_update mu)"
  "keep store_idle (process_nick_member_remove u)" "keep store_idle (process_nicknames i)"
proof -
  have notif: "keep J (notification s bs)" "keep J (create_notification cs)" "keep J (edit_notification k cs)" for J s bs cs k
    by (auto simp: notification_def create_notification_def edit_notification_def intro!: keep_all)
  have "keep store_ok (reset_member mu)" "keep store_ok (save_nickname mu)" "keep store_ok (restore_nickname mu)"
    by (auto simp: reset_member_def save_nickname_def restore_nickname_def Let_def intro!: keep_all notif)
  then show "keep store_idle (process_nick_member_update mu)"
    by (auto simp: process_nick_member_update_def intro!: keep_all keep_unless_gone)
  have report: "keep J (send_report i ms)" for J ms
    by (auto simp: send_report_def user_ids_def intro!: keep_all)
  then have "keep J (report_members i ms e)" for J ms e
    by (auto simp: report_members_def split: option.splits exn.splits intro!: keep_all)
  then show "keep store_idle (process_nicknames i)"
    by (auto simp: process_nicknames_def intro!: keep_all keep_gen_bind)
qed (auto simp: process_nick_new_member_def process_nick_member_remove_def intro!: keep_all keep_unless_gone)

lemma starts_heartbeat: "starts store_idle OnHeartbeat"
proof -
  have bans: "keep store_ok lift_bans"
    by (auto simp: lift_bans_def lift_ban_def intro!: keep_all)
  have member: "keep J (prune_member g t m)" for J g t m
    by (auto simp: prune_member_def intro!: keep_all)
  have loop: "keep J ((\<lambda>w. case prune_loop g t ms n w of (k, w2) \<Rightarrow> (Inr k, w2)) :: nat eff)" for J g t ms n
  proof (induction ms arbitrary: n)
    case (Cons m ms)
    show ?case
    proof (rule runsI)
      fix w w' and r :: "exn + nat"
      assume run: "(case prune_loop g t (m # ms) n w of (k, w2) \<Rightarrow> (Inr k, w2)) = (r, w')" and J: "J (w_store w)"
      obtain r1 w1 where m: "prune_member g t m (next_member m w) = (r1, w1)" by fastforce
      have after: "J (w_store (next_member m w))" "w_strays (next_member m w) = w_strays w"
        using J by (simp_all add: next_member_def)
      note one = keepD [where J = J, OF member m after(1)]
      show "J (w_store w') \<and> (False \<longrightarrow> w_strand w' = EventStrand)
          \<and> set (w_strays w) \<subseteq> set (w_strays w') \<and> set (w_strays w') \<subseteq> insert TheUser (set (w_strays w))"
      proof (cases r1)
        case (Inl e)
        with run m one after(2) show ?thesis by auto
      next
        case (Inr kicked)
        with run m have rest: "(case prune_loop g t ms (if kicked then Suc n else n) w1 of (k, w2) \<Rightarrow> (Inr k, w2)) = (r, w')" by simp
        from keepD [OF Cons.IH rest one(1)] one(2,3) after(2) show ?thesis by auto
      qed
    qed
  qed (auto simp: runs_def)
  have "starts J (bindE (guild_name g) (\<lambda>guild. bindE system_now (\<lambda>t w. case RequestGuildMembers h w of
      ((ms, e), w1) \<Rightarrow> (case prune_loop guild t ms 0 w1 of (n, w2) \<Rightarrow> (Inr n, w2)))))" for J g h
    by (intro starts_home starts_keep home_members runs_basic keep_gen_bind keep_gen_members loop)
  then have "keep J prune" for J
    unfolding prune_def by (intro runs_catch keep_resume runs_basic)
  then have "keep store_idle timed_actions" using bans
    by (auto simp: timed_actions_def intro!: keep_all)
  moreover have "home store_idle (putE (\<lambda>w. (visit TheHeartbeat w)\<lparr>w_before := n\<rparr>))" for n
    by (rule home_put) simp
  ultimately show ?thesis
    unfolding OnHeartbeat_def
    by (intro runs_catch starts_home starts_seq runs_if runs_basic home_read starts_keep)
qed

definition starts_task :: "exn + task \<Rightarrow> bool" where
  "starts_task r \<longleftrightarrow> (\<forall>t. r = Inr t \<longrightarrow> starts store_idle t)"

lemma starts_task_intros:
  "starts_task (Inl e)" "starts store_idle t \<Longrightarrow> starts_task (Inr t)" "keep store_idle t \<Longrightarrow> starts_task (Inr t)"
  "starts_task r \<Longrightarrow> starts_task r' \<Longrightarrow> starts_task (if b then r else r')"
  "(\<And>sf. keep store_idle (f sf)) \<Longrightarrow> starts_task (task_with s f)"
  by (auto simp: starts_task_def task_with_def bindS_eq_Inr starts_keep)

lemma starts_run_task: "starts_task r \<Longrightarrow> starts store_idle (run_task r)"
  by (auto simp: starts_task_def run_task_def split: sum.splits intro!: starts_keep keep_all)

lemma starts_process_interaction: "starts store_idle (process_interaction i)"
proof -
  have extra: "keep store_idle (process_sanitize a)" "keep store_idle (process_test a)" for a
    by (auto simp: process_sanitize_def sanitized_def process_test_def split: option.splits prod.splits intro!: keep_all)
  note handlers = extra keep_leaderboard keep_starboard keep_commands keep_ban keep_infractions keep_nicknames
  show ?thesis
  proof (cases i)
    case (AppCmd a)
    have "starts_task (app_cmd_task a)" unfolding app_cmd_task_def Let_def by (intro starts_task_intros handlers)
    with AppCmd show ?thesis by (simp add: starts_run_task)
  next
    case (MsgComp c)
    have "starts_task (msg_comp_task h c)" for h unfolding msg_comp_task_def Let_def by (intro starts_task_intros handlers)
    with MsgComp show ?thesis by (auto intro!: starts_home runs_basic starts_run_task)
  next
    case (ModalSubmit k)
    have "starts_task (modal_task k)" unfolding modal_task_def Let_def by (intro starts_task_intros handlers)
    with ModalSubmit show ?thesis by (simp add: starts_run_task)
  qed
qed

lemma home_events:
  "home J (OnGuildCreate g vs)" "home J (OnGuildRoleCreate gi r)" "home J (OnGuildRoleUpdate gi r)"
  "home J (OnGuildRoleDelete gi ri)" "home J (OnReady u)" "home J (OnUserUpdate u)"
  unfolding OnGuildCreate_def OnGuildRoleCreate_def OnGuildRoleUpdate_def OnGuildRoleDelete_def OnReady_def OnUserUpdate_def
  by (rule home_put, simp)+

lemma keep_handled:
  "keep store_idle (OnGuildMemberAdd g m)" "keep store_idle (OnGuildMemberUpdate g mu)" "keep store_idle (OnGuildMemberRemove g u)"
  "keep store_idle (OnMessageCreate msg gi pm)" "keep store_idle (OnMessageUpdate upd gi)" "keep store_idle (OnMessageDelete mi gi)"
  "keep store_idle (OnMessageDeleteBulk ids gi)" "keep store_idle (OnMessageReactionAdd a b c gi d mo e)"
  "keep store_idle (OnMessageReactionRemove a b c gi e)" "keep store_idle (OnMessageReactionRemoveAll c gi)"
  "keep store_idle (OnMessageReactionRemoveEmoji c gi e)"
  by (auto simp: OnGuildMemberAdd_def OnGuildMemberUpdate_def OnGuildMemberRemove_def OnMessageCreate_def OnMessageUpdate_def
      OnMessageDelete_def OnMessageDeleteBulk_def OnMessageReactionAdd_def OnMessageReactionRemove_def
      OnMessageReactionRemoveAll_def OnMessageReactionRemoveEmoji_def
      intro!: keep_all keep_leaderboard keep_starboard keep_events keep_nicknames)

lemma starts_on_event: "starts store_idle (on_event e)"
proof -
  have "home J (putE (\<lambda>w. w\<lparr>w_acked := b\<rparr>))" for J b by (rule home_put) simp
  moreover have "starts store_idle (OnInteractionCreate i)" for i
    unfolding OnInteractionCreate_def by (intro runs_catch starts_process_interaction runs_responses)
  moreover have "starts J m" if "home J m" for J and m :: "unit eff" using that by (rule runs_weaken) auto
  ultimately show ?thesis
    by (cases e) (simp_all add: home_events starts_seq starts_keep keep_handled keep_events starts_heartbeat)
qed

lemma keep_run_event: "keep store_idle (run_event e)"
  unfolding run_event_def by (intro keep_resume starts_on_event)

section \<open>Properties\<close>

text \<open>
  C1: whatever events arrive, in whatever order, whatever Discord answers, the clocks show and
  the database engine does, busy answers and aborted transactions included: if the database
  satisfies the constraints of the schema and no transaction is open, then so it is after the
  events.
\<close>

theorem bot_invariant:
  assumes "db_inv (committed (w_store w))" "\<not> handle (w_store w)" "working (w_store w) = None"
  shows "(let s = w_store (fold (\<lambda>e w. snd (run_event e w)) es w) in
    db_inv (committed s) \<and> \<not> handle s \<and> working s = None)"
proof -
  have "store_idle (w_store w) \<Longrightarrow> store_idle (w_store (fold (\<lambda>e w. snd (run_event e w)) es w))" for w
    using keep_run_event by (induction es arbitrary: w) (auto simp: runs_def)
  from this [of w] assms show ?thesis by (simp add: store_idle_def sess_inv_def Let_def)
qed

theorem bot_invariant_witness:
  "db_inv (committed (w_store (fold (\<lambda>e w. snd (run_event e w))
     [Heartbeat, MessageDelete (sf_of_int 1) (sf_of_int 2) (Some LMG_GUILD_ID), InteractionCreate (AppCmd example_command)] start_world)))"
  using bot_invariant [of start_world "[Heartbeat, MessageDelete (sf_of_int 1) (sf_of_int 2) (Some LMG_GUILD_ID),
    InteractionCreate (AppCmd example_command)]"]
  by (simp add: start_world_def start_session_def db_inv_empty Let_def)

end
