(* ===== verification/Frames.thy ===== *)
theory Frames
  imports LMG
begin

text \<open>
  What a computation leaves alone: \<open>calls_only P m\<close> says that \<open>m\<close> changes neither the
  database nor the services, and that every call it makes satisfies \<open>P\<close>. One rule for each
  construct of the computations, in \<open>calls_intros\<close>.
\<close>

definition calls_only :: "(call \<Rightarrow> bool) \<Rightarrow> 'a eff \<Rightarrow> bool" where
  "calls_only P m \<longleftrightarrow>
     (\<forall>w. w_store (snd (m w)) = w_store w \<and> w_http (snd (m w)) = w_http w \<and> w_user (snd (m w)) = w_user w
        \<and> (\<exists>new. w_calls (snd (m w)) = w_calls w @ new \<and> list_all P new))"

named_theorems calls_intros \<open>one rule for each construct\<close>

lemma calls_onlyI:
  "(\<And>w r w'. m w = (r, w') \<Longrightarrow> w_store w' = w_store w \<and> w_http w' = w_http w \<and> w_user w' = w_user w
      \<and> (\<exists>new. w_calls w' = w_calls w @ new \<and> list_all P new))
     \<Longrightarrow> calls_only P m"
  unfolding calls_only_def by (metis prod.collapse)

lemma calls_onlyD:
  assumes "calls_only P m" "m w = (r, w')"
  obtains new where "w_store w' = w_store w" "w_http w' = w_http w" "w_user w' = w_user w"
    "w_calls w' = w_calls w @ new" "list_all P new"
  using assms unfolding calls_only_def by (metis snd_conv)

lemma calls_only_mono: "calls_only P m \<Longrightarrow> (\<And>c. P c \<Longrightarrow> Q c) \<Longrightarrow> calls_only Q m"
  unfolding calls_only_def by (metis list_all_iff)

lemma calls_only_basic [calls_intros]:
  "calls_only P (ret x)" "calls_only P (raise e)" "calls_only P (lift t)" "calls_only P (getE f)" "calls_only P (deref p)"
  "calls_only P (CRC32 s)" "calls_only P system_now" "calls_only P steady_now" "calls_only P (Random a b)"
  "calls_only P GetUser_self" "calls_only P (guild_of i)" "calls_only P (front xs)" "calls_only P (guild_name g)"
  by (auto simp: calls_only_def deref_def CRC32_def system_now_def steady_now_def Random_def GetUser_self_def guild_of_def
      front_def guild_name_def split: option.splits list.splits)

lemma calls_only_bindE [calls_intros]:
  assumes "calls_only P m" "\<And>x. calls_only P (k x)"
  shows "calls_only P (bindE m k)"
proof (rule calls_onlyI)
  fix w r w' assume run: "bindE m k w = (r, w')"
  obtain r1 w1 where m: "m w = (r1, w1)" by fastforce
  from assms(1) m obtain n1 where n1: "w_store w1 = w_store w" "w_http w1 = w_http w" "w_user w1 = w_user w"
    "w_calls w1 = w_calls w @ n1" "list_all P n1" by (rule calls_onlyD)
  show "w_store w' = w_store w \<and> w_http w' = w_http w \<and> w_user w' = w_user w
      \<and> (\<exists>new. w_calls w' = w_calls w @ new \<and> list_all P new)"
  proof (cases r1)
    case (Inr x)
    with run m have "k x w1 = (r, w')" by (simp add: bindE_def)
    with assms(2) [of x] obtain n2 where "w_store w' = w_store w1" "w_http w' = w_http w1" "w_user w' = w_user w1"
      "w_calls w' = w_calls w1 @ n2" "list_all P n2" by (rule calls_onlyD)
    with n1 show ?thesis by auto
  qed (use run m n1 in \<open>auto simp: bindE_def\<close>)
qed

lemma calls_only_seqE [calls_intros]: "calls_only P m \<Longrightarrow> calls_only P k \<Longrightarrow> calls_only P (seqE m k)"
  by (simp add: seqE_def calls_only_bindE)

lemma calls_only_catchE [calls_intros]:
  assumes "calls_only P m" "\<And>e. calls_only P (h e)"
  shows "calls_only P (catchE Q m h)"
proof (rule calls_onlyI)
  fix w r w' assume run: "catchE Q m h w = (r, w')"
  obtain r1 w1 where m: "m w = (r1, w1)" by fastforce
  from assms(1) m obtain n1 where n1: "w_store w1 = w_store w" "w_http w1 = w_http w" "w_user w1 = w_user w"
    "w_calls w1 = w_calls w @ n1" "list_all P n1" by (rule calls_onlyD)
  show "w_store w' = w_store w \<and> w_http w' = w_http w \<and> w_user w' = w_user w
      \<and> (\<exists>new. w_calls w' = w_calls w @ new \<and> list_all P new)"
  proof (cases "\<exists>e. r1 = Inl e \<and> Q e")
    case True
    then obtain e where e: "r1 = Inl e" "Q e" by blast
    with run m have "h e w1 = (r, w')" by (simp add: catchE_def)
    with assms(2) [of e] obtain n2 where "w_store w' = w_store w1" "w_http w' = w_http w1" "w_user w' = w_user w1"
      "w_calls w' = w_calls w1 @ n2" "list_all P n2" by (rule calls_onlyD)
    with n1 show ?thesis by auto
  next
    case False
    with run m have "w' = w1" by (auto simp: catchE_def split: sum.splits if_splits)
    with n1 show ?thesis by auto
  qed
qed

lemma calls_only_handler [calls_intros]: "calls_only P m \<Longrightarrow> calls_only P (handler s m)"
  by (simp add: handler_def calls_only_catchE calls_only_basic)

lemma calls_only_if [calls_intros]: "calls_only P m \<Longrightarrow> calls_only P k \<Longrightarrow> calls_only P (if b then m else k)"
  by simp

lemma calls_only_cases [calls_intros]:
  "calls_only P a \<Longrightarrow> (\<And>x. calls_only P (f x)) \<Longrightarrow> calls_only P (case_option a f p)"
  "(\<And>x y. calls_only P (g x y)) \<Longrightarrow> calls_only P (case_prod g q)"
  by (auto split: option.splits prod.splits)

lemma calls_only_http:
  "P (Http r) \<Longrightarrow> calls_only P (http_send r)"
  by (simp add: calls_only_def http_send_def)

lemma calls_only_ack [calls_intros]: "calls_only P set_interaction_ack"
  by (simp add: calls_only_def set_interaction_ack_def)

lemma calls_only_answers [calls_intros]:
  "calls_only P m \<Longrightarrow> calls_only P (no_result m)" "calls_only P m \<Longrightarrow> calls_only P (parsed p m)"
  by (auto simp: no_result_def parsed_def intro!: calls_intros)

text \<open>Requests by their verb.\<close>

fun of_verb :: "verb \<Rightarrow> call \<Rightarrow> bool" where
  "of_verb v (Http r) \<longleftrightarrow> rq_verb r = v"
| "of_verb v _ = False"

lemma calls_only_verb [calls_intros]:
  "calls_only (of_verb POST) (DiscordPost p ob hf)" "calls_only (of_verb PUT) (DiscordPut p oo hf)"
  "calls_only (of_verb DELETE) (DiscordDelete p hf)" "calls_only (of_verb PATCH) (DiscordPatch p ob)"
  by (simp_all add: DiscordPost_def DiscordPut_def DiscordDelete_def DiscordPatch_def calls_only_http)

lemma calls_only_post [calls_intros]:
  "calls_only (of_verb POST) (InteractionDefer i b)" "calls_only (of_verb POST) (reply i m)"
  "calls_only (of_verb POST) (CreateDM u)" "calls_only (of_verb POST) (CreateMessage c msg)"
  "calls_only (of_verb POST) (CreateDMMessage u msg)"
  by (auto simp: InteractionDefer_def first_response_def reply_def InteractionSendMessage_def CreateDMMessage_def
      CreateDM_def CreateMessage_def intro!: calls_intros)

section \<open>An engine without failures\<close>

text \<open>What the operations on the database do as long as the engine reports no error.\<close>

lemma Begin_healthy:
  "engine s = [] \<Longrightarrow> handle s \<Longrightarrow> working s = None \<Longrightarrow> Begin s = (None, s\<lparr>working := Some (committed s)\<rparr>)"
  by (simp add: Begin_def begin_done autocommit_def numeral_eq_Suc)

lemma Commit_healthy:
  "engine s = [] \<Longrightarrow> handle s \<Longrightarrow> working s = Some d \<Longrightarrow> Commit s = (None, s\<lparr>committed := d, working := None\<rparr>)"
  by (simp add: Commit_def commit_impl_def run_control_def engine_done autocommit_def visible_def numeral_eq_Suc)

lemma Exec_healthy:
  "engine s = [] \<Longrightarrow> q (visible s) = Inr (x, d) \<Longrightarrow> Exec q s = (Inr x, write_db d s)"
  unfolding Exec_def by (subst Exec_loop.simps) (simp add: statement_def engine_done)

lemma New_healthy: "engine s = [] \<Longrightarrow> New s = (Inr (), s\<lparr>pooled := False, handle := True\<rparr>)"
  by (simp add: New_def engine_done)

lemma txn_healthy:
  fixes w :: world
  assumes "engine (w_store w) = []" "handle (w_store w)"
  shows "working (w_store w) = None \<Longrightarrow>
      txn_begin w = (Inr (), w\<lparr>w_store := (w_store w)\<lparr>working := Some (committed (w_store w))\<rparr>, w_strand := DatabaseStrand\<rparr>)"
    and "working (w_store w) = Some d \<Longrightarrow>
      txn_commit w = (Inr (), w\<lparr>w_store := (w_store w)\<lparr>committed := d, working := None\<rparr>, w_strand := DatabaseStrand\<rparr>)"
  using assms
  by (simp_all add: txn_begin_def txn_commit_def on_store_def throwing_def Begin_healthy Commit_healthy)

lemma dao_healthy:
  fixes w :: world
  assumes "engine (w_store w) = []" "q (visible (w_store w)) = Inr (x, d)"
  shows "dao q w = (Inr x, w\<lparr>w_store := write_db d (w_store w), w_strand := DatabaseStrand\<rparr>)"
  using assms by (simp add: dao_def on_store_def Exec_healthy)

text \<open>A transaction keeps what its body has committed and drops the rest.\<close>

lemma with_txn_healthy:
  fixes w :: world
  assumes "engine (w_store w) = []" "with_txn m w = (r, w')"
  obtains w1 where "m (w\<lparr>w_store := (w_store w)\<lparr>pooled := False, handle := True\<rparr>, w_strand := DatabaseStrand\<rparr>) = (r, w1)"
    "w' = w1\<lparr>w_store := Close (w_store w1)\<rparr>"
  using assms by (auto simp: with_txn_def bindE_def on_store_def New_healthy split: prod.splits)

section \<open>Outside a transaction\<close>

text \<open>Outside a transaction a query is applied as a whole or not at all, whatever the engine answers.\<close>

lemma statement_autocommit:
  "statement q s = (res, s') \<Longrightarrow> working s = None \<Longrightarrow> working s' = None
     \<and> (case res of Inl _ \<Rightarrow> committed s' = committed s | Inr x \<Rightarrow> q (committed s) = Inr (x, committed s'))"
  by (auto simp: statement_def write_db_def autocommit_def visible_def engine_call_def
      split: prod.splits option.splits sum.splits list.splits outcome.splits)

lemma Exec_loop_autocommit:
  "Exec_loop i (statement q) s = (res, s') \<Longrightarrow> working s = None \<Longrightarrow> working s' = None
     \<and> (case res of Inl _ \<Rightarrow> committed s' = committed s | Inr x \<Rightarrow> q (committed s) = Inr (x, committed s'))"
proof (induction "300 - i" arbitrary: i s rule: less_induct)
  case less
  obtain res1 s1 where st: "statement q s = (res1, s1)" by fastforce
  note st' = statement_autocommit [OF st less.prems(2)]
  show ?case
  proof (cases "\<exists>e. res1 = Inl e \<and> e = SQLITE_BUSY \<and> i + 1 < 300")
    case True
    have "rollback_impl s1 = (None, s1)" using st' by (simp add: rollback_autocommit autocommit_def)
    then have "Exec_loop (i + 1) (statement q) (dbWait 100 s1) = (res, s')"
      using less.prems(1) st True by (subst (asm) Exec_loop.simps) (simp add: throwing_def Rollback_def)
    from less.hyps [OF _ this] True st' show ?thesis by (auto simp: dbWait_def split: sum.splits)
  next
    case False
    then have "res1 = res" "s1 = s'" using less.prems(1) st
      by (subst (asm) Exec_loop.simps; auto split: sum.splits if_splits)+
    with st' show ?thesis by auto
  qed
qed

lemma dao_autocommit:
  fixes w :: world
  assumes "dao q w = (res, w')" "working (w_store w) = None"
  shows "w_calls w' = w_calls w \<and> w_http w' = w_http w \<and> working (w_store w') = None
     \<and> (case res of Inl _ \<Rightarrow> committed (w_store w') = committed (w_store w)
        | Inr x \<Rightarrow> q (committed (w_store w)) = Inr (x, committed (w_store w')))"
proof -
  obtain r s where e: "Exec q (w_store w) = (r, s)" by fastforce
  from Exec_loop_autocommit [OF e [unfolded Exec_def] assms(2)] assms(1) e show ?thesis
    by (auto simp: dao_def on_store_def split: sum.splits)
qed

lemma to_dec_inject: "to_dec m = to_dec n \<longleftrightarrow> m = n"
  by (metis dec_value_to_dec)

end
