(* ===== verification/Moderation.thy ===== *)
theory Moderation
  imports Invariants Frames
begin

text \<open>
  What moderation relies on: the ids of the modals carry their target from the menu to the
  modal, the texts for the end of a ban mean what they say, and a ban is in the database
  exactly when Discord has accepted it.
\<close>

section \<open>The ids of the modals\<close>

definition no_colon :: "string \<Rightarrow> bool" where
  "no_colon s \<longleftrightarrow> CHR '':'' \<notin> set s"

definition target_ok :: "target \<Rightarrow> bool" where
  "target_ok t \<longleftrightarrow> sf_canonical (t_id t) \<and> no_colon (t_avatar t) \<and> no_colon (t_username t)"

lemma colon_part_append: "no_colon a \<Longrightarrow> colon_part e (a @ CHR '':'' # r) = Inr (a, r)"
proof -
  assume "no_colon a"
  then have "\<forall>c \<in> set a. c \<noteq> CHR '':''" by (auto simp: no_colon_def)
  then have "dropWhile (\<lambda>c. c \<noteq> CHR '':'') (a @ CHR '':'' # r) = CHR '':'' # r"
    "takeWhile (\<lambda>c. c \<noteq> CHR '':'') (a @ CHR '':'' # r) = a"
    by (simp_all add: dropWhile_append2 takeWhile_append2)
  then show ?thesis by (simp add: colon_part_def split_colon_def)
qed

lemma is_digit_colon: "\<not> is_digit (CHR '':'')"
  by (simp add: is_digit_def byte_of_def)

lemma no_colon_ToString: "sf_canonical sf \<Longrightarrow> no_colon (ToString sf)"
proof -
  assume "sf_canonical sf"
  then have "m_str sf = m_str (sf_of_int (m_int sf))" by (simp only: sf_canonical_def)
  then have "m_str sf = to_dec (unat (m_int sf))" by (simp add: sf_of_int_def)
  then show ?thesis using to_dec_digits is_digit_colon by (auto simp: ToString_def no_colon_def)
qed

lemma parse_u16_to_dec: "parse_u16 (to_dec (unat n)) = Inr n"
proof -
  have "from_chars 0 65535 (to_dec (unat n)) = (Inr (int (unat n)), [])"
    using from_chars_to_dec [of "[]" "unat n" 65535 0] unsigned_less [of n, where ?'a = int] by simp
  then show ?thesis by (simp add: parse_u16_def ParseInt_u16_def ParseInt_def)
qed

interpretation ban_id: codec ban_custom_id parse_ban_id target_ok
  by unfold_locales
    (simp add: ban_custom_id_def parse_ban_id_def target_ok_def colon_part_append no_colon_ToString snowflake_of_ToString
      parse_u16_to_dec Let_def)

interpretation warn_id: codec warn_custom_id parse_warn_id target_ok
  by unfold_locales
    (simp add: warn_custom_id_def parse_warn_id_def target_ok_def colon_part_append no_colon_ToString snowflake_of_ToString
      parse_u16_to_dec Let_def)

section \<open>The end of a ban\<close>

text \<open>A list of units in any order, each with its number, as it is typed.\<close>

fun units_text :: "(nat \<times> char) list \<Rightarrow> string" where
  "units_text [] = []"
| "units_text ((v, c) # us) = to_dec v @ c # units_text us"

definition unit_chars :: "char set" where
  "unit_chars = {CHR ''y'', CHR ''m'', CHR ''w'', CHR ''d''}"

definition unit_ms :: "char \<Rightarrow> int" where
  "unit_ms c = (if c = CHR ''y'' then ms_year else if c = CHR ''m'' then ms_month else if c = CHR ''w'' then ms_week else ms_day)"

definition units_total :: "(nat \<times> char) list \<Rightarrow> int" where
  "units_total us = (\<Sum>(v, c) \<leftarrow> us. int v * unit_ms c * ns_ms)"

definition units_ok :: "(nat \<times> char) list \<Rightarrow> bool" where
  "units_ok us \<longleftrightarrow> us \<noteq> [] \<and> distinct (map snd us)
     \<and> (\<forall>(v, c) \<in> set us. 0 < v \<and> v < 2 ^ 32 \<and> c \<in> unit_chars)"

definition un_of :: "char \<Rightarrow> units \<Rightarrow> int" where
  "un_of c u = (if c = CHR ''y'' then un_y u else if c = CHR ''m'' then un_m u else if c = CHR ''w'' then un_w u else un_d u)"

lemma units_ok_Cons:
  "units_ok ((v, c) # us) \<Longrightarrow> 0 < v \<and> int v \<le> 4294967295 \<and> c \<in> unit_chars
     \<and> c \<notin> snd ` set us \<and> (us \<noteq> [] \<longrightarrow> units_ok us)"
  by (auto simp: units_ok_def)

lemma set_unit_free:
  assumes "c \<in> unit_chars" "un_of c u = 0"
  shows "\<exists>u'. set_unit c v u = Some u' \<and> units_ns u' = units_ns u + v * unit_ms c * ns_ms
     \<and> (\<forall>x \<in> unit_chars. x \<noteq> c \<longrightarrow> un_of x u' = un_of x u)"
proof -
  from assms(1) consider "c = CHR ''y''" | "c = CHR ''m''" | "c = CHR ''w''" | "c = CHR ''d''"
    unfolding unit_chars_def by blast
  then show ?thesis using assms(2)
    by cases (simp_all add: set_unit_def units_ns_def un_of_def unit_ms_def unit_chars_def algebra_simps)
qed

lemma unit_not_digit: "c \<in> unit_chars \<Longrightarrow> \<not> is_digit c"
  by (auto simp: unit_chars_def is_digit_def byte_of_def)

lemma parse_units_text:
  "units_ok ((v, c) # us) \<Longrightarrow> \<forall>x \<in> snd ` set ((v, c) # us). un_of x u = 0 \<Longrightarrow>
     parse_units now u (int v) (c # units_text us)
       = Some (ceil_div (wrap64 (now + units_ns u + units_total ((v, c) # us))) ns_day)"
proof (induction us arbitrary: v c u)
  case Nil
  from units_ok_Cons [OF Nil.prems(1)] have c: "c \<in> unit_chars" "0 < v" by auto
  have "un_of c u = 0" using Nil.prems(2) by simp
  from set_unit_free [OF c(1) this, of "int v"] c(2) show ?case
    by (auto simp: units_total_def add.assoc)
next
  case (Cons p us)
  obtain v' c' where p: "p = (v', c')" by (cases p)
  from units_ok_Cons [OF Cons.prems(1)] have
    c: "c \<in> unit_chars" "0 < v" "c \<notin> snd ` set (p # us)" and ok: "units_ok (p # us)" by auto
  from units_ok_Cons [OF ok [unfolded p]] have
    c': "c' \<in> unit_chars" "int v' \<le> 4294967295" by auto
  have u: "un_of c u = 0" using Cons.prems(2) by simp
  from set_unit_free [OF c(1) u, of "int v"] obtain u' where
    u': "set_unit c (int v) u = Some u'" "units_ns u' = units_ns u + int v * unit_ms c * ns_ms"
        "\<forall>x \<in> unit_chars. x \<noteq> c \<longrightarrow> un_of x u' = un_of x u" by blast
  have "\<forall>x \<in> snd ` set (p # us). un_of x u' = 0"
  proof
    fix x assume x: "x \<in> snd ` set (p # us)"
    then have "x \<noteq> c" "x \<in> unit_chars" using c(3) ok by (auto simp: units_ok_def)
    with u'(3) Cons.prems(2) x show "un_of x u' = 0" by auto
  qed
  from Cons.IH [OF ok [unfolded p] this [unfolded p]]
  have "parse_units now u' (int v') (c' # units_text us)
     = Some (ceil_div (wrap64 (now + units_ns u + units_total ((v, c) # p # us))) ns_day)"
    by (simp add: u'(2) p units_total_def add.assoc)
  moreover have "from_chars_unsigned (units_text (p # us)) = (Inr (int v'), c' # units_text us)"
    unfolding from_chars_unsigned_def p units_text.simps
    by (rule from_chars_to_dec) (use c'(2) unit_not_digit [OF c'(1)] in simp_all)
  moreover have "units_text (p # us) \<noteq> []" by (simp add: p)
  ultimately show ?case using c(2) u'(1) by (simp del: units_text.simps)
qed

lemma parse_duration_text:
  assumes "units_ok us"
  shows "parse_ban_duration now (units_text us) = Some (ceil_div (wrap64 (now + units_total us)) ns_day)"
proof -
  obtain v c us' where us: "us = (v, c) # us'" using assms by (cases us) (auto simp: units_ok_def)
  from units_ok_Cons [OF assms [unfolded us]] have
    c: "c \<in> unit_chars" "int v \<le> 4294967295" by auto
  have "from_chars_unsigned (units_text us) = (Inr (int v), c # units_text us')"
    unfolding from_chars_unsigned_def us units_text.simps
    by (rule from_chars_to_dec) (use c(2) unit_not_digit [OF c(1)] in simp_all)
  moreover have "parse_units now no_units (int v) (c # units_text us')
       = Some (ceil_div (wrap64 (now + units_ns no_units + units_total us)) ns_day)"
    unfolding us by (rule parse_units_text) (use assms us in \<open>simp_all add: no_units_def un_of_def\<close>)
  moreover have "units_ns no_units = 0" by (simp add: units_ns_def no_units_def)
  ultimately show ?thesis using c(1) by (auto simp: parse_ban_duration_def unit_chars_def)
qed

text \<open>A date as it is typed, the days counted from 1970-01-01.\<close>

definition date_text :: "int \<Rightarrow> string" where
  "date_text day = fmt_date (day * 86400)"

definition four_digit_year :: "int \<Rightarrow> bool" where
  "four_digit_year day \<longleftrightarrow> sys_days 0 1 1 \<le> day \<and> day \<le> sys_days 9999 12 31"

lemma fixed_dec_props:
  "length (fixed_dec k n) = k \<and> list_all is_digit (fixed_dec k n)"
  by (induction k arbitrary: n) simp_all

lemma dec_value_fixed: "n < 10 ^ k \<Longrightarrow> dec_value 0 (fixed_dec k n) = n"
proof (induction k arbitrary: n)
  case (Suc k)
  then have "n div 10 < 10 ^ k" by (simp add: less_mult_imp_div_less mult.commute)
  from Suc.IH [OF this] show ?case by (simp add: dec_value_append)
qed simp

lemma from_chars_fixed:
  assumes "n < 10 ^ k" "0 < k" "k \<le> 4" "rest = [] \<or> \<not> is_digit (hd rest)"
  shows "from_chars_unsigned (fixed_dec k n @ rest) = (Inr (int n), rest)"
proof -
  let ?f = "fixed_dec k n"
  have d: "\<forall>c \<in> set ?f. is_digit c" and l: "length ?f = k" using fixed_dec_props [of k n] by (auto simp: list_all_iff)
  have tw: "takeWhile is_digit (?f @ rest) = ?f" "dropWhile is_digit (?f @ rest) = rest"
    using d assms(4) by (cases rest; auto simp: takeWhile_append2 dropWhile_append2)+
  have "(10::nat) ^ k \<le> 10 ^ 4" using assms(3) by (intro power_increasing) simp_all
  then have "int n \<le> 4294967295" using assms(1) by simp
  moreover have "?f \<noteq> []" using l assms(2) by auto
  ultimately show ?thesis
    using tw dec_value_fixed [OF assms(1)] by (simp add: from_chars_unsigned_def from_chars_def Let_def)
qed

lemma four_digit_year_range:
  assumes "four_digit_year day" "year_month_day day = (y, m, d)"
  shows "0 \<le> y \<and> y \<le> 9999"
proof -
  let ?z = "day + epoch_days"
  have y: "y = year_of_days ?z" using assms(2) by (simp add: year_month_day_def Let_def)
  note b = year_of_days_bounds [of ?z, folded y]
  have lo: "days_before_year 0 \<le> ?z" and hi: "?z < days_before_year 10000"
    using assms(1) by (simp_all add: four_digit_year_def sys_days_def days_before_year_def days_before_month_def is_leap_def)
  have "0 \<le> y"
  proof (rule ccontr)
    assume "\<not> 0 \<le> y"
    then have "days_before_year (y + 1) \<le> days_before_year 0" by (intro days_before_year_mono) simp
    with b lo show False by simp
  qed
  moreover have "y \<le> 9999"
  proof (rule ccontr)
    assume "\<not> y \<le> 9999"
    then have "days_before_year 10000 \<le> days_before_year y" by (intro days_before_year_mono) simp
    with b hi show False by simp
  qed
  ultimately show ?thesis by simp
qed

lemma parse_date_text:
  assumes "four_digit_year day"
  shows "parse_ban_duration now (date_text day) = Some day"
proof -
  obtain y m d where ymd: "year_month_day day = (y, m, d)" by (metis prod_cases3)
  note y = four_digit_year_range [OF assms ymd]
  have ok: "ymd_ok y m d" using year_month_day_ok [OF ymd] y by simp
  then have md: "1 \<le> m" "m \<le> 12" "1 \<le> d" "d \<le> last_day y m" by (simp_all add: ymd_ok_def)
  have d31: "d \<le> 31" using md(4) by (auto simp: last_day_def split: if_splits)
  have sys: "sys_days y m d = day" using sys_days_year_month_day [of day] ymd by simp
  have fx: "pad0 4 (to_dec_int y) = fixed_dec 4 (nat y)" "pad0 2 (to_dec_int m) = fixed_dec 2 (nat m)"
    "pad0 2 (to_dec_int d) = fixed_dec 2 (nat d)"
    using y md d31 by (simp_all add: to_dec_int_def pad0_to_dec nat_less_iff)
  have dt: "date_text day = fixed_dec 4 (nat y) @ ''-'' @ fixed_dec 2 (nat m) @ ''-'' @ fixed_dec 2 (nat d)"
    by (simp add: date_text_def fmt_date_def ymd fx)
  have c: "from_chars_unsigned (fixed_dec 4 (nat y) @ CHR ''-'' # r) = (Inr y, CHR ''-'' # r)"
    "from_chars_unsigned (fixed_dec 2 (nat m) @ CHR ''-'' # r) = (Inr m, CHR ''-'' # r)"
    "from_chars_unsigned (fixed_dec 2 (nat d)) = (Inr d, [])" for r
    using from_chars_fixed [of "nat y" 4 "CHR ''-'' # r"] from_chars_fixed [of "nat m" 2 "CHR ''-'' # r"]
      from_chars_fixed [of "nat d" 2 "[]"] y md d31 not_digit_minus by (simp_all add: nat_less_iff)
  have l: "length (fixed_dec k n) = k" for k n using fixed_dec_props by simp
  from ok show ?thesis by (simp add: dt parse_ban_duration_def parse_month_day_def c l sys)
qed

lemma wrap64_id: "- (2 ^ 63) \<le> x \<Longrightarrow> x < 2 ^ 63 \<Longrightarrow> wrap64 x = x"
  unfolding wrap64_def by (rule signed_take_bit_int_eq_self) simp_all

lemma wrap64_negative:
  assumes "2 ^ 63 \<le> x" "x < 2 ^ 64"
  shows "wrap64 x < 0"
proof -
  have "wrap64 x = wrap64 (x - 2 ^ 64)"
    by (simp add: wrap64_def signed_take_bit_eq_iff_take_bit_eq take_bit_eq_mod mod_eq_dvd_iff)
  also have "\<dots> = x - 2 ^ 64" using assms by (intro wrap64_id) simp_all
  finally show ?thesis using assms by simp
qed

lemma wrap64_lower: "- (2 ^ 63) \<le> wrap64 x"
  unfolding wrap64_def using signed_take_bit_int_greater_eq_minus_exp [of 63 x] by simp

section \<open>Bans in the database\<close>

text \<open>Among some calls there is a request of this kind that was answered without an error.\<close>

fun accepted :: "(request \<Rightarrow> bool) \<Rightarrow> (call list \<Rightarrow> request \<Rightarrow> exn + json) \<Rightarrow> call list \<Rightarrow> call list \<Rightarrow> bool" where
  "accepted P h pre [] \<longleftrightarrow> False"
| "accepted P h pre (Http q # cs) \<longleftrightarrow> P q \<and> \<not> isl (h pre q) \<or> accepted P h (pre @ [Http q]) cs"
| "accepted P h pre (c # cs) \<longleftrightarrow> accepted P h (pre @ [c]) cs"

lemma accepted_append: "accepted P h pre (cs @ ds) \<longleftrightarrow> accepted P h pre cs \<or> accepted P h (pre @ cs) ds"
  by (induction P h pre cs rule: accepted.induct) auto

lemma not_accepted:
  "list_all (of_verb v) cs \<Longrightarrow> (\<And>q. P q \<Longrightarrow> rq_verb q \<noteq> v) \<Longrightarrow> \<not> accepted P h pre cs"
  by (induction P h pre cs rule: accepted.induct) auto

lemma never_accepted: "(\<And>pre q. P q \<Longrightarrow> isl (h pre q)) \<Longrightarrow> \<not> accepted P h pre cs"
  by (induction P h pre cs rule: accepted.induct) auto

definition is_ban_of :: "cSnowflake \<Rightarrow> request \<Rightarrow> bool" where
  "is_ban_of user q \<longleftrightarrow> rq_verb q = PUT \<and> (\<exists>guild. rq_path q = ban_path guild user)"

lemma ban_not_posted: "list_all (of_verb POST) cs \<Longrightarrow> \<not> accepted (is_ban_of user) h pre cs"
  by (rule not_accepted [of POST]) (simp_all add: is_ban_of_def)

text \<open>
  A ban inside its transaction: the row is committed only after Discord has accepted the ban,
  and what goes wrong on the way is an exception. Only a \<open>COMMIT\<close> that fails leaves an accepted
  ban unrecorded.
\<close>

lemma register_ban_run:
  fixes w :: world
  assumes "not_busy (w_store w)" "handle (w_store w)" "working (w_store w) = None"
    and reg: "TempBanRegister (ToInt (t_id t)) day (committed (w_store w)) = Inr ((), d')"
    and run: "register_ban i t day secs rsn w = (r, w')"
  shows "\<exists>new. w_calls w' = w_calls w @ new \<and> w_http w' = w_http w
     \<and> (if isl r then committed (w_store w') = committed (w_store w)
        else committed (w_store w') = d' \<and> accepted (is_ban_of (t_id t)) (w_http w) (w_calls w) new)
     \<and> (engine (w_store w) = [] \<and> accepted (is_ban_of (t_id t)) (w_http w) (w_calls w) new \<longrightarrow> \<not> isl r)"
proof -
  let ?u = "t_id t" and ?c = "committed (w_store w)"
  obtain ec s1 where b: "Begin (w_store w) = (ec, s1)" by fastforce
  have b': "committed s1 = ?c \<and> (ec = None \<longrightarrow> working s1 = Some ?c \<and> handle s1 \<and> not_busy s1)"
    by (rule Begin_not_busy [OF assms(1,2) _ b]) (use assms(3) in \<open>simp add: autocommit_def\<close>)
  have nb: "TempBanRegister (ToInt ?u) day d \<noteq> Inl SQLITE_BUSY" for d
    by (rule ban_register.q_not_busy)
  obtain x s2 where q: "statement (TempBanRegister (ToInt ?u) day) s1 = (x, s2)" by fastforce
  show ?thesis
  proof (cases ec)
    case (Some e)
    then show ?thesis using run b b'
      by (auto simp: register_ban_def txn_begin_def on_store_def throwing_def seqE_def bindE_def)
  next
    case None
    then have s1: "working s1 = Some ?c" "handle s1" "not_busy s1" "committed s1 = ?c" using b' by auto
    have ex: "Exec (TempBanRegister (ToInt ?u) day) s1 = (x, s2)"
      using Exec_not_busy [OF s1(3), of "TempBanRegister (ToInt ?u) day"] nb q by simp
    note st = statement_in_txn [OF q s1(1-3)]
    let ?w1 = "w\<lparr>w_store := s2, w_strand := DatabaseStrand\<rparr>"
    have go: "register_ban i t day secs rsn w =
       (case x of Inl e \<Rightarrow> (Inl (xSqlError e), ?w1)
        | Inr _ \<Rightarrow> bindE (guild_of i) (\<lambda>guild. seqE (CreateGuildBan guild ?u secs rsn) txn_commit) ?w1)"
      using b None ex
      by (simp add: register_ban_def txn_begin_def dao_def on_store_def throwing_def seqE_def bindE_def split: sum.splits)
    show ?thesis
    proof (cases x)
      case (Inl e)
      then show ?thesis using run go st s1(4) by auto
    next
      case (Inr y)
      have s2: "working s2 = Some d'" "handle s2" "not_busy s2" "committed s2 = ?c" using st Inr s1(4) reg by auto
      show ?thesis
      proof (cases "i_guild_id i")
        case None
        then show ?thesis using run go Inr s2(4) by (auto simp: guild_of_def bindE_def)
      next
        case (Some g)
        define q where "q = \<lparr>rq_verb = PUT, rq_path = ban_path g ?u, rq_body = Some [(''delete_message_seconds'', JInt secs)],
           rq_fields = audit_reason rsn\<rparr>"
        have iq: "is_ban_of ?u q" by (auto simp: is_ban_of_def q_def)
        let ?w2 = "?w1\<lparr>w_calls := w_calls w @ [Http q], w_strand := EventStrand\<rparr>"
        have send: "register_ban i t day secs rsn w =
          (case w_http w (w_calls w) q of Inl e \<Rightarrow> (Inl e, ?w2) | Inr _ \<Rightarrow> txn_commit ?w2)"
          using go Inr Some
          by (simp add: guild_of_def bindE_def seqE_def CreateGuildBan_def no_result_def DiscordPut_def http_send_def
              q_def [symmetric] split: sum.splits)
        obtain ec3 s3 where c: "Commit s2 = (ec3, s3)" by fastforce
        note c' = Commit_not_busy [OF s2(3,2,1) c]
        have healthy: "ec3 = None" if "engine (w_store w) = []"
        proof -
          have "engine s2 = []" using that b q None assms(2,3) Inr s1 reg
            by (auto simp: Begin_healthy statement_def engine_done visible_def write_db_def autocommit_def)
          then show ?thesis using c s2 by (simp add: Commit_healthy)
        qed
        show ?thesis
          using run send iq c c' healthy s2(4)
          by (auto simp: txn_commit_def on_store_def throwing_def split: sum.splits option.splits)
      qed
    qed
  qed
qed

text \<open>
  A computation that starts with the session \<open>s\<close> and either leaves the contents \<open>d'\<close>, the ban
  of the user being accepted, or what \<open>s\<close> had and an exception. When the engine of \<open>s\<close> reports
  no error, the contents are \<open>d'\<close> just when the ban is accepted.
\<close>

definition ban_result :: "cSnowflake \<Rightarrow> db session \<Rightarrow> db \<Rightarrow> bool \<Rightarrow> bool \<Rightarrow> db \<Rightarrow> bool" where
  "ban_result user s d' acc failed d \<longleftrightarrow>
     (acc \<and> d = d' \<or> failed \<and> d = committed s) \<and> (engine s = [] \<longrightarrow> d = (if acc then d' else committed s))"

definition ban_effect :: "cSnowflake \<Rightarrow> db session \<Rightarrow> db \<Rightarrow> 'a eff \<Rightarrow> bool" where
  "ban_effect user s d' m \<longleftrightarrow>
     (\<forall>w r w'. w_store w = s \<longrightarrow> m w = (r, w') \<longrightarrow>
        (\<exists>new. w_calls w' = w_calls w @ new
           \<and> ban_result user s d' (accepted (is_ban_of user) (w_http w) (w_calls w) new) (isl r) (committed (w_store w'))))"

lemma ban_effect_bindE:
  assumes "calls_only (of_verb POST) m" "\<And>x. ban_effect user s d' (k x)"
  shows "ban_effect user s d' (bindE m k)"
  unfolding ban_effect_def
proof (intro allI impI)
  fix w :: world and r w' assume w: "w_store w = s" and run: "bindE m k w = (r, w')"
  obtain r1 w1 where m: "m w = (r1, w1)" by fastforce
  from assms(1) m obtain n1 where n1: "w_store w1 = w_store w" "w_http w1 = w_http w" "w_calls w1 = w_calls w @ n1"
    "list_all (of_verb POST) n1" by (rule calls_onlyD)
  note na = ban_not_posted [OF n1(4)]
  show "\<exists>new. w_calls w' = w_calls w @ new
     \<and> ban_result user s d' (accepted (is_ban_of user) (w_http w) (w_calls w) new) (isl r) (committed (w_store w'))"
  proof (cases r1)
    case (Inl e)
    with run m n1 w na show ?thesis by (auto simp: bindE_def ban_result_def)
  next
    case (Inr x)
    with run m have "k x w1 = (r, w')" by (simp add: bindE_def)
    with assms(2) [of x] n1(1) w obtain n2 where "w_calls w' = w_calls w1 @ n2"
      "ban_result user s d' (accepted (is_ban_of user) (w_http w1) (w_calls w1) n2) (isl r) (committed (w_store w'))"
      unfolding ban_effect_def by metis
    with n1 na show ?thesis by (intro exI [of _ "n1 @ n2"]) (simp add: accepted_append)
  qed
qed

lemma ban_transaction:
  assumes "not_busy s" "working s = None" and reg: "TempBanRegister (ToInt (t_id t)) day (committed s) = Inr ((), d')"
  shows "ban_effect (t_id t) s d' (with_txn (seqE (register_ban i t day secs rsn) (seqE txn_close (reply j msg))))"
  unfolding ban_effect_def
proof (intro allI impI)
  fix w :: world and r w'
  let ?body = "seqE (register_ban i t day secs rsn) (seqE txn_close (reply j msg))"
  assume w: "w_store w = s" and txn: "with_txn ?body w = (r, w')"
  obtain r0 s0 where n: "New s = (r0, s0)" by fastforce
  have s0: "committed s0 = committed s" "not_busy s0" "working s0 = None" "engine s = [] \<longrightarrow> engine s0 = [] \<and> \<not> isl r0"
    "\<not> isl r0 \<longrightarrow> handle s0"
    using n assms(1,2) by (auto simp: New_def not_busy_def engine_call_def split: if_splits prod.splits option.splits list.splits outcome.splits)
  show "\<exists>new. w_calls w' = w_calls w @ new
     \<and> ban_result (t_id t) s d' (accepted (is_ban_of (t_id t)) (w_http w) (w_calls w) new) (isl r) (committed (w_store w'))"
  proof (cases r0)
    case (Inl e)
    then show ?thesis using txn n w s0
      by (auto simp: with_txn_def bindE_def on_store_def ban_result_def)
  next
    case (Inr u)
    let ?w = "w\<lparr>w_store := s0, w_strand := DatabaseStrand\<rparr>"
    obtain w1 where run: "?body ?w = (r, w1)" and w': "w' = w1\<lparr>w_store := Close (w_store w1)\<rparr>"
      using txn n w Inr by (auto simp: with_txn_def bindE_def on_store_def split: prod.splits)
    obtain r2 w2 where rb: "register_ban i t day secs rsn ?w = (r2, w2)" by fastforce
    have reg0: "TempBanRegister (ToInt (t_id t)) day (committed (w_store ?w)) = Inr ((), d')" using reg s0 by simp
    have "\<exists>new. w_calls w2 = w_calls w @ new \<and> w_http w2 = w_http w
     \<and> (if isl r2 then committed (w_store w2) = committed s
        else committed (w_store w2) = d' \<and> accepted (is_ban_of (t_id t)) (w_http w) (w_calls w) new)
     \<and> (engine s0 = [] \<and> accepted (is_ban_of (t_id t)) (w_http w) (w_calls w) new \<longrightarrow> \<not> isl r2)"
      using register_ban_run [OF _ _ _ reg0 rb] s0 Inr by (simp cong: if_cong)
    with s0(4) obtain n1 where
      n1: "w_calls w2 = w_calls w @ n1" "w_http w2 = w_http w"
        "if isl r2 then committed (w_store w2) = committed s
         else committed (w_store w2) = d' \<and> accepted (is_ban_of (t_id t)) (w_http w) (w_calls w) n1"
        "engine s = [] \<and> accepted (is_ban_of (t_id t)) (w_http w) (w_calls w) n1 \<longrightarrow> \<not> isl r2" by blast
    show ?thesis
    proof (cases r2)
      case (Inl e)
      with run rb have "w1 = w2" "isl r" by (auto simp: seqE_def bindE_def)
      with n1 Inl w' show ?thesis by (auto simp: committed_Close ban_result_def)
    next
      case (Inr x)
      obtain r3 w3 where rp: "reply j msg (w2\<lparr>w_store := Close (w_store w2)\<rparr>) = (r3, w3)" by fastforce
      with run rb Inr have "w1 = w3" by (simp add: seqE_def bindE_def txn_close_def)
      moreover from calls_only_post(2) rp obtain n2 where "w_store w3 = Close (w_store w2)" "w_calls w3 = w_calls w2 @ n2"
        "list_all (of_verb POST) n2" by (rule calls_onlyD) auto
      ultimately show ?thesis using n1 Inr w'
        by (intro exI [of _ "n1 @ n2"]) (auto simp: accepted_append committed_Close ban_result_def)
    qed
  qed
qed

lemma calls_only_ban_texts: "calls_only P (ban_texts sc rsn goodbye)"
  by (auto simp: ban_texts_def Let_def intro!: calls_intros)

lemma calls_only_goodbye: "calls_only (of_verb POST) (send_goodbye i t day goodbye)"
  by (auto simp: send_goodbye_def intro!: calls_intros)

section \<open>Expired bans\<close>

definition is_unban_of :: "u64 \<Rightarrow> request \<Rightarrow> bool" where
  "is_unban_of uid q \<longleftrightarrow> rq_verb q = DELETE \<and> rq_path q = ban_path LMG_GUILD_ID (sf_of_int uid)"

lemma unban_inject: "is_unban_of u q \<Longrightarrow> is_unban_of v q \<Longrightarrow> u = v"
  by (auto simp: is_unban_of_def ban_path_def ToString_def sf_of_int_def to_dec_inject unsigned_word_eqI)

lemma unban_not_posted: "list_all (of_verb POST) cs \<Longrightarrow> \<not> accepted (is_unban_of u) h pre cs"
  by (rule not_accepted [of POST]) (simp_all add: is_unban_of_def)

lemma calls_only_notice: "calls_only (of_verb POST) (catchE P (post c m) (\<lambda>_. ret ()))"
  by (auto simp: post_def intro!: calls_intros)

text \<open>
  Whether a ban is lifted or the round is cut short by an exception, only requests for the
  users at hand are sent, and the database is not touched.
\<close>

lemma lift_ban_run:
  fixes w :: world
  assumes "lift_ban uid un w = (r, w')"
  shows "\<exists>new. w_store w' = w_store w \<and> w_http w' = w_http w \<and> w_calls w' = w_calls w @ new
     \<and> (\<forall>un'. r = Inr un' \<longrightarrow> set un' = set un \<union> (if accepted (is_unban_of uid) (w_http w) (w_calls w) new then {uid} else {}))
     \<and> (\<forall>v. v \<noteq> uid \<longrightarrow> \<not> accepted (is_unban_of v) (w_http w) (w_calls w) new)"
proof -
  define q where "q = \<lparr>rq_verb = DELETE, rq_path = ban_path LMG_GUILD_ID (sf_of_int uid), rq_body = None,
     rq_fields = audit_reason ''Temporary ban expired''\<rparr>"
  define w1 where "w1 = w\<lparr>w_calls := w_calls w @ [Http q], w_strand := EventStrand\<rparr>"
  have q: "is_unban_of uid q" by (simp add: is_unban_of_def q_def)
  have other: "\<not> is_unban_of v q" if "v \<noteq> uid" for v using unban_inject [OF _ q] that by blast
  have send: "RemoveGuildBan LMG_GUILD_ID (sf_of_int uid) ''Temporary ban expired'' w =
      (case w_http w (w_calls w) q of Inl e \<Rightarrow> Inl e | Inr _ \<Rightarrow> Inr (), w1)"
    by (simp add: RemoveGuildBan_def no_result_def DiscordDelete_def http_send_def bindE_def q_def w1_def split: sum.splits)
  show ?thesis
  proof (cases "w_http w (w_calls w) q")
    case (Inl e)
    with assms send have "w' = w1 \<and> (\<forall>un'. r = Inr un' \<longrightarrow> un' = un)"
      by (auto simp: lift_ban_def bindE_def seqE_def catchE_def split: if_splits)
    with Inl other show ?thesis by (auto simp: w1_def)
  next
    case (Inr v)
    define notice where "notice = catchE is_discord_error (post LMG_CHANNEL_USER_LOG (SetContent (fmt_u (sf_of_int uid)
      @ (bytes [39, 115, 32, 98, 97, 110, 32, 101, 120, 112, 105, 114, 101, 100])) no_message)) (\<lambda>_. ret ())"
    obtain r2 w2 where n: "notice w1 = (r2, w2)" by fastforce
    from assms send Inr n have "w' = w2 \<and> (\<forall>un'. r = Inr un' \<longrightarrow> un' = un @ [uid])"
      by (cases r2) (auto simp: lift_ban_def bindE_def seqE_def catchE_def notice_def [symmetric])
    moreover from calls_only_notice n [unfolded notice_def] obtain n2 where "w_store w2 = w_store w1" "w_http w2 = w_http w1"
      "w_calls w2 = w_calls w1 @ n2" "list_all (of_verb POST) n2" by (rule calls_onlyD)
    ultimately show ?thesis using Inr q other
      by (intro exI [of _ "Http q # n2"]) (auto simp: w1_def dest: unban_not_posted)
  qed
qed

lemma lift_bans_fold:
  fixes w :: world
  shows "foldE lift_ban us un w = (r, w') \<Longrightarrow>
     \<exists>new. w_store w' = w_store w \<and> w_http w' = w_http w \<and> w_calls w' = w_calls w @ new
       \<and> (\<forall>un'. r = Inr un' \<longrightarrow> set un' = set un \<union> {u \<in> set us. accepted (is_unban_of u) (w_http w) (w_calls w) new})
       \<and> (\<forall>v. v \<notin> set us \<longrightarrow> \<not> accepted (is_unban_of v) (w_http w) (w_calls w) new)"
proof (induction us arbitrary: un w)
  case Nil
  then show ?case by auto
next
  case (Cons u us)
  obtain r1 w1 where run1: "lift_ban u un w = (r1, w1)" by fastforce
  from lift_ban_run [OF run1] obtain n1 where n1: "w_store w1 = w_store w" "w_http w1 = w_http w" "w_calls w1 = w_calls w @ n1"
    "\<And>un1. r1 = Inr un1 \<Longrightarrow> set un1 = set un \<union> (if accepted (is_unban_of u) (w_http w) (w_calls w) n1 then {u} else {})"
    "\<And>v. v \<noteq> u \<Longrightarrow> \<not> accepted (is_unban_of v) (w_http w) (w_calls w) n1" by blast
  show ?case
  proof (cases r1)
    case (Inl e)
    with Cons.prems run1 have "r = Inl e" "w' = w1" by (auto simp: bindE_def)
    with n1 show ?thesis by auto
  next
    case (Inr un1)
    with Cons.prems run1 have run2: "foldE lift_ban us un1 w1 = (r, w')" by (simp add: bindE_def)
    from Cons.IH [OF run2] n1 obtain n2 where n2: "w_store w' = w_store w" "w_http w' = w_http w" "w_calls w' = w_calls w @ n1 @ n2"
      "\<And>un'. r = Inr un' \<Longrightarrow> set un' = set un1 \<union> {x \<in> set us. accepted (is_unban_of x) (w_http w) (w_calls w @ n1) n2}"
      "\<And>v. v \<notin> set us \<Longrightarrow> \<not> accepted (is_unban_of v) (w_http w) (w_calls w @ n1) n2" by auto
    define lifted where "lifted = accepted (is_unban_of u) (w_http w) (w_calls w) n1"
    have e: "accepted (is_unban_of x) (w_http w) (w_calls w) n1 \<longleftrightarrow> x = u \<and> lifted" for x
      by (cases "x = u") (use n1(5) in \<open>auto simp: lifted_def\<close>)
    show ?thesis
      using n1(4) [OF Inr] n2 e by (intro exI [of _ "n1 @ n2"]) (auto simp: accepted_append split: if_splits)
  qed
qed

text \<open>
  Discord answers every request: it carries it out, and then the answer to a message is that
  message, or refuses it with an error of its own.
\<close>

definition discord_answers :: "world \<Rightarrow> bool" where
  "discord_answers w \<longleftrightarrow>
     (\<forall>cs q. case w_http w cs q of Inl e \<Rightarrow> is_discord_error e | Inr v \<Rightarrow> rq_verb q = POST \<longrightarrow> \<not> isl (cMessage_of_json v))"

lemma notice_returns:
  fixes w :: world
  assumes "discord_answers w"
  shows "\<exists>w'. catchE is_discord_error (post c m) (\<lambda>_. ret ()) w = (Inr (), w')"
proof -
  define q where "q = \<lparr>rq_verb = POST, rq_path = ''/channels/'' @ ToString c @ ''/messages'',
     rq_body = Some (cPartialMessage_to_json m), rq_fields = []\<rparr>"
  have "case w_http w (w_calls w) q of Inl e \<Rightarrow> is_discord_error e | Inr v \<Rightarrow> \<not> isl (cMessage_of_json v)"
    using assms [unfolded discord_answers_def, THEN spec [of _ "w_calls w"], THEN spec [of _ q]] by (simp add: q_def split: sum.splits)
  then show ?thesis
    by (auto simp: post_def CreateMessage_def parsed_def bindE_def catchE_def lift_def DiscordPost_def http_send_def
        q_def split: sum.splits)
qed

lemma lift_ban_returns:
  fixes w :: world
  assumes "discord_answers w" "lift_ban uid un w = (r, w')"
  shows "\<not> isl r"
proof -
  define q where "q = \<lparr>rq_verb = DELETE, rq_path = ban_path LMG_GUILD_ID (sf_of_int uid), rq_body = None,
     rq_fields = audit_reason ''Temporary ban expired''\<rparr>"
  define w1 where "w1 = w\<lparr>w_calls := w_calls w @ [Http q], w_strand := EventStrand\<rparr>"
  have send: "RemoveGuildBan LMG_GUILD_ID (sf_of_int uid) ''Temporary ban expired'' w =
      (case w_http w (w_calls w) q of Inl e \<Rightarrow> Inl e | Inr _ \<Rightarrow> Inr (), w1)"
    by (simp add: RemoveGuildBan_def no_result_def DiscordDelete_def http_send_def bindE_def q_def w1_def split: sum.splits)
  have "discord_answers w1" using assms(1) by (simp add: discord_answers_def w1_def)
  from notice_returns [OF this] obtain w2 where n: "catchE is_discord_error (post LMG_CHANNEL_USER_LOG
      (SetContent (fmt_u (sf_of_int uid) @ (bytes [39, 115, 32, 98, 97, 110, 32, 101, 120, 112, 105, 114, 101, 100])) no_message))
      (\<lambda>_. ret ()) w1 = (Inr (), w2)" by blast
  have "case w_http w (w_calls w) q of Inl e \<Rightarrow> is_discord_error e | Inr v \<Rightarrow> True"
    using assms(1) [unfolded discord_answers_def, THEN spec [of _ "w_calls w"], THEN spec [of _ q]] by (simp split: sum.splits)
  then show ?thesis
    using assms(2) send n by (auto simp: lift_ban_def bindE_def seqE_def catchE_def split: sum.splits if_splits)
qed

lemma lift_bans_fold_returns:
  fixes w :: world
  shows "discord_answers w \<Longrightarrow> foldE lift_ban us un w = (r, w') \<Longrightarrow> \<not> isl r"
proof (induction us arbitrary: un w)
  case Nil
  then show ?case by auto
next
  case (Cons u us)
  obtain r1 w1 where run1: "lift_ban u un w = (r1, w1)" by fastforce
  obtain un1 where un1: "r1 = Inr un1" using lift_ban_returns [OF Cons.prems(1) run1] by (cases r1) auto
  have "discord_answers w1" using lift_ban_run [OF run1] Cons.prems(1) by (auto simp: discord_answers_def)
  moreover have "foldE lift_ban us un1 w1 = (r, w')" using Cons.prems(2) run1 un1 by (simp add: bindE_def)
  ultimately show ?case by (rule Cons.IH)
qed

lemma dao_returns:
  fixes w :: world
  assumes "engine (w_store w) = []" "dao q w = (r, w')" "\<And>d. \<not> isl (q d)"
  shows "\<not> isl r \<and> engine (w_store w') = [] \<and> w_http w' = w_http w"
proof -
  obtain x d where "q (visible (w_store w)) = Inr (x, d)" using assms(3) [of "visible (w_store w)"]
    by (cases "q (visible (w_store w))") auto
  from dao_healthy [where w = w and q = q and x = x and d = d, OF assms(1) this] assms(1,2) show ?thesis
    by (auto simp: write_db_def autocommit_def split: if_splits)
qed

lemma lift_bans_returns:
  fixes w :: world
  assumes "engine (w_store w) = []" "discord_answers w" "lift_bans w = (r, w')"
  shows "r = Inr ()"
proof -
  let ?now = "w_system_clock w (w_ticks w) div ns_ms" and ?w = "w\<lparr>w_ticks := Suc (w_ticks w)\<rparr>"
  obtain r1 w1 where ge: "dao (GetExpired ?now) ?w = (r1, w1)" by fastforce
  have g: "\<not> isl r1 \<and> engine (w_store w1) = [] \<and> w_http w1 = w_http w"
    using dao_returns [OF _ ge] assms(1) by (simp add: GetExpired_def)
  then obtain us where us: "r1 = Inr us" by (cases r1) auto
  obtain r2 w2 where run: "foldE lift_ban us [] w1 = (r2, w2)" by fastforce
  have "discord_answers w1" using assms(2) g by (simp add: discord_answers_def)
  from lift_bans_fold_returns [OF this run] obtain un where un: "r2 = Inr un" by (cases r2) auto
  have e2: "engine (w_store w2) = []" using lift_bans_fold [OF run] g by auto
  have last: "whenE (un \<noteq> []) (dao (TempBanRemoveAll un)) w2 = (r, w')"
    using assms(3) ge us run un by (simp add: lift_bans_def now_ms_def system_now_def bindE_def)
  show ?thesis
  proof (cases "un = []")
    case False
    then have "dao (TempBanRemoveAll un) w2 = (r, w')" using last by (simp add: whenE_def)
    from dao_returns [OF e2 this] have "\<not> isl r" by (simp add: TempBanRemoveAll_def)
    then show ?thesis by (cases r) auto
  qed (use last in \<open>auto simp: whenE_def\<close>)
qed

section \<open>Properties\<close>

text \<open>
  C9: whatever the database engine and Discord answer, a round of lifting expired bans that runs
  outside a transaction and ends without an exception removes exactly those rows whose day has
  come and whose ban Discord has lifted when asked, and keeps all others. If an exception cuts the
  round short, also after some bans were lifted, every row is kept. With an engine that reports no
  errors and a Discord that answers, if only to refuse, the round does end without an exception.
\<close>

theorem expired_bans_lifted:
  assumes "working (w_store w) = None" and "db_inv (committed (w_store w))" and "lift_bans w = (r, w')"
  shows "(engine (w_store w) = [] \<and> discord_answers w \<longrightarrow> r = Inr ())
    \<and> (\<exists>new. w_calls w' = w_calls w @ new
    \<and> (\<forall>u. map_of (tempbans (committed (w_store w'))) (bind_id u) =
         (case map_of (tempbans (committed (w_store w))) (bind_id u) of None \<Rightarrow> None
          | Some day \<Rightarrow> if r = Inr () \<and> day \<le> w_system_clock w (w_ticks w) div ns_ms div ms_day
                \<and> accepted (is_unban_of u) (w_http w) (w_calls w) new then None else Some day)))" (is "_ \<and> ?effect")
proof
  show "engine (w_store w) = [] \<and> discord_answers w \<longrightarrow> r = Inr ()" using lift_bans_returns assms(3) by blast
  let ?d = "committed (w_store w)" and ?now = "w_system_clock w (w_ticks w) div ns_ms"
  let ?w = "w\<lparr>w_ticks := Suc (w_ticks w)\<rparr>"
  obtain r1 w1 where ge: "dao (GetExpired ?now) ?w = (r1, w1)" by fastforce
  have "working (w_store ?w) = None" using assms(1) by simp
  note ge' = dao_autocommit [OF ge this]
  have now: "lift_bans w = bindE (dao (GetExpired ?now)) (\<lambda>expired. bindE (foldE lift_ban expired [])
       (\<lambda>unbanned. whenE (unbanned \<noteq> []) (dao (TempBanRemoveAll unbanned)))) ?w"
    by (simp add: lift_bans_def now_ms_def system_now_def bindE_def)
  show "?effect"
  proof (cases r1)
    case (Inl e)
    with assms(3) ge ge' now show ?thesis by (auto simp: bindE_def split: option.splits)
  next
    case (Inr us)
    then have us: "us = fst (projr (GetExpired ?now ?d))" and d1: "committed (w_store w1) = ?d"
      using ge' by (auto simp: GetExpired_def)
    obtain r2 w2 where run: "foldE lift_ban us [] w1 = (r2, w2)" by fastforce
    from lift_bans_fold [OF run] ge' obtain new where n: "w_store w2 = w_store w1" "w_calls w2 = w_calls w @ new"
      "\<And>un. r2 = Inr un \<Longrightarrow> set un = {u \<in> set us. accepted (is_unban_of u) (w_http w) (w_calls w) new}" by auto
    show ?thesis
    proof (cases r2)
      case (Inl e)
      then have "r = Inl e" "w' = w2" using assms(3) now ge \<open>r1 = Inr us\<close> run by (simp_all add: bindE_def)
      with n d1 show ?thesis by (auto split: option.splits)
    next
      case (Inr un)
      have last: "whenE (un \<noteq> []) (dao (TempBanRemoveAll un)) w2 = (r, w')"
        using assms(3) now ge \<open>r1 = Inr us\<close> run Inr by (simp add: bindE_def)
      have w': "w_calls w' = w_calls w2 \<and> (if r = Inr () then
          tempbans (committed (w_store w')) = tdel_where (\<lambda>k r. k \<in> set (map bind_id un)) (tempbans ?d)
          else committed (w_store w') = ?d)"
      proof (cases "un = []")
        case True
        then show ?thesis using last n d1 by (auto simp: whenE_def tdel_where_def)
      next
        case False
        then have "dao (TempBanRemoveAll un) w2 = (r, w')" using last by (simp add: whenE_def)
        from dao_autocommit [OF this] n(1) ge' d1 False have "w_calls w' = w_calls w2 \<and>
          (if r = Inr () then committed (w_store w') = ?d\<lparr>tempbans := tdel_where (\<lambda>k r. k \<in> set (map bind_id un)) (tempbans ?d)\<rparr>
           else committed (w_store w') = ?d)"
          by (auto simp: TempBanRemoveAll_def split: sum.splits)
        then show ?thesis by (auto split: if_splits)
      qed
      have wf: "twf (tempbans ?d)" using db_inv_parts(5) [OF assms(2)] by (simp add: tb_ok_def)
      have "bind_id u \<in> set (map bind_id un) \<longleftrightarrow> u \<in> set un" for u by auto
      moreover have "u \<in> set us \<longleftrightarrow> (\<exists>e. map_of (tempbans ?d) (bind_id u) = Some e \<and> ?now div ms_day \<ge> e)" for u
        unfolding us by (rule in_expired [OF assms(2)])
      ultimately show ?thesis using w' n(2) n(3) [OF Inr]
        by (intro exI [of _ new]) (auto simp: map_of_tdel_where [OF wf] split: option.splits if_splits)
    qed
  qed
qed

text \<open>A ban of the first day, a service that lifts it and refuses the message about it.\<close>

definition expired_ban_world :: world where
  "expired_ban_world = start_world
     \<lparr>w_store := start_session\<lparr>committed := db_empty\<lparr>tempbans := [(7, 0)]\<rparr>\<rparr>,
      w_http := \<lambda>cs q. if rq_verb q = DELETE then Inr JNull else Inl (xDiscordError 0 [])\<rparr>"

theorem expired_bans_lifted_witness:
  "map_of (tempbans (committed (w_store (snd (lift_bans expired_ban_world))))) (bind_id 7) = None"
proof -
  let ?w = expired_ban_world
  have inv: "db_inv (db_empty\<lparr>tempbans := [(7, 0)]\<rparr>)"
    by (rule db_inv_upd(5) [OF db_inv_empty]) (simp add: tb_ok_def twf_def is_id_def column_id_def bind_id_def)
  have "\<exists>w' q. lift_bans ?w = (Inr (), w')
    \<and> w_calls w' = [Http \<lparr>rq_verb = DELETE, rq_path = ban_path LMG_GUILD_ID (sf_of_int 7), rq_body = None,
        rq_fields = audit_reason ''Temporary ban expired''\<rparr>, Http q]"
    by (simp add: lift_bans_def now_ms_def system_now_def bindE_def expired_ban_world_def start_world_def start_session_def
        dao_def on_store_def Exec_healthy visible_def GetExpired_def tselect_def db_empty_def write_db_def autocommit_def)
      (simp add: lift_ban_def RemoveGuildBan_def no_result_def DiscordDelete_def http_send_def bindE_def seqE_def catchE_def
        post_def CreateMessage_def parsed_def DiscordPost_def whenE_def TempBanRemoveAll_def dao_def on_store_def Exec_healthy
        visible_def write_db_def autocommit_def tdel_where_def bind_id_def column_id_def)
  then obtain w' q where run: "lift_bans ?w = (Inr (), w')" and c: "w_calls w' = [Http \<lparr>rq_verb = DELETE,
      rq_path = ban_path LMG_GUILD_ID (sf_of_int 7), rq_body = None, rq_fields = audit_reason ''Temporary ban expired''\<rparr>, Http q]"
    by blast
  have w: "working (w_store ?w) = None" "committed (w_store ?w) = db_empty\<lparr>tempbans := [(7, 0)]\<rparr>"
    "w_calls ?w = []" "w_system_clock ?w 0 = 0" "w_ticks ?w = 0" "\<And>cs q. rq_verb q = DELETE \<Longrightarrow> w_http ?w cs q = Inr JNull"
    by (simp_all add: expired_ban_world_def start_world_def start_session_def)
  from expired_bans_lifted [OF w(1) _ run] inv w(2,3) obtain new where
    "w_calls w' = new" "map_of (tempbans (committed (w_store w'))) (bind_id 7) =
       (case map_of [(7, 0)] (bind_id 7) of None \<Rightarrow> None
        | Some day \<Rightarrow> if day \<le> w_system_clock ?w (w_ticks ?w) div ns_ms div ms_day
            \<and> accepted (is_unban_of 7) (w_http ?w) [] new then None else Some day)" by auto
  with c show ?thesis
    by (simp add: run w is_unban_of_def bind_id_def)
qed

text \<open>
  The custom id of the modal of a ban or a warning carries its target: what the handler
  of the modal reads from it is the target the menu was opened on, whatever the names are as
  long as they contain no colon.
\<close>

theorem modal_ids_roundtrip:
  assumes "target_ok t"
  shows "starts_with ''ban:'' (mod_custom_id (ban_modal t name)) \<and> parse_ban_id (drop 4 (mod_custom_id (ban_modal t name))) = Inr t
    \<and> starts_with ''warn:'' (mod_custom_id (warn_modal t name)) \<and> parse_warn_id (drop 5 (mod_custom_id (warn_modal t name))) = Inr t"
  using ban_id.dec_enc [OF assms] warn_id.dec_enc [OF assms]
  by (simp add: ban_modal_def warn_modal_def starts_with_def)

theorem modal_ids_roundtrip_witness:
  "parse_ban_id ''4711:avatar:name:0'' = Inr \<lparr>t_id = sf_of_int 4711, t_avatar = ''avatar'', t_username = ''name'', t_discriminator = 0\<rparr>"
proof -
  let ?t = "\<lparr>t_id = sf_of_int 4711, t_avatar = ''avatar'', t_username = ''name'', t_discriminator = 0\<rparr>"
  have "target_ok ?t" by (simp add: target_ok_def no_colon_def)
  moreover have "digit_char 4 = CHR ''4''" "digit_char 7 = CHR ''7''" "digit_char 1 = CHR ''1''" "digit_char (Suc 0) = CHR ''1''"
    by code_simp+
  then have "ban_custom_id ?t = ''4711:avatar:name:0''"
    by (simp add: ban_custom_id_def sf_of_int_def ToString_def to_dec.simps digit_char_0)
  ultimately show ?thesis using modal_ids_roundtrip [of ?t] by (simp add: ban_modal_def)
qed

text \<open>
  C24: a date is read as the day it names. A list of different units is read as the first day
  that begins no earlier than that long from now, so that such a ban never ends too early and at
  most a day late, as long as that moment is before the end of the 64-bit clock of nanoseconds,
  in April 2262. A moment that lies up to 292 years behind this end is refused as lying in the past.
  In general the moment is the one to which the clock wraps around, and a longer time may
  denote a day in the near future (lemma \<open>ban_duration_wraps\<close>).
\<close>

theorem ban_duration_correct:
  assumes "four_digit_year day" and "units_ok us" and "0 \<le> now"
  shows "parse_ban_duration now (date_text day) = Some day
    \<and> (\<exists>last. parse_ban_duration now (units_text us) = Some last
        \<and> wrap64 (now + units_total us) \<le> last * ns_day \<and> last * ns_day < wrap64 (now + units_total us) + ns_day
        \<and> (now + units_total us < 2 ^ 63 \<longrightarrow>
             now + units_total us \<le> last * ns_day \<and> last * ns_day < now + units_total us + ns_day)
        \<and> (2 ^ 63 \<le> now + units_total us \<and> now + units_total us < 2 ^ 64 \<longrightarrow>
             last \<le> 0 \<and> (\<forall>now'\<ge>0. ban_expiry now' now (units_text us) = None)))"
proof -
  let ?x = "now + units_total us" and ?last = "ceil_div (wrap64 (now + units_total us)) ns_day"
  have p: "parse_ban_duration now (units_text us) = Some ?last" by (rule parse_duration_text [OF assms(2)])
  have ceil: "wrap64 ?x \<le> ?last * ns_day \<and> ?last * ns_day < wrap64 ?x + ns_day"
    using ceil_div_le [of ns_day "wrap64 ?x" ?last] ceil_div_le [of ns_day "wrap64 ?x" "?last - 1"]
    by (simp add: ns_day_def algebra_simps)
  have "0 \<le> units_total us" unfolding units_total_def
    by (rule sum_list_nonneg) (auto simp: unit_ms_def ms_units ns_ms_def)
  then have fits: "wrap64 ?x = ?x" if "?x < 2 ^ 63" using assms(3) that by (intro wrap64_id) simp_all
  have past: "?last \<le> 0 \<and> ban_expiry now' now (units_text us) = None"
    if "2 ^ 63 \<le> ?x" "?x < 2 ^ 64" "0 \<le> now'" for now'
  proof -
    have "wrap64 ?x < 0" using that by (intro wrap64_negative)
    then have le: "?last \<le> 0" using ceil_div_le [of ns_day "wrap64 ?x" 0] by (simp add: ns_day_def)
    then have neg: "?last * ns_day \<le> 0" by (simp add: ns_day_def)
    have "- (2 ^ 63) \<le> ?last * ns_day" using ceil wrap64_lower [of ?x] by linarith
    then have "wrap64 (?last * ns_day) = ?last * ns_day" using neg by (intro wrap64_id) simp_all
    with neg that(3) le p show ?thesis by (simp add: ban_expiry_def in_future_def)
  qed
  have "?x \<le> ?last * ns_day \<and> ?last * ns_day < ?x + ns_day" if "?x < 2 ^ 63"
    using ceil by (simp add: fits [OF that])
  moreover have "2 ^ 63 \<le> ?x \<and> ?x < 2 ^ 64 \<longrightarrow> ?last \<le> 0 \<and> (\<forall>now'\<ge>0. ban_expiry now' now (units_text us) = None)"
    using past [of 0] past by simp
  ultimately show ?thesis using parse_date_text [OF assms(1)] p ceil by blast
qed

theorem ban_duration_correct_witness:
  "parse_ban_duration 0 (date_text 20000) = Some 20000 \<and> parse_ban_duration 0 ''1y5w'' = Some 401
     \<and> ban_expiry 0 0 ''300y'' = None"
proof -
  have u: "units_text [(1, CHR ''y''), (5, CHR ''w'')] = ''1y5w''" "units_text [(300, CHR ''y'')] = ''300y''" by code_simp+
  have d: "four_digit_year 20000" by code_simp
  have ok: "units_ok [(1, CHR ''y''), (5, CHR ''w'')]" "units_ok [(300, CHR ''y'')]" by (simp_all add: units_ok_def unit_chars_def)
  have s: "units_total [(1, CHR ''y''), (5, CHR ''w'')] = 34580952000000000" "units_total [(300, CHR ''y'')] = 9467085600000000000"
    by code_simp+
  from ban_duration_correct [OF d ok(1), of 0] obtain last where
    l: "parse_ban_duration 0 ''1y5w'' = Some last" "34580952000000000 \<le> last * ns_day" "last * ns_day < 34580952000000000 + ns_day"
    by (auto simp: u s simp del: units_text.simps One_nat_def)
  then have "last = 401" by (simp add: ns_day_def)
  moreover have "parse_ban_duration 0 (date_text 20000) = Some 20000" "ban_expiry 0 0 ''300y'' = None"
    using ban_duration_correct [OF d ok(2), of 0] by (auto simp: u s simp del: units_text.simps One_nat_def)
  ultimately show ?thesis using l(1) by simp
qed

text \<open>
  Six hundred years from the start of 2025 come around to a day of the year 2040: such a ban is
  not refused, and ends some 585 years too early.
\<close>

lemma ban_duration_wraps:
  "ban_expiry 1735689600000000000 1735689600000000000 ''600y'' = Some 25731
     \<and> year_month_day 25731 = (2040, 6, 13)"
proof -
  have u: "units_text [(600, CHR ''y'')] = ''600y''" by code_simp
  have ok: "units_ok [(600, CHR ''y'')]" by (simp add: units_ok_def unit_chars_def)
  have "ceil_div (wrap64 (1735689600000000000 + units_total [(600, CHR ''y'')])) ns_day = 25731" by code_simp
  with parse_duration_text [OF ok, of 1735689600000000000] u
  have "parse_ban_duration 1735689600000000000 ''600y'' = Some 25731" by simp
  moreover have "in_future 1735689600000000000 25731" by code_simp
  moreover have "year_month_day 25731 = (2040, 6, 13)" by code_simp
  ultimately show ?thesis by (simp add: ban_expiry_def)
qed

text \<open>
  A date from the 12th of April 2262 on does not fit the clock: up to the year 2554 it is
  taken for a day of the past, and the ban is refused as if the text were no date.
\<close>

theorem far_dates_rejected:
  assumes "0 \<le> now" and "106752 \<le> day" and "day \<le> 213503"
  shows "parse_ban_duration now' (date_text day) = Some day \<and> ban_expiry now now' (date_text day) = None"
proof -
  have "four_digit_year day" using assms(2,3)
    by (simp add: four_digit_year_def sys_days_def days_before_year_def days_before_month_def is_leap_def epoch_days_def)
  then have p: "parse_ban_duration now' (date_text day) = Some day" by (rule parse_date_text)
  have "wrap64 (day * ns_day) < 0" by (rule wrap64_negative) (use assms(2,3) in \<open>simp_all add: ns_day_def\<close>)
  with p assms(1) show ?thesis by (simp add: ban_expiry_def in_future_def)
qed

theorem far_dates_rejected_witness:
  "ban_expiry 0 0 ''2300-01-01'' = None"
proof -
  have "date_text 120530 = ''2300-01-01''" by code_simp
  with far_dates_rejected [of 0 120530 0] show ?thesis by simp
qed

text \<open>
  C8: a ban command that finds no open transaction either records the end of the ban (or removes
  an earlier one), and then Discord has accepted the ban of that user, or leaves the database as
  it was and ends with an exception; this holds whatever errors the database engine reports
  between, busy ones excepted. If it reports none, the ban is recorded exactly when Discord has
  accepted it. A \<open>COMMIT\<close> that fails after Discord has accepted leaves an accepted ban unrecorded
  (lemma \<open>accepted_ban_unrecorded\<close>).
\<close>

theorem ban_recorded_with_discord:
  assumes "not_busy (w_store w)" and "working (w_store w) = None"
    and "TempBanRegister (ToInt (t_id t)) day (committed (w_store w)) = Inr ((), d')"
    and "carry_out_ban i sc t day opts w = (r, w')"
  shows "\<exists>new. w_calls w' = w_calls w @ new
     \<and> (accepted (is_ban_of (t_id t)) (w_http w) (w_calls w) new \<and> committed (w_store w') = d'
        \<or> isl r \<and> committed (w_store w') = committed (w_store w))
     \<and> (engine (w_store w) = [] \<longrightarrow>
          committed (w_store w') = (if accepted (is_ban_of (t_id t)) (w_http w) (w_calls w) new then d' else committed (w_store w)))"
proof -
  have "ban_effect (t_id t) (w_store w) d' (carry_out_ban i sc t day opts)"
    unfolding carry_out_ban_def seqE_def [of "InteractionDefer i True"]
    by (intro ban_effect_bindE calls_only_post calls_only_ban_texts)
      (auto intro!: ban_effect_bindE ban_transaction assms calls_only_goodbye)
  with assms(4) show ?thesis by (simp add: ban_effect_def ban_result_def)
qed

theorem ban_recorded_with_discord_witness:
  "committed (w_store (snd (carry_out_ban (ModalSubmit example_modal) SUBCMD_USER (target_of example_user) 5 no_ban_options
      (start_world\<lparr>w_http := \<lambda>cs q. if rq_verb q = PUT then Inl (xDiscordError 50013 ''Missing Permissions'') else Inr JNull\<rparr>))))
     = db_empty"
proof -
  let ?w = "start_world\<lparr>w_http := \<lambda>cs q. if rq_verb q = PUT then Inl (xDiscordError 50013 ''Missing Permissions'') else Inr JNull\<rparr>"
  let ?t = "target_of example_user" and ?i = "ModalSubmit example_modal"
  obtain r w' where run: "carry_out_ban ?i SUBCMD_USER ?t 5 no_ban_options ?w = (r, w')" by fastforce
  have w: "not_busy (w_store ?w)" "working (w_store ?w) = None" "committed (w_store ?w) = db_empty"
    by (simp_all add: start_world_def start_session_def not_busy_def)
  obtain d' where "TempBanRegister (ToInt (t_id ?t)) 5 (committed (w_store ?w)) = Inr ((), d')"
    by (simp add: TempBanRegister_def query_tempban_register_def)
  moreover have "\<not> accepted (is_ban_of u) (w_http ?w) pre cs" for u pre cs
    by (rule never_accepted) (simp add: is_ban_of_def)
  ultimately show ?thesis
    using ban_recorded_with_discord [OF w(1,2) _ run] w(3) run by auto
qed

text \<open>
  Discord accepts a ban and the \<open>COMMIT\<close> of its row fails: the user is banned, but no end of
  the ban is recorded. The engine prepares and steps \<open>BEGIN\<close>, the statement and \<open>COMMIT\<close>.
\<close>

lemma accepted_ban_unrecorded:
  fixes w :: world
  assumes "w_store w = s\<lparr>engine := [Ran, Ran, Ran, Ran, Ran, Fails (SQLITE_OTHER 13)]\<rparr>"
    and "handle s" and "working s = None" and "i_guild_id i = Some g" and "\<And>cs q. w_http w cs q = Inr JNull"
    and "TempBanRegister (ToInt (t_id t)) day (committed s) = Inr ((), d')"
  shows "\<exists>w' new. register_ban i t day secs rsn w = (Inl (xSqlError (SQLITE_OTHER 13)), w') \<and> w_calls w' = w_calls w @ new
     \<and> accepted (is_ban_of (t_id t)) (w_http w) (w_calls w) new \<and> committed (w_store w') = committed s"
proof -
  have "Exec_loop 0 f s' = (Inr r, s1)" if "f s' = (Inr r, s1)" for f and s' s1 :: "db session" and r :: unit
    using that by (subst Exec_loop.simps) simp
  then show ?thesis
    using assms
    by (simp add: register_ban_def txn_begin_def txn_commit_def dao_def on_store_def throwing_def seqE_def bindE_def
        Begin_def begin_impl_def Commit_def commit_impl_def run_control_def engine_call_def autocommit_def numeral_eq_Suc
        Exec_def statement_def visible_def write_db_def guild_of_def CreateGuildBan_def no_result_def DiscordPut_def
        http_send_def is_ban_of_def) blast
qed

end
