(* ===== verification/Guards.thy ===== *)
theory Guards
  imports Handlers Frames
begin

text \<open>
  Moderation needs permissions: which interactions need which permission, stated on its own,
  and that without it nothing happens but an answer to the interaction itself.
\<close>

section \<open>What needs a permission\<close>

definition app_cmd_permission :: "u64 \<Rightarrow> ePermission option" where
  "app_cmd_permission c =
     (if c \<in> {1031907652541890621, 1170787836434317363, 1174826008474570892, 1174836455714078740, 1294358361248370698}
        then Some P_BanMembers
      else if c = 1254933366562754591 then Some P_ManageMessages
      else if c \<in> {1336758756062527581, 1340296154868613231} then Some P_ModerateMembers
      else if c = 1505552326000246895 then Some P_ManageNicknames
      else None)"

definition prefix_permission :: "(string \<times> ePermission) list \<Rightarrow> string \<Rightarrow> ePermission option" where
  "prefix_permission ps s = map_option snd (find (\<lambda>(p, _). starts_with p s) ps)"

fun needed_permission :: "(string \<Rightarrow> u32) \<Rightarrow> interaction \<Rightarrow> ePermission option" where
  "needed_permission crc (AppCmd i) = app_cmd_permission (ToInt (ac_command_id i))"
| "needed_permission crc (MsgComp i) =
     (if crc (mc_custom_id i) \<in> {CMP_ID_LEADERBOARD_HELP, CMP_ID_STARBOARD_HELP, CMP_ID_PROFICIENCY_MENU, CMP_ID_BOOSTER_MENU}
      then None
      else prefix_permission [(''BAN#'', P_BanMembers), (''NCK#'', P_ManageNicknames), (''unwarn:'', P_ModerateMembers),
             (''timeout:'', P_ModerateMembers)] (mc_custom_id i))"
| "needed_permission crc (ModalSubmit i) =
     (if mo_custom_id i = ''NICKNAME_MODAL'' then Some P_ManageNicknames
      else prefix_permission [(''ban:'', P_BanMembers), (''warn:'', P_ModerateMembers)] (mo_custom_id i))"

text \<open>An answer to an interaction.\<close>

fun answer_to :: "interaction \<Rightarrow> call \<Rightarrow> bool" where
  "answer_to i (Http r) \<longleftrightarrow> rq_verb r = POST \<and> rq_path r \<in> {callback_path (base i), webhook_path (base i)}"
| "answer_to i _ = False"

definition only_answers :: "interaction \<Rightarrow> 'a eff \<Rightarrow> bool" where
  "only_answers i = calls_only (answer_to i)"

lemma only_answers_raise: "only_answers i (raise e)"
  by (simp add: only_answers_def calls_intros)

lemma only_answers_reply: "only_answers i (reply i msg)"
  by (auto simp: only_answers_def reply_def InteractionSendMessage_def DiscordPost_def intro!: calls_intros calls_only_http)

lemma only_answers_catchE:
  "only_answers i m \<Longrightarrow> (\<And>e. only_answers i (h e)) \<Longrightarrow> only_answers i (catchE P m h)"
  by (simp add: only_answers_def calls_only_catchE)

lemma only_answers_handler: "only_answers i m \<Longrightarrow> only_answers i (handler s m)"
  by (simp add: only_answers_def calls_only_handler)

lemma guarded_denied:
  "i_member i = Some m \<Longrightarrow> TestNone (m_permissions m) p \<Longrightarrow> guarded p i denied body = denied"
  by (simp add: guarded_def member_of_def)

lemma only_answers_run:
  assumes "\<And>t. r = Inr t \<Longrightarrow> only_answers i t"
  shows "only_answers i (run_task r)"
  using assms by (auto simp: run_task_def only_answers_raise split: sum.splits)

text \<open>Without the permission the task for an interaction answers, if there is one.\<close>

lemma denied_app_cmd:
  assumes "app_cmd_permission (ToInt (ac_command_id i)) = Some p" "i_member (ac_base i) = Some m" "TestNone (m_permissions m) p"
    "app_cmd_task i = Inr t"
  shows "only_answers (AppCmd i) t"
proof -
  note g = guarded_denied [OF assms(2)]
  have "p = P_BanMembers \<and> t \<in> {process_ban i, process_ban_ctx_menu i ''user'', process_ban_ctx_menu i ''turk'',
          process_ban_ctx_menu i ''greek'', process_unban (AppCmd i) sf_default}
      \<or> p = P_ManageMessages \<and> t = process_clear i \<or> p = P_ModerateMembers \<and> t = process_warn i
      \<or> p = P_ManageNicknames \<and> t = process_nicknames i"
    using assms(1,4) by (auto simp: app_cmd_permission_def app_cmd_task_def Let_def split: if_splits)
  then show ?thesis
    using assms(2,3)
    by (auto simp: process_ban_def process_ban_ctx_menu_def process_unban_def process_clear_def process_warn_def process_nicknames_def g
        intro!: only_answers_handler only_answers_reply)
qed

lemma starts_with_clash:
  "starts_with (a # p) s \<Longrightarrow> starts_with (b # q) s \<Longrightarrow> a = b"
  by (cases s) (auto simp: starts_with_def)

lemma denied_msg_comp:
  assumes "needed_permission crc (MsgComp i) = Some p" "i_member (mc_base i) = Some m" "TestNone (m_permissions m) p"
    "msg_comp_task (crc (mc_custom_id i)) i = Inr t"
  shows "only_answers (MsgComp i) t"
proof -
  note g = guarded_denied [OF assms(2)]
  have "p = P_BanMembers \<and> (\<exists>sf. t = process_unban (MsgComp i) sf)
      \<or> p = P_ManageNicknames \<and> (\<exists>sf. t = process_nickname_button i sf)
      \<or> p = P_ModerateMembers \<and> (t = process_infractions_remove i (drop 7 (mc_custom_id i)) \<or> (\<exists>sf. t = process_timeout_remove i sf))"
    using assms(1,4)
    by (auto simp: prefix_permission_def msg_comp_task_def task_with_def bindS_eq_Inr Let_def split: if_splits
        dest: starts_with_clash)
  then show ?thesis
    using assms(2,3)
    by (auto simp: process_unban_def process_nickname_button_def process_infractions_remove_def process_timeout_remove_def g
        intro!: only_answers_handler only_answers_reply)
qed

lemma denied_modal:
  assumes "needed_permission crc (ModalSubmit i) = Some p" "i_member (mo_base i) = Some m" "TestNone (m_permissions m) p"
    "modal_task i = Inr t"
  shows "only_answers (ModalSubmit i) t"
proof -
  note g = guarded_denied [OF assms(2)]
  have "p = P_BanMembers \<and> t = process_ban_modal i (drop 4 (mo_custom_id i))
      \<or> p = P_ModerateMembers \<and> t = process_warn_modal i (drop 5 (mo_custom_id i))
      \<or> p = P_ManageNicknames \<and> t = process_modal i"
    using assms(1,4)
    by (auto simp: prefix_permission_def modal_task_def Let_def starts_with_def split: if_splits)
  then show ?thesis
    using assms(2,3)
    by (auto simp: process_ban_modal_def process_warn_modal_def process_modal_def g
        intro!: only_answers_handler only_answers_reply)
qed

section \<open>Properties\<close>

text \<open>
  C6: an interaction that needs a permission which the member who sends it does not have
  changes nothing in the database and sends nothing to Discord but answers to itself: no ban,
  no kick, no timeout, no role, no nickname and no deletion.
\<close>

theorem moderation_needs_permission:
  assumes "needed_permission (w_crc32 w) i = Some p" "i_member (base i) = Some m" "TestNone (m_permissions m) p"
  shows "w_store (snd (OnInteractionCreate i w)) = w_store w
    \<and> (\<exists>new. w_calls (snd (OnInteractionCreate i w)) = w_calls w @ new \<and> list_all (answer_to i) new)"
proof -
  define t where "t = (case i of AppCmd a \<Rightarrow> app_cmd_task a
    | MsgComp c \<Rightarrow> msg_comp_task (w_crc32 w (mc_custom_id c)) c | ModalSubmit k \<Rightarrow> modal_task k)"
  have run: "process_interaction i w = run_task t w"
    by (cases i) (simp_all add: t_def CRC32_def bindE_getE)
  have "only_answers i (run_task t)"
    by (rule only_answers_run, cases i)
      (use assms denied_app_cmd denied_msg_comp denied_modal in \<open>auto simp: t_def\<close>)
  then have "only_answers i (catchE (\<lambda>_. True) (run_task t) (\<lambda>_. reply i FAIL_MESSAGE))"
    by (intro only_answers_catchE only_answers_reply)
  moreover have "OnInteractionCreate i w = catchE (\<lambda>_. True) (run_task t) (\<lambda>_. reply i FAIL_MESSAGE) w"
    by (simp add: OnInteractionCreate_def catchE_def run)
  ultimately show ?thesis by (simp add: only_answers_def calls_only_def)
qed

theorem moderation_needs_permission_witness:
  "w_store (snd (OnInteractionCreate (ModalSubmit example_modal) start_world)) = start_session"
  using moderation_needs_permission [of start_world "ModalSubmit example_modal" P_ManageNicknames example_member]
  by (simp add: example_modal_def example_base_def i_member_def example_member_def TestNone_def flags_None_def start_world_def)

end
