(* ===== verification/Http.thy ===== *)
theory Http
  imports World
begin

text \<open>
  The HTTP side of the connection to Discord (Discord/Gateway/GatewayHttp.cpp and
  Discord/Exception): what is sent for a request, what becomes of a response, the repetition of
  requests that were refused for their rate, and the queue that sends one request at a time.
  The reading and writing of JSON texts are parameters, \<open>parse\<close> and \<open>serialize\<close>; the
  \<open>w_http\<close> of the state of the bot answers requests the way \<open>DiscordRequest\<close> does here.
\<close>

section \<open>Errors\<close>

text \<open>\<open>xRateLimitError\<close> from the object that comes with it, if there is one; seconds are cut to milliseconds.\<close>

definition retry_after_of :: "json \<Rightarrow> exn + int" where
  "retry_after_of v = bindS (to_double v) (\<lambda>d. Inr \<lfloor>d * 1000\<rfloor>)"

definition rate_limit_error :: "jobject option \<Rightarrow> exn + exn" where
  "rate_limit_error p =
     (case p of
        None \<Rightarrow> Inr (xRateLimitError 0 False)
      | Some ob \<Rightarrow>
          bindS (fld_opt retry_after_of 0 ''retry_after'' ob) (\<lambda>ms.
          bindS (fld_opt as_bool False ''global'' ob) (\<lambda>g. Inr (xRateLimitError ms g))))"

definition eDiscordError_of_json :: "json \<Rightarrow> exn + int" where
  "eDiscordError_of_json v = bindS (to_i32 v) (\<lambda>c. Inr (if c = 0 then eGeneralError else c))"

definition c_str :: "string \<Rightarrow> string" where
  "c_str s = takeWhile (\<lambda>c. c \<noteq> CHR 0x00) s"

definition if_object :: "json \<Rightarrow> jobject option" where
  "if_object v = (case v of JObj ob \<Rightarrow> Some ob | _ \<Rightarrow> None)"

definition xDiscordError_of_json :: "json \<Rightarrow> exn + exn" where
  "xDiscordError_of_json v =
     (case Option.bind (if_object v) (\<lambda>ob. map_of ob ''code'') of
        None \<Rightarrow> Inr (xDiscordError eGeneralError [])
      | Some c \<Rightarrow>
          bindS (eDiscordError_of_json c) (\<lambda>ec.
          case Option.bind (if_object v) (\<lambda>ob. map_of ob ''message'') of
            Some m \<Rightarrow> bindS (as_string m) (\<lambda>s. Inr (xDiscordError ec (c_str s)))
          | None \<Rightarrow> Inr (xDiscordError ec [])))"

definition discord_category_message :: "int \<Rightarrow> string" where
  "discord_category_message ec =
     (if ec = 0 then ''No error'' else ''Discord error '' @ to_dec_int (if ec < 0 then 0 else ec))"

definition http_category_message :: "int \<Rightarrow> string" where
  "http_category_message ec =
     (if ec = 200 then ''The request completed successfully''
      else if ec = 201 then ''The entity was created successfully''
      else if ec = 204 then ''The request completed successfully but returned no content''
      else if ec = 304 then ''The entity was not modified (no action was taken)''
      else if ec = 400 then ''The request was improperly formatted, or the server couldn't understand it''
      else if ec = 401 then ''The Authorization header was missing or invalid''
      else if ec = 403 then ''The Authorization token you passed did not have permission to the resource''
      else if ec = 404 then ''The resource at the location specified doesn't exist''
      else if ec = 405 then ''The HTTP method used is not valid for the location specified''
      else if ec = 429 then ''You are being rate limited''
      else if ec = 502 then ''There was not a gateway available to process your request''
      else if 500 \<le> ec \<and> ec \<le> 599 then ''The server had an error processing your request''
      else ''Unexpected status code '' @ to_dec_int ec)"

section \<open>Requests and responses\<close>

record wire_request =
  wr_method :: verb
  wr_target :: string
  wr_fields :: "(string \<times> string) list"
  wr_body :: string

text \<open>\<open>set\<close> of a header field replaces the fields of that name.\<close>

definition set_field :: "string \<Rightarrow> string \<Rightarrow> (string \<times> string) list \<Rightarrow> (string \<times> string) list" where
  "set_field k v fs = filter (\<lambda>(k', _). k' \<noteq> k) fs @ [(k, v)]"

definition build_request :: "(jobject \<Rightarrow> string) \<Rightarrow> string \<Rightarrow> request \<Rightarrow> wire_request" where
  "build_request serialize auth r =
     (let fs = foldl (\<lambda>fs (k, v). set_field k v fs) [] (rq_fields r);
          fs = set_field ''Authorization'' auth (set_field ''User-Agent'' ''GreekBot'' (set_field ''Host'' ''discord.com'' fs))
      in \<lparr>wr_method = rq_verb r, wr_target = ''/api/v10'' @ rq_path r,
          wr_fields = (case rq_body r of None \<Rightarrow> fs | Some _ \<Rightarrow> set_field ''Content-Type'' ''application/json'' fs),
          wr_body = (case rq_body r of None \<Rightarrow> [] | Some ob \<Rightarrow> serialize ob)\<rparr>)"

record http_response =
  rs_status :: int
  rs_reason :: string
  rs_content_type :: string
  rs_body :: string
  rs_keep_alive :: bool

definition thrown :: "exn + exn \<Rightarrow> exn" where
  "thrown r = (case r of Inl e \<Rightarrow> e | Inr e \<Rightarrow> e)"

text \<open>The end of \<open>DiscordRequestNoRetry\<close>; an error is thrown in place of one that cannot be read.\<close>

definition process_response :: "(string \<Rightarrow> exn + json) \<Rightarrow> http_response \<Rightarrow> exn + json" where
  "process_response parse rs =
     bindS (if rs_content_type rs = ''application/json'' then parse (rs_body rs) else Inr JNull) (\<lambda>result.
     if rs_status rs div 100 = 2 then Inr result
     else if rs_status rs = 429 then Inl (thrown (rate_limit_error (if_object result)))
     else Inl (thrown (xDiscordError_of_json result)))"

section \<open>Repeating requests\<close>

text \<open>What an attempt asks to wait for, if it was refused for its rate; a timer of the past expires at once.\<close>

fun retry_after :: "exn + json \<Rightarrow> int option" where
  "retry_after (Inl (xRateLimitError ms g)) = Some (max 0 ms)"
| "retry_after _ = None"

text \<open>
  \<open>attempt n\<close> is the outcome of the \<open>n\<close>-th call of \<open>DiscordRequestNoRetry\<close>. The loop may not
  end; it returns the outcome, the number of attempts and the milliseconds waited.
\<close>

partial_function (option) discord_request ::
  "(nat \<Rightarrow> exn + json) \<Rightarrow> nat \<Rightarrow> int \<Rightarrow> ((exn + json) \<times> nat \<times> int) option" where
  "discord_request attempt n waited =
     (case retry_after (attempt n) of
        Some ms \<Rightarrow> discord_request attempt (Suc n) (waited + ms)
      | None \<Rightarrow> Some (attempt n, Suc n, waited))"

definition DiscordRequest :: "(nat \<Rightarrow> exn + json) \<Rightarrow> ((exn + json) \<times> nat \<times> int) option" where
  "DiscordRequest attempt = discord_request attempt 0 0"

definition is_rate_limit :: "exn + json \<Rightarrow> bool" where
  "is_rate_limit r \<longleftrightarrow> retry_after r \<noteq> None"

definition wait_of :: "exn + json \<Rightarrow> int" where
  "wait_of r = (case retry_after r of None \<Rightarrow> 0 | Some ms \<Rightarrow> ms)"

lemma discord_request_done: "\<not> is_rate_limit (attempt n) \<Longrightarrow> discord_request attempt n t = Some (attempt n, Suc n, t)"
  by (subst discord_request.simps) (simp add: is_rate_limit_def)

lemma discord_request_again:
  "is_rate_limit (attempt n) \<Longrightarrow> discord_request attempt n t = discord_request attempt (Suc n) (t + wait_of (attempt n))"
  by (subst discord_request.simps) (auto simp: is_rate_limit_def wait_of_def)

lemma discord_request_waits:
  "(\<forall>i < k. is_rate_limit (attempt (n + i))) \<Longrightarrow> \<not> is_rate_limit (attempt (n + k)) \<Longrightarrow>
     discord_request attempt n t = Some (attempt (n + k), Suc (n + k), t + (\<Sum>i < k. wait_of (attempt (n + i))))"
proof (induction k arbitrary: n t)
  case 0
  then show ?case by (simp add: discord_request_done)
next
  case (Suc k)
  have "\<forall>i < k. is_rate_limit (attempt (Suc n + i))" using Suc.prems(1) by (metis Suc_less_eq add_Suc_shift)
  moreover have "\<not> is_rate_limit (attempt (Suc n + k))" using Suc.prems(2) by simp
  ultimately have "discord_request attempt (Suc n) (t + wait_of (attempt n))
      = Some (attempt (Suc n + k), Suc (Suc n + k), t + wait_of (attempt n) + (\<Sum>i < k. wait_of (attempt (Suc n + i))))"
    by (rule Suc.IH)
  moreover have "is_rate_limit (attempt n)" using Suc.prems(1) by (metis add.right_neutral zero_less_Suc)
  ultimately show ?case
    by (simp add: discord_request_again sum.lessThan_Suc_shift del: sum.lessThan_Suc)
qed

lemma discord_request_attempt:
  assumes "discord_request attempt n t = Some x"
  shows "\<exists>j. \<not> is_rate_limit (attempt j)"
proof (rule discord_request.raw_induct [where P = "\<lambda>attempt n t x. \<exists>j. \<not> is_rate_limit (attempt j)", OF _ assms])
  fix f :: "(nat \<Rightarrow> exn + json) \<Rightarrow> nat \<Rightarrow> int \<Rightarrow> ((exn + json) \<times> nat \<times> int) option"
  fix attempt n t x
  assume "\<And>attempt n t x. f attempt n t = Some x \<Longrightarrow> \<exists>j. \<not> is_rate_limit (attempt j)"
    and "(case retry_after (attempt n) of None \<Rightarrow> Some (attempt n, Suc n, t) | Some ms \<Rightarrow> f attempt (Suc n) (t + ms)) = Some x"
  then show "\<exists>j. \<not> is_rate_limit (attempt j)" by (auto simp: is_rate_limit_def split: option.splits)
qed

section \<open>The queue\<close>

text \<open>
  \<open>m_http_queue\<close>: the coroutines that wait for the response to their requests, the first of them
  being the one whose request is under way. What \<open>hq_resumed\<close> and \<open>hq_rejected\<close> list is when and
  how the coroutines were resumed. While a request is under way \<open>http_coro\<close> owns the stream.
\<close>

record http_queue =
  hq_queue :: "(nat \<times> wire_request) list"
  hq_terminate :: bool
  hq_stream :: bool
  hq_timer :: bool
  hq_running :: bool
  hq_resumed :: "(nat \<times> (exn + http_response)) list"
  hq_rejected :: "nat list"

definition http_idle :: http_queue where
  "http_idle = \<lparr>hq_queue = [], hq_terminate = False, hq_stream = False, hq_timer = False, hq_running = False,
     hq_resumed = [], hq_rejected = []\<rparr>"

text \<open>The start of \<open>http_coro\<close>: the stream is opened if there is none.\<close>

definition http_start :: "http_queue \<Rightarrow> http_queue" where
  "http_start s = s\<lparr>hq_running := True, hq_timer := False, hq_stream := True\<rparr>"

definition http_submit :: "nat \<Rightarrow> wire_request \<Rightarrow> http_queue \<Rightarrow> http_queue" where
  "http_submit c r s =
     (if hq_terminate s then s\<lparr>hq_rejected := hq_rejected s @ [c]\<rparr>
      else
        let s1 = s\<lparr>hq_queue := hq_queue s @ [(c, r)]\<rparr> in
        if length (hq_queue s1) = 1 then http_start s1 else s1)"

text \<open>
  The end of \<open>http_coro\<close>, with the exception that left it or the response. When the connection
  is to terminate, all that still wait fail.
\<close>

definition http_finish :: "exn + http_response \<Rightarrow> http_queue \<Rightarrow> http_queue" where
  "http_finish res s =
     (case hq_queue s of
        [] \<Rightarrow> s
      | (c, r) # rest \<Rightarrow>
          let keep = (\<not> hq_terminate s \<and> (case res of Inr rs \<Rightarrow> rs_keep_alive rs | Inl e \<Rightarrow> False));
              s1 = s\<lparr>hq_queue := rest, hq_running := False, hq_timer := keep, hq_stream := keep,
                     hq_resumed := hq_resumed s @ [(c, res)]\<rparr>
          in
            if hq_terminate s then
              s1\<lparr>hq_queue := [], hq_resumed := hq_resumed s1 @ map (\<lambda>(c, r). (c, Inl (xGatewayError SessionReset))) rest\<rparr>
            else if rest \<noteq> [] then http_start s1
            else s1)"

definition http_terminate :: "http_queue \<Rightarrow> http_queue" where
  "http_terminate s = s\<lparr>hq_terminate := True, hq_timer := False\<rparr>"

text \<open>A minute after the last response the stream is closed, if nothing is under way.\<close>

definition http_timer_expired :: "http_queue \<Rightarrow> http_queue" where
  "http_timer_expired s =
     (if hq_timer s then (if hq_queue s = [] then s\<lparr>hq_timer := False, hq_stream := False\<rparr> else s\<lparr>hq_timer := False\<rparr>) else s)"

datatype http_event =
    Submit nat wire_request
  | Finish "exn + http_response"
  | Terminate
  | TimerExpired

fun http_step :: "http_event \<Rightarrow> http_queue \<Rightarrow> http_queue" where
  "http_step (Submit c r) s = http_submit c r s"
| "http_step (Finish res) s = (if hq_running s then http_finish res s else s)"
| "http_step Terminate s = http_terminate s"
| "http_step TimerExpired s = http_timer_expired s"

definition http_run :: "http_event list \<Rightarrow> http_queue" where
  "http_run es = fold http_step es http_idle"

text \<open>What was http_submitted, the outcomes of the requests, and whether the connection terminates.\<close>

fun http_submitted :: "http_event list \<Rightarrow> nat list" where
  "http_submitted [] = []"
| "http_submitted (Submit c r # es) = c # http_submitted es"
| "http_submitted (_ # es) = http_submitted es"

text \<open>The coroutines that have an answer or wait for one, and those that were turned away: two ledgers.\<close>

definition answered :: "http_queue \<Rightarrow> nat list" where
  "answered s = map fst (hq_resumed s) @ map fst (hq_queue s)"

fun let_in :: "http_event \<Rightarrow> http_queue \<Rightarrow> nat list" where
  "let_in (Submit c r) s = (if hq_terminate s then [] else [c])"
| "let_in _ s = []"

fun turned_away :: "http_event \<Rightarrow> http_queue \<Rightarrow> nat list" where
  "turned_away (Submit c r) s = (if hq_terminate s then [c] else [])"
| "turned_away _ s = []"

lemmas http_defs = http_submit_def http_start_def http_finish_def http_terminate_def http_timer_expired_def

interpretation http_in: ledger http_step answered let_in
proof
  fix e s show "answered (http_step e s) = answered s @ let_in e s"
    by (cases e) (auto simp: answered_def http_defs Let_def comp_def case_prod_unfold split: list.splits)
qed

interpretation http_away: ledger http_step hq_rejected turned_away
proof
  fix e s show "hq_rejected (http_step e s) = hq_rejected s @ turned_away e s"
    by (cases e) (auto simp: http_defs Let_def split: list.splits)
qed

lemma terminate_kept: "hq_terminate s \<Longrightarrow> hq_terminate (http_step e s)"
  by (cases e) (auto simp: http_defs Let_def split: list.splits)

lemma ledgers_terminated:
  "hq_terminate s \<Longrightarrow> http_in.all_taken es s = [] \<and> http_away.all_taken es s = http_submitted es"
proof (induction es arbitrary: s)
  case (Cons e es)
  then show ?case using terminate_kept [of s e] by (cases e) simp_all
qed simp

lemma ledgers_together: "http_in.all_taken es s @ http_away.all_taken es s = http_submitted es"
proof (induction es arbitrary: s)
  case (Cons e es)
  show ?case
  proof (cases "hq_terminate s")
    case True
    then show ?thesis using ledgers_terminated [OF True, of "e # es"] by simp
  next
    case False
    then show ?thesis using Cons.IH [of "http_step e s"] by (cases e) simp_all
  qed
qed simp

definition http_inv :: "http_queue \<Rightarrow> bool" where
  "http_inv s \<longleftrightarrow> (hq_running s \<longleftrightarrow> hq_queue s \<noteq> []) \<and> (hq_running s \<longrightarrow> hq_stream s)
     \<and> (hq_timer s \<longrightarrow> hq_stream s \<and> hq_queue s = [] \<and> \<not> hq_terminate s)"

lemma http_step_inv: "http_inv s \<Longrightarrow> http_inv (http_step e s)"
  by (cases e) (auto simp: http_inv_def http_defs Let_def split: list.splits)

lemma http_run_inv: "http_inv (http_run es)"
proof -
  have "http_inv s \<Longrightarrow> http_inv (fold http_step es s)" for s
    using http_step_inv by (induction es arbitrary: s) auto
  then show ?thesis by (simp add: http_run_def http_inv_def http_idle_def)
qed

section \<open>Properties\<close>

text \<open>
  C20: a request ends with the first outcome that is not a refusal for its rate, after all the
  waiting that the refusals before it asked for; it does not end only if every attempt is
  refused.
\<close>

theorem request_repeated:
  "DiscordRequest attempt = Some (r, m, t) \<longleftrightarrow>
     (\<exists>k. m = Suc k \<and> r = attempt k \<and> \<not> is_rate_limit (attempt k) \<and> (\<forall>i < k. is_rate_limit (attempt i))
        \<and> t = (\<Sum>i < k. wait_of (attempt i)))"
  (is "?L \<longleftrightarrow> ?R")
proof
  assume ?R
  then obtain k where k: "m = Suc k" "r = attempt k" "\<not> is_rate_limit (attempt k)" "\<forall>i < k. is_rate_limit (attempt i)"
    "t = (\<Sum>i < k. wait_of (attempt i))" by blast
  then show ?L using discord_request_waits [of k attempt 0 0] by (simp add: DiscordRequest_def)
next
  assume L: ?L
  then have "\<exists>j. \<not> is_rate_limit (attempt j)" using discord_request_attempt by (auto simp: DiscordRequest_def)
  then obtain k where k: "\<not> is_rate_limit (attempt k)" "\<forall>i < k. is_rate_limit (attempt i)"
    using exists_least_iff [of "\<lambda>j. \<not> is_rate_limit (attempt j)"] by auto
  then have "DiscordRequest attempt = Some (attempt k, Suc k, \<Sum>i < k. wait_of (attempt i))"
    using discord_request_waits [of k attempt 0 0] by (simp add: DiscordRequest_def)
  with L k show ?R by auto
qed

theorem request_repeated_witness:
  "DiscordRequest (\<lambda>n. if n < 2 then Inl (xRateLimitError 500 False) else Inr JNull) = Some (Inr JNull, 3, 1000)"
proof -
  let ?a = "\<lambda>n::nat. if n < 2 then Inl (xRateLimitError 500 False) else Inr JNull"
  have "\<not> is_rate_limit (?a 2)" "\<forall>i < 2. is_rate_limit (?a i)" "(\<Sum>i < 2. wait_of (?a i)) = 1000"
    by (simp_all add: is_rate_limit_def wait_of_def numeral_2_eq_2)
  then show ?thesis by (subst request_repeated) (intro exI [of _ 2], simp)
qed

text \<open>
  C15: whatever happens on the HTTP connection, the coroutines that were resumed, then those in
  the queue, then those that were turned away are, in this order and each once, those that sent
  requests; a request is under way exactly when the queue is not empty, so none is forgotten.
\<close>

theorem http_requests_in_order:
  "map fst (hq_resumed (http_run es)) @ map fst (hq_queue (http_run es)) @ hq_rejected (http_run es) = http_submitted es
     \<and> hq_running (http_run es) = (hq_queue (http_run es) \<noteq> [])"
proof
  have "answered (http_run es) = http_in.all_taken es http_idle" "hq_rejected (http_run es) = http_away.all_taken es http_idle"
    unfolding http_run_def http_in.entries_fold http_away.entries_fold by (simp_all add: answered_def http_idle_def)
  then show "map fst (hq_resumed (http_run es)) @ map fst (hq_queue (http_run es)) @ hq_rejected (http_run es) = http_submitted es"
    using ledgers_together [of es http_idle] by (simp add: answered_def flip: append_assoc)
qed (use http_run_inv [of es] in \<open>simp add: http_inv_def\<close>)

end
