(* ===== verification/Members.thy ===== *)
theory Members
  imports Http
begin

text \<open>
  Requests for guild members over the gateway (Discord/Gateway/GatewayGuildMembers.cpp and
  GuildMembersResult.cpp): the members arrive in numbered chunks, and a coroutine that waits
  for them hands them on. An entry is what \<open>m_rgm_entries\<close> keeps of a request together with
  what the coroutine keeps: the number of the next chunk, the number of chunks once it is known,
  what it has handed on, and how it has ended.
\<close>

section \<open>Chunks\<close>

record chunk =
  ch_guild_id :: cSnowflake
  ch_index :: nat
  ch_count :: nat
  ch_members :: "cMember list"

definition to_size :: "json \<Rightarrow> exn + nat" where
  "to_size v = bindS (to_u64 v) (\<lambda>i. Inr (nat i))"

definition chunk_of_object :: "jobject \<Rightarrow> exn + chunk" where
  "chunk_of_object ob =
     bindS (fld cSnowflake_of_json ''guild_id'' ob) (\<lambda>guild.
     bindS (fld to_size ''chunk_index'' ob) (\<lambda>i.
     bindS (fld to_size ''chunk_count'' ob) (\<lambda>n.
     bindS (fld (value_to_vector cMember_of_json) ''members'' ob) (\<lambda>ms.
     Inr \<lparr>ch_guild_id = guild, ch_index = i, ch_count = n, ch_members = ms\<rparr>))))"

section \<open>One request\<close>

record rgm_entry =
  re_chunks :: "chunk list"
  re_waiting :: bool
  re_except :: "exn option"
  re_started_at :: int
  re_index :: nat
  re_count :: "nat option"
  re_yielded :: "cMember list"
  re_ended :: "exn option option"

text \<open>\<open>await_suspend\<close> and \<open>await_resume\<close> of the awaitable; the clock counts nanoseconds.\<close>

definition rgm_suspend :: "int \<Rightarrow> rgm_entry \<Rightarrow> rgm_entry" where
  "rgm_suspend now e =
     (case re_except e of
        Some x \<Rightarrow> e\<lparr>re_ended := Some (Some x)\<rparr>
      | None \<Rightarrow> e\<lparr>re_started_at := now, re_waiting := True\<rparr>)"

text \<open>After the first wait the number of chunks is read off the first one.\<close>

definition rgm_awake :: "rgm_entry \<Rightarrow> rgm_entry" where
  "rgm_awake e =
     (case re_except e of
        Some x \<Rightarrow> e\<lparr>re_ended := Some (Some x)\<rparr>
      | None \<Rightarrow>
          e\<lparr>re_waiting := False,
            re_count := (case re_count e of None \<Rightarrow> Some (ch_count (hd (re_chunks e))) | Some n \<Rightarrow> Some n)\<rparr>)"

definition rgm_resume_coro :: "rgm_entry \<Rightarrow> rgm_entry" where
  "rgm_resume_coro e = (if re_waiting e then rgm_awake e else e)"

definition rgm_new :: "int \<Rightarrow> rgm_entry" where
  "rgm_new now = rgm_suspend now
     \<lparr>re_chunks = [], re_waiting = False, re_except = None, re_started_at = 0, re_index = 0, re_count = None,
      re_yielded = [], re_ended = None\<rparr>"

text \<open>The head and the body of the loop over the chunks.\<close>

definition rgm_advance :: "int \<Rightarrow> rgm_entry \<Rightarrow> rgm_entry" where
  "rgm_advance now e =
     (if re_waiting e then e
      else case re_count e of
        None \<Rightarrow> e
      | Some n \<Rightarrow>
          if re_index e \<ge> n then e\<lparr>re_ended := Some None\<rparr>
          else case re_chunks e of
            [] \<Rightarrow> rgm_suspend now e
          | c # cs \<Rightarrow>
              if ch_count c \<noteq> n \<or> ch_index c \<noteq> re_index e \<or> ch_index c \<ge> n
              then e\<lparr>re_ended := Some (Some (xGatewayError EventError))\<rparr>
              else e\<lparr>re_yielded := re_yielded e @ ch_members c, re_chunks := cs, re_index := Suc (re_index e)\<rparr>)"

definition two_minutes :: int where "two_minutes = 120 * ns_second"

text \<open>A chunk or the failure to read it, a failure of the request, the look for stuck requests, the coroutine.\<close>

datatype rgm_event =
    Arrive "exn + chunk"
  | Fail exn
  | CheckTimeout int
  | Advance int

fun rgm_step :: "rgm_event \<Rightarrow> rgm_entry \<Rightarrow> rgm_entry" where
  "rgm_step ev e =
     (if re_ended e \<noteq> None then e
      else case ev of
        Arrive (Inr c) \<Rightarrow> rgm_resume_coro (e\<lparr>re_chunks := re_chunks e @ [c]\<rparr>)
      | Arrive (Inl x) \<Rightarrow> rgm_resume_coro (e\<lparr>re_except := Some x\<rparr>)
      | Fail x \<Rightarrow> rgm_resume_coro (e\<lparr>re_except := Some x\<rparr>)
      | CheckTimeout now \<Rightarrow>
          if re_waiting e \<and> now - re_started_at e > two_minutes
          then rgm_resume_coro (e\<lparr>re_except := Some (xGatewayError TimeoutError)\<rparr>) else e
      | Advance now \<Rightarrow> rgm_advance now e)"

declare rgm_step.simps [simp del]

section \<open>All requests\<close>

text \<open>
  The entries by their nonce and the outcomes of the requests that have ended: what
  \<open>RequestGuildMembers\<close> hands on and the exception that ends it, if one does. The entry of a
  request that has ended is erased.
\<close>

record rgm =
  rgm_nonce :: nat
  rgm_entries :: "nat \<Rightarrow> rgm_entry option"
  rgm_outcomes :: "nat \<Rightarrow> (cMember list \<times> exn option) option"

definition rgm_start :: rgm where
  "rgm_start = \<lparr>rgm_nonce = 0, rgm_entries = (\<lambda>n. None), rgm_outcomes = (\<lambda>n. None)\<rparr>"

definition rgm_put :: "nat \<Rightarrow> rgm_entry \<Rightarrow> rgm \<Rightarrow> rgm" where
  "rgm_put n e s =
     (case re_ended e of
        None \<Rightarrow> s\<lparr>rgm_entries := (rgm_entries s)(n \<mapsto> e)\<rparr>
      | Some x \<Rightarrow> s\<lparr>rgm_entries := (rgm_entries s)(n := None), rgm_outcomes := (rgm_outcomes s)(n \<mapsto> (re_yielded e, x))\<rparr>)"

definition rgm_request :: "int \<Rightarrow> rgm \<Rightarrow> nat \<times> rgm" where
  "rgm_request now s = (rgm_nonce s, rgm_put (rgm_nonce s) (rgm_new now) (s\<lparr>rgm_nonce := Suc (rgm_nonce s)\<rparr>))"

definition rgm_each :: "rgm_event \<Rightarrow> rgm \<Rightarrow> rgm" where
  "rgm_each ev s =
     s\<lparr>rgm_entries := (\<lambda>n. case rgm_entries s n of None \<Rightarrow> None
         | Some e \<Rightarrow> if re_ended (rgm_step ev e) = None then Some (rgm_step ev e) else None),
       rgm_outcomes := (\<lambda>n. case rgm_entries s n of None \<Rightarrow> rgm_outcomes s n
         | Some e \<Rightarrow> (case re_ended (rgm_step ev e) of None \<Rightarrow> rgm_outcomes s n
             | Some x \<Rightarrow> Some (re_yielded (rgm_step ev e), x)))\<rparr>"

definition rgm_reset :: "rgm \<Rightarrow> rgm" where
  "rgm_reset s = rgm_each (Fail (xGatewayError SessionReset)) s"

definition rgm_timeout :: "int \<Rightarrow> rgm \<Rightarrow> rgm" where
  "rgm_timeout now s = rgm_each (CheckTimeout now) s"

text \<open>What arrives for a request that has no entry is an exception.\<close>

definition rgm_deliver :: "string \<Rightarrow> nat \<Rightarrow> rgm_event \<Rightarrow> rgm \<Rightarrow> exn + rgm" where
  "rgm_deliver what n ev s =
     (case rgm_entries s n of
        None \<Rightarrow> Inl (xRuntimeError what)
      | Some e \<Rightarrow> Inr (rgm_put n (rgm_step ev e) s))"

section \<open>What a request hands on\<close>

fun arrived :: "rgm_event list \<Rightarrow> chunk list" where
  "arrived [] = []"
| "arrived (Arrive (Inr c) # es) = c # arrived es"
| "arrived (_ # es) = arrived es"

lemma arrived_append: "arrived (es @ fs) = arrived es @ arrived fs"
  by (induction es rule: arrived.induct) simp_all

text \<open>The chunks that were handed on are the first ones; they are numbered and agree on their number.\<close>

definition numbered :: "nat \<Rightarrow> chunk list \<Rightarrow> bool" where
  "numbered n cs \<longleftrightarrow> (\<forall>i < length cs. ch_index (cs ! i) = i \<and> ch_count (cs ! i) = n)"

definition rgm_inv :: "chunk list \<Rightarrow> rgm_entry \<Rightarrow> bool" where
  "rgm_inv cs e \<longleftrightarrow>
     re_index e \<le> length cs \<and> (re_ended e = None \<longrightarrow> re_chunks e = drop (re_index e) cs)
     \<and> re_yielded e = concat (map ch_members (take (re_index e) cs))
     \<and> (case re_count e of
          None \<Rightarrow> re_index e = 0 \<and> re_ended e \<noteq> Some None \<and> (re_ended e = None \<longrightarrow> re_waiting e)
        | Some n \<Rightarrow> re_index e \<le> n \<and> numbered n (take (re_index e) cs) \<and> (re_ended e = Some None \<longrightarrow> re_index e = n))"

lemma numbered_snoc: "numbered n (cs @ [c]) \<longleftrightarrow> numbered n cs \<and> ch_index c = length cs \<and> ch_count c = n"
  by (auto simp: numbered_def nth_append less_Suc_eq)

lemma rgm_inv_new: "rgm_inv [] (rgm_new now)"
  by (simp add: rgm_inv_def rgm_new_def rgm_suspend_def)

lemma rgm_inv_wake:
  "rgm_inv cs e \<Longrightarrow> re_ended e = None \<Longrightarrow> re_except e' = x \<Longrightarrow> e' = e\<lparr>re_except := x\<rparr> \<Longrightarrow> x \<noteq> None \<Longrightarrow> rgm_inv cs (rgm_resume_coro e')"
  by (auto simp: rgm_inv_def rgm_resume_coro_def rgm_awake_def split: option.splits)

lemma rgm_inv_chunk:
  assumes "rgm_inv cs e" "re_ended e = None"
  shows "rgm_inv (cs @ [c]) (rgm_resume_coro (e\<lparr>re_chunks := re_chunks e @ [c]\<rparr>))"
  using assms by (auto simp: rgm_inv_def rgm_resume_coro_def rgm_awake_def numbered_def split: option.splits)

lemma rgm_inv_advance:
  assumes "rgm_inv cs e" "re_ended e = None"
  shows "rgm_inv cs (rgm_advance now e)"
proof (cases "re_waiting e \<or> re_count e = None")
  case True
  then show ?thesis using assms by (auto simp: rgm_advance_def)
next
  case False
  then obtain n where n: "re_count e = Some n" "\<not> re_waiting e" by auto
  show ?thesis
  proof (cases "n \<le> re_index e \<or> re_chunks e = []")
    case True
    then show ?thesis using assms n by (auto simp: rgm_inv_def rgm_advance_def rgm_suspend_def split: option.splits)
  next
    case False
    then obtain c rest where c: "re_chunks e = c # rest" by (cases "re_chunks e") auto
    then have d: "drop (re_index e) cs = c # rest" using assms by (simp add: rgm_inv_def)
    have lt: "re_index e < length cs"
    proof (rule ccontr)
      assume "\<not> re_index e < length cs"
      with d show False by simp
    qed
    have "cs ! re_index e # drop (Suc (re_index e)) cs = c # rest" using Cons_nth_drop_Suc [OF lt] d by simp
    with lt have l: "re_index e < length cs" "cs ! re_index e = c" "drop (Suc (re_index e)) cs = rest" by auto
    have "take (Suc (re_index e)) cs = take (re_index e) cs @ [c]" using l by (simp add: take_Suc_conv_app_nth)
    then have nxt: "take (Suc (re_index e)) cs = take (re_index e) cs @ [c]" .
    show ?thesis
    proof (cases "ch_count c \<noteq> n \<or> ch_index c \<noteq> re_index e \<or> ch_index c \<ge> n")
      case True
      then have "rgm_advance now e = e\<lparr>re_ended := Some (Some (xGatewayError EventError))\<rparr>"
        using n c False by (auto simp: rgm_advance_def)
      then show ?thesis using assms by (simp add: rgm_inv_def split: option.splits)
    next
      case valid: False
      then have adv: "rgm_advance now e
          = e\<lparr>re_yielded := re_yielded e @ ch_members c, re_chunks := rest, re_index := Suc (re_index e)\<rparr>"
        using n c False by (simp add: rgm_advance_def)
      have "min (length cs) (re_index e) = re_index e" using l by simp
      with assms n l valid show ?thesis
        by (simp add: adv rgm_inv_def nxt numbered_snoc)
    qed
  qed
qed

lemma rgm_inv_step:
  assumes "rgm_inv cs e"
  shows "rgm_inv (cs @ arrived [ev]) (rgm_step ev e)"
proof (cases "re_ended e = None")
  case True
  note wake = rgm_inv_wake [OF assms True _ refl]
  show ?thesis
  proof (cases ev)
    case (Arrive r)
    then show ?thesis using True assms rgm_inv_chunk [OF assms True] wake [of "Some _"]
      by (cases r) (simp_all add: rgm_step.simps)
  qed (use True assms wake [of "Some _"] rgm_inv_advance [OF assms True] in \<open>simp_all add: rgm_step.simps\<close>)
next
  case False
  have "numbered n (take (re_index e) (cs @ ds)) = numbered n (take (re_index e) cs)"
    "take (re_index e) (cs @ ds) = take (re_index e) cs" for n ds
    using assms by (simp_all add: rgm_inv_def)
  then show ?thesis using False assms
    by (auto simp: rgm_inv_def rgm_step.simps split: option.splits)
qed

lemma rgm_inv_run: "rgm_inv cs e \<Longrightarrow> rgm_inv (cs @ arrived evs) (fold rgm_step evs e)"
proof (induction evs arbitrary: cs e)
  case (Cons ev evs)
  have "arrived (ev # evs) = arrived [ev] @ arrived evs" using arrived_append [of "[ev]" evs] by simp
  then show ?case using Cons.IH [OF rgm_inv_step [OF Cons.prems, of ev]] by simp
qed simp

section \<open>Requests end\<close>

lemma rgm_step_ended: "re_ended e \<noteq> None \<Longrightarrow> rgm_step ev e = e"
  by (simp add: rgm_step.simps)

lemma rgm_steps_ended: "re_ended e \<noteq> None \<Longrightarrow> fold rgm_step evs e = e"
  by (induction evs) (simp_all add: rgm_step_ended)

text \<open>Once the chunks are there the coroutine handles them without waiting.\<close>

lemma advance_chunk:
  assumes "re_ended e = None" "\<not> re_waiting e" "re_count e = Some n" "re_chunks e = c # cs"
    "ch_count c = n" "ch_index c = re_index e" "re_index e < n"
  shows "rgm_step (Advance now) e
     = e\<lparr>re_yielded := re_yielded e @ ch_members c, re_chunks := cs, re_index := Suc (re_index e)\<rparr>"
  using assms by (simp add: rgm_step.simps rgm_advance_def)

lemma advance_all:
  "re_ended e = None \<Longrightarrow> \<not> re_waiting e \<Longrightarrow> re_count e = Some n \<Longrightarrow> re_index e + length (re_chunks e) = n \<Longrightarrow>
     \<forall>i < length (re_chunks e). ch_index (re_chunks e ! i) = re_index e + i \<and> ch_count (re_chunks e ! i) = n \<Longrightarrow>
     \<exists>e'. fold rgm_step (replicate (Suc (length (re_chunks e))) (Advance now)) e = e' \<and> re_ended e' = Some None
        \<and> re_yielded e' = re_yielded e @ concat (map ch_members (re_chunks e))"
proof (induction "re_chunks e" arbitrary: e)
  case Nil
  then show ?case by (simp add: rgm_step.simps rgm_advance_def flip: Nil.hyps)
next
  case (Cons c cs)
  note ch = Cons.hyps(2) [symmetric]
  let ?e = "e\<lparr>re_yielded := re_yielded e @ ch_members c, re_chunks := cs, re_index := Suc (re_index e)\<rparr>"
  have "ch_index c = re_index e \<and> ch_count c = n" using Cons.prems(5) ch by (metis add.right_neutral length_greater_0_conv list.distinct(1) nth_Cons_0)
  then have step: "rgm_step (Advance now) e = ?e"
    using advance_chunk [OF Cons.prems(1-3) ch, of now] Cons.prems(4) ch by simp
  have "\<forall>i < length cs. ch_index (cs ! i) = Suc (re_index e) + i \<and> ch_count (cs ! i) = n"
  proof (intro allI impI)
    fix i assume "i < length cs"
    then have "Suc i < length (re_chunks e)" using ch by simp
    from Cons.prems(5) [rule_format, OF this] ch show "ch_index (cs ! i) = Suc (re_index e) + i \<and> ch_count (cs ! i) = n" by simp
  qed
  with Cons.hyps(1) [of ?e] Cons.prems ch obtain e' where
    "fold rgm_step (replicate (Suc (length cs)) (Advance now)) ?e = e'" "re_ended e' = Some None"
    "re_yielded e' = re_yielded e @ ch_members c @ concat (map ch_members cs)" by auto
  then show ?case using step ch by simp
qed

text \<open>
  While a request waits it has no chunk left to hand on and not all chunks were there, and the
  number of chunks it counts on is the one that the first chunk tells.
\<close>

definition rgm_wait_inv :: "chunk list \<Rightarrow> rgm_entry \<Rightarrow> bool" where
  "rgm_wait_inv cs e \<longleftrightarrow>
     (re_ended e = None \<and> re_waiting e \<longrightarrow> re_chunks e = [] \<and> (\<forall>n. re_count e = Some n \<longrightarrow> re_index e < n))
     \<and> (\<forall>n. re_count e = Some n \<longrightarrow> cs \<noteq> [] \<and> n = ch_count (hd cs))"

lemma rgm_wait_inv_new: "rgm_wait_inv [] (rgm_new now)"
  by (simp add: rgm_wait_inv_def rgm_new_def rgm_suspend_def)

lemma rgm_wait_inv_chunk:
  assumes "rgm_inv cs e" "rgm_wait_inv cs e" "re_ended e = None"
  shows "rgm_wait_inv (cs @ [c]) (rgm_resume_coro (e\<lparr>re_chunks := re_chunks e @ [c]\<rparr>))"
  using assms
  by (cases cs) (auto simp: rgm_wait_inv_def rgm_inv_def rgm_resume_coro_def rgm_awake_def split: option.splits)

lemma rgm_wait_inv_step:
  assumes "rgm_inv cs e" "rgm_wait_inv cs e"
  shows "rgm_wait_inv (cs @ arrived [ev]) (rgm_step ev e)"
proof (cases "re_ended e = None")
  case True
  have wake: "rgm_wait_inv cs (rgm_resume_coro (e\<lparr>re_except := Some x\<rparr>))" for x
    using assms(2) True by (auto simp: rgm_wait_inv_def rgm_resume_coro_def rgm_awake_def)
  show ?thesis
  proof (cases ev)
    case (Arrive r)
    then show ?thesis using True wake rgm_wait_inv_chunk [OF assms True]
      by (cases r) (simp_all add: rgm_step.simps)
  next
    case (Advance now)
    then show ?thesis using True assms(2)
      by (auto simp: rgm_step.simps rgm_advance_def rgm_suspend_def rgm_wait_inv_def split: option.splits list.splits)
  qed (use True assms(2) wake in \<open>simp_all add: rgm_step.simps\<close>)
next
  case False
  then show ?thesis using assms(2) by (cases cs) (auto simp: rgm_step_ended rgm_wait_inv_def)
qed

lemma arrived_Cons: "arrived (ev # evs) = arrived [ev] @ arrived evs"
  using arrived_append [of "[ev]" evs] by simp

lemma rgm_wait_inv_run:
  "rgm_inv cs e \<Longrightarrow> rgm_wait_inv cs e \<Longrightarrow> rgm_wait_inv (cs @ arrived evs) (fold rgm_step evs e)"
proof (induction evs arbitrary: cs e)
  case (Cons ev evs)
  from Cons.IH [OF rgm_inv_step rgm_wait_inv_step, OF Cons.prems(1) Cons.prems, of ev] show ?case
    by (simp add: arrived_Cons [of ev evs])
qed simp

text \<open>Once all chunks are there the request does not wait, and the coroutine comes to its end.\<close>

lemma complete_not_waiting:
  assumes "rgm_inv cs e" "rgm_wait_inv cs e" "re_ended e = None" "cs \<noteq> []" "numbered (length cs) cs"
  shows "\<not> re_waiting e \<and> re_count e = Some (length cs)"
proof -
  have hd: "ch_count (hd cs) = length cs" using assms(4,5) by (simp add: hd_conv_nth numbered_def)
  have c: "re_chunks e = drop (re_index e) cs" using assms(1,3) by (simp add: rgm_inv_def)
  have "\<not> re_waiting e"
  proof
    assume w: "re_waiting e"
    with assms(2,3) c have le: "length cs \<le> re_index e" by (simp add: rgm_wait_inv_def)
    show False
    proof (cases "re_count e")
      case None
      with assms(1) have "re_index e = 0" by (simp add: rgm_inv_def)
      with le assms(4) show False by simp
    next
      case (Some n)
      with assms(2,3) w hd have "re_index e < length cs" by (auto simp: rgm_wait_inv_def)
      with le show False by simp
    qed
  qed
  with assms(1-3) hd show ?thesis by (cases "re_count e") (auto simp: rgm_inv_def rgm_wait_inv_def)
qed

lemma complete_ends:
  assumes "rgm_inv cs e" "rgm_wait_inv cs e" "\<And>x. re_ended e \<noteq> Some (Some x)" "cs \<noteq> []" "numbered (length cs) cs"
  shows "let e' = fold rgm_step (replicate (Suc (length cs)) (Advance now)) e in
     re_ended e' = Some None \<and> re_yielded e' = concat (map ch_members cs)"
proof (cases "re_ended e")
  case None
  note c = complete_not_waiting [OF assms(1,2) None assms(4,5)]
  have i: "re_chunks e = drop (re_index e) cs" "re_index e \<le> length cs"
    "re_yielded e = concat (map ch_members (take (re_index e) cs))" using assms(1) None by (simp_all add: rgm_inv_def)
  have "\<forall>k < length (re_chunks e). ch_index (re_chunks e ! k) = re_index e + k \<and> ch_count (re_chunks e ! k) = length cs"
    using assms(5) i by (simp add: numbered_def)
  with advance_all [OF None, of "length cs" now] c i obtain e' where
    e': "fold rgm_step (replicate (Suc (length (re_chunks e))) (Advance now)) e = e'" "re_ended e' = Some None"
      "re_yielded e' = re_yielded e @ concat (map ch_members (re_chunks e))" by auto
  have split: "Suc (length cs) = Suc (length (re_chunks e)) + re_index e" using i by simp
  have "fold rgm_step (replicate (Suc (length cs)) (Advance now)) e = e'"
    unfolding split replicate_add fold_append o_def e'(1) by (rule rgm_steps_ended) (simp add: e'(2))
  moreover have "re_yielded e' = concat (map ch_members (take (re_index e) cs @ drop (re_index e) cs))"
    using e'(3) i by (simp only: map_append concat_append)
  ultimately show ?thesis using e'(2) by (simp add: Let_def)
next
  case (Some y)
  then have "re_ended e = Some None" using assms(3) by (cases y) auto
  moreover have "ch_count (hd cs) = length cs" using assms(4,5) by (simp add: hd_conv_nth numbered_def)
  ultimately have "re_yielded e = concat (map ch_members cs)"
    using assms(1,2) by (auto simp: rgm_inv_def rgm_wait_inv_def split: option.splits)
  with \<open>re_ended e = Some None\<close> show ?thesis by (simp add: Let_def rgm_steps_ended del: replicate.simps fold_replicate)
qed

text \<open>Nothing but chunks arrives: no failure of the request, and no look for stuck requests.\<close>

fun undisturbed :: "rgm_event \<Rightarrow> bool" where
  "undisturbed (Arrive (Inr c)) = True"
| "undisturbed (Advance now) = True"
| "undisturbed _ = False"

lemma undisturbed_step:
  assumes "rgm_inv cs e" "rgm_wait_inv cs e" "re_except e = None" "\<And>x. re_ended e \<noteq> Some (Some x)"
    and "numbered n cs" "undisturbed ev"
  shows "re_except (rgm_step ev e) = None \<and> re_ended (rgm_step ev e) \<noteq> Some (Some x)"
proof (cases "re_ended e = None")
  case True
  from assms(6) consider c where "ev = Arrive (Inr c)" | now where "ev = Advance now" by (cases ev rule: undisturbed.cases) auto
  then show ?thesis
  proof cases
    case 1
    then show ?thesis using assms(3,4) True by (simp add: rgm_step.simps rgm_resume_coro_def rgm_awake_def)
  next
    case 2
    have "ch_count c = m \<and> ch_index c = re_index e" if "re_chunks e = c # r" "re_count e = Some m" for c r m
    proof -
      have d: "drop (re_index e) cs = c # r" using assms(1) True that by (simp add: rgm_inv_def)
      then have lt: "re_index e < length cs" by (metis drop_all leI list.distinct(1))
      then have "cs ! re_index e = c" using d by (metis Cons_nth_drop_Suc list.inject)
      moreover have "m = ch_count (cs ! 0)" using assms(2) that(2) by (auto simp: rgm_wait_inv_def hd_conv_nth)
      moreover have "0 < length cs" using lt by linarith
      ultimately show ?thesis using assms(5) lt unfolding numbered_def by metis
    qed
    then show ?thesis using 2 assms(3,4) True
      by (auto simp: rgm_step.simps rgm_advance_def rgm_suspend_def split: option.splits list.splits)
  qed
qed (use assms(3,4) in \<open>simp add: rgm_step_ended\<close>)

lemma undisturbed_run:
  "rgm_inv cs e \<Longrightarrow> rgm_wait_inv cs e \<Longrightarrow> re_except e = None \<Longrightarrow> \<forall>x. re_ended e \<noteq> Some (Some x) \<Longrightarrow>
     numbered n (cs @ arrived evs) \<Longrightarrow> list_all undisturbed evs \<Longrightarrow> re_ended (fold rgm_step evs e) \<noteq> Some (Some x)"
proof (induction evs arbitrary: cs e)
  case (Cons ev evs)
  have n: "numbered n cs"
  proof -
    have "ch_index (cs ! i) = i \<and> ch_count (cs ! i) = n" if "i < length cs" for i
      using Cons.prems(5) [unfolded numbered_def, rule_format, of i] that by (simp add: nth_append)
    then show ?thesis by (simp add: numbered_def)
  qed
  have "re_except (rgm_step ev e) = None \<and> re_ended (rgm_step ev e) \<noteq> Some (Some y)" for y
    by (rule undisturbed_step [OF Cons.prems(1-3) _ n]) (use Cons.prems in auto)
  moreover have "numbered n ((cs @ arrived [ev]) @ arrived evs)" using Cons.prems(5) by (simp add: arrived_Cons [of ev evs])
  ultimately show ?case
    using Cons.IH [OF rgm_inv_step rgm_wait_inv_step, OF Cons.prems(1) Cons.prems(1,2), of ev] Cons.prems(6) by simp
qed simp

section \<open>Properties\<close>

text \<open>
  C13: a request for members that ends without an exception has handed on the members of all
  chunks, in the order of their numbers: the first \<open>n\<close> that arrived, which are numbered from 0
  and all say that there are \<open>n\<close>. Whatever else happens, what it has handed on are the members
  of the first chunks so far.
\<close>

theorem members_complete:
  assumes "fold rgm_step evs (rgm_new now) = e"
  shows "\<exists>k \<le> length (arrived evs). re_yielded e = concat (map ch_members (take k (arrived evs)))
     \<and> (re_ended e = Some None \<longrightarrow> re_count e = Some k \<and> numbered k (take k (arrived evs)))"
proof -
  have "rgm_inv (arrived evs) e" using rgm_inv_run [OF rgm_inv_new, of evs now] assms by simp
  then show ?thesis by (intro exI [of _ "re_index e"]) (auto simp: rgm_inv_def split: option.splits)
qed

theorem members_complete_witness:
  "let c = \<lparr>ch_guild_id = sf_of_int 1, ch_index = 0, ch_count = 1, ch_members = []\<rparr>;
       e = fold rgm_step [Arrive (Inr c), Advance 0, Advance 0] (rgm_new 0) in
   re_ended e = Some None \<and> numbered 1 [c]"
proof -
  let ?c = "\<lparr>ch_guild_id = sf_of_int 1, ch_index = 0, ch_count = 1, ch_members = []\<rparr>"
  let ?evs = "[Arrive (Inr ?c), Advance 0, Advance 0]"
  have e: "re_ended (fold rgm_step ?evs (rgm_new 0)) = Some None" "re_count (fold rgm_step ?evs (rgm_new 0)) = Some 1"
    by (simp_all add: rgm_step.simps rgm_new_def rgm_suspend_def rgm_resume_coro_def rgm_awake_def rgm_advance_def)
  with members_complete [OF refl, of ?evs 0] show ?thesis by (auto simp: Let_def)
qed

text \<open>
  C14: a request always gets an end. In whatever order chunks arrive and the coroutine runs, waits
  and is woken again, and whatever fails meanwhile: once the chunks of a complete answer are there
  and the request has not failed by then, as many rounds of the coroutine as there are chunks and
  one more hand on all members and end it without an exception. It cannot fail before if nothing
  but those chunks arrives. A request that has waited for more than two minutes ends with a
  timeout when the next heartbeat looks for it.
\<close>

theorem members_end:
  assumes "fold rgm_step evs (rgm_new start) = e" and "arrived evs = cs" and "cs \<noteq> []" and "numbered (length cs) cs"
  shows "((\<forall>x. re_ended e \<noteq> Some (Some x)) \<longrightarrow>
        (let e' = fold rgm_step (replicate (Suc (length cs)) (Advance now)) e in
           re_ended e' = Some None \<and> re_yielded e' = concat (map ch_members cs)))
    \<and> (list_all undisturbed evs \<longrightarrow> (\<forall>x. re_ended e \<noteq> Some (Some x)))
    \<and> (\<forall>f. re_waiting f \<and> re_ended f = None \<and> now - re_started_at f > two_minutes \<longrightarrow>
        re_ended (rgm_step (CheckTimeout now) f) = Some (Some (xGatewayError TimeoutError)))"
proof (intro conjI allI impI)
  have inv: "rgm_inv cs e" using rgm_inv_run [OF rgm_inv_new, of evs start] assms(1,2) by simp
  have wait: "rgm_wait_inv cs e" using rgm_wait_inv_run [OF rgm_inv_new [of start] rgm_wait_inv_new, of evs] assms(1,2) by simp
  show "let e' = fold rgm_step (replicate (Suc (length cs)) (Advance now)) e in
      re_ended e' = Some None \<and> re_yielded e' = concat (map ch_members cs)" if "\<forall>x. re_ended e \<noteq> Some (Some x)"
    by (rule complete_ends [OF inv wait _ assms(3,4)]) (use that in blast)
  show "re_ended e \<noteq> Some (Some x)" if "list_all undisturbed evs" for x
    using undisturbed_run [OF rgm_inv_new [of start] rgm_wait_inv_new, where n = "length cs" and evs = evs and x = x] that assms(1,2,4)
    by (simp add: rgm_new_def rgm_suspend_def)
  show "re_ended (rgm_step (CheckTimeout now) f) = Some (Some (xGatewayError TimeoutError))"
    if "re_waiting f \<and> re_ended f = None \<and> now - re_started_at f > two_minutes" for f
    using that by (simp add: rgm_step.simps rgm_resume_coro_def rgm_awake_def)
qed

text \<open>
  Two chunks; between them the coroutine has handed on the first one and waits again, and the
  second one wakes it. A request to which nothing arrives times out.
\<close>

definition example_chunk :: "nat \<Rightarrow> chunk" where
  "example_chunk i = \<lparr>ch_guild_id = sf_of_int 1, ch_index = i, ch_count = 2, ch_members = []\<rparr>"

theorem members_end_witness:
  "re_waiting (fold rgm_step [Arrive (Inr (example_chunk 0)), Advance 0, Advance 0] (rgm_new 0))
   \<and> re_ended (fold rgm_step ([Arrive (Inr (example_chunk 0)), Advance 0, Advance 0, Arrive (Inr (example_chunk 1))]
        @ replicate 3 (Advance 0)) (rgm_new 0)) = Some None
   \<and> re_ended (rgm_step (CheckTimeout (3 * two_minutes)) (rgm_new 0)) = Some (Some (xGatewayError TimeoutError))"
proof -
  let ?evs = "[Arrive (Inr (example_chunk 0)), Advance 0, Advance 0, Arrive (Inr (example_chunk 1))]"
  let ?cs = "[example_chunk 0, example_chunk 1]"
  have a: "arrived ?evs = ?cs" "?cs \<noteq> []" by simp_all
  have n: "numbered (length ?cs) ?cs" by (simp add: numbered_def example_chunk_def less_Suc_eq)
  have "re_waiting (fold rgm_step [Arrive (Inr (example_chunk 0)), Advance 0, Advance 0] (rgm_new 0))"
    by (simp add: rgm_step.simps rgm_new_def rgm_suspend_def rgm_resume_coro_def rgm_awake_def rgm_advance_def example_chunk_def)
  moreover have "list_all undisturbed ?evs" by simp
  moreover have "re_waiting (rgm_new 0)" "re_ended (rgm_new 0) = None" "re_started_at (rgm_new 0) = 0"
    by (simp_all add: rgm_new_def rgm_suspend_def)
  ultimately show ?thesis
    using members_end [OF refl a n, of 0 0] members_end [OF refl a n, of 0 "3 * two_minutes"]
    by (simp add: two_minutes_def ns_second_def Let_def numeral_3_eq_3)
qed

end
