(* ===== verification/Payload.thy ===== *)
theory Payload
  imports Handlers Members
begin

text \<open>
  The payloads of the events of the gateway (Discord/Gateway/GatewayEvents.cpp): the codes by
  which the events are told apart, and how each payload is read into an event of the bot. What
  an event does to the connection itself is in the theory of the session.
\<close>

section \<open>The codes of the events\<close>

text \<open>The CRC32 checksums of the names.\<close>

definition RESUMED :: u32 where "RESUMED = 0x712ED6EE"
definition READY :: u32 where "READY = 0xDFC1471F"
definition GUILD_CREATE :: u32 where "GUILD_CREATE = 0xDA68E698"
definition GUILD_ROLE_CREATE :: u32 where "GUILD_ROLE_CREATE = 0xEFECD22C"
definition GUILD_ROLE_UPDATE :: u32 where "GUILD_ROLE_UPDATE = 0xF81F07AF"
definition GUILD_ROLE_DELETE :: u32 where "GUILD_ROLE_DELETE = 0x5A284E50"
definition GUILD_MEMBER_ADD :: u32 where "GUILD_MEMBER_ADD = 0x16401324"
definition GUILD_MEMBER_UPDATE :: u32 where "GUILD_MEMBER_UPDATE = 0x73288C4D"
definition GUILD_MEMBER_REMOVE :: u32 where "GUILD_MEMBER_REMOVE = 0x838DA405"
definition INTERACTION_CREATE :: u32 where "INTERACTION_CREATE = 0xB1E5D8EC"
definition MESSAGE_CREATE :: u32 where "MESSAGE_CREATE = 0x9C643E55"
definition MESSAGE_UPDATE :: u32 where "MESSAGE_UPDATE = 0x8B97EBD6"
definition MESSAGE_DELETE :: u32 where "MESSAGE_DELETE = 0x29A0A229"
definition MESSAGE_DELETE_BULK :: u32 where "MESSAGE_DELETE_BULK = 0x2C44158B"
definition MESSAGE_REACTION_ADD :: u32 where "MESSAGE_REACTION_ADD = 0x5D4F2489"
definition MESSAGE_REACTION_REMOVE :: u32 where "MESSAGE_REACTION_REMOVE = 0x5295D7D8"
definition MESSAGE_REACTION_REMOVE_ALL :: u32 where "MESSAGE_REACTION_REMOVE_ALL = 0x02A1D6E9"
definition MESSAGE_REACTION_REMOVE_EMOJI :: u32 where "MESSAGE_REACTION_REMOVE_EMOJI = 0xEB390E5D"
definition GUILD_MEMBERS_CHUNK :: u32 where "GUILD_MEMBERS_CHUNK = 0x343F4BC5"
definition RATE_LIMITED :: u32 where "RATE_LIMITED = 0x6E263280"
definition USER_UPDATE :: u32 where "USER_UPDATE = 0xBFC98531"
definition VOICE_STATE_UPDATE :: u32 where "VOICE_STATE_UPDATE = 0x1555C75D"

lemmas event_codes =
  RESUMED_def READY_def GUILD_CREATE_def GUILD_ROLE_CREATE_def GUILD_ROLE_UPDATE_def GUILD_ROLE_DELETE_def
  GUILD_MEMBER_ADD_def GUILD_MEMBER_UPDATE_def GUILD_MEMBER_REMOVE_def INTERACTION_CREATE_def MESSAGE_CREATE_def
  MESSAGE_UPDATE_def MESSAGE_DELETE_def MESSAGE_DELETE_BULK_def MESSAGE_REACTION_ADD_def MESSAGE_REACTION_REMOVE_def
  MESSAGE_REACTION_REMOVE_ALL_def MESSAGE_REACTION_REMOVE_EMOJI_def GUILD_MEMBERS_CHUNK_def RATE_LIMITED_def
  USER_UPDATE_def VOICE_STATE_UPDATE_def

section \<open>Reading the payloads\<close>

definition the_id :: "string \<Rightarrow> jobject \<Rightarrow> exn + cSnowflake" where
  "the_id k ob = fld cSnowflake_of_json k ob"

definition maybe_id :: "string \<Rightarrow> jobject \<Rightarrow> exn + cSnowflake option" where
  "maybe_id k ob = fld_opt (someS cSnowflake_of_json) None k ob"

definition maybe_partial_member :: "jobject \<Rightarrow> exn + cPartialMember option" where
  "maybe_partial_member ob = fld_opt (someS cPartialMember_of_json) None ''member'' ob"

text \<open>An interaction of another type is left alone.\<close>

definition parse_interaction :: "jobject \<Rightarrow> exn + event option" where
  "parse_interaction ob =
     bindS (fld to_i32 ''type'' ob) (\<lambda>t.
     if t = 2 then bindS (cAppCmdInteraction_of_object ob) (\<lambda>i. Inr (Some (InteractionCreate (AppCmd i))))
     else if t = 3 then bindS (cMsgCompInteraction_of_object ob) (\<lambda>i. Inr (Some (InteractionCreate (MsgComp i))))
     else if t = 5 then bindS (cModalSubmitInteraction_of_object ob) (\<lambda>i. Inr (Some (InteractionCreate (ModalSubmit i))))
     else Inr None)"

definition parse_role_event :: "(cSnowflake \<Rightarrow> cRole \<Rightarrow> event) \<Rightarrow> jobject \<Rightarrow> exn + event" where
  "parse_role_event f ob =
     bindS (the_id ''guild_id'' ob) (\<lambda>guild. bindS (fld cRole_of_json ''role'' ob) (\<lambda>role. Inr (f guild role)))"

definition parse_reaction_add :: "jobject \<Rightarrow> exn + event" where
  "parse_reaction_add ob =
     bindS (the_id ''user_id'' ob) (\<lambda>user.
     bindS (the_id ''channel_id'' ob) (\<lambda>channel.
     bindS (the_id ''message_id'' ob) (\<lambda>message.
     bindS (fld cEmoji_of_json ''emoji'' ob) (\<lambda>emoji.
     bindS (maybe_id ''guild_id'' ob) (\<lambda>guild.
     bindS (maybe_id ''message_author_id'' ob) (\<lambda>author.
     bindS (fld_opt (someS cMember_of_json) None ''member'' ob) (\<lambda>member.
     Inr (MessageReactionAdd user channel message guild author member emoji))))))))"

definition parse_reaction_remove :: "jobject \<Rightarrow> exn + event" where
  "parse_reaction_remove ob =
     bindS (the_id ''user_id'' ob) (\<lambda>user.
     bindS (the_id ''channel_id'' ob) (\<lambda>channel.
     bindS (the_id ''message_id'' ob) (\<lambda>message.
     bindS (fld cEmoji_of_json ''emoji'' ob) (\<lambda>emoji.
     bindS (maybe_id ''guild_id'' ob) (\<lambda>guild.
     Inr (MessageReactionRemove user channel message guild emoji))))))"

definition parse_reaction_remove_all :: "jobject \<Rightarrow> exn + event" where
  "parse_reaction_remove_all ob =
     bindS (the_id ''channel_id'' ob) (\<lambda>channel.
     bindS (the_id ''message_id'' ob) (\<lambda>message.
     bindS (maybe_id ''guild_id'' ob) (\<lambda>guild.
     Inr (MessageReactionRemoveAll channel message guild))))"

definition parse_reaction_remove_emoji :: "jobject \<Rightarrow> exn + event" where
  "parse_reaction_remove_emoji ob =
     bindS (the_id ''channel_id'' ob) (\<lambda>channel.
     bindS (the_id ''message_id'' ob) (\<lambda>message.
     bindS (fld cEmoji_of_json ''emoji'' ob) (\<lambda>emoji.
     bindS (maybe_id ''guild_id'' ob) (\<lambda>guild.
     Inr (MessageReactionRemoveEmoji channel message guild emoji)))))"

definition parse_message_create :: "jobject \<Rightarrow> exn + event" where
  "parse_message_create ob =
     bindS (cMessage_of_object ob) (\<lambda>m.
     bindS (maybe_id ''guild_id'' ob) (\<lambda>guild.
     bindS (maybe_partial_member ob) (\<lambda>member.
     Inr (MessageCreate m guild member))))"

definition parse_message_update :: "jobject \<Rightarrow> exn + event" where
  "parse_message_update ob =
     bindS (cMessageUpdate_of_object ob) (\<lambda>m.
     bindS (maybe_id ''guild_id'' ob) (\<lambda>guild.
     bindS (maybe_partial_member ob) (\<lambda>member.
     Inr (MessageUpdate m guild member))))"

definition parse_message_delete :: "jobject \<Rightarrow> exn + event" where
  "parse_message_delete ob =
     bindS (the_id ''id'' ob) (\<lambda>message.
     bindS (the_id ''channel_id'' ob) (\<lambda>channel.
     bindS (maybe_id ''guild_id'' ob) (\<lambda>guild.
     Inr (MessageDelete message channel guild))))"

definition parse_message_delete_bulk :: "jobject \<Rightarrow> exn + event" where
  "parse_message_delete_bulk ob =
     bindS (fld (value_to_vector cSnowflake_of_json) ''ids'' ob) (\<lambda>ids.
     bindS (the_id ''channel_id'' ob) (\<lambda>channel.
     bindS (maybe_id ''guild_id'' ob) (\<lambda>guild.
     Inr (MessageDeleteBulk ids channel guild))))"

definition parse_guild_create :: "jobject \<Rightarrow> exn + event" where
  "parse_guild_create ob =
     bindS (cGuild_of_object ob) (\<lambda>g. bindS (cGuildCreate_of_object ob) (\<lambda>vs. Inr (GuildCreate g vs)))"

definition parse_role_delete :: "jobject \<Rightarrow> exn + event" where
  "parse_role_delete ob =
     bindS (the_id ''guild_id'' ob) (\<lambda>guild. bindS (the_id ''role_id'' ob) (\<lambda>role. Inr (GuildRoleDelete guild role)))"

definition parse_member_add :: "jobject \<Rightarrow> exn + event" where
  "parse_member_add ob =
     bindS (the_id ''guild_id'' ob) (\<lambda>guild. bindS (cMember_of_json (JObj ob)) (\<lambda>m. Inr (GuildMemberAdd guild m)))"

definition parse_member_update :: "jobject \<Rightarrow> exn + event" where
  "parse_member_update ob =
     bindS (the_id ''guild_id'' ob) (\<lambda>guild. bindS (cMemberUpdate_of_object ob) (\<lambda>m. Inr (GuildMemberUpdate guild m)))"

definition parse_member_remove :: "jobject \<Rightarrow> exn + event" where
  "parse_member_remove ob =
     bindS (the_id ''guild_id'' ob) (\<lambda>guild. bindS (fld cUser_of_json ''user'' ob) (\<lambda>u. Inr (GuildMemberRemove guild u)))"

text \<open>
  The events that only the bot is told of. What READY does to the session is not here, but the
  user of the payload is read last; events of the connection and unknown ones give no event.
\<close>

definition parse_event :: "u32 \<Rightarrow> jobject \<Rightarrow> exn + event option" where
  "parse_event code ob =
     (if code = INTERACTION_CREATE then parse_interaction ob
      else if code = READY then bindS (fld cUser_of_json ''user'' ob) (\<lambda>u. Inr (Some (Ready u)))
      else if code = GUILD_CREATE then bindS (parse_guild_create ob) (\<lambda>e. Inr (Some e))
      else if code = GUILD_ROLE_CREATE then bindS (parse_role_event GuildRoleCreate ob) (\<lambda>e. Inr (Some e))
      else if code = GUILD_ROLE_UPDATE then bindS (parse_role_event GuildRoleUpdate ob) (\<lambda>e. Inr (Some e))
      else if code = GUILD_ROLE_DELETE then bindS (parse_role_delete ob) (\<lambda>e. Inr (Some e))
      else if code = GUILD_MEMBER_ADD then bindS (parse_member_add ob) (\<lambda>e. Inr (Some e))
      else if code = GUILD_MEMBER_UPDATE then bindS (parse_member_update ob) (\<lambda>e. Inr (Some e))
      else if code = GUILD_MEMBER_REMOVE then bindS (parse_member_remove ob) (\<lambda>e. Inr (Some e))
      else if code = MESSAGE_CREATE then bindS (parse_message_create ob) (\<lambda>e. Inr (Some e))
      else if code = MESSAGE_UPDATE then bindS (parse_message_update ob) (\<lambda>e. Inr (Some e))
      else if code = MESSAGE_DELETE then bindS (parse_message_delete ob) (\<lambda>e. Inr (Some e))
      else if code = MESSAGE_DELETE_BULK then bindS (parse_message_delete_bulk ob) (\<lambda>e. Inr (Some e))
      else if code = MESSAGE_REACTION_ADD then bindS (parse_reaction_add ob) (\<lambda>e. Inr (Some e))
      else if code = MESSAGE_REACTION_REMOVE then bindS (parse_reaction_remove ob) (\<lambda>e. Inr (Some e))
      else if code = MESSAGE_REACTION_REMOVE_ALL then bindS (parse_reaction_remove_all ob) (\<lambda>e. Inr (Some e))
      else if code = MESSAGE_REACTION_REMOVE_EMOJI then bindS (parse_reaction_remove_emoji ob) (\<lambda>e. Inr (Some e))
      else if code = USER_UPDATE then bindS (cUser_of_json (JObj ob)) (\<lambda>u. Inr (Some (UserUpdate u)))
      else if code = VOICE_STATE_UPDATE then bindS (cVoiceState_of_json (JObj ob)) (\<lambda>v. Inr (Some (VoiceStateUpdate v)))
      else Inr None)"

section \<open>The identifiers of an event\<close>

text \<open>An identifier that comes from outside is the digits of a number, at most 20 of them.\<close>

definition sf_wf :: "cSnowflake \<Rightarrow> bool" where
  "sf_wf sf \<longleftrightarrow> m_str sf \<noteq> [] \<and> list_all is_digit (m_str sf) \<and> length (m_str sf) \<le> 20"

text \<open>
  Every member of type \<open>cSnowflake\<close> of an object, of the objects in it and of those in them. The
  texts of custom ids and of selected values are no identifiers.
\<close>

definition opt_ids :: "('a \<Rightarrow> cSnowflake list) \<Rightarrow> 'a option \<Rightarrow> cSnowflake list" where
  "opt_ids f p = (case p of None \<Rightarrow> [] | Some x \<Rightarrow> f x)"

definition all_ids :: "('a \<Rightarrow> cSnowflake list) \<Rightarrow> 'a list \<Rightarrow> cSnowflake list" where
  "all_ids f xs = concat (map f xs)"

definition one_id :: "cSnowflake \<Rightarrow> cSnowflake list" where
  "one_id sf = [sf]"

definition ids_of_user :: "cUser \<Rightarrow> cSnowflake list" where
  "ids_of_user u = [u_id u]"

definition ids_of_tags :: "cRoleTags \<Rightarrow> cSnowflake list" where
  "ids_of_tags t = [t_bot_id t, t_integration_id t]"

definition ids_of_role :: "cRole \<Rightarrow> cSnowflake list" where
  "ids_of_role r = r_id r # opt_ids ids_of_tags (r_tags r)"

definition ids_of_guild :: "cGuild \<Rightarrow> cSnowflake list" where
  "ids_of_guild g = g_id g # all_ids ids_of_role (g_roles g)"

definition ids_of_emoji :: "cEmoji \<Rightarrow> cSnowflake list" where
  "ids_of_emoji e = [e_id e]"

definition ids_of_partial :: "cPartialMember \<Rightarrow> cSnowflake list" where
  "ids_of_partial m = m_roles m"

definition ids_of_member :: "cMember \<Rightarrow> cSnowflake list" where
  "ids_of_member m = m_roles m @ opt_ids ids_of_user (m_user m)"

definition ids_of_member_update :: "cMemberUpdate \<Rightarrow> cSnowflake list" where
  "ids_of_member_update m = ids_of_user (mu_user m) @ mu_roles m"

definition ids_of_voice :: "cVoiceState \<Rightarrow> cSnowflake list" where
  "ids_of_voice v = [v_guild_id v, v_channel_id v, v_user_id v] @ opt_ids ids_of_member (v_member v)"

definition ids_of_attachment :: "cAttachment \<Rightarrow> cSnowflake list" where
  "ids_of_attachment a = [a_id a]"

text \<open>Components carry emojis.\<close>

definition ids_of_button :: "cButton \<Rightarrow> cSnowflake list" where
  "ids_of_button b = opt_ids ids_of_emoji (b_emoji b)"

definition ids_of_select_option :: "cSelectOption \<Rightarrow> cSnowflake list" where
  "ids_of_select_option so = opt_ids ids_of_emoji (so_emoji so)"

definition ids_of_select :: "cSelectMenu \<Rightarrow> cSnowflake list" where
  "ids_of_select s = all_ids ids_of_select_option (sm_options s)"

fun ids_of_child :: "row_child \<Rightarrow> cSnowflake list" where
  "ids_of_child (RButton b) = ids_of_button b"
| "ids_of_child (RSelect s) = ids_of_select s"
| "ids_of_child (RUnsupported v) = []"

definition ids_of_row :: "cActionRow \<Rightarrow> cSnowflake list" where
  "ids_of_row r = all_ids ids_of_child (ar_components r)"

fun ids_of_layout :: "layout \<Rightarrow> cSnowflake list" where
  "ids_of_layout (LRow r) = ids_of_row r"
| "ids_of_layout (LText d) = []"
| "ids_of_layout (LUnsupported v) = []"

fun ids_of_submitted :: "submitted \<Rightarrow> cSnowflake list" where
  "ids_of_submitted (SRow r) = ids_of_row r"
| "ids_of_submitted (SLabel l) = []"
| "ids_of_submitted (SUnsupported v) = []"

fun ids_of_view :: "cMessageView \<Rightarrow> cSnowflake list" where
  "ids_of_view (Legacy m) = all_ids ids_of_row (p_components m)"
| "ids_of_view (V2 m) = all_ids ids_of_layout (v2_components m)"

definition ids_of_message :: "cMessage \<Rightarrow> cSnowflake list" where
  "ids_of_message m = [ms_id m, ms_channel_id m] @ ids_of_user (ms_author m) @ all_ids ids_of_attachment (ms_attachments m)
     @ ids_of_view (ms_data m)"

definition ids_of_message_update :: "cMessageUpdate \<Rightarrow> cSnowflake list" where
  "ids_of_message_update m = [up_id m, up_channel_id m] @ opt_ids (all_ids ids_of_layout) (up_components m)"

text \<open>The options of a command, those of its subcommands included.\<close>

fun ids_of_option :: "cAppCmdOption \<Rightarrow> cSnowflake list" and ids_of_value :: "option_value \<Rightarrow> cSnowflake list" where
  "ids_of_option (AppCmdOption s t v) = ids_of_value v"
| "ids_of_value (VSnowflake sf) = [sf]"
| "ids_of_value (VOptions os) = concat (map ids_of_option os)"
| "ids_of_value (VUser u m) = ids_of_user u @ opt_ids ids_of_partial m"
| "ids_of_value (VInt i) = []"
| "ids_of_value (VDouble x) = []"
| "ids_of_value (VBool b) = []"
| "ids_of_value (VString s) = []"

definition ids_of_base :: "cInteraction \<Rightarrow> cSnowflake list" where
  "ids_of_base i = [i_id i, i_application_id i, i_channel_id i] @ ids_of_user (i_user i)
     @ (case i_guild i of None \<Rightarrow> [] | Some (g, m) \<Rightarrow> g # ids_of_partial m)"

fun ids_of_interaction :: "interaction \<Rightarrow> cSnowflake list" where
  "ids_of_interaction (AppCmd i) = ids_of_base (ac_base i) @ [ac_command_id i] @ opt_ids one_id (ac_guild_id i)
     @ all_ids ids_of_option (ac_options i)"
| "ids_of_interaction (MsgComp i) = ids_of_base (mc_base i) @ ids_of_message (mc_message i)"
| "ids_of_interaction (ModalSubmit i) = ids_of_base (mo_base i) @ all_ids ids_of_submitted (mo_components i)"

fun event_ids :: "event \<Rightarrow> cSnowflake list" where
  "event_ids (Ready u) = ids_of_user u"
| "event_ids (UserUpdate u) = ids_of_user u"
| "event_ids (GuildCreate g vs) = ids_of_guild g @ all_ids ids_of_voice vs"
| "event_ids (GuildRoleCreate g r) = g # ids_of_role r"
| "event_ids (GuildRoleUpdate g r) = g # ids_of_role r"
| "event_ids (GuildRoleDelete g r) = [g, r]"
| "event_ids (GuildMemberAdd g m) = g # ids_of_member m"
| "event_ids (GuildMemberUpdate g m) = g # ids_of_member_update m"
| "event_ids (GuildMemberRemove g u) = g # ids_of_user u"
| "event_ids (InteractionCreate i) = ids_of_interaction i"
| "event_ids (MessageCreate m g p) = ids_of_message m @ opt_ids one_id g @ opt_ids ids_of_partial p"
| "event_ids (MessageUpdate m g p) = ids_of_message_update m @ opt_ids one_id g @ opt_ids ids_of_partial p"
| "event_ids (MessageDelete m c g) = [m, c] @ opt_ids one_id g"
| "event_ids (MessageDeleteBulk ms c g) = ms @ [c] @ opt_ids one_id g"
| "event_ids (MessageReactionAdd u c m g a p e) =
     [u, c, m] @ opt_ids one_id g @ opt_ids one_id a @ opt_ids ids_of_member p @ ids_of_emoji e"
| "event_ids (MessageReactionRemove u c m g e) = [u, c, m] @ opt_ids one_id g @ ids_of_emoji e"
| "event_ids (MessageReactionRemoveAll c m g) = [c, m] @ opt_ids one_id g"
| "event_ids (MessageReactionRemoveEmoji c m g e) = [c, m] @ opt_ids one_id g @ ids_of_emoji e"
| "event_ids (VoiceStateUpdate v) = ids_of_voice v"
| "event_ids Heartbeat = []"

section \<open>Readers of well-formed identifiers\<close>

lemma sf_wf_default: "sf_wf sf_default"
  by (simp add: sf_wf_def sf_default_def is_digit_def byte_of_def)

lemma sf_wf_json: "cSnowflake_of_json v = Inr sf \<Longrightarrow> sf_wf sf"
proof -
  assume "cSnowflake_of_json v = Inr sf"
  then obtain s where s: "sf_of_string s = Inr sf"
    by (auto simp: cSnowflake_of_json_def snowflake_of_def bindS_eq_Inr elim!: mapL.elims)
  from sf_of_string_Inr [OF s] show "sf_wf sf"
    by (auto simp: sf_wf_def list_all_iff dest: in_set_takeD)
qed

definition all_wf :: "cSnowflake list \<Rightarrow> bool" where
  "all_wf sfs = list_all sf_wf sfs"

lemma all_wf_simps [simp]:
  "all_wf []" "all_wf (x # xs) \<longleftrightarrow> sf_wf x \<and> all_wf xs" "all_wf (xs @ ys) \<longleftrightarrow> all_wf xs \<and> all_wf ys"
  by (simp_all add: all_wf_def)

lemma ids_simps [simp]:
  "opt_ids f None = []" "opt_ids f (Some x) = f x" "all_ids f [] = []" "all_ids f (x # xs) = f x @ all_ids f xs"
  "all_ids one_id ids = ids" "one_id sf = [sf]"
proof -
  show "all_ids one_id ids = ids" by (induction ids) (simp_all add: all_ids_def one_id_def)
qed (simp_all add: opt_ids_def all_ids_def one_id_def)

lemma all_wf_all_ids: "list_all (\<lambda>x. all_wf (f x)) xs \<Longrightarrow> all_wf (all_ids f xs)"
  by (induction xs) simp_all

text \<open>
  A reader whose values have well-formed identifiers hands them on in every way in which it is
  used: for a member, for one that may be absent, and for a list.
\<close>

definition wf_reader :: "('a \<Rightarrow> cSnowflake list) \<Rightarrow> (json \<Rightarrow> exn + 'a) \<Rightarrow> bool" where
  "wf_reader g f \<longleftrightarrow> (\<forall>v x. f v = Inr x \<longrightarrow> all_wf (g x))"

lemma wf_readerD: "f v = Inr x \<Longrightarrow> wf_reader g f \<Longrightarrow> all_wf (g x)"
  by (simp add: wf_reader_def)

lemma reads_fld: "fld f k ob = Inr x \<Longrightarrow> wf_reader g f \<Longrightarrow> all_wf (g x)"
  by (auto simp: fld_def bindS_eq_Inr wf_reader_def)

lemma reads_default:
  "fld_null f d k ob = Inr x \<Longrightarrow> wf_reader g f \<Longrightarrow> all_wf (g d) \<Longrightarrow> all_wf (g x)"
  "fld_opt f d k ob = Inr x \<Longrightarrow> wf_reader g f \<Longrightarrow> all_wf (g d) \<Longrightarrow> all_wf (g x)"
  "fld_optnull f d k ob = Inr x \<Longrightarrow> wf_reader g f \<Longrightarrow> all_wf (g d) \<Longrightarrow> all_wf (g x)"
  by (auto simp: fld_null_def fld_opt_def fld_optnull_def bindS_eq_Inr wf_reader_def split: if_splits option.splits)

lemma mapS_keeps: "mapS f vs = Inr xs \<Longrightarrow> (\<And>v y. v \<in> set vs \<Longrightarrow> f v = Inr y \<Longrightarrow> P y) \<Longrightarrow> list_all P xs"
proof (induction vs arbitrary: xs)
  case (Cons v vs)
  then obtain y ys where "f v = Inr y" "mapS f vs = Inr ys" "xs = y # ys" by (auto simp: bindS_eq_Inr)
  moreover have "list_all P ys" by (rule Cons.IH) (use calculation Cons.prems(2) in auto)
  ultimately show ?case using Cons.prems(2) [of v y] by simp
qed simp

lemma wf_vector: "wf_reader g f \<Longrightarrow> wf_reader (all_ids g) (value_to_vector f)"
  by (auto simp: wf_reader_def value_to_vector_def bindS_eq_Inr intro!: all_wf_all_ids elim!: mapS_keeps)

lemma wf_some: "wf_reader g f \<Longrightarrow> wf_reader (opt_ids g) (someS f)"
  by (auto simp: wf_reader_def someS_def bindS_eq_Inr)

lemma reads_opt: "fld_opt (someS f) None k ob = Inr x \<Longrightarrow> wf_reader g f \<Longrightarrow> all_wf (opt_ids g x)"
  using reads_default(2) [OF _ wf_some] by fastforce

lemma reads_list: "fld (value_to_vector f) k ob = Inr xs \<Longrightarrow> wf_reader g f \<Longrightarrow> all_wf (all_ids g xs)"
  by (rule reads_fld [OF _ wf_vector])

lemma reads_opt_list: "fld_opt (value_to_vector f) [] k ob = Inr xs \<Longrightarrow> wf_reader g f \<Longrightarrow> all_wf (all_ids g xs)"
  using reads_default(2) [OF _ wf_vector] by fastforce

lemmas reads = reads_fld reads_opt reads_list reads_opt_list wf_readerD

lemma wf_one: "wf_reader one_id cSnowflake_of_json"
  by (auto simp: wf_reader_def dest: sf_wf_json)

lemma id_reads:
  "fld cSnowflake_of_json k ob = Inr x \<Longrightarrow> sf_wf x"
  "fld_opt cSnowflake_of_json sf_default k ob = Inr x \<Longrightarrow> sf_wf x"
  "fld_null cSnowflake_of_json sf_default k ob = Inr x \<Longrightarrow> sf_wf x"
  "fld_optnull cSnowflake_of_json sf_default k ob = Inr x \<Longrightarrow> sf_wf x"
  "the_id k ob = Inr x \<Longrightarrow> sf_wf x"
  "maybe_id k ob = Inr p \<Longrightarrow> all_wf (opt_ids one_id p)"
  "fld_opt (someS cSnowflake_of_json) None k ob = Inr p \<Longrightarrow> all_wf (opt_ids one_id p)"
  "fld (value_to_vector cSnowflake_of_json) k ob = Inr xs \<Longrightarrow> all_wf xs"
  using reads_fld [OF _ wf_one] reads_default [OF _ wf_one] reads_opt [OF _ wf_one] reads_list [OF _ wf_one] sf_wf_default
  by (simp_all add: the_id_def maybe_id_def)

text \<open>The readers of the objects.\<close>

lemma wf_user_object: "cUser_of_object ob = Inr u \<Longrightarrow> all_wf (ids_of_user u)"
  by (auto simp: cUser_of_object_def ids_of_user_def bindS_eq_Inr dest: id_reads)

lemma wf_user: "wf_reader ids_of_user cUser_of_json"
  by (auto simp: wf_reader_def cUser_of_json_def bindS_eq_Inr dest: wf_user_object)

lemmas user_reads = reads [OF _ wf_user]

lemma wf_tags: "wf_reader ids_of_tags cRoleTags_of_json"
  by (auto simp: wf_reader_def cRoleTags_of_json_def ids_of_tags_def bindS_eq_Inr dest: id_reads)

lemma wf_role: "wf_reader ids_of_role cRole_of_json"
  by (auto simp: wf_reader_def cRole_of_json_def ids_of_role_def bindS_eq_Inr dest: id_reads reads [OF _ wf_tags])

lemmas role_reads = reads [OF _ wf_role]

lemma wf_emoji: "wf_reader ids_of_emoji cEmoji_of_json"
  by (auto simp: wf_reader_def cEmoji_of_json_def ids_of_emoji_def bindS_eq_Inr dest: id_reads)

lemmas emoji_reads = reads [OF _ wf_emoji]

lemma wf_partial_object: "cPartialMember_of_object ob = Inr m \<Longrightarrow> all_wf (m_roles m)"
  by (auto simp: cPartialMember_of_object_def bindS_eq_Inr dest: id_reads)

lemma wf_partial: "wf_reader ids_of_partial cPartialMember_of_json"
  by (auto simp: wf_reader_def cPartialMember_of_json_def ids_of_partial_def bindS_eq_Inr dest: wf_partial_object)

lemmas partial_reads = reads [OF _ wf_partial]

lemma wf_member: "wf_reader ids_of_member cMember_of_json"
  by (auto simp: wf_reader_def cMember_of_json_def ids_of_member_def bindS_eq_Inr cPartialMember.defs
      dest: wf_partial_object user_reads)

lemmas member_reads = reads [OF _ wf_member]

lemma wf_member_update: "cMemberUpdate_of_object ob = Inr m \<Longrightarrow> all_wf (ids_of_member_update m)"
  by (auto simp: cMemberUpdate_of_object_def ids_of_member_update_def bindS_eq_Inr Let_def dest: user_reads id_reads)

lemma wf_voice: "wf_reader ids_of_voice cVoiceState_of_json"
  by (auto simp: wf_reader_def cVoiceState_of_json_def ids_of_voice_def bindS_eq_Inr dest: id_reads member_reads)

lemmas voice_reads = reads [OF _ wf_voice]

lemma wf_guild: "cGuild_of_object ob = Inr g \<Longrightarrow> all_wf (ids_of_guild g)"
  by (auto simp: cGuild_of_object_def ids_of_guild_def bindS_eq_Inr dest: id_reads role_reads)

lemma wf_guild_create: "cGuildCreate_of_object ob = Inr vs \<Longrightarrow> all_wf (all_ids ids_of_voice vs)"
  by (auto simp: cGuildCreate_of_object_def dest: voice_reads)

text \<open>The readers of messages and of their components.\<close>

lemma wf_attachment: "wf_reader ids_of_attachment cAttachment_of_json"
  by (auto simp: wf_reader_def cAttachment_of_json_def ids_of_attachment_def bindS_eq_Inr dest: id_reads)

lemma wf_button: "wf_reader ids_of_button cButton_of_json"
  by (auto simp: wf_reader_def cButton_of_json_def ids_of_button_def bindS_eq_Inr dest: emoji_reads)

lemma wf_select_option: "wf_reader ids_of_select_option cSelectOption_of_json"
  by (auto simp: wf_reader_def cSelectOption_of_json_def ids_of_select_option_def bindS_eq_Inr dest: emoji_reads)

lemma wf_select: "wf_reader ids_of_select cSelectMenu_of_json"
  by (auto simp: wf_reader_def cSelectMenu_of_json_def ids_of_select_def bindS_eq_Inr dest: reads [OF _ wf_select_option])

lemma wf_child: "wf_reader ids_of_child row_child_of_json"
  by (auto simp: wf_reader_def bindS_eq_Inr dest: reads [OF _ wf_button] reads [OF _ wf_select] split: if_splits)

lemma wf_row: "wf_reader ids_of_row cActionRow_of_json"
  by (auto simp: wf_reader_def cActionRow_of_json_def ids_of_row_def bindS_eq_Inr dest: reads [OF _ wf_child])

lemmas row_reads = reads [OF _ wf_row]

lemma wf_layout: "wf_reader ids_of_layout layout_of_json"
  by (auto simp: wf_reader_def bindS_eq_Inr dest: row_reads split: if_splits)

lemmas layout_reads = reads [OF _ wf_layout]

lemma wf_submitted: "wf_reader ids_of_submitted submitted_of_json"
  by (auto simp: wf_reader_def bindS_eq_Inr dest: row_reads split: if_splits)

lemma wf_message_object: "cMessage_of_object ob = Inr m \<Longrightarrow> all_wf (ids_of_message m)"
  by (auto simp: cMessage_of_object_def ids_of_message_def bindS_eq_Inr cPartialMessage_of_object_def
      cPartialMessageV2_of_object_def dest: id_reads user_reads row_reads layout_reads reads [OF _ wf_attachment] split: if_splits)

lemma wf_message: "wf_reader ids_of_message cMessage_of_json"
  by (auto simp: wf_reader_def cMessage_of_json_def bindS_eq_Inr dest: wf_message_object)

lemma wf_message_update: "cMessageUpdate_of_object ob = Inr m \<Longrightarrow> all_wf (ids_of_message_update m)"
  by (auto simp: cMessageUpdate_of_object_def ids_of_message_update_def bindS_eq_Inr
      dest: id_reads reads_opt [OF _ wf_vector [OF wf_layout]])

text \<open>The readers of interactions; the options of a command are read recursively.\<close>

lemma wf_option_user: "option_user v pm = Inr x \<Longrightarrow> all_wf (ids_of_value x)"
  by (auto simp: option_user_def bindS_eq_Inr dest: user_reads wf_readerD [OF _ wf_some [OF wf_partial]] split: option.splits)

lemma wf_resolved_user: "resolved_user r s = Inr x \<Longrightarrow> all_wf (ids_of_value x)"
  by (auto simp: resolved_user_def bindS_eq_Inr dest: wf_option_user split: option.splits)

lemma wf_option: "cAppCmdOption_of_json r v = Inr p \<Longrightarrow> all_wf (ids_of_option p)"
proof (induction "size v" arbitrary: v p rule: less_induct)
  case less
  have subs: "all_wf (concat (map ids_of_option os))"
    if "val_at ''options'' v = Inr a" "as_array a = Inr xs" "mapS (cAppCmdOption_of_json r) xs = Inr os" for a xs os
  proof -
    have "list_all (\<lambda>p. all_wf (ids_of_option p)) os"
      by (rule mapS_keeps [OF that(3)])
        (use less.hyps val_at_size [OF that(1)] as_array_size [OF that(2)] in \<open>blast intro: less_trans\<close>)
    then show ?thesis using all_wf_all_ids [of ids_of_option os] by (simp add: all_ids_def)
  qed
  show ?case
    using less.prems subs
    by (subst (asm) cAppCmdOption_of_json.simps)
      (auto simp: bindS_eq_Inr dest: sf_wf_json wf_resolved_user split: if_splits)
qed

lemma wf_options: "wf_reader ids_of_option (cAppCmdOption_of_json r)"
  by (auto simp: wf_reader_def dest: wf_option)

lemma wf_option_of_target: "option_of_target uid resolved = Inr p \<Longrightarrow> all_wf (ids_of_option p)"
  by (auto simp: option_of_target_def bindS_eq_Inr dest: wf_option_user)

lemma wf_base: "cInteraction_of_object ob = Inr i \<Longrightarrow> all_wf (ids_of_base i)"
  by (auto simp: cInteraction_of_object_def ids_of_base_def bindS_eq_Inr dest: id_reads user_reads partial_reads split: if_splits)

lemma wf_app_cmd: "cAppCmdInteraction_of_object ob = Inr i \<Longrightarrow> all_wf (ids_of_interaction (AppCmd i))"
  by (auto simp: cAppCmdInteraction_of_object_def bindS_eq_Inr
      dest: wf_base id_reads reads [OF _ wf_options] wf_option_of_target split: if_splits)

lemma wf_msg_comp: "cMsgCompInteraction_of_object ob = Inr i \<Longrightarrow> all_wf (ids_of_interaction (MsgComp i))"
  by (auto simp: cMsgCompInteraction_of_object_def bindS_eq_Inr dest: wf_base reads [OF _ wf_message])

lemma wf_modal: "cModalSubmitInteraction_of_object ob = Inr i \<Longrightarrow> all_wf (ids_of_interaction (ModalSubmit i))"
  by (auto simp: cModalSubmitInteraction_of_object_def bindS_eq_Inr dest: wf_base reads [OF _ wf_submitted])

section \<open>Every identifier is well formed\<close>

lemma parse_interaction_wf: "parse_interaction ob = Inr (Some e) \<Longrightarrow> all_wf (event_ids e)"
  by (auto simp: parse_interaction_def bindS_eq_Inr simp del: ids_of_interaction.simps
      dest: wf_app_cmd wf_msg_comp wf_modal split: if_splits)

lemma parse_message_wf:
  "parse_message_create ob = Inr e \<Longrightarrow> all_wf (event_ids e)"
  "parse_message_update ob = Inr e \<Longrightarrow> all_wf (event_ids e)"
  "parse_message_delete ob = Inr e \<Longrightarrow> all_wf (event_ids e)"
  "parse_message_delete_bulk ob = Inr e \<Longrightarrow> all_wf (event_ids e)"
  by (auto simp: parse_message_create_def parse_message_update_def parse_message_delete_def parse_message_delete_bulk_def
      maybe_partial_member_def bindS_eq_Inr dest: wf_message_object wf_message_update id_reads partial_reads)

lemma parse_reaction_wf:
  "parse_reaction_add ob = Inr e \<Longrightarrow> all_wf (event_ids e)"
  "parse_reaction_remove ob = Inr e \<Longrightarrow> all_wf (event_ids e)"
  "parse_reaction_remove_all ob = Inr e \<Longrightarrow> all_wf (event_ids e)"
  "parse_reaction_remove_emoji ob = Inr e \<Longrightarrow> all_wf (event_ids e)"
  by (auto simp: parse_reaction_add_def parse_reaction_remove_def parse_reaction_remove_all_def
      parse_reaction_remove_emoji_def bindS_eq_Inr dest: id_reads member_reads emoji_reads)

lemma parse_guild_wf:
  "parse_guild_create ob = Inr e \<Longrightarrow> all_wf (event_ids e)"
  "parse_role_event GuildRoleCreate ob = Inr e \<Longrightarrow> all_wf (event_ids e)"
  "parse_role_event GuildRoleUpdate ob = Inr e \<Longrightarrow> all_wf (event_ids e)"
  "parse_role_delete ob = Inr e \<Longrightarrow> all_wf (event_ids e)"
  "parse_member_add ob = Inr e \<Longrightarrow> all_wf (event_ids e)"
  "parse_member_update ob = Inr e \<Longrightarrow> all_wf (event_ids e)"
  "parse_member_remove ob = Inr e \<Longrightarrow> all_wf (event_ids e)"
  by (auto simp: parse_guild_create_def parse_role_event_def parse_role_delete_def parse_member_add_def parse_member_update_def
      parse_member_remove_def bindS_eq_Inr
      dest: wf_guild wf_guild_create id_reads role_reads member_reads wf_member_update user_reads)

lemmas parsers_wf = parse_interaction_wf parse_message_wf parse_reaction_wf parse_guild_wf user_reads voice_reads

lemma parse_event_wf: "parse_event code ob = Inr (Some e) \<Longrightarrow> all_wf (event_ids e)"
  by (auto simp: parse_event_def bindS_eq_Inr dest: parsers_wf split: if_splits)

section \<open>Properties\<close>

text \<open>
  C33: whatever the gateway sends, every identifier in an event that reaches the bot consists of
  digits, at least one and at most 20, so that it can be put into the path of a request: those of
  the objects of the event and of all objects within them, from the roles of a guild and their tags
  to the users in the options of a command and the emojis of the components of a message. Custom
  ids of modals and components are texts that the handlers read.
\<close>

theorem event_ids_well_formed:
  assumes "parse_event code ob = Inr (Some e)" and "sf \<in> set (event_ids e)"
  shows "m_str sf \<noteq> [] \<and> list_all is_digit (m_str sf) \<and> length (m_str sf) \<le> 20"
  using parse_event_wf [OF assms(1)] assms(2) by (simp add: all_wf_def list_all_iff sf_wf_def)

theorem event_ids_well_formed_witness:
  "\<exists>sf. sf_of_string ''7'' = Inr sf \<and> m_str sf \<noteq> [] \<and> list_all is_digit (m_str sf) \<and> length (m_str sf) \<le> 20"
proof -
  let ?sf = "\<lparr>m_str = ''7'', m_int = 7\<rparr>"
  have s: "sf_of_string ''7'' = Inr ?sf"
    by (simp add: sf_of_string_def from_chars_def Let_def is_digit_def digit_val_def byte_of_def)
  have "parse_event MESSAGE_DELETE [(''id'', JStr ''7''), (''channel_id'', JStr ''7'')] = Inr (Some (MessageDelete ?sf ?sf None))"
    by (simp add: parse_event_def event_codes parse_message_delete_def the_id_def maybe_id_def json_reads
        cSnowflake_of_json_def snowflake_of_def s)
  from event_ids_well_formed [OF this, of ?sf] s show ?thesis by simp
qed

end
