(* ===== verification/Session.thy ===== *)
theory Session
  imports Payload
begin

text \<open>
  The connection to the gateway (Discord/Gateway/GatewayImpl.cpp, GatewayCommands.cpp,
  GatewayEvents.cpp and GatewayGuildMembers.cpp): the sessions on the websocket, the messages
  they send, their heartbeats, what is read from them, and how a session that ends is replaced.
  Everything here runs on one strand, so it is a sequence of steps. Sessions are numbered in the
  order of their first read; those that have ended stay in the list, marked as closing.
\<close>

section \<open>Messages to the gateway\<close>

text \<open>A text between quotes, as \<open>std::format\<close> writes it for debugging, of printable characters and the usual escapes.\<close>

fun debug_char :: "char \<Rightarrow> string" where
  "debug_char c =
     (if c = CHR ''\"'' then [CHR 0x5C, c] else if c = CHR 0x5C then [c, c]
      else if c = CHR 0x09 then [CHR 0x5C, CHR ''t''] else if c = CHR 0x0A then [CHR 0x5C, CHR ''n'']
      else if c = CHR 0x0D then [CHR 0x5C, CHR ''r''] else [c])"

definition debug_quote :: "string \<Rightarrow> string" where
  "debug_quote s = ''\"'' @ concat (map debug_char s) @ ''\"''"

datatype command =
    Resume string string int
  | Identify string int string
  | SendHeartbeat "int option"
  | RequestMembers jobject

fun command_text :: "(jobject \<Rightarrow> string) \<Rightarrow> command \<Rightarrow> string" where
  "command_text serialize (Resume token sess seq) =
     ''{\"op\":6,\"d\":{\"token\":'' @ debug_quote token @ '',\"session_id\":'' @ debug_quote sess
       @ '',\"seq\":'' @ to_dec_int seq @ ''}}''"
| "command_text serialize (Identify token intents os) =
     ''{\"op\":2,\"d\":{\"token\":'' @ debug_quote token @ '',\"intents\":'' @ to_dec_int intents
       @ '',\"properties\":{\"os\":'' @ debug_quote os @ '',\"browser\":\"GreekBot\",\"device\":\"GreekBot\"}}}''"
| "command_text serialize (SendHeartbeat None) = ''{\"op\":1,\"d\":null}''"
| "command_text serialize (SendHeartbeat (Some seq)) = ''{\"op\":1,\"d\":'' @ to_dec_int seq @ ''}''"
| "command_text serialize (RequestMembers ob) = serialize ob"

definition members_payload :: "cSnowflake \<Rightarrow> string \<Rightarrow> cSnowflake list \<Rightarrow> nat \<Rightarrow> jobject" where
  "members_payload guild query users nonce =
     [(''op'', JInt 8),
      (''d'', JObj ([(''guild_id'', cSnowflake_to_json guild), (''limit'', JInt 0)]
         @ (if users = [] then [(''query'', JStr query)] else [(''user_ids'', JArr (map cSnowflake_to_json users))])
         @ [(''nonce'', JStr (to_dec nonce))]))]"

section \<open>The state\<close>

text \<open>
  A session: its queue, the front of which is being written, and what has been written; the
  delay of the heartbeat timer if it is armed; whether a close frame was sent; what has been
  read but not decompressed, and the messages that were.
\<close>

record wsession =
  ws_queue :: "command list"
  ws_sent :: "command list"
  ws_hb_timer :: "int option"
  ws_hb_interval :: int
  ws_hb_ack :: bool
  ws_closing :: bool
  ws_close_sent :: bool
  ws_buffer :: string
  ws_inflated :: "string list"

definition new_session :: wsession where
  "new_session =
     \<lparr>ws_queue = [], ws_sent = [], ws_hb_timer = None, ws_hb_interval = 0, ws_hb_ack = False, ws_closing = False,
      ws_close_sent = False, ws_buffer = [], ws_inflated = []\<rparr>"

record application =
  app_id :: cSnowflake
  app_flags :: int

text \<open>
  The connection: the runs of \<open>run_session\<close> that have yet to choose an address, the addresses
  that are being connected to, the sessions that are connected and of which nothing was read,
  and the runs of \<open>retry\<close> that wait; the sessions that were read from, and the weak pointer to the
  current one, which is set when a session is read for the first time; what is kept for resuming; the requests for members, those that wait for a session
  being pending; the restarts that were put off; and what was handed to the bot.
\<close>

record gateway =
  gw_sessions :: "wsession list"
  gw_current :: "nat option"
  gw_choosing :: nat
  gw_connecting :: "string list"
  gw_opened :: nat
  gw_retrying :: nat
  gw_terminating :: bool
  gw_signalled :: bool
  gw_http_terminate :: bool
  gw_error_started :: "int option"
  gw_cached_url :: string
  gw_resume_url :: string
  gw_session_id :: string
  gw_last_sequence :: int
  gw_rgm :: rgm
  gw_pending :: "(nat \<times> jobject) list"
  gw_refused :: "exn list"
  gw_application :: "application option"
  gw_deferred :: "nat list"
  gw_events :: "event list"

text \<open>\<open>Run\<close> starts the first session.\<close>

definition gw_start :: gateway where
  "gw_start =
     \<lparr>gw_sessions = [], gw_current = None, gw_choosing = 1, gw_connecting = [], gw_opened = 0, gw_retrying = 0,
      gw_terminating = False, gw_signalled = False, gw_http_terminate = False, gw_error_started = None,
      gw_cached_url = [], gw_resume_url = [], gw_session_id = [], gw_last_sequence = 0, gw_rgm = rgm_start,
      gw_pending = [], gw_refused = [], gw_application = None, gw_deferred = [], gw_events = []\<rparr>"

text \<open>
  What the code calls but does not define: the reading of JSON texts, decompression, given the
  messages before, to all the output of a message, CRC32, the reading of addresses, whether the
  scheme of an address is wss, and random numbers; and the token, the intents and the name of the system.
\<close>

record gw_env =
  env_parse :: "string \<Rightarrow> exn + json"
  env_inflate :: "string list \<Rightarrow> string \<Rightarrow> exn + string"
  env_crc :: "string \<Rightarrow> u32"
  env_url :: "string \<Rightarrow> exn + string"
  env_wss :: "string \<Rightarrow> bool"
  env_random :: "int \<Rightarrow> int"
  env_token :: string
  env_intents :: int
  env_os :: string

section \<open>Sessions\<close>

definition on_session :: "nat \<Rightarrow> (wsession \<Rightarrow> wsession) \<Rightarrow> gateway \<Rightarrow> gateway" where
  "on_session i f g = g\<lparr>gw_sessions := (gw_sessions g)[i := f (gw_sessions g ! i)]\<rparr>"

definition run_session :: "gateway \<Rightarrow> gateway" where
  "run_session g = g\<lparr>gw_choosing := Suc (gw_choosing g)\<rparr>"

text \<open>The common part of \<open>restart\<close> and \<open>on_close\<close>: a session ends once.\<close>

definition end_session :: "nat \<Rightarrow> gateway \<Rightarrow> gateway" where
  "end_session i g =
     (if ws_closing (gw_sessions g ! i) then g
      else
        let g1 = (on_session i (\<lambda>s. s\<lparr>ws_closing := True, ws_hb_timer := None\<rparr>) g)
              \<lparr>gw_current := (if gw_current g = Some i then None else gw_current g)\<rparr>
        in if gw_terminating g then g1 else run_session g1)"

definition restart :: "nat \<Rightarrow> gateway \<Rightarrow> gateway" where
  "restart i g =
     end_session i (if ws_closing (gw_sessions g ! i) then g else on_session i (\<lambda>s. s\<lparr>ws_close_sent := True\<rparr>) g)"

definition on_close :: "nat \<Rightarrow> gateway \<Rightarrow> gateway" where
  "on_close i g = end_session i g"

definition send :: "nat \<Rightarrow> command \<Rightarrow> gateway \<Rightarrow> gateway" where
  "send i c g = on_session i (\<lambda>s. s\<lparr>ws_queue := ws_queue s @ [c]\<rparr>) g"

definition forget_session :: "gateway \<Rightarrow> gateway" where
  "forget_session g = g\<lparr>gw_last_sequence := 0, gw_session_id := [], gw_resume_url := []\<rparr>"

section \<open>Commands\<close>

definition resume :: "gw_env \<Rightarrow> nat \<Rightarrow> gateway \<Rightarrow> gateway" where
  "resume env i g = send i (Resume (env_token env) (gw_session_id g) (gw_last_sequence g)) g"

definition identify :: "gw_env \<Rightarrow> nat \<Rightarrow> gateway \<Rightarrow> gateway" where
  "identify env i g =
     (let g1 = send i (Identify (env_token env) (env_intents env) (env_os env)) g
      in g1\<lparr>gw_rgm := rgm_reset (gw_rgm g1)\<rparr>)"

definition heartbeat :: "nat \<Rightarrow> int \<Rightarrow> gateway \<Rightarrow> gateway" where
  "heartbeat i now g =
     (let g1 = on_session i (\<lambda>s. s\<lparr>ws_hb_ack := False\<rparr>) g;
          g2 = send i (SendHeartbeat (if gw_last_sequence g1 \<noteq> 0 then Some (gw_last_sequence g1) else None)) g1
      in g2\<lparr>gw_rgm := rgm_timeout now (gw_rgm g2)\<rparr>)"

definition arm_timer :: "nat \<Rightarrow> int \<Rightarrow> gateway \<Rightarrow> gateway" where
  "arm_timer i d g = on_session i (\<lambda>s. s\<lparr>ws_hb_timer := Some d\<rparr>) g"

definition on_expire :: "nat \<Rightarrow> int \<Rightarrow> gateway \<Rightarrow> gateway" where
  "on_expire i now g =
     (let s = gw_sessions g ! i in
      if ws_closing s then g
      else if \<not> ws_hb_ack s then restart i g
      else arm_timer i (ws_hb_interval s) (heartbeat i now g))"

section \<open>Requests for members\<close>

text \<open>The message of a request and the entry that waits for the answer; without a session the request is pending.\<close>

definition send_request :: "int \<Rightarrow> nat \<Rightarrow> nat \<times> jobject \<Rightarrow> gateway \<Rightarrow> gateway" where
  "send_request now i p g =
     (case p of (n, ob) \<Rightarrow>
        let g1 = send i (RequestMembers ob) g in g1\<lparr>gw_rgm := rgm_put n (rgm_new now) (gw_rgm g1)\<rparr>)"

definition lock_and_send :: "int \<Rightarrow> nat \<times> jobject \<Rightarrow> gateway \<Rightarrow> gateway" where
  "lock_and_send now p g =
     (case gw_current g of
        Some i \<Rightarrow> send_request now i p g
      | None \<Rightarrow> g\<lparr>gw_pending := gw_pending g @ [p]\<rparr>)"

text \<open>There is a current session whenever this is called (the current session is the one that read the event).\<close>

definition rgm_resume :: "int \<Rightarrow> gateway \<Rightarrow> gateway" where
  "rgm_resume now g = fold (lock_and_send now) (gw_pending g) (g\<lparr>gw_pending := []\<rparr>)"

definition application_of_json :: "json \<Rightarrow> exn + application" where
  "application_of_json v =
     bindS (as_object v) (\<lambda>ob.
     bindS (fld cSnowflake_of_json ''id'' ob) (\<lambda>aid.
     bindS (fld to_i32 ''flags'' ob) (\<lambda>flags.
     Inr \<lparr>app_id = aid, app_flags = flags\<rparr>)))"

definition may_list_members :: "application \<Rightarrow> bool" where
  "may_list_members a \<longleftrightarrow> and (app_flags a) (or (push_bit 14 1) (push_bit 15 1)) \<noteq> 0"

text \<open>
  All members may be requested only with the privileged intents; \<open>fetched\<close> is the answer to the
  request for the application, which is made when the application is not known.
\<close>

definition check_intents :: "(exn + json) option \<Rightarrow> gateway \<Rightarrow> (exn + unit) \<times> gateway" where
  "check_intents fetched g =
     (case fetched of
        None \<Rightarrow>
          (case gw_application g of
             None \<Rightarrow> (Inl xBadOptionalAccess, g)
           | Some a \<Rightarrow> (if may_list_members a then Inr () else Inl (xGatewayError PrivilegedIntents), g))
      | Some r \<Rightarrow>
          (case r of
             Inl e \<Rightarrow> (Inl e, g)
           | Inr v \<Rightarrow>
               (case application_of_json v of
                  Inl e \<Rightarrow> (Inl e, g\<lparr>gw_application := None\<rparr>)
                | Inr a \<Rightarrow>
                    (if may_list_members a then Inr () else Inl (xGatewayError PrivilegedIntents),
                     g\<lparr>gw_application := Some a\<rparr>))))"

definition request_members ::
  "cSnowflake \<Rightarrow> string \<Rightarrow> cSnowflake list \<Rightarrow> (exn + json) option \<Rightarrow> int \<Rightarrow> gateway \<Rightarrow> gateway" where
  "request_members guild query users fetched now g =
     (case (if users = [] \<and> query = [] then check_intents fetched g else (Inr (), g)) of
        (Inl e, g1) \<Rightarrow> g1\<lparr>gw_refused := gw_refused g1 @ [e]\<rparr>
      | (Inr _, g1) \<Rightarrow>
          let n = rgm_nonce (gw_rgm g1);
              g2 = g1\<lparr>gw_rgm := (gw_rgm g1)\<lparr>rgm_nonce := Suc n\<rparr>\<rparr>
          in lock_and_send now (n, members_payload guild query users n) g2)"

section \<open>Events\<close>

type_synonym 'a reading = "(exn + 'a) \<times> gateway"

definition deliver_members :: "string \<Rightarrow> (exn + int) \<Rightarrow> rgm_event \<Rightarrow> gateway \<Rightarrow> event option reading" where
  "deliver_members what nonce ev g =
     (case nonce of
        Inl e \<Rightarrow> (Inl e, g)
      | Inr n \<Rightarrow>
          (case rgm_deliver what (nat n) ev (gw_rgm g) of
             Inl e \<Rightarrow> (Inl e, g)
           | Inr r \<Rightarrow> (Inr None, g\<lparr>gw_rgm := r\<rparr>)))"

definition the_nonce :: "jobject \<Rightarrow> exn + int" where
  "the_nonce ob = bindS (fld as_string ''nonce'' ob) parse_u64"

definition on_rate_limited :: "jobject \<Rightarrow> gateway \<Rightarrow> event option reading" where
  "on_rate_limited d g =
     (case bindS (fld as_object ''meta'' d) (\<lambda>meta. bindS (fld to_i32 ''opcode'' d) (\<lambda>op. Inr (meta, op))) of
        Inl e \<Rightarrow> (Inl e, g)
      | Inr (meta, op) \<Rightarrow>
          if op = 8 then
            deliver_members ''Unexpected RATE_LIMITED event.'' (the_nonce meta) (Fail (thrown (rate_limit_error (Some d)))) g
          else (Inr None, g))"

text \<open>READY: every member is stored as soon as it is read.\<close>

definition on_ready :: "gw_env \<Rightarrow> int \<Rightarrow> jobject \<Rightarrow> gateway \<Rightarrow> event option reading" where
  "on_ready env now d g =
     (case fld as_string ''session_id'' d of
        Inl e \<Rightarrow> (Inl e, g)
      | Inr sid \<Rightarrow>
          let g1 = g\<lparr>gw_session_id := sid\<rparr> in
          case bindS (fld as_string ''resume_gateway_url'' d) (env_url env) of
            Inl e \<Rightarrow> (Inl e, g1)
          | Inr url \<Rightarrow>
              let g2 = g1\<lparr>gw_resume_url := url\<rparr> in
              case obj_at ''application'' d of
                Inl e \<Rightarrow> (Inl e, g2)
              | Inr v \<Rightarrow>
                  case application_of_json v of
                    Inl e \<Rightarrow> (Inl e, g2\<lparr>gw_application := None\<rparr>)
                  | Inr a \<Rightarrow>
                      let g3 = g2\<lparr>gw_application := Some a\<rparr> in
                      case parse_event READY d of
                        Inl e \<Rightarrow> (Inl e, g3)
                      | Inr ev \<Rightarrow> (Inr ev, rgm_resume now g3))"

definition dispatch :: "gw_env \<Rightarrow> int \<Rightarrow> u32 \<Rightarrow> jobject \<Rightarrow> gateway \<Rightarrow> event option reading" where
  "dispatch env now code d g =
     (if code = RESUMED then (Inr None, rgm_resume now g)
      else if code = READY then on_ready env now d g
      else if code = GUILD_MEMBERS_CHUNK then
        deliver_members ''Unexpected chunk.'' (the_nonce d) (Arrive (chunk_of_object d)) g
      else if code = RATE_LIMITED then on_rate_limited d g
      else if code = USER_UPDATE then
        (case parse_event code d of Inl e \<Rightarrow> (Inl e, g) | Inr ev \<Rightarrow> (Inr ev, g\<lparr>gw_application := None\<rparr>))
      else (parse_event code d, g))"

text \<open>
  The sequence number is kept before anything else is read. An event goes to the bot; a payload
  that cannot be read has the session restarted later.
\<close>

definition read_event :: "gw_env \<Rightarrow> int \<Rightarrow> json \<Rightarrow> gateway \<Rightarrow> event option reading" where
  "read_event env now v g =
     (case bindS (val_at ''s'' v) as_int64 of
        Inl e \<Rightarrow> (Inl e, g)
      | Inr s \<Rightarrow>
          let g1 = g\<lparr>gw_last_sequence := s\<rparr> in
          case bindS (bindS (val_at ''t'' v) as_string) (\<lambda>t. bindS (bindS (val_at ''d'' v) as_object) (\<lambda>d. Inr (t, d))) of
            Inl e \<Rightarrow> (Inl e, g1)
          | Inr (t, d) \<Rightarrow> dispatch env now (env_crc env t) d g1)"

definition process_event :: "gw_env \<Rightarrow> nat \<Rightarrow> int \<Rightarrow> json \<Rightarrow> gateway \<Rightarrow> gateway" where
  "process_event env i now v g =
     (case read_event env now v g of
        (Inl e, g1) \<Rightarrow> g1\<lparr>gw_deferred := gw_deferred g1 @ [i]\<rparr>
      | (Inr None, g1) \<Rightarrow> g1
      | (Inr (Some ev), g1) \<Rightarrow> g1\<lparr>gw_events := gw_events g1 @ [ev]\<rparr>)"

section \<open>Reading\<close>

text \<open>
  The loop around \<open>inflate\<close>: \<open>pending\<close> is the output that is left; a call without any output or
  input left is the buffer error of zlib. The last call leaves room in the buffer of 4096 got.
\<close>

definition zlib_buffer_error :: exn where "zlib_buffer_error = xTransport (-5)"

function inflate_loop :: "bool \<Rightarrow> string \<Rightarrow> exn + string" where
  "inflate_loop first pending =
     (if pending = [] \<and> \<not> first then Inl zlib_buffer_error
      else if length pending < 4096 then Inr pending
      else bindS (inflate_loop False (drop 4096 pending)) (\<lambda>rest. Inr (take 4096 pending @ rest)))"
  by pat_completeness auto
termination
  by (relation "measure (\<lambda>(first, pending). length pending)") auto

declare inflate_loop.simps [simp del]

definition sync_flush :: string where
  "sync_flush = [CHR 0x00, CHR 0x00, CHR 0xFF, CHR 0xFF]"

definition flushed :: "string \<Rightarrow> bool" where
  "flushed msg \<longleftrightarrow> length msg \<ge> 4 \<and> drop (length msg - 4) msg = sync_flush"

text \<open>The opcodes: 0 an event, 1 a request for a heartbeat, 7 reconnect, 9 invalid session, 10 hello, 11 acknowledgement.\<close>

definition on_hello :: "gw_env \<Rightarrow> nat \<Rightarrow> json \<Rightarrow> gateway \<Rightarrow> unit reading" where
  "on_hello env i v g =
     (let g1 = on_session i (\<lambda>s. s\<lparr>ws_hb_ack := True\<rparr>) g in
      case bindS (bindS (val_at ''d'' v) (val_at ''heartbeat_interval'')) to_i64 of
        Inl e \<Rightarrow> (Inl e, g1)
      | Inr ms \<Rightarrow>
          let g2 = arm_timer i (env_random env ms) (on_session i (\<lambda>s. s\<lparr>ws_hb_interval := ms\<rparr>) g1)
          in (Inr (), if gw_session_id g2 = [] then identify env i g2 else resume env i g2))"

definition on_invalid_session :: "nat \<Rightarrow> json \<Rightarrow> gateway \<Rightarrow> unit reading" where
  "on_invalid_session i v g =
     (case bindS (val_at ''d'' v) as_bool of
        Inl e \<Rightarrow> (Inl e, g)
      | Inr resumable \<Rightarrow> (Inr (), restart i (if resumable then g else forget_session g)))"

definition on_heartbeat_request :: "nat \<Rightarrow> int \<Rightarrow> gateway \<Rightarrow> gateway" where
  "on_heartbeat_request i now g =
     (if ws_hb_timer (gw_sessions g ! i) \<noteq> None
      then arm_timer i (ws_hb_interval (gw_sessions g ! i)) (heartbeat i now g) else g)"

definition on_ack :: "nat \<Rightarrow> gateway \<Rightarrow> gateway" where
  "on_ack i g = (let g1 = on_session i (\<lambda>s. s\<lparr>ws_hb_ack := True\<rparr>) g in g1\<lparr>gw_events := gw_events g1 @ [Heartbeat]\<rparr>)"

definition on_message :: "gw_env \<Rightarrow> nat \<Rightarrow> int \<Rightarrow> json \<Rightarrow> gateway \<Rightarrow> unit reading" where
  "on_message env i now v g =
     (case bindS (val_at ''op'' v) to_i32 of
        Inl e \<Rightarrow> (Inl e, g)
      | Inr op \<Rightarrow>
          if op = 0 then (Inr (), process_event env i now v g)
          else if op = 1 then (Inr (), on_heartbeat_request i now g)
          else if op = 9 then on_invalid_session i v g
          else if op = 10 then on_hello env i v g
          else if op = 11 then (Inr (), on_ack i g)
          else (Inr (), g))"

datatype read_result =
    Closed int
  | Eof
  | Canceled
  | Failed
  | Data string

text \<open>The close codes after which there is no point in another session.\<close>

definition fatal_codes :: "int set" where
  "fatal_codes = {4004, 4010, 4011, 4012, 4013, 4014}"

definition on_closed :: "nat \<Rightarrow> int \<Rightarrow> gateway \<Rightarrow> gateway" where
  "on_closed i code g =
     (if code \<in> fatal_codes then on_close i (g\<lparr>gw_http_terminate := True, gw_terminating := True\<rparr>)
      else if code = 4007 then on_close i (forget_session g)
      else on_close i g)"

text \<open>Any exception restarts the session.\<close>

definition on_text :: "gw_env \<Rightarrow> nat \<Rightarrow> int \<Rightarrow> string \<Rightarrow> gateway \<Rightarrow> gateway" where
  "on_text env i now json_text g =
     (case env_parse env json_text of
        Inl e \<Rightarrow> restart i g
      | Inr v \<Rightarrow>
          (case on_message env i now v g of
             (Inl e, g1) \<Rightarrow> restart i g1
           | (Inr _, g1) \<Rightarrow> g1))"

definition on_complete :: "gw_env \<Rightarrow> nat \<Rightarrow> int \<Rightarrow> string \<Rightarrow> gateway \<Rightarrow> gateway" where
  "on_complete env i now msg g =
     (case bindS (env_inflate env (ws_inflated (gw_sessions g ! i)) msg) (inflate_loop True) of
        Inl e \<Rightarrow> restart i g
      | Inr json_text \<Rightarrow>
          on_text env i now json_text (on_session i (\<lambda>s. s\<lparr>ws_buffer := [], ws_inflated := ws_inflated s @ [msg]\<rparr>) g))"

text \<open>Data: the message is complete when it ends with the flush marker.\<close>

definition on_data :: "gw_env \<Rightarrow> nat \<Rightarrow> int \<Rightarrow> string \<Rightarrow> gateway \<Rightarrow> gateway" where
  "on_data env i now got g =
     (let g1 = on_session i (\<lambda>s. s\<lparr>ws_buffer := ws_buffer s @ got\<rparr>) g;
          msg = ws_buffer (gw_sessions g1 ! i)
      in if flushed msg then on_complete env i now msg g1 else g1)"

definition on_read :: "gw_env \<Rightarrow> nat \<Rightarrow> int \<Rightarrow> read_result \<Rightarrow> gateway \<Rightarrow> gateway" where
  "on_read env i now r g =
     (case r of
        Closed code \<Rightarrow> on_closed i code g
      | Eof \<Rightarrow> on_close i g
      | Canceled \<Rightarrow> g
      | Failed \<Rightarrow> if ws_closing (gw_sessions g ! i) then g else restart i g
      | Data got \<Rightarrow> if ws_closing (gw_sessions g ! i) then g else on_data env i now got g)"

text \<open>The first read of a session makes it the current one.\<close>

definition first_read :: "gateway \<Rightarrow> gateway" where
  "first_read g =
     g\<lparr>gw_opened := gw_opened g - 1, gw_sessions := gw_sessions g @ [new_session],
       gw_current := Some (length (gw_sessions g))\<rparr>"

datatype write_result = Written | WriteCanceled | WriteFailed

definition on_write :: "nat \<Rightarrow> write_result \<Rightarrow> gateway \<Rightarrow> gateway" where
  "on_write i r g =
     (let s = gw_sessions g ! i in
      if r = WriteCanceled \<or> ws_closing s then g
      else if r = WriteFailed then restart i g
      else on_session i (\<lambda>s. s\<lparr>ws_sent := ws_sent s @ take 1 (ws_queue s), ws_queue := drop 1 (ws_queue s)\<rparr>) g)"

section \<open>Connecting\<close>

definition minute :: int where "minute = 60 * ns_second"

text \<open>After errors for more than a minute the address is given up.\<close>

definition retry :: "int \<Rightarrow> gateway \<Rightarrow> gateway" where
  "retry now g =
     (let g1 =
        (case gw_error_started g of
           None \<Rightarrow> g\<lparr>gw_error_started := Some now\<rparr>
         | Some t \<Rightarrow>
             if now - t > minute then
               (if gw_resume_url g = [] then g\<lparr>gw_cached_url := []\<rparr> else g\<lparr>gw_resume_url := []\<rparr>)\<lparr>gw_error_started := Some now\<rparr>
             else g)
      in g1\<lparr>gw_retrying := Suc (gw_retrying g1)\<rparr>)"

definition choose_url :: "gw_env \<Rightarrow> (exn + json) \<Rightarrow> gateway \<Rightarrow> string reading" where
  "choose_url env answer g =
     (if gw_resume_url g \<noteq> [] then (Inr (gw_resume_url g), g)
      else if gw_cached_url g \<noteq> [] then (Inr (gw_cached_url g), g)
      else
        case bindS answer (\<lambda>v. bindS (bindS (val_at ''url'' v) as_string) (env_url env)) of
          Inl e \<Rightarrow> (Inl e, g)
        | Inr u \<Rightarrow> (Inr u, g\<lparr>gw_cached_url := u\<rparr>))"

text \<open>\<open>run_session\<close> up to the connection; only websocket addresses are connected to.\<close>

definition run_session_chosen :: "gw_env \<Rightarrow> (exn + json) \<Rightarrow> int \<Rightarrow> gateway \<Rightarrow> gateway" where
  "run_session_chosen env answer now g =
     (case choose_url env answer (g\<lparr>gw_choosing := gw_choosing g - 1\<rparr>) of
        (Inl e, g1) \<Rightarrow> retry now g1
      | (Inr u, g1) \<Rightarrow>
          if env_wss env u then g1\<lparr>gw_connecting := gw_connecting g1 @ [u]\<rparr> else retry now g1)"

text \<open>The handshakes succeed, and reading starts; or something fails.\<close>

definition session_connected :: "gateway \<Rightarrow> gateway" where
  "session_connected g =
     g\<lparr>gw_connecting := tl (gw_connecting g), gw_opened := Suc (gw_opened g), gw_error_started := None\<rparr>"

definition session_failed :: "int \<Rightarrow> gateway \<Rightarrow> gateway" where
  "session_failed now g = retry now (g\<lparr>gw_connecting := tl (gw_connecting g)\<rparr>)"

text \<open>The end of the ten seconds, which are cut short when the connection terminates.\<close>

definition retry_elapsed :: "gateway \<Rightarrow> gateway" where
  "retry_elapsed g =
     (let g1 = g\<lparr>gw_retrying := gw_retrying g - 1\<rparr> in if gw_terminating g1 then g1 else run_session g1)"

text \<open>A signal is waited for once.\<close>

definition on_signal :: "gateway \<Rightarrow> gateway" where
  "on_signal g =
     (let g1 = g\<lparr>gw_signalled := True, gw_terminating := True\<rparr>;
          g2 = (case gw_current g1 of None \<Rightarrow> g1 | Some i \<Rightarrow> restart i g1)
      in g2\<lparr>gw_http_terminate := True\<rparr>)"

text \<open>\<open>run_context\<close>: an exception that escaped.\<close>

definition on_escape :: "gateway \<Rightarrow> gateway" where
  "on_escape g = (case gw_current g of Some i \<Rightarrow> restart i g | None \<Rightarrow> run_session g)"

section \<open>Steps\<close>

datatype gw_event =
    AddressChosen "exn + json" int
  | Connected
  | ConnectFailed int
  | RetryElapsed
  | FirstRead int read_result
  | Read nat int read_result
  | Wrote nat write_result
  | Expired nat int
  | Deferred
  | Signal
  | Escaped
  | MembersRequested cSnowflake string "cSnowflake list" "(exn + json) option" int
  | MembersRead nat int
  | MembersDropped nat

text \<open>Each step is taken only when the code has something that waits for it.\<close>

fun gw_step :: "gw_env \<Rightarrow> gw_event \<Rightarrow> gateway \<Rightarrow> gateway" where
  "gw_step env (AddressChosen answer now) g = (if gw_choosing g > 0 then run_session_chosen env answer now g else g)"
| "gw_step env Connected g = (if gw_connecting g \<noteq> [] then session_connected g else g)"
| "gw_step env (ConnectFailed now) g = (if gw_connecting g \<noteq> [] then session_failed now g else g)"
| "gw_step env RetryElapsed g = (if gw_retrying g > 0 then retry_elapsed g else g)"
| "gw_step env (FirstRead now r) g =
     (if gw_opened g > 0 then on_read env (length (gw_sessions g)) now r (first_read g) else g)"
| "gw_step env (Read i now r) g = (if i < length (gw_sessions g) then on_read env i now r g else g)"
| "gw_step env (Wrote i r) g =
     (if i < length (gw_sessions g) \<and> ws_queue (gw_sessions g ! i) \<noteq> [] then on_write i r g else g)"
| "gw_step env (Expired i now) g =
     (if i < length (gw_sessions g) \<and> ws_hb_timer (gw_sessions g ! i) \<noteq> None then on_expire i now g else g)"
| "gw_step env Deferred g =
     (case gw_deferred g of
        [] \<Rightarrow> g
      | i # is \<Rightarrow> if i < length (gw_sessions g) then restart i (g\<lparr>gw_deferred := is\<rparr>) else g\<lparr>gw_deferred := is\<rparr>)"
| "gw_step env Signal g = (if gw_signalled g then g else on_signal g)"
| "gw_step env Escaped g = on_escape g"
| "gw_step env (MembersRequested guild query users fetched now) g =
     (if users = [] \<and> query = [] \<and> fetched = None \<and> gw_application g = None then g
      else request_members guild query users fetched now g)"
| "gw_step env (MembersRead n now) g =
     (case rgm_entries (gw_rgm g) n of None \<Rightarrow> g | Some e \<Rightarrow> g\<lparr>gw_rgm := rgm_put n (rgm_step (Advance now) e) (gw_rgm g)\<rparr>)"
| "gw_step env (MembersDropped n) g =
     g\<lparr>gw_rgm := (gw_rgm g)\<lparr>rgm_entries := (rgm_entries (gw_rgm g))(n := None)\<rparr>\<rparr>"

definition gw_run :: "gw_env \<Rightarrow> gw_event list \<Rightarrow> gateway" where
  "gw_run env es = fold (gw_step env) es gw_start"

end
