(* ===== verification/Lifecycle.thy ===== *)
theory Lifecycle
  imports Session
begin

text \<open>
  What holds of the connection to the gateway whatever happens on it: there is never more than
  one session that is alive or being set up, as long as no exception escapes, a session that does
  not acknowledge its heartbeats is closed, and how the decompression loop relates to the whole
  output of a message.
\<close>

section \<open>One session at a time\<close>

text \<open>What the invariant looks at; most operations leave it as it is.\<close>

definition shape :: "gateway \<Rightarrow> bool list \<times> nat option \<times> nat \<times> nat \<times> nat \<times> nat \<times> bool" where
  "shape g = (map ws_closing (gw_sessions g), gw_current g, gw_choosing g,
     length (gw_connecting g), gw_opened g, gw_retrying g, gw_terminating g)"

named_theorems shape_keeps "operations that leave the shape of the connection alone"

lemma map_update_same: "f (g (xs ! i)) = f (xs ! i) \<Longrightarrow> map f (xs[i := g (xs ! i)]) = map f xs"
  by (cases "i < length xs") (simp_all add: map_update list_update_same_conv list_update_beyond)

lemma on_session_shape:
  "(\<And>s. ws_closing (f s) = ws_closing s) \<Longrightarrow> shape (on_session i f g) = shape g"
  by (simp add: shape_def on_session_def map_update_same)

lemma shape_fields [shape_keeps]:
  "shape (g\<lparr>gw_rgm := r\<rparr>) = shape g" "shape (g\<lparr>gw_pending := p\<rparr>) = shape g" "shape (g\<lparr>gw_refused := x\<rparr>) = shape g"
  "shape (g\<lparr>gw_application := a\<rparr>) = shape g" "shape (g\<lparr>gw_deferred := d\<rparr>) = shape g" "shape (g\<lparr>gw_events := e\<rparr>) = shape g"
  "shape (g\<lparr>gw_session_id := t\<rparr>) = shape g" "shape (g\<lparr>gw_last_sequence := n\<rparr>) = shape g"
  "shape (g\<lparr>gw_resume_url := u\<rparr>) = shape g" "shape (g\<lparr>gw_cached_url := u\<rparr>) = shape g"
  "shape (g\<lparr>gw_http_terminate := b\<rparr>) = shape g" "shape (g\<lparr>gw_signalled := b\<rparr>) = shape g"
  "shape (g\<lparr>gw_error_started := z\<rparr>) = shape g"
  by (simp_all add: shape_def)

lemma send_shape [shape_keeps]: "shape (send i c g) = shape g"
  by (simp add: send_def on_session_shape)

lemma commands_shape [shape_keeps]:
  "shape (resume env i g) = shape g" "shape (identify env i g) = shape g" "shape (heartbeat i now g) = shape g"
  "shape (arm_timer i d g) = shape g" "shape (forget_session g) = shape g"
  by (simp_all add: resume_def identify_def heartbeat_def arm_timer_def forget_session_def Let_def shape_keeps on_session_shape)

lemma lock_and_send_shape [shape_keeps]: "shape (lock_and_send now p g) = shape g"
  by (auto simp: lock_and_send_def send_request_def Let_def shape_keeps split: option.splits prod.splits)

lemma fold_shape: "shape (fold (lock_and_send now) ps g) = shape g"
  by (induction ps arbitrary: g) (simp_all add: shape_keeps)

lemma rgm_resume_shape [shape_keeps]: "shape (rgm_resume now g) = shape g"
  by (simp add: rgm_resume_def fold_shape shape_keeps)

lemma check_intents_shape: "check_intents fetched g = (r, g') \<Longrightarrow> shape g' = shape g"
  by (auto simp: check_intents_def shape_keeps split: option.splits sum.splits)

lemma request_members_shape [shape_keeps]: "shape (request_members guild query users fetched now g) = shape g"
  by (auto simp: request_members_def Let_def shape_keeps split: prod.splits sum.splits if_splits dest: check_intents_shape)

lemma deliver_shape: "deliver_members what n ev g = (r, g') \<Longrightarrow> shape g' = shape g"
  by (auto simp: deliver_members_def shape_keeps split: sum.splits)

lemma on_ready_shape: "on_ready env now d g = (r, g') \<Longrightarrow> shape g' = shape g"
  by (auto simp: on_ready_def Let_def shape_keeps split: sum.splits)

lemma dispatch_shape: "dispatch env now code d g = (r, g') \<Longrightarrow> shape g' = shape g"
  by (auto simp: dispatch_def on_rate_limited_def shape_keeps split: sum.splits if_splits prod.splits
      dest: deliver_shape on_ready_shape)

lemma read_event_shape: "read_event env now v g = (r, g') \<Longrightarrow> shape g' = shape g"
  by (auto simp: read_event_def Let_def shape_keeps split: sum.splits prod.splits dest: dispatch_shape)

lemma process_event_shape [shape_keeps]: "shape (process_event env i now v g) = shape g"
  by (auto simp: process_event_def shape_keeps split: prod.splits sum.splits option.splits dest: read_event_shape)

text \<open>How many sessions are alive or on their way, and the invariant.\<close>

definition live :: "gateway \<Rightarrow> nat" where
  "live g = length (filter (\<lambda>s. \<not> ws_closing s) (gw_sessions g))"

definition attempts :: "gateway \<Rightarrow> nat" where
  "attempts g = gw_choosing g + length (gw_connecting g) + gw_opened g + gw_retrying g + live g"

definition single_inv :: "gateway \<Rightarrow> bool" where
  "single_inv g \<longleftrightarrow>
     attempts g \<le> 1 \<and> (\<not> gw_terminating g \<longrightarrow> attempts g = 1)
     \<and> (\<forall>i. gw_current g = Some i \<longrightarrow> i < length (gw_sessions g) \<and> \<not> ws_closing (gw_sessions g ! i))
     \<and> (\<forall>i < length (gw_sessions g). \<not> ws_closing (gw_sessions g ! i) \<longrightarrow> gw_current g = Some i)"

lemma live_shape: "live g = length (filter Not (fst (shape g)))"
  by (simp add: live_def shape_def filter_map comp_def)

lemma shape_eqD:
  assumes "shape g = shape h"
  shows "attempts g = attempts h" "gw_current g = gw_current h" "gw_terminating g = gw_terminating h"
    "length (gw_sessions g) = length (gw_sessions h)" "gw_choosing g = gw_choosing h"
    "length (gw_connecting g) = length (gw_connecting h)" "gw_opened g = gw_opened h" "gw_retrying g = gw_retrying h"
proof -
  have "live g = live h" using assms by (simp add: live_shape)
  with assms show "attempts g = attempts h" "gw_current g = gw_current h" "gw_terminating g = gw_terminating h"
    "gw_choosing g = gw_choosing h" "length (gw_connecting g) = length (gw_connecting h)" "gw_opened g = gw_opened h"
    "gw_retrying g = gw_retrying h"
    by (simp_all add: shape_def attempts_def)
  show "length (gw_sessions g) = length (gw_sessions h)" using assms by (auto simp: shape_def dest: map_eq_imp_length_eq)
qed

lemma shape_nth:
  assumes "shape g = shape h" "i < length (gw_sessions g)"
  shows "ws_closing (gw_sessions g ! i) = ws_closing (gw_sessions h ! i)"
proof -
  have "fst (shape g) ! i = ws_closing (gw_sessions g ! i)"
    using assms(2) by (simp add: shape_def)
  moreover have "fst (shape h) ! i = ws_closing (gw_sessions h ! i)"
    using assms(2) shape_eqD(4) [OF assms(1)] by (simp add: shape_def)
  ultimately show ?thesis using assms(1) by simp
qed

lemma single_inv_shape:
  assumes "shape g = shape h"
  shows "single_inv g = single_inv h"
  using shape_eqD [OF assms] shape_nth [OF assms] by (auto simp: single_inv_def)

lemma filter_update:
  assumes "i < length xs" "P (xs ! i)" "\<not> P x"
  shows "Suc (length (filter P (xs[i := x]))) = length (filter P xs)"
proof -
  have "xs = take i xs @ xs ! i # drop (Suc i) xs" using assms(1) by (rule id_take_nth_drop)
  then have "length (filter P xs) = length (filter P (take i xs)) + Suc (length (filter P (drop (Suc i) xs)))"
    using assms(2) by (metis filter.simps(2) filter_append length_Cons length_append)
  moreover have "length (filter P (xs[i := x])) = length (filter P (take i xs)) + length (filter P (drop (Suc i) xs))"
    using assms by (simp add: upd_conv_take_nth_drop)
  ultimately show ?thesis by simp
qed

lemma end_session_live:
  assumes "i < length (gw_sessions g)" "\<not> ws_closing (gw_sessions g ! i)"
  shows "Suc (live (on_session i (\<lambda>s. s\<lparr>ws_closing := True, ws_hb_timer := None\<rparr>) g)) = live g"
  using filter_update [of i "gw_sessions g" "\<lambda>s. \<not> ws_closing s"] assms by (simp add: live_def on_session_def)

lemma end_session_open:
  assumes "\<not> ws_closing (gw_sessions g ! i)"
  shows "gw_sessions (end_session i g) = (gw_sessions g)[i := (gw_sessions g ! i)\<lparr>ws_closing := True, ws_hb_timer := None\<rparr>]"
    "gw_current (end_session i g) = (if gw_current g = Some i then None else gw_current g)"
    "gw_terminating (end_session i g) = gw_terminating g"
    "gw_choosing (end_session i g) = (if gw_terminating g then gw_choosing g else Suc (gw_choosing g))"
    "gw_connecting (end_session i g) = gw_connecting g" "gw_opened (end_session i g) = gw_opened g"
    "gw_retrying (end_session i g) = gw_retrying g"
  using assms by (simp_all add: end_session_def on_session_def run_session_def Let_def)

lemma end_session_attempts:
  assumes "i < length (gw_sessions g)" "\<not> ws_closing (gw_sessions g ! i)"
  shows "(if gw_terminating g then 1 else 0) + attempts (end_session i g) = attempts g"
proof -
  have "Suc (live (end_session i g)) = live g"
    using end_session_live [OF assms] end_session_open(1) [OF assms(2)] by (simp add: live_def on_session_def)
  then show ?thesis by (simp add: attempts_def end_session_open [OF assms(2)])
qed

lemma end_session_single:
  assumes inv: "single_inv g" and i: "i < length (gw_sessions g)"
  shows "single_inv (end_session i g)"
proof (cases "ws_closing (gw_sessions g ! i)")
  case True
  then show ?thesis using inv by (simp add: end_session_def)
next
  case False
  note op = end_session_open [OF False]
  have cur: "j < length (gw_sessions g) \<and> \<not> ws_closing (gw_sessions g ! j)" if "gw_current g = Some j" for j
    using inv that unfolding single_inv_def by blast
  have rd: "gw_current g = Some j" if "j < length (gw_sessions g)" "\<not> ws_closing (gw_sessions g ! j)" for j
    using inv that unfolding single_inv_def by blast
  have "attempts (end_session i g) \<le> 1 \<and> (\<not> gw_terminating (end_session i g) \<longrightarrow> attempts (end_session i g) = 1)"
  proof (cases "gw_terminating g")
    case True
    then show ?thesis using end_session_attempts [OF i False] inv unfolding single_inv_def op(3) by linarith
  next
    case nt: False
    then have "attempts (end_session i g) = attempts g" using end_session_attempts [OF i False] by simp
    then show ?thesis using inv nt by (simp add: single_inv_def op(3))
  qed
  moreover have "\<forall>j. gw_current (end_session i g) = Some j \<longrightarrow>
      j < length (gw_sessions (end_session i g)) \<and> \<not> ws_closing (gw_sessions (end_session i g) ! j)"
  proof (intro allI impI)
    fix j assume "gw_current (end_session i g) = Some j"
    then have "gw_current g = Some j" "j \<noteq> i" by (auto simp: op(2) split: if_splits)
    with cur [of j] show "j < length (gw_sessions (end_session i g)) \<and> \<not> ws_closing (gw_sessions (end_session i g) ! j)"
      by (simp add: op(1))
  qed
  moreover have "\<forall>j < length (gw_sessions (end_session i g)). \<not> ws_closing (gw_sessions (end_session i g) ! j) \<longrightarrow> gw_current (end_session i g) = Some j"
  proof (intro allI impI)
    fix j assume j: "j < length (gw_sessions (end_session i g))"
      "\<not> ws_closing (gw_sessions (end_session i g) ! j)"
    then have "j \<noteq> i" using i by (auto simp: op(1))
    with j have "gw_current g = Some j" by (intro rd) (simp_all add: op(1))
    with \<open>j \<noteq> i\<close> show "gw_current (end_session i g) = Some j" by (simp add: op(2))
  qed
  ultimately show ?thesis unfolding single_inv_def by blast
qed

lemma restart_single: "single_inv g \<Longrightarrow> i < length (gw_sessions g) \<Longrightarrow> single_inv (restart i g)"
proof -
  assume inv: "single_inv g" and i: "i < length (gw_sessions g)"
  let ?h = "if ws_closing (gw_sessions g ! i) then g else on_session i (\<lambda>s. s\<lparr>ws_close_sent := True\<rparr>) g"
  have sh: "shape ?h = shape g" by (simp add: on_session_shape)
  show ?thesis unfolding restart_def
    using single_inv_shape [OF sh] shape_eqD(4) [OF sh] inv i by (intro end_session_single) auto
qed

text \<open>The invariant along the operations; those that keep the shape keep it.\<close>

definition safe :: "nat \<Rightarrow> gateway \<Rightarrow> bool" where
  "safe i g \<longleftrightarrow> single_inv g \<and> i < length (gw_sessions g)"

lemma safe_shape: "shape g = shape h \<Longrightarrow> safe i g = safe i h"
  unfolding safe_def by (simp only: single_inv_shape [of g h] shape_eqD(4) [of g h])

lemma safeI [intro]: "single_inv g \<Longrightarrow> i < length (gw_sessions g) \<Longrightarrow> safe i g"
  by (simp add: safe_def)

lemma safe_end: "safe i g \<Longrightarrow> single_inv (end_session i g)"
  by (simp add: safe_def end_session_single)

lemma safe_restart: "safe i g \<Longrightarrow> single_inv (restart i g)"
  by (simp add: safe_def restart_single)

lemma safe_single: "safe i g \<Longrightarrow> single_inv g"
  by (simp add: safe_def)

lemma end_session_length: "length (gw_sessions (end_session i g)) = length (gw_sessions g)"
  by (simp add: end_session_def on_session_def run_session_def Let_def)

lemma restart_length: "length (gw_sessions (restart i g)) = length (gw_sessions g)"
  by (simp add: restart_def end_session_length on_session_def)

lemma on_session_safe:
  "(\<And>s. ws_closing (f s) = ws_closing s) \<Longrightarrow> safe i g \<Longrightarrow> safe i (on_session j f g)"
  by (simp only: safe_shape [OF on_session_shape])

lemma on_hello_shape: "on_hello env i v g = (r, g') \<Longrightarrow> shape g' = shape g"
  by (auto simp: on_hello_def Let_def shape_keeps on_session_shape split: sum.splits if_splits)

lemma on_heartbeat_request_shape: "shape (on_heartbeat_request i now g) = shape g"
  by (simp add: on_heartbeat_request_def shape_keeps)

lemma on_ack_shape: "shape (on_ack i g) = shape g"
  by (simp add: on_ack_def Let_def shape_keeps on_session_shape)

lemma safe_keep: "safe i g \<Longrightarrow> shape g' = shape g \<Longrightarrow> safe i g'"
  by (simp only: safe_shape [of g' g])

lemma safe_restarted: "safe i g \<Longrightarrow> safe i (restart i g)"
  using safe_restart restart_length by (auto simp: safe_def)

lemma on_invalid_session_safe: "safe i g \<Longrightarrow> on_invalid_session i v g = (r, g') \<Longrightarrow> safe i g'"
  using safe_restarted [of i g] safe_restarted [OF safe_keep, of i g "forget_session g"]
  by (auto simp: on_invalid_session_def shape_keeps split: sum.splits if_splits)

lemma on_message_safe: "safe i g \<Longrightarrow> on_message env i now v g = (r, g') \<Longrightarrow> safe i g'"
  using safe_keep [of i g g']
  by (auto simp: on_message_def shape_keeps on_heartbeat_request_shape on_ack_shape
      split: sum.splits if_splits dest: on_hello_shape on_invalid_session_safe)

lemma on_text_safe: "safe i g \<Longrightarrow> single_inv (on_text env i now json_text g)"
  by (auto simp: on_text_def split: sum.splits prod.splits intro: safe_restart safe_single dest: on_message_safe)

lemma on_complete_safe: "safe i g \<Longrightarrow> single_inv (on_complete env i now msg g)"
  by (auto simp: on_complete_def split: sum.splits intro!: safe_restart on_text_safe on_session_safe)

lemma on_data_safe: "safe i g \<Longrightarrow> single_inv (on_data env i now got g)"
  by (auto simp: on_data_def Let_def intro!: on_complete_safe on_session_safe safe_single [OF on_session_safe])

lemma on_read_single: "safe i g \<Longrightarrow> (\<And>code. r \<noteq> Closed code) \<Longrightarrow> single_inv (on_read env i now r g)"
  by (auto simp: on_read_def on_close_def intro: safe_end safe_restart on_data_safe safe_single split: read_result.splits)

text \<open>The invariant only looks at the sessions, the current one, the attempts and whether the connection terminates.\<close>

lemma single_inv_same:
  assumes "single_inv g" "gw_sessions h = gw_sessions g" "gw_current h = gw_current g" "attempts h = attempts g"
    "gw_terminating g \<longrightarrow> gw_terminating h"
  shows "single_inv h"
  using assms(1,5) unfolding single_inv_def assms(2-4) by blast

lemma single_inv_fewer:
  assumes "single_inv g" "gw_sessions h = gw_sessions g" "gw_current h = gw_current g" "attempts h \<le> attempts g" "gw_terminating h"
  shows "single_inv h"
proof -
  have "attempts h \<le> 1" using assms(1,4) by (simp add: single_inv_def)
  with assms(1,5) show ?thesis unfolding single_inv_def assms(2,3) by blast
qed

lemma single_inv_terminating: "single_inv g \<Longrightarrow> single_inv (g\<lparr>gw_terminating := True\<rparr>)"
  by (erule single_inv_same) (simp_all add: attempts_def live_def)

lemma on_closed_single: "safe i g \<Longrightarrow> single_inv (on_closed i code g)"
proof -
  assume g: "safe i g"
  have "safe i (forget_session g)" using g by (rule safe_keep) (simp add: shape_keeps)
  moreover have "safe i (g\<lparr>gw_http_terminate := True\<rparr>)" using g by (rule safe_keep) (simp add: shape_keeps)
  then have "safe i (g\<lparr>gw_http_terminate := True, gw_terminating := True\<rparr>)" by (auto simp: safe_def intro: single_inv_terminating)
  ultimately show ?thesis using g by (simp add: on_closed_def on_close_def safe_end)
qed

lemma read_single: "safe i g \<Longrightarrow> single_inv (on_read env i now r g)"
proof (cases "\<exists>code. r = Closed code")
  case True
  assume "safe i g"
  with True show ?thesis by (auto simp: on_read_def intro: on_closed_single)
qed (rule on_read_single, auto)

lemma first_read_safe:
  assumes "single_inv g" "gw_opened g > 0"
  shows "safe (length (gw_sessions g)) (first_read g)"
proof -
  have "attempts g \<le> 1" using assms(1) by (simp add: single_inv_def)
  then have none: "live g = 0" and one: "attempts g = 1" using assms(2) by (auto simp: attempts_def)
  have closed: "ws_closing (gw_sessions g ! i)" if "i < length (gw_sessions g)" for i
    using none that by (auto simp: live_def filter_empty_conv)
  have "attempts (first_read g) = attempts g"
    using assms(2) by (simp add: attempts_def live_def first_read_def new_session_def)
  then have "attempts (first_read g) = 1" using one by simp
  moreover have "gw_current (first_read g) = Some (length (gw_sessions g))"
    "gw_sessions (first_read g) = gw_sessions g @ [new_session]" by (simp_all add: first_read_def)
  ultimately have "single_inv (first_read g)"
    using closed unfolding single_inv_def by (auto simp: nth_append new_session_def less_Suc_eq)
  then show ?thesis by (simp add: safe_def first_read_def)
qed

lemma retry_single:
  assumes "single_inv h" "gw_sessions g = gw_sessions h" "gw_current g = gw_current h" "gw_terminating g = gw_terminating h"
    "Suc (attempts g) = attempts h"
  shows "single_inv (retry now g)"
proof -
  have "gw_sessions (retry now g) = gw_sessions g" "gw_current (retry now g) = gw_current g"
    "gw_terminating (retry now g) = gw_terminating g" "attempts (retry now g) = Suc (attempts g)"
    by (auto simp: retry_def Let_def attempts_def live_def split: option.splits)
  with assms show ?thesis by (intro single_inv_same [OF assms(1)]) simp_all
qed

lemma run_session_chosen_single:
  assumes "single_inv g" "gw_choosing g > 0"
  shows "single_inv (run_session_chosen env answer now g)"
proof -
  obtain r g1 where c: "choose_url env answer (g\<lparr>gw_choosing := gw_choosing g - 1\<rparr>) = (r, g1)" by fastforce
  then have same: "gw_sessions g1 = gw_sessions g" "gw_current g1 = gw_current g" "gw_terminating g1 = gw_terminating g"
    "Suc (attempts g1) = attempts g"
    using assms(2) by (auto simp: choose_url_def attempts_def live_def split: if_splits sum.splits)
  have "single_inv (g1\<lparr>gw_connecting := gw_connecting g1 @ [u]\<rparr>)" for u
    by (rule single_inv_same [OF assms(1)]) (use same in \<open>simp_all add: attempts_def live_def\<close>)
  with retry_single [OF assms(1) same] show ?thesis
    unfolding run_session_chosen_def c by (auto split: sum.splits)
qed

text \<open>Exceptions that leave the event loop are left out; see below for what they do.\<close>

lemma on_write_single: "safe i g \<Longrightarrow> single_inv (on_write i r g)"
  by (simp add: on_write_def Let_def safe_restart safe_single [OF on_session_safe] safe_single)

lemma on_expire_single: "safe i g \<Longrightarrow> single_inv (on_expire i now g)"
proof -
  assume g: "safe i g"
  then have "safe i (arm_timer i d (heartbeat i now g))" for d by (rule safe_keep) (simp add: shape_keeps)
  then have "single_inv (arm_timer i d (heartbeat i now g))" for d by (rule safe_single)
  with g show ?thesis by (simp add: on_expire_def Let_def safe_restart safe_single)
qed

lemma retry_elapsed_single:
  assumes "single_inv g" "gw_retrying g > 0"
  shows "single_inv (retry_elapsed g)"
proof (cases "gw_terminating g")
  case True
  then show ?thesis
    by (intro single_inv_fewer [OF assms(1)]) (simp_all add: retry_elapsed_def attempts_def live_def Let_def)
next
  case False
  then have "retry_elapsed g = g\<lparr>gw_retrying := gw_retrying g - 1, gw_choosing := Suc (gw_choosing g)\<rparr>"
    by (simp add: retry_elapsed_def run_session_def Let_def)
  then show ?thesis using assms(2) by (auto simp: attempts_def live_def intro!: single_inv_same [OF assms(1)])
qed

lemma on_signal_single:
  assumes "single_inv g"
  shows "single_inv (on_signal g)"
proof -
  let ?h = "g\<lparr>gw_signalled := True, gw_terminating := True\<rparr>"
  have h: "single_inv ?h" by (rule single_inv_same [OF assms]) (simp_all add: attempts_def live_def)
  have "single_inv (restart i ?h)" if "gw_current g = Some i" for i
  proof -
    have "i < length (gw_sessions g)" using assms that unfolding single_inv_def by blast
    with h show ?thesis by (simp add: restart_single)
  qed
  with h have "single_inv (case gw_current ?h of None \<Rightarrow> ?h | Some i \<Rightarrow> restart i ?h)" by (simp split: option.split)
  then show ?thesis unfolding on_signal_def Let_def by (subst single_inv_shape [OF shape_fields(11)])
qed

lemma gw_step_single:
  assumes "single_inv g" "e \<noteq> Escaped"
  shows "single_inv (gw_step env e g)"
proof (cases e)
  case (AddressChosen answer now)
  then show ?thesis using assms(1) run_session_chosen_single by simp
next
  case Connected
  then show ?thesis using assms(1)
    by (auto simp: session_connected_def attempts_def live_def neq_Nil_conv intro!: single_inv_same [OF assms(1)])
next
  case (ConnectFailed now)
  then show ?thesis using assms(1)
    by (auto simp: session_failed_def attempts_def live_def neq_Nil_conv intro!: retry_single [OF assms(1)])
next
  case Deferred
  have "safe i (g\<lparr>gw_deferred := is\<rparr>)" if "i < length (gw_sessions g)" for i "is"
    by (rule safe_keep [OF safeI [OF assms(1) that]]) (simp add: shape_keeps)
  then show ?thesis using Deferred assms(1)
    by (simp add: single_inv_shape [OF shape_fields(5)] safe_restart split: list.split)
next
  case (MembersRequested guild query users fetched now)
  then show ?thesis using assms(1) by (simp add: single_inv_shape [OF request_members_shape])
next
  case (MembersRead n now)
  then show ?thesis using assms(1) by (simp add: single_inv_shape [OF shape_fields(1)] split: option.split)
next
  case (MembersDropped n)
  then show ?thesis using assms(1) by (simp add: single_inv_shape [OF shape_fields(1)])
qed (use assms read_single [OF first_read_safe] read_single [OF safeI] on_write_single [OF safeI]
      on_expire_single [OF safeI] retry_elapsed_single on_signal_single in simp_all)

lemma gw_run_single: "Escaped \<notin> set es \<Longrightarrow> single_inv (gw_run env es)"
proof -
  have "single_inv g \<Longrightarrow> Escaped \<notin> set es \<Longrightarrow> single_inv (fold (gw_step env) es g)" for g
  proof (induction es arbitrary: g)
    case (Cons e es)
    then show ?case using gw_step_single [of g e env] by auto
  qed simp
  moreover have "single_inv gw_start" by (simp add: single_inv_def attempts_def live_def gw_start_def)
  ultimately show "Escaped \<notin> set es \<Longrightarrow> single_inv (gw_run env es)" by (simp add: gw_run_def)
qed

section \<open>Heartbeats\<close>

text \<open>A session that has ended, or whose last heartbeat was not acknowledged and whose timer runs.\<close>

definition silent :: "wsession \<Rightarrow> bool" where
  "silent s \<longleftrightarrow> ws_closing s \<or> \<not> ws_hb_ack s \<and> ws_hb_timer s \<noteq> None"

definition silent_at :: "nat \<Rightarrow> gateway \<Rightarrow> bool" where
  "silent_at i g \<longleftrightarrow> i < length (gw_sessions g) \<and> silent (gw_sessions g ! i)"

named_theorems quiet "operations that leave a silent session silent"

lemma silent_at_sessions: "gw_sessions g = gw_sessions h \<Longrightarrow> silent_at i g = silent_at i h"
  by (simp add: silent_at_def)

lemma silent_on_session [quiet]:
  "silent_at i g \<Longrightarrow> (\<And>s. silent s \<Longrightarrow> silent (f s)) \<Longrightarrow> silent_at i (on_session j f g)"
  by (cases "i = j") (simp_all add: silent_at_def on_session_def)

lemma silent_other: "silent_at i g \<Longrightarrow> i \<noteq> j \<Longrightarrow> silent_at i (on_session j f g)"
  by (simp add: silent_at_def on_session_def)

lemma silent_fields [quiet]:
  "silent_at i g \<Longrightarrow> silent_at i (g\<lparr>gw_rgm := r\<rparr>)" "silent_at i g \<Longrightarrow> silent_at i (g\<lparr>gw_pending := p\<rparr>)"
  "silent_at i g \<Longrightarrow> silent_at i (g\<lparr>gw_refused := x\<rparr>)" "silent_at i g \<Longrightarrow> silent_at i (g\<lparr>gw_application := a\<rparr>)"
  "silent_at i g \<Longrightarrow> silent_at i (g\<lparr>gw_deferred := d\<rparr>)" "silent_at i g \<Longrightarrow> silent_at i (g\<lparr>gw_events := e\<rparr>)"
  "silent_at i g \<Longrightarrow> silent_at i (g\<lparr>gw_session_id := t\<rparr>)" "silent_at i g \<Longrightarrow> silent_at i (g\<lparr>gw_last_sequence := n\<rparr>)"
  "silent_at i g \<Longrightarrow> silent_at i (g\<lparr>gw_resume_url := t\<rparr>)" "silent_at i g \<Longrightarrow> silent_at i (g\<lparr>gw_http_terminate := b\<rparr>)"
  "silent_at i g \<Longrightarrow> silent_at i (g\<lparr>gw_terminating := b\<rparr>)" "silent_at i g \<Longrightarrow> silent_at i (g\<lparr>gw_choosing := n'\<rparr>)"
  "silent_at i g \<Longrightarrow> silent_at i (g\<lparr>gw_current := c\<rparr>)" "silent_at i g \<Longrightarrow> silent_at i (g\<lparr>gw_signalled := b\<rparr>)"
  by (simp_all add: silent_at_def)

lemma silent_first_read [quiet]: "silent_at i g \<Longrightarrow> silent_at i (first_read g)"
  by (simp add: silent_at_def first_read_def nth_append)

lemma silent_run_session [quiet]: "silent_at i g \<Longrightarrow> silent_at i (run_session g)"
  by (simp add: silent_at_def run_session_def)

lemma silent_end_session [quiet]: "silent_at i g \<Longrightarrow> silent_at i (end_session j g)"
  by (auto simp: end_session_def Let_def intro!: quiet) (simp_all add: silent_def)

lemma silent_restart [quiet]: "silent_at i g \<Longrightarrow> silent_at i (restart j g)"
  by (auto simp: restart_def intro!: quiet) (simp_all add: silent_def)

lemma silent_send [quiet]: "silent_at i g \<Longrightarrow> silent_at i (send j c g)"
  by (auto simp: send_def intro!: silent_on_session) (simp_all add: silent_def)

lemma silent_commands [quiet]:
  "silent_at i g \<Longrightarrow> silent_at i (resume env j g)" "silent_at i g \<Longrightarrow> silent_at i (identify env j g)"
  "silent_at i g \<Longrightarrow> silent_at i (heartbeat j now g)" "silent_at i g \<Longrightarrow> silent_at i (arm_timer j d g)"
  "silent_at i g \<Longrightarrow> silent_at i (forget_session g)"
proof -
  assume g: "silent_at i g"
  have "silent_at i (on_session j (\<lambda>s. s\<lparr>ws_hb_ack := False\<rparr>) g)" using g by (rule silent_on_session) (auto simp: silent_def)
  then show "silent_at i (heartbeat j now g)" by (simp add: heartbeat_def Let_def quiet)
  show "silent_at i (arm_timer j d g)" unfolding arm_timer_def using g by (rule silent_on_session) (auto simp: silent_def)
  show "silent_at i (resume env j g)" "silent_at i (identify env j g)" "silent_at i (forget_session g)"
    using g by (simp_all add: resume_def identify_def forget_session_def Let_def quiet)
qed

lemma silent_requests [quiet]:
  assumes "silent_at i g"
  shows "silent_at i (lock_and_send now p g)" "silent_at i (rgm_resume now g)"
proof -
  have one: "silent_at i (lock_and_send now p g)" if "silent_at i g" for g p
    using that by (auto simp: lock_and_send_def send_request_def Let_def quiet split: option.splits prod.splits)
  have "silent_at i (fold (lock_and_send now) ps g)" if "silent_at i g" for ps g
    using that by (induction ps arbitrary: g) (simp_all add: one)
  then show "silent_at i (rgm_resume now g)" using assms by (simp add: rgm_resume_def quiet)
  show "silent_at i (lock_and_send now p g)" using assms by (rule one)
qed

lemma silent_request_members [quiet]:
  assumes "silent_at i g"
  shows "silent_at i (request_members guild query users fetched now g)"
proof -
  have "silent_at i g'" if "check_intents fetched g = (r, g')" for r g'
    using that assms by (auto simp: check_intents_def quiet split: option.splits sum.splits)
  with assms show ?thesis by (auto simp: request_members_def Let_def quiet split: prod.splits sum.splits if_splits)
qed

lemma silent_deliver: "silent_at i g \<Longrightarrow> deliver_members what n ev g = (r, g') \<Longrightarrow> silent_at i g'"
  by (auto simp: deliver_members_def quiet split: sum.splits)

lemma silent_on_ready: "silent_at i g \<Longrightarrow> on_ready env now d g = (r, g') \<Longrightarrow> silent_at i g'"
  by (auto simp: on_ready_def Let_def quiet split: sum.splits)

lemma silent_dispatch: "silent_at i g \<Longrightarrow> dispatch env now code d g = (r, g') \<Longrightarrow> silent_at i g'"
  by (auto simp: dispatch_def on_rate_limited_def quiet split: sum.splits if_splits prod.splits
      dest: silent_deliver silent_on_ready)

lemma silent_read_event: "silent_at i g \<Longrightarrow> read_event env now v g = (r, g') \<Longrightarrow> silent_at i g'"
  by (auto simp: read_event_def Let_def quiet split: sum.splits prod.splits dest: silent_dispatch [OF silent_fields(8)])

lemma silent_process_event [quiet]: "silent_at i g \<Longrightarrow> silent_at i (process_event env j now v g)"
  by (auto simp: process_event_def quiet split: prod.splits sum.splits option.splits dest: silent_read_event)

lemma silent_on_message: "silent_at i g \<Longrightarrow> i \<noteq> j \<Longrightarrow> on_message env j now v g = (r, g') \<Longrightarrow> silent_at i g'"
  by (auto simp: on_message_def on_hello_def on_invalid_session_def on_heartbeat_request_def on_ack_def Let_def quiet silent_other
      split: sum.splits if_splits)

lemma silent_on_text: "silent_at i g \<Longrightarrow> i \<noteq> j \<Longrightarrow> silent_at i (on_text env j now t g)"
  by (auto simp: on_text_def quiet split: sum.splits prod.splits dest: silent_on_message [rotated 2])

lemma silent_on_data: "silent_at i g \<Longrightarrow> i \<noteq> j \<Longrightarrow> silent_at i (on_data env j now got g)"
  by (auto simp: on_data_def on_complete_def Let_def quiet silent_other intro!: silent_on_text split: sum.splits)

lemma silent_on_read: "silent_at i g \<Longrightarrow> i \<noteq> j \<or> (\<forall>got. r \<noteq> Data got) \<Longrightarrow> silent_at i (on_read env j now r g)"
  by (auto simp: on_read_def on_closed_def on_close_def quiet silent_on_data split: read_result.splits)

lemma silent_retry [quiet]: "silent_at i g \<Longrightarrow> silent_at i (retry now g)"
  by (auto simp: retry_def silent_at_def Let_def split: option.splits)

lemma silent_run_session_chosen [quiet]:
  assumes "silent_at i g"
  shows "silent_at i (run_session_chosen env answer now g)"
proof -
  obtain r g1 where c: "choose_url env answer (g\<lparr>gw_choosing := gw_choosing g - 1\<rparr>) = (r, g1)" by fastforce
  then have g1: "gw_sessions g1 = gw_sessions g" by (auto simp: choose_url_def split: if_splits sum.splits)
  then have "silent_at i g1" using assms by (simp add: silent_at_def)
  then have "silent_at i (retry now g1)" "silent_at i (g1\<lparr>gw_connecting := us\<rparr>)" for us
    using silent_retry by (simp_all add: silent_at_def)
  then show ?thesis unfolding run_session_chosen_def c by (auto split: sum.splits)
qed

text \<open>Without data from the session nothing acknowledges its heartbeat.\<close>

definition data_from :: "nat \<Rightarrow> gw_event \<Rightarrow> bool" where
  "data_from i e \<longleftrightarrow> (\<exists>now got. e = Read i now (Data got))"

lemma silent_step:
  assumes "silent_at i g" "\<not> data_from i e"
  shows "silent_at i (gw_step env e g)"
proof (cases e)
  case Connected
  then show ?thesis using assms(1) by (simp add: session_connected_def silent_at_def)
next
  case (ConnectFailed now)
  then show ?thesis using assms(1) silent_retry [of i "g\<lparr>gw_connecting := tl (gw_connecting g)\<rparr>"]
    by (simp add: session_failed_def silent_at_def)
next
  case RetryElapsed
  then show ?thesis using assms(1) by (simp add: retry_elapsed_def run_session_def silent_at_def Let_def)
next
  case (FirstRead now r)
  have "i \<noteq> length (gw_sessions g)" using assms(1) by (simp add: silent_at_def)
  then show ?thesis using FirstRead assms(1) by (simp add: silent_on_read quiet)
next
  case (Read j now r)
  have "i \<noteq> j \<or> (\<forall>got. r \<noteq> Data got)" using assms(2) Read by (auto simp: data_from_def)
  then show ?thesis using Read assms(1) by (simp add: silent_on_read)
next
  case (Wrote j r)
  then show ?thesis using assms(1)
    by (auto simp: on_write_def Let_def quiet intro!: silent_on_session) (simp_all add: silent_def)
next
  case (Expired j now)
  then show ?thesis using assms(1) by (simp add: on_expire_def Let_def quiet)
qed (use assms(1) in \<open>auto simp: on_signal_def on_escape_def Let_def quiet split: list.split option.split\<close>)

lemma silent_run: "silent_at i g \<Longrightarrow> (\<forall>e \<in> set es. \<not> data_from i e) \<Longrightarrow> silent_at i (fold (gw_step env) es g)"
  by (induction es arbitrary: g) (simp_all add: silent_step)

lemma expired_silent: "silent_at i g \<Longrightarrow> ws_closing (gw_sessions (gw_step env (Expired i now) g) ! i)"
  by (auto simp: silent_at_def silent_def on_expire_def restart_def end_session_def on_session_def run_session_def Let_def)

lemma expired_silences:
  "i < length (gw_sessions g) \<Longrightarrow> ws_hb_timer (gw_sessions g ! i) \<noteq> None \<Longrightarrow> silent_at i (gw_step env (Expired i now) g)"
  by (auto simp: silent_at_def silent_def on_expire_def restart_def end_session_def on_session_def run_session_def
      heartbeat_def send_def arm_timer_def Let_def)

section \<open>The decompression loop\<close>

lemma inflate_loop_later:
  "0 < length s \<Longrightarrow> inflate_loop first s = (if 4096 dvd length s then Inl zlib_buffer_error else Inr s)"
proof (induction first s rule: inflate_loop.induct)
  case (1 first s)
  show ?case
  proof (cases "length s < 4096")
    case True
    moreover have "\<not> 4096 dvd length s" using True "1.prems" by (auto dest: nat_dvd_not_less)
    ultimately show ?thesis using "1.prems" by (subst inflate_loop.simps) auto
  next
    case long: False
    have dvd: "4096 dvd length s \<longleftrightarrow> 4096 dvd length (drop 4096 s)" using long by (simp add: dvd_minus_self)
    have unfold: "inflate_loop first s = bindS (inflate_loop False (drop 4096 s)) (\<lambda>rest. Inr (take 4096 s @ rest))"
      using long "1.prems" by (subst inflate_loop.simps) auto
    show ?thesis
    proof (cases "drop 4096 s = []")
      case True
      then have "length s = 4096" using long by simp
      moreover have "inflate_loop False [] = Inl zlib_buffer_error" by (subst inflate_loop.simps) simp
      ultimately show ?thesis by (simp add: unfold True)
    next
      case False
      then have "0 < length (drop 4096 s)" by auto
      then have "inflate_loop False (drop 4096 s) = (if 4096 dvd length (drop 4096 s) then Inl zlib_buffer_error else Inr (drop 4096 s))"
        using "1.IH" long "1.prems" by auto
      then show ?thesis by (simp add: unfold dvd)
    qed
  qed
qed

section \<open>Properties\<close>

text \<open>
  C5: as long as no exception escapes the event loop, there is exactly one session alive or on
  its way until the connection is to terminate, and never more than one; the session that is
  alive is the one that the current pointer leads to. So no event is handled by two sessions.
\<close>

theorem single_session:
  assumes "Escaped \<notin> set es"
  shows "let g = gw_run env es in
     attempts g \<le> 1 \<and> (\<not> gw_terminating g \<longrightarrow> attempts g = 1)
     \<and> (\<forall>i < length (gw_sessions g). \<not> ws_closing (gw_sessions g ! i) \<longleftrightarrow> gw_current g = Some i)"
  using gw_run_single [OF assms, of env] unfolding single_inv_def Let_def by blast

definition example_env :: gw_env where
  "example_env =
     \<lparr>env_parse = (\<lambda>_. Inr JNull), env_inflate = (\<lambda>_ s. Inr s), env_crc = (\<lambda>_. 0), env_url = Inr, env_wss = (\<lambda>_. True),
      env_random = (\<lambda>ms. ms), env_token = ''token'', env_intents = 0, env_os = ''Linux''\<rparr>"

definition example_url :: "exn + json" where
  "example_url = Inr (JObj [(''url'', JStr ''wss://gateway'')])"

definition example_gateway :: gateway where
  "example_gateway = gw_run example_env [AddressChosen example_url 0, Connected, FirstRead 0 (Data [])]"

lemma example_gateway:
  "length (gw_sessions example_gateway) = 1" "ws_closing (gw_sessions example_gateway ! 0) = False"
  "gw_current example_gateway = Some 0" "gw_terminating example_gateway = False" "ws_queue (gw_sessions example_gateway ! 0) = []"
  by (simp_all add: example_gateway_def gw_run_def gw_start_def run_session_chosen_def choose_url_def example_env_def
      example_url_def session_connected_def first_read_def on_read_def on_data_def on_session_def flushed_def new_session_def
      val_at_def obj_at_def Let_def)

theorem single_session_witness: "attempts example_gateway = 1"
  using single_session [of "[AddressChosen example_url 0, Connected, FirstRead 0 (Data [])]" example_env] example_gateway(4)
  by (simp add: Let_def flip: example_gateway_def)

text \<open>
  C21: a session whose heartbeat timer expires twice without any data from it in between is
  closed at the second time at the latest, whatever else happens on the connection.
\<close>

theorem unanswered_heartbeat_closes:
  assumes "i < length (gw_sessions g)" and "ws_hb_timer (gw_sessions g ! i) \<noteq> None"
    and "\<forall>e \<in> set es. \<not> data_from i e"
  shows "ws_closing (gw_sessions (fold (gw_step env) (Expired i now # es @ [Expired i now']) g) ! i)"
  using expired_silent [OF silent_run [OF expired_silences [OF assms(1,2)] assms(3)]] by simp

theorem unanswered_heartbeat_closes_witness:
  "ws_closing (gw_sessions (fold (gw_step example_env) [Expired 0 1, Signal, Expired 0 2] (arm_timer 0 41250 example_gateway)) ! 0)"
proof -
  let ?g = "arm_timer 0 41250 example_gateway"
  have "0 < length (gw_sessions ?g)" "ws_hb_timer (gw_sessions ?g ! 0) \<noteq> None" "\<forall>e \<in> set [Signal]. \<not> data_from 0 e"
    using example_gateway(1) by (simp_all add: arm_timer_def on_session_def data_from_def)
  from unanswered_heartbeat_closes [OF this, of example_env 1 2] show ?thesis by simp
qed

text \<open>
  C32: the loop that decompresses a message in pieces of 4096 bytes returns the whole output,
  except when the output is not empty and its length is a multiple of 4096: then it fails
  although nothing is wrong with the message, and the session is restarted.
\<close>

theorem inflate_loop_equivalent:
  "inflate_loop True output = (if output \<noteq> [] \<and> 4096 dvd length output then Inl zlib_buffer_error else Inr output)"
proof (cases "output = []")
  case True
  then show ?thesis by (subst inflate_loop.simps) simp
next
  case False
  then show ?thesis by (simp add: inflate_loop_later)
qed

text \<open>
  The first message of a session. On HELLO a session identifies itself when there is no
  session to resume, and otherwise resumes it from the last event received; its heartbeats are
  then due, the first after a random part of the interval.
\<close>

theorem hello_answered:
  assumes "i < length (gw_sessions g)" and "- (2 ^ 63) \<le> ms" and "ms < 2 ^ 63"
  shows "case on_message env i now (JObj [(''op'', JInt 10), (''d'', JObj [(''heartbeat_interval'', JInt ms)])]) g of (r, g') \<Rightarrow>
     r = Inr () \<and> ws_queue (gw_sessions g' ! i) = ws_queue (gw_sessions g ! i) @
       [if gw_session_id g = [] then Identify (env_token env) (env_intents env) (env_os env)
        else Resume (env_token env) (gw_session_id g) (gw_last_sequence g)]
     \<and> ws_hb_timer (gw_sessions g' ! i) = Some (env_random env ms) \<and> ws_hb_ack (gw_sessions g' ! i)
     \<and> (\<forall>j < length (gw_sessions g). j \<noteq> i \<longrightarrow> gw_sessions g' ! j = gw_sessions g ! j)"
  using assms
  by (simp add: on_message_def on_hello_def val_at_def obj_at_def to_i32_def to_i64_def arm_timer_def identify_def resume_def
      send_def on_session_def Let_def)

theorem hello_answered_witness:
  "ws_queue (gw_sessions (snd (on_message example_env 0 0
     (JObj [(''op'', JInt 10), (''d'', JObj [(''heartbeat_interval'', JInt 41250)])]) (example_gateway\<lparr>gw_session_id := ''abc'', gw_last_sequence := 5\<rparr>))) ! 0)
   = [Resume ''token'' ''abc'' 5]"
  using hello_answered [of 0 "example_gateway\<lparr>gw_session_id := ''abc'', gw_last_sequence := 5\<rparr>" 41250 example_env 0] example_gateway
  by (simp add: case_prod_unfold example_env_def)

text \<open>
  C37: a signal that arrives while a session is being connected does not end the program. The
  session comes alive although the connection is to terminate, and later signals are ignored.
\<close>

theorem signal_while_connecting:
  assumes "\<not> gw_signalled g" and "gw_current g = None" and "gw_connecting g \<noteq> []" and "gw_opened g = 0"
  shows "let g' = fold (gw_step env) [Signal, Connected, FirstRead now (Data [])] g in
     gw_terminating g' \<and> gw_current g' = Some (length (gw_sessions g))
     \<and> \<not> ws_closing (gw_sessions g' ! length (gw_sessions g)) \<and> gw_step env Signal g' = g'"
  using assms
  by (simp add: on_signal_def session_connected_def first_read_def on_read_def on_data_def on_session_def flushed_def
      new_session_def nth_append Let_def)

theorem signal_while_connecting_witness:
  "live (gw_run example_env [AddressChosen example_url 0, Signal, Connected, FirstRead 0 (Data [])]) = 1"
proof -
  let ?g = "gw_run example_env [AddressChosen example_url 0]"
  have "\<not> gw_signalled ?g" "gw_current ?g = None" "gw_connecting ?g \<noteq> []" "gw_opened ?g = 0" "gw_sessions ?g = []"
    by (simp_all add: gw_run_def gw_start_def run_session_chosen_def choose_url_def example_env_def example_url_def
        val_at_def obj_at_def)
  with signal_while_connecting [of ?g example_env 0] show ?thesis
    by (simp add: gw_run_def live_def on_signal_def session_connected_def first_read_def on_read_def on_data_def
      on_session_def flushed_def new_session_def Let_def)
qed

text \<open>
  C38: an exception that escapes the event loop while a session is being set up starts another
  one beside it, so that there are two.
\<close>

theorem escape_starts_second_session:
  "attempts (gw_run env [AddressChosen answer now, Escaped]) = 2
   \<and> live (gw_run example_env [AddressChosen example_url 0, Escaped, AddressChosen example_url 0, Connected, Connected,
       FirstRead 0 (Data []), FirstRead 0 (Data [])]) = 2"
proof
  let ?g = "gw_step env (AddressChosen answer now) gw_start"
  have "gw_current ?g = None" "attempts ?g = 1"
    by (auto simp: gw_start_def run_session_chosen_def choose_url_def retry_def attempts_def live_def Let_def
        split: sum.splits prod.splits)
  then show "attempts (gw_run env [AddressChosen answer now, Escaped]) = 2"
    by (simp add: gw_run_def on_escape_def run_session_def attempts_def live_def)
qed (simp add: gw_run_def gw_start_def run_session_chosen_def choose_url_def example_env_def example_url_def on_escape_def
      run_session_def session_connected_def first_read_def on_read_def on_data_def on_session_def flushed_def new_session_def
      val_at_def obj_at_def live_def Let_def nth_append)

end
