(* ===== verification/Generators.thy ===== *)
theory Generators
  imports World
begin

text \<open>
  Generators as coroutines (Discord/Coroutines/AsyncGenerator.h, Generator.h): how the loop over an
  asynchronous generator runs its body, step by step, and that this is what \<open>co_for\<close> of World
  says in one go; what happens when the generator and its caller run on different threads; and
  the generators that only yield.
\<close>

section \<open>Asynchronous generators\<close>

text \<open>
  The body of a generator is what it does from one suspension to the next: it yields a value or
  awaits something, and in the end it returns or throws. The promise holds the value that was
  yielded last, unless something was awaited since, the exception, and whether a caller is
  registered; \<open>ag_done\<close> is the final suspension.
\<close>

datatype 'a act = Yields 'a | Awaits

record 'a agen =
  ag_body :: "'a act list"
  ag_end :: "exn option"
  ag_value :: "'a option"
  ag_except :: "exn option"
  ag_caller :: bool
  ag_done :: bool

text \<open>A coroutine that was called is suspended at its start.\<close>

definition agen_start :: "'a act list \<Rightarrow> exn option \<Rightarrow> 'a agen" where
  "agen_start b e = \<lparr>ag_body = b, ag_end = e, ag_value = None, ag_except = None, ag_caller = False, ag_done = False\<rparr>"

text \<open>
  From one suspension to the next. \<open>await_transform\<close> clears the value, \<open>yield_value\<close> sets it, and
  \<open>final_suspend\<close> clears it. The result tells whether control goes to the registered caller.
\<close>

definition agen_resume :: "'a agen \<Rightarrow> bool \<times> 'a agen" where
  "agen_resume g =
     (case ag_body g of
        [] \<Rightarrow> (ag_caller g, g\<lparr>ag_value := None, ag_except := ag_end g, ag_done := True, ag_caller := False\<rparr>)
      | Yields x # b \<Rightarrow> (ag_caller g, g\<lparr>ag_value := Some x, ag_body := b, ag_caller := False\<rparr>)
      | Awaits # b \<Rightarrow> (False, g\<lparr>ag_value := None, ag_body := b\<rparr>))"

text \<open>\<open>await_ready\<close> after the generator was resumed, and \<open>await_suspend\<close>.\<close>

definition agen_ready :: "'a agen \<Rightarrow> bool" where
  "agen_ready g \<longleftrightarrow> ag_done g \<or> ag_value g \<noteq> None"

definition agen_wait :: "'a agen \<Rightarrow> 'a agen" where
  "agen_wait g = g\<lparr>ag_caller := True\<rparr>"

text \<open>
  What the generator awaits completes until control comes back to the caller.
\<close>

function agen_complete :: "'a agen \<Rightarrow> 'a agen" where
  "agen_complete g =
     (case agen_resume g of
        (True, g') \<Rightarrow> g'
      | (False, g') \<Rightarrow> if ag_body g = [] then g' else agen_complete g')"
  by pat_completeness auto
termination
  by (relation "measure (\<lambda>g. length (ag_body g))") (auto simp: agen_resume_def split: list.splits act.splits)

declare agen_complete.simps [simp del]

text \<open>\<open>co_await\<close> on an iterator; the iterator of a generator that is done owns no coroutine.\<close>

type_synonym 'a iter = "'a agen option"

definition iter_await :: "'a iter \<Rightarrow> exn + 'a iter" where
  "iter_await it =
     (case it of
        None \<Rightarrow> Inr None
      | Some g \<Rightarrow>
          let g1 = snd (agen_resume g);
              g2 = (if agen_ready g1 then g1 else agen_complete (agen_wait g1))
          in if ag_done g2 then (case ag_except g2 of Some e \<Rightarrow> Inl e | None \<Rightarrow> Inr None) else Inr (Some g2))"

definition agen_begin :: "'a agen \<Rightarrow> exn + 'a iter" where
  "agen_begin g = iter_await (Some g)"

text \<open>\<open>operator*\<close> of an iterator without a coroutine throws.\<close>

definition iter_deref :: "'a iter \<Rightarrow> exn + 'a" where
  "iter_deref it =
     (case it of
        None \<Rightarrow> Inl (xRuntimeError ''The asynchronous generator is empty'')
      | Some g \<Rightarrow> (case ag_value g of None \<Rightarrow> Inl xNullPtrError | Some x \<Rightarrow> Inr x))"

definition iter_end :: "'a iter \<Rightarrow> bool" where
  "iter_end it \<longleftrightarrow> (case it of None \<Rightarrow> True | Some g \<Rightarrow> ag_done g)"

fun iter_left :: "'a iter \<Rightarrow> nat" where
  "iter_left None = 0"
| "iter_left (Some g) = Suc (length (ag_body g))"

section \<open>The loop over a generator\<close>

text \<open>The values that a body yields.\<close>

fun yields :: "'a act list \<Rightarrow> 'a list" where
  "yields [] = []"
| "yields (Yields x # b) = x # yields b"
| "yields (Awaits # b) = yields b"

definition agen_live :: "exn option \<Rightarrow> 'a act list \<Rightarrow> 'a agen \<Rightarrow> bool" where
  "agen_live e b g \<longleftrightarrow> ag_body g = b \<and> ag_end g = e \<and> \<not> ag_done g \<and> ag_except g = None"

lemma agen_complete_cases:
  "agen_live e b g \<Longrightarrow> ag_caller g \<Longrightarrow>
     (case yields b of
        [] \<Rightarrow> ag_done (agen_complete g) \<and> ag_except (agen_complete g) = e
      | x # xs \<Rightarrow> \<exists>b'. yields b' = xs \<and> length b' < length b \<and> agen_live e b' (agen_complete g)
          \<and> ag_value (agen_complete g) = Some x \<and> \<not> ag_caller (agen_complete g))"
proof (induction b arbitrary: g)
  case Nil
  then show ?case by (subst (1 2) agen_complete.simps) (simp add: agen_resume_def agen_live_def)
next
  case (Cons a b)
  show ?case
  proof (cases a)
    case (Yields x)
    then have "agen_complete g = g\<lparr>ag_value := Some x, ag_body := b, ag_caller := False\<rparr>"
      using Cons.prems by (subst agen_complete.simps) (simp add: agen_resume_def agen_live_def)
    then show ?thesis using Cons.prems Yields by (auto simp: agen_live_def)
  next
    case Awaits
    let ?g = "g\<lparr>ag_value := None, ag_body := b\<rparr>"
    have eq: "agen_complete g = agen_complete ?g"
      using Cons.prems Awaits by (subst agen_complete.simps) (simp add: agen_resume_def agen_live_def)
    have "agen_live e b ?g" "ag_caller ?g" using Cons.prems by (simp_all add: agen_live_def)
    from Cons.IH [OF this] show ?thesis unfolding eq using Awaits by (auto split: list.splits)
  qed
qed

text \<open>One await of the iterator goes to the next value, or to the end.\<close>

lemma iter_await_cases:
  assumes "agen_live e b g" "\<not> ag_caller g"
  shows "case yields b of
      [] \<Rightarrow> iter_await (Some g) = (case e of Some x \<Rightarrow> Inl x | None \<Rightarrow> Inr None)
    | x # xs \<Rightarrow> \<exists>b' g'. yields b' = xs \<and> length b' < length b \<and> agen_live e b' g' \<and> ag_value g' = Some x
        \<and> \<not> ag_caller g' \<and> iter_await (Some g) = Inr (Some g')"
proof (cases b)
  case Nil
  then show ?thesis using assms
    by (auto simp: iter_await_def agen_resume_def agen_ready_def agen_live_def Let_def split: option.splits)
next
  case (Cons a b1)
  show ?thesis
  proof (cases a)
    case (Yields x)
    let ?g = "g\<lparr>ag_value := Some x, ag_body := b1, ag_caller := False\<rparr>"
    have "iter_await (Some g) = Inr (Some ?g)"
      using assms Cons Yields by (simp add: iter_await_def agen_resume_def agen_ready_def agen_live_def Let_def)
    moreover have "agen_live e b1 ?g" using assms by (simp add: agen_live_def)
    ultimately show ?thesis using Cons Yields by fastforce
  next
    case Awaits
    let ?g = "g\<lparr>ag_value := None, ag_body := b1, ag_caller := True\<rparr>"
    have live: "agen_live e b1 ?g" "ag_caller ?g" using assms by (simp_all add: agen_live_def)
    have it: "iter_await (Some g) = (if ag_done (agen_complete ?g)
        then (case ag_except (agen_complete ?g) of Some x \<Rightarrow> Inl x | None \<Rightarrow> Inr None) else Inr (Some (agen_complete ?g)))"
      using assms Cons Awaits
      by (simp add: iter_await_def agen_resume_def agen_ready_def agen_wait_def agen_live_def Let_def)
    from agen_complete_cases [OF live] show ?thesis
      using Cons Awaits by (auto simp: it agen_live_def less_Suc_eq split: list.splits)
  qed
qed

lemma agen_complete_left: "length (ag_body (agen_complete g)) \<le> length (ag_body g)"
proof (induction "ag_body g" arbitrary: g)
  case Nil
  then show ?case by (subst agen_complete.simps) (auto simp: agen_resume_def split: bool.split)
next
  case (Cons a b)
  note body = Cons.hyps(2) [symmetric]
  have rest: "length (ag_body (agen_complete h)) \<le> length b" if "ag_body h = b" for h :: "'a agen"
    using Cons.hyps(1) [of h] that by simp
  show ?case
    by (subst agen_complete.simps) (auto simp: body agen_resume_def le_SucI rest split: act.split bool.split)
qed

lemma iter_await_left:
  assumes "\<not> iter_end it" "iter_await it = Inr it'"
  shows "iter_left it' < iter_left it"
proof -
  obtain g where g: "it = Some g" using assms(1) by (cases it) (simp_all add: iter_end_def)
  define g1 where "g1 = snd (agen_resume g)"
  have "ag_body g = [] \<and> ag_done g1 \<or> length (ag_body g1) < length (ag_body g)"
    by (auto simp: g1_def agen_resume_def split: list.splits act.splits)
  moreover have "length (ag_body (agen_complete (agen_wait g1))) \<le> length (ag_body g1)"
    using agen_complete_left [of "agen_wait g1"] by (simp add: agen_wait_def)
  ultimately show ?thesis using assms(2)
    by (auto simp: g iter_await_def agen_ready_def Let_def simp flip: g1_def split: if_splits option.splits)
qed

text \<open>\<open>co_for\<close> of AsyncGenerator.h: the body of the loop runs between two awaits.\<close>

function co_loop :: "('a \<Rightarrow> unit eff) \<Rightarrow> 'a iter \<Rightarrow> unit eff" where
  "co_loop f it =
     (if iter_end it then ret ()
      else seqE (bindE (lift (iter_deref it)) f)
        (case iter_await it of Inl e \<Rightarrow> raise e | Inr it' \<Rightarrow> co_loop f it'))"
  by pat_completeness auto
termination
  by (relation "measure (\<lambda>(f, it). iter_left it)") (simp_all add: iter_await_left)

declare co_loop.simps [simp del]

definition ForEach :: "'a agen \<Rightarrow> ('a \<Rightarrow> unit eff) \<Rightarrow> unit eff" where
  "ForEach g f = (case agen_begin g of Inl e \<Rightarrow> raise e | Inr it \<Rightarrow> co_loop f it)"

definition ended :: "exn option \<Rightarrow> unit eff" where
  "ended e = (case e of None \<Rightarrow> ret () | Some x \<Rightarrow> raise x)"

lemma co_loop_forE:
  "agen_live e b g \<Longrightarrow> ag_value g = Some x \<Longrightarrow> \<not> ag_caller g \<Longrightarrow> co_loop f (Some g) = seqE (f x) (seqE (forE (yields b) f) (ended e))"
proof (induction "length b" arbitrary: b g x rule: less_induct)
  case less
  have live: "iter_end (Some g) = False" "iter_deref (Some g) = Inr x"
    using less.prems by (simp_all add: iter_end_def iter_deref_def agen_live_def)
  have unfold: "co_loop f (Some g) = seqE (f x) (case iter_await (Some g) of Inl e \<Rightarrow> raise e | Inr it' \<Rightarrow> co_loop f it')"
    by (subst co_loop.simps) (simp add: live bindE_lift)
  have stop: "co_loop f None = ret ()" by (subst co_loop.simps) (simp add: iter_end_def)
  have seq_ret: "seqE (ret ()) k = k" for k by (simp add: seqE_def)
  show ?case
  proof (cases "yields b")
    case Nil
    with iter_await_cases [OF less.prems(1,3)] show ?thesis
      by (auto simp: unfold stop ended_def seq_ret split: option.splits)
  next
    case (Cons y ys)
    with iter_await_cases [OF less.prems(1,3)] obtain b' g' where
      g': "yields b' = ys" "length b' < length b" "agen_live e b' g'" "ag_value g' = Some y" "\<not> ag_caller g'"
      "iter_await (Some g) = Inr (Some g')" by auto
    have "co_loop f (Some g') = seqE (f y) (seqE (forE ys f) (ended e))"
      using less.hyps [OF g'(2,3,4,5)] g'(1) by simp
    moreover have "seqE (seqE k1 k2) k3 = seqE k1 (seqE k2 k3)" for k1 k2 k3 :: "unit eff"
      by (simp add: seqE_def bindE_def fun_eq_iff split: prod.splits sum.splits)
    ultimately show ?thesis by (simp add: unfold g'(6) Cons)
  qed
qed

text \<open>
  C22: looping over an asynchronous generator with the iterator protocol, whatever its body awaits
  in between, is running the loop body for the list of the values it yields, in order, and then
  throwing what the generator threw; this is \<open>co_for\<close> as the model of the bot uses it.
\<close>

theorem loop_over_generator:
  "ForEach (agen_start b e) f = co_for (\<lambda>w. ((yields b, e), w)) f"
proof -
  have live: "agen_live e b (agen_start b e)" "\<not> ag_caller (agen_start b e)"
    by (simp_all add: agen_live_def agen_start_def)
  have spec: "co_for (\<lambda>w. ((yields b, e), w)) f = seqE (forE (yields b) f) (ended e)"
    by (simp add: co_for_def ended_def fun_eq_iff)
  have stop: "co_loop f None = ret ()" by (subst co_loop.simps) (simp add: iter_end_def)
  show ?thesis
  proof (cases "yields b")
    case Nil
    with iter_await_cases [OF live] show ?thesis
      unfolding spec by (auto simp: ForEach_def agen_begin_def stop ended_def seqE_def split: option.splits)
  next
    case (Cons x xs)
    with iter_await_cases [OF live] obtain b' g' where
      g': "yields b' = xs" "agen_live e b' g'" "ag_value g' = Some x" "\<not> ag_caller g'"
      "iter_await (Some (agen_start b e)) = Inr (Some g')" by auto
    have "seqE (seqE k1 k2) k3 = seqE k1 (seqE k2 k3)" for k1 k2 k3 :: "unit eff"
      by (simp add: seqE_def bindE_def fun_eq_iff split: prod.splits sum.splits)
    with co_loop_forE [OF g'(2-4), of f] show ?thesis
      unfolding spec by (simp add: ForEach_def agen_begin_def g'(1,5) Cons)
  qed
qed

section \<open>Two threads\<close>

text \<open>
  A generator may await something that another thread completes (\<open>ResumeOnWebSocketStrand\<close> posts to
  a strand that the second thread of \<open>Run\<close> may serve). The caller has resumed the generator in
  \<open>await_ready\<close>; it looks whether there is a value (\<open>Testing\<close>), then stores itself as the caller
  (\<open>Saving\<close>), and sleeps until the generator gives control back. Nothing orders these steps and
  the completion of what the generator awaits.
\<close>

datatype phase = Testing | Saving | Sleeping | Running

definition awaiting :: "'a agen \<Rightarrow> bool" where
  "awaiting g \<longleftrightarrow> \<not> agen_ready g"

inductive race_step :: "'a agen \<times> phase \<Rightarrow> 'a agen \<times> phase \<Rightarrow> bool" where
  test_ready: "agen_ready g \<Longrightarrow> race_step (g, Testing) (g, Running)"
| test_pending: "\<not> agen_ready g \<Longrightarrow> race_step (g, Testing) (g, Saving)"
| save: "race_step (g, Saving) (agen_wait g, Sleeping)"
| complete: "awaiting g \<Longrightarrow> agen_resume g = (wake, g') \<Longrightarrow> race_step (g, p) (g', if wake then Running else p)"

inductive_cases race_sleepE: "race_step (g, Sleeping) s"

lemma sleeping_stuck: "agen_ready g \<Longrightarrow> \<not> race_step (g, Sleeping) s"
  by (auto simp: awaiting_def elim: race_sleepE)

text \<open>Once the caller has stored itself, it gets control back.\<close>

lemma sleeping_goes_on:
  "ag_caller g \<Longrightarrow> awaiting g \<Longrightarrow> race_step (g, Sleeping) (g', p) \<Longrightarrow>
     p = Running \<or> p = Sleeping \<and> ag_caller g' \<and> awaiting g' \<and> length (ag_body g') < length (ag_body g)"
  by (erule race_sleepE) (auto simp: agen_resume_def awaiting_def agen_ready_def split: list.splits act.splits)

text \<open>
  C36: a wake-up can be lost. When a generator that awaits something on another thread goes on to
  its next value between the moment its caller has looked for a value and the moment the caller
  has stored itself, the caller sleeps and the generator stays suspended at the value: no step
  is possible any more.
\<close>

theorem lost_wakeup:
  "\<exists>g'. rtranclp race_step (snd (agen_resume (agen_start (Awaits # Yields x # b) e)), Testing) (g', Sleeping)
      \<and> ag_value g' = Some x \<and> (\<forall>s. \<not> race_step (g', Sleeping) s)"
proof -
  define g where "g = snd (agen_resume (agen_start (Awaits # Yields x # b) e))"
  have g: "g = \<lparr>ag_body = Yields x # b, ag_end = e, ag_value = None, ag_except = None, ag_caller = False, ag_done = False\<rparr>"
    by (simp add: g_def agen_resume_def agen_start_def)
  let ?g1 = "g\<lparr>ag_value := Some x, ag_body := b\<rparr>"
  have "race_step (g, Testing) (g, Saving)" by (rule test_pending) (simp add: g agen_ready_def)
  moreover have "race_step (g, Saving) (?g1, if False then Running else Saving)"
    by (rule complete) (simp_all add: g awaiting_def agen_ready_def agen_resume_def)
  then have "race_step (g, Saving) (?g1, Saving)" by simp
  moreover have "race_step (?g1, Saving) (agen_wait ?g1, Sleeping)" by (rule save)
  ultimately have "rtranclp race_step (g, Testing) (agen_wait ?g1, Sleeping)"
    by (meson rtranclp.rtrancl_refl rtranclp.rtrancl_into_rtrancl)
  moreover have "agen_ready (agen_wait ?g1)" "ag_value (agen_wait ?g1) = Some x" by (simp_all add: agen_wait_def agen_ready_def)
  ultimately show ?thesis using sleeping_stuck unfolding g_def by blast
qed

section \<open>Generators that only yield\<close>

text \<open>\<open>cGenerator\<close>: \<open>ready\<close> tells that the value has not been taken, or that the end is reached.\<close>

record 'a sgen =
  sg_body :: "'a list"
  sg_end :: "exn option"
  sg_value :: "'a option"
  sg_except :: "exn option"
  sg_ready :: bool
  sg_done :: bool

definition sgen_start :: "'a list \<Rightarrow> exn option \<Rightarrow> 'a sgen" where
  "sgen_start b e = \<lparr>sg_body = b, sg_end = e, sg_value = None, sg_except = None, sg_ready = False, sg_done = False\<rparr>"

definition sgen_resume :: "'a sgen \<Rightarrow> 'a sgen" where
  "sgen_resume g =
     (case sg_body g of
        [] \<Rightarrow> g\<lparr>sg_except := sg_end g, sg_ready := True, sg_done := True\<rparr>
      | x # b \<Rightarrow> g\<lparr>sg_body := b, sg_value := Some x, sg_ready := True\<rparr>)"

definition HasValue :: "'a sgen \<Rightarrow> (exn + bool) \<times> 'a sgen" where
  "HasValue g =
     (let g1 = if sg_ready g then g else sgen_resume g in
      (case sg_except g1 of Some e \<Rightarrow> Inl e | None \<Rightarrow> Inr (\<not> sg_done g1), g1))"

definition Next :: "'a sgen \<Rightarrow> (exn + 'a) \<times> 'a sgen" where
  "Next g =
     (case HasValue g of
        (Inl e, g1) \<Rightarrow> (Inl e, g1)
      | (Inr b, g1) \<Rightarrow>
          (case sg_value g1 of
             Some x \<Rightarrow> if b \<and> sg_ready g1 then (Inr x, g1\<lparr>sg_ready := False\<rparr>)
                        else (Inl (xRuntimeError ''Generator has no value''), g1)
           | None \<Rightarrow> (Inl (xRuntimeError ''Generator has no value''), g1)))"

text \<open>Taking all values gives the values of the body, and looking for one before taking it changes nothing.\<close>

fun take_all :: "nat \<Rightarrow> 'a sgen \<Rightarrow> 'a list \<times> (exn + bool)" where
  "take_all 0 g = ([], fst (HasValue g))"
| "take_all (Suc n) g = (case Next (snd (HasValue g)) of (Inl e, g1) \<Rightarrow> ([], Inl e)
     | (Inr x, g1) \<Rightarrow> (case take_all n g1 of (xs, r) \<Rightarrow> (x # xs, r)))"

lemma take_all_body:
  "sg_body g = b \<Longrightarrow> sg_end g = e \<Longrightarrow> \<not> sg_ready g \<Longrightarrow> \<not> sg_done g \<Longrightarrow> sg_except g = None \<Longrightarrow>
     take_all (length b) g = (b, case e of None \<Rightarrow> Inr False | Some x \<Rightarrow> Inl x)"
proof (induction b arbitrary: g)
  case Nil
  then show ?case by (simp add: HasValue_def sgen_resume_def Let_def split: option.split)
next
  case (Cons x b)
  let ?g = "g\<lparr>sg_body := b, sg_value := Some x, sg_ready := False\<rparr>"
  have "take_all (length b) ?g = (b, case e of None \<Rightarrow> Inr False | Some x \<Rightarrow> Inl x)"
    using Cons.prems by (intro Cons.IH) simp_all
  then show ?case using Cons.prems by (simp add: Next_def HasValue_def sgen_resume_def Let_def)
qed

lemma generator_values: "take_all (length b) (sgen_start b e) = (b, case e of None \<Rightarrow> Inr False | Some x \<Rightarrow> Inl x)"
  by (rule take_all_body) (simp_all add: sgen_start_def)

end
