(* ===== verification/Reports.thy ===== *)
theory Reports
  imports Prelude
begin

text \<open>
  How exceptions are reported (GreekBot/ExceptionReporting.cpp): a line for each exception of a
  chain of nested ones, indented by its depth, under the name of the handler it left.
\<close>

text \<open>
  An exception: one with a text, perhaps with the details of a Discord error and perhaps with a
  nested one; a pair of the name of a handler with the exception that left it; or anything else.
\<close>

datatype report_exn =
    Std string "string option"
  | Nested string "string option" report_exn
  | InHandler string report_exn
  | Unknown

definition corner :: string where
  "corner = [CHR 0xE2, CHR 0x95, CHR 0xB0, CHR 0xE2, CHR 0x95, CHR 0xB4]"

text \<open>The corner is two columns wide and aligned to the right of the level.\<close>

definition indented :: "nat \<Rightarrow> string" where
  "indented lv = (if lv < 2 then replicate lv CHR '' '' else replicate (lv - 2) CHR '' '' @ corner)"

definition report_line :: "string \<Rightarrow> nat \<Rightarrow> string \<Rightarrow> string" where
  "report_line func lv s = func @ '': '' @ indented lv @ s"

definition details_lines :: "string \<Rightarrow> nat \<Rightarrow> string option \<Rightarrow> string list" where
  "details_lines func lv d = (case d of None \<Rightarrow> [] | Some s \<Rightarrow> [report_line func (lv + 2) (''Discord error details: '' @ s)])"

fun report_at :: "string \<Rightarrow> nat \<Rightarrow> report_exn \<Rightarrow> string list" where
  "report_at func lv (Std s d) = report_line func lv s # details_lines func lv d"
| "report_at func lv (Nested s d e) =
     report_line func lv s # details_lines func lv d @ report_at func ((if d = None then lv else lv + 2) + 2) e"
| "report_at func lv (InHandler f e) = report_at f 0 e"
| "report_at func lv Unknown = [report_line func lv ''An error occurred'']"

definition report_exceptions :: "string \<Rightarrow> report_exn \<Rightarrow> string list" where
  "report_exceptions func e = report_at func 0 e"

text \<open>\<open>unhandled_exception\<close> puts the name of the handler around what left it.\<close>

definition unhandled_exception :: "string \<Rightarrow> report_exn \<Rightarrow> report_exn" where
  "unhandled_exception func e = InHandler func e"

fun depth :: "report_exn \<Rightarrow> nat" where
  "depth (Nested s d e) = Suc (depth e)"
| "depth (InHandler f e) = depth e"
| "depth e = 1"

text \<open>Every exception of the chain has a line, and only the innermost handler that caught it is named.\<close>

lemma report_depth: "depth e \<le> length (report_at func lv e)"
  by (induction func lv e rule: report_at.induct) auto

lemma report_innermost: "report_exceptions func (unhandled_exception f e) = report_exceptions f e"
  by (simp add: report_exceptions_def unhandled_exception_def)

lemma report_not_empty: "report_exceptions func e \<noteq> []"
proof -
  have "0 < depth e" by (induction e) simp_all
  with report_depth [of e func 0] show ?thesis by (auto simp: report_exceptions_def)
qed

end
