(* ===== verification/Handles.thy ===== *)
theory Handles
  imports Prelude "HOL-Library.Multiset"
begin

text \<open>
  Handles of a library and the objects that own them. A handle is a number, in the order in which
  the library gave them out; an object is a slot with a handle or, once it was moved from or
  destroyed, none. The account of a state counts the handles wherever they are.
\<close>

section \<open>Slots\<close>

text \<open>\<open>std::exchange(slot, {})\<close>.\<close>

definition slot :: "nat option list \<Rightarrow> nat \<Rightarrow> nat option" where
  "slot xs i = (if i < length xs then xs ! i else None)"

definition of_opt :: "'a option \<Rightarrow> 'a multiset" where
  "of_opt x = (case x of None \<Rightarrow> {#} | Some y \<Rightarrow> {#y#})"

lemma of_opt_simps [simp]: "of_opt None = {#}" "of_opt (Some y) = {#y#}"
  by (simp_all add: of_opt_def)

fun held :: "'a option list \<Rightarrow> 'a multiset" where
  "held [] = {#}"
| "held (x # xs) = of_opt x + held xs"

lemma held_append [simp]: "held (xs @ ys) = held xs + held ys"
  by (induction xs) (simp_all add: ac_simps)

lemma held_update: "i < length xs \<Longrightarrow> held (xs[i := y]) + of_opt (xs ! i) = held xs + of_opt y"
proof (induction xs arbitrary: i)
  case (Cons x xs)
  show ?case
  proof (cases i)
    case 0
    then show ?thesis by (simp add: ac_simps)
  next
    case (Suc j)
    with Cons have "held (xs[j := y]) + of_opt (xs ! j) = held xs + of_opt y" by simp
    with Suc show ?thesis by (simp add: add.assoc)
  qed
qed simp

lemma held_exchange: "held xs = held (xs[i := None]) + of_opt (slot xs i)"
  using held_update [of i xs None] by (simp add: slot_def list_update_beyond ac_simps)

lemma held_swap: "i < length xs \<Longrightarrow> of_opt (slot xs i) + held (xs[i := y]) = held xs + of_opt y"
  using held_update [of i xs y] by (simp add: slot_def ac_simps)

fun given_out :: "nat \<Rightarrow> nat multiset" where
  "given_out 0 = {#}"
| "given_out (Suc n) = add_mset n (given_out n)"

text \<open>A handle is in transit between taking it from its owner and putting it down again.\<close>

definition balanced_by :: "('s \<Rightarrow> nat multiset) \<Rightarrow> ('s \<Rightarrow> nat) \<Rightarrow> nat option \<Rightarrow> 's \<Rightarrow> bool" where
  "balanced_by account issued h s \<longleftrightarrow> account s + of_opt h = given_out (issued s)"

lemma held_list: "mset (List.map_filter id xs) = held xs"
  by (induction xs) (auto simp: map_filter_simps split: option.splits)

lemma mset_given_out: "given_out n = mset [0..<n]"
  by (induction n) simp_all

section \<open>Objects that own handles\<close>

text \<open>
  A set of objects of one kind in a state with an account: taking the handle out of an object,
  exchanging it and making a new object change the account by what is held.
\<close>

locale handle_slots =
  fixes account :: "'s \<Rightarrow> nat multiset" and issued :: "'s \<Rightarrow> nat"
    and slots :: "'s \<Rightarrow> nat option list" and set_slots :: "nat option list \<Rightarrow> 's \<Rightarrow> 's"
  assumes account_set: "account (set_slots xs s) + held (slots s) = account s + held xs"
    and issued_set: "issued (set_slots xs s) = issued s"
begin

lemma account_held: "held (slots s) + of_opt h = held xs + of_opt h' \<Longrightarrow> account (set_slots xs s) + of_opt h' = account s + of_opt h"
proof -
  assume held: "held (slots s) + of_opt h = held xs + of_opt h'"
  have "account (set_slots xs s) + of_opt h' + held (slots s) = account s + (held xs + of_opt h')"
    using account_set [of xs s] by (simp add: ac_simps)
  also have "\<dots> = account s + of_opt h + held (slots s)" unfolding held [symmetric] by (simp add: ac_simps)
  finally show ?thesis by simp
qed

lemma balanced_take: "balanced_by account issued None s \<Longrightarrow> balanced_by account issued (slot (slots s) i) (set_slots ((slots s)[i := None]) s)"
  using account_held [of s None "(slots s)[i := None]" "slot (slots s) i"] held_exchange [of "slots s" i]
  by (simp add: balanced_by_def issued_set)

lemma balanced_swap:
  "balanced_by account issued h s \<Longrightarrow> i < length (slots s) \<Longrightarrow> balanced_by account issued (slot (slots s) i) (set_slots ((slots s)[i := h]) s)"
  using account_held [of s h "(slots s)[i := h]" "slot (slots s) i"] held_swap [of i "slots s" h]
  by (simp add: balanced_by_def issued_set add.commute)

lemma balanced_add: "balanced_by account issued h s \<Longrightarrow> balanced_by account issued None (set_slots (slots s @ [h]) s)"
  using account_held [of s h "slots s @ [h]" None] by (simp add: balanced_by_def issued_set)

end

end
