(* ===== verification/Connections.thy ===== *)
theory Connections
  imports Handles
begin

text \<open>
  The handles of the database engine and who owns them: the wrappers of its C interface
  (Database/SQLite.h, SQLite.cpp), the pooled connection, the transaction objects and the
  initialisation of the database file (Database/Database.h, Database.cpp). What the engine
  answers to a call is an argument of the operation that makes the call. Objects live in
  numbered slots; an object that was moved from or destroyed holds no handle any more.
\<close>

section \<open>Error codes\<close>

datatype error_code = NoError | SqliteCode int | SystemCode int | GenericCode int

fun is_error :: "error_code \<Rightarrow> bool" where
  "is_error NoError = False"
| "is_error (SqliteCode c) = (c \<noteq> 0)"
| "is_error (SystemCode c) = (c \<noteq> 0)"
| "is_error (GenericCode c) = (c \<noteq> 0)"

text \<open>A code belongs to a category; the engine's codes 0 and 7 have generic conditions.\<close>

datatype error_condition = Success | NotEnoughMemory | OfCategory int

definition default_error_condition :: "int \<Rightarrow> error_condition" where
  "default_error_condition val = (if val = 0 then Success else if val = 7 then NotEnoughMemory else OfCategory val)"

section \<open>Connections\<close>

text \<open>
  Handles are numbered in the order in which the engine gave them out; those that were closed
  are listed. Then come the pooled connection, the transaction objects, the connection objects
  and the handles whose return was posted to the strand of the database.
\<close>

record conns =
  cn_next :: nat
  cn_closed :: "nat list"
  cn_db :: "nat option"
  cn_txns :: "nat option list"
  cn_conns :: "nat option list"
  cn_posted :: "nat list"

definition no_conns :: conns where
  "no_conns = \<lparr>cn_next = 0, cn_closed = [], cn_db = None, cn_txns = [], cn_conns = [], cn_posted = []\<rparr>"

definition conn_close :: "nat option \<Rightarrow> conns \<Rightarrow> conns" where
  "conn_close h s = (case h of None \<Rightarrow> s | Some n \<Rightarrow> s\<lparr>cn_closed := cn_closed s @ [n]\<rparr>)"

text \<open>What \<open>sqlite3_open_v2\<close> answers: its result, whether there is a handle, the error of the system.\<close>

record open_answer =
  oa_rc :: int
  oa_db :: bool
  oa_errno :: int

definition sqlite_open :: "open_answer \<Rightarrow> conns \<Rightarrow> (error_code \<times> nat option) \<times> conns" where
  "sqlite_open a s =
     (if \<not> oa_db a then ((SqliteCode 7, None), s)
      else
        let h = cn_next s; s1 = s\<lparr>cn_next := Suc h\<rparr> in
        if oa_rc a = 0 then ((NoError, Some h), s1)
        else ((if oa_errno a \<noteq> 0 then SystemCode (oa_errno a) else SqliteCode (oa_rc a), None), conn_close (Some h) s1))"

definition sqlite_open_throwing :: "open_answer \<Rightarrow> conns \<Rightarrow> (error_code + nat option) \<times> conns" where
  "sqlite_open_throwing a s =
     (case sqlite_open a s of ((ec, db), s1) \<Rightarrow> (if is_error ec then Inl ec else Inr db, s1))"

definition conn_release :: "nat \<Rightarrow> conns \<Rightarrow> nat option \<times> conns" where
  "conn_release i s = (slot (cn_conns s) i, s\<lparr>cn_conns := (cn_conns s)[i := None]\<rparr>)"

definition conn_new :: "nat option \<Rightarrow> conns \<Rightarrow> conns" where
  "conn_new h s = s\<lparr>cn_conns := cn_conns s @ [h]\<rparr>"

definition conn_move :: "nat \<Rightarrow> conns \<Rightarrow> conns" where
  "conn_move i s = (case conn_release i s of (h, s1) \<Rightarrow> conn_new h s1)"

definition conn_destroy :: "nat \<Rightarrow> conns \<Rightarrow> conns" where
  "conn_destroy i s = (case conn_release i s of (h, s1) \<Rightarrow> conn_close h s1)"

text \<open>
  The assignment takes its argument by value: it is made by moving, swapped with the object
  and destroyed with what the object held before.
\<close>

definition conn_assign :: "nat \<Rightarrow> nat \<Rightarrow> conns \<Rightarrow> conns" where
  "conn_assign i j s =
     (case conn_release j s of (arg, s1) \<Rightarrow>
        let old = slot (cn_conns s1) i in
        if i < length (cn_conns s1) then conn_close old (s1\<lparr>cn_conns := (cn_conns s1)[i := arg]\<rparr>)
        else conn_close arg s1)"

definition db_assign :: "nat option \<Rightarrow> conns \<Rightarrow> conns" where
  "db_assign arg s = conn_close (cn_db s) (s\<lparr>cn_db := arg\<rparr>)"

definition conn_open :: "open_answer \<Rightarrow> conns \<Rightarrow> (error_code + unit) \<times> conns" where
  "conn_open a s =
     (case sqlite_open_throwing a s of
        (Inl ec, s1) \<Rightarrow> (Inl ec, s1)
      | (Inr db, s1) \<Rightarrow> (Inr (), conn_new db s1))"

text \<open>The pooled connection, if there is one, or a new one.\<close>

definition dbCreateInstance :: "open_answer \<Rightarrow> conns \<Rightarrow> (error_code + nat option) \<times> conns" where
  "dbCreateInstance a s =
     (case cn_db s of
        Some h \<Rightarrow> (Inr (Some h), s\<lparr>cn_db := None\<rparr>)
      | None \<Rightarrow> sqlite_open_throwing a s)"

section \<open>Transaction objects\<close>

definition txn_exchange :: "nat \<Rightarrow> conns \<Rightarrow> nat option \<times> conns" where
  "txn_exchange i s = (slot (cn_txns s) i, s\<lparr>cn_txns := (cn_txns s)[i := None]\<rparr>)"

definition txn_new :: "nat option \<Rightarrow> conns \<Rightarrow> conns" where
  "txn_new h s = s\<lparr>cn_txns := cn_txns s @ [h]\<rparr>"

definition txn_of_connection :: "nat \<Rightarrow> conns \<Rightarrow> conns" where
  "txn_of_connection i s = (case conn_release i s of (h, s1) \<Rightarrow> txn_new h s1)"

definition txn_move :: "nat \<Rightarrow> conns \<Rightarrow> conns" where
  "txn_move i s = (case txn_exchange i s of (h, s1) \<Rightarrow> txn_new h s1)"

definition txn_create :: "open_answer \<Rightarrow> conns \<Rightarrow> (error_code + unit) \<times> conns" where
  "txn_create a s =
     (case dbCreateInstance a s of
        (Inl ec, s1) \<Rightarrow> (Inl ec, s1)
      | (Inr h, s1) \<Rightarrow> (Inr (), txn_new h s1))"

text \<open>
  \<open>Close\<close> hands the connection to a function that runs at once on the strand of the database
  and is posted to it elsewhere. It closes the connection when the rollback fails and makes it
  the pooled one otherwise, which closes the one that was pooled.
\<close>

datatype dispatch_to = Here bool | Posted

definition give_back :: "bool \<Rightarrow> nat \<Rightarrow> conns \<Rightarrow> conns" where
  "give_back failed h s = (if failed then conn_close (Some h) s else db_assign (Some h) s)"

definition dispatch_handle :: "dispatch_to \<Rightarrow> nat option \<Rightarrow> conns \<Rightarrow> conns" where
  "dispatch_handle d h s =
     (case h of
        None \<Rightarrow> s
      | Some n \<Rightarrow> (case d of Here failed \<Rightarrow> give_back failed n s | Posted \<Rightarrow> s\<lparr>cn_posted := cn_posted s @ [n]\<rparr>))"

definition run_posted :: "bool \<Rightarrow> conns \<Rightarrow> conns" where
  "run_posted failed s =
     (case cn_posted s of [] \<Rightarrow> s | h # hs \<Rightarrow> give_back failed h (s\<lparr>cn_posted := hs\<rparr>))"

definition txn_obj_close :: "dispatch_to \<Rightarrow> nat \<Rightarrow> conns \<Rightarrow> conns" where
  "txn_obj_close d i s = (case txn_exchange i s of (h, s1) \<Rightarrow> dispatch_handle d h s1)"

definition txn_assign :: "dispatch_to \<Rightarrow> nat \<Rightarrow> nat \<Rightarrow> conns \<Rightarrow> conns" where
  "txn_assign d i j s =
     (case txn_exchange j s of (arg, s1) \<Rightarrow>
        let old = slot (cn_txns s1) i in
        if i < length (cn_txns s1) then dispatch_handle d old (s1\<lparr>cn_txns := (cn_txns s1)[i := arg]\<rparr>)
        else dispatch_handle d arg s1)"

text \<open>
  \<open>ReleaseConnection\<close>: when the rollback fails the object keeps its connection, and the result
  is empty (or an exception, without an error code).
\<close>

definition txn_release :: "bool \<Rightarrow> nat \<Rightarrow> conns \<Rightarrow> bool \<times> conns" where
  "txn_release failed i s =
     (if failed \<and> slot (cn_txns s) i \<noteq> None then (False, conn_new None s)
      else case txn_exchange i s of (h, s1) \<Rightarrow> (True, conn_new h s1))"

section \<open>Runs\<close>

datatype conn_event =
    OpenConn open_answer
  | MoveConn nat
  | AssignConn nat nat
  | DestroyConn nat
  | NewTxn open_answer
  | TxnOf nat
  | MoveTxn nat
  | AssignTxn dispatch_to nat nat
  | CloseTxn dispatch_to nat
  | ReleaseTxn bool nat
  | RunPosted bool

fun conn_step :: "conn_event \<Rightarrow> conns \<Rightarrow> conns" where
  "conn_step (OpenConn a) s = snd (conn_open a s)"
| "conn_step (MoveConn i) s = conn_move i s"
| "conn_step (AssignConn i j) s = conn_assign i j s"
| "conn_step (DestroyConn i) s = conn_destroy i s"
| "conn_step (NewTxn a) s = snd (txn_create a s)"
| "conn_step (TxnOf i) s = txn_of_connection i s"
| "conn_step (MoveTxn i) s = txn_move i s"
| "conn_step (AssignTxn d i j) s = txn_assign d i j s"
| "conn_step (CloseTxn d i) s = txn_obj_close d i s"
| "conn_step (ReleaseTxn failed i) s = snd (txn_release failed i s)"
| "conn_step (RunPosted failed) s = run_posted failed s"

definition conn_run :: "conn_event list \<Rightarrow> conns \<Rightarrow> conns" where
  "conn_run es s = fold conn_step es s"

section \<open>Every handle has one owner\<close>

definition accounted :: "conns \<Rightarrow> nat multiset" where
  "accounted s = of_opt (cn_db s) + held (cn_txns s) + held (cn_conns s) + mset (cn_posted s) + mset (cn_closed s)"

text \<open>The account of the connections; \<open>h\<close> is in transit.\<close>

abbreviation balanced :: "nat option \<Rightarrow> conns \<Rightarrow> bool" where
  "balanced \<equiv> balanced_by accounted cn_next"

definition owned_once :: "conns \<Rightarrow> bool" where
  "owned_once s \<longleftrightarrow> balanced None s"

interpretation conn_slots: handle_slots accounted cn_next cn_conns "\<lambda>xs s. s\<lparr>cn_conns := xs\<rparr>"
  by unfold_locales (simp_all add: accounted_def ac_simps)

interpretation txn_slots: handle_slots accounted cn_next cn_txns "\<lambda>xs s. s\<lparr>cn_txns := xs\<rparr>"
  by unfold_locales (simp_all add: accounted_def ac_simps)

lemma balanced_close: "balanced h s \<Longrightarrow> owned_once (conn_close h s)"
  by (cases h) (simp_all add: owned_once_def balanced_by_def conn_close_def accounted_def)

lemma balanced_new: "balanced h s \<Longrightarrow> owned_once (conn_new h s)" "balanced h s \<Longrightarrow> owned_once (txn_new h s)"
  by (simp_all add: owned_once_def conn_new_def txn_new_def conn_slots.balanced_add txn_slots.balanced_add)

lemma balanced_take_db: "owned_once s \<Longrightarrow> balanced (cn_db s) (s\<lparr>cn_db := h\<rparr>) \<longleftrightarrow> h = None"
  by (cases h) (auto simp: owned_once_def balanced_by_def accounted_def ac_simps)

lemma balanced_db: "balanced h s \<Longrightarrow> owned_once (db_assign h s)"
  unfolding db_assign_def by (rule balanced_close) (simp add: balanced_by_def accounted_def ac_simps)

lemma balanced_give_back: "balanced (Some h) s \<Longrightarrow> owned_once (give_back failed h s)"
  by (simp add: give_back_def balanced_close balanced_db)

lemma balanced_dispatch: "balanced h s \<Longrightarrow> owned_once (dispatch_handle d h s)"
proof (cases h)
  case (Some n)
  assume "balanced h s"
  with Some show ?thesis
    by (cases d) (simp_all add: dispatch_handle_def balanced_give_back, simp add: owned_once_def balanced_by_def accounted_def)
qed (simp add: dispatch_handle_def owned_once_def)

lemmas balanced_put = balanced_close balanced_new balanced_db balanced_give_back balanced_dispatch

lemma balanced_release: "owned_once s \<Longrightarrow> conn_release i s = (h, s1) \<Longrightarrow> balanced h s1"
  by (auto simp: owned_once_def conn_release_def conn_slots.balanced_take)

lemma balanced_exchange: "owned_once s \<Longrightarrow> txn_exchange i s = (h, s1) \<Longrightarrow> balanced h s1"
  by (auto simp: owned_once_def txn_exchange_def txn_slots.balanced_take)

lemma balanced_fresh: "owned_once s \<Longrightarrow> balanced (Some (cn_next s)) (s\<lparr>cn_next := Suc (cn_next s)\<rparr>)"
  by (simp add: owned_once_def balanced_by_def accounted_def)

lemma balanced_open: "owned_once s \<Longrightarrow> sqlite_open a s = ((ec, db), s1) \<Longrightarrow> balanced db s1 \<and> (is_error ec \<longrightarrow> db = None)"
  using balanced_fresh [of s] balanced_close [OF balanced_fresh, of s]
  by (auto simp: sqlite_open_def Let_def owned_once_def split: if_splits)

lemma balanced_open_throwing:
  assumes "owned_once s" "sqlite_open_throwing a s = (res, s1)"
  shows "balanced (case res of Inl ec \<Rightarrow> None | Inr db \<Rightarrow> db) s1"
proof -
  obtain ec db s2 where op: "sqlite_open a s = ((ec, db), s2)" by (metis prod.exhaust)
  from balanced_open [OF assms(1) op] op assms(2) show ?thesis
    by (auto simp: sqlite_open_throwing_def split: if_splits)
qed

lemma balanced_create:
  assumes "owned_once s" "dbCreateInstance a s = (res, s1)"
  shows "balanced (case res of Inl ec \<Rightarrow> None | Inr db \<Rightarrow> db) s1"
proof (cases "cn_db s")
  case None
  with assms show ?thesis by (intro balanced_open_throwing [of s a]) (simp_all add: dbCreateInstance_def)
next
  case (Some h)
  with assms show ?thesis by (auto simp: dbCreateInstance_def owned_once_def balanced_by_def accounted_def)
qed

text \<open>Every operation keeps the account.\<close>

lemma owned_once_conn_open: "owned_once s \<Longrightarrow> owned_once (snd (conn_open a s))"
  using balanced_open_throwing [of s a]
  by (auto simp: conn_open_def owned_once_def [symmetric] balanced_put split: prod.splits sum.splits)

lemma owned_once_txn_create: "owned_once s \<Longrightarrow> owned_once (snd (txn_create a s))"
  using balanced_create [of s a]
  by (auto simp: txn_create_def owned_once_def [symmetric] balanced_put split: prod.splits sum.splits)

lemma owned_once_moves:
  assumes "owned_once s"
  shows "owned_once (conn_move i s)" "owned_once (conn_destroy i s)" "owned_once (txn_of_connection i s)"
    and "owned_once (txn_move i s)" "owned_once (txn_obj_close d i s)"
  using balanced_release [OF assms, of i] balanced_exchange [OF assms, of i]
  by (auto simp: conn_move_def conn_destroy_def txn_of_connection_def txn_move_def txn_obj_close_def balanced_put
      split: prod.splits)

lemma owned_once_release: "owned_once s \<Longrightarrow> owned_once (snd (txn_release failed i s))"
  using balanced_exchange [of s i]
  by (auto simp: txn_release_def balanced_put split: prod.splits)
    (auto simp: owned_once_def balanced_put(2) [unfolded owned_once_def])

lemma owned_once_conn_assign: "owned_once s \<Longrightarrow> owned_once (conn_assign i j s)"
  using balanced_release [of s j]
  by (auto simp: conn_assign_def Let_def balanced_put conn_slots.balanced_swap split: prod.splits)

lemma owned_once_txn_assign: "owned_once s \<Longrightarrow> owned_once (txn_assign d i j s)"
  using balanced_exchange [of s j]
  by (auto simp: txn_assign_def Let_def balanced_put txn_slots.balanced_swap split: prod.splits)

lemma owned_once_run_posted: "owned_once s \<Longrightarrow> owned_once (run_posted failed s)"
  by (auto simp: run_posted_def split: list.splits intro!: balanced_give_back)
    (simp add: owned_once_def balanced_by_def accounted_def)

lemma owned_once_step: "owned_once s \<Longrightarrow> owned_once (conn_step e s)"
  by (cases e)
    (simp_all add: owned_once_conn_open owned_once_txn_create owned_once_moves owned_once_release
      owned_once_conn_assign owned_once_txn_assign owned_once_run_posted)

lemma owned_once_run: "owned_once s \<Longrightarrow> owned_once (conn_run es s)"
  unfolding conn_run_def by (induction es arbitrary: s) (simp_all add: owned_once_step)

lemma owned_once_start: "owned_once no_conns"
  by (simp add: owned_once_def balanced_by_def accounted_def no_conns_def)

text \<open>The places at which a handle can be, in one list.\<close>

definition places :: "conns \<Rightarrow> nat list" where
  "places s =
     List.map_filter id (cn_db s # cn_txns s @ cn_conns s) @ cn_posted s @ cn_closed s"

lemma mset_places: "mset (places s) = accounted s"
proof -
  have "mset (places s) = held (cn_db s # cn_txns s @ cn_conns s) + mset (cn_posted s) + mset (cn_closed s)"
    by (simp only: places_def mset_append held_list add.assoc)
  then show ?thesis by (simp add: accounted_def)
qed

lemma owned_once_places: "owned_once s \<Longrightarrow> mset (places s) = mset [0..<cn_next s]"
  by (simp only: mset_places owned_once_def balanced_by_def of_opt_simps add_0_right mset_given_out)

text \<open>
  C3: Whatever objects are created, moved, assigned, closed and destroyed and whatever the engine
  answers, every handle that it ever gave out is in exactly one place: pooled, in one transaction
  or connection object, on its way to the strand of the database, or closed. So two objects never
  share a handle, none is closed twice or used after it was closed, and none is lost.
\<close>

theorem connections_owned_once:
  "distinct (places (conn_run es no_conns))
   \<and> set (places (conn_run es no_conns)) = {0..<cn_next (conn_run es no_conns)}"
proof
  let ?s = "conn_run es no_conns"
  from owned_once_places [OF owned_once_run [OF owned_once_start]]
  have "mset (places ?s) = mset [0..<cn_next ?s]" .
  then show "distinct (places ?s)" "set (places ?s) = {0..<cn_next ?s}"
    by (simp_all only: mset_eq_imp_distinct_iff distinct_upt mset_eq_setD set_upt)
qed

section \<open>Statements\<close>

text \<open>
  What \<open>sqlite3_prepare_v2\<close> answers for a text: its result, whether there is a statement (a text
  of blanks and comments has none) and how many characters it used.
\<close>

record prepare_answer =
  pa_rc :: int
  pa_stmt :: bool
  pa_tail :: nat

definition int_max :: nat where "int_max = 2147483647"

definition prepare_impl :: "(string \<Rightarrow> prepare_answer) \<Rightarrow> string \<Rightarrow> error_code \<times> bool \<times> string" where
  "prepare_impl prep sql =
     (if length sql > int_max then (GenericCode 22, False, [])
      else
        let a = prep sql in
        if pa_rc a = 0 then (NoError, pa_stmt a, drop (pa_tail a) sql)
        else (SqliteCode (pa_rc a), pa_stmt a, []))"

definition prepare_throwing :: "(string \<Rightarrow> prepare_answer) \<Rightarrow> string \<Rightarrow> error_code + bool \<times> string" where
  "prepare_throwing prep sql =
     (case prepare_impl prep sql of (ec, r) \<Rightarrow> if is_error ec then Inl ec else Inr r)"

definition sqlite_bind :: "int \<Rightarrow> error_code" where
  "sqlite_bind rc = (if rc = 0 then NoError else SqliteCode rc)"

text \<open>100 is a row and 101 the end of the statement.\<close>

definition sqlite_step :: "int \<Rightarrow> bool \<times> error_code" where
  "sqlite_step rc = (rc = 100, if rc = 100 \<or> rc = 101 then NoError else SqliteCode rc)"

definition step_throwing :: "int \<Rightarrow> error_code + bool" where
  "step_throwing rc = (case sqlite_step rc of (ret, ec) \<Rightarrow> if is_error ec then Inl ec else Inr ret)"

section \<open>The initialisation of the database file\<close>

text \<open>The statement is stepped until it has no more rows, which may never happen.\<close>

partial_function (option) step_to_end :: "(nat \<Rightarrow> int) \<Rightarrow> nat \<Rightarrow> (error_code + unit) option" where
  "step_to_end rcs n =
     (case step_throwing (rcs n) of
        Inl ec \<Rightarrow> Some (Inl ec)
      | Inr row \<Rightarrow> if row then step_to_end rcs (Suc n) else Some (Inr ()))"

text \<open>
  The statements of a script are prepared and run one after the other; the answers to the steps
  depend on the statement and on their number. The statements that were run are listed.
\<close>

partial_function (option) init_loop ::
  "(string \<Rightarrow> prepare_answer) \<Rightarrow> (string \<Rightarrow> nat \<Rightarrow> int) \<Rightarrow> string \<Rightarrow> string list \<Rightarrow> ((error_code + unit) \<times> string list) option" where
  "init_loop prep steps sql executed =
     (case prepare_throwing prep sql of
        Inl ec \<Rightarrow> Some (Inl ec, executed)
      | Inr (has_stmt, rest) \<Rightarrow>
          if \<not> has_stmt then Some (Inr (), executed)
          else
            let stmt = take (length sql - length rest) sql in
            Option.bind (step_to_end (steps stmt) 0) (\<lambda>res.
              case res of
                Inl ec \<Rightarrow> Some (Inl ec, executed)
              | Inr _ \<Rightarrow> init_loop prep steps rest (executed @ [stmt])))"

text \<open>The program ends with a failure when the connection or a statement fails.\<close>

datatype startup = Started | ExitFailure error_code

definition dbInitialize ::
  "open_answer \<Rightarrow> (string \<Rightarrow> prepare_answer) \<Rightarrow> (string \<Rightarrow> nat \<Rightarrow> int) \<Rightarrow> string \<Rightarrow> conns \<Rightarrow> (startup \<times> string list \<times> conns) option" where
  "dbInitialize a prep steps script s =
     (case dbCreateInstance a s of
        (Inl ec, s1) \<Rightarrow> Some (ExitFailure ec, [], s1)
      | (Inr h, s1) \<Rightarrow>
          let s2 = db_assign h s1 in
          (case init_loop prep steps script [] of
             None \<Rightarrow> None
           | Some (Inl ec, executed) \<Rightarrow> Some (ExitFailure ec, executed, s2)
           | Some (Inr _, executed) \<Rightarrow> Some (Started, executed, s2)))"

text \<open>
  The program wants one argument, the token; it prepares the database and then runs the client to
  its end. The result is the exit code and what it printed about the usage.
\<close>

definition main_entry ::
  "string list \<Rightarrow> open_answer \<Rightarrow> (string \<Rightarrow> prepare_answer) \<Rightarrow> (string \<Rightarrow> nat \<Rightarrow> int) \<Rightarrow> string \<Rightarrow> (int \<times> string option) option" where
  "main_entry argv a prep steps script =
     (if length argv \<noteq> 2 then Some (1, Some ''You forgot to give me a token!'')
      else
        case dbInitialize a prep steps script no_conns of
          None \<Rightarrow> None
        | Some (ExitFailure ec, _, _) \<Rightarrow> Some (1, None)
        | Some (Started, _, _) \<Rightarrow> Some (0, None))"

text \<open>A statement that has \<open>n\<close> rows and then ends.\<close>

definition finishes_after :: "(nat \<Rightarrow> int) \<Rightarrow> nat \<Rightarrow> bool" where
  "finishes_after rcs n \<longleftrightarrow> (\<forall>i \<in> {0..<n}. rcs i = 100) \<and> rcs n = 101"

lemma step_to_end_finishes: "finishes_after rcs n \<Longrightarrow> k \<le> n \<Longrightarrow> step_to_end rcs k = Some (Inr ())"
proof (induction "n - k" arbitrary: k)
  case 0
  then show ?case by (subst step_to_end.simps) (simp add: finishes_after_def step_throwing_def sqlite_step_def)
next
  case (Suc m)
  then have "rcs k = 100" by (simp add: finishes_after_def)
  with Suc show ?case by (subst step_to_end.simps) (simp add: step_throwing_def sqlite_step_def)
qed

text \<open>
  How the engine reads a script: it takes the first statement of a text that starts with one, and
  finds none in what is left at the end.
\<close>

definition reads_script :: "(string \<Rightarrow> prepare_answer) \<Rightarrow> string list \<Rightarrow> string \<Rightarrow> bool" where
  "reads_script prep stmts blank \<longleftrightarrow>
     (\<forall>i \<in> {0..<length stmts}. prep (concat (drop i stmts) @ blank) = \<lparr>pa_rc = 0, pa_stmt = True, pa_tail = length (stmts ! i)\<rparr>)
     \<and> prep blank = \<lparr>pa_rc = 0, pa_stmt = False, pa_tail = length blank\<rparr>"

lemma reads_script_Cons:
  "reads_script prep (x # xs) blank \<longleftrightarrow>
     prep (x @ concat xs @ blank) = \<lparr>pa_rc = 0, pa_stmt = True, pa_tail = length x\<rparr> \<and> reads_script prep xs blank"
proof -
  have "{0..<length (x # xs)} = insert 0 (Suc ` {0..<length xs})"
    by (simp only: list.size add_0_right add_Suc_right image_Suc_atLeastLessThan) auto
  then show ?thesis by (simp only: reads_script_def ball_simps image_iff insert_iff) (simp add: image_Suc_lessThan ball_simps)
qed

lemma init_loop_script:
  assumes "reads_script prep stmts blank" "length (concat stmts @ blank) \<le> int_max"
    and "\<forall>x \<in> set stmts. finishes_after (steps x) (rows x)"
  shows "init_loop prep steps (concat stmts @ blank) executed = Some (Inr (), executed @ stmts)"
  using assms
proof (induction stmts arbitrary: executed)
  case Nil
  then show ?case
    by (subst init_loop.simps) (simp add: prepare_throwing_def prepare_impl_def reads_script_def)
next
  case (Cons x xs)
  from Cons.prems have first: "prepare_throwing prep (concat (x # xs) @ blank) = Inr (True, concat xs @ blank)"
    by (simp add: prepare_throwing_def prepare_impl_def reads_script_Cons)
  have "step_to_end (steps x) 0 = Some (Inr ())"
    using Cons.prems(3) by (intro step_to_end_finishes [of _ "rows x"]) simp_all
  moreover have "init_loop prep steps (concat xs @ blank) (executed @ [x]) = Some (Inr (), (executed @ [x]) @ xs)"
    using Cons.prems by (intro Cons.IH) (simp_all add: reads_script_Cons)
  ultimately show ?case using first by (subst init_loop.simps) simp
qed

text \<open>
  When the engine reads the script as a sequence of statements, each of which has finitely many
  rows, the initialisation ends, has run every statement of the script in its order and leaves the
  connection in the pool.
\<close>

theorem initialisation_runs_script:
  assumes "reads_script prep stmts blank" and "length (concat stmts @ blank) \<le> int_max"
    and "\<forall>x \<in> set stmts. finishes_after (steps x) (rows x)"
    and "oa_db a" and "oa_rc a = 0"
  shows "\<exists>s. dbInitialize a prep steps (concat stmts @ blank) no_conns = Some (Started, stmts, s)
             \<and> cn_db s = Some 0 \<and> cn_closed s = []"
  using assms(4,5) init_loop_script [OF assms(1-3), of "[]"]
  by (simp add: dbInitialize_def dbCreateInstance_def sqlite_open_throwing_def sqlite_open_def db_assign_def
      conn_close_def no_conns_def)

text \<open>A script of two statements and a blank.\<close>

definition semicolon_answer :: "string \<Rightarrow> prepare_answer" where
  "semicolon_answer sql =
     (if CHR '';'' \<in> set sql
      then \<lparr>pa_rc = 0, pa_stmt = True, pa_tail = Suc (length (takeWhile (\<lambda>c. c \<noteq> CHR '';'') sql))\<rparr>
      else \<lparr>pa_rc = 0, pa_stmt = False, pa_tail = length sql\<rparr>)"

theorem initialisation_runs_script_witness:
  "\<exists>s. dbInitialize \<lparr>oa_rc = 0, oa_db = True, oa_errno = 0\<rparr> semicolon_answer (\<lambda>x n. if n < length x then 100 else 101)
       ''CREATE x;DROP y; '' no_conns = Some (Started, [''CREATE x;'', ''DROP y;''], s) \<and> cn_db s = Some 0 \<and> cn_closed s = []"
  using initialisation_runs_script [where prep = semicolon_answer and stmts = "[''CREATE x;'', ''DROP y;'']" and blank = "'' ''" and rows = length
       and steps = "\<lambda>x n. if n < length x then 100 else 101" and a = "\<lparr>oa_rc = 0, oa_db = True, oa_errno = 0\<rparr>"]
  by (simp add: reads_script_Cons, simp add: reads_script_def semicolon_answer_def finishes_after_def int_max_def)

end
