(* ===== verification/Tasks.thy ===== *)
theory Tasks
  imports World
begin

text \<open>
  Tasks as coroutines (Discord/Coroutines/Task.h): how a task that is awaited takes over from its
  caller and hands its value or its exception back, on a machine with the frames of all
  coroutines. The other theories write an asynchronous function as a function on the state that
  returns a value or an exception; what is shown here is that the machine computes that function.
\<close>

section \<open>Coroutines\<close>

text \<open>
  The body of a coroutine returns, throws, does something to the state, or awaits a task. What
  follows an \<open>await\<close> gets the value or the exception of the task, so it may catch the latter.
\<close>

datatype ('s, 'v) coro =
    Return 'v
  | Throw exn
  | Do "'s \<Rightarrow> 's" "'s \<Rightarrow> ('s, 'v) coro"
  | CoAwait "('s, 'v) coro" "exn + 'v \<Rightarrow> ('s, 'v) coro"

text \<open>A coroutine is at some point of its body, awaits another one, is suspended at its end or is destroyed.\<close>

datatype ('s, 'v) point =
    At "('s, 'v) coro"
  | Awaiting nat "exn + 'v \<Rightarrow> ('s, 'v) coro"
  | Final
  | Destroyed

text \<open>The promise of a task: its caller, and the exception or the value.\<close>

record ('s, 'v) frame =
  fr_point :: "('s, 'v) point"
  fr_caller :: "nat option"
  fr_except :: "exn option"
  fr_value :: "'v option"

text \<open>All frames by their numbers, the coroutine that runs, if any, and the state of the program.\<close>

record ('s, 'v) machine =
  ma_frames :: "('s, 'v) frame list"
  ma_current :: "nat option"
  ma_state :: 's

text \<open>Calling a coroutine makes its frame and suspends it at its start.\<close>

definition task_call :: "('s, 'v) coro \<Rightarrow> ('s, 'v) frame" where
  "task_call p = \<lparr>fr_point = At p, fr_caller = None, fr_except = None, fr_value = None\<rparr>"

definition on_frame :: "nat \<Rightarrow> (('s, 'v) frame \<Rightarrow> ('s, 'v) frame) \<Rightarrow> ('s, 'v) machine \<Rightarrow> ('s, 'v) machine" where
  "on_frame i f m = m\<lparr>ma_frames := (ma_frames m)[i := f (ma_frames m ! i)]\<rparr>"

text \<open>\<open>await_suspend\<close> registers the caller and transfers control to the task.\<close>

definition await_suspend :: "nat \<Rightarrow> nat \<Rightarrow> ('s, 'v) machine \<Rightarrow> ('s, 'v) machine" where
  "await_suspend caller t m = (on_frame t (\<lambda>f. f\<lparr>fr_caller := Some caller\<rparr>) m)\<lparr>ma_current := Some t\<rparr>"

text \<open>
  \<open>await_resume\<close> rethrows the exception or moves the value out; a task without either has an
  empty optional, whose contents are undefined.
\<close>

definition await_resume :: "('s, 'v) frame \<Rightarrow> (exn + 'v) option" where
  "await_resume f =
     (case fr_except f of
        Some e \<Rightarrow> Some (Inl e)
      | None \<Rightarrow> (case fr_value f of Some v \<Rightarrow> Some (Inr v) | None \<Rightarrow> None))"

text \<open>\<open>return_value\<close>, \<open>unhandled_exception\<close>, and the final suspension, which transfers control to the caller.\<close>

definition return_value :: "'v \<Rightarrow> ('s, 'v) frame \<Rightarrow> ('s, 'v) frame" where
  "return_value v f = f\<lparr>fr_value := Some v\<rparr>"

definition unhandled :: "exn \<Rightarrow> ('s, 'v) frame \<Rightarrow> ('s, 'v) frame" where
  "unhandled e f = f\<lparr>fr_except := Some e\<rparr>"

definition final_suspend :: "nat \<Rightarrow> ('s, 'v) machine \<Rightarrow> ('s, 'v) machine" where
  "final_suspend i m = (on_frame i (\<lambda>f. f\<lparr>fr_point := Final\<rparr>) m)\<lparr>ma_current := fr_caller (ma_frames m ! i)\<rparr>"

text \<open>The destructor of the task object destroys the frame.\<close>

definition task_destroy :: "nat \<Rightarrow> ('s, 'v) machine \<Rightarrow> ('s, 'v) machine" where
  "task_destroy t m = on_frame t (\<lambda>f. f\<lparr>fr_point := Destroyed\<rparr>) m"

text \<open>
  One step of the running coroutine. An awaited task is called, awaited, and destroyed at the end
  of the expression.
\<close>

definition task_step :: "('s, 'v) machine \<Rightarrow> ('s, 'v) machine" where
  "task_step m =
     (case ma_current m of
        None \<Rightarrow> m
      | Some i \<Rightarrow>
          (case fr_point (ma_frames m ! i) of
             At (Return v) \<Rightarrow> final_suspend i (on_frame i (return_value v) m)
           | At (Throw e) \<Rightarrow> final_suspend i (on_frame i (unhandled e) m)
           | At (Do f k) \<Rightarrow> (on_frame i (\<lambda>fr. fr\<lparr>fr_point := At (k (ma_state m))\<rparr>) m)\<lparr>ma_state := f (ma_state m)\<rparr>
           | At (CoAwait p k) \<Rightarrow>
               let t = length (ma_frames m);
                   m1 = m\<lparr>ma_frames := ma_frames m @ [task_call p]\<rparr>;
                   m2 = on_frame i (\<lambda>fr. fr\<lparr>fr_point := Awaiting t k\<rparr>) m1
               in await_suspend i t m2
           | Awaiting t k \<Rightarrow>
               (case await_resume (ma_frames m ! t) of
                  None \<Rightarrow> m
                | Some r \<Rightarrow> on_frame i (\<lambda>fr. fr\<lparr>fr_point := At (k r)\<rparr>) (task_destroy t m))
           | Final \<Rightarrow> m
           | Destroyed \<Rightarrow> m))"

definition task_start :: "('s, 'v) coro \<Rightarrow> 's \<Rightarrow> ('s, 'v) machine" where
  "task_start p s = \<lparr>ma_frames = [task_call p], ma_current = Some 0, ma_state = s\<rparr>"

section \<open>What a coroutine computes\<close>

primrec eval :: "('s, 'v) coro \<Rightarrow> 's \<Rightarrow> (exn + 'v) \<times> 's" where
  "eval (Return v) = (\<lambda>s. (Inr v, s))"
| "eval (Throw e) = (\<lambda>s. (Inl e, s))"
| "eval (Do f k) = (\<lambda>s. eval (k s) (f s))"
| "eval (CoAwait p k) = (\<lambda>s. case eval p s of (r, s1) \<Rightarrow> eval (k r) s1)"

text \<open>The frame of a coroutine that ended with a result.\<close>

definition finished :: "exn + 'v \<Rightarrow> ('s, 'v) frame \<Rightarrow> ('s, 'v) frame" where
  "finished r f = (case r of Inl e \<Rightarrow> unhandled e f | Inr v \<Rightarrow> return_value v f)\<lparr>fr_point := Final\<rparr>"

definition is_destroyed :: "('s, 'v) frame \<Rightarrow> bool" where
  "is_destroyed f \<longleftrightarrow> fr_point f = Destroyed"

text \<open>Some number of steps; the coroutine that runs is at the beginning of its body.\<close>

definition reaches :: "('s, 'v) machine \<Rightarrow> ('s, 'v) machine \<Rightarrow> bool" where
  "reaches m m' \<longleftrightarrow> (\<exists>n. (task_step ^^ n) m = m')"

lemma reaches_trans: "reaches m1 m2 \<Longrightarrow> reaches m2 m3 \<Longrightarrow> reaches m1 m3"
  unfolding reaches_def by (metis comp_apply funpow_add)

lemma reaches_step: "task_step m = m' \<Longrightarrow> reaches m m'"
  unfolding reaches_def by (rule exI [of _ 1]) simp

definition fresh_frame :: "('s, 'v) coro \<Rightarrow> nat option \<Rightarrow> ('s, 'v) frame" where
  "fresh_frame p c = \<lparr>fr_point = At p, fr_caller = c, fr_except = None, fr_value = None\<rparr>"

lemma await_finished: "await_resume (finished r (fresh_frame p c)) = Some r"
  by (simp add: await_resume_def finished_def fresh_frame_def unhandled_def return_value_def split: sum.split)

lemma finished_body: "finished r (fresh_frame p c) = finished r (fresh_frame q c)"
  by (simp add: finished_def fresh_frame_def unhandled_def return_value_def split: sum.split)

lemma finished_caller: "fr_caller (finished r (fresh_frame p c)) = c"
  by (simp add: finished_def fresh_frame_def unhandled_def return_value_def split: sum.split)

text \<open>
  A coroutine that runs comes to its end with what it computes, and control is then at its caller;
  the frames it made are destroyed and no other frame is touched.
\<close>

lemma task_step_end:
  assumes "i < length F" "F ! i = fresh_frame p c" "eval p s = (r, s')" "p = Return v \<or> p = Throw e"
  shows "task_step \<lparr>ma_frames = F, ma_current = Some i, ma_state = s\<rparr>
     = \<lparr>ma_frames = F[i := finished r (fresh_frame p c)], ma_current = c, ma_state = s'\<rparr>"
  using assms
  by (auto simp: task_step_def final_suspend_def on_frame_def finished_def fresh_frame_def return_value_def unhandled_def)

lemma coroutine_runs:
  assumes "i < length F" "F ! i = fresh_frame p c" "eval p s = (r, s')"
  shows "\<exists>G. reaches \<lparr>ma_frames = F, ma_current = Some i, ma_state = s\<rparr>
      \<lparr>ma_frames = F[i := finished r (fresh_frame p c)] @ G, ma_current = c, ma_state = s'\<rparr> \<and> list_all is_destroyed G"
  using assms
proof (induction p arbitrary: F i c s r s')
  case (Return v)
  from task_step_end [OF Return(1-3)] have "reaches \<lparr>ma_frames = F, ma_current = Some i, ma_state = s\<rparr>
      \<lparr>ma_frames = F[i := finished r (fresh_frame (Return v) c)] @ [], ma_current = c, ma_state = s'\<rparr>"
    by (intro reaches_step) simp
  then show ?case by (intro exI [of _ "[]"]) simp
next
  case (Throw e)
  from task_step_end [OF Throw(1-3)] have "reaches \<lparr>ma_frames = F, ma_current = Some i, ma_state = s\<rparr>
      \<lparr>ma_frames = F[i := finished r (fresh_frame (Throw e) c)] @ [], ma_current = c, ma_state = s'\<rparr>"
    by (intro reaches_step) simp
  then show ?case by (intro exI [of _ "[]"]) simp
next
  case (Do f k)
  let ?F = "F[i := fresh_frame (k s) c]"
  have first: "task_step \<lparr>ma_frames = F, ma_current = Some i, ma_state = s\<rparr>
      = \<lparr>ma_frames = ?F, ma_current = Some i, ma_state = f s\<rparr>"
    using Do.prems by (simp add: task_step_def on_frame_def fresh_frame_def)
  have "\<exists>G. reaches \<lparr>ma_frames = ?F, ma_current = Some i, ma_state = f s\<rparr>
      \<lparr>ma_frames = ?F[i := finished r (fresh_frame (k s) c)] @ G, ma_current = c, ma_state = s'\<rparr> \<and> list_all is_destroyed G"
    using Do.prems by (intro Do.IH) simp_all
  then have "\<exists>G. reaches \<lparr>ma_frames = ?F, ma_current = Some i, ma_state = f s\<rparr>
      \<lparr>ma_frames = F[i := finished r (fresh_frame (Do f k) c)] @ G, ma_current = c, ma_state = s'\<rparr> \<and> list_all is_destroyed G"
    unfolding list_update_overwrite finished_body [of r "k s" c "Do f k"] .
  then show ?case using reaches_trans [OF reaches_step [OF first]] by blast
next
  case (CoAwait p k)
  let ?t = "length F"
  obtain r1 s1 where ev: "eval p s = (r1, s1)" by fastforce
  let ?f = "(fresh_frame p c)\<lparr>fr_point := Awaiting ?t k\<rparr>"
  let ?F = "F[i := ?f] @ [fresh_frame p (Some i)]"
  have i: "i < length F" using CoAwait.prems(1) .
  have first: "task_step \<lparr>ma_frames = F, ma_current = Some i, ma_state = s\<rparr>
      = \<lparr>ma_frames = ?F, ma_current = Some ?t, ma_state = s\<rparr>"
    using CoAwait.prems
    by (simp add: task_step_def await_suspend_def on_frame_def fresh_frame_def task_call_def Let_def nth_append list_update_append)
  have "?t < length ?F" "?F ! ?t = fresh_frame p (Some i)" by (simp_all add: nth_append)
  from CoAwait.IH(1) [OF this ev] obtain G1 where G1: "list_all is_destroyed G1"
    and child: "reaches \<lparr>ma_frames = ?F, ma_current = Some ?t, ma_state = s\<rparr>
      \<lparr>ma_frames = ?F[?t := finished r1 (fresh_frame p (Some i))] @ G1, ma_current = Some i, ma_state = s1\<rparr>" by blast
  let ?d = "(finished r1 (fresh_frame p (Some i)))\<lparr>fr_point := Destroyed\<rparr>"
  let ?H = "F[i := fresh_frame (k r1) c] @ ?d # G1"
  have taken: "task_step \<lparr>ma_frames = ?F[?t := finished r1 (fresh_frame p (Some i))] @ G1, ma_current = Some i, ma_state = s1\<rparr>
      = \<lparr>ma_frames = ?H, ma_current = Some i, ma_state = s1\<rparr>"
    using i await_finished [of r1 p "Some i"]
    by (simp add: task_step_def task_destroy_def on_frame_def nth_append list_update_append) (simp add: fresh_frame_def)
  have "i < length ?H" "?H ! i = fresh_frame (k r1) c" "eval (k r1) s1 = (r, s')"
    using i ev CoAwait.prems(3) by (simp_all add: nth_append)
  from CoAwait.IH(2) [OF _ this] obtain G2 where G2: "list_all is_destroyed G2"
    and rest: "reaches \<lparr>ma_frames = ?H, ma_current = Some i, ma_state = s1\<rparr>
      \<lparr>ma_frames = ?H[i := finished r (fresh_frame (k r1) c)] @ G2, ma_current = c, ma_state = s'\<rparr>"
    by (metis rangeI)
  have "?H[i := finished r (fresh_frame (k r1) c)] @ G2 = F[i := finished r (fresh_frame (CoAwait p k) c)] @ (?d # G1 @ G2)"
    using i finished_body [of r "k r1" c "CoAwait p k"] by (simp add: list_update_append)
  moreover have "list_all is_destroyed (?d # G1 @ G2)" using G1 G2 by (simp add: is_destroyed_def)
  ultimately show ?case
    using reaches_trans [OF reaches_step [OF first] reaches_trans [OF child reaches_trans [OF reaches_step [OF taken] rest]]]
    by metis
qed

text \<open>The functions of the other theories: awaiting a task whose exception is not caught is \<open>bindE\<close>, and a catch is \<open>catchE\<close>.\<close>

definition let_through :: "('v \<Rightarrow> (world, 'v) coro) \<Rightarrow> exn + 'v \<Rightarrow> (world, 'v) coro" where
  "let_through q r = (case r of Inl e \<Rightarrow> Throw e | Inr v \<Rightarrow> q v)"

definition caught :: "(exn \<Rightarrow> bool) \<Rightarrow> (exn \<Rightarrow> (world, 'v) coro) \<Rightarrow> exn + 'v \<Rightarrow> (world, 'v) coro" where
  "caught P h r = (case r of Inl e \<Rightarrow> if P e then h e else Throw e | Inr v \<Rightarrow> Return v)"

lemma eval_bindE: "eval (CoAwait p (let_through q)) = bindE (eval p) (\<lambda>v. eval (q v))"
  by (auto simp: fun_eq_iff bindE_def let_through_def split: sum.splits prod.splits)

lemma eval_catchE: "eval (CoAwait p (caught P h)) = catchE P (eval p) (\<lambda>e. eval (h e))"
  by (auto simp: fun_eq_iff catchE_def caught_def split: sum.splits prod.splits)

text \<open>
  C16: A task that is started runs to its end, with the value or the exception and the state of the
  function that its body denotes, in which awaiting another task is \<open>bindE\<close> when its exception is
  let through and \<open>catchE\<close> when it is caught; every task it awaited, directly or not, is destroyed.
\<close>

theorem tasks_refine_functions:
  "(\<exists>n f G. (task_step ^^ n) (task_start p s) = \<lparr>ma_frames = f # G, ma_current = None, ma_state = snd (eval p s)\<rparr>
       \<and> await_resume f = Some (fst (eval p s)) \<and> list_all is_destroyed G)
   \<and> eval (CoAwait p (let_through q)) = bindE (eval p) (\<lambda>v. eval (q v))
   \<and> eval (CoAwait p (caught P h)) = catchE P (eval p) (\<lambda>e. eval (h e))"
proof -
  obtain r s' where ev: "eval p s = (r, s')" by fastforce
  have fr: "[fresh_frame p None] ! 0 = fresh_frame p None" by simp
  from coroutine_runs [of 0 "[fresh_frame p None]", OF _ fr ev]
  obtain n G where "(task_step ^^ n) \<lparr>ma_frames = [fresh_frame p None], ma_current = Some 0, ma_state = s\<rparr>
      = \<lparr>ma_frames = finished r (fresh_frame p None) # G, ma_current = None, ma_state = s'\<rparr>" "list_all is_destroyed G"
    by (auto simp: reaches_def)
  moreover have "task_start p s = \<lparr>ma_frames = [fresh_frame p None], ma_current = Some 0, ma_state = s\<rparr>"
    by (simp add: task_start_def task_call_def fresh_frame_def)
  ultimately show ?thesis using ev await_finished [of r p None] eval_bindE eval_catchE by (metis fst_conv snd_conv)
qed

end
