(* ===== verification/Diagnostics.thy ===== *)
theory Diagnostics
  imports Text
begin

text \<open>
  What the program says when something goes wrong: the texts of its error categories and
  exceptions (Discord/Exception/*.cpp, Gateway/ZlibError.cpp, AppCmdInteraction.cpp, Gateway.h),
  the lines of the gateway (GatewayEvents.cpp, GatewayImpl.cpp), and the console and the log file
  they are printed to (Discord/Utils/Utils.cpp).
\<close>

section \<open>Error categories\<close>

definition discord_message :: "int \<Rightarrow> string" where
  "discord_message ec = (if ec = 0 then ''No error'' else ''Discord error '' @ to_dec_int (if ec < 0 then 0 else ec))"

definition http_message :: "int \<Rightarrow> string" where
  "http_message ec =
     (if ec = 200 then ''The request completed successfully''
      else if ec = 201 then ''The entity was created successfully''
      else if ec = 204 then ''The request completed successfully but returned no content''
      else if ec = 304 then ''The entity was not modified (no action was taken)''
      else if ec = 400 then ''The request was improperly formatted, or the server couldn't understand it''
      else if ec = 401 then ''The Authorization header was missing or invalid''
      else if ec = 403 then ''The Authorization token you passed did not have permission to the resource''
      else if ec = 404 then ''The resource at the location specified doesn't exist''
      else if ec = 405 then ''The HTTP method used is not valid for the location specified''
      else if ec = 429 then ''You are being rate limited''
      else if ec = 502 then ''There was not a gateway available to process your request''
      else if 500 \<le> ec \<and> ec \<le> 599 then ''The server had an error processing your request''
      else ''Unexpected status code '' @ to_dec_int ec)"

text \<open>The text of the compression library, when it has one.\<close>

definition zlib_message :: "(int \<Rightarrow> string option) \<Rightarrow> int \<Rightarrow> string" where
  "zlib_message zError ev =
     (case zError ev of
        Some (c # cs) \<Rightarrow> c # cs
      | _ \<Rightarrow> if ev = 0 then ''no error'' else ''unknown zlib error '' @ to_dec_int ev)"

section \<open>The details of a Discord error\<close>

text \<open>
  The details are serialised into a buffer of 256 bytes that is doubled until everything fits. The
  serialiser writes as much of what is left as there is room for, and knows when it is done.
\<close>

definition serializer_read :: "nat \<Rightarrow> string \<Rightarrow> string \<times> string" where
  "serializer_read n left = (take n left, drop n left)"

function read_errors :: "nat \<Rightarrow> string \<Rightarrow> string \<Rightarrow> string" where
  "read_errors capacity buf left =
     (case serializer_read (capacity - length buf) left of
        (part, left') \<Rightarrow>
          if left' = [] \<or> capacity = 0 then buf @ part
          else read_errors (capacity * 2) (buf @ part) left')"
  by pat_completeness auto
termination
  by (relation "measures [\<lambda>(c, b, l). length l, \<lambda>(c, b, l). length b + 1 - c]") (auto simp: serializer_read_def)

declare read_errors.simps [simp del]

text \<open>The text of the details and, without any, \<open>null\<close>.\<close>

definition discord_errors :: "string option \<Rightarrow> string" where
  "discord_errors details = (case details of None \<Rightarrow> ''null'' | Some s \<Rightarrow> read_errors 256 [] s)"

lemma read_errors_all: "0 < capacity \<Longrightarrow> read_errors capacity buf left = buf @ left"
proof (induction capacity buf left rule: read_errors.induct)
  case (1 capacity buf left)
  show ?case
  proof (cases "drop (capacity - length buf) left = []")
    case True
    then show ?thesis by (subst read_errors.simps) (simp add: serializer_read_def)
  next
    case False
    with 1 have "read_errors (capacity * 2) (buf @ take (capacity - length buf) left) (drop (capacity - length buf) left)
        = buf @ left" by (simp add: serializer_read_def)
    with False 1(2) show ?thesis by (subst read_errors.simps) (simp add: serializer_read_def)
  qed
qed

lemma discord_errors_complete: "discord_errors (Some s) = s"
  by (simp add: discord_errors_def read_errors_all)

section \<open>Texts of exceptions\<close>

definition option_type_name :: "int \<Rightarrow> string" where
  "option_type_name t =
     (if t = 1 then ''APP_CMD_OPT_SUB_COMMAND''
      else if t = 2 then ''APP_CMD_OPT_SUB_COMMAND_GROUP''
      else if t = 3 then ''APP_CMD_OPT_STRING''
      else if t = 4 then ''APP_CMD_OPT_INTEGER''
      else if t = 5 then ''APP_CMD_OPT_BOOLEAN''
      else if t = 6 then ''APP_CMD_OPT_USER''
      else if t = 7 then ''APP_CMD_OPT_CHANNEL''
      else if t = 8 then ''APP_CMD_OPT_ROLE''
      else if t = 9 then ''APP_CMD_OPT_MENTIONABLE''
      else ''APP_CMD_OPT_NUMBER'')"

definition option_type_error_text :: "int \<Rightarrow> string" where
  "option_type_error_text t = ''Option is not of type '' @ option_type_name t"

section \<open>Lines of the gateway\<close>

definition vowels :: string where "vowels = ''AEIOU''"

definition article_end :: "string \<Rightarrow> string" where
  "article_end event_name =
     (case event_name of [] \<Rightarrow> ''n'' | c # _ \<Rightarrow> if c \<in> set vowels then ''n '' else '' '')"

text \<open>An event failed while its payload was read or while it was handled; \<open>what\<close> is empty without a text.\<close>

definition event_failure_line :: "bool \<Rightarrow> string \<Rightarrow> string \<Rightarrow> string" where
  "event_failure_line handled event_name what =
     ''Unhandled exception while '' @ (if handled then ''handling a'' else ''processing a'') @ article_end event_name
     @ event_name @ '' event'' @ (if handled then [] else '' payload'') @ (if what \<noteq> [] then '': '' else []) @ what"

definition escape_line :: "string \<Rightarrow> string" where
  "escape_line what = ''An unhandled exception escaped main loop'' @ (if what \<noteq> [] then '': '' else ''.'') @ what"

definition signal_line :: "int \<Rightarrow> string" where
  "signal_line sig =
     (if sig = 2 then ''SIGINT'' else if sig = 20 then ''SIGTSTP'' else if sig = 15 then ''SIGTERM''
      else ''Signal '' @ to_dec_int sig) @ '' received, terminating...''"

text \<open>
  What is printed while the next try is waited for: at most 255 bytes of the text of the error and
  the seconds from 10 down to 1.
\<close>

definition retry_text :: "string \<Rightarrow> string" where
  "retry_text what = (if takeWhile (\<lambda>c. c \<noteq> CHR 0x00) what = [] then ''Connection error.'' else take 255 (takeWhile (\<lambda>c. c \<noteq> CHR 0x00) what))"

definition countdown_lines :: "string \<Rightarrow> string list" where
  "countdown_lines what =
     map (\<lambda>i. retry_text what @ '' Retrying in '' @ to_dec i @ ''s '') (rev [1..<11]) @ [retry_text what @ '' Retrying...     '']"

section \<open>Printing\<close>

text \<open>
  The lines are posted to a thread that prints one after the other. A line has a stream, a tag, a
  text and an end, and goes to the log file too or not.
\<close>

datatype stream = Stderr | Stdout

record printer =
  pr_strm :: stream
  pr_tag :: string
  pr_str :: string
  pr_nl :: char
  pr_log :: bool

definition newline :: char where "newline = CHR 0x0A"

definition print_err :: "string \<Rightarrow> char \<Rightarrow> printer" where
  "print_err s nl = \<lparr>pr_strm = Stderr, pr_tag = ''ERR'', pr_str = s, pr_nl = nl, pr_log = True\<rparr>"

definition print_log :: "string \<Rightarrow> char \<Rightarrow> printer" where
  "print_log s nl = \<lparr>pr_strm = Stdout, pr_tag = ''LOG'', pr_str = s, pr_nl = nl, pr_log = True\<rparr>"

definition print_msg :: "string \<Rightarrow> char \<Rightarrow> printer" where
  "print_msg s nl = \<lparr>pr_strm = Stdout, pr_tag = ''MSG'', pr_str = s, pr_nl = nl, pr_log = False\<rparr>"

definition print_dbg :: "string \<Rightarrow> char \<Rightarrow> printer" where
  "print_dbg s nl = \<lparr>pr_strm = Stdout, pr_tag = ''DBG'', pr_str = s, pr_nl = nl, pr_log = False\<rparr>"

text \<open>What was printed, and the log file: its contents and whether it is open.\<close>

record console =
  co_err :: string
  co_out :: string
  co_file :: string
  co_open :: bool

text \<open>
  The outside: the local time as text, if there is one; whether the log file can be opened and
  whether writing to it succeeds.
\<close>

record print_answer =
  an_time :: "string option"
  an_open :: bool
  an_write :: bool

definition line_time :: "string option \<Rightarrow> string" where
  "line_time dt = (case dt of Some d \<Rightarrow> d @ '' ['' | None \<Rightarrow> replicate 21 CHR '' '' @ ''['')"

text \<open>The console gets the text up to its first zero byte.\<close>

definition console_line :: "string option \<Rightarrow> printer \<Rightarrow> string" where
  "console_line dt p = line_time dt @ pr_tag p @ ''] '' @ takeWhile (\<lambda>c. c \<noteq> CHR 0x00) (pr_str p) @ [pr_nl p]"

definition file_line :: "string option \<Rightarrow> printer \<Rightarrow> string" where
  "file_line dt p = line_time dt @ pr_tag p @ ''] '' @ pr_str p @ [newline]"

definition write_log :: "print_answer \<Rightarrow> printer \<Rightarrow> console \<Rightarrow> console" where
  "write_log a p c =
     (if \<not> co_open c \<and> \<not> an_open a then c
      else if an_write a then c\<lparr>co_file := co_file c @ file_line (an_time a) p, co_open := True\<rparr>
      else c\<lparr>co_open := False\<rparr>)"

definition run_printer :: "print_answer \<times> printer \<Rightarrow> console \<Rightarrow> console" where
  "run_printer ap c =
     (case ap of (a, p) \<Rightarrow>
        let line = console_line (an_time a) p;
            c1 = (case pr_strm p of
                    Stderr \<Rightarrow> c\<lparr>co_err := co_err c @ line\<rparr>
                  | Stdout \<Rightarrow> c\<lparr>co_out := co_out c @ line\<rparr>)
        in if pr_log p then write_log a p c1 else c1)"

definition run_printers :: "(print_answer \<times> printer) list \<Rightarrow> console \<Rightarrow> console" where
  "run_printers aps c = fold run_printer aps c"

definition console_start :: console where
  "console_start = \<lparr>co_err = [], co_out = [], co_file = [], co_open = False\<rparr>"

text \<open>Which lines the log file gets: those for it for which it was open or could be opened, and written.\<close>

fun logged :: "bool \<Rightarrow> (print_answer \<times> printer) list \<Rightarrow> string list" where
  "logged is_open [] = []"
| "logged is_open ((a, p) # aps) =
     (if \<not> pr_log p \<or> \<not> is_open \<and> \<not> an_open a then logged is_open aps
      else if an_write a then file_line (an_time a) p # logged True aps
      else logged False aps)"

lemma run_printers_log:
  "co_file (run_printers aps c) = co_file c @ concat (logged (co_open c) aps)"
proof (induction aps arbitrary: c)
  case (Cons ap aps)
  obtain a p where ap: "ap = (a, p)" by fastforce
  have fields: "co_file (case s of Stderr \<Rightarrow> c\<lparr>co_err := x\<rparr> | Stdout \<Rightarrow> c\<lparr>co_out := y\<rparr>) = co_file c"
    "co_open (case s of Stderr \<Rightarrow> c\<lparr>co_err := x\<rparr> | Stdout \<Rightarrow> c\<lparr>co_out := y\<rparr>) = co_open c" for s x y
    by (simp_all split: stream.split)
  show ?case using Cons [of "run_printer ap c"]
    by (simp add: ap run_printers_def run_printer_def write_log_def Let_def fields)
qed (simp add: run_printers_def)

lemma run_printers_console:
  "co_err (run_printers aps c) = co_err c @ concat (map (\<lambda>(a, p). console_line (an_time a) p) (filter (\<lambda>(a, p). pr_strm p = Stderr) aps))"
  "co_out (run_printers aps c) = co_out c @ concat (map (\<lambda>(a, p). console_line (an_time a) p) (filter (\<lambda>(a, p). pr_strm p = Stdout) aps))"
proof -
  have step: "co_err (run_printer (a, p) c) = co_err c @ (if pr_strm p = Stderr then console_line (an_time a) p else [])"
    "co_out (run_printer (a, p) c) = co_out c @ (if pr_strm p = Stdout then console_line (an_time a) p else [])" for a p c
    by (simp_all add: run_printer_def write_log_def Let_def split: stream.split)
  show "co_err (run_printers aps c) = co_err c @ concat (map (\<lambda>(a, p). console_line (an_time a) p) (filter (\<lambda>(a, p). pr_strm p = Stderr) aps))"
    by (induction aps arbitrary: c) (auto simp: run_printers_def step)
  show "co_out (run_printers aps c) = co_out c @ concat (map (\<lambda>(a, p). console_line (an_time a) p) (filter (\<lambda>(a, p). pr_strm p = Stdout) aps))"
    by (induction aps arbitrary: c) (auto simp: run_printers_def step)
qed

text \<open>When the log file can be opened and written, it has exactly the lines of errors and of the log, in their order.\<close>

lemma logged_all:
  "list_all (\<lambda>(a, p). an_open a \<and> an_write a) aps \<Longrightarrow>
     logged b aps = map (\<lambda>(a, p). file_line (an_time a) p) (filter (\<lambda>(a, p). pr_log p) aps)"
  by (induction b aps rule: logged.induct) auto

end
