(* ===== verification/Builders.thy ===== *)
theory Builders
  imports Message
begin

text \<open>
  The operations by which embeds, their parts, components and messages are put together
  (Discord/Objects/Embed.h, Embed/*.h, Component/*.h, Message.h): setters, which return the object
  and are chained, emplacers, resetters and movers. What is left in a member that was moved from
  is not specified for texts and vectors, so it is an argument of the mover; an optional keeps
  holding something. An emplacer without arguments empties the member and is called \<open>Clear\<close> here.
\<close>

section \<open>Members\<close>

text \<open>
  What a setter promises: the member is what was given last, whatever was given before, and a
  resetter makes it what it was in a new object.
\<close>

locale attribute =
  fixes get :: "'s \<Rightarrow> 'b"
    and emplace :: "'a \<Rightarrow> 's \<Rightarrow> 's"
    and inj :: "'a \<Rightarrow> 'b"
  assumes get_emplace: "get (emplace x s) = inj x"
    and emplace_twice: "emplace x (emplace y s) = emplace x s"
begin

lemma last_wins: "fold emplace (xs @ [x]) s = emplace x s"
  by (induction xs arbitrary: s) (simp_all add: emplace_twice)

lemma get_last: "get (fold emplace (xs @ [x]) s) = inj x"
  by (simp only: last_wins get_emplace)

end

locale resettable = attribute get emplace inj
  for get :: "'s \<Rightarrow> 'b" and emplace :: "'a \<Rightarrow> 's \<Rightarrow> 's" and inj :: "'a \<Rightarrow> 'b" +
  fixes reset :: "'s \<Rightarrow> 's"
    and default :: 'b
  assumes get_reset: "get (reset s) = default"
    and reset_emplace: "reset (emplace x s) = reset s"
    and emplace_reset: "emplace x (reset s) = emplace x s"
begin

lemma reset_fold: "reset (fold emplace xs s) = reset s"
  by (induction xs arbitrary: s) (simp_all add: reset_emplace)

lemma reset_last: "get (reset (fold emplace xs s)) = default"
  by (simp only: get_reset)

end

section \<open>Operations\<close>

subsection \<open>\<open>cEmbedAuthor\<close>\<close>

definition Author_MoveName :: "string \<Rightarrow> cEmbedAuthor \<Rightarrow> string \<times> cEmbedAuthor" where "Author_MoveName left e = (ea_name e, e\<lparr>ea_name := left\<rparr>)"
definition Author_MoveUrl :: "string \<Rightarrow> cEmbedAuthor \<Rightarrow> string \<times> cEmbedAuthor" where "Author_MoveUrl left e = (ea_url e, e\<lparr>ea_url := left\<rparr>)"
definition Author_MoveIconUrl :: "string \<Rightarrow> cEmbedAuthor \<Rightarrow> string \<times> cEmbedAuthor" where "Author_MoveIconUrl left e = (ea_icon_url e, e\<lparr>ea_icon_url := left\<rparr>)"
definition Author_MoveProxyIconUrl :: "string \<Rightarrow> cEmbedAuthor \<Rightarrow> string \<times> cEmbedAuthor" where "Author_MoveProxyIconUrl left e = (ea_proxy_icon_url e, e\<lparr>ea_proxy_icon_url := left\<rparr>)"
definition Author_ResetUrl :: "cEmbedAuthor \<Rightarrow> cEmbedAuthor" where "Author_ResetUrl e = e\<lparr>ea_url := []\<rparr>"
definition Author_ResetIconUrl :: "cEmbedAuthor \<Rightarrow> cEmbedAuthor" where "Author_ResetIconUrl e = e\<lparr>ea_icon_url := []\<rparr>"
definition Author_ClearName :: "cEmbedAuthor \<Rightarrow> cEmbedAuthor" where "Author_ClearName e = e\<lparr>ea_name := []\<rparr>"
definition Author_ClearUrl :: "cEmbedAuthor \<Rightarrow> cEmbedAuthor" where "Author_ClearUrl e = e\<lparr>ea_url := []\<rparr>"
definition Author_ClearIconUrl :: "cEmbedAuthor \<Rightarrow> cEmbedAuthor" where "Author_ClearIconUrl e = e\<lparr>ea_icon_url := []\<rparr>"
definition Author_EmplaceName :: "string \<Rightarrow> cEmbedAuthor \<Rightarrow> cEmbedAuthor" where "Author_EmplaceName x e = e\<lparr>ea_name := x\<rparr>"
definition Author_EmplaceUrl :: "string \<Rightarrow> cEmbedAuthor \<Rightarrow> cEmbedAuthor" where "Author_EmplaceUrl x e = e\<lparr>ea_url := x\<rparr>"
definition Author_EmplaceIconUrl :: "string \<Rightarrow> cEmbedAuthor \<Rightarrow> cEmbedAuthor" where "Author_EmplaceIconUrl x e = e\<lparr>ea_icon_url := x\<rparr>"
definition Author_SetName :: "string \<Rightarrow> cEmbedAuthor \<Rightarrow> cEmbedAuthor" where "Author_SetName x e = Author_EmplaceName x e"
definition Author_SetUrl :: "string \<Rightarrow> cEmbedAuthor \<Rightarrow> cEmbedAuthor" where "Author_SetUrl x e = Author_EmplaceUrl x e"
definition Author_SetIconUrl :: "string \<Rightarrow> cEmbedAuthor \<Rightarrow> cEmbedAuthor" where "Author_SetIconUrl x e = Author_EmplaceIconUrl x e"

lemmas Author_ops = Author_MoveName_def Author_MoveUrl_def Author_MoveIconUrl_def Author_MoveProxyIconUrl_def
  Author_ResetUrl_def Author_ResetIconUrl_def Author_ClearName_def Author_ClearUrl_def Author_ClearIconUrl_def
  Author_EmplaceName_def Author_EmplaceUrl_def Author_EmplaceIconUrl_def Author_SetName_def Author_SetUrl_def
  Author_SetIconUrl_def

subsection \<open>\<open>cEmbedField\<close>\<close>

definition Field_MoveName :: "string \<Rightarrow> cEmbedField \<Rightarrow> string \<times> cEmbedField" where "Field_MoveName left e = (ef_name e, e\<lparr>ef_name := left\<rparr>)"
definition Field_MoveValue :: "string \<Rightarrow> cEmbedField \<Rightarrow> string \<times> cEmbedField" where "Field_MoveValue left e = (ef_value e, e\<lparr>ef_value := left\<rparr>)"
definition Field_ResetInline :: "cEmbedField \<Rightarrow> cEmbedField" where "Field_ResetInline e = e\<lparr>ef_inline := False\<rparr>"
definition Field_ClearName :: "cEmbedField \<Rightarrow> cEmbedField" where "Field_ClearName e = e\<lparr>ef_name := []\<rparr>"
definition Field_ClearValue :: "cEmbedField \<Rightarrow> cEmbedField" where "Field_ClearValue e = e\<lparr>ef_value := []\<rparr>"
definition Field_EmplaceName :: "string \<Rightarrow> cEmbedField \<Rightarrow> cEmbedField" where "Field_EmplaceName x e = e\<lparr>ef_name := x\<rparr>"
definition Field_EmplaceValue :: "string \<Rightarrow> cEmbedField \<Rightarrow> cEmbedField" where "Field_EmplaceValue x e = e\<lparr>ef_value := x\<rparr>"
definition Field_SetName :: "string \<Rightarrow> cEmbedField \<Rightarrow> cEmbedField" where "Field_SetName x e = Field_EmplaceName x e"
definition Field_SetValue :: "string \<Rightarrow> cEmbedField \<Rightarrow> cEmbedField" where "Field_SetValue x e = Field_EmplaceValue x e"
definition Field_SetInline :: "bool \<Rightarrow> cEmbedField \<Rightarrow> cEmbedField" where "Field_SetInline x e = e\<lparr>ef_inline := x\<rparr>"

lemmas Field_ops = Field_MoveName_def Field_MoveValue_def Field_ResetInline_def Field_ClearName_def
  Field_ClearValue_def Field_EmplaceName_def Field_EmplaceValue_def Field_SetName_def Field_SetValue_def
  Field_SetInline_def

subsection \<open>\<open>cEmbedFooter\<close>\<close>

definition Footer_MoveText :: "string \<Rightarrow> cEmbedFooter \<Rightarrow> string \<times> cEmbedFooter" where "Footer_MoveText left e = (eo_text e, e\<lparr>eo_text := left\<rparr>)"
definition Footer_MoveIconUrl :: "string \<Rightarrow> cEmbedFooter \<Rightarrow> string \<times> cEmbedFooter" where "Footer_MoveIconUrl left e = (eo_icon_url e, e\<lparr>eo_icon_url := left\<rparr>)"
definition Footer_MoveProxyIconUrl :: "string \<Rightarrow> cEmbedFooter \<Rightarrow> string \<times> cEmbedFooter" where "Footer_MoveProxyIconUrl left e = (eo_proxy_icon_url e, e\<lparr>eo_proxy_icon_url := left\<rparr>)"
definition Footer_ResetIconUrl :: "cEmbedFooter \<Rightarrow> cEmbedFooter" where "Footer_ResetIconUrl e = e\<lparr>eo_icon_url := []\<rparr>"
definition Footer_ClearText :: "cEmbedFooter \<Rightarrow> cEmbedFooter" where "Footer_ClearText e = e\<lparr>eo_text := []\<rparr>"
definition Footer_ClearIconUrl :: "cEmbedFooter \<Rightarrow> cEmbedFooter" where "Footer_ClearIconUrl e = e\<lparr>eo_icon_url := []\<rparr>"
definition Footer_EmplaceText :: "string \<Rightarrow> cEmbedFooter \<Rightarrow> cEmbedFooter" where "Footer_EmplaceText x e = e\<lparr>eo_text := x\<rparr>"
definition Footer_EmplaceIconUrl :: "string \<Rightarrow> cEmbedFooter \<Rightarrow> cEmbedFooter" where "Footer_EmplaceIconUrl x e = e\<lparr>eo_icon_url := x\<rparr>"
definition Footer_SetText :: "string \<Rightarrow> cEmbedFooter \<Rightarrow> cEmbedFooter" where "Footer_SetText x e = Footer_EmplaceText x e"
definition Footer_SetIconUrl :: "string \<Rightarrow> cEmbedFooter \<Rightarrow> cEmbedFooter" where "Footer_SetIconUrl x e = Footer_EmplaceIconUrl x e"

lemmas Footer_ops = Footer_MoveText_def Footer_MoveIconUrl_def Footer_MoveProxyIconUrl_def
  Footer_ResetIconUrl_def Footer_ClearText_def Footer_ClearIconUrl_def Footer_EmplaceText_def
  Footer_EmplaceIconUrl_def Footer_SetText_def Footer_SetIconUrl_def

subsection \<open>\<open>cEmbedMedia\<close>\<close>

definition Media_MoveUrl :: "string \<Rightarrow> cEmbedMedia \<Rightarrow> string \<times> cEmbedMedia" where "Media_MoveUrl left e = (ei_url e, e\<lparr>ei_url := left\<rparr>)"
definition Media_MoveProxyUrl :: "string \<Rightarrow> cEmbedMedia \<Rightarrow> string \<times> cEmbedMedia" where "Media_MoveProxyUrl left e = (ei_proxy_url e, e\<lparr>ei_proxy_url := left\<rparr>)"
definition Media_ClearUrl :: "cEmbedMedia \<Rightarrow> cEmbedMedia" where "Media_ClearUrl e = e\<lparr>ei_url := []\<rparr>"
definition Media_EmplaceUrl :: "string \<Rightarrow> cEmbedMedia \<Rightarrow> cEmbedMedia" where "Media_EmplaceUrl x e = e\<lparr>ei_url := x\<rparr>"
definition Media_SetUrl :: "string \<Rightarrow> cEmbedMedia \<Rightarrow> cEmbedMedia" where "Media_SetUrl x e = Media_EmplaceUrl x e"

lemmas Media_ops = Media_MoveUrl_def Media_MoveProxyUrl_def Media_ClearUrl_def Media_EmplaceUrl_def
  Media_SetUrl_def

subsection \<open>\<open>cEmbed\<close>\<close>

definition Embed_MoveTitle :: "string \<Rightarrow> cEmbed \<Rightarrow> string \<times> cEmbed" where "Embed_MoveTitle left e = (em_title e, e\<lparr>em_title := left\<rparr>)"
definition Embed_MoveDescription :: "string \<Rightarrow> cEmbed \<Rightarrow> string \<times> cEmbed" where "Embed_MoveDescription left e = (em_description e, e\<lparr>em_description := left\<rparr>)"
definition Embed_MoveUrl :: "string \<Rightarrow> cEmbed \<Rightarrow> string \<times> cEmbed" where "Embed_MoveUrl left e = (em_url e, e\<lparr>em_url := left\<rparr>)"
definition Embed_MoveThumbnail :: "cEmbedMedia \<Rightarrow> cEmbed \<Rightarrow> cEmbedMedia option \<times> cEmbed" where "Embed_MoveThumbnail left e = (em_thumbnail e, e\<lparr>em_thumbnail := map_option (\<lambda>_. left) (em_thumbnail e)\<rparr>)"
definition Embed_MoveImage :: "cEmbedMedia \<Rightarrow> cEmbed \<Rightarrow> cEmbedMedia option \<times> cEmbed" where "Embed_MoveImage left e = (em_image e, e\<lparr>em_image := map_option (\<lambda>_. left) (em_image e)\<rparr>)"
definition Embed_MoveVideo :: "cEmbedMedia \<Rightarrow> cEmbed \<Rightarrow> cEmbedMedia option \<times> cEmbed" where "Embed_MoveVideo left e = (em_video e, e\<lparr>em_video := map_option (\<lambda>_. left) (em_video e)\<rparr>)"
definition Embed_MoveFooter :: "cEmbedFooter \<Rightarrow> cEmbed \<Rightarrow> cEmbedFooter option \<times> cEmbed" where "Embed_MoveFooter left e = (em_footer e, e\<lparr>em_footer := map_option (\<lambda>_. left) (em_footer e)\<rparr>)"
definition Embed_MoveAuthor :: "cEmbedAuthor \<Rightarrow> cEmbed \<Rightarrow> cEmbedAuthor option \<times> cEmbed" where "Embed_MoveAuthor left e = (em_author e, e\<lparr>em_author := map_option (\<lambda>_. left) (em_author e)\<rparr>)"
definition Embed_MoveFields :: "cEmbedField list \<Rightarrow> cEmbed \<Rightarrow> cEmbedField list \<times> cEmbed" where "Embed_MoveFields left e = (em_fields e, e\<lparr>em_fields := left\<rparr>)"
definition Embed_ResetColor :: "cEmbed \<Rightarrow> cEmbed" where "Embed_ResetColor e = e\<lparr>em_color := 0\<rparr>"
definition Embed_ResetTitle :: "cEmbed \<Rightarrow> cEmbed" where "Embed_ResetTitle e = e\<lparr>em_title := []\<rparr>"
definition Embed_ResetDescription :: "cEmbed \<Rightarrow> cEmbed" where "Embed_ResetDescription e = e\<lparr>em_description := []\<rparr>"
definition Embed_ResetUrl :: "cEmbed \<Rightarrow> cEmbed" where "Embed_ResetUrl e = e\<lparr>em_url := []\<rparr>"
definition Embed_ResetThumbnail :: "cEmbed \<Rightarrow> cEmbed" where "Embed_ResetThumbnail e = e\<lparr>em_thumbnail := None\<rparr>"
definition Embed_ResetImage :: "cEmbed \<Rightarrow> cEmbed" where "Embed_ResetImage e = e\<lparr>em_image := None\<rparr>"
definition Embed_ResetFooter :: "cEmbed \<Rightarrow> cEmbed" where "Embed_ResetFooter e = e\<lparr>em_footer := None\<rparr>"
definition Embed_ResetAuthor :: "cEmbed \<Rightarrow> cEmbed" where "Embed_ResetAuthor e = e\<lparr>em_author := None\<rparr>"
definition Embed_ResetTimestamp :: "cEmbed \<Rightarrow> cEmbed" where "Embed_ResetTimestamp e = e\<lparr>em_timestamp := 0\<rparr>"
definition Embed_ClearColor :: "cEmbed \<Rightarrow> cEmbed" where "Embed_ClearColor e = e\<lparr>em_color := 0\<rparr>"
definition Embed_ClearTitle :: "cEmbed \<Rightarrow> cEmbed" where "Embed_ClearTitle e = e\<lparr>em_title := []\<rparr>"
definition Embed_ClearDescription :: "cEmbed \<Rightarrow> cEmbed" where "Embed_ClearDescription e = e\<lparr>em_description := []\<rparr>"
definition Embed_ClearUrl :: "cEmbed \<Rightarrow> cEmbed" where "Embed_ClearUrl e = e\<lparr>em_url := []\<rparr>"
definition Embed_ClearFields :: "cEmbed \<Rightarrow> cEmbed" where "Embed_ClearFields e = e\<lparr>em_fields := []\<rparr>"
definition Embed_EmplaceColor :: "int \<Rightarrow> cEmbed \<Rightarrow> cEmbed" where "Embed_EmplaceColor x e = e\<lparr>em_color := x\<rparr>"
definition Embed_EmplaceTitle :: "string \<Rightarrow> cEmbed \<Rightarrow> cEmbed" where "Embed_EmplaceTitle x e = e\<lparr>em_title := x\<rparr>"
definition Embed_EmplaceDescription :: "string \<Rightarrow> cEmbed \<Rightarrow> cEmbed" where "Embed_EmplaceDescription x e = e\<lparr>em_description := x\<rparr>"
definition Embed_EmplaceUrl :: "string \<Rightarrow> cEmbed \<Rightarrow> cEmbed" where "Embed_EmplaceUrl x e = e\<lparr>em_url := x\<rparr>"
definition Embed_EmplaceThumbnail :: "cEmbedMedia \<Rightarrow> cEmbed \<Rightarrow> cEmbed" where "Embed_EmplaceThumbnail x e = e\<lparr>em_thumbnail := Some x\<rparr>"
definition Embed_EmplaceImage :: "cEmbedMedia \<Rightarrow> cEmbed \<Rightarrow> cEmbed" where "Embed_EmplaceImage x e = e\<lparr>em_image := Some x\<rparr>"
definition Embed_EmplaceFooter :: "cEmbedFooter \<Rightarrow> cEmbed \<Rightarrow> cEmbed" where "Embed_EmplaceFooter x e = e\<lparr>em_footer := Some x\<rparr>"
definition Embed_EmplaceAuthor :: "cEmbedAuthor \<Rightarrow> cEmbed \<Rightarrow> cEmbed" where "Embed_EmplaceAuthor x e = e\<lparr>em_author := Some x\<rparr>"
definition Embed_EmplaceFields :: "cEmbedField list \<Rightarrow> cEmbed \<Rightarrow> cEmbed" where "Embed_EmplaceFields x e = e\<lparr>em_fields := x\<rparr>"
definition Embed_SetUrl :: "string \<Rightarrow> cEmbed \<Rightarrow> cEmbed" where "Embed_SetUrl x e = Embed_EmplaceUrl x e"
definition Embed_SetThumbnail :: "cEmbedMedia \<Rightarrow> cEmbed \<Rightarrow> cEmbed" where "Embed_SetThumbnail x e = Embed_EmplaceThumbnail x e"

lemmas Embed_ops = Embed_MoveTitle_def Embed_MoveDescription_def Embed_MoveUrl_def Embed_MoveThumbnail_def
  Embed_MoveImage_def Embed_MoveVideo_def Embed_MoveFooter_def Embed_MoveAuthor_def Embed_MoveFields_def
  Embed_ResetColor_def Embed_ResetTitle_def Embed_ResetDescription_def Embed_ResetUrl_def
  Embed_ResetThumbnail_def Embed_ResetImage_def Embed_ResetFooter_def Embed_ResetAuthor_def
  Embed_ResetTimestamp_def Embed_ClearColor_def Embed_ClearTitle_def Embed_ClearDescription_def
  Embed_ClearUrl_def Embed_ClearFields_def Embed_EmplaceColor_def Embed_EmplaceTitle_def
  Embed_EmplaceDescription_def Embed_EmplaceUrl_def Embed_EmplaceThumbnail_def Embed_EmplaceImage_def
  Embed_EmplaceFooter_def Embed_EmplaceAuthor_def Embed_EmplaceFields_def Embed_SetUrl_def
  Embed_SetThumbnail_def

subsection \<open>\<open>cSelectOption\<close>\<close>

definition Option_MoveLabel :: "string \<Rightarrow> cSelectOption \<Rightarrow> string \<times> cSelectOption" where "Option_MoveLabel left e = (so_label e, e\<lparr>so_label := left\<rparr>)"
definition Option_MoveValue :: "string \<Rightarrow> cSelectOption \<Rightarrow> string \<times> cSelectOption" where "Option_MoveValue left e = (so_value e, e\<lparr>so_value := left\<rparr>)"
definition Option_MoveDescription :: "string \<Rightarrow> cSelectOption \<Rightarrow> string \<times> cSelectOption" where "Option_MoveDescription left e = (so_description e, e\<lparr>so_description := left\<rparr>)"
definition Option_ResetDescription :: "cSelectOption \<Rightarrow> cSelectOption" where "Option_ResetDescription e = e\<lparr>so_description := []\<rparr>"
definition Option_ResetEmoji :: "cSelectOption \<Rightarrow> cSelectOption" where "Option_ResetEmoji e = e\<lparr>so_emoji := None\<rparr>"
definition Option_ClearLabel :: "cSelectOption \<Rightarrow> cSelectOption" where "Option_ClearLabel e = e\<lparr>so_label := []\<rparr>"
definition Option_ClearValue :: "cSelectOption \<Rightarrow> cSelectOption" where "Option_ClearValue e = e\<lparr>so_value := []\<rparr>"
definition Option_ClearDescription :: "cSelectOption \<Rightarrow> cSelectOption" where "Option_ClearDescription e = e\<lparr>so_description := []\<rparr>"
definition Option_EmplaceLabel :: "string \<Rightarrow> cSelectOption \<Rightarrow> cSelectOption" where "Option_EmplaceLabel x e = e\<lparr>so_label := x\<rparr>"
definition Option_EmplaceValue :: "string \<Rightarrow> cSelectOption \<Rightarrow> cSelectOption" where "Option_EmplaceValue x e = e\<lparr>so_value := x\<rparr>"
definition Option_EmplaceDescription :: "string \<Rightarrow> cSelectOption \<Rightarrow> cSelectOption" where "Option_EmplaceDescription x e = e\<lparr>so_description := x\<rparr>"
definition Option_SetLabel :: "string \<Rightarrow> cSelectOption \<Rightarrow> cSelectOption" where "Option_SetLabel x e = Option_EmplaceLabel x e"
definition Option_SetValue :: "string \<Rightarrow> cSelectOption \<Rightarrow> cSelectOption" where "Option_SetValue x e = Option_EmplaceValue x e"
definition Option_SetDescription :: "string \<Rightarrow> cSelectOption \<Rightarrow> cSelectOption" where "Option_SetDescription x e = Option_EmplaceDescription x e"

lemmas Option_ops = Option_MoveLabel_def Option_MoveValue_def Option_MoveDescription_def
  Option_ResetDescription_def Option_ResetEmoji_def Option_ClearLabel_def Option_ClearValue_def
  Option_ClearDescription_def Option_EmplaceLabel_def Option_EmplaceValue_def Option_EmplaceDescription_def
  Option_SetLabel_def Option_SetValue_def Option_SetDescription_def

subsection \<open>\<open>cSelectMenu\<close>\<close>

definition Menu_MoveCustomId :: "string \<Rightarrow> cSelectMenu \<Rightarrow> string \<times> cSelectMenu" where "Menu_MoveCustomId left e = (sm_custom_id e, e\<lparr>sm_custom_id := left\<rparr>)"
definition Menu_MovePlaceholder :: "string \<Rightarrow> cSelectMenu \<Rightarrow> string \<times> cSelectMenu" where "Menu_MovePlaceholder left e = (sm_placeholder e, e\<lparr>sm_placeholder := left\<rparr>)"
definition Menu_MoveOptions :: "cSelectOption list \<Rightarrow> cSelectMenu \<Rightarrow> cSelectOption list \<times> cSelectMenu" where "Menu_MoveOptions left e = (sm_options e, e\<lparr>sm_options := left\<rparr>)"

lemmas Menu_ops = Menu_MoveCustomId_def Menu_MovePlaceholder_def Menu_MoveOptions_def

subsection \<open>\<open>cTextDisplay\<close>\<close>

definition Display_MoveContent :: "string \<Rightarrow> cTextDisplay \<Rightarrow> string \<times> cTextDisplay" where "Display_MoveContent left e = (td_content e, e\<lparr>td_content := left\<rparr>)"
definition Display_ClearContent :: "cTextDisplay \<Rightarrow> cTextDisplay" where "Display_ClearContent e = e\<lparr>td_content := []\<rparr>"
definition Display_EmplaceContent :: "string \<Rightarrow> cTextDisplay \<Rightarrow> cTextDisplay" where "Display_EmplaceContent x e = e\<lparr>td_content := x\<rparr>"
definition Display_SetContent :: "string \<Rightarrow> cTextDisplay \<Rightarrow> cTextDisplay" where "Display_SetContent x e = Display_EmplaceContent x e"

lemmas Display_ops = Display_MoveContent_def Display_ClearContent_def Display_EmplaceContent_def
  Display_SetContent_def

subsection \<open>\<open>cPartialTextInput\<close>\<close>

definition PartialInput_MoveValue :: "string \<Rightarrow> cPartialTextInput \<Rightarrow> string \<times> cPartialTextInput" where "PartialInput_MoveValue left e = (pti_value e, e\<lparr>pti_value := left\<rparr>)"

lemmas PartialInput_ops = PartialInput_MoveValue_def

subsection \<open>\<open>cTextInput\<close>\<close>

definition Input_ResetRequired :: "cTextInput \<Rightarrow> cTextInput" where "Input_ResetRequired e = e\<lparr>ti_required := True\<rparr>"
definition Input_ResetMinLength :: "cTextInput \<Rightarrow> cTextInput" where "Input_ResetMinLength e = e\<lparr>ti_min_length := 0\<rparr>"
definition Input_ResetMaxLength :: "cTextInput \<Rightarrow> cTextInput" where "Input_ResetMaxLength e = e\<lparr>ti_max_length := 4000\<rparr>"
definition Input_SetMinLength :: "u16 \<Rightarrow> cTextInput \<Rightarrow> cTextInput" where "Input_SetMinLength x e = e\<lparr>ti_min_length := x\<rparr>"
definition Input_SetMaxLength :: "u16 \<Rightarrow> cTextInput \<Rightarrow> cTextInput" where "Input_SetMaxLength x e = e\<lparr>ti_max_length := x\<rparr>"

lemmas Input_ops = Input_ResetRequired_def Input_ResetMinLength_def Input_ResetMaxLength_def
  Input_SetMinLength_def Input_SetMaxLength_def

subsection \<open>\<open>cMessageUpdate\<close>\<close>

definition Update_ResetContent :: "cMessageUpdate \<Rightarrow> cMessageUpdate" where "Update_ResetContent e = e\<lparr>up_content := None\<rparr>"
definition Update_ResetComponents :: "cMessageUpdate \<Rightarrow> cMessageUpdate" where "Update_ResetComponents e = e\<lparr>up_components := None\<rparr>"
definition Update_ResetEmbeds :: "cMessageUpdate \<Rightarrow> cMessageUpdate" where "Update_ResetEmbeds e = e\<lparr>up_embeds := None\<rparr>"
definition Update_SetContent :: "string \<Rightarrow> cMessageUpdate \<Rightarrow> cMessageUpdate" where "Update_SetContent x e = e\<lparr>up_content := Some x\<rparr>"
definition Update_SetComponents :: "layout list \<Rightarrow> cMessageUpdate \<Rightarrow> cMessageUpdate" where "Update_SetComponents x e = e\<lparr>up_components := Some x\<rparr>"
definition Update_SetEmbeds :: "cEmbed list \<Rightarrow> cMessageUpdate \<Rightarrow> cMessageUpdate" where "Update_SetEmbeds x e = e\<lparr>up_embeds := Some x\<rparr>"
definition Update_EmplaceComponents :: "layout list \<Rightarrow> cMessageUpdate \<Rightarrow> cMessageUpdate" where "Update_EmplaceComponents x e = e\<lparr>up_components := Some x\<rparr>"
definition Update_EmplaceEmbeds :: "cEmbed list \<Rightarrow> cMessageUpdate \<Rightarrow> cMessageUpdate" where "Update_EmplaceEmbeds x e = e\<lparr>up_embeds := Some x\<rparr>"

lemmas Update_ops = Update_ResetContent_def Update_ResetComponents_def Update_ResetEmbeds_def
  Update_SetContent_def Update_SetComponents_def Update_SetEmbeds_def Update_EmplaceComponents_def
  Update_EmplaceEmbeds_def

subsection \<open>\<open>cPartialMessage\<close>\<close>

definition Partial_ResetFlags :: "cPartialMessage \<Rightarrow> cPartialMessage" where "Partial_ResetFlags e = e\<lparr>p_flags := 0\<rparr>"
definition Partial_EmplaceFlags :: "u32 \<Rightarrow> cPartialMessage \<Rightarrow> cPartialMessage" where "Partial_EmplaceFlags x e = e\<lparr>p_flags := x\<rparr>"
definition Partial_MoveContent :: "string \<Rightarrow> cPartialMessage \<Rightarrow> string \<times> cPartialMessage" where "Partial_MoveContent left e = (p_content e, e\<lparr>p_content := left\<rparr>)"
definition Partial_MoveComponents :: "cActionRow list \<Rightarrow> cPartialMessage \<Rightarrow> cActionRow list \<times> cPartialMessage" where "Partial_MoveComponents left e = (p_components e, e\<lparr>p_components := left\<rparr>)"
definition Partial_MoveEmbeds :: "cEmbed list \<Rightarrow> cPartialMessage \<Rightarrow> cEmbed list \<times> cPartialMessage" where "Partial_MoveEmbeds left e = (p_embeds e, e\<lparr>p_embeds := left\<rparr>)"
definition Partial_ResetContent :: "cPartialMessage \<Rightarrow> cPartialMessage" where "Partial_ResetContent e = e\<lparr>p_content := []\<rparr>"
definition Partial_ResetComponents :: "cPartialMessage \<Rightarrow> cPartialMessage" where "Partial_ResetComponents e = e\<lparr>p_components := []\<rparr>"
definition Partial_ResetEmbeds :: "cPartialMessage \<Rightarrow> cPartialMessage" where "Partial_ResetEmbeds e = e\<lparr>p_embeds := []\<rparr>"
definition Partial_ClearContent :: "cPartialMessage \<Rightarrow> cPartialMessage" where "Partial_ClearContent e = e\<lparr>p_content := []\<rparr>"
definition Partial_ClearComponents :: "cPartialMessage \<Rightarrow> cPartialMessage" where "Partial_ClearComponents e = e\<lparr>p_components := []\<rparr>"
definition Partial_ClearEmbeds :: "cPartialMessage \<Rightarrow> cPartialMessage" where "Partial_ClearEmbeds e = e\<lparr>p_embeds := []\<rparr>"
definition Partial_EmplaceContent :: "string \<Rightarrow> cPartialMessage \<Rightarrow> cPartialMessage" where "Partial_EmplaceContent x e = e\<lparr>p_content := x\<rparr>"
definition Partial_EmplaceComponents :: "cActionRow list \<Rightarrow> cPartialMessage \<Rightarrow> cPartialMessage" where "Partial_EmplaceComponents x e = e\<lparr>p_components := x\<rparr>"
definition Partial_EmplaceEmbeds :: "cEmbed list \<Rightarrow> cPartialMessage \<Rightarrow> cPartialMessage" where "Partial_EmplaceEmbeds x e = e\<lparr>p_embeds := x\<rparr>"

lemmas Partial_ops = Partial_ResetFlags_def Partial_EmplaceFlags_def Partial_MoveContent_def
  Partial_MoveComponents_def Partial_MoveEmbeds_def Partial_ResetContent_def Partial_ResetComponents_def
  Partial_ResetEmbeds_def Partial_ClearContent_def Partial_ClearComponents_def Partial_ClearEmbeds_def
  Partial_EmplaceContent_def Partial_EmplaceComponents_def Partial_EmplaceEmbeds_def

subsection \<open>\<open>cPartialMessageV2\<close>\<close>

definition PartialV2_SetComponents :: "layout list \<Rightarrow> cPartialMessageV2 \<Rightarrow> cPartialMessageV2" where "PartialV2_SetComponents x e = e\<lparr>v2_components := x\<rparr>"

lemmas PartialV2_ops = PartialV2_SetComponents_def

subsection \<open>\<open>cMessage\<close>\<close>

text \<open>A message of the new components has no content, embeds or action rows to move.\<close>

definition Message_MoveContent :: "string \<Rightarrow> cMessage \<Rightarrow> string \<times> cMessage" where
  "Message_MoveContent left m =
     (case ms_data m of
        Legacy p \<Rightarrow> (case Partial_MoveContent left p of (x, p') \<Rightarrow> (x, m\<lparr>ms_data := Legacy p'\<rparr>))
      | V2 _ \<Rightarrow> ([], m))"

definition Message_MoveEmbeds :: "cEmbed list \<Rightarrow> cMessage \<Rightarrow> cEmbed list \<times> cMessage" where
  "Message_MoveEmbeds left m =
     (case ms_data m of
        Legacy p \<Rightarrow> (case Partial_MoveEmbeds left p of (x, p') \<Rightarrow> (x, m\<lparr>ms_data := Legacy p'\<rparr>))
      | V2 _ \<Rightarrow> ([], m))"

definition Message_MoveComponents :: "cActionRow list \<Rightarrow> cMessage \<Rightarrow> cActionRow list \<times> cMessage" where
  "Message_MoveComponents left m =
     (case ms_data m of
        Legacy p \<Rightarrow> (case Partial_MoveComponents left p of (x, p') \<Rightarrow> (x, m\<lparr>ms_data := Legacy p'\<rparr>))
      | V2 _ \<Rightarrow> ([], m))"

definition Message_GetFlags :: "cMessage \<Rightarrow> u32" where
  "Message_GetFlags m = (case ms_data m of Legacy p \<Rightarrow> p_flags p | V2 p \<Rightarrow> v2_flags p)"

lemma message_movers:
  "fst (Message_MoveContent l m) = GetContent m"
  "fst (Message_MoveEmbeds es m) = GetEmbeds m"
  "fst (Message_MoveComponents cs m) = GetComponents m"
  by (simp_all add: Message_MoveContent_def Message_MoveEmbeds_def Message_MoveComponents_def message_getters
      Partial_ops split: cMessageView.split)

subsection \<open>\<open>cButton\<close>\<close>

text \<open>
  A button has one text for its identifier or its address, depending on its style; it is dropped
  when the style changes from one kind to the other.
\<close>

definition Button_GetCustomId :: "cButton \<Rightarrow> string" where
  "Button_GetCustomId b = (if b_style b = Link then [] else b_custom_id_or_url b)"

definition Button_GetUrl :: "cButton \<Rightarrow> string" where
  "Button_GetUrl b = (if b_style b = Link then b_custom_id_or_url b else [])"

definition Button_MoveCustomId :: "string \<Rightarrow> cButton \<Rightarrow> string \<times> cButton" where
  "Button_MoveCustomId left b =
     (if b_style b = Link then ([], b) else (b_custom_id_or_url b, b\<lparr>b_custom_id_or_url := left\<rparr>))"

definition Button_MoveUrl :: "string \<Rightarrow> cButton \<Rightarrow> string \<times> cButton" where
  "Button_MoveUrl left b =
     (if b_style b = Link then (b_custom_id_or_url b, b\<lparr>b_custom_id_or_url := left\<rparr>) else ([], b))"

definition Button_MoveLabel :: "string \<Rightarrow> cButton \<Rightarrow> string \<times> cButton" where
  "Button_MoveLabel left b = (b_label b, b\<lparr>b_label := left\<rparr>)"

definition Button_SetStyle :: "eButtonStyle \<Rightarrow> cButton \<Rightarrow> cButton" where
  "Button_SetStyle style b =
     (let b1 = (if (b_style b \<noteq> Link) \<noteq> (style \<noteq> Link) then b\<lparr>b_custom_id_or_url := []\<rparr> else b)
      in b1\<lparr>b_style := style\<rparr>)"

definition Button_SetUrl :: "string \<Rightarrow> cButton \<Rightarrow> cButton" where
  "Button_SetUrl s b = (if b_style b = Link then b\<lparr>b_custom_id_or_url := s\<rparr> else b)"

definition Button_SetEmoji :: "cEmoji \<Rightarrow> cButton \<Rightarrow> cButton" where
  "Button_SetEmoji e b = b\<lparr>b_emoji := Some e\<rparr>"

lemmas Button_ops = Button_GetCustomId_def Button_GetUrl_def Button_MoveCustomId_def Button_MoveUrl_def
  Button_MoveLabel_def Button_SetStyle_def Button_SetUrl_def Button_SetEmoji_def SetCustomId_def SetLabel_def

datatype button_op =
    BStyle eButtonStyle
  | BCustomId string
  | BUrl string
  | BLabel string
  | BEmoji cEmoji

fun button_apply :: "button_op \<Rightarrow> cButton \<Rightarrow> cButton" where
  "button_apply (BStyle st) b = Button_SetStyle st b"
| "button_apply (BCustomId s) b = SetCustomId s b"
| "button_apply (BUrl s) b = Button_SetUrl s b"
| "button_apply (BLabel s) b = SetLabel s b"
| "button_apply (BEmoji e) b = Button_SetEmoji e b"

text \<open>An identifier never becomes an address or the other way round: each comes from its own setter.\<close>

lemma button_step:
  "Button_GetUrl (button_apply op b) \<in> {[], Button_GetUrl b} \<union> (case op of BUrl s \<Rightarrow> {s} | _ \<Rightarrow> {})"
  "Button_GetCustomId (button_apply op b) \<in> {[], Button_GetCustomId b} \<union> (case op of BCustomId s \<Rightarrow> {s} | _ \<Rightarrow> {})"
  by (cases op; simp add: Button_ops Let_def)+

lemma button_texts:
  "Button_GetUrl (fold button_apply ops b) \<in> {[], Button_GetUrl b} \<union> {s. BUrl s \<in> set ops}"
  "Button_GetCustomId (fold button_apply ops b) \<in> {[], Button_GetCustomId b} \<union> {s. BCustomId s \<in> set ops}"
proof (induction ops arbitrary: b)
  case (Cons op ops)
  case 1
  from Cons.IH(1) [of "button_apply op b"] button_step(1) [of op b] show ?case by (auto split: button_op.splits)
next
  case (Cons op ops)
  case 2
  from Cons.IH(2) [of "button_apply op b"] button_step(2) [of op b] show ?case by (auto split: button_op.splits)
qed simp_all

section \<open>Every member has a setter that keeps the laws\<close>

interpretation author_name: resettable ea_name Author_EmplaceName "\<lambda>x. x" Author_ClearName "[]"
  by unfold_locales (simp_all add: Author_EmplaceName_def Author_ClearName_def)

interpretation author_url: resettable ea_url Author_EmplaceUrl "\<lambda>x. x" Author_ResetUrl "[]"
  by unfold_locales (simp_all add: Author_EmplaceUrl_def Author_ResetUrl_def)

interpretation author_iconurl: resettable ea_icon_url Author_EmplaceIconUrl "\<lambda>x. x" Author_ResetIconUrl "[]"
  by unfold_locales (simp_all add: Author_EmplaceIconUrl_def Author_ResetIconUrl_def)

interpretation field_name: resettable ef_name Field_EmplaceName "\<lambda>x. x" Field_ClearName "[]"
  by unfold_locales (simp_all add: Field_EmplaceName_def Field_ClearName_def)

interpretation field_value: resettable ef_value Field_EmplaceValue "\<lambda>x. x" Field_ClearValue "[]"
  by unfold_locales (simp_all add: Field_EmplaceValue_def Field_ClearValue_def)

interpretation field_inline: resettable ef_inline Field_SetInline "\<lambda>x. x" Field_ResetInline "False"
  by unfold_locales (simp_all add: Field_SetInline_def Field_ResetInline_def)

interpretation footer_text: resettable eo_text Footer_EmplaceText "\<lambda>x. x" Footer_ClearText "[]"
  by unfold_locales (simp_all add: Footer_EmplaceText_def Footer_ClearText_def)

interpretation footer_iconurl: resettable eo_icon_url Footer_EmplaceIconUrl "\<lambda>x. x" Footer_ResetIconUrl "[]"
  by unfold_locales (simp_all add: Footer_EmplaceIconUrl_def Footer_ResetIconUrl_def)

interpretation media_url: resettable ei_url Media_EmplaceUrl "\<lambda>x. x" Media_ClearUrl "[]"
  by unfold_locales (simp_all add: Media_EmplaceUrl_def Media_ClearUrl_def)

interpretation embed_color: resettable em_color Embed_EmplaceColor "\<lambda>x. x" Embed_ResetColor "0"
  by unfold_locales (simp_all add: Embed_EmplaceColor_def Embed_ResetColor_def)

interpretation embed_title: resettable em_title Embed_EmplaceTitle "\<lambda>x. x" Embed_ResetTitle "[]"
  by unfold_locales (simp_all add: Embed_EmplaceTitle_def Embed_ResetTitle_def)

interpretation embed_description: resettable em_description Embed_EmplaceDescription "\<lambda>x. x" Embed_ResetDescription "[]"
  by unfold_locales (simp_all add: Embed_EmplaceDescription_def Embed_ResetDescription_def)

interpretation embed_url: resettable em_url Embed_EmplaceUrl "\<lambda>x. x" Embed_ResetUrl "[]"
  by unfold_locales (simp_all add: Embed_EmplaceUrl_def Embed_ResetUrl_def)

interpretation embed_fields: resettable em_fields Embed_EmplaceFields "\<lambda>x. x" Embed_ClearFields "[]"
  by unfold_locales (simp_all add: Embed_EmplaceFields_def Embed_ClearFields_def)

interpretation embed_thumbnail: resettable em_thumbnail Embed_EmplaceThumbnail Some Embed_ResetThumbnail "None"
  by unfold_locales (simp_all add: Embed_EmplaceThumbnail_def Embed_ResetThumbnail_def)

interpretation embed_image: resettable em_image Embed_EmplaceImage Some Embed_ResetImage "None"
  by unfold_locales (simp_all add: Embed_EmplaceImage_def Embed_ResetImage_def)

interpretation embed_footer: resettable em_footer Embed_EmplaceFooter Some Embed_ResetFooter "None"
  by unfold_locales (simp_all add: Embed_EmplaceFooter_def Embed_ResetFooter_def)

interpretation embed_author: resettable em_author Embed_EmplaceAuthor Some Embed_ResetAuthor "None"
  by unfold_locales (simp_all add: Embed_EmplaceAuthor_def Embed_ResetAuthor_def)

interpretation option_label: resettable so_label Option_EmplaceLabel "\<lambda>x. x" Option_ClearLabel "[]"
  by unfold_locales (simp_all add: Option_EmplaceLabel_def Option_ClearLabel_def)

interpretation option_value: resettable so_value Option_EmplaceValue "\<lambda>x. x" Option_ClearValue "[]"
  by unfold_locales (simp_all add: Option_EmplaceValue_def Option_ClearValue_def)

interpretation option_description: resettable so_description Option_EmplaceDescription "\<lambda>x. x" Option_ResetDescription "[]"
  by unfold_locales (simp_all add: Option_EmplaceDescription_def Option_ResetDescription_def)

interpretation display_content: resettable td_content Display_EmplaceContent "\<lambda>x. x" Display_ClearContent "[]"
  by unfold_locales (simp_all add: Display_EmplaceContent_def Display_ClearContent_def)

interpretation input_minlength: resettable ti_min_length Input_SetMinLength "\<lambda>x. x" Input_ResetMinLength "0"
  by unfold_locales (simp_all add: Input_SetMinLength_def Input_ResetMinLength_def)

interpretation input_maxlength: resettable ti_max_length Input_SetMaxLength "\<lambda>x. x" Input_ResetMaxLength "4000"
  by unfold_locales (simp_all add: Input_SetMaxLength_def Input_ResetMaxLength_def)

interpretation update_content: resettable up_content Update_SetContent Some Update_ResetContent "None"
  by unfold_locales (simp_all add: Update_SetContent_def Update_ResetContent_def)

interpretation update_components: resettable up_components Update_EmplaceComponents Some Update_ResetComponents "None"
  by unfold_locales (simp_all add: Update_EmplaceComponents_def Update_ResetComponents_def)

interpretation update_embeds: resettable up_embeds Update_EmplaceEmbeds Some Update_ResetEmbeds "None"
  by unfold_locales (simp_all add: Update_EmplaceEmbeds_def Update_ResetEmbeds_def)

interpretation partial_flags: resettable p_flags Partial_EmplaceFlags "\<lambda>x. x" Partial_ResetFlags "0"
  by unfold_locales (simp_all add: Partial_EmplaceFlags_def Partial_ResetFlags_def)

interpretation partial_content: resettable p_content Partial_EmplaceContent "\<lambda>x. x" Partial_ResetContent "[]"
  by unfold_locales (simp_all add: Partial_EmplaceContent_def Partial_ResetContent_def)

interpretation partial_components: resettable p_components Partial_EmplaceComponents "\<lambda>x. x" Partial_ResetComponents "[]"
  by unfold_locales (simp_all add: Partial_EmplaceComponents_def Partial_ResetComponents_def)

interpretation partial_embeds: resettable p_embeds Partial_EmplaceEmbeds "\<lambda>x. x" Partial_ResetEmbeds "[]"
  by unfold_locales (simp_all add: Partial_EmplaceEmbeds_def Partial_ResetEmbeds_def)

interpretation partialv2_components: attribute v2_components PartialV2_SetComponents "\<lambda>x. x"
  by unfold_locales (simp_all add: PartialV2_SetComponents_def)

section \<open>Chains of setters\<close>

text \<open>What the calls on an embed can be, and what the last call of a kind gave.\<close>

datatype embed_op =
    WithColor int
  | WithTitle string
  | WithDescription string
  | WithUrl string
  | WithTimestamp int
  | WithFields "cEmbedField list"
  | WithThumbnail cEmbedMedia
  | WithImage cEmbedMedia
  | WithFooter cEmbedFooter
  | WithAuthor cEmbedAuthor

fun embed_apply :: "embed_op \<Rightarrow> cEmbed \<Rightarrow> cEmbed" where
  "embed_apply (WithColor c) e = SetColor c e"
| "embed_apply (WithTitle s) e = SetTitle s e"
| "embed_apply (WithDescription s) e = SetDescription s e"
| "embed_apply (WithUrl s) e = Embed_SetUrl s e"
| "embed_apply (WithTimestamp t) e = SetTimestamp t e"
| "embed_apply (WithFields fs) e = SetFields fs e"
| "embed_apply (WithThumbnail m) e = Embed_SetThumbnail m e"
| "embed_apply (WithImage m) e = Embed_EmplaceImage m e"
| "embed_apply (WithFooter f) e = Embed_EmplaceFooter f e"
| "embed_apply (WithAuthor a) e = Embed_EmplaceAuthor a e"

definition last_of :: "('o \<Rightarrow> 'b option) \<Rightarrow> 'o list \<Rightarrow> 'b \<Rightarrow> 'b" where
  "last_of f ops d = (case List.map_filter f ops of [] \<Rightarrow> d | xs \<Rightarrow> last xs)"

lemma last_of_simps [simp]:
  "last_of f [] d = d"
  "last_of f (op # ops) d = last_of f ops (case f op of None \<Rightarrow> d | Some x \<Rightarrow> x)"
  by (auto simp: last_of_def map_filter_simps split: option.splits list.splits)

definition given_color where "given_color op = (case op of WithColor c \<Rightarrow> Some c | _ \<Rightarrow> None)"
definition given_title where "given_title op = (case op of WithTitle s \<Rightarrow> Some s | _ \<Rightarrow> None)"
definition given_description where "given_description op = (case op of WithDescription s \<Rightarrow> Some s | _ \<Rightarrow> None)"
definition given_url where "given_url op = (case op of WithUrl s \<Rightarrow> Some s | _ \<Rightarrow> None)"
definition given_timestamp where "given_timestamp op = (case op of WithTimestamp t \<Rightarrow> Some t | _ \<Rightarrow> None)"
definition given_fields where "given_fields op = (case op of WithFields fs \<Rightarrow> Some fs | _ \<Rightarrow> None)"
definition given_thumbnail where "given_thumbnail op = (case op of WithThumbnail m \<Rightarrow> Some (Some m) | _ \<Rightarrow> None)"
definition given_image where "given_image op = (case op of WithImage m \<Rightarrow> Some (Some m) | _ \<Rightarrow> None)"
definition given_footer where "given_footer op = (case op of WithFooter f \<Rightarrow> Some (Some f) | _ \<Rightarrow> None)"
definition given_author where "given_author op = (case op of WithAuthor a \<Rightarrow> Some (Some a) | _ \<Rightarrow> None)"

lemmas given_defs = given_color_def given_title_def given_description_def given_url_def given_timestamp_def
  given_fields_def given_thumbnail_def given_image_def given_footer_def given_author_def

text \<open>
  A chain of calls makes the embed whose members are what the last call for each of them gave, so
  neither their order nor what was overwritten matters.
\<close>

lemma embed_chain:
  "fold embed_apply ops e =
     \<lparr>em_color = last_of given_color ops (em_color e), em_title = last_of given_title ops (em_title e),
      em_description = last_of given_description ops (em_description e), em_url = last_of given_url ops (em_url e),
      em_timestamp = last_of given_timestamp ops (em_timestamp e), em_fields = last_of given_fields ops (em_fields e),
      em_thumbnail = last_of given_thumbnail ops (em_thumbnail e), em_image = last_of given_image ops (em_image e),
      em_video = em_video e, em_footer = last_of given_footer ops (em_footer e),
      em_author = last_of given_author ops (em_author e)\<rparr>"
proof (induction ops arbitrary: e)
  case (Cons op ops)
  show ?case
    by (cases op; simp only: fold_Cons comp_apply Cons.IH embed_apply.simps; simp add: given_defs embed_setters Embed_ops)
qed simp

end
