(* ===== verification/Flags.thy ===== *)
theory Flags
  imports Permission
begin

text \<open>
  The operators of \<open>cFlagSet\<close> (Discord/Common/FlagSet.h) and how its tests go with them, the
  intents with which the gateway is told what to send (Discord/Gateway/GatewayIntents.h,
  GreekBot/GreekBot.h) and the flags of an application (Discord/Gateway/Application.h).
\<close>

section \<open>Operators\<close>

definition flags_eq :: "'a::len word \<Rightarrow> 'a word \<Rightarrow> bool" where "flags_eq a b \<longleftrightarrow> a = b"
definition flags_not :: "'a::len word \<Rightarrow> 'a word" where "flags_not a = NOT a"
definition flags_and :: "'a::len word \<Rightarrow> 'a word \<Rightarrow> 'a word" where "flags_and a b = a AND b"
definition flags_or :: "'a::len word \<Rightarrow> 'a word \<Rightarrow> 'a word" where "flags_or a b = a OR b"
definition flags_xor :: "'a::len word \<Rightarrow> 'a word \<Rightarrow> 'a word" where "flags_xor a b = a XOR b"

lemmas flags_ops = flags_eq_def flags_not_def flags_and_def flags_or_def flags_xor_def
lemmas flags_tests = TestAll_def TestAny_def TestNone_def flags_Any_def flags_None_def

lemma test_none_any: "TestNone a f \<longleftrightarrow> \<not> TestAny a f"
  by (simp add: flags_tests)

lemma test_any_or: "TestAny a (flags_or f g) \<longleftrightarrow> TestAny a f \<or> TestAny a g"
  by (auto simp: flags_tests flags_ops bit_eq_iff bit_simps)

lemma test_none_or: "TestNone a (flags_or f g) \<longleftrightarrow> TestNone a f \<and> TestNone a g"
  by (simp add: test_none_any test_any_or)

lemma test_all_or: "TestAll a (flags_or f g) \<longleftrightarrow> TestAll a f \<and> TestAll a g"
  by (auto simp: flags_tests flags_ops bit_eq_iff bit_simps)

lemma test_all_and: "TestAll (flags_and a b) f \<longleftrightarrow> TestAll a f \<and> TestAll b f"
  by (auto simp: flags_tests flags_ops bit_eq_iff bit_simps)

lemma test_all_none_not: "TestAll (flags_not a) f \<longleftrightarrow> TestNone a f"
  by (auto simp: flags_tests flags_ops bit_eq_iff bit_simps)

text \<open>Setting and clearing flags.\<close>

lemma test_all_set: "TestAll (flags_or a f) f" "TestNone (flags_and a (flags_not f)) f"
  by (auto simp: flags_tests flags_ops bit_eq_iff bit_simps)

section \<open>Intents\<close>

definition INTENT_GUILDS :: u32 where "INTENT_GUILDS = push_bit 0 1"
definition INTENT_GUILD_MEMBERS :: u32 where "INTENT_GUILD_MEMBERS = push_bit 1 1"
definition INTENT_GUILD_MODERATION :: u32 where "INTENT_GUILD_MODERATION = push_bit 2 1"
definition INTENT_GUILD_EXPRESSIONS :: u32 where "INTENT_GUILD_EXPRESSIONS = push_bit 3 1"
definition INTENT_GUILD_INTEGRATIONS :: u32 where "INTENT_GUILD_INTEGRATIONS = push_bit 4 1"
definition INTENT_GUILD_WEBHOOKS :: u32 where "INTENT_GUILD_WEBHOOKS = push_bit 5 1"
definition INTENT_GUILD_INVITES :: u32 where "INTENT_GUILD_INVITES = push_bit 6 1"
definition INTENT_GUILD_VOICE_STATES :: u32 where "INTENT_GUILD_VOICE_STATES = push_bit 7 1"
definition INTENT_GUILD_PRESENCES :: u32 where "INTENT_GUILD_PRESENCES = push_bit 8 1"
definition INTENT_GUILD_MESSAGES :: u32 where "INTENT_GUILD_MESSAGES = push_bit 9 1"
definition INTENT_GUILD_MESSAGE_REACTIONS :: u32 where "INTENT_GUILD_MESSAGE_REACTIONS = push_bit 10 1"
definition INTENT_GUILD_MESSAGE_TYPING :: u32 where "INTENT_GUILD_MESSAGE_TYPING = push_bit 11 1"
definition INTENT_DIRECT_MESSAGES :: u32 where "INTENT_DIRECT_MESSAGES = push_bit 12 1"
definition INTENT_DIRECT_MESSAGE_REACTIONS :: u32 where "INTENT_DIRECT_MESSAGE_REACTIONS = push_bit 13 1"
definition INTENT_DIRECT_MESSAGE_TYPING :: u32 where "INTENT_DIRECT_MESSAGE_TYPING = push_bit 14 1"
definition INTENT_MESSAGE_CONTENT :: u32 where "INTENT_MESSAGE_CONTENT = push_bit 15 1"
definition INTENT_GUILD_SCHEDULED_EVENTS :: u32 where "INTENT_GUILD_SCHEDULED_EVENTS = push_bit 16 1"
definition INTENT_AUTO_MODERATION_CONFIGURATION :: u32 where "INTENT_AUTO_MODERATION_CONFIGURATION = push_bit 20 1"
definition INTENT_AUTO_MODERATION_EXECUTION :: u32 where "INTENT_AUTO_MODERATION_EXECUTION = push_bit 21 1"
definition INTENT_GUILD_MESSAGE_POLLS :: u32 where "INTENT_GUILD_MESSAGE_POLLS = push_bit 24 1"
definition INTENT_DIRECT_MESSAGE_POLLS :: u32 where "INTENT_DIRECT_MESSAGE_POLLS = push_bit 25 1"

lemmas intent_defs =
  INTENT_GUILDS_def INTENT_GUILD_MEMBERS_def INTENT_GUILD_MODERATION_def
  INTENT_GUILD_EXPRESSIONS_def INTENT_GUILD_INTEGRATIONS_def INTENT_GUILD_WEBHOOKS_def
  INTENT_GUILD_INVITES_def INTENT_GUILD_VOICE_STATES_def INTENT_GUILD_PRESENCES_def
  INTENT_GUILD_MESSAGES_def INTENT_GUILD_MESSAGE_REACTIONS_def INTENT_GUILD_MESSAGE_TYPING_def
  INTENT_DIRECT_MESSAGES_def INTENT_DIRECT_MESSAGE_REACTIONS_def INTENT_DIRECT_MESSAGE_TYPING_def
  INTENT_MESSAGE_CONTENT_def INTENT_GUILD_SCHEDULED_EVENTS_def INTENT_AUTO_MODERATION_CONFIGURATION_def
  INTENT_AUTO_MODERATION_EXECUTION_def INTENT_GUILD_MESSAGE_POLLS_def INTENT_DIRECT_MESSAGE_POLLS_def

definition intent_or :: "u32 \<Rightarrow> u32 \<Rightarrow> u32" where "intent_or lhs rhs = lhs OR rhs"

text \<open>The operator \<open>&\<close> is written with \<open>|\<close> too.\<close>

definition intent_and :: "u32 \<Rightarrow> u32 \<Rightarrow> u32" where "intent_and lhs rhs = lhs OR rhs"

definition all_intents :: "u32 list" where
  "all_intents = [INTENT_GUILDS, INTENT_GUILD_MEMBERS, INTENT_GUILD_MODERATION, INTENT_GUILD_EXPRESSIONS, INTENT_GUILD_INTEGRATIONS, INTENT_GUILD_WEBHOOKS, INTENT_GUILD_INVITES, INTENT_GUILD_VOICE_STATES, INTENT_GUILD_PRESENCES, INTENT_GUILD_MESSAGES, INTENT_GUILD_MESSAGE_REACTIONS, INTENT_GUILD_MESSAGE_TYPING, INTENT_DIRECT_MESSAGES, INTENT_DIRECT_MESSAGE_REACTIONS, INTENT_DIRECT_MESSAGE_TYPING, INTENT_MESSAGE_CONTENT, INTENT_GUILD_SCHEDULED_EVENTS, INTENT_AUTO_MODERATION_CONFIGURATION, INTENT_AUTO_MODERATION_EXECUTION, INTENT_GUILD_MESSAGE_POLLS, INTENT_DIRECT_MESSAGE_POLLS]"

text \<open>The intents are different single bits.\<close>

lemma intents_distinct: "distinct all_intents"
  by (simp add: all_intents_def intent_defs)

text \<open>What the bot asks for.\<close>

definition bot_intents :: u32 where
  "bot_intents =
     intent_or (intent_or (intent_or (intent_or (intent_or (intent_or INTENT_GUILD_INTEGRATIONS INTENT_GUILD_MESSAGES)
       INTENT_GUILDS) INTENT_GUILD_MEMBERS) INTENT_GUILD_MESSAGE_REACTIONS) INTENT_MESSAGE_CONTENT) INTENT_GUILD_VOICE_STATES"

lemma bot_intents_value: "bot_intents = 34451"
  by (simp add: bot_intents_def intent_or_def intent_defs)

lemma bot_intents_tests:
  "map (TestAll bot_intents) all_intents = map (\<lambda>n. n \<in> set [0, 1, 4, 7, 9, 10, 15]) [0::nat, 1, 2, 3, 4, 5, 6, 7, 8, 9, 10,
     11, 12, 13, 14, 15, 16, 20, 21, 24, 25]"
  by (simp add: bot_intents_value all_intents_def TestAll_def intent_defs)

text \<open>So a test with \<open>&\<close> would always succeed for any intent at all.\<close>

lemma intent_and_is_or: "intent_and a b = intent_or a b" "b \<noteq> 0 \<Longrightarrow> intent_and a b \<noteq> 0"
  by (simp_all add: intent_and_def intent_or_def bit_eq_iff bit_simps) blast

section \<open>Flags of an application\<close>

definition APP_FLAG_GATEWAY_PRESENCE :: u32 where "APP_FLAG_GATEWAY_PRESENCE = push_bit 12 1"
definition APP_FLAG_GATEWAY_PRESENCE_LIMITED :: u32 where "APP_FLAG_GATEWAY_PRESENCE_LIMITED = push_bit 13 1"
definition APP_FLAG_GATEWAY_GUILD_MEMBERS :: u32 where "APP_FLAG_GATEWAY_GUILD_MEMBERS = push_bit 14 1"
definition APP_FLAG_GATEWAY_GUILD_MEMBERS_LIMITED :: u32 where "APP_FLAG_GATEWAY_GUILD_MEMBERS_LIMITED = push_bit 15 1"
definition APP_FLAG_VERIFICATION_PENDING_GUILD_LIMIT :: u32 where "APP_FLAG_VERIFICATION_PENDING_GUILD_LIMIT = push_bit 16 1"
definition APP_FLAG_EMBEDDED :: u32 where "APP_FLAG_EMBEDDED = push_bit 17 1"
definition APP_FLAG_GATEWAY_MESSAGE_CONTENT :: u32 where "APP_FLAG_GATEWAY_MESSAGE_CONTENT = push_bit 18 1"
definition APP_FLAG_GATEWAY_MESSAGE_CONTENT_LIMITED :: u32 where "APP_FLAG_GATEWAY_MESSAGE_CONTENT_LIMITED = push_bit 19 1"
definition APP_FLAG_APPLICATION_COMMAND_BADGE :: u32 where "APP_FLAG_APPLICATION_COMMAND_BADGE = push_bit 23 1"

lemmas app_flag_defs =
  APP_FLAG_GATEWAY_PRESENCE_def APP_FLAG_GATEWAY_PRESENCE_LIMITED_def
  APP_FLAG_GATEWAY_GUILD_MEMBERS_def APP_FLAG_GATEWAY_GUILD_MEMBERS_LIMITED_def
  APP_FLAG_VERIFICATION_PENDING_GUILD_LIMIT_def APP_FLAG_EMBEDDED_def
  APP_FLAG_GATEWAY_MESSAGE_CONTENT_def APP_FLAG_GATEWAY_MESSAGE_CONTENT_LIMITED_def
  APP_FLAG_APPLICATION_COMMAND_BADGE_def

definition app_flag_or :: "u32 \<Rightarrow> u32 \<Rightarrow> u32" where "app_flag_or a b = a OR b"
definition app_flag_and :: "u32 \<Rightarrow> u32 \<Rightarrow> u32" where "app_flag_and a b = a AND b"

end
