(* ===== verification/Races.thy ===== *)
theory Races
  imports Starboard
begin

text \<open>
  The reaction handlers of the starboard (GreekBot/GreekBot_Starboard.cpp) as steps between which
  other handlers run: each counts its reaction in a statement of its own, then talks to Discord
  and then records what it did. The engine or Discord may fail each of them. Handlers that overlap
  can leave a starboard message behind; the theory Board shows what handlers that do not overlap do.
\<close>

section \<open>Steps\<close>

text \<open>
  What a handler has left to do: to act on the number of reactions and the starboard message it
  has read, to record the starboard message it posted, to delete the one it dropped, or nothing.
\<close>

datatype sb_phase = Counted "u64 option" int | Sent u64 | Dropped u64 | Ended

record sb_handler =
  sh_message :: u64
  sh_phase :: sb_phase

text \<open>The database, the messages of the starboard channel, and the handlers in the order of their start.\<close>

record sb_system =
  sy_db :: db
  sy_board :: "u64 list"
  sy_handlers :: "sb_handler list"

definition sb_counted :: "u64 \<Rightarrow> (sqlerr + reaction_entry \<times> db) \<Rightarrow> sb_system \<Rightarrow> sb_system" where
  "sb_counted m res s =
     (case res of
        Inl e \<Rightarrow> s
      | Inr (entry, d) \<Rightarrow>
          s\<lparr>sy_db := d,
            sy_handlers := sy_handlers s
              @ [\<lparr>sh_message = m, sh_phase = Counted (starboard_message_id entry) (num_reactions entry)\<rparr>]\<rparr>)"

text \<open>A reaction that counts is added or removed; the latter asks for the author first.\<close>

definition sb_react :: "u64 \<Rightarrow> u64 \<Rightarrow> sb_system \<Rightarrow> sb_system" where
  "sb_react m author s = sb_counted m (RegisterReaction m author (sy_db s)) s"

definition sb_unreact :: "u64 \<Rightarrow> sb_system \<Rightarrow> sb_system" where
  "sb_unreact m s =
     (case GetMessageAuthor m (sy_db s) of
        Inr (Some a, d) \<Rightarrow> sb_counted m (RemoveReaction m d) s
      | _ \<Rightarrow> s)"

text \<open>
  A handler goes on to its next statement or request. What Discord answers is the identifier of a
  new message, which also stands for success, or that the request failed.
\<close>

definition sb_proceed :: "u64 option \<Rightarrow> u64 \<Rightarrow> sb_phase \<Rightarrow> db \<times> u64 list \<Rightarrow> sb_phase \<times> db \<times> u64 list" where
  "sb_proceed answer m ph db_board =
     (case db_board of (d, board) \<Rightarrow>
        (case ph of
           Counted sb n \<Rightarrow>
             if n < REACTION_THRESHOLD then
               (case sb of
                  None \<Rightarrow> (Ended, d, board)
                | Some x \<Rightarrow>
                    (case RemoveStarboardMessage m d of
                       Inl e \<Rightarrow> (Ended, d, board)
                     | Inr (_, d') \<Rightarrow> (Dropped x, d', board)))
             else
               (case sb of
                  Some x \<Rightarrow> (Ended, d, board)
                | None \<Rightarrow>
                    (case answer of
                       None \<Rightarrow> (Ended, d, board)
                     | Some new \<Rightarrow> (Sent new, d, board @ [new])))
         | Sent x \<Rightarrow>
             (case RegisterStarboardMessage m x d of
                Inl e \<Rightarrow> (Ended, d, board)
              | Inr (_, d') \<Rightarrow> (Ended, d', board))
         | Dropped x \<Rightarrow> (Ended, d, if answer = None then board else filter (\<lambda>y. y \<noteq> x) board)
         | Ended \<Rightarrow> (Ended, d, board)))"

definition sb_continue :: "nat \<Rightarrow> u64 option \<Rightarrow> sb_system \<Rightarrow> sb_system" where
  "sb_continue i answer s =
     (if i < length (sy_handlers s) then
        let h = sy_handlers s ! i in
        (case sb_proceed answer (sh_message h) (sh_phase h) (sy_db s, sy_board s) of
           (ph, d, board) \<Rightarrow>
             \<lparr>sy_db = d, sy_board = board, sy_handlers = (sy_handlers s)[i := h\<lparr>sh_phase := ph\<rparr>]\<rparr>)
      else s)"

text \<open>The statement or request that a handler is at may also fail; the exception ends the handler.\<close>

definition sb_abandon :: "nat \<Rightarrow> sb_system \<Rightarrow> sb_system" where
  "sb_abandon i s =
     (if i < length (sy_handlers s) then s\<lparr>sy_handlers := (sy_handlers s)[i := (sy_handlers s ! i)\<lparr>sh_phase := Ended\<rparr>]\<rparr>
      else s)"

datatype sb_event = React u64 u64 | Unreact u64 | Continue nat "u64 option" | Abandon nat

fun sb_event_step :: "sb_event \<Rightarrow> sb_system \<Rightarrow> sb_system" where
  "sb_event_step (React m a) s = sb_react m a s"
| "sb_event_step (Unreact m) s = sb_unreact m s"
| "sb_event_step (Continue i answer) s = sb_continue i answer s"
| "sb_event_step (Abandon i) s = sb_abandon i s"

definition sb_run :: "sb_event list \<Rightarrow> sb_system \<Rightarrow> sb_system" where
  "sb_run es s = fold sb_event_step es s"

text \<open>No row of the table refers to this message.\<close>

definition not_recorded :: "u64 \<Rightarrow> db \<Rightarrow> bool" where
  "not_recorded x d \<longleftrightarrow> list_all (\<lambda>(k, r). sb_msg_id r \<noteq> Some (bind_id x)) (starboard d)"

section \<open>Handlers that overlap\<close>

lemma not_recorded_put:
  "not_recorded x d \<Longrightarrow> sb_msg_id r \<noteq> Some (bind_id x) \<Longrightarrow> not_recorded x (d\<lparr>starboard := tput k r (starboard d)\<rparr>)"
  using set_tput [of k r "starboard d"] by (auto simp: not_recorded_def list_all_iff)

lemma not_recorded_taken: "not_recorded x d \<Longrightarrow> \<not> col_taken sb_msg_id k (bind_id x) (starboard d)"
  by (auto simp: not_recorded_def col_taken_def list_all_iff)

text \<open>
  C35: When a second reaction arrives while the handler of the one that reached the threshold is
  still talking to Discord, both post a starboard message. The row keeps the second, and the first
  stays in the channel without anything that refers to it, so it is never edited or deleted.
\<close>

theorem starboard_double_post:
  assumes "twf (starboard d)" and "map_of (starboard d) (bind_id m) = Some r"
    and "sb_msg_id r = None" and "num r = REACTION_THRESHOLD - 1"
    and "x \<noteq> y" and "not_recorded x d" and "not_recorded y d"
  shows "let s = sb_run [React m a, React m b, Continue 0 (Some x), Continue 1 (Some y), Continue 0 None, Continue 1 None]
                   \<lparr>sy_db = d, sy_board = board, sy_handlers = []\<rparr>
         in sy_board s = board @ [x, y] \<and> map sh_phase (sy_handlers s) = [Ended, Ended]
            \<and> not_recorded x (sy_db s) \<and> map_option sb_msg_id (map_of (starboard (sy_db s)) (bind_id m)) = Some (Some (bind_id y))"
proof -
  define k where "k = bind_id m"
  define d1 where "d1 = d\<lparr>starboard := tput k (r\<lparr>num := num r + 1\<rparr>) (starboard d)\<rparr>"
  define d2 where "d2 = d1\<lparr>starboard := tput k (r\<lparr>num := num r + 2\<rparr>) (starboard d1)\<rparr>"
  define d3 where "d3 = d2\<lparr>starboard := tput k (r\<lparr>num := num r + 2, sb_msg_id := Some (bind_id x)\<rparr>) (starboard d2)\<rparr>"
  define d4 where "d4 = d3\<lparr>starboard := tput k (r\<lparr>num := num r + 2, sb_msg_id := Some (bind_id y)\<rparr>) (starboard d3)\<rparr>"
  have wf: "twf (starboard d1)" "twf (starboard d2)" "twf (starboard d3)"
    using assms(1) by (simp_all add: d1_def d2_def d3_def twf_tput)
  have rows: "map_of (starboard d) k = Some r" "map_of (starboard d1) k = Some (r\<lparr>num := num r + 1\<rparr>)"
    "map_of (starboard d2) k = Some (r\<lparr>num := num r + 2\<rparr>)"
    "map_of (starboard d3) k = Some (r\<lparr>num := num r + 2, sb_msg_id := Some (bind_id x)\<rparr>)"
    "map_of (starboard d4) k = Some (r\<lparr>num := num r + 2, sb_msg_id := Some (bind_id y)\<rparr>)"
    using assms(1,2) wf by (simp_all add: k_def [symmetric] d1_def d2_def d3_def d4_def map_of_tput twf_tput)
  have put: "not_recorded z (e\<lparr>starboard := tput k q (starboard e)\<rparr>)"
    if "not_recorded z e" "sb_msg_id q = None \<or> sb_msg_id q = Some (bind_id w) \<and> z \<noteq> w" for z w e q
    using that by (auto intro: not_recorded_put)
  have nx: "not_recorded x d1" unfolding d1_def using assms(3,6) by (intro put) simp_all
  then have nx2: "not_recorded x d2" unfolding d2_def using assms(3) by (intro put) simp_all
  have "not_recorded y d1" unfolding d1_def using assms(3,7) by (intro put) simp_all
  then have "not_recorded y d2" unfolding d2_def using assms(3) by (intro put) simp_all
  then have ny: "not_recorded y d3" unfolding d3_def using assms(5) by (intro put [where w = x]) simp_all
  have fresh: "not_recorded x d4"
  proof -
    have "d4 = d2\<lparr>starboard := tput k (r\<lparr>num := num r + 2, sb_msg_id := Some (bind_id y)\<rparr>)
        (tput k (r\<lparr>num := num r + 2, sb_msg_id := Some (bind_id x)\<rparr>) (starboard d2))\<rparr>"
      by (simp add: d4_def d3_def)
    moreover have "tput k a (tput k b t) = tput k a t" for a b and t :: "(int, sb_row) table"
      by (induction t) auto
    ultimately show ?thesis using put [OF nx2, where w = y] assms(5) by simp
  qed
  have reacts: "RegisterReaction m a d = Inr (\<lparr>starboard_message_id = None, num_reactions = num r + 1\<rparr>, d1)"
    "RegisterReaction m b d1 = Inr (\<lparr>starboard_message_id = None, num_reactions = num r + 2\<rparr>, d2)"
    using rows assms(3)
    by (simp_all add: RegisterReaction_def query_sb_register_reaction_def map_query_def opt_id_def d1_def d2_def
        k_def [symmetric] Let_def add.commute)
  have records: "RegisterStarboardMessage m x d2 = Inr ((), d3)" "RegisterStarboardMessage m y d3 = Inr ((), d4)"
    using rows not_recorded_taken [OF nx2, of k] not_recorded_taken [OF ny, of k]
    by (simp_all add: RegisterStarboardMessage_def query_sb_register_message_def d3_def d4_def k_def [symmetric])
  show ?thesis
    using reacts records rows(5) fresh assms(4)
    by (simp add: sb_run_def sb_react_def sb_counted_def sb_continue_def sb_proceed_def Let_def k_def [symmetric])
qed

text \<open>Four reactions so far, then two at once.\<close>

definition race_db :: db where
  "race_db = db_empty\<lparr>starboard := [(7, \<lparr>author_id = 3, sb_msg_id = None, num = 4\<rparr>)]\<rparr>"

theorem starboard_double_post_witness:
  "let s = sb_run [React 7 3, React 7 3, Continue 0 (Some 100), Continue 1 (Some 200), Continue 0 None, Continue 1 None]
                 \<lparr>sy_db = race_db, sy_board = [], sy_handlers = []\<rparr>
   in sy_board s = [100, 200] \<and> map sh_phase (sy_handlers s) = [Ended, Ended]
      \<and> not_recorded 100 (sy_db s) \<and> map_option sb_msg_id (map_of (starboard (sy_db s)) (bind_id 7)) = Some (Some (bind_id 200))"
  using starboard_double_post [of race_db 7 "\<lparr>author_id = 3, sb_msg_id = None, num = 4\<rparr>" 100 200 3 3 "[]"]
  by (simp add: race_db_def twf_def bind_id_def REACTION_THRESHOLD_def not_recorded_def)

text \<open>
  Also a handler that runs alone leaves a message behind when the statement that records it fails;
  the next reaction then finds no message recorded and posts another one.
\<close>

lemma starboard_post_unrecorded:
  assumes "RegisterReaction m a d = Inr (\<lparr>starboard_message_id = None, num_reactions = n\<rparr>, d')" and "REACTION_THRESHOLD \<le> n"
  shows "let s = sb_run [React m a, Continue 0 (Some x), Abandon 0] \<lparr>sy_db = d, sy_board = board, sy_handlers = []\<rparr>
     in sy_board s = board @ [x] \<and> sy_db s = d' \<and> map sh_phase (sy_handlers s) = [Ended]"
  using assms by (simp add: sb_run_def sb_react_def sb_counted_def sb_continue_def sb_proceed_def sb_abandon_def Let_def)

end
