(* ===== verification/Board.thy ===== *)
theory Board
  imports Races Frames
begin

text \<open>
  What the reaction handlers of Starboard keep between the starboard channel and the table, with
  whatever Discord and the database engine answer. The messages of the channel are read off the
  requests that were made and what Discord answered to them.
\<close>

section \<open>The channel\<close>

definition board_path :: string where
  "board_path = ''/channels/'' @ ToString LMG_CHANNEL_STARBOARD @ ''/messages''"

text \<open>A request that succeeds may add a message to the channel or delete one.\<close>

definition board_answer :: "request \<Rightarrow> exn + json \<Rightarrow> u64 list \<Rightarrow> u64 list" where
  "board_answer q ans board =
     (case ans of
        Inl _ \<Rightarrow> board
      | Inr v \<Rightarrow>
          if rq_verb q = POST \<and> rq_path q = board_path then
            (case cMessage_of_json v of Inl _ \<Rightarrow> board | Inr m \<Rightarrow> board @ [ToInt (ms_id m)])
          else if rq_verb q = DELETE then
            filter (\<lambda>x. rq_path q \<noteq> message_path LMG_CHANNEL_STARBOARD (sf_of_int x)) board
          else board)"

fun board_after :: "(call list \<Rightarrow> request \<Rightarrow> exn + json) \<Rightarrow> call list \<Rightarrow> call list \<Rightarrow> u64 list \<Rightarrow> u64 list" where
  "board_after h pre [] board = board"
| "board_after h pre (Http q # cs) board = board_after h (pre @ [Http q]) cs (board_answer q (h pre q) board)"
| "board_after h pre (c # cs) board = board_after h (pre @ [c]) cs board"

lemma board_after_append:
  "board_after h pre (cs @ ds) board = board_after h (pre @ cs) ds (board_after h pre cs board)"
  by (induction h pre cs board rule: board_after.induct) auto

text \<open>What the channel has when it had the messages \<open>start\<close> before the first request.\<close>

definition board_now :: "u64 list \<Rightarrow> world \<Rightarrow> u64 list" where
  "board_now start w = board_after (w_http w) [] (w_calls w) start"

text \<open>Discord gives a message that is created an identifier that no message of the channel has.\<close>

definition new_ids :: "u64 list \<Rightarrow> world \<Rightarrow> bool" where
  "new_ids start w \<longleftrightarrow>
     (\<forall>cs q v m. w_http w cs q = Inr v \<longrightarrow> rq_verb q = POST \<longrightarrow> cMessage_of_json v = Inr m \<longrightarrow>
        ToInt (ms_id m) \<noteq> 0 \<and> ToInt (ms_id m) \<notin> set (board_after (w_http w) [] cs start))"

text \<open>Calls that do not touch the channel.\<close>

fun quiet :: "call \<Rightarrow> bool" where
  "quiet (Http q) \<longleftrightarrow> rq_verb q \<noteq> POST \<and> rq_verb q \<noteq> DELETE"
| "quiet c \<longleftrightarrow> True"

lemma board_after_quiet: "list_all quiet cs \<Longrightarrow> board_after h pre cs board = board"
  by (induction h pre cs board rule: board_after.induct) (auto simp: board_answer_def split: sum.splits)

lemma quiet_verb: "v = GET \<or> v = PATCH \<Longrightarrow> of_verb v c \<Longrightarrow> quiet c"
  by (cases c) auto

lemma calls_only_quiet [calls_intros]:
  "calls_only quiet (DiscordGet p)" "calls_only quiet (DiscordPatch p ob)"
  by (simp_all add: DiscordGet_def DiscordPatch_def calls_only_http)

lemma calls_only_reads [calls_intros]:
  "calls_only quiet (GetChannelMessage c m)" "calls_only quiet (GetGuildMember g u)" "calls_only quiet (EditMessage c m up)"
  "calls_only quiet (get_lmg_member_color member)"
proof -
  have "calls_only quiet get_lmg_roles" by (simp add: calls_only_def get_lmg_roles_def visit_def)
  then show "calls_only quiet (get_lmg_member_color member)"
    by (auto simp: get_lmg_member_color_def intro!: calls_intros)
qed (auto simp: GetChannelMessage_def GetGuildMember_def EditMessage_def intro!: calls_intros)

section \<open>The table\<close>

text \<open>What the rows of the table refer to.\<close>

definition recorded :: "(int, sb_row) table \<Rightarrow> int set" where
  "recorded t = {v. \<exists>k r. map_of t k = Some r \<and> sb_msg_id r = Some v}"

text \<open>Every row refers to a message of the channel; and nothing else is in the channel.\<close>

definition board_covers :: "db \<Rightarrow> u64 list \<Rightarrow> bool" where
  "board_covers d board \<longleftrightarrow>
     db_inv d \<and> distinct board \<and> 0 \<notin> set board \<and> recorded (starboard d) \<subseteq> bind_id ` set board"

definition board_exact :: "db \<Rightarrow> u64 list \<Rightarrow> bool" where
  "board_exact d board \<longleftrightarrow> bind_id ` set board \<subseteq> recorded (starboard d)"

lemma bind_id_zero: "bind_id x = 0 \<longleftrightarrow> x = 0"
  by (metis bind_id_inject bind_id_def signed_0)

lemma covers_row:
  assumes "board_covers d board" "map_of (starboard d) k = Some r"
  shows "case opt_id (sb_msg_id r) of None \<Rightarrow> sb_msg_id r = None | Some x \<Rightarrow> sb_msg_id r = Some (bind_id x) \<and> x \<in> set board"
proof (cases "sb_msg_id r")
  case (Some v)
  then have "v \<in> recorded (starboard d)" using assms(2) by (auto simp: recorded_def)
  then obtain x where "v = bind_id x" "x \<in> set board" using assms(1) by (auto simp: board_covers_def)
  moreover from this have "v \<noteq> 0" using assms(1) by (auto simp: board_covers_def bind_id_zero)
  ultimately show ?thesis using Some by (simp add: opt_id_def)
qed (simp add: opt_id_def)

text \<open>The column as a partial function of the key.\<close>

definition sb_col :: "(int, sb_row) table \<Rightarrow> int \<Rightarrow> int option" where
  "sb_col t k = Option.bind (map_of t k) sb_msg_id"

lemma recorded_ran: "recorded t = ran (sb_col t)"
  by (auto simp: recorded_def ran_def sb_col_def bind_eq_Some_conv)

lemma sb_col_put: "twf t \<Longrightarrow> sb_col (tput k r t) = (sb_col t)(k := sb_msg_id r)"
  by (auto simp: sb_col_def map_of_tput fun_eq_iff)

lemma sb_col_drop: "sb_col (tupd_where (\<lambda>k' r. k' = k) (\<lambda>r. r\<lparr>sb_msg_id := None\<rparr>) t) = (sb_col t)(k := None)"
proof (rule ext)
  fix x
  show "sb_col (tupd_where (\<lambda>k' r. k' = k) (\<lambda>r. r\<lparr>sb_msg_id := None\<rparr>) t) x = ((sb_col t)(k := None)) x"
    by (cases "map_of t x") (simp_all add: sb_col_def map_of_tupd_where)
qed

lemma recorded_put_same:
  assumes "twf t" "sb_msg_id r = sb_col t k"
  shows "recorded (tput k r t) = recorded t"
  using assms(2) fun_upd_triv [of "sb_col t" k] by (simp add: recorded_ran sb_col_put [OF assms(1)])

lemma recorded_put_new:
  assumes "twf t" "sb_col t k = None" "sb_msg_id r = Some v"
  shows "recorded (tput k r t) = insert v (recorded t)"
  using assms(2,3) by (simp add: recorded_ran sb_col_put [OF assms(1)])

lemma recorded_drop:
  assumes "sb_ok t" "sb_col t k = Some v"
  shows "recorded (tupd_where (\<lambda>k' r. k' = k) (\<lambda>r. r\<lparr>sb_msg_id := None\<rparr>) t) = recorded t - {v}"
proof -
  have uc: "unique_col sb_msg_id t" using assms(1) by (simp add: sb_ok_def)
  obtain r where r: "map_of t k = Some r" "sb_msg_id r = Some v"
    using assms(2) by (auto simp: sb_col_def bind_eq_Some_conv)
  have only: "k' = k" if "sb_col t k' = Some v" for k'
  proof -
    from that obtain r' where r': "map_of t k' = Some r'" "sb_msg_id r' = Some v"
      by (auto simp: sb_col_def bind_eq_Some_conv)
    from uc [unfolded unique_col_def, rule_format, OF r'(1) r(1)] r(2) r'(2) show ?thesis by simp
  qed
  show ?thesis
  proof (rule set_eqI)
    fix w
    have "w \<in> ran ((sb_col t)(k := None)) \<longleftrightarrow> (\<exists>k'. k' \<noteq> k \<and> sb_col t k' = Some w)"
      by (auto simp: ran_def split: if_splits)
    also have "\<dots> \<longleftrightarrow> w \<in> ran (sb_col t) \<and> w \<noteq> v"
    proof (cases "w = v")
      case True
      then show ?thesis using only by blast
    next
      case False
      have "k' \<noteq> k" if "sb_col t k' = Some w" for k' using that assms(2) False by auto
      then show ?thesis using False unfolding ran_def by blast
    qed
    finally show "w \<in> recorded (tupd_where (\<lambda>k' r. k' = k) (\<lambda>r. r\<lparr>sb_msg_id := None\<rparr>) t) \<longleftrightarrow> w \<in> recorded t - {v}"
      by (simp add: recorded_ran sb_col_drop)
  qed
qed

text \<open>Counting a reaction changes no reference, and reads the one of the row.\<close>

definition row_reads :: "u64 \<Rightarrow> u64 option \<Rightarrow> db \<Rightarrow> bool" where
  "row_reads m sb d \<longleftrightarrow> map_of (starboard d) (bind_id m) \<noteq> None \<and> sb = opt_id (sb_col (starboard d) (bind_id m))"

lemma covers_same:
  assumes "board_covers d board" "db_inv d'" "recorded (starboard d') = recorded (starboard d)"
  shows "board_covers d' board \<and> board_exact d' board = board_exact d board"
  using assms by (simp add: board_covers_def board_exact_def)

lemma covers_wf: "board_covers d board \<Longrightarrow> twf (starboard d)"
  by (simp add: board_covers_def db_inv_def sb_ok_def)

lemma register_counts:
  assumes "board_covers d board" "RegisterReaction m a d = Inr (entry, d')"
  shows "board_covers d' board \<and> board_exact d' board = board_exact d board \<and> row_reads m (starboard_message_id entry) d'"
proof -
  let ?k = "bind_id m"
  define r where "r = (case map_of (starboard d) ?k of
      None \<Rightarrow> \<lparr>author_id = bind_id a, sb_msg_id = None, num = 1\<rparr> | Some r0 \<Rightarrow> r0\<lparr>num := num r0 + 1\<rparr>)"
  have q: "query_sb_register_reaction ?k (bind_id a) d = Inr ((sb_msg_id r, num r), d')"
    and d': "d' = d\<lparr>starboard := tput ?k r (starboard d)\<rparr>" and entry: "starboard_message_id entry = opt_id (sb_msg_id r)"
    using assms(2) by (auto simp: RegisterReaction_def map_query_Inr query_sb_register_reaction_def Let_def r_def)
  have col: "sb_msg_id r = sb_col (starboard d) ?k"
    by (simp add: r_def sb_col_def split: option.split)
  have inv: "db_inv d'"
    using register_reaction_inv [OF _ is_id_bind q] assms(1) by (simp add: board_covers_def)
  from covers_wf [OF assms(1)] have wf: "twf (starboard d)" .
  have "recorded (starboard d') = recorded (starboard d)"
    using recorded_put_same [OF wf col] by (simp add: d')
  moreover have "row_reads m (starboard_message_id entry) d'"
    using wf by (simp add: row_reads_def entry d' sb_col_put map_of_tput)
  ultimately show ?thesis using covers_same [OF assms(1) inv] by simp
qed

lemma remove_counts:
  assumes "board_covers d board" "RemoveReaction m d = Inr (entry, d')" "map_of (starboard d) (bind_id m) \<noteq> None"
  shows "board_covers d' board \<and> board_exact d' board = board_exact d board \<and> row_reads m (starboard_message_id entry) d'"
proof -
  let ?k = "bind_id m"
  obtain r0 where r0: "map_of (starboard d) ?k = Some r0" using assms(3) by blast
  define r where "r = r0\<lparr>num := num r0 - 1\<rparr>"
  have q: "query_sb_remove_reaction ?k d = Inr (Some (sb_msg_id r, num r), d')"
    and d': "d' = d\<lparr>starboard := tput ?k r (starboard d)\<rparr>" and entry: "starboard_message_id entry = opt_id (sb_msg_id r)"
    using assms(2) r0
    by (auto simp: RemoveReaction_def map_query_Inr query_sb_remove_reaction_def Let_def r_def split: if_splits)
  have inv: "db_inv d'" using remove_reaction_inv [OF _ q] assms(1) by (simp add: board_covers_def)
  from covers_wf [OF assms(1)] have wf: "twf (starboard d)" .
  have col: "sb_msg_id r = sb_col (starboard d) ?k" by (simp add: r_def sb_col_def r0)
  have "recorded (starboard d') = recorded (starboard d)"
    using recorded_put_same [OF wf col] by (simp add: d')
  moreover have "row_reads m (starboard_message_id entry) d'"
    using wf by (simp add: row_reads_def entry d' sb_col_put map_of_tput)
  ultimately show ?thesis using covers_same [OF assms(1) inv] by simp
qed

text \<open>Posting and recording, and dropping and deleting, keep the channel and the rows in step.\<close>

lemma message_recorded:
  assumes "board_covers d board" "row_reads m None d" "new \<notin> set board" "new \<noteq> 0"
    and run: "RegisterStarboardMessage m new d = Inr (u, d')"
  shows "board_covers d' (board @ [new]) \<and> (board_exact d board \<longrightarrow> board_exact d' (board @ [new]))"
proof -
  let ?k = "bind_id m"
  from covers_wf [OF assms(1)] have wf: "twf (starboard d)" .
  obtain r where r: "map_of (starboard d) ?k = Some r" using assms(2) by (auto simp: row_reads_def)
  have none: "sb_col (starboard d) ?k = None"
    using covers_row [OF assms(1) r] assms(2) r by (simp add: row_reads_def sb_col_def)
  have q: "query_sb_register_message (bind_id new) ?k d = Inr ((), d')"
    using run by (simp add: RegisterStarboardMessage_def)
  then have d': "d' = d\<lparr>starboard := tput ?k (r\<lparr>sb_msg_id := Some (bind_id new)\<rparr>) (starboard d)\<rparr>"
    using r by (simp add: query_sb_register_message_def split: if_splits)
  have "db_inv d'" using register_message_inv [OF _ q] assms(1) by (simp add: board_covers_def)
  moreover have "recorded (starboard d') = insert (bind_id new) (recorded (starboard d))"
    using recorded_put_new [OF wf none] by (simp add: d')
  ultimately show ?thesis
    using assms(1,3,4) by (auto simp: board_covers_def board_exact_def)
qed

lemma message_dropped:
  assumes "board_covers d board" "row_reads m (Some x) d" and run: "RemoveStarboardMessage m d = Inr (u, d')"
  shows "board_covers d' board \<and> recorded (starboard d') = recorded (starboard d) - {bind_id x}"
proof -
  let ?k = "bind_id m"
  obtain r where r: "map_of (starboard d) ?k = Some r" using assms(2) by (auto simp: row_reads_def)
  have "opt_id (sb_msg_id r) = Some x" using assms(2) r by (simp add: row_reads_def sb_col_def)
  then have col: "sb_col (starboard d) ?k = Some (bind_id x)"
    using covers_row [OF assms(1) r] r by (simp add: sb_col_def)
  have d': "d' = d\<lparr>starboard := tupd_where (\<lambda>k r. k = ?k) (\<lambda>r. r\<lparr>sb_msg_id := None\<rparr>) (starboard d)\<rparr>"
    using run by (simp add: RemoveStarboardMessage_def query_sb_remove_message_def)
  have ok: "sb_ok (starboard d)" "db_inv d" using assms(1) by (simp_all add: board_covers_def db_inv_def)
  have "db_inv d'" unfolding d' by (rule remove_message_inv [OF ok(2)])
  moreover have "recorded (starboard d') = recorded (starboard d) - {bind_id x}"
    using recorded_drop [OF ok(1) col] by (simp add: d')
  ultimately show ?thesis using assms(1) by (auto simp: board_covers_def)
qed

section \<open>Computations\<close>

text \<open>
  A triple over the contents and the channel: the channel covers the rows before, also when an
  exception ends the computation, and after it; and a value comes with the second condition.
\<close>

definition board_state :: "u64 list \<Rightarrow> world \<Rightarrow> bool" where
  "board_state st w \<longleftrightarrow> working (w_store w) = None \<and> new_ids st w \<and> board_covers (committed (w_store w)) (board_now st w)"

definition board_triple :: "u64 list \<Rightarrow> (db \<Rightarrow> u64 list \<Rightarrow> bool) \<Rightarrow> 'a eff \<Rightarrow> ('a \<Rightarrow> db \<Rightarrow> u64 list \<Rightarrow> bool) \<Rightarrow> bool" where
  "board_triple st P m Q \<longleftrightarrow>
     (\<forall>w r w'. board_state st w \<longrightarrow> P (committed (w_store w)) (board_now st w) \<longrightarrow> m w = (r, w') \<longrightarrow>
        board_state st w' \<and> (\<forall>x. r = Inr x \<longrightarrow> Q x (committed (w_store w')) (board_now st w')))"

lemma board_tripleI:
  "(\<And>w r w'. board_state st w \<Longrightarrow> P (committed (w_store w)) (board_now st w) \<Longrightarrow> m w = (r, w') \<Longrightarrow>
      board_state st w' \<and> (\<forall>x. r = Inr x \<longrightarrow> Q x (committed (w_store w')) (board_now st w'))) \<Longrightarrow> board_triple st P m Q"
  by (simp add: board_triple_def)

lemma board_tripleD:
  "board_triple st P m Q \<Longrightarrow> m w = (r, w') \<Longrightarrow> board_state st w \<Longrightarrow> P (committed (w_store w)) (board_now st w) \<Longrightarrow>
     board_state st w' \<and> (\<forall>x. r = Inr x \<longrightarrow> Q x (committed (w_store w')) (board_now st w'))"
  unfolding board_triple_def by blast

lemma triple_bind:
  assumes "board_triple st P m Q" "\<And>x. board_triple st (Q x) (k x) R"
  shows "board_triple st P (bindE m k) R"
proof (rule board_tripleI)
  fix w r w' assume s: "board_state st w" "P (committed (w_store w)) (board_now st w)" "bindE m k w = (r, w')"
  obtain r1 w1 where m: "m w = (r1, w1)" by fastforce
  note s1 = board_tripleD [OF assms(1) m s(1,2)]
  show "board_state st w' \<and> (\<forall>x. r = Inr x \<longrightarrow> R x (committed (w_store w')) (board_now st w'))"
  proof (cases r1)
    case (Inr x)
    with s(3) m have "k x w1 = (r, w')" by (simp add: bindE_def)
    from board_tripleD [OF assms(2) this] s1 Inr show ?thesis by blast
  qed (use s(3) m s1 in \<open>auto simp: bindE_def\<close>)
qed

lemma triple_seq: "board_triple st P m (\<lambda>_. Q) \<Longrightarrow> board_triple st Q k R \<Longrightarrow> board_triple st P (seqE m k) R"
  unfolding seqE_def by (rule triple_bind) simp_all

lemma triple_ret: "(\<And>d b. P d b \<Longrightarrow> Q x d b) \<Longrightarrow> board_triple st P (ret x) Q"
  by (auto simp: board_triple_def)

lemma triple_weaken:
  "board_triple st P m Q \<Longrightarrow> (\<And>d b. P' d b \<Longrightarrow> P d b) \<Longrightarrow> (\<And>x d b. Q x d b \<Longrightarrow> Q' x d b) \<Longrightarrow> board_triple st P' m Q'"
  by (auto simp: board_triple_def)

lemma triple_handler: "board_triple st P m Q \<Longrightarrow> board_triple st P (handler s m) Q"
  by (auto simp: board_triple_def handler_def catchE_def raise_def split: prod.splits sum.splits)

lemma triple_quiet:
  assumes "calls_only quiet m"
  shows "board_triple st P m (\<lambda>_. P)"
proof (rule board_tripleI)
  fix w r w' assume s: "board_state st w" "P (committed (w_store w)) (board_now st w)" "m w = (r, w')"
  from assms s(3) obtain n where n: "w_store w' = w_store w" "w_http w' = w_http w" "w_calls w' = w_calls w @ n"
    "list_all quiet n" by (rule calls_onlyD)
  then have "board_now st w' = board_now st w" by (simp add: board_now_def board_after_append board_after_quiet)
  with n s show "board_state st w' \<and> (\<forall>x. r = Inr x \<longrightarrow> P (committed (w_store w')) (board_now st w'))"
    by (simp add: board_state_def new_ids_def)
qed

lemma triple_dao:
  assumes "\<And>d b x d'. P d b \<Longrightarrow> board_covers d b \<Longrightarrow> q d = Inr (x, d') \<Longrightarrow> board_covers d' b \<and> Q x d' b"
  shows "board_triple st P (dao q) Q"
proof (rule board_tripleI)
  fix w r w' assume s: "board_state st w" "P (committed (w_store w)) (board_now st w)" "dao q w = (r, w')"
  have "working (w_store w) = None" using s(1) by (simp add: board_state_def)
  note d = dao_autocommit [OF s(3) this]
  then have "board_now st w' = board_now st w" by (simp add: board_now_def)
  with d s assms [OF s(2)] show "board_state st w' \<and> (\<forall>x. r = Inr x \<longrightarrow> Q x (committed (w_store w')) (board_now st w'))"
    by (auto simp: board_state_def new_ids_def split: sum.splits)
qed

lemma Close_idle: "working s = None \<Longrightarrow> committed (Close s) = committed s \<and> working (Close s) = None"
  by (simp add: Close_def rollback_impl_def autocommit_def)

lemma New_idle: "New s = (r, s') \<Longrightarrow> working s = None \<Longrightarrow> committed s' = committed s \<and> working s' = None"
  by (auto simp: New_def engine_call_def split: if_splits list.splits outcome.splits)

lemma triple_close: "board_triple st P txn_close (\<lambda>_. P)"
  by (auto simp: board_triple_def txn_close_def board_state_def board_now_def new_ids_def Close_idle)

lemma triple_txn:
  assumes "board_triple st P m Q"
  shows "board_triple st P (with_txn m) Q"
proof (rule board_tripleI)
  fix w r w' assume s: "board_state st w" "P (committed (w_store w)) (board_now st w)" "with_txn m w = (r, w')"
  obtain r0 s0 where n: "New (w_store w) = (r0, s0)" by fastforce
  let ?w = "w\<lparr>w_store := s0, w_strand := DatabaseStrand\<rparr>"
  have "committed s0 = committed (w_store w) \<and> working s0 = None"
    using New_idle [OF n] s(1) by (simp add: board_state_def)
  then have w: "board_state st ?w" "P (committed (w_store ?w)) (board_now st ?w)"
    using s(1,2) by (simp_all add: board_state_def board_now_def new_ids_def)
  show "board_state st w' \<and> (\<forall>x. r = Inr x \<longrightarrow> Q x (committed (w_store w')) (board_now st w'))"
  proof (cases r0)
    case (Inl e)
    with s(3) n w show ?thesis by (auto simp: with_txn_def bindE_def on_store_def)
  next
    case (Inr u)
    then obtain w1 where m: "m ?w = (r, w1)" and w': "w' = w1\<lparr>w_store := Close (w_store w1)\<rparr>"
      using s(3) n by (auto simp: with_txn_def bindE_def on_store_def split: prod.splits)
    from board_tripleD [OF assms m w] show ?thesis
      by (auto simp: w' board_state_def board_now_def new_ids_def Close_idle)
  qed
qed

section \<open>Requests\<close>

definition exact_if :: "bool \<Rightarrow> db \<Rightarrow> u64 list \<Rightarrow> bool" where
  "exact_if e d board \<longleftrightarrow> (e \<longrightarrow> board_exact d board)"

text \<open>A message was posted and is not recorded yet.\<close>

definition posted :: "bool \<Rightarrow> u64 \<Rightarrow> u64 \<Rightarrow> db \<Rightarrow> u64 list \<Rightarrow> bool" where
  "posted e m new d board \<longleftrightarrow>
     (\<exists>b. board = b @ [new] \<and> board_covers d b \<and> exact_if e d b \<and> row_reads m None d \<and> new \<notin> set b \<and> new \<noteq> 0)"

text \<open>No row refers to this message any more, and it is still to be deleted.\<close>

definition dropped :: "bool \<Rightarrow> u64 \<Rightarrow> db \<Rightarrow> u64 list \<Rightarrow> bool" where
  "dropped e x d board \<longleftrightarrow> bind_id x \<notin> recorded (starboard d) \<and> (e \<longrightarrow> bind_id ` (set board - {x}) \<subseteq> recorded (starboard d))"

lemma triple_post:
  "board_triple st (\<lambda>d b. exact_if e d b \<and> row_reads m None d) (CreateMessage LMG_CHANNEL_STARBOARD msg)
     (\<lambda>sb. posted e m (ToInt (ms_id sb)))"
proof (rule board_tripleI)
  fix w r w' assume s: "board_state st w" "exact_if e (committed (w_store w)) (board_now st w) \<and> row_reads m None (committed (w_store w))"
    "CreateMessage LMG_CHANNEL_STARBOARD msg w = (r, w')"
  define q where "q = \<lparr>rq_verb = POST, rq_path = board_path, rq_body = Some (cMessageView_to_json msg), rq_fields = []\<rparr>"
  let ?a = "w_http w (w_calls w) q" and ?w = "w\<lparr>w_calls := w_calls w @ [Http q], w_strand := EventStrand\<rparr>"
  have send: "r = bindS ?a cMessage_of_json" "w' = ?w"
    using s(3) by (auto simp: CreateMessage_def parsed_def DiscordPost_def http_send_def bindE_def lift_def q_def board_path_def
        split: sum.splits)
  have now: "board_now st ?w = board_answer q ?a (board_now st w)"
    by (simp add: board_now_def board_after_append)
  have keep: "board_state st ?w" if "board_now st ?w = board_now st w"
    using s(1) that by (simp add: board_state_def new_ids_def)
  show "board_state st w' \<and> (\<forall>x. r = Inr x \<longrightarrow> posted e m (ToInt (ms_id x)) (committed (w_store w')) (board_now st w'))"
  proof (cases "\<exists>v x. ?a = Inr v \<and> cMessage_of_json v = Inr x")
    case True
    then obtain v x where a: "?a = Inr v" "cMessage_of_json v = Inr x" by blast
    have new: "ToInt (ms_id x) \<noteq> 0" "ToInt (ms_id x) \<notin> set (board_now st w)"
      using s(1) a by (auto simp: board_state_def new_ids_def board_now_def q_def)
    have b: "board_now st ?w = board_now st w @ [ToInt (ms_id x)]" using now a by (simp add: board_answer_def q_def)
    then have "board_state st ?w" using s(1) new by (auto simp: board_state_def new_ids_def board_covers_def)
    moreover have "posted e m (ToInt (ms_id x)) (committed (w_store w)) (board_now st ?w)"
      using s(1,2) new b by (simp add: posted_def board_state_def)
    ultimately show ?thesis using send a by simp
  next
    case False
    then have "board_now st ?w = board_now st w" "isl r"
      using now send(1) by (auto simp: board_answer_def q_def split: sum.splits)
    with keep send(2) show ?thesis by auto
  qed
qed

lemma message_path_inject: "message_path c (sf_of_int x) = message_path c (sf_of_int y) \<longleftrightarrow> x = y"
  by (auto simp: message_path_def ToString_def sf_of_int_def to_dec_inject unsigned_word_eqI)

lemma triple_delete:
  "board_triple st (dropped e x) (DeleteMessage LMG_CHANNEL_STARBOARD (sf_of_int x) rsn) (\<lambda>_. exact_if e)"
proof (rule board_tripleI)
  fix w r w' assume s: "board_state st w" "dropped e x (committed (w_store w)) (board_now st w)"
    "DeleteMessage LMG_CHANNEL_STARBOARD (sf_of_int x) rsn w = (r, w')"
  define q where "q = \<lparr>rq_verb = DELETE, rq_path = message_path LMG_CHANNEL_STARBOARD (sf_of_int x), rq_body = None,
    rq_fields = audit_reason rsn\<rparr>"
  let ?a = "w_http w (w_calls w) q" and ?w = "w\<lparr>w_calls := w_calls w @ [Http q], w_strand := EventStrand\<rparr>"
  have send: "r = (case ?a of Inl e \<Rightarrow> Inl e | Inr _ \<Rightarrow> Inr ())" "w' = ?w"
    using s(3) by (auto simp: DeleteMessage_def delete_message_def no_result_def DiscordDelete_def http_send_def bindE_def q_def
        split: sum.splits)
  have now: "board_now st ?w = board_answer q ?a (board_now st w)"
    by (simp add: board_now_def board_after_append)
  show "board_state st w' \<and> (\<forall>y. r = Inr y \<longrightarrow> exact_if e (committed (w_store w')) (board_now st w'))"
  proof (cases ?a)
    case (Inl err)
    then have "board_now st ?w = board_now st w" using now by (simp add: board_answer_def)
    with Inl send s(1) show ?thesis by (simp add: board_state_def new_ids_def)
  next
    case (Inr v)
    then have b: "board_now st ?w = filter (\<lambda>y. y \<noteq> x) (board_now st w)"
      using now by (auto simp: board_answer_def q_def message_path_inject intro!: filter_cong)
    have "board_covers (committed (w_store w)) (filter (\<lambda>y. y \<noteq> x) (board_now st w))"
      using s(1,2) by (auto simp: board_state_def board_covers_def dropped_def)
    moreover have "exact_if e (committed (w_store w)) (filter (\<lambda>y. y \<noteq> x) (board_now st w))"
      using s(2) by (auto simp: dropped_def exact_if_def board_exact_def)
    ultimately show ?thesis using send s(1) b by (simp add: board_state_def new_ids_def)
  qed
qed

section \<open>The handlers\<close>

lemma triple_post_starboard:
  "board_triple st (\<lambda>d b. exact_if e d b \<and> row_reads (ToInt message) None d) (post_starboard channel message msg txt)
     (\<lambda>_. exact_if e)"
proof -
  have "board_triple st (posted e (ToInt message) (ToInt (ms_id sb)))
      (dao (RegisterStarboardMessage (ToInt message) (ToInt (ms_id sb)))) (\<lambda>_. exact_if e)" for sb
    by (rule triple_dao) (auto simp: posted_def exact_if_def dest: message_recorded)
  note tail = triple_bind [OF triple_post this]
  show ?thesis
    unfolding post_starboard_def Let_def
    by (intro triple_bind [OF triple_quiet] tail) (auto intro!: calls_intros)
qed

lemma triple_process_reaction:
  "board_triple st (\<lambda>d b. exact_if e d b \<and> row_reads (ToInt message) sb d)
     (process_reaction channel message msg (map_option sf_of_int sb) n) (\<lambda>_. exact_if e)"
proof (cases sb)
  case None
  then show ?thesis using triple_post_starboard [of st e message channel msg]
    by (auto simp: process_reaction_def Let_def intro!: triple_ret)
next
  case (Some x)
  have "board_triple st (\<lambda>d b. exact_if e d b \<and> row_reads (ToInt message) (Some x) d)
      (dao (RemoveStarboardMessage (ToInt message))) (\<lambda>_. dropped e x)"
    by (rule triple_dao)
      (auto simp: dropped_def exact_if_def board_exact_def dest!: message_dropped [rotated 2])
  then have "board_triple st (\<lambda>d b. exact_if e d b \<and> row_reads (ToInt message) (Some x) d)
      (seqE (dao (RemoveStarboardMessage (ToInt message)))
        (seqE txn_close (DeleteMessage LMG_CHANNEL_STARBOARD (sf_of_int x) []))) (\<lambda>_. exact_if e)"
    by (rule triple_seq [OF _ triple_seq [OF triple_close triple_delete]])
  moreover have "board_triple st (\<lambda>d b. exact_if e d b \<and> row_reads (ToInt message) (Some x) d)
      (bindE (EditMessage LMG_CHANNEL_STARBOARD (sf_of_int x) up) (\<lambda>_. ret ())) (\<lambda>_. exact_if e)" for up
    by (rule triple_bind [OF triple_quiet]) (auto intro!: calls_intros triple_ret)
  ultimately show ?thesis by (simp add: Some process_reaction_def Let_def)
qed

lemma triple_added:
  "board_triple st (exact_if e) (process_starboard_reaction_add user channel message author emoji) (\<lambda>_. exact_if e)"
proof -
  have count: "board_triple st (exact_if e) (dao (RegisterReaction m a))
      (\<lambda>entry d b. exact_if e d b \<and> row_reads m (starboard_message_id entry) d)" for m a
    by (rule triple_dao) (auto simp: exact_if_def dest: register_counts)
  have "board_triple st (exact_if e)
      (with_txn (bindE (dao (RegisterReaction (ToInt message) a)) (\<lambda>entry.
         process_reaction channel message msg (map_option sf_of_int (starboard_message_id entry)) (num_reactions entry))))
      (\<lambda>_. exact_if e)" for a msg
    by (rule triple_txn [OF triple_bind [OF count triple_process_reaction]])
  then show ?thesis
    unfolding process_starboard_reaction_add_def
    by (intro triple_handler)
      (auto intro!: triple_ret triple_bind [OF triple_quiet] calls_intros split: prod.splits)
qed

lemma triple_removed:
  "board_triple st (exact_if e) (process_starboard_reaction_remove user channel message emoji) (\<lambda>_. exact_if e)"
proof -
  let ?m = "ToInt message"
  have author: "board_triple st (exact_if e) (dao (GetMessageAuthor ?m))
      (\<lambda>a d b. exact_if e d b \<and> (a \<noteq> None \<longrightarrow> map_of (starboard d) (bind_id ?m) \<noteq> None))"
    by (rule triple_dao) (auto simp: GetMessageAuthor_def map_query_def query_sb_get_msg_author_def split: option.splits)
  have count: "board_triple st (\<lambda>d b. exact_if e d b \<and> map_of (starboard d) (bind_id ?m) \<noteq> None) (dao (RemoveReaction ?m))
      (\<lambda>entry d b. exact_if e d b \<and> row_reads ?m (starboard_message_id entry) d)"
    by (rule triple_dao) (auto simp: exact_if_def dest: remove_counts)
  note rest = triple_bind [OF count triple_process_reaction [where msg = None and channel = channel]]
  have go: "board_triple st (\<lambda>d b. exact_if e d b \<and> (a \<noteq> None \<longrightarrow> map_of (starboard d) (bind_id ?m) \<noteq> None))
      (case a of None \<Rightarrow> ret () | Some a \<Rightarrow> if a = ToInt user then ret () else bindE GetUser_self (\<lambda>me.
         if a = ToInt (u_id me) then ret () else bindE (dao (RemoveReaction ?m)) (\<lambda>entry.
           process_reaction channel message None (map_option sf_of_int (starboard_message_id entry)) (num_reactions entry))))
      (\<lambda>_. exact_if e)" for a
    by (cases a) (auto intro!: triple_ret triple_bind [OF triple_quiet] calls_intros triple_weaken [OF rest])
  show ?thesis
    unfolding process_starboard_reaction_remove_def
    by (intro triple_handler) (auto intro!: triple_ret triple_txn [OF triple_bind [OF author go]])
qed

section \<open>Properties\<close>

text \<open>Reactions that are added and removed, their handlers one after the other; whether all of them end without an exception.\<close>

datatype sb_reaction =
    Added cSnowflake cSnowflake cSnowflake "cSnowflake option" cEmoji
  | Removed cSnowflake cSnowflake cSnowflake cEmoji

fun on_reaction :: "sb_reaction \<Rightarrow> unit eff" where
  "on_reaction (Added user channel message author emoji) = process_starboard_reaction_add user channel message author emoji"
| "on_reaction (Removed user channel message emoji) = process_starboard_reaction_remove user channel message emoji"

fun on_reactions :: "sb_reaction list \<Rightarrow> world \<Rightarrow> bool \<times> world" where
  "on_reactions [] w = (True, w)"
| "on_reactions (x # xs) w =
     (case on_reaction x w of (r, w1) \<Rightarrow> (case on_reactions xs w1 of (ok, w2) \<Rightarrow> (\<not> isl r \<and> ok, w2)))"

lemma reaction_board:
  assumes "on_reaction x w = (r, w')" "board_state st w" "exact_if e (committed (w_store w)) (board_now st w)"
  shows "board_state st w' \<and> (\<not> isl r \<longrightarrow> exact_if e (committed (w_store w')) (board_now st w'))"
proof (cases x)
  case (Added user channel message author emoji)
  with board_tripleD [OF triple_added _ assms(2,3)] assms(1) show ?thesis by (cases r) auto
next
  case (Removed user channel message emoji)
  with board_tripleD [OF triple_removed _ assms(2,3)] assms(1) show ?thesis by (cases r) auto
qed

text \<open>
  C19: Let the handlers of reactions run one after the other, whatever reactions are added and
  removed and whatever Discord and the database engine answer, errors included. Then no row refers
  to a message that is not in the starboard channel, and no two rows to the same one; and as long as
  the handlers end without an exception, so that no request and no statement failed, the messages of
  the channel are exactly those that the rows refer to, if they were before. So each message has at
  most one there. A handler that fails after it has posted leaves an unrecorded message behind.
\<close>

theorem starboard_one_post:
  assumes "working (w_store w) = None" and "new_ids start w"
    and "board_covers (committed (w_store w)) (board_now start w)"
    and "on_reactions xs w = (ok, w')"
  shows "board_covers (committed (w_store w')) (board_now start w')
    \<and> (ok \<and> board_exact (committed (w_store w)) (board_now start w) \<longrightarrow>
         board_exact (committed (w_store w')) (board_now start w'))"
proof -
  have "board_state start w' \<and> (ok \<longrightarrow> exact_if e (committed (w_store w')) (board_now start w'))"
    if "board_state start w" "exact_if e (committed (w_store w)) (board_now start w)" "on_reactions xs w = (ok, w')"
    for e xs w ok w'
    using that
  proof (induction xs arbitrary: e w ok)
    case (Cons x xs)
    obtain r w1 where run: "on_reaction x w = (r, w1)" by fastforce
    obtain ok2 where rest: "on_reactions xs w1 = (ok2, w')" and ok: "ok \<longleftrightarrow> \<not> isl r \<and> ok2"
      using Cons.prems(3) run by (auto split: prod.splits)
    note s = reaction_board [OF run Cons.prems(1,2)]
    show ?case
    proof (cases "isl r")
      case True
      have "exact_if False (committed (w_store w1)) (board_now start w1)" by (simp add: exact_if_def)
      from Cons.IH [OF _ this rest] s True ok show ?thesis by blast
    next
      case False
      with Cons.IH [OF _ _ rest] s ok show ?thesis by blast
    qed
  qed simp
  from this [of w "board_exact (committed (w_store w)) (board_now start w)" xs ok w'] assms show ?thesis
    by (simp add: board_state_def exact_if_def)
qed

text \<open>A message with five reactions and a starboard message; a member takes one of them back.\<close>

definition board_world :: world where
  "board_world = start_world
     \<lparr>w_store := start_session\<lparr>committed := db_empty\<lparr>starboard := [(7, \<lparr>author_id = 3, sb_msg_id = Some 100, num = 5\<rparr>)]\<rparr>\<rparr>,
      w_user := Some example_user,
      w_http := \<lambda>cs q. if rq_verb q = DELETE then Inr JNull else Inl (xDiscordError 0 [])\<rparr>"

theorem starboard_one_post_witness:
  "let (ok, w') = on_reactions [Removed (sf_of_int 1) (sf_of_int 2) (sf_of_int 7) LMG_EMOJI_HOLY] board_world
   in ok \<and> board_now [100] w' = [] \<and> board_covers (committed (w_store w')) []"
proof -
  let ?xs = "[Removed (sf_of_int 1) (sf_of_int 2) (sf_of_int 7) LMG_EMOJI_HOLY]"
  define d where "d = db_empty\<lparr>starboard := [(7, \<lparr>author_id = 3, sb_msg_id = Some 100, num = 5\<rparr>)]\<rparr>"
  have "is_id 3" "is_id 100" by (simp_all add: is_id_def bind_id_def column_id_def)
  then have inv: "db_inv d"
    using db_inv_empty by (simp add: d_def db_inv_def sb_ok_def unique_col_def twf_def)
  have w: "working (w_store board_world) = None" "committed (w_store board_world) = d" "w_calls board_world = []"
    "engine (w_store board_world) = []"
    by (simp_all add: board_world_def start_world_def start_session_def d_def)
  have ids: "new_ids [100] board_world" by (simp add: new_ids_def board_world_def)
  have cov: "board_covers (committed (w_store board_world)) (board_now [100] board_world)"
    using inv w by (simp add: board_covers_def board_now_def recorded_def d_def bind_id_def)
  obtain ok w' where run: "on_reactions ?xs board_world = (ok, w')" by fastforce
  have counts: "starboard_counts (sf_of_int 2) LMG_EMOJI_HOLY"
    by (simp add: starboard_counts_def emoji_eq_def sf_in_def sf_eq_def excluded_channels_def ToInt_def sf_of_int_def)
  have eval: "\<exists>q. ok \<and> w_calls w' = [Http q] \<and> rq_verb q = DELETE \<and> w_http w' = w_http board_world
      \<and> rq_path q = message_path LMG_CHANNEL_STARBOARD (sf_of_int 100)"
    using run counts
    by (auto simp: process_starboard_reaction_remove_def handler_def catchE_def with_txn_def bindE_def seqE_def on_store_def
        New_healthy dao_def Exec_healthy visible_def write_db_def autocommit_def GetMessageAuthor_def RemoveReaction_def
        query_sb_get_msg_author_def query_sb_remove_reaction_def map_query_def Let_def opt_id_def GetUser_self_def
        process_reaction_def REACTION_THRESHOLD_def RemoveStarboardMessage_def query_sb_remove_message_def txn_close_def
        Close_def rollback_impl_def DeleteMessage_def delete_message_def no_result_def DiscordDelete_def http_send_def
        board_world_def start_world_def start_session_def example_user_def bind_id_def column_id_def ToInt_def sf_of_int_def
        ret_def db_empty_def
        split: prod.splits if_splits)
  then have b: "ok" "board_now [100] w' = []"
    by (auto simp: board_now_def board_answer_def board_world_def)
  from starboard_one_post [OF w(1) ids _ run] cov b show ?thesis unfolding run Let_def by simp
qed

end
