(* ===== verification/Strands.thy ===== *)
theory Strands
  imports Invariants Frames
begin

text \<open>
  Which thread uses what: the members of the bot are shared by all handlers without a lock, so
  they belong to the strand of the events (\<open>ResumeOnEventStrand\<close>, \<open>switch_strand\<close>), while a
  handler that has talked to the database or the websocket goes on elsewhere. That the members
  are left alone there follows from the rules of Invariants; the user of the bot is the exception.
\<close>

section \<open>Properties\<close>

text \<open>
  C4: whatever events arrive and whatever Discord and the database engine answer, no handler uses
  the roles, the guilds, the voice states or the time of the last timed actions on another strand
  than that of the events, so no two threads use them at once; the only member that is ever used
  elsewhere is the user of the bot.
\<close>

theorem strand_discipline:
  assumes "db_inv (committed (w_store w))" "\<not> handle (w_store w)" "working (w_store w) = None" "w_strays w = []"
  shows "set (w_strays (fold (\<lambda>e w. snd (run_event e w)) es w)) \<subseteq> {TheUser}"
proof -
  have "store_idle (w_store w) \<Longrightarrow>
      set (w_strays (fold (\<lambda>e w. snd (run_event e w)) es w)) \<subseteq> insert TheUser (set (w_strays w))" for w
  proof (induction es arbitrary: w)
    case (Cons e es)
    obtain r w1 where e: "run_event e w = (r, w1)" by fastforce
    note one = keepD [OF keep_run_event e Cons.prems]
    from Cons.IH [OF one(1)] one(3) e show ?case by auto
  qed auto
  from this [of w] assms show ?thesis by (simp add: store_idle_def sess_inv_def)
qed

theorem strand_discipline_witness:
  "set (w_strays (fold (\<lambda>e w. snd (run_event e w))
     [Heartbeat, MessageDelete (sf_of_int 1) (sf_of_int 2) (Some LMG_GUILD_ID), InteractionCreate (AppCmd example_command)] start_world))
   \<subseteq> {TheUser}"
  by (rule strand_discipline) (simp_all add: start_world_def start_session_def db_inv_empty)

lemma handler_state: "snd (handler s m w) = snd (m w)"
  by (auto simp: handler_def catchE_def split: prod.splits sum.splits)

lemma with_txn_strays:
  fixes w :: world
  assumes "engine (w_store w) = []"
  shows "w_strays (snd (with_txn m w))
     = w_strays (snd (m (w\<lparr>w_store := (w_store w)\<lparr>pooled := False, handle := True\<rparr>, w_strand := DatabaseStrand\<rparr>)))"
  using New_healthy [OF assms] by (auto simp: with_txn_def bindE_def on_store_def split: prod.splits)

text \<open>
  C34: when a reaction is removed from a message that the starboard knows, and not by its author,
  the handler compares the author with the user of the bot on the thread of the database, while
  an event may replace that user on its own thread.
\<close>

theorem user_read_elsewhere:
  assumes "starboard_counts channel emoji" and "engine (w_store w) = []"
    and "db_inv (committed (w_store w))" "\<not> handle (w_store w)" "working (w_store w) = None"
    and "GetMessageAuthor (ToInt message) (committed (w_store w)) = Inr (Some a, committed (w_store w))"
    and "a \<noteq> ToInt user"
  shows "TheUser \<in> set (w_strays (snd (process_starboard_reaction_remove user channel message emoji w)))"
proof -
  define rest where "rest = (\<lambda>me :: cUser. if a = ToInt (u_id me) then ret ()
    else bindE (dao (RemoveReaction (ToInt message))) (\<lambda>entry.
      process_reaction channel message None (map_option sf_of_int (starboard_message_id entry)) (num_reactions entry)))"
  define body where "body = bindE (dao (GetMessageAuthor (ToInt message))) (\<lambda>author. case author of None \<Rightarrow> ret ()
    | Some a \<Rightarrow> if a = ToInt user then ret () else bindE GetUser_self (\<lambda>me. if a = ToInt (u_id me) then ret ()
        else bindE (dao (RemoveReaction (ToInt message))) (\<lambda>entry.
          process_reaction channel message None (map_option sf_of_int (starboard_message_id entry)) (num_reactions entry))))"
  let ?s = "(w_store w)\<lparr>pooled := False, handle := True\<rparr>"
  let ?w = "w\<lparr>w_store := ?s, w_strand := DatabaseStrand\<rparr>"
  have vis: "visible ?s = committed (w_store w)" "write_db (committed (w_store w)) ?s = ?s"
    using assms(5) by (simp_all add: visible_def write_db_def autocommit_def)
  have author: "dao (GetMessageAuthor (ToInt message)) ?w = (Inr (Some a), ?w)"
    using dao_healthy [of ?w "GetMessageAuthor (ToInt message)" "Some a" "committed (w_store w)"] assms(2,6) vis by simp
  have ok: "store_ok (w_store (visit TheUser ?w))"
    using assms(3,5) by (simp add: store_ok_def sess_inv_def tied_def)
  have "keep store_ok (rest me)" for me
    unfolding rest_def by (auto intro!: keep_all keep_process_reaction)
  then have later: "set (w_strays (visit TheUser ?w)) \<subseteq> set (w_strays (snd (rest me (visit TheUser ?w))))" for me
    using ok by (rule keepD(2) [OF _ prod.collapse [symmetric]])
  have "TheUser \<in> set (w_strays (snd (body ?w)))"
  proof (cases "w_user w")
    case None
    then show ?thesis using author assms(7) by (simp add: body_def bindE_def GetUser_self_def)
  next
    case (Some me)
    then have "body ?w = rest me (visit TheUser ?w)"
      using author assms(7) by (simp add: body_def rest_def bindE_def GetUser_self_def)
    with later [of me] show ?thesis by auto
  qed
  then have "TheUser \<in> set (w_strays (snd (with_txn body w)))"
    by (simp add: with_txn_strays [OF assms(2)])
  moreover have "process_starboard_reaction_remove user channel message emoji
      = handler ''process_starboard_reaction_remove'' (with_txn body)"
    using assms(1) by (simp add: process_starboard_reaction_remove_def body_def)
  ultimately show ?thesis by (simp add: handler_state)
qed

text \<open>Somebody takes back a reaction to a message of another member.\<close>

definition reacted_world :: world where
  "reacted_world = start_world\<lparr>w_store := start_session
     \<lparr>committed := db_empty\<lparr>starboard := [(7, \<lparr>author_id = 3, sb_msg_id = None, num = 2\<rparr>)]\<rparr>\<rparr>\<rparr>"

theorem user_read_elsewhere_witness:
  "TheUser \<in> set (w_strays (snd (process_starboard_reaction_remove (sf_of_int 5) (sf_of_int 9) (sf_of_int 7) LMG_EMOJI_HOLY reacted_world)))"
proof (rule user_read_elsewhere [where a = 3])
  show "starboard_counts (sf_of_int 9) LMG_EMOJI_HOLY"
    by (simp add: starboard_counts_def emoji_eq_def sf_in_def sf_eq_def excluded_channels_def LMG_EMOJI_HOLY_def ToInt_def sf_of_int_def)
  have "is_id 3" by (simp add: is_id_def bind_id_def column_id_def)
  then have "db_inv (db_empty\<lparr>starboard := [(7, \<lparr>author_id = 3, sb_msg_id = None, num = 2\<rparr>)]\<rparr>)"
    using db_inv_empty by (simp add: db_inv_def sb_ok_def unique_col_def twf_def)
  then show "db_inv (committed (w_store reacted_world))" by (simp add: reacted_world_def)
qed (simp_all add: reacted_world_def start_world_def start_session_def GetMessageAuthor_def query_sb_get_msg_author_def map_query_def
    column_id_def bind_id_def ToInt_def sf_of_int_def)

end
