(* ===== verification/Statements.thy ===== *)
theory Statements
  imports Connections Snowflake
begin

text \<open>
  Prepared statements (Database/SQLite.h, SQLite.cpp): the values that are bound to them and read
  from their columns, the objects that own them and the blocks they are used in. As with the
  connections, what the engine answers to a call is an argument of the operation.
\<close>

section \<open>Values\<close>

text \<open>The integral types of the values that the program binds, at their widths.\<close>

datatype integral = CBool bool | CInt "32 word" | CUInt "32 word" | CLong "64 word" | CULong "64 word"

fun widen_int64 :: "integral \<Rightarrow> 64 word" where
  "widen_int64 (CBool b) = (if b then 1 else 0)"
| "widen_int64 (CInt w) = scast w"
| "widen_int64 (CUInt w) = ucast w"
| "widen_int64 (CLong w) = w"
| "widen_int64 (CULong w) = w"

text \<open>
  How a value is bound is chosen by its type: there is a way for \<open>nullptr\<close>, one for integers, one for
  what is convertible to a string and one for identifiers, which binds their number.
\<close>

datatype value_arg = ArgNull | ArgInt integral | ArgText string | ArgId cSnowflake

datatype column = ColNull | ColInt "64 word" | ColText string

definition bind_int :: "integral \<Rightarrow> column" where
  "bind_int v = ColInt (widen_int64 v)"

definition bind_string :: "string \<Rightarrow> column" where
  "bind_string v = ColText v"

definition bind_snowflake :: "cSnowflake \<Rightarrow> column" where
  "bind_snowflake i = bind_int (CULong (ToInt i))"

fun bind_value :: "value_arg \<Rightarrow> column" where
  "bind_value ArgNull = ColNull"
| "bind_value (ArgInt v) = bind_int v"
| "bind_value (ArgText v) = bind_string v"
| "bind_value (ArgId i) = bind_snowflake i"

text \<open>
  The parameters of a statement are numbered; a value that the engine does not accept leaves them
  as they were.
\<close>

type_synonym parameters = "int \<Rightarrow> column"

definition stmt_bind :: "int \<Rightarrow> int \<Rightarrow> value_arg \<Rightarrow> parameters \<Rightarrow> error_code \<times> parameters" where
  "stmt_bind rc index v ps = (sqlite_bind rc, if rc = 0 then ps(index := bind_value v) else ps)"

definition bind_throwing :: "int \<Rightarrow> int \<Rightarrow> value_arg \<Rightarrow> parameters \<Rightarrow> (error_code + unit) \<times> parameters" where
  "bind_throwing rc index v ps =
     (case stmt_bind rc index v ps of (ec, ps1) \<Rightarrow> (if is_error ec then Inl ec else Inr (), ps1))"

text \<open>
  Reading a column converts it: \<open>NULL\<close> is 0 as an integer and no text. A text arrives as a pointer
  to bytes that end at the first zero. How a text is read as a number, and a number as a text, is
  left to the engine.
\<close>

definition stmt_column_int :: "(string \<Rightarrow> 64 word) \<Rightarrow> column \<Rightarrow> 64 word" where
  "stmt_column_int number c = (case c of ColNull \<Rightarrow> 0 | ColInt w \<Rightarrow> w | ColText t \<Rightarrow> number t)"

definition stmt_column_text :: "(64 word \<Rightarrow> string) \<Rightarrow> column \<Rightarrow> string option" where
  "stmt_column_text digits c =
     (case c of ColNull \<Rightarrow> None | ColInt w \<Rightarrow> Some (digits w) | ColText t \<Rightarrow> Some (takeWhile (\<lambda>b. b \<noteq> CHR 0x00) t))"

text \<open>The number that was read is converted back to the type that is wanted.\<close>

fun convert_like :: "integral \<Rightarrow> 64 word \<Rightarrow> integral" where
  "convert_like (CBool _) w = CBool (w \<noteq> 0)"
| "convert_like (CInt _) w = CInt (ucast w)"
| "convert_like (CUInt _) w = CUInt (ucast w)"
| "convert_like (CLong _) w = CLong w"
| "convert_like (CULong _) w = CULong w"

lemma convert_like_widen: "convert_like v (widen_int64 v) = v"
proof (cases v)
  case (CInt w)
  have "(ucast (scast w :: 64 word) :: 32 word) = w" by transfer (simp add: take_bit_signed_take_bit)
  with CInt show ?thesis by simp
next
  case (CUInt w)
  have "(ucast (ucast w :: 64 word) :: 32 word) = w" by transfer simp
  with CUInt show ?thesis by simp
qed simp_all

text \<open>
  What was bound is read back: integers of every type, identifiers, and texts up to the first zero.
\<close>

theorem bound_values_read_back:
  "convert_like v (stmt_column_int number (snd (stmt_bind 0 i (ArgInt v) ps) i)) = v
   \<and> stmt_column_int number (snd (stmt_bind 0 i (ArgId x) ps) i) = ToInt x
   \<and> stmt_column_text digits (snd (stmt_bind 0 i (ArgText t) ps) i) = Some (takeWhile (\<lambda>b. b \<noteq> CHR 0x00) t)
   \<and> stmt_column_text digits (snd (stmt_bind 0 i ArgNull ps) i) = None"
  by (simp add: stmt_bind_def bind_int_def bind_string_def bind_snowflake_def stmt_column_int_def stmt_column_text_def convert_like_widen)

section \<open>Objects that own statements\<close>

text \<open>
  Statements are numbered as the engine gave them out, with the connection they belong to; those
  that were finalised are listed. A statement object has a statement or none.
\<close>

record stmts =
  sm_conn :: "nat list"
  sm_done :: "nat list"
  sm_objs :: "nat option list"

definition no_stmts :: stmts where
  "no_stmts = \<lparr>sm_conn = [], sm_done = [], sm_objs = []\<rparr>"

definition finalize :: "nat option \<Rightarrow> stmts \<Rightarrow> stmts" where
  "finalize h s = (case h of None \<Rightarrow> s | Some n \<Rightarrow> s\<lparr>sm_done := sm_done s @ [n]\<rparr>)"

definition stmt_release :: "nat \<Rightarrow> stmts \<Rightarrow> nat option \<times> stmts" where
  "stmt_release i s = (slot (sm_objs s) i, s\<lparr>sm_objs := (sm_objs s)[i := None]\<rparr>)"

definition stmt_new :: "nat option \<Rightarrow> stmts \<Rightarrow> stmts" where
  "stmt_new h s = s\<lparr>sm_objs := sm_objs s @ [h]\<rparr>"

definition stmt_move :: "nat \<Rightarrow> stmts \<Rightarrow> stmts" where
  "stmt_move i s = (case stmt_release i s of (h, s1) \<Rightarrow> stmt_new h s1)"

definition stmt_destroy :: "nat \<Rightarrow> stmts \<Rightarrow> stmts" where
  "stmt_destroy i s = (case stmt_release i s of (h, s1) \<Rightarrow> finalize h s1)"

definition stmt_assign :: "nat \<Rightarrow> nat \<Rightarrow> stmts \<Rightarrow> stmts" where
  "stmt_assign i j s =
     (case stmt_release j s of (arg, s1) \<Rightarrow>
        let old = slot (sm_objs s1) i in
        if i < length (sm_objs s1) then finalize old (s1\<lparr>sm_objs := (sm_objs s1)[i := arg]\<rparr>)
        else finalize arg s1)"

text \<open>The connection that a statement object belongs to, if it has a statement.\<close>

definition db_handle :: "nat \<Rightarrow> stmts \<Rightarrow> nat option" where
  "db_handle i s = map_option (\<lambda>n. sm_conn s ! n) (slot (sm_objs s) i)"

text \<open>The engine gives out a statement of the connection \<open>c\<close> for a text, or none.\<close>

definition stmt_given :: "bool \<Rightarrow> nat \<Rightarrow> stmts \<Rightarrow> nat option \<times> stmts" where
  "stmt_given given c s =
     (if given then (Some (length (sm_conn s)), s\<lparr>sm_conn := sm_conn s @ [c]\<rparr>) else (None, s))"

definition stmt_prepare :: "(string \<Rightarrow> prepare_answer) \<Rightarrow> nat \<Rightarrow> string \<Rightarrow> stmts \<Rightarrow> (error_code \<times> string) \<times> stmts" where
  "stmt_prepare prep c sql s =
     (case prepare_impl prep sql of (ec, has, tail) \<Rightarrow>
        case stmt_given has c s of (h, s1) \<Rightarrow> ((ec, tail), stmt_new h s1))"

text \<open>Without an error code the result is destroyed before the exception leaves the function.\<close>

definition stmt_prepare_throwing :: "(string \<Rightarrow> prepare_answer) \<Rightarrow> nat \<Rightarrow> string \<Rightarrow> stmts \<Rightarrow> (error_code + string) \<times> stmts" where
  "stmt_prepare_throwing prep c sql s =
     (case stmt_prepare prep c sql s of ((ec, tail), s1) \<Rightarrow>
        if is_error ec then (Inl ec, stmt_destroy (length (sm_objs s)) s1) else (Inr tail, s1))"

text \<open>\<open>reset\<close> reports what the engine answers.\<close>

definition stmt_reset :: "int \<Rightarrow> error_code + unit" where
  "stmt_reset rc = (if is_error (SqliteCode rc) then Inl (SqliteCode rc) else Inr ())"

section \<open>Blocks\<close>

text \<open>
  What the body of a block does to its objects, which are numbered from the \<open>n\<close> that exist when
  the block begins. However it is left, all of them are destroyed, the last one first.
\<close>

datatype stmt_event =
    PrepareStmt nat string
  | PrepareThrowing nat string
  | MoveStmt nat
  | AssignStmt nat nat
  | DestroyStmt nat

fun stmt_step :: "(string \<Rightarrow> prepare_answer) \<Rightarrow> nat \<Rightarrow> stmt_event \<Rightarrow> stmts \<Rightarrow> stmts" where
  "stmt_step prep n (PrepareStmt c sql) s = snd (stmt_prepare prep c sql s)"
| "stmt_step prep n (PrepareThrowing c sql) s = snd (stmt_prepare_throwing prep c sql s)"
| "stmt_step prep n (MoveStmt i) s = stmt_move (n + i) s"
| "stmt_step prep n (AssignStmt i j) s = stmt_assign (n + i) (n + j) s"
| "stmt_step prep n (DestroyStmt i) s = stmt_destroy (n + i) s"

definition leave_block :: "nat \<Rightarrow> stmts \<Rightarrow> stmts" where
  "leave_block n s = fold stmt_destroy (rev [n..<length (sm_objs s)]) s"

definition stmt_block :: "(string \<Rightarrow> prepare_answer) \<Rightarrow> stmt_event list \<Rightarrow> stmts \<Rightarrow> stmts" where
  "stmt_block prep es s = (let n = length (sm_objs s) in leave_block n (fold (stmt_step prep n) es s))"

text \<open>The statements that begin a transaction, and the loop that steps one until it has no more rows or fails.\<close>

datatype txn_type = Deferred | Immediate

fun txn_query :: "txn_type \<Rightarrow> string" where
  "txn_query Deferred = ''BEGIN DEFERRED;''"
| "txn_query Immediate = ''BEGIN IMMEDIATE;''"

partial_function (option) step_loop :: "(nat \<Rightarrow> int) \<Rightarrow> nat \<Rightarrow> error_code \<Rightarrow> error_code option" where
  "step_loop rcs n ec =
     (if is_error ec then Some ec
      else case sqlite_step (rcs n) of (row, ec1) \<Rightarrow> if row then step_loop rcs (Suc n) ec1 else Some ec1)"

definition exec_statement ::
  "(string \<Rightarrow> prepare_answer) \<Rightarrow> (nat \<Rightarrow> int) \<Rightarrow> nat \<Rightarrow> string \<Rightarrow> stmts \<Rightarrow> (error_code \<times> stmts) option" where
  "exec_statement prep rcs c sql s =
     (case stmt_prepare prep c sql s of ((ec, tail), s1) \<Rightarrow>
        map_option (\<lambda>ec1. (ec1, stmt_destroy (length (sm_objs s)) s1)) (step_loop rcs 0 ec))"

section \<open>Every statement is finalised once\<close>

definition stmt_account :: "stmts \<Rightarrow> nat multiset" where
  "stmt_account s = held (sm_objs s) + mset (sm_done s)"

definition stmt_issued :: "stmts \<Rightarrow> nat" where
  "stmt_issued s = length (sm_conn s)"

abbreviation carrying :: "nat option \<Rightarrow> stmts \<Rightarrow> bool" where
  "carrying \<equiv> balanced_by stmt_account stmt_issued"

interpretation stmt_slots: handle_slots stmt_account stmt_issued sm_objs "\<lambda>xs s. s\<lparr>sm_objs := xs\<rparr>"
  by unfold_locales (simp_all add: stmt_account_def stmt_issued_def ac_simps)

lemma carrying_finalize: "carrying h s \<Longrightarrow> carrying None (finalize h s)"
  by (cases h) (simp_all add: finalize_def balanced_by_def stmt_account_def stmt_issued_def)

lemma carrying_release: "carrying None s \<Longrightarrow> stmt_release i s = (h, s1) \<Longrightarrow> carrying h s1"
  by (auto simp: stmt_release_def stmt_slots.balanced_take)

lemma carrying_new: "carrying h s \<Longrightarrow> carrying None (stmt_new h s)"
  by (simp add: stmt_new_def stmt_slots.balanced_add)

lemma carrying_given: "carrying None s \<Longrightarrow> stmt_given given c s = (h, s1) \<Longrightarrow> carrying h s1"
  by (auto simp: stmt_given_def balanced_by_def stmt_account_def stmt_issued_def split: if_splits)

lemmas carrying_put = carrying_finalize carrying_new

lemma carrying_moves:
  assumes "carrying None s"
  shows "carrying None (stmt_move i s)" "carrying None (stmt_destroy i s)" "carrying None (stmt_assign i j s)"
  using carrying_release [OF assms, of i] carrying_release [OF assms, of j]
  by (auto simp: stmt_move_def stmt_destroy_def stmt_assign_def Let_def carrying_put stmt_slots.balanced_swap
      split: prod.splits)

lemma carrying_prepare: "carrying None s \<Longrightarrow> carrying None (snd (stmt_prepare prep c sql s))"
  by (auto simp: stmt_prepare_def split: prod.splits intro!: carrying_new elim: carrying_given)

text \<open>
  What the objects of a block are used for keeps whatever moving, assigning, destroying and
  preparing them keeps.
\<close>

definition kept_in_block :: "(string \<Rightarrow> prepare_answer) \<Rightarrow> nat \<Rightarrow> (stmts \<Rightarrow> bool) \<Rightarrow> bool" where
  "kept_in_block prep n I \<longleftrightarrow>
     (\<forall>s. I s \<longrightarrow> (\<forall>c sql. I (snd (stmt_prepare prep c sql s)))
        \<and> (\<forall>i j. I (stmt_move (n + i) s) \<and> I (stmt_destroy (n + i) s) \<and> I (stmt_assign (n + i) (n + j) s)))"

lemma prepare_throwing_result:
  "snd (stmt_prepare_throwing prep c sql s) = snd (stmt_prepare prep c sql s)
   \<or> snd (stmt_prepare_throwing prep c sql s) = stmt_destroy (length (sm_objs s)) (snd (stmt_prepare prep c sql s))"
  by (simp add: stmt_prepare_throwing_def split: prod.split)

lemma kept_step:
  assumes "kept_in_block prep n I" "I s" "n \<le> length (sm_objs s)"
  shows "I (stmt_step prep n e s)"
proof (cases e)
  case (PrepareThrowing c sql)
  from assms have "I (snd (stmt_prepare prep c sql s))" by (simp add: kept_in_block_def)
  moreover from this assms(1) have "I (stmt_destroy (n + (length (sm_objs s) - n)) (snd (stmt_prepare prep c sql s)))"
    unfolding kept_in_block_def by blast
  ultimately show ?thesis
    using prepare_throwing_result [of prep c sql s] assms(3) PrepareThrowing by auto
qed (use assms in \<open>simp_all add: kept_in_block_def\<close>)

lemma length_destroy: "length (sm_objs (stmt_destroy i s)) = length (sm_objs s)"
  by (simp add: stmt_destroy_def stmt_release_def finalize_def split: option.split)

lemma length_prepare: "length (sm_objs (snd (stmt_prepare prep c sql s))) = Suc (length (sm_objs s))"
  by (simp add: stmt_prepare_def stmt_given_def stmt_new_def split: prod.split)

lemma length_step: "length (sm_objs s) \<le> length (sm_objs (stmt_step prep n e s))"
proof (cases e)
  case (PrepareThrowing c sql)
  then show ?thesis
    using prepare_throwing_result [of prep c sql s] by (auto simp: length_destroy length_prepare)
qed (auto simp: length_destroy length_prepare stmt_move_def stmt_new_def stmt_release_def stmt_assign_def finalize_def Let_def
    split: option.split)

lemma kept_steps:
  "kept_in_block prep n I \<Longrightarrow> I s \<Longrightarrow> n \<le> length (sm_objs s) \<Longrightarrow> I (fold (stmt_step prep n) es s)"
proof (induction es arbitrary: s)
  case (Cons e es)
  from Cons.prems(3) length_step [of s prep n e] have "n \<le> length (sm_objs (stmt_step prep n e s))" by simp
  with Cons show ?case by (simp add: kept_step)
qed simp

lemma carrying_in_block: "kept_in_block prep n (carrying None)"
  by (auto simp: kept_in_block_def carrying_moves carrying_prepare)

lemma carrying_leave: "carrying None s \<Longrightarrow> carrying None (fold stmt_destroy is s)"
  by (induction "is" arbitrary: s) (simp_all add: carrying_moves)

text \<open>A block neither touches the objects outside it nor leaves one of its own with a statement.\<close>

definition outside :: "nat \<Rightarrow> nat option list \<Rightarrow> stmts \<Rightarrow> bool" where
  "outside n xs s \<longleftrightarrow> take n (sm_objs s) = xs"

lemma objs_destroy: "sm_objs (stmt_destroy i s) = (sm_objs s)[i := None]"
  by (simp add: stmt_destroy_def stmt_release_def finalize_def split: option.split)

lemma outside_in_block: "n = length xs \<Longrightarrow> kept_in_block prep n (outside n xs)"
  by (auto simp: kept_in_block_def outside_def stmt_move_def objs_destroy stmt_assign_def stmt_release_def stmt_new_def
      finalize_def stmt_prepare_def stmt_given_def Let_def dest: arg_cong [of _ _ length] split: option.splits prod.splits)

lemma objs_leave: "sm_objs (fold stmt_destroy is s) = fold (\<lambda>i xs. xs[i := None]) is (sm_objs s)"
  by (induction "is" arbitrary: s) (simp_all add: objs_destroy)

lemma fold_clear: "fold (\<lambda>i xs. xs[i := None]) (rev [n..<length xs]) xs = take n xs @ replicate (length xs - n) None"
proof (induction "length xs - n" arbitrary: n)
  case (Suc m)
  then have "fold (\<lambda>i xs. xs[i := None]) (rev [Suc n..<length xs]) xs = take (Suc n) xs @ replicate (length xs - Suc n) None" by simp
  moreover from Suc have "n < length xs" by simp
  ultimately show ?case
    by (simp add: upt_conv_Cons take_Suc_conv_app_nth list_update_append Suc_diff_Suc flip: replicate_Suc)
qed simp

lemma objs_block:
  "\<exists>k. sm_objs (stmt_block prep es s) = sm_objs s @ replicate k None"
proof -
  let ?n = "length (sm_objs s)" and ?s = "fold (stmt_step prep (length (sm_objs s))) es s"
  have "outside ?n (sm_objs s) ?s"
    by (rule kept_steps [OF outside_in_block]) (simp_all add: outside_def)
  then show ?thesis
    by (auto simp: stmt_block_def leave_block_def Let_def objs_leave fold_clear outside_def)
qed

lemma carrying_block: "carrying None s \<Longrightarrow> carrying None (stmt_block prep es s)"
  by (simp add: stmt_block_def leave_block_def Let_def carrying_leave kept_steps [OF carrying_in_block])

definition no_objects_left :: "stmts \<Rightarrow> bool" where
  "no_objects_left s \<longleftrightarrow> carrying None s \<and> set (sm_objs s) \<subseteq> {None}"

lemma held_none: "set xs \<subseteq> {None} \<Longrightarrow> held xs = {#}"
  by (induction xs) auto

lemma no_objects_done: "no_objects_left s \<Longrightarrow> mset (sm_done s) = mset [0..<length (sm_conn s)]"
  using held_none [of "sm_objs s"] by (auto simp: no_objects_left_def balanced_by_def stmt_account_def stmt_issued_def mset_given_out)

lemma no_objects_block: "no_objects_left s \<Longrightarrow> no_objects_left (stmt_block prep es s)"
  using objs_block [of prep es s] by (auto simp: no_objects_left_def carrying_block)

lemma no_objects_blocks: "no_objects_left s \<Longrightarrow> no_objects_left (fold (stmt_block prep) bs s)"
  by (induction bs arbitrary: s) (simp_all add: no_objects_block)

lemma no_objects_start: "no_objects_left no_stmts"
  by (simp add: no_objects_left_def no_stmts_def balanced_by_def stmt_account_def stmt_issued_def)

lemma no_objects_exec:
  assumes "exec_statement prep rcs c sql s = Some (ec, s1)" and "no_objects_left s"
  shows "no_objects_left s1"
proof -
  have "s1 = stmt_destroy (length (sm_objs s)) (snd (stmt_prepare prep c sql s))"
    using assms(1) by (auto simp: exec_statement_def split: prod.splits)
  moreover have "\<exists>h. sm_objs (snd (stmt_prepare prep c sql s)) = sm_objs s @ [h]"
    by (simp add: stmt_prepare_def stmt_given_def stmt_new_def split: prod.split)
  ultimately show ?thesis
    using assms(2) by (auto simp: no_objects_left_def objs_destroy carrying_moves carrying_prepare)
qed

text \<open>
  C18: Whatever statements the blocks on the thread of the database prepare, move, assign and destroy,
  however they are left and whatever the engine answers, afterwards every statement that it gave
  out was finalised, and only once; so a connection that is closed between blocks has none left.
\<close>

theorem statements_finalized:
  "distinct (sm_done (fold (stmt_block prep) blocks no_stmts))
   \<and> set (sm_done (fold (stmt_block prep) blocks no_stmts)) = {0..<length (sm_conn (fold (stmt_block prep) blocks no_stmts))}"
proof
  let ?s = "fold (stmt_block prep) blocks no_stmts"
  from no_objects_done [OF no_objects_blocks [OF no_objects_start]]
  have "mset (sm_done ?s) = mset [0..<length (sm_conn ?s)]" .
  then show "distinct (sm_done ?s)" "set (sm_done ?s) = {0..<length (sm_conn ?s)}"
    by (simp_all only: mset_eq_imp_distinct_iff distinct_upt mset_eq_setD set_upt)
qed

end
