(* ===== verification/Workers.thy ===== *)
theory Workers
  imports Connections Diagnostics
begin

text \<open>
  The contexts with a thread of their own: the one that prints (Discord/Utils/Utils.cpp) and the one
  of the database (Database/Database.cpp). A context runs what was posted to it in the order of the
  posts and keeps running while it has a guard, also when it has nothing to do; it is destroyed at
  the end of the program by resetting the guard and waiting for the thread.
\<close>

section \<open>A context with a thread\<close>

text \<open>
  The handlers that wait to be run, those that wait for a timer (in the order in which the timers
  expire), the guard, and whether the thread has not left \<open>run\<close> yet.
\<close>

record 'a worker =
  wk_queue :: "'a list"
  wk_timers :: "'a list"
  wk_guard :: bool
  wk_running :: bool

definition worker_new :: "'a worker" where
  "worker_new = \<lparr>wk_queue = [], wk_timers = [], wk_guard = True, wk_running = True\<rparr>"

definition worker_post :: "'a \<Rightarrow> 'a worker \<Rightarrow> 'a worker" where
  "worker_post x w = w\<lparr>wk_queue := wk_queue w @ [x]\<rparr>"

text \<open>What a handler does to the state, what it posts to its context and what it starts timers for.\<close>

type_synonym ('a, 's) posted_handler = "'a \<Rightarrow> 's \<Rightarrow> 's \<times> 'a list \<times> 'a list"

text \<open>A turn of the thread: it runs a handler, waits for a timer, waits for a post, or leaves \<open>run\<close>.\<close>

definition worker_turn :: "('a, 's) posted_handler \<Rightarrow> 's \<times> 'a worker \<Rightarrow> 's \<times> 'a worker" where
  "worker_turn run c =
     (case c of (s, w) \<Rightarrow>
        if \<not> wk_running w then (s, w)
        else case wk_queue w of
          x # xs \<Rightarrow>
            (case run x s of (s1, posts, waits) \<Rightarrow> (s1, w\<lparr>wk_queue := xs @ posts, wk_timers := wk_timers w @ waits\<rparr>))
        | [] \<Rightarrow>
            (case wk_timers w of
               t # ts \<Rightarrow> (s, w\<lparr>wk_queue := [t], wk_timers := ts\<rparr>)
             | [] \<Rightarrow> if wk_guard w then (s, w) else (s, w\<lparr>wk_running := False\<rparr>)))"

text \<open>The thread is waited for, which need not end when handlers go on posting.\<close>

partial_function (option) worker_join :: "('a, 's) posted_handler \<Rightarrow> 's \<times> 'a worker \<Rightarrow> ('s \<times> 'a worker) option" where
  "worker_join run c = (if wk_running (snd c) then worker_join run (worker_turn run c) else Some c)"

definition worker_destroy :: "('a, 's) posted_handler \<Rightarrow> 's \<times> 'a worker \<Rightarrow> ('s \<times> 'a worker) option" where
  "worker_destroy run c = (case c of (s, w) \<Rightarrow> worker_join run (s, w\<lparr>wk_guard := False\<rparr>))"

text \<open>The program posts and the thread takes turns, in any order.\<close>

datatype 'a worker_event = Post 'a | Turn

fun worker_step :: "('a, 's) posted_handler \<Rightarrow> 'a worker_event \<Rightarrow> 's \<times> 'a worker \<Rightarrow> 's \<times> 'a worker" where
  "worker_step run (Post x) c = (fst c, worker_post x (snd c))"
| "worker_step run Turn c = worker_turn run c"

definition worker_run :: "('a, 's) posted_handler \<Rightarrow> 'a worker_event list \<Rightarrow> 's \<Rightarrow> 's \<times> 'a worker" where
  "worker_run run es s = fold (worker_step run) es (s, worker_new)"

definition posted :: "'a worker_event list \<Rightarrow> 'a list" where
  "posted es = List.map_filter (\<lambda>e. case e of Post x \<Rightarrow> Some x | Turn \<Rightarrow> None) es"

section \<open>Handlers that post nothing\<close>

text \<open>What the handlers of a context make of the state when each of them only changes it by \<open>f\<close>.\<close>

definition plain :: "('a \<Rightarrow> 's \<Rightarrow> 's) \<Rightarrow> ('a, 's) posted_handler" where
  "plain f x s = (f x s, [], [])"

lemma join_plain:
  "\<not> wk_guard w \<Longrightarrow> wk_running w \<Longrightarrow>
   worker_join (plain f) (s, w)
     = Some (fold f (wk_queue w @ wk_timers w) s, \<lparr>wk_queue = [], wk_timers = [], wk_guard = False, wk_running = False\<rparr>)"
proof (induction "length (wk_queue w) + 2 * length (wk_timers w)" arbitrary: s w rule: less_induct)
  case less
  show ?case
  proof (cases "wk_queue w")
    case (Cons x xs)
    with less show ?thesis by (subst worker_join.simps) (simp add: worker_turn_def plain_def)
  next
    case Nil
    show ?thesis
    proof (cases "wk_timers w")
      case (Cons t ts)
      with Nil less show ?thesis by (subst worker_join.simps) (simp add: worker_turn_def)
    next
      case inner: Nil
      have "worker_turn (plain f) (s, w) = (s, w\<lparr>wk_running := False\<rparr>)"
        using Nil inner less by (simp add: worker_turn_def)
      moreover have "worker_join (plain f) (s, w\<lparr>wk_running := False\<rparr>) = Some (s, w\<lparr>wk_running := False\<rparr>)"
        by (subst worker_join.simps) simp
      ultimately show ?thesis
        using Nil inner less(2,3) by (subst worker_join.simps) (cases w, simp)
    qed
  qed
qed

text \<open>While the guard is held the thread goes on, and what was done and what is left are what was posted.\<close>

definition on_duty :: "('a \<Rightarrow> 's \<Rightarrow> 's) \<Rightarrow> 'a list \<Rightarrow> 's \<Rightarrow> 's \<times> 'a worker \<Rightarrow> bool" where
  "on_duty f xs s0 c \<longleftrightarrow>
     (case c of (s, w) \<Rightarrow>
        wk_guard w \<and> wk_running w \<and> wk_timers w = [] \<and> (\<exists>ys. xs = ys @ wk_queue w \<and> s = fold f ys s0))"

lemma on_duty_step:
  assumes "on_duty f xs s0 c"
  shows "on_duty f (xs @ posted [e]) s0 (worker_step (plain f) e c)"
proof -
  obtain s w where c: "c = (s, w)" by fastforce
  from assms obtain ys where ys: "xs = ys @ wk_queue w" "s = fold f ys s0"
    and w: "wk_guard w" "wk_running w" "wk_timers w = []" by (auto simp: on_duty_def c)
  show ?thesis
  proof (cases e)
    case Post
    with ys w c show ?thesis by (simp add: on_duty_def worker_post_def posted_def map_filter_simps)
  next
    case Turn
    show ?thesis
    proof (cases "wk_queue w")
      case Nil
      with Turn ys w c show ?thesis by (simp add: on_duty_def worker_turn_def posted_def map_filter_simps)
    next
      case (Cons x qs)
      have "xs = (ys @ [x]) @ qs" "fold f (ys @ [x]) s0 = f x s" using ys Cons by simp_all
      with Turn w c Cons show ?thesis
        by (fastforce simp: on_duty_def worker_turn_def plain_def posted_def map_filter_simps)
    qed
  qed
qed

lemma posted_append: "posted (es @ fs) = posted es @ posted fs"
  by (simp add: posted_def map_filter_def)

lemma on_duty_run: "on_duty f xs s0 c \<Longrightarrow> on_duty f (xs @ posted es) s0 (fold (worker_step (plain f)) es c)"
proof (induction es arbitrary: xs c)
  case (Cons e es)
  from Cons.IH [OF on_duty_step [OF Cons.prems, of e]] show ?case
    by (simp add: posted_append [of "[e]" es, simplified])
qed (simp add: posted_def map_filter_simps)

lemma destroy_runs_all:
  "map_option fst (worker_destroy (plain f) (worker_run (plain f) es s)) = Some (fold f (posted es) s)"
proof -
  have "on_duty f [] s (s, worker_new)" by (simp add: on_duty_def worker_new_def)
  from on_duty_run [OF this, of es] have "on_duty f (posted es) s (worker_run (plain f) es s)"
    by (simp add: worker_run_def)
  then show ?thesis
    by (auto simp: on_duty_def worker_destroy_def join_plain split: prod.splits)
qed

lemma never_out_of_work: "wk_running (snd (worker_run (plain f) es s))"
proof -
  have "on_duty f [] s (s, worker_new)" by (simp add: on_duty_def worker_new_def)
  from on_duty_run [OF this, of es] show ?thesis by (simp add: on_duty_def worker_run_def split: prod.splits)
qed

section \<open>The thread that prints\<close>

text \<open>
  The lines are posted with what the outside answers when they are printed; at the end of the
  program the thread is waited for.
\<close>

definition printer_ioc :: "(print_answer \<times> printer) worker_event list \<Rightarrow> (console \<times> (print_answer \<times> printer) worker) option" where
  "printer_ioc es = worker_destroy (plain run_printer) (worker_run (plain run_printer) es console_start)"

theorem all_lines_printed: "map_option fst (printer_ioc es) = Some (run_printers (posted es) console_start)"
  by (simp add: printer_ioc_def run_printers_def destroy_runs_all)

section \<open>The thread of the database\<close>

text \<open>
  At the end of the program the thread of the database is waited for, which runs the functions that
  give connections back, and then the pooled connection is closed: the static objects are destroyed
  in the reverse order of their definitions. \<open>failed\<close> says for which connections the rollback fails.
\<close>

definition db_exit :: "(nat \<Rightarrow> bool) \<Rightarrow> conns \<Rightarrow> conns option" where
  "db_exit failed s =
     map_option (\<lambda>(s1, w). conn_close (cn_db s1) (s1\<lparr>cn_db := None\<rparr>))
       (worker_destroy (plain (\<lambda>h. give_back (failed h) h))
          (s\<lparr>cn_posted := []\<rparr>, worker_new\<lparr>wk_queue := cn_posted s\<rparr>))"

lemma give_back_posted: "(give_back b h s)\<lparr>cn_posted := xs\<rparr> = give_back b h (s\<lparr>cn_posted := xs\<rparr>)"
  by (simp add: give_back_def conn_close_def db_assign_def split: option.split)

lemma run_posted_fields: "cn_posted (run_posted b s) = tl (cn_posted s)"
  by (simp add: run_posted_def give_back_def conn_close_def db_assign_def split: option.split list.split)

lemma owned_once_give_all:
  "owned_once s \<Longrightarrow> cn_posted s = hs \<Longrightarrow>
   owned_once (fold (\<lambda>h. give_back (failed h) h) hs (s\<lparr>cn_posted := []\<rparr>))"
proof (induction hs arbitrary: s)
  case (Cons h hs)
  have "(run_posted (failed h) s)\<lparr>cn_posted := []\<rparr> = give_back (failed h) h (s\<lparr>cn_posted := []\<rparr>)"
    using Cons.prems(2) by (simp add: run_posted_def give_back_posted)
  moreover have "owned_once (run_posted (failed h) s)" using Cons.prems(1) by (rule owned_once_run_posted)
  moreover have "cn_posted (run_posted (failed h) s) = hs" by (simp add: run_posted_fields Cons.prems(2))
  ultimately show ?case using Cons.IH [of "run_posted (failed h) s"] by simp
next
  case Nil
  then have "s\<lparr>cn_posted := []\<rparr> = s" by (cases s) simp
  with Nil(1) show ?case by (simp only: fold_simps)
qed

lemma give_all_fields:
  "cn_posted (fold (\<lambda>h. give_back (failed h) h) hs s) = cn_posted s
   \<and> cn_txns (fold (\<lambda>h. give_back (failed h) h) hs s) = cn_txns s
   \<and> cn_conns (fold (\<lambda>h. give_back (failed h) h) hs s) = cn_conns s
   \<and> cn_next (fold (\<lambda>h. give_back (failed h) h) hs s) = cn_next s"
  by (induction hs arbitrary: s) (simp_all add: give_back_def conn_close_def db_assign_def split: option.split)

text \<open>
  C17: When the program ends after its connection and transaction objects are gone, the thread of the
  database ends as well, and every connection that the engine ever gave out was closed, once.
\<close>

theorem exit_closes_everything:
  assumes "set (cn_txns (conn_run es no_conns)) \<subseteq> {None}" and "set (cn_conns (conn_run es no_conns)) \<subseteq> {None}"
  shows "\<exists>s. db_exit failed (conn_run es no_conns) = Some s
             \<and> distinct (cn_closed s) \<and> set (cn_closed s) = {0..<cn_next (conn_run es no_conns)}"
proof -
  let ?s = "conn_run es no_conns"
  define s1 where "s1 = fold (\<lambda>h. give_back (failed h) h) (cn_posted ?s) (?s\<lparr>cn_posted := []\<rparr>)"
  let ?s2 = "conn_close (cn_db s1) (s1\<lparr>cn_db := None\<rparr>)"
  have ended: "db_exit failed ?s = Some ?s2"
    by (simp add: db_exit_def worker_destroy_def worker_new_def join_plain s1_def)
  have "owned_once s1" unfolding s1_def by (rule owned_once_give_all [OF owned_once_run [OF owned_once_start] refl])
  then have "owned_once ?s2" by (intro balanced_close) (simp add: balanced_take_db)
  from owned_once_places [OF this] have places: "mset (places ?s2) = mset [0..<cn_next ?s2]" .
  have fields: "cn_posted ?s2 = []" "cn_txns ?s2 = cn_txns ?s" "cn_conns ?s2 = cn_conns ?s" "cn_db ?s2 = None"
    "cn_next ?s2 = cn_next ?s"
    by (simp_all add: s1_def give_all_fields conn_close_def split: option.split)
  have none: "List.map_filter id (xs :: nat option list) = []" if "set xs \<subseteq> {None}" for xs
    using that by (induction xs) (auto simp: map_filter_simps)
  have "places ?s2 = cn_closed ?s2"
    using assms none by (simp add: places_def fields)
  with places fields have "mset (cn_closed ?s2) = mset [0..<cn_next ?s]" by simp
  then have "distinct (cn_closed ?s2)" "set (cn_closed ?s2) = {0..<cn_next ?s}"
    by (simp_all only: mset_eq_imp_distinct_iff distinct_upt mset_eq_setD set_upt)
  with ended show ?thesis by blast
qed

text \<open>
  Two transactions are open at the same time; one gives its connection back at once and the other
  from another thread, where the function is still waiting when the program ends.
\<close>

theorem exit_closes_everything_witness:
  "\<exists>s. db_exit (\<lambda>h. False)
         (conn_run [NewTxn \<lparr>oa_rc = 0, oa_db = True, oa_errno = 0\<rparr>, NewTxn \<lparr>oa_rc = 0, oa_db = True, oa_errno = 0\<rparr>,
                    CloseTxn (Here False) 0, CloseTxn Posted 1] no_conns) = Some s
       \<and> distinct (cn_closed s) \<and> set (cn_closed s) = {0, 1}"
proof -
  let ?es = "[NewTxn \<lparr>oa_rc = 0, oa_db = True, oa_errno = 0\<rparr>, NewTxn \<lparr>oa_rc = 0, oa_db = True, oa_errno = 0\<rparr>,
              CloseTxn (Here False) 0, CloseTxn Posted 1]"
  note ops = conn_run_def txn_create_def dbCreateInstance_def sqlite_open_throwing_def sqlite_open_def txn_new_def
    txn_obj_close_def txn_exchange_def slot_def dispatch_handle_def give_back_def db_assign_def conn_close_def no_conns_def
  have "set (cn_txns (conn_run ?es no_conns)) \<subseteq> {None}" "set (cn_conns (conn_run ?es no_conns)) \<subseteq> {None}"
    "cn_next (conn_run ?es no_conns) = 2"
    by (simp_all add: ops)
  with exit_closes_everything [of ?es "\<lambda>h. False"] show ?thesis
    by (simp add: numeral_2_eq_2 atLeast0_lessThan_Suc insert_commute)
qed

end
