(* ===== verification/Platform.thy ===== *)
theory Platform
  imports Text
begin

text \<open>
  What depends on the platform (Discord/Utils/Utils.cpp): the name of the operating system, which
  is sent when the bot identifies itself, and the path of the program, beside which it keeps its
  database (Database/Database.cpp) and its log file. The system calls are arguments.
\<close>

section \<open>The operating system\<close>

datatype platform = Windows | Apple | Linux | FreeBSD | OtherUnix

fun GetOS :: "platform \<Rightarrow> string" where
  "GetOS Windows = ''Windows''"
| "GetOS Apple = ''macOS''"
| "GetOS Linux = ''Linux''"
| "GetOS FreeBSD = ''FreeBSD''"
| "GetOS OtherUnix = ''Unix''"

section \<open>The path of the program\<close>

text \<open>
  On Windows the name is asked for with a buffer of 260 characters, and of twice the size while it
  does not fit. The system answers how many characters it wrote, and 0 for a failure, for which it
  may have a text.
\<close>

definition max_path :: nat where "max_path = 260"

definition windows_failure :: "string option \<Rightarrow> string" where
  "windows_failure msg = (case msg of None \<Rightarrow> ''Cannot find a suitable filepath.'' | Some m \<Rightarrow> m)"

partial_function (option) windows_path :: "(nat \<Rightarrow> nat \<times> string) \<Rightarrow> string option \<Rightarrow> nat \<Rightarrow> (string + string) option" where
  "windows_path file_name msg capacity =
     (case file_name capacity of (len, buf) \<Rightarrow>
        if len = 0 then Some (Inl (windows_failure msg))
        else if len < capacity then Some (Inr (take len buf))
        else windows_path file_name msg (len * 2))"

text \<open>
  On macOS the system tells the size it needs, which includes a zero at the end, when 256 characters
  are too few, and is asked once more.
\<close>

definition apple_path :: "(nat \<Rightarrow> (nat + string)) \<Rightarrow> string" where
  "apple_path executable_name =
     (case executable_name 256 of
        Inr path \<Rightarrow> path
      | Inl needed \<Rightarrow> (case executable_name needed of Inr path \<Rightarrow> path | Inl _ \<Rightarrow> []))"

text \<open>What the system answers; \<open>canonical\<close> resolves the links of a path or fails.\<close>

record system_calls =
  sc_file_name :: "nat \<Rightarrow> nat \<times> string"
  sc_message :: "string option"
  sc_executable_name :: "nat \<Rightarrow> nat + string"
  sc_canonical :: "string \<Rightarrow> string + string"

fun GetExecutablePath :: "platform \<Rightarrow> system_calls \<Rightarrow> (string + string) option" where
  "GetExecutablePath Windows sys = windows_path (sc_file_name sys) (sc_message sys) max_path"
| "GetExecutablePath Apple sys = Some (sc_canonical sys (apple_path (sc_executable_name sys)))"
| "GetExecutablePath _ sys = Some (sc_canonical sys ''/proc/self/exe'')"

text \<open>How Windows answers for the path \<open>path\<close>: all of it, or as much as there is room for.\<close>

definition answers_file_name :: "string \<Rightarrow> (nat \<Rightarrow> nat \<times> string) \<Rightarrow> bool" where
  "answers_file_name path file_name \<longleftrightarrow>
     (\<forall>n. file_name n = (if length path < n then (length path, path @ replicate (n - length path) CHR 0x00) else (n, take n path)))"

lemma windows_path_found:
  assumes "answers_file_name path file_name" "path \<noteq> []" "0 < capacity"
  shows "windows_path file_name msg capacity = Some (Inr path)"
  using assms(3)
proof (induction "length path + 1 - capacity" arbitrary: capacity rule: less_induct)
  case less
  have answer: "file_name capacity = (if length path < capacity then (length path, path @ replicate (capacity - length path) CHR 0x00)
                                      else (capacity, take capacity path))"
    using assms(1) by (simp add: answers_file_name_def)
  show ?case
  proof (cases "length path < capacity")
    case True
    with answer assms(2) show ?thesis by (subst windows_path.simps) simp
  next
    case False
    with less have "windows_path file_name msg (capacity * 2) = Some (Inr path)" by simp
    with answer False less.prems show ?thesis by (subst windows_path.simps) simp
  qed
qed

section \<open>Files beside the program\<close>

text \<open>Paths have their parts between slashes; the extension begins at the last dot of a name that has one after its start.\<close>

definition file_part :: "string \<Rightarrow> string" where
  "file_part path = rev (takeWhile (\<lambda>c. c \<noteq> CHR ''/'') (rev path))"

definition dir_part :: "string \<Rightarrow> string" where
  "dir_part path = rev (dropWhile (\<lambda>c. c \<noteq> CHR ''/'') (rev path))"

definition replace_filename :: "string \<Rightarrow> string \<Rightarrow> string" where
  "replace_filename new path = dir_part path @ new"

definition stem :: "string \<Rightarrow> string" where
  "stem name =
     (let base = rev (drop 1 (dropWhile (\<lambda>c. c \<noteq> CHR ''.'') (rev name)))
      in if CHR ''.'' \<notin> set name \<or> base = [] \<or> name = ''..'' then name else base)"

definition replace_extension :: "string \<Rightarrow> string \<Rightarrow> string" where
  "replace_extension ext path = dir_part path @ stem (file_part path) @ ''.'' @ ext"

definition database_file :: "string \<Rightarrow> string" where
  "database_file path = replace_filename ''database.db'' path"

definition log_file :: "string \<Rightarrow> string" where
  "log_file path = replace_extension ''log'' path"

lemma while_until:
  "c \<notin> set xs \<Longrightarrow> dropWhile (\<lambda>x. x \<noteq> c) (xs @ c # ys) = c # ys"
  "c \<notin> set xs \<Longrightarrow> takeWhile (\<lambda>x. x \<noteq> c) (xs @ c # ys) = xs"
  by (induction xs) auto

lemma path_parts:
  assumes "CHR ''/'' \<notin> set name"
  shows "dir_part (dir @ ''/'' @ name) = dir @ ''/''" "file_part (dir @ ''/'' @ name) = name"
  using assms by (simp_all add: dir_part_def file_part_def while_until)

lemma stem_extension:
  assumes "base \<noteq> []" "CHR ''.'' \<notin> set ext" "base \<noteq> ''.'' \<or> ext \<noteq> []"
  shows "stem (base @ ''.'' @ ext) = base"
proof -
  have "dropWhile (\<lambda>c. c \<noteq> CHR ''.'') (rev (base @ ''.'' @ ext)) = CHR ''.'' # rev base"
    using assms(2) by (simp add: while_until)
  moreover have "base @ ''.'' @ ext \<noteq> ''..''" using assms by (auto simp: append_eq_Cons_conv)
  ultimately show ?thesis using assms(1) by (simp add: stem_def)
qed

text \<open>
  On Windows the path of the program is found however long it is. The database and the log file
  are in the directory of the program, the log file with the name of the program.
\<close>

lemma windows_program_found:
  assumes "answers_file_name path (sc_file_name sys)" "path \<noteq> []"
  shows "GetExecutablePath Windows sys = Some (Inr path)"
  using windows_path_found [OF assms] by (simp add: max_path_def)

lemma files_beside_program:
  assumes "CHR ''/'' \<notin> set base" "CHR ''/'' \<notin> set ext" "base \<noteq> []" "CHR ''.'' \<notin> set ext" "base \<noteq> ''.'' \<or> ext \<noteq> []"
  shows "database_file (dir @ ''/'' @ base @ ''.'' @ ext) = dir @ ''/database.db''"
    and "log_file (dir @ ''/'' @ base @ ''.'' @ ext) = dir @ ''/'' @ base @ ''.log''"
  using path_parts [of "base @ ''.'' @ ext" dir] assms stem_extension [of base ext]
  by (simp_all add: database_file_def log_file_def replace_filename_def replace_extension_def)

end
