(* ===== verification/Connecting.thy ===== *)
theory Connecting
  imports Lifecycle
begin

text \<open>
  How a session on the websocket is set up (the coroutine that \<open>run_session\<close> spawns, GatewayImpl.cpp):
  the address is resolved, connected to, and asked for the protocol that the rest of the gateway
  expects. What the network answers, with the seconds it takes, is an argument.
\<close>

section \<open>Addresses\<close>

text \<open>The parts of an address as they are written in it; the parameters in their order.\<close>

record url =
  u_host :: string
  u_port :: "string option"
  u_path :: string
  u_params :: "(string \<times> string) list"

definition encoded_authority :: "url \<Rightarrow> string" where
  "encoded_authority u = u_host u @ (case u_port u of None \<Rightarrow> [] | Some p \<Rightarrow> '':'' @ p)"

fun encoded_query :: "(string \<times> string) list \<Rightarrow> string" where
  "encoded_query [] = []"
| "encoded_query [(k, v)] = k @ ''='' @ v"
| "encoded_query ((k, v) # ps) = k @ ''='' @ v @ ''&'' @ encoded_query ps"

definition encoded_resource :: "url \<Rightarrow> string" where
  "encoded_resource u = u_path u @ (if u_params u = [] then [] else ''?'' @ encoded_query (u_params u))"

section \<open>The steps\<close>

text \<open>What is resolved: the host and the port, which is that of HTTPS unless there is one.\<close>

definition service :: "url \<Rightarrow> string" where
  "service u = (case u_port u of Some p \<Rightarrow> p | None \<Rightarrow> ''https'')"

definition api_version :: string where "api_version = ''10''"

text \<open>The address that the handshake names: with a path, the port of the endpoint and the parameters of the protocol.\<close>

definition with_protocol :: "nat \<Rightarrow> url \<Rightarrow> url" where
  "with_protocol port u =
     u\<lparr>u_path := (if u_path u = [] then ''/'' else u_path u),
       u_port := Some (to_dec port),
       u_params := u_params u @ [(''v'', api_version), (''encoding'', ''json''), (''compress'', ''zlib-stream'')]\<rparr>"

record handshake =
  hs_authority :: string
  hs_resource :: string
  hs_host :: string
  hs_user_agent :: string

definition handshake_for :: "nat \<Rightarrow> url \<Rightarrow> handshake" where
  "handshake_for port u =
     (let v = with_protocol port u in
      \<lparr>hs_authority = encoded_authority v, hs_resource = encoded_resource v, hs_host = encoded_authority v,
       hs_user_agent = ''GreekBot''\<rparr>)"

text \<open>
  What the network answers to the four steps, and how many seconds connecting and the TLS handshake
  take, for which there are 30 together. Resolving has no limit; the handshake of the websocket has
  the one of its library, which answers with an error.
\<close>

record net_answers =
  na_resolve :: "string \<times> string \<Rightarrow> exn + unit"
  na_connect :: "exn + nat"
  na_connect_time :: nat
  na_tls :: "exn + unit"
  na_tls_time :: nat
  na_handshake :: "handshake \<Rightarrow> exn + unit"

definition timed_out :: exn where "timed_out = xTransport 1"

definition connect_limit :: nat where "connect_limit = 30"

definition set_up :: "net_answers \<Rightarrow> url \<Rightarrow> exn + unit" where
  "set_up a u =
     (case na_resolve a (u_host u, service u) of
        Inl e \<Rightarrow> Inl e
      | Inr _ \<Rightarrow>
          if na_connect_time a > connect_limit then Inl timed_out
          else case na_connect a of
            Inl e \<Rightarrow> Inl e
          | Inr port \<Rightarrow>
              if na_connect_time a + na_tls_time a > connect_limit then Inl timed_out
              else case na_tls a of
                Inl e \<Rightarrow> Inl e
              | Inr _ \<Rightarrow> na_handshake a (handshake_for port u))"

text \<open>What the gateway makes of it: the session is read from, or the next try is waited for.\<close>

definition attempt :: "gw_env \<Rightarrow> net_answers \<Rightarrow> url \<Rightarrow> int \<Rightarrow> gateway \<Rightarrow> gateway" where
  "attempt env a u now g =
     gw_step env (case set_up a u of Inr _ \<Rightarrow> Connected | Inl _ \<Rightarrow> ConnectFailed now) g"

section \<open>What is asked for\<close>

lemma encoded_query_snoc:
  "encoded_query (ps @ [(k, v)]) = (if ps = [] then [] else encoded_query ps @ ''&'') @ k @ ''='' @ v"
  by (induction ps rule: encoded_query.induct) auto

text \<open>
  Whatever address the gateway was given, a session is set up only after a handshake that asks for
  version 10 of the protocol, for JSON and for compression with zlib, at the host of the address
  and in addition to what the address itself asks for.
\<close>

lemma handshake_asks:
  "hs_resource (handshake_for port u)
     = (if u_path u = [] then ''/'' else u_path u) @ ''?''
       @ (if u_params u = [] then [] else encoded_query (u_params u) @ ''&'')
       @ ''v=10&encoding=json&compress=zlib-stream''"
  "hs_host (handshake_for port u) = u_host u @ '':'' @ to_dec port"
  using encoded_query_snoc [of "u_params u" "''v''" "''10''"]
    encoded_query_snoc [of "u_params u @ [(''v'', ''10'')]" "''encoding''" "''json''"]
    encoded_query_snoc [of "u_params u @ [(''v'', ''10''), (''encoding'', ''json'')]" "''compress''" "''zlib-stream''"]
  by (simp_all add: handshake_for_def with_protocol_def encoded_resource_def encoded_authority_def api_version_def Let_def)

lemma set_up_only_after_handshake:
  "set_up a u = Inr x \<Longrightarrow>
     \<exists>port. na_connect a = Inr port \<and> na_handshake a (handshake_for port u) = Inr ()
            \<and> na_connect_time a + na_tls_time a \<le> connect_limit"
  by (auto simp: set_up_def split: sum.splits if_splits)

text \<open>An attempt is settled: the gateway either has a session that is about to be read from or waits for the next try.\<close>

lemma attempt_settles:
  assumes "gw_connecting g = x # xs"
  shows "gw_connecting (attempt env a u now g) = xs
     \<and> gw_opened (attempt env a u now g) + gw_retrying (attempt env a u now g) = Suc (gw_opened g + gw_retrying g)"
  using assms
  by (simp add: attempt_def session_connected_def session_failed_def retry_def Let_def split: sum.split option.split)

end
