(* ===== verification/Components.thy ===== *)
theory Components
  imports Interaction
begin

text \<open>
  What the types of the Discord objects do beside reading and writing: the variant of components
  and how it chooses its alternative (Objects/ComponentFwd.h), the component that only keeps its
  JSON (Component/UnsupportedComponent.cpp), the identifier of a component (ComponentBase.h), what
  is moved out of an option (AppCmdInteraction.cpp), and the format of emojis (Emoji.h).
\<close>

section \<open>The variant of components\<close>

datatype component_kind =
    KActionRow | KButton | KSelectMenu | KTextInput | KPartialTextInput | KTextDisplay | KLabel | KPartialLabel | KUnsupported

text \<open>The type of each kind; a kind that is only received has the type of the one that is sent.\<close>

fun kind_type :: "component_kind \<Rightarrow> int" where
  "kind_type KActionRow = COMPONENT_ACTION_ROW"
| "kind_type KButton = COMPONENT_BUTTON"
| "kind_type KSelectMenu = COMPONENT_SELECT_MENU"
| "kind_type KTextInput = COMPONENT_TEXT_INPUT"
| "kind_type KPartialTextInput = COMPONENT_TEXT_INPUT"
| "kind_type KTextDisplay = COMPONENT_TEXT_DISPLAY"
| "kind_type KLabel = COMPONENT_LABEL"
| "kind_type KPartialLabel = COMPONENT_LABEL"
| "kind_type KUnsupported = 2147483647"

text \<open>The kinds of a variant must be sorted by their types, without two of the same type.\<close>

fun adjacent_equal :: "int list \<Rightarrow> bool" where
  "adjacent_equal (x # y # zs) = (x = y \<or> adjacent_equal (y # zs))"
| "adjacent_equal _ = False"

definition is_sorted_component_list :: "component_kind list \<Rightarrow> bool" where
  "is_sorted_component_list ks = (sorted (map kind_type ks) \<and> \<not> adjacent_equal (map kind_type ks))"

text \<open>
  The alternative that is constructed from JSON of the type \<open>t\<close>: of the kinds with that type the one
  that the variant lists, the one that is sent before the one that is received, and otherwise the
  component that keeps its JSON; a variant without that one throws.
\<close>

definition candidates :: "int \<Rightarrow> component_kind list" where
  "candidates t =
     (if t = COMPONENT_ACTION_ROW then [KActionRow]
      else if t = COMPONENT_BUTTON then [KButton]
      else if t = COMPONENT_SELECT_MENU then [KSelectMenu]
      else if t = COMPONENT_TEXT_INPUT then [KTextInput, KPartialTextInput]
      else if t = COMPONENT_TEXT_DISPLAY then [KTextDisplay]
      else if t = COMPONENT_LABEL then [KLabel, KPartialLabel]
      else [])"

definition variant_alternative :: "component_kind list \<Rightarrow> int \<Rightarrow> component_kind option" where
  "variant_alternative ks t = List.find (\<lambda>k. k \<in> set ks) (candidates t @ [KUnsupported])"

text \<open>The variants of the program: the children of a row, the layouts, what a label and a modal hand back.\<close>

definition row_kinds :: "component_kind list" where "row_kinds = [KButton, KSelectMenu, KUnsupported]"
definition layout_kinds :: "component_kind list" where "layout_kinds = [KActionRow, KTextDisplay, KUnsupported]"
definition label_kinds :: "component_kind list" where "label_kinds = [KPartialTextInput, KUnsupported]"
definition modal_kinds :: "component_kind list" where "modal_kinds = [KActionRow, KPartialLabel, KUnsupported]"
definition sent_label_kinds :: "component_kind list" where "sent_label_kinds = [KTextInput, KUnsupported]"
definition sent_modal_kinds :: "component_kind list" where "sent_modal_kinds = [KActionRow, KLabel, KUnsupported]"

lemmas variants = row_kinds_def layout_kinds_def label_kinds_def modal_kinds_def sent_label_kinds_def sent_modal_kinds_def

lemma adjacent_equal_sorted: "sorted xs \<Longrightarrow> \<not> adjacent_equal xs \<longleftrightarrow> distinct xs"
  by (induction xs rule: adjacent_equal.induct) (auto simp: le_less dest: leD)

lemma variants_sorted:
  "is_sorted_component_list row_kinds" "is_sorted_component_list layout_kinds"
  "is_sorted_component_list label_kinds" "is_sorted_component_list modal_kinds"
  "is_sorted_component_list sent_label_kinds" "is_sorted_component_list sent_modal_kinds"
  by (simp_all add: is_sorted_component_list_def variants component_types)

text \<open>
  In a sorted list a type belongs to one kind, so the alternative is the kind of the variant that
  has the type, if there is one.
\<close>

lemma kind_candidates: "k \<noteq> KUnsupported \<Longrightarrow> k \<in> set (candidates (kind_type k))"
  by (cases k) (simp_all add: candidates_def component_types)

lemma candidates_kind: "k \<in> set (candidates t) \<Longrightarrow> kind_type k = t \<and> k \<noteq> KUnsupported"
  by (auto simp: candidates_def split: if_splits)

lemma alternative_has_type:
  assumes "is_sorted_component_list ks" "k \<in> set ks" "k \<noteq> KUnsupported"
  shows "variant_alternative ks (kind_type k) = Some k"
proof -
  have unique: "k' = k" if "k' \<in> set ks" "kind_type k' = kind_type k" for k'
    using assms(1,2) that
    by (auto simp: is_sorted_component_list_def adjacent_equal_sorted distinct_map inj_on_def)
  have "List.find (\<lambda>k. k \<in> set ks) (candidates (kind_type k) @ [KUnsupported]) \<noteq> None"
    using assms(2) kind_candidates [OF assms(3)] by (auto simp: find_None_iff)
  moreover have "List.find (\<lambda>k. k \<in> set ks) (candidates (kind_type k) @ [KUnsupported]) = Some k' \<Longrightarrow> k' = k" for k'
  proof -
    assume found: "List.find (\<lambda>k. k \<in> set ks) (candidates (kind_type k) @ [KUnsupported]) = Some k'"
    then obtain i where i: "i < Suc (length (candidates (kind_type k)))" "k' = (candidates (kind_type k) @ [KUnsupported]) ! i"
      "k' \<in> set ks" "\<forall>j < i. (candidates (kind_type k) @ [KUnsupported]) ! j \<notin> set ks"
      by (auto simp: find_Some_iff)
    obtain j where j: "j < length (candidates (kind_type k))" "candidates (kind_type k) ! j = k"
      using kind_candidates [OF assms(3)] by (auto simp: in_set_conv_nth)
    with i assms(2) have "i \<le> j" by (auto simp: nth_append not_less [symmetric])
    with i j have "k' \<in> set (candidates (kind_type k))" by (simp add: nth_append)
    with i unique show ?thesis by (auto dest: candidates_kind)
  qed
  ultimately show ?thesis by (auto simp: variant_alternative_def)
qed

lemma find_append: "List.find P (xs @ ys) = (case List.find P xs of None \<Rightarrow> List.find P ys | Some x \<Rightarrow> Some x)"
  by (induction xs) simp_all

lemma alternative_unsupported:
  assumes "KUnsupported \<in> set ks" "\<forall>k \<in> set ks. k \<noteq> KUnsupported \<longrightarrow> kind_type k \<noteq> t"
  shows "variant_alternative ks t = Some KUnsupported"
proof -
  have "List.find (\<lambda>k. k \<in> set ks) (candidates t) = None"
    using assms(2) candidates_kind by (fastforce simp: find_None_iff)
  then show ?thesis using assms(1) by (simp add: variant_alternative_def find_append)
qed

section \<open>Looking at the alternative\<close>

text \<open>\<open>As\<close> throws when the variant holds another alternative, \<open>If\<close> gives a null pointer; \<open>get\<close> knows the alternative.\<close>

definition variant_As :: "('v \<Rightarrow> 'a option) \<Rightarrow> 'v \<Rightarrow> exn + 'a" where
  "variant_As get v = (case get v of Some x \<Rightarrow> Inr x | None \<Rightarrow> Inl xBadVariantAccess)"

definition variant_If :: "('v \<Rightarrow> 'a option) \<Rightarrow> 'v \<Rightarrow> 'a option" where
  "variant_If get v = get v"

text \<open>The readers of the variants choose as the variant does.\<close>

lemma readers_follow_variant:
  "row_child_of_json v = bindS (component_type v) (\<lambda>t.
     case variant_alternative row_kinds t of
       Some KButton \<Rightarrow> bindS (cButton_of_json v) (\<lambda>b. Inr (RButton b))
     | Some KSelectMenu \<Rightarrow> bindS (cSelectMenu_of_json v) (\<lambda>s. Inr (RSelect s))
     | _ \<Rightarrow> Inr (RUnsupported v))"
  "layout_of_json v = bindS (component_type v) (\<lambda>t.
     case variant_alternative layout_kinds t of
       Some KActionRow \<Rightarrow> bindS (cActionRow_of_json v) (\<lambda>r. Inr (LRow r))
     | Some KTextDisplay \<Rightarrow> bindS (cTextDisplay_of_json v) (\<lambda>d. Inr (LText d))
     | _ \<Rightarrow> Inr (LUnsupported v))"
  "label_child_of_json v = bindS (component_type v) (\<lambda>t.
     case variant_alternative label_kinds t of
       Some KPartialTextInput \<Rightarrow> bindS (cPartialTextInput_of_json v) (\<lambda>i. Inr (LInput i))
     | _ \<Rightarrow> Inr (LOther v))"
  "submitted_of_json v = bindS (component_type v) (\<lambda>t.
     case variant_alternative modal_kinds t of
       Some KActionRow \<Rightarrow> bindS (cActionRow_of_json v) (\<lambda>r. Inr (SRow r))
     | Some KPartialLabel \<Rightarrow> bindS (cPartialLabel_of_json v) (\<lambda>l. Inr (SLabel l))
     | _ \<Rightarrow> Inr (SUnsupported v))"
  by (auto simp: variant_alternative_def candidates_def variants component_types bindS_def split: sum.split)

section \<open>The component that keeps its JSON\<close>

text \<open>
  The JSON is held by a pointer, which is null once the component was moved from. Copying such a
  component, assigning to or from it and writing it follow the null pointer: the result is \<open>None\<close>.
\<close>

type_synonym unsupported = "json option"

definition unsupported_of_json :: "json \<Rightarrow> unsupported" where
  "unsupported_of_json v = Some v"

definition unsupported_copy :: "unsupported \<Rightarrow> unsupported option" where
  "unsupported_copy c = map_option Some c"

definition unsupported_assign :: "unsupported \<Rightarrow> unsupported \<Rightarrow> unsupported option" where
  "unsupported_assign to from = (if to = None then None else map_option Some from)"

definition unsupported_move :: "unsupported \<Rightarrow> unsupported \<times> unsupported" where
  "unsupported_move c = (c, None)"

definition unsupported_to_json :: "unsupported \<Rightarrow> json option" where
  "unsupported_to_json c = c"

text \<open>What was read is written as it was, also from a copy, an assignment or what it was moved to.\<close>

lemma unsupported_roundtrip:
  "unsupported_to_json (unsupported_of_json v) = Some v"
  "Option.bind (unsupported_copy (unsupported_of_json v)) unsupported_to_json = Some v"
  "Option.bind (unsupported_assign (unsupported_of_json w) (unsupported_of_json v)) unsupported_to_json = Some v"
  "unsupported_to_json (fst (unsupported_move (unsupported_of_json v))) = Some v"
  by (simp_all add: unsupported_to_json_def unsupported_of_json_def unsupported_copy_def unsupported_assign_def unsupported_move_def)

section \<open>The identifier of a component\<close>

record cComponentBase =
  cb_id :: "32 word"

definition component_base :: "32 word \<Rightarrow> cComponentBase" where
  "component_base i = \<lparr>cb_id = i\<rparr>"

definition GetId :: "cComponentBase \<Rightarrow> int" where "GetId c = sint (cb_id c)"
definition ResetId :: "cComponentBase \<Rightarrow> cComponentBase" where "ResetId c = c\<lparr>cb_id := 0\<rparr>"

text \<open>One setter takes a signed number, the other an unsigned one of the same width.\<close>

definition SetId :: "int \<Rightarrow> cComponentBase \<Rightarrow> cComponentBase" where
  "SetId i c = c\<lparr>cb_id := word_of_int i\<rparr>"

definition EmplaceId :: "u32 \<Rightarrow> cComponentBase \<Rightarrow> cComponentBase" where
  "EmplaceId i c = c\<lparr>cb_id := i\<rparr>"

lemma id_set:
  "- (2 ^ 31) \<le> i \<Longrightarrow> i < 2 ^ 31 \<Longrightarrow> GetId (SetId i c) = i"
  "GetId (EmplaceId w c) = (if uint w < 2 ^ 31 then uint w else uint w - 2 ^ 32)"
proof -
  show "- (2 ^ 31) \<le> i \<Longrightarrow> i < 2 ^ 31 \<Longrightarrow> GetId (SetId i c) = i"
    unfolding GetId_def SetId_def using signed_take_bit_int_eq_self [of 31 i] by simp (transfer, simp)
  have "sint w = signed_take_bit 31 (uint w)" by (simp add: sint_uint)
  moreover have bounds: "0 \<le> uint w" "uint w < 2 ^ 32" using uint_bounded [of w] by simp_all
  moreover have "(uint w + 2147483648) mod 4294967296 = uint w - 2147483648" if "\<not> uint w < 2147483648"
    using that bounds mod_pos_geq [of 4294967296 "uint w + 2147483648"] by simp
  ultimately show "GetId (EmplaceId w c) = (if uint w < 2 ^ 31 then uint w else uint w - 2 ^ 32)"
    by (auto simp: GetId_def EmplaceId_def signed_take_bit_eq_take_bit_shift take_bit_eq_mod)
qed

section \<open>What is moved out of an option\<close>

text \<open>The options of a subcommand, which has none afterwards.\<close>

definition MoveOptions :: "cAppCmdOption \<Rightarrow> cAppCmdOption list \<times> cAppCmdOption" where
  "MoveOptions p =
     (case opt_value p of
        VOptions os \<Rightarrow> (os, AppCmdOption (opt_name p) (opt_type p) (VOptions []))
      | _ \<Rightarrow> ([], p))"

definition move_value_string :: "cAppCmdOption \<Rightarrow> exn + string" where
  "move_value_string p =
     (case opt_value p of VString s \<Rightarrow> Inr s | _ \<Rightarrow> Inl (xAppCmdOptionTypeError ''APP_CMD_OPT_STRING''))"

definition move_value_user :: "cAppCmdOption \<Rightarrow> exn + cUser \<times> cPartialMember option" where
  "move_value_user p =
     (case opt_value p of VUser u m \<Rightarrow> Inr (u, m) | _ \<Rightarrow> Inl (xAppCmdOptionTypeError ''APP_CMD_OPT_USER''))"

lemma MoveOptions_get: "fst (MoveOptions p) = GetOptions p" "GetOptions (snd (MoveOptions p)) = []"
  by (simp_all add: MoveOptions_def GetOptions_def split: option_value.split)

lemma moved_values: "move_value_string p = GetValue_STRING p" "move_value_user p = GetValue_USER p"
  by (simp_all add: move_value_string_def GetValue_STRING_def move_value_user_def GetValue_USER_def)

section \<open>The format of emojis\<close>

text \<open>
  The format specification runs to the next closing brace; what is left is read by the caller. It
  may be empty or \<open>pct\<close>, for the form of an emoji in an address.
\<close>

definition emoji_parse :: "string \<Rightarrow> exn + bool \<times> string" where
  "emoji_parse s =
     (let spec = takeWhile (\<lambda>c. c \<noteq> CHR 0x7D) s; left = drop (length spec) s in
      if spec = [] then Inr (False, left)
      else if spec = ''pct'' then Inr (True, left)
      else Inl (xRuntimeError ''invalid cEmoji format specifier (use pct)''))"

definition emoji_format :: "bool \<Rightarrow> cEmoji \<Rightarrow> string" where
  "emoji_format pct e = (if pct then emoji_pct e else emoji_text e)"

definition emoji_ToString :: "cEmoji \<Rightarrow> string" where
  "emoji_ToString e = emoji_format False e"

lemma emoji_parse_specs: "emoji_parse (CHR 0x7D # s) = Inr (False, CHR 0x7D # s)" "emoji_parse (''pct'' @ CHR 0x7D # s) = Inr (True, CHR 0x7D # s)"
  by (simp_all add: emoji_parse_def)

lemma emoji_parse_rejects:
  "CHR 0x7D \<notin> set spec \<Longrightarrow> spec \<noteq> [] \<Longrightarrow> spec \<noteq> ''pct'' \<Longrightarrow>
   emoji_parse (spec @ CHR 0x7D # s) = Inl (xRuntimeError ''invalid cEmoji format specifier (use pct)'')"
proof -
  assume a: "CHR 0x7D \<notin> set spec" "spec \<noteq> []" "spec \<noteq> ''pct''"
  have "takeWhile (\<lambda>c. c \<noteq> CHR 0x7D) (spec @ CHR 0x7D # s) = spec" using a(1) by (induction spec) auto
  with a show ?thesis by (simp add: emoji_parse_def)
qed

end
