(* ===== verification/Coroutine_Handles.thy ===== *)
theory Coroutine_Handles
  imports Handles
begin

text \<open>
  The objects that own the frames of coroutines (Discord/Coroutines: \<open>cTask\<close>, \<open>cAsyncGenerator\<close> and
  its iterator, \<open>cGenerator\<close>), and the buffer in the promise of an asynchronous generator for a
  value that is yielded by copy (AsyncGenerator.h). What the coroutines compute is in Tasks and
  Generators.
\<close>

section \<open>Frames\<close>

datatype owner = Task | AsyncGenerator | Iterator | Generator

text \<open>The frames that were made are numbered, the destroyed ones are listed; the objects of each kind have a frame or none.\<close>

record frames =
  fr_made :: nat
  fr_destroyed :: "nat list"
  fr_objs :: "owner \<Rightarrow> nat option list"

definition no_frames :: frames where
  "no_frames = \<lparr>fr_made = 0, fr_destroyed = [], fr_objs = (\<lambda>k. [])\<rparr>"

definition frame_destroy :: "nat option \<Rightarrow> frames \<Rightarrow> frames" where
  "frame_destroy h s = (case h of None \<Rightarrow> s | Some n \<Rightarrow> s\<lparr>fr_destroyed := fr_destroyed s @ [n]\<rparr>)"

definition frame_take :: "owner \<Rightarrow> nat \<Rightarrow> frames \<Rightarrow> nat option \<times> frames" where
  "frame_take k i s = (slot (fr_objs s k) i, s\<lparr>fr_objs := (fr_objs s)(k := (fr_objs s k)[i := None])\<rparr>)"

definition frame_new :: "owner \<Rightarrow> nat option \<Rightarrow> frames \<Rightarrow> frames" where
  "frame_new k h s = s\<lparr>fr_objs := (fr_objs s)(k := fr_objs s k @ [h])\<rparr>"

text \<open>A coroutine that is called makes its frame and hands an object to its caller.\<close>

definition get_return_object :: "owner \<Rightarrow> frames \<Rightarrow> frames" where
  "get_return_object k s = frame_new k (Some (fr_made s)) (s\<lparr>fr_made := Suc (fr_made s)\<rparr>)"

definition owner_move :: "owner \<Rightarrow> nat \<Rightarrow> frames \<Rightarrow> frames" where
  "owner_move k i s = (case frame_take k i s of (h, s1) \<Rightarrow> frame_new k h s1)"

definition owner_destroy :: "owner \<Rightarrow> nat \<Rightarrow> frames \<Rightarrow> frames" where
  "owner_destroy k i s = (case frame_take k i s of (h, s1) \<Rightarrow> frame_destroy h s1)"

definition owner_assign :: "owner \<Rightarrow> nat \<Rightarrow> nat \<Rightarrow> frames \<Rightarrow> frames" where
  "owner_assign k i j s =
     (case frame_take k j s of (arg, s1) \<Rightarrow>
        let old = slot (fr_objs s1 k) i in
        if i < length (fr_objs s1 k) then frame_destroy old (s1\<lparr>fr_objs := (fr_objs s1)(k := (fr_objs s1 k)[i := arg])\<rparr>)
        else frame_destroy arg s1)"

text \<open>
  \<open>begin\<close> hands the frame of a generator to a new iterator, and an iterator destroys the frame when
  the body has ended.
\<close>

definition begin_iteration :: "nat \<Rightarrow> frames \<Rightarrow> frames" where
  "begin_iteration i s = (case frame_take AsyncGenerator i s of (h, s1) \<Rightarrow> frame_new Iterator h s1)"

definition iteration_ended :: "nat \<Rightarrow> frames \<Rightarrow> frames" where
  "iteration_ended i s = owner_destroy Iterator i s"

datatype frame_event =
    CallCoroutine owner
  | MoveOwner owner nat
  | AssignOwner owner nat nat
  | DestroyOwner owner nat
  | BeginIteration nat
  | IterationEnded nat

fun frame_step :: "frame_event \<Rightarrow> frames \<Rightarrow> frames" where
  "frame_step (CallCoroutine k) s = get_return_object k s"
| "frame_step (MoveOwner k i) s = owner_move k i s"
| "frame_step (AssignOwner k i j) s = owner_assign k i j s"
| "frame_step (DestroyOwner k i) s = owner_destroy k i s"
| "frame_step (BeginIteration i) s = begin_iteration i s"
| "frame_step (IterationEnded i) s = iteration_ended i s"

section \<open>Every frame has one owner\<close>

definition frame_account :: "frames \<Rightarrow> nat multiset" where
  "frame_account s =
     held (fr_objs s Task) + held (fr_objs s AsyncGenerator) + held (fr_objs s Iterator) + held (fr_objs s Generator)
     + mset (fr_destroyed s)"

abbreviation framed :: "nat option \<Rightarrow> frames \<Rightarrow> bool" where
  "framed \<equiv> balanced_by frame_account fr_made"

interpretation frame_slots:
  handle_slots frame_account fr_made "\<lambda>s. fr_objs s k" "\<lambda>xs s. s\<lparr>fr_objs := (fr_objs s)(k := xs)\<rparr>" for k
  by unfold_locales (cases k, simp_all add: frame_account_def ac_simps)

lemma framed_destroy: "framed h s \<Longrightarrow> framed None (frame_destroy h s)"
  by (cases h) (simp_all add: frame_destroy_def balanced_by_def frame_account_def)

lemma framed_new: "framed h s \<Longrightarrow> framed None (frame_new k h s)"
  by (simp add: frame_new_def frame_slots.balanced_add)

lemma framed_take: "framed None s \<Longrightarrow> frame_take k i s = (h, s1) \<Longrightarrow> framed h s1"
  by (auto simp: frame_take_def frame_slots.balanced_take)

lemma framed_fresh: "framed None s \<Longrightarrow> framed (Some (fr_made s)) (s\<lparr>fr_made := Suc (fr_made s)\<rparr>)"
  by (simp add: balanced_by_def frame_account_def)

lemmas framed_put = framed_destroy framed_new

lemma framed_ops:
  assumes "framed None s"
  shows "framed None (get_return_object k s)" "framed None (owner_move k i s)" "framed None (owner_destroy k i s)"
    and "framed None (owner_assign k i j s)" "framed None (begin_iteration i s)"
  using framed_fresh [OF assms] framed_take [OF assms]
  by (auto simp: get_return_object_def owner_move_def owner_destroy_def owner_assign_def begin_iteration_def Let_def
      framed_put frame_slots.balanced_swap split: prod.splits)

lemma framed_step: "framed None s \<Longrightarrow> framed None (frame_step e s)"
  by (cases e) (simp_all add: framed_ops iteration_ended_def)

lemma framed_run: "framed None s \<Longrightarrow> framed None (fold frame_step es s)"
  by (induction es arbitrary: s) (simp_all add: framed_step)

lemma framed_start: "framed None no_frames"
  by (simp add: balanced_by_def frame_account_def no_frames_def)

definition frame_places :: "frames \<Rightarrow> nat list" where
  "frame_places s =
     List.map_filter id (fr_objs s Task @ fr_objs s AsyncGenerator @ fr_objs s Iterator @ fr_objs s Generator) @ fr_destroyed s"

lemma mset_frame_places: "mset (frame_places s) = frame_account s"
  by (simp only: frame_places_def frame_account_def mset_append held_list held_append add.assoc)

text \<open>
  However tasks, generators and iterators are called, moved, assigned, iterated and destroyed,
  every frame is owned by one object or was destroyed, once.
\<close>

theorem frames_owned_once:
  "distinct (frame_places (fold frame_step es no_frames))
   \<and> set (frame_places (fold frame_step es no_frames)) = {0..<fr_made (fold frame_step es no_frames)}"
proof
  let ?s = "fold frame_step es no_frames"
  from framed_run [OF framed_start, of es] have "mset (frame_places ?s) = mset [0..<fr_made ?s]"
    by (simp only: mset_frame_places balanced_by_def of_opt_simps add_0_right mset_given_out)
  then show "distinct (frame_places ?s)" "set (frame_places ?s) = {0..<fr_made ?s}"
    by (simp_all only: mset_eq_imp_distinct_iff distinct_upt mset_eq_setD set_upt)
qed

section \<open>The buffer of a generator\<close>

text \<open>
  The pointer to the yielded value is null, points to an object outside the promise or to the
  buffer. The buffer has a live object or none; the model counts the destructions of an object
  that is not there and the constructions over one that is.
\<close>

datatype value_ptr = NullValue | OutsideValue | BufferValue

record promise_buffer =
  pb_value :: value_ptr
  pb_live :: bool
  pb_dead :: nat
  pb_lost :: nat

definition promise_start :: promise_buffer where
  "promise_start = \<lparr>pb_value = NullValue, pb_live = False, pb_dead = 0, pb_lost = 0\<rparr>"

definition destroy_at :: "promise_buffer \<Rightarrow> promise_buffer" where
  "destroy_at p = (if pb_live p then p\<lparr>pb_live := False\<rparr> else p\<lparr>pb_dead := Suc (pb_dead p)\<rparr>)"

definition construct_at :: "promise_buffer \<Rightarrow> promise_buffer" where
  "construct_at p = (if pb_live p then p\<lparr>pb_lost := Suc (pb_lost p)\<rparr> else p\<lparr>pb_live := True\<rparr>)"

definition destroy_value :: "promise_buffer \<Rightarrow> promise_buffer" where
  "destroy_value p = (if pb_value p = BufferValue then destroy_at p else p)"

definition clear_value :: "promise_buffer \<Rightarrow> promise_buffer" where
  "clear_value p = (destroy_value p)\<lparr>pb_value := NullValue\<rparr>"

definition set_value_ref :: "promise_buffer \<Rightarrow> promise_buffer" where
  "set_value_ref p = (destroy_value p)\<lparr>pb_value := OutsideValue\<rparr>"

text \<open>A copy that throws is not constructed, and the pointer is not assigned.\<close>

definition set_value_copy :: "bool \<Rightarrow> promise_buffer \<Rightarrow> promise_buffer" where
  "set_value_copy throws p =
     (let p1 = destroy_value p in if throws then p1 else (construct_at p1)\<lparr>pb_value := BufferValue\<rparr>)"

text \<open>What the body of a generator does: it awaits, yields an object by reference or by copy, or ends.\<close>

datatype body_event = BodyAwaits | YieldsRef | YieldsCopy bool | BodyEnds

fun promise_step :: "body_event \<Rightarrow> promise_buffer \<Rightarrow> promise_buffer" where
  "promise_step BodyAwaits p = clear_value p"
| "promise_step YieldsRef p = set_value_ref p"
| "promise_step (YieldsCopy throws) p = set_value_copy throws p"
| "promise_step BodyEnds p = clear_value p"

text \<open>The promise is destroyed with the frame, wherever the body is suspended.\<close>

definition promise_life :: "body_event list \<Rightarrow> promise_buffer" where
  "promise_life es = destroy_value (fold promise_step es promise_start)"

definition buffer_sound :: "promise_buffer \<Rightarrow> bool" where
  "buffer_sound p \<longleftrightarrow> (pb_live p \<longleftrightarrow> pb_value p = BufferValue) \<and> pb_dead p = 0 \<and> pb_lost p = 0"

lemmas buffer_ops = destroy_value_def destroy_at_def construct_at_def clear_value_def set_value_ref_def set_value_copy_def

lemma sound_step: "buffer_sound p \<Longrightarrow> e \<noteq> YieldsCopy True \<Longrightarrow> buffer_sound (promise_step e p)"
  by (cases e) (auto simp: buffer_sound_def buffer_ops Let_def)

lemma sound_run: "buffer_sound p \<Longrightarrow> YieldsCopy True \<notin> set es \<Longrightarrow> buffer_sound (fold promise_step es p)"
  by (induction es arbitrary: p) (auto simp: sound_step)

text \<open>While no copy throws, every copy is destroyed once, and none is destroyed that is not there.\<close>

lemma copies_destroyed_once:
  "YieldsCopy True \<notin> set es \<Longrightarrow>
     pb_dead (promise_life es) = 0 \<and> pb_lost (promise_life es) = 0 \<and> \<not> pb_live (promise_life es)"
  using sound_run [of promise_start es]
  by (auto simp: buffer_sound_def promise_start_def promise_life_def buffer_ops)

text \<open>A generator of constant values has no buffer: it hands on the address of what is yielded.\<close>

fun const_promise_step :: "body_event \<Rightarrow> promise_buffer \<Rightarrow> promise_buffer" where
  "const_promise_step BodyAwaits p = p\<lparr>pb_value := NullValue\<rparr>"
| "const_promise_step YieldsRef p = p\<lparr>pb_value := OutsideValue\<rparr>"
| "const_promise_step (YieldsCopy throws) p = p\<lparr>pb_value := OutsideValue\<rparr>"
| "const_promise_step BodyEnds p = p\<lparr>pb_value := NullValue\<rparr>"

lemma const_promise_no_copies: "pb_live p \<longleftrightarrow> pb_live (fold const_promise_step es p)"
proof (induction es arbitrary: p)
  case (Cons e es)
  have "pb_live (const_promise_step e p) = pb_live p" by (cases e) simp_all
  with Cons.IH [of "const_promise_step e p"] show ?case by simp
qed simp

text \<open>
  When the copy of a value throws while the one before it is in the buffer, the pointer still leads
  to the buffer although that value is already destroyed; the exception ends the body, which
  destroys it again.
\<close>

theorem failed_copy_destroyed_twice:
  "YieldsCopy True \<notin> set es \<Longrightarrow> promise_life (es @ [YieldsCopy False, YieldsCopy True, BodyEnds])
     = \<lparr>pb_value = NullValue, pb_live = False, pb_dead = 1, pb_lost = 0\<rparr>"
proof -
  assume "YieldsCopy True \<notin> set es"
  then have sound: "buffer_sound (fold promise_step es promise_start)"
    by (intro sound_run) (simp_all add: buffer_sound_def promise_start_def)
  show ?thesis
    using sound by (auto simp: promise_life_def buffer_sound_def buffer_ops Let_def intro!: promise_buffer.equality)
qed

theorem failed_copy_destroyed_twice_witness:
  "promise_life ([YieldsRef, BodyAwaits] @ [YieldsCopy False, YieldsCopy True, BodyEnds])
     = \<lparr>pb_value = NullValue, pb_live = False, pb_dead = 1, pb_lost = 0\<rparr>"
  by (rule failed_copy_destroyed_twice) simp

end
