(* ===== verification/Http_Stream.thy ===== *)
theory Http_Stream
  imports Http
begin

text \<open>
  One request over the stream (\<open>http_coro\<close>, GatewayHttp.cpp): the stream is opened if there is none,
  the request is written and the response read. When the other side has closed the stream, it is
  opened again and the same request is sent once more. What the network answers to the steps of the
  \<open>n\<close>-th try is an argument.
\<close>

datatype read_end = EndOfStream | ReadError exn | ReadResponse http_response

record http_net =
  hn_resolve :: "nat \<Rightarrow> exn + unit"
  hn_connect :: "nat \<Rightarrow> exn + unit"
  hn_tls :: "nat \<Rightarrow> exn + unit"
  hn_write :: "nat \<Rightarrow> exn + unit"
  hn_read :: "nat \<Rightarrow> read_end"

text \<open>The stream is kept only when it was opened successfully.\<close>

definition open_stream :: "http_net \<Rightarrow> nat \<Rightarrow> bool \<Rightarrow> exn + unit" where
  "open_stream a n stream =
     (if stream then Inr ()
      else bindS (hn_resolve a n) (\<lambda>_. bindS (hn_connect a n) (\<lambda>_. hn_tls a n)))"

text \<open>
  The result is the outcome, whether there is a stream, and the requests that were written. The
  coroutine may not end.
\<close>

partial_function (option) http_coro ::
  "http_net \<Rightarrow> wire_request \<Rightarrow> nat \<Rightarrow> bool \<Rightarrow> wire_request list \<Rightarrow> ((exn + http_response) \<times> bool \<times> wire_request list) option" where
  "http_coro a r n stream written =
     (case open_stream a n stream of
        Inl e \<Rightarrow> Some (Inl e, False, written)
      | Inr _ \<Rightarrow>
          (case hn_write a n of
             Inl e \<Rightarrow> Some (Inl e, True, written)
           | Inr _ \<Rightarrow>
               (case hn_read a n of
                  EndOfStream \<Rightarrow> http_coro a r (Suc n) False (written @ [r])
                | ReadError e \<Rightarrow> Some (Inl e, True, written @ [r])
                | ReadResponse rs \<Rightarrow> Some (Inr rs, True, written @ [r]))))"

text \<open>A try that ends with the stream closed instead of a response.\<close>

definition closed_early :: "http_net \<Rightarrow> nat \<Rightarrow> bool \<Rightarrow> bool" where
  "closed_early a n stream \<longleftrightarrow> open_stream a n stream = Inr () \<and> hn_write a n = Inr () \<and> hn_read a n = EndOfStream"

lemma http_coro_again:
  "closed_early a n stream \<Longrightarrow> http_coro a r n stream written = http_coro a r (Suc n) False (written @ [r])"
  by (subst http_coro.simps) (simp add: closed_early_def)

lemma http_coro_last: "\<not> closed_early a n stream \<Longrightarrow> http_coro a r n stream written \<noteq> None"
  by (subst http_coro.simps) (auto simp: closed_early_def split: sum.split read_end.split)

text \<open>The coroutine ends as soon as a try does not find the stream closed.\<close>

lemma http_coro_ends:
  "\<not> closed_early a (n + k) (stream \<and> k = 0) \<Longrightarrow> http_coro a r n stream written \<noteq> None"
proof (induction k arbitrary: n stream written)
  case 0
  then show ?case by (simp add: http_coro_last)
next
  case (Suc k)
  show ?case
  proof (cases "closed_early a n stream")
    case True
    have "\<not> closed_early a (Suc n + k) (False \<and> k = 0)" using Suc.prems by simp
    from Suc.IH [OF this] True show ?thesis by (simp add: http_coro_again)
  qed (rule http_coro_last)
qed

text \<open>A request that is answered at all was written once more than the stream was closed before.\<close>

lemma http_coro_written:
  assumes "\<forall>i < k. closed_early a (n + i) (stream \<and> i = 0)"
    and "open_stream a (n + k) (stream \<and> k = 0) = Inr ()" "hn_write a (n + k) = Inr ()" "hn_read a (n + k) = ReadResponse rs"
  shows "http_coro a r n stream written = Some (Inr rs, True, written @ replicate (Suc k) r)"
  using assms
proof (induction k arbitrary: n stream written)
  case 0
  then show ?case by (subst http_coro.simps) simp
next
  case (Suc k)
  have first: "closed_early a n stream" using Suc.prems(1) by force
  have later: "\<forall>i < k. closed_early a (Suc n + i) (False \<and> i = 0)"
    using Suc.prems(1) by (metis Suc_less_eq add_Suc_shift nat.distinct(1))
  have "http_coro a r (Suc n) False (written @ [r]) = Some (Inr rs, True, (written @ [r]) @ replicate (Suc k) r)"
    using Suc.prems(2-4) later by (intro Suc.IH) simp_all
  with http_coro_again [OF first] show ?case by (simp add: replicate_app_Cons_same)
qed

text \<open>
  So a request that Discord carried out, but whose response was cut off by the end of the stream,
  is carried out again, whatever its method is: here a \<open>POST\<close> on a stream that was kept open.
\<close>

lemma post_sent_twice:
  assumes "wr_method r = POST"
    and "hn_write a 0 = Inr ()" "hn_read a 0 = EndOfStream"
    and "open_stream a 1 False = Inr ()" "hn_write a 1 = Inr ()" "hn_read a 1 = ReadResponse rs"
  shows "http_coro a r 0 True [] = Some (Inr rs, True, [r, r])"
  using http_coro_written [of 1 a 0 True rs r "[]"] assms by (simp add: closed_early_def open_stream_def)

end
