(* ===== verification/Spec2Isabelle.thy ===== *)
theory Spec2Isabelle
  imports Base64 Text Chrono Timestamp Snowflake Permission Store Moderation Guards Lifecycle Generators Reports
    Connections Tasks Diagnostics Builders Flags Races Board Strands Statements Workers Platform Connecting Components
    Coroutine_Handles Http_Stream
begin

text \<open>
  GreekBot is the moderation and support bot of the Learning Greek server on Discord, written in
  C++20. It is a library for bots (Discord/), a database layer over SQLite (Database/) and the
  handlers of the server (GreekBot/). The gateway, a websocket, tells the bot of events; the
  handlers answer over HTTP and keep what they have to remember in the database.

  \<^bold>\<open>The theories, from the bottom up.\<close>

  \<^item> Prelude: words, lemmas on sums, and the interfaces \<open>codec\<close> (what is written is read back) and
    \<open>ledger\<close> (what waits and what is done is what was taken in), interpreted where they are provided.
  \<^item> Base64, Text, Chrono, Timestamp (Discord/Utils/): Base64, integers as texts, percent
    encoding, the calendar, ISO 8601 time points. \<open>Inl\<close> is an exception. The time parser reads
    through an index, so that a read past the end would be visible.
  \<^item> Snowflake, Permission, Flags (Discord/Base/, Permission.cpp, Common/FlagSet.h): identifiers,
    colors, permission bits; flag sets with their operators, the intents of the gateway.
  \<^item> Diagnostics (Discord/Exception/, Utils.cpp): the texts of error categories and exceptions, the
    lines the gateway prints, the console and the log file.
  \<^item> Json, Objects, Embed, Message, Interaction (Discord/Objects/, Discord/Interaction/): the
    objects of Discord as records, their constructors from JSON values as functions into
    \<open>exn + record\<close>, every member read in the order of the code, and the way back.
    Builders holds their setters and emplacers, with the laws of a member as the locales
    \<open>attribute\<close> and \<open>resettable\<close>. Components holds the choice of the alternative of a variant,
    moved-from values and the format of emojis.
  \<^item> Tables, Schema, Txn, Store and the theories ending in \<open>_DB\<close> (Database/): the tables of
    query_init.sql as lists of rows with the constraints of their columns, every SQL query as a
    function on the database, and the connection: \<open>Exec\<close> repeats a statement while the engine is
    busy, transactions work on a copy that \<open>Commit\<close> publishes. The engine is a list of answers.
  \<^item> Connections (SQLite.h, SQLite.cpp, Database.cpp, main.cpp): the handles of the engine and the
    objects that own them, moved, assigned, closed and posted to a strand; the initialisation of
    the database file, and \<open>main\<close>.
  \<^item> Statements (SQLite.h, Database.cpp): prepared statements, the values bound to them and read back,
    the objects that own them and the blocks they live in.
  \<^item> Handles: slots that own numbered handles, with the locale \<open>handle_slots\<close> that accounts for them.
    It is interpreted for connections, transactions, statements and the frames of coroutines.
  \<^item> Workers (Utils.cpp, Database.cpp): the contexts with a thread, for printing and for the
    database, from the first post to the end of the program.
  \<^item> Platform (Utils.cpp): the name of the system, the path of the program and the files beside it.
  \<^item> Tasks, Generators, Reports (Discord/Coroutines/, ExceptionReporting.cpp): tasks as coroutines
    with frames, which justify the functions \<open>'a eff\<close> of World; generators, which justify its
    loops, also with two threads; the lines printed for exceptions. Coroutine_Handles holds the
    objects that own the frames and the buffer for yielded values.
  \<^item> World, Bot (Discord/Bot*.cpp, Discord/Gateway/GatewayHttp.cpp): the state of the bot and its
    computations \<open>'a eff\<close>, functions from the state to an exception or value and the next state;
    the calls made are recorded in \<open>w_calls\<close>, and what Discord answers is a function of them. The
    strand a handler is on is \<open>w_strand\<close>; \<open>w_strays\<close> lists what it used on the wrong one.
  \<^item> LMG, Levels, Starboard, Commands, Events, Ban, Infractions, Nicknames, Heartbeat, Handlers
    (GreekBot/): the handlers, one function per process_ method, and the dispatch of events
    (\<open>run_event\<close>).
  \<^item> Races, Board: the reaction handlers of the starboard in steps between which others run, and
    what the handlers of Starboard keep between channel and table when they do not overlap.
  \<^item> Invariants, Frames, Guards, Moderation, Strands: what holds of all handlers together. The rules
    \<open>runs\<close> of Invariants follow the database and the strand through every construct.
  \<^item> Http, Members, Payload, Session, Lifecycle (Discord/Gateway/): the connections. Each is a
    state and a function that takes one step; whatever may happen is a list of steps. Http is the
    queue of requests, Http_Stream one request on the stream, Members one request for guild
    members, Payload the reading of events, Session the websocket sessions with heartbeats,
    reconnection and termination, Connecting the steps by which one is set up.

  \<^bold>\<open>What the lemmas show.\<close> Round trips (Base64, time points, snowflakes,
  embeds, custom ids of modals, the message log); that the database keeps its constraints and
  units of work are all or nothing, first for single queries, then for the bot over any events
  (\<open>bot_invariant\<close>, by \<open>keep\<close> lemmas of every handler); rankings and
  rate limits of the leaderboard; refinements (the lazily sorted roles, the voice states); that
  acting needs permission, that an interaction is acknowledged at most once, that bans are
  recorded only when Discord accepts them and lifted when due, and what errors of the engine do to
  that; that the rows of the starboard refer to messages of its channel; that requests are sent in order and
  repeated, that members arrive completely or with an exception, that there is one gateway
  session, and that a silent one is closed; that handlers use the members of the bot on the strand
  of the events only, its user excepted; that every handle of the database and every frame of a
  coroutine has one owner, that statements are finalised in their block and connections closed at
  the end of the program; and that tasks compute what the functions of the model compute. The properties of kind error state behaviour
  that looks unintended.

  \<^bold>\<open>Bounds and fuel.\<close> There is no fuel. Loops are structural or have a
  measure; the repetition of rate limited requests, the loops over the rows of a statement, waiting
  for a thread and asking Windows for a path may not end and are partial functions into an option,
  with lemmas that say when they do. Integers of the code are words, or integers
  with their range or wrap-around written out (\<open>wrap64\<close> for nanoseconds).

  \<^bold>\<open>Assumptions.\<close> A handler runs to its end before the next event, although
  coroutines may interleave; Board shows for the starboard what holds then, and Races what
  overlapping handlers do. The order of rows where a query leaves it open is a parameter of the
  leaderboard queries. The requests of a generator are made before the body of the loop over it. Strings
  are lists of bytes. Percentages and levels are computed with reals instead of doubles. Reading
  and writing JSON texts, zlib, CRC32, addresses, random numbers, clocks, the formatting of
  floating point numbers and the texts of farewells are parameters of the state. The user of the
  bot is unknown before READY; asking for it then would end the program, here it is an exception.
  Entries of requests for members that have ended are erased at once, while the code puts it off;
  a signal ends the HTTP queue at once. Texts of runtime errors are shortened where nothing
  depends on them.

  \<^bold>\<open>Not modelled.\<close> Sockets, TLS and name resolution, zlib, the SQLite engine,
  the random engines, C++ declarations (concepts, forwarding functions, iterators of
  standard containers) and the build files.
\<close>

end
